(* ===== verification/Prelude.thy ===== *)
theory Prelude
  imports Main "HOL-Library.Word"
begin

text \<open>
  What every component shares: the machine types of the C code, faults and the result type
  of an operation that may abort, the generic lemmas on lists and words, and the collections
  of rewrite rules the component theories add to.

  The widths are those of the LP64 targets the library is built for: a default Fortran
  INTEGER and a C \<open>int\<close> have 32 bits, an address and an \<open>MPI_Aint\<close> 64, an
  \<open>MPI_Count\<close> and an \<open>MPI_Offset\<close> 64. A pointer is an address; the null pointer is 0.
\<close>

section \<open>Collections\<close>

named_theorems outcome_simps \<open>rewriting of results that may be faults\<close>
named_theorems region_simps \<open>reads and writes of byte regions and heap blocks\<close>
named_theorems cast_simps \<open>conversions between the integer widths\<close>

section \<open>Machine types\<close>

type_synonym byte = "8 word"
type_synonym fint = "32 word"
type_synonym aint = "64 word"
type_synonym count = "64 word"
type_synonym addr = "64 word"
type_synonym handle = "64 word"
type_synonym region = "byte list"

abbreviation null :: addr where
  "null \<equiv> 0"

section \<open>Faults and results\<close>

text \<open>
  A fault is where the C program stops being a program: \<open>abort()\<close> after a failed
  allocation, or behaviour the C standard leaves undefined.
\<close>

datatype fault =
    Out_of_memory nat
  | Bad_read
  | Bad_write
  | Bad_free
  | Division_by_zero
  | Overflow
  | Indeterminate
  | Invalid_handle

definition bindE :: "('e + 'a) \<Rightarrow> ('a \<Rightarrow> 'e + 'b) \<Rightarrow> 'e + 'b" where
  "bindE m f = (case m of Inl e \<Rightarrow> Inl e | Inr x \<Rightarrow> f x)"

lemma bindE_Inl [simp]: "bindE (Inl e) f = Inl e"
  by (simp add: bindE_def)

lemma bindE_Inr [simp]: "bindE (Inr x) f = f x"
  by (simp add: bindE_def)

lemma bindE_assoc [outcome_simps]: "bindE (bindE m f) g = bindE m (\<lambda>x. bindE (f x) g)"
  by (simp add: bindE_def split: sum.split)

lemma bindE_eq_Inr [outcome_simps]: "bindE m f = Inr y \<longleftrightarrow> (\<exists>x. m = Inr x \<and> f x = Inr y)"
  by (simp add: bindE_def split: sum.split)

lemma bindE_eq_Inl [outcome_simps]:
  "bindE m f = Inl e \<longleftrightarrow> m = Inl e \<or> (\<exists>x. m = Inr x \<and> f x = Inl e)"
  by (auto simp add: bindE_def split: sum.split)

lemma bindE_cong [fundef_cong]:
  "m = m' \<Longrightarrow> (\<And>x. m' = Inr x \<Longrightarrow> f x = f' x) \<Longrightarrow> bindE m f = bindE m' f'"
  by (simp add: bindE_def split: sum.split)

text \<open>Reading an array element; the index is the C index, out of range is undefined.\<close>

definition read_at :: "'a list \<Rightarrow> nat \<Rightarrow> fault + 'a" where
  "read_at xs i = (if i < length xs then Inr (xs ! i) else Inl Bad_read)"

lemma read_at_in [region_simps]: "i < length xs \<Longrightarrow> read_at xs i = Inr (xs ! i)"
  by (simp add: read_at_def)

lemma read_at_out [region_simps]: "length xs \<le> i \<Longrightarrow> read_at xs i = Inl Bad_read"
  by (simp add: read_at_def)

lemma read_at_eq_Inr [outcome_simps]:
  "read_at xs i = Inr x \<longleftrightarrow> i < length xs \<and> x = xs ! i"
  by (auto simp: read_at_def)

text \<open>\<open>for (i = 0; i < n; ++i) f(i)\<close>, collecting the results and stopping at a fault.\<close>

fun for_upto :: "(nat \<Rightarrow> 'e + 'a) \<Rightarrow> nat list \<Rightarrow> 'e + 'a list" where
  "for_upto f [] = Inr []"
| "for_upto f (i # is) = bindE (f i) (\<lambda>x. bindE (for_upto f is) (\<lambda>xs. Inr (x # xs)))"

lemma for_upto_ok: "(\<And>i. i \<in> set is \<Longrightarrow> f i = Inr (g i)) \<Longrightarrow> for_upto f is = Inr (map g is)"
  by (induction "is") auto

lemma for_upto_length: "for_upto f is = Inr xs \<Longrightarrow> length xs = length is"
  by (induction "is" arbitrary: xs) (auto simp: outcome_simps)

lemma for_upto_read:
  assumes "n \<le> length xs"
  shows "for_upto (\<lambda>i. bindE (read_at xs i) (\<lambda>x. Inr (g x))) [0..<n] = Inr (map g (take n xs))"
proof -
  have "for_upto (\<lambda>i. bindE (read_at xs i) (\<lambda>x. Inr (g x))) [0..<n] =
      Inr (map (\<lambda>i. g (xs ! i)) [0..<n])"
    by (rule for_upto_ok) (use assms in \<open>auto simp: region_simps\<close>)
  also have "map (\<lambda>i. g (xs ! i)) [0..<n] = map g (take n xs)"
    by (rule nth_equalityI) (use assms in auto)
  finally show ?thesis .
qed

section \<open>Scanning an array for the first entry that satisfies a condition\<close>

fun index_where :: "('a \<Rightarrow> bool) \<Rightarrow> 'a list \<Rightarrow> nat option" where
  "index_where P [] = None"
| "index_where P (x # xs) = (if P x then Some 0 else map_option Suc (index_where P xs))"

lemma index_where_None: "index_where P xs = None \<longleftrightarrow> (\<forall>x \<in> set xs. \<not> P x)"
  by (induction xs) auto

lemma index_where_Some:
  "index_where P xs = Some i \<longleftrightarrow> i < length xs \<and> P (xs ! i) \<and> (\<forall>j < i. \<not> P (xs ! j))"
proof (induction xs arbitrary: i)
  case Nil
  then show ?case by simp
next
  case (Cons x xs)
  then show ?case
    by (cases i) (auto simp: All_less_Suc2 split: if_splits)
qed

lemma index_where_SomeD:
  "index_where P xs = Some i \<Longrightarrow> i < length xs"
  "index_where P xs = Some i \<Longrightarrow> P (xs ! i)"
  "index_where P xs = Some i \<Longrightarrow> j < i \<Longrightarrow> \<not> P (xs ! j)"
  by (simp_all add: index_where_Some)

lemma index_where_cong:
  "length xs = length ys \<Longrightarrow> (\<And>i. i < length xs \<Longrightarrow> P (xs ! i) = Q (ys ! i)) \<Longrightarrow>
   index_where P xs = index_where Q ys"
proof (induction xs ys rule: list_induct2)
  case Nil
  then show ?case by simp
next
  case (Cons x xs y ys)
  from Cons.prems [of 0] have "P x = Q y" by simp
  moreover have "\<And>i. i < length xs \<Longrightarrow> P (xs ! i) = Q (ys ! i)"
    using Cons.prems [of "Suc i" for i] by fastforce
  ultimately show ?case using Cons.IH by simp
qed

lemma nth_list_update_if:
  "xs[i := x] ! j = (if i = j \<and> i < length xs then x else xs ! j)"
  by (cases "i < length xs") (auto simp: nth_list_update list_update_beyond)

lemma concat_map_concat: "concat (map f (concat xss)) = concat (map (\<lambda>xs. concat (map f xs)) xss)"
  by (induction xss) auto

section \<open>Integer conversions\<close>

text \<open>
  \<open>(MPI_Fint)x\<close> of a 64-bit \<open>x\<close> keeps the low 32 bits; \<open>(MPI_Aint)i\<close> of a 32-bit
  \<open>i\<close> extends the sign. \<open>(MPI_Fint)(intptr_t)p\<close> is the first.
\<close>

definition to_fint :: "aint \<Rightarrow> fint" where
  "to_fint x = ucast x"

definition to_aint :: "fint \<Rightarrow> aint" where
  "to_aint i = scast i"

lemma to_fint_0 [simp]: "to_fint 0 = 0"
  by (simp add: to_fint_def)

lemma to_aint_0 [simp]: "to_aint 0 = 0"
  by (simp add: to_aint_def)

lemma sint_to_aint [cast_simps]: "sint (to_aint i) = sint i"
  by (simp add: to_aint_def sint_up_scast is_up)

lemma to_fint_of_int [cast_simps]: "to_fint (word_of_int k) = word_of_int k"
  by (simp add: to_fint_def ucast_down_wi is_down)

lemma to_aint_eq: "to_aint i = word_of_int (sint i)"
  unfolding to_aint_def by (rule scast_eq)

lemma to_fint_to_aint [cast_simps, simp]: "to_fint (to_aint i) = i"
  unfolding to_aint_eq to_fint_of_int by simp

lemma uint_to_fint [cast_simps]: "uint (to_fint x) = uint x mod 2 ^ 32"
  by (simp add: to_fint_def uint_word_of_int unsigned_ucast_eq take_bit_eq_mod)

lemma to_fint_plus [cast_simps]: "to_fint (x + y) = to_fint x + to_fint y"
  by (rule word_uint_eqI) (simp add: uint_to_fint uint_word_ariths mod_mod_cancel mod_simps)

lemma to_fint_minus [cast_simps]: "to_fint (x - y) = to_fint x - to_fint y"
  by (rule word_uint_eqI) (simp add: uint_to_fint uint_word_ariths mod_mod_cancel mod_simps)

lemma to_aint_inject [simp]: "to_aint i = to_aint j \<longleftrightarrow> i = j"
  by (metis to_fint_to_aint)

lemma sint_of_small [cast_simps]:
  "- (2 ^ 31) \<le> k \<Longrightarrow> k < 2 ^ 31 \<Longrightarrow> sint (word_of_int k :: fint) = k"
  by (simp add: sint_sbintrunc' signed_take_bit_int_eq_self)

lemma sint_of_nat_small [cast_simps]: "n < 2 ^ 31 \<Longrightarrow> sint (of_nat n :: fint) = int n"
  using sint_of_small [of "int n"] by simp

lemma sint_fint_bounds: "- (2 ^ 31) \<le> sint (x :: fint)" "sint (x :: fint) < 2 ^ 31"
  using sint_ge [of x] sint_lt [of x] by simp_all

end
