(* ===== verification/C_Heap.thy ===== *)
theory C_Heap
  imports Prelude
begin

text \<open>
  The part of the C library's allocator the code uses: \<open>malloc\<close>, which may fail, \<open>free\<close>,
  and \<open>memcpy\<close> and single stores into a block. A block is a run of bytes whose contents are
  indeterminate until written, or one C object of a struct type (a type parameter). Which calls
  of \<open>malloc\<close> fail is a field of the heap, so a theorem over all heaps covers every pattern
  of failure; block numbers are never reused, so a dangling pointer is always recognised.
\<close>

section \<open>Blocks and heaps\<close>

datatype 'x block = Bytes "byte option list" | Obj 'x

type_synonym ptr = nat

record 'x heap =
  live :: "ptr \<Rightarrow> 'x block option"
  nallocs :: nat
  oom :: "nat \<Rightarrow> bool"

definition heap_wf :: "'x heap \<Rightarrow> bool" where
  "heap_wf h \<longleftrightarrow> (\<forall>p \<in> dom (live h). p < nallocs h)"

definition empty_heap :: "'x heap" where
  "empty_heap = \<lparr>live = Map.empty, nallocs = 0, oom = (\<lambda>_. False)\<rparr>"

section \<open>Operations\<close>

definition alloc_block :: "'x block \<Rightarrow> 'x heap \<Rightarrow> ptr option \<times> 'x heap" where
  "alloc_block b h =
     (if oom h (nallocs h) then (None, h\<lparr>nallocs := Suc (nallocs h)\<rparr>)
      else (Some (nallocs h),
            h\<lparr>live := (live h)(nallocs h \<mapsto> b), nallocs := Suc (nallocs h)\<rparr>))"

definition malloc_bytes :: "nat \<Rightarrow> 'x heap \<Rightarrow> ptr option \<times> 'x heap" where
  "malloc_bytes n h = alloc_block (Bytes (replicate n None)) h"

definition free_block :: "ptr option \<Rightarrow> 'x heap \<Rightarrow> fault + 'x heap" where
  "free_block q h =
     (case q of
        None \<Rightarrow> Inr h
      | Some p \<Rightarrow>
          (case live h p of
             None \<Rightarrow> Inl Bad_free
           | Some _ \<Rightarrow> Inr (h\<lparr>live := (live h)(p := None)\<rparr>)))"

definition store_bytes :: "ptr \<Rightarrow> nat \<Rightarrow> byte list \<Rightarrow> 'x heap \<Rightarrow> fault + 'x heap" where
  "store_bytes p k bs h =
     (case live h p of
        Some (Bytes b) \<Rightarrow>
          if k + length bs \<le> length b
          then Inr (h\<lparr>live := (live h)(p \<mapsto>
                 Bytes (take k b @ map Some bs @ drop (k + length bs) b))\<rparr>)
          else Inl Bad_write
      | _ \<Rightarrow> Inl Bad_write)"

definition load_obj :: "ptr \<Rightarrow> 'x heap \<Rightarrow> fault + 'x" where
  "load_obj p h = (case live h p of Some (Obj x) \<Rightarrow> Inr x | _ \<Rightarrow> Inl Bad_read)"

definition store_obj :: "ptr \<Rightarrow> 'x \<Rightarrow> 'x heap \<Rightarrow> fault + 'x heap" where
  "store_obj p x h =
     (case live h p of
        Some (Obj _) \<Rightarrow> Inr (h\<lparr>live := (live h)(p \<mapsto> Obj x)\<rparr>)
      | _ \<Rightarrow> Inl Bad_write)"

text \<open>The C string a pointer denotes: the bytes up to the first NUL.\<close>

fun cstring_of :: "byte option list \<Rightarrow> fault + byte list" where
  "cstring_of [] = Inl Bad_read"
| "cstring_of (None # bs) = Inl Indeterminate"
| "cstring_of (Some b # bs) =
     (if b = 0 then Inr [] else bindE (cstring_of bs) (\<lambda>s. Inr (b # s)))"

definition load_cstring :: "ptr \<Rightarrow> 'x heap \<Rightarrow> fault + byte list" where
  "load_cstring p h = (case live h p of Some (Bytes b) \<Rightarrow> cstring_of b | _ \<Rightarrow> Inl Bad_read)"

section \<open>Laws\<close>

lemma alloc_block_Some:
  "alloc_block b h = (Some p, h') \<longleftrightarrow>
     \<not> oom h (nallocs h) \<and> p = nallocs h \<and>
     h' = h\<lparr>live := (live h)(p \<mapsto> b), nallocs := Suc (nallocs h)\<rparr>"
  by (auto simp: alloc_block_def)

lemma alloc_block_None:
  "alloc_block b h = (None, h') \<longleftrightarrow> oom h (nallocs h) \<and> h' = h\<lparr>nallocs := Suc (nallocs h)\<rparr>"
  by (auto simp: alloc_block_def)

lemma heap_wf_fresh: "heap_wf h \<Longrightarrow> live h (nallocs h) = None"
  by (auto simp: heap_wf_def dom_def)

lemma heap_wf_empty [simp]: "heap_wf empty_heap"
  by (simp add: heap_wf_def empty_heap_def)

lemma heap_wf_alloc: "heap_wf h \<Longrightarrow> heap_wf (snd (alloc_block b h))"
  by (auto simp: heap_wf_def alloc_block_def less_Suc_eq)

lemma store_bytes_same_dom:
  "store_bytes p k bs h = Inr h' \<Longrightarrow> dom (live h') = dom (live h) \<and> nallocs h' = nallocs h"
  by (auto simp: store_bytes_def split: option.splits block.splits if_splits)

lemma cstring_of_terminated:
  "0 \<notin> set bs \<Longrightarrow> cstring_of (map Some bs @ Some 0 # rest) = Inr bs"
  by (induction bs) auto

lemma free_block_after_alloc:
  assumes "alloc_block b h = (Some p, h')" and "heap_wf h"
  shows "free_block (Some p) h' = Inr (h\<lparr>nallocs := Suc (nallocs h)\<rparr>)"
proof -
  from assms have "p = nallocs h" and h': "h' = h\<lparr>live := (live h)(p \<mapsto> b), nallocs := Suc (nallocs h)\<rparr>"
    by (auto simp: alloc_block_Some)
  moreover from assms(2) \<open>p = nallocs h\<close> have "(live h)(p := None) = live h"
    by (auto simp: heap_wf_fresh fun_eq_iff)
  ultimately show ?thesis by (simp add: free_block_def)
qed

end
