(* ===== verification/Fortran_Strings.thy ===== *)
theory Fortran_Strings
  imports C_Heap
begin

text \<open>
  \<open>src/mpif_strings.c\<close>: Fortran strings are blank-padded and carry their length beside them,
  C strings end in a NUL. A Fortran string is a byte region, an offset into it and a length;
  reading past the region's end is a fault. The two counting loops read an array of strings
  whose length nobody passes, so their reads decide whether they stop.
\<close>

section \<open>Operations\<close>

definition blank :: byte where
  "blank = 0x20"

text \<open>\<open>for (n = str_length; n > 0; --n) if (str[n - 1] != ' ') return n; return 0;\<close>\<close>

fun mpif_fstrlen :: "region \<Rightarrow> nat \<Rightarrow> nat \<Rightarrow> fault + nat" where
  "mpif_fstrlen r str 0 = Inr 0"
| "mpif_fstrlen r str (Suc n) =
     bindE (read_at r (str + n))
       (\<lambda>c. if c \<noteq> blank then Inr (Suc n) else mpif_fstrlen r str n)"

definition read_bytes :: "region \<Rightarrow> nat \<Rightarrow> nat \<Rightarrow> fault + byte list" where
  "read_bytes r off n = (if off + n \<le> length r then Inr (take n (drop off r)) else Inl Bad_read)"

text \<open>The tail the two duplicating functions share: allocate, \<open>memcpy\<close>, terminate.\<close>

definition dup_bytes :: "region \<Rightarrow> nat \<Rightarrow> nat \<Rightarrow> 'x heap \<Rightarrow> fault + (ptr \<times> 'x heap)" where
  "dup_bytes r off len h =
     (case malloc_bytes (len + 1) h of
        (None, h) \<Rightarrow> Inl (Out_of_memory (len + 1))
      | (Some res, h) \<Rightarrow>
          bindE (read_bytes r off len)
            (\<lambda>bs. bindE (store_bytes res 0 bs h)
              (\<lambda>h. bindE (store_bytes res len [0] h) (\<lambda>h. Inr (res, h)))))"

definition mpif_strdup_f2c :: "region \<Rightarrow> nat \<Rightarrow> nat \<Rightarrow> 'x heap \<Rightarrow> fault + (ptr \<times> 'x heap)" where
  "mpif_strdup_f2c r str str_length h =
     bindE (mpif_fstrlen r str str_length) (\<lambda>len. dup_bytes r str len h)"

text \<open>\<open>while (begin < end && str[begin] == ' ') ++begin;\<close>\<close>

function skip_blanks :: "region \<Rightarrow> nat \<Rightarrow> nat \<Rightarrow> nat \<Rightarrow> fault + nat" where
  "skip_blanks r str begin end =
     (if begin < end
      then bindE (read_at r (str + begin))
             (\<lambda>c. if c = blank then skip_blanks r str (Suc begin) end else Inr begin)
      else Inr begin)"
  by pat_completeness auto
termination
  by (relation "measure (\<lambda>(r, str, begin, end). end - begin)") auto

definition mpif_strdup_f2c_trim :: "region \<Rightarrow> nat \<Rightarrow> nat \<Rightarrow> 'x heap \<Rightarrow> fault + (ptr \<times> 'x heap)" where
  "mpif_strdup_f2c_trim r str str_length h =
     bindE (mpif_fstrlen r str str_length)
       (\<lambda>end. bindE (skip_blanks r str 0 end)
         (\<lambda>begin. dup_bytes r (str + begin) (end - begin) h))"

text \<open>The destination is the region that starts at \<open>dest\<close>; the result is its new contents.\<close>

definition overwrite :: "region \<Rightarrow> nat \<Rightarrow> byte list \<Rightarrow> fault + region" where
  "overwrite d k bs =
     (if k + length bs \<le> length d then Inr (take k d @ bs @ drop (k + length bs) d)
      else Inl Bad_write)"

definition mpif_strcpy_c2f :: "region \<Rightarrow> region \<Rightarrow> nat \<Rightarrow> nat \<Rightarrow> fault + region" where
  "mpif_strcpy_c2f dest src dest_length src_length =
     (if src_length \<ge> dest_length
      then bindE (read_bytes src 0 dest_length) (overwrite dest 0)
      else bindE (read_bytes src 0 src_length)
             (\<lambda>bs. bindE (overwrite dest 0 bs)
               (\<lambda>d. overwrite d src_length (replicate (dest_length - src_length) blank))))"

text \<open>
  The two counting loops have no bound of their own. \<open>None\<close> is a loop that does not end.
\<close>

partial_function (option) fcount_from :: "region \<Rightarrow> nat \<Rightarrow> nat \<Rightarrow> (fault + nat) option" where
  "fcount_from r str_length n =
     (case mpif_fstrlen r (n * str_length) str_length of
        Inl e \<Rightarrow> Some (Inl e)
      | Inr k \<Rightarrow> if k = 0 then Some (Inr n) else fcount_from r str_length (Suc n))"

definition mpif_fcount :: "region \<Rightarrow> nat \<Rightarrow> (fault + nat) option" where
  "mpif_fcount strarr str_length = fcount_from strarr str_length 0"

partial_function (option) fcount2d_from ::
    "region \<Rightarrow> nat \<Rightarrow> nat \<Rightarrow> nat \<Rightarrow> nat \<Rightarrow> (fault + nat) option" where
  "fcount2d_from r strarr_size strarr_index str_length n =
     (case mpif_fstrlen r (strarr_index * str_length + n * str_length * strarr_size) str_length of
        Inl e \<Rightarrow> Some (Inl e)
      | Inr k \<Rightarrow>
          if k = 0 then Some (Inr n)
          else fcount2d_from r strarr_size strarr_index str_length (Suc n))"

definition mpif_fcount2d :: "region \<Rightarrow> nat \<Rightarrow> nat \<Rightarrow> nat \<Rightarrow> (fault + nat) option" where
  "mpif_fcount2d strarr strarr_size strarr_index str_length =
     fcount2d_from strarr strarr_size strarr_index str_length 0"

declare skip_blanks.simps [simp del]

section \<open>Trimming, as functions on byte lists\<close>

definition rtrim :: "byte list \<Rightarrow> byte list" where
  "rtrim s = rev (dropWhile ((=) blank) (rev s))"

definition ltrim :: "byte list \<Rightarrow> byte list" where
  "ltrim s = dropWhile ((=) blank) s"

definition all_blank :: "byte list \<Rightarrow> bool" where
  "all_blank s \<longleftrightarrow> (\<forall>c \<in> set s. c = blank)"

lemma rtrim_Nil [simp]: "rtrim [] = []"
  by (simp add: rtrim_def)

lemma rtrim_snoc: "rtrim (s @ [c]) = (if c = blank then rtrim s else s @ [c])"
  by (simp add: rtrim_def)

lemma rtrim_decompose: "rtrim s @ replicate (length s - length (rtrim s)) blank = s"
proof (induction s rule: rev_induct)
  case Nil
  then show ?case by simp
next
  case (snoc c s)
  have "length (rtrim s) \<le> length s"
    by (simp add: rtrim_def length_dropWhile_le [of _ "rev s", simplified])
  moreover have "rtrim s @ replicate (Suc k) blank = (rtrim s @ replicate k blank) @ [blank]" for k
    by (simp add: replicate_append_same)
  ultimately show ?case
    using snoc by (simp add: rtrim_snoc Suc_diff_le del: replicate_Suc)
qed

lemma length_rtrim: "length (rtrim s) \<le> length s"
  using length_dropWhile_le [of "(=) blank" "rev s"] by (simp add: rtrim_def)

lemma take_rtrim: "take (length (rtrim s)) s = rtrim s"
  by (metis append_eq_conv_conj rtrim_decompose)

lemma rtrim_eq_Nil: "rtrim s = [] \<longleftrightarrow> all_blank s"
  by (auto simp: rtrim_def all_blank_def dropWhile_eq_Nil_conv)

lemma set_rtrim: "set (rtrim s) \<subseteq> set s"
  by (auto simp: rtrim_def dest: set_dropWhileD)

lemma rtrim_last: "rtrim s \<noteq> [] \<Longrightarrow> last (rtrim s) \<noteq> blank"
  by (induction s rule: rev_induct) (auto simp: rtrim_snoc)

section \<open>What the operations compute\<close>

lemma take_Suc_drop: "off + n < length r \<Longrightarrow> take (Suc n) (drop off r) = take n (drop off r) @ [r ! (off + n)]"
  by (simp add: take_Suc_conv_app_nth)

lemma fstrlen_trimmed:
  "off + n \<le> length r \<Longrightarrow> mpif_fstrlen r off n = Inr (length (rtrim (take n (drop off r))))"
proof (induction n)
  case 0
  then show ?case by simp
next
  case (Suc n)
  then have lt: "off + n < length r" by simp
  show ?case
  proof (cases "r ! (off + n) = blank")
    case True
    with Suc lt show ?thesis by (simp add: region_simps rtrim_snoc take_Suc_drop)
  next
    case False
    with lt show ?thesis by (simp add: region_simps rtrim_snoc take_Suc_drop)
  qed
qed

lemma fstrlen_overrun: "0 < n \<Longrightarrow> length r < off + n \<Longrightarrow> mpif_fstrlen r off n = Inl Bad_read"
  by (cases n) (simp_all add: region_simps)

lemma skip_blanks_spec:
  assumes "b \<le> e" and "str + e \<le> length r"
  shows "skip_blanks r str b e =
    Inr (b + length (takeWhile ((=) blank) (take (e - b) (drop (str + b) r))))"
  using assms
proof (induction r str b e rule: skip_blanks.induct)
  case (1 r str b e)
  show ?case
  proof (cases "b < e")
    case True
    with "1.prems" have lt: "str + b < length r" by simp
    then have "take (e - b) (drop (str + b) r) =
        r ! (str + b) # take (e - Suc b) (drop (str + Suc b) r)"
      using True by (simp add: Suc_diff_Suc [symmetric] Cons_nth_drop_Suc [symmetric])
    moreover have "r ! (str + b) = blank \<Longrightarrow> skip_blanks r str (Suc b) e =
        Inr (Suc b + length (takeWhile ((=) blank)
          (take (e - Suc b) (drop (str + Suc b) r))))"
      using "1.IH" [of "r ! (str + b)"] "1.prems" True lt by (simp add: region_simps)
    ultimately show ?thesis
      using True lt by (subst skip_blanks.simps) (auto simp: region_simps)
  next
    case False
    with "1.prems" show ?thesis by (subst skip_blanks.simps) simp
  qed
qed

text \<open>The heap with one more C string in it.\<close>

definition with_cstring :: "byte list \<Rightarrow> 'x heap \<Rightarrow> 'x heap" where
  "with_cstring s h =
     h\<lparr>live := (live h)(nallocs h \<mapsto> Bytes (map Some s @ [Some 0])), nallocs := Suc (nallocs h)\<rparr>"

definition dup_result :: "byte list \<Rightarrow> 'x heap \<Rightarrow> fault + (ptr \<times> 'x heap)" where
  "dup_result s h =
     (if oom h (nallocs h) then Inl (Out_of_memory (length s + 1))
      else Inr (nallocs h, with_cstring s h))"

lemma dup_bytes_spec:
  assumes "off + len \<le> length r"
  shows "dup_bytes r off len h = dup_result (take len (drop off r)) h"
proof -
  let ?s = "take len (drop off r)"
  have s: "length ?s = len" using assms by simp
  have "Bytes (take len (map Some ?s @ [None]) @ map Some [0] @ drop (Suc len) (map Some ?s @ [None])) =
      Bytes (map Some ?s @ [Some 0])"
    using s by simp
  then show ?thesis
    using assms s
    by (auto simp: dup_bytes_def dup_result_def malloc_bytes_def alloc_block_def read_bytes_def
        store_bytes_def with_cstring_def replicate_append_same [symmetric] simp del: replicate_Suc)
qed

lemma dup_result_cases:
  assumes "heap_wf h" and "0 \<notin> set s"
  shows "case dup_result s h of
      Inl e \<Rightarrow> oom h (nallocs h) \<and> e = Out_of_memory (length s + 1)
    | Inr (p, h') \<Rightarrow>
        \<not> oom h (nallocs h) \<and> live h p = None \<and> load_cstring p h' = Inr s \<and>
        (\<forall>q. q \<noteq> p \<longrightarrow> live h' q = live h q) \<and> heap_wf h'"
  using assms
  by (auto simp: dup_result_def with_cstring_def load_cstring_def cstring_of_terminated
      heap_wf_fresh heap_wf_def less_Suc_eq)

lemma strdup_f2c_spec:
  assumes "off + n \<le> length r"
  shows "mpif_strdup_f2c r off n h = dup_result (rtrim (take n (drop off r))) h"
proof -
  let ?s = "take n (drop off r)"
  have le: "length (rtrim ?s) \<le> n" using length_rtrim [of ?s] by simp
  then have "take (length (rtrim ?s)) (drop off r) = rtrim ?s"
    using take_rtrim [of ?s] by (simp add: min_absorb1)
  with assms le show ?thesis
    by (simp add: mpif_strdup_f2c_def fstrlen_trimmed dup_bytes_spec)
qed

lemma strdup_f2c_trim_spec:
  assumes "off + n \<le> length r"
  shows "mpif_strdup_f2c_trim r off n h = dup_result (ltrim (rtrim (take n (drop off r)))) h"
proof -
  let ?s = "take n (drop off r)"
  let ?e = "length (rtrim ?s)"
  have le: "?e \<le> n" using length_rtrim [of ?s] by simp
  then have t: "take ?e (drop off r) = rtrim ?s"
    using take_rtrim [of ?s] by (simp add: min_absorb1)
  let ?b = "length (takeWhile ((=) blank) (rtrim ?s))"
  have b: "?b \<le> ?e" by (rule length_takeWhile_le)
  have "take (?e - ?b) (drop (off + ?b) r) = drop ?b (take ?e (drop off r))"
    by (simp add: drop_take add.commute)
  also have "\<dots> = ltrim (rtrim ?s)"
    by (simp add: t ltrim_def dropWhile_eq_drop)
  finally have "dup_bytes r (off + ?b) (?e - ?b) h = dup_result (ltrim (rtrim ?s)) h"
    using assms le b by (subst dup_bytes_spec) auto
  with assms le t show ?thesis
    by (simp add: mpif_strdup_f2c_trim_def fstrlen_trimmed skip_blanks_spec)
qed

text \<open>A C string cut or blank-padded to the length of a Fortran variable.\<close>

definition pad :: "nat \<Rightarrow> byte list \<Rightarrow> byte list" where
  "pad n s = take n s @ replicate (n - length s) blank"

lemma length_pad [simp]: "length (pad n s) = n"
  by (simp add: pad_def)

lemma strcpy_c2f_spec:
  assumes "n \<le> length dest" and "min n k \<le> length src"
  shows "mpif_strcpy_c2f dest src n k = Inr (pad n (take k src) @ drop n dest)"
proof (cases "n \<le> k")
  case True
  with assms show ?thesis
    by (simp add: mpif_strcpy_c2f_def read_bytes_def overwrite_def pad_def min_def)
next
  case False
  with assms show ?thesis
    by (simp add: mpif_strcpy_c2f_def read_bytes_def overwrite_def pad_def min_def)
qed

lemma pad_rtrim: "pad (length s) (rtrim s) = s"
  using rtrim_decompose [of s] length_rtrim [of s] by (simp add: pad_def)

lemma rtrim_replicate: "rtrim (s @ replicate k blank) = rtrim s"
proof (induction k)
  case 0
  then show ?case by simp
next
  case (Suc k)
  have "s @ replicate (Suc k) blank = (s @ replicate k blank) @ [blank]"
    by (simp add: replicate_append_same)
  then show ?case using Suc by (simp only: rtrim_snoc if_True refl)
qed

section \<open>The counting loops\<close>

definition field :: "region \<Rightarrow> nat \<Rightarrow> nat \<Rightarrow> byte list" where
  "field r off n = take n (drop off r)"

text \<open>
  Both loops have one shape: probe the \<open>n\<close>-th string, stop if it is blank or cannot be read.
\<close>

lemma probe_loop_found:
  assumes "\<And>n. F n = (case g n of Inl e \<Rightarrow> Some (Inl e)
      | Inr k \<Rightarrow> if k = 0 then Some (Inr n) else F (Suc n))"
    and "n \<le> m" and "g m = Inr (0::nat)" and "\<And>k. n \<le> k \<Longrightarrow> k < m \<Longrightarrow> \<exists>j. g k = Inr (Suc j)"
  shows "F n = Some (Inr m)"
  using assms(2,3,4)
proof (induction "m - n" arbitrary: n)
  case 0
  then show ?case by (subst assms(1)) simp
next
  case (Suc d)
  then obtain j where "g n = Inr (Suc j)" by (metis diff_is_0_eq le_refl not_less nat.distinct(1))
  with Suc show ?case by (subst assms(1)) simp
qed

lemma probe_loop_fault:
  assumes "\<And>n. F n = (case g n of Inl e \<Rightarrow> Some (Inl e)
      | Inr k \<Rightarrow> if k = 0 then Some (Inr n) else F (Suc n))"
    and "n \<le> m" and "g m = Inl e" and "\<And>k. n \<le> k \<Longrightarrow> k < m \<Longrightarrow> \<exists>j. g k = Inr (Suc (j::nat))"
  shows "F n = Some (Inl e)"
  using assms(2,3,4)
proof (induction "m - n" arbitrary: n)
  case 0
  then show ?case by (subst assms(1)) simp
next
  case (Suc d)
  then obtain j where "g n = Inr (Suc j)" by (metis diff_is_0_eq le_refl not_less nat.distinct(1))
  with Suc show ?case by (subst assms(1)) simp
qed

lemma fstrlen_field:
  assumes "off + n \<le> length r"
  shows "all_blank (field r off n) \<Longrightarrow> mpif_fstrlen r off n = Inr 0"
    and "\<not> all_blank (field r off n) \<Longrightarrow> \<exists>j. mpif_fstrlen r off n = Inr (Suc j)"
  using assms rtrim_eq_Nil [of "field r off n"]
  by (auto simp: fstrlen_trimmed field_def neq_Nil_conv)

lemma field_concat:
  assumes "\<And>s. s \<in> set ss \<Longrightarrow> length s = len" and "i < length ss"
  shows "field (concat ss) (i * len) len = ss ! i"
  using assms
proof (induction ss arbitrary: i)
  case Nil
  then show ?case by simp
next
  case (Cons s ss)
  then show ?case by (cases i) (simp_all add: field_def)
qed

lemma length_concat_uniform:
  "(\<And>s. s \<in> set ss \<Longrightarrow> length s = len) \<Longrightarrow> length (concat ss) = length ss * len"
  by (induction ss) simp_all

lemma nth_field_bound:
  assumes "i < k"
  shows "i * len + len \<le> k * (len::nat)"
  using assms by (metis Suc_leI add.commute mult_Suc mult_le_mono1)

section \<open>Properties\<close>

text \<open>
  Duplicating a Fortran string: on a well-formed heap and a string inside its region with no
  NUL in it, \<open>mpif_strdup_f2c\<close> aborts exactly when its allocation fails, naming the size it
  asked for; otherwise the pointer it returns was not allocated before, denotes the C string that
  is the argument without its trailing blanks, and no other block has changed.
\<close>

theorem strdup_f2c_duplicates:
  assumes "off + n \<le> length r" and "heap_wf h" and "0 \<notin> set (field r off n)"
  shows "case mpif_strdup_f2c r off n h of
      Inl e \<Rightarrow> oom h (nallocs h) \<and> e = Out_of_memory (length (rtrim (field r off n)) + 1)
    | Inr (p, h') \<Rightarrow>
        \<not> oom h (nallocs h) \<and> live h p = None \<and>
        load_cstring p h' = Inr (rtrim (field r off n)) \<and>
        (\<forall>q. q \<noteq> p \<longrightarrow> live h' q = live h q) \<and> heap_wf h'"
proof -
  from assms(3) have "0 \<notin> set (rtrim (field r off n))"
    using set_rtrim by blast
  with dup_result_cases [of h "rtrim (field r off n)"] assms show ?thesis
    by (simp add: strdup_f2c_spec field_def)
qed

theorem strdup_f2c_duplicates_witness:
  "case mpif_strdup_f2c [0x41, 0x42, 0x20, 0x20] 0 4 (empty_heap :: unit heap) of
      Inl e \<Rightarrow> False
    | Inr (p, h') \<Rightarrow> load_cstring p h' = Inr [0x41, 0x42]"
  using strdup_f2c_duplicates [of 0 4 "[0x41, 0x42, 0x20, 0x20]" "empty_heap :: unit heap"]
  by (auto simp: field_def rtrim_def blank_def empty_heap_def heap_wf_def split: sum.splits)

text \<open>
  The trimming duplicate (info keys and values, spawn commands and arguments) strips blanks
  at both ends; on an all-blank argument it is the empty C string. Aborts and the frame are as
  for the plain duplicate.
\<close>

theorem strdup_f2c_trim_duplicates:
  assumes "off + n \<le> length r" and "heap_wf h" and "0 \<notin> set (field r off n)"
  shows "case mpif_strdup_f2c_trim r off n h of
      Inl e \<Rightarrow> oom h (nallocs h) \<and> e = Out_of_memory (length (ltrim (rtrim (field r off n))) + 1)
    | Inr (p, h') \<Rightarrow>
        \<not> oom h (nallocs h) \<and> live h p = None \<and>
        load_cstring p h' = Inr (ltrim (rtrim (field r off n))) \<and>
        (all_blank (field r off n) \<longrightarrow> load_cstring p h' = Inr []) \<and>
        (\<forall>q. q \<noteq> p \<longrightarrow> live h' q = live h q) \<and> heap_wf h'"
proof -
  have "set (ltrim (rtrim (field r off n))) \<subseteq> set (field r off n)"
    using set_rtrim by (auto simp: ltrim_def dest: set_dropWhileD)
  with assms(3) have "0 \<notin> set (ltrim (rtrim (field r off n)))" by blast
  moreover have "all_blank (field r off n) \<Longrightarrow> ltrim (rtrim (field r off n)) = []"
    by (simp add: ltrim_def flip: rtrim_eq_Nil)
  ultimately show ?thesis
    using dup_result_cases [of h "ltrim (rtrim (field r off n))"] assms
    by (auto simp: strdup_f2c_trim_spec field_def split: sum.splits)
qed

theorem strdup_f2c_trim_duplicates_witness:
  "case mpif_strdup_f2c_trim [0x20, 0x42, 0x20, 0x43] 0 3 (empty_heap :: unit heap) of
      Inl e \<Rightarrow> False
    | Inr (p, h') \<Rightarrow> load_cstring p h' = Inr [0x42]"
  using strdup_f2c_trim_duplicates [of 0 3 "[0x20, 0x42, 0x20, 0x43]" "empty_heap :: unit heap"]
  by (auto simp: field_def rtrim_def ltrim_def blank_def empty_heap_def heap_wf_def
      split: sum.splits)

text \<open>
  C15. Round trip: a Fortran string without NULs that is duplicated into a C string and copied
  back into a variable of the same length (through the terminated string MPI would hold) comes
  back unchanged, blanks included, whatever the variable held.
\<close>

theorem f2c_c2f_roundtrip:
  assumes "heap_wf h" and "0 \<notin> set s" and "mpif_strdup_f2c s 0 (length s) h = Inr (p, h')"
    and "length dest = length s"
  shows "bindE (load_cstring p h')
      (\<lambda>c. mpif_strcpy_c2f dest (c @ [0]) (length s) (length c)) = Inr s"
proof -
  have "0 \<notin> set (rtrim s)" using assms(2) set_rtrim by blast
  then have "load_cstring p h' = Inr (rtrim s)"
    using dup_result_cases [of h "rtrim s"] assms by (simp add: strdup_f2c_spec)
  then show ?thesis
    using assms(4) length_rtrim [of s] by (simp add: strcpy_c2f_spec pad_rtrim)
qed

theorem f2c_c2f_roundtrip_witness:
  "bindE (mpif_strdup_f2c [0x41, 0x20] 0 2 (empty_heap :: unit heap))
     (\<lambda>(p, h'). bindE (load_cstring p h')
       (\<lambda>c. mpif_strcpy_c2f [7, 7] (c @ [0]) 2 (length c))) = Inr [0x41, 0x20]"
proof -
  let ?h = "empty_heap :: unit heap"
  have d: "mpif_strdup_f2c [0x41, 0x20] 0 2 ?h = Inr (0, with_cstring [0x41] ?h)"
    by (simp add: strdup_f2c_spec rtrim_def blank_def dup_result_def empty_heap_def)
  have l: "length [0x41, 0x20 :: byte] = 2" by simp
  have "bindE (load_cstring 0 (with_cstring [0x41] ?h))
      (\<lambda>c. mpif_strcpy_c2f [7, 7] (c @ [0]) 2 (length c)) = Inr [0x41, 0x20]"
    by (rule f2c_c2f_roundtrip [of ?h "[0x41, 0x20]" 0, unfolded l, OF _ _ d]) simp_all
  with d show ?thesis by simp
qed

text \<open>
  Counting an array of strings: on an array of strings of the same positive length,
  \<open>mpif_fcount\<close> returns (it does not loop) the index of the first all-blank string; when there
  is none it runs into the end of the array, which is a read out of bounds.
\<close>

lemma fcount_first_blank:
  assumes "0 < len" and "\<forall>s \<in> set ss. length s = len"
  shows "mpif_fcount (concat ss) len =
    Some (case index_where all_blank ss of Some i \<Rightarrow> Inr i | None \<Rightarrow> Inl Bad_read)"
proof -
  have f: "field (concat ss) (i * len) len = ss ! i" if "i < length ss" for i
    using field_concat [of ss len i] assms(2) that by simp
  have l: "length (concat ss) = length ss * len"
    using length_concat_uniform [of ss len] assms(2) by simp
  show ?thesis
  proof (cases "index_where all_blank ss")
    case None
    then have "fcount_from (concat ss) len 0 = Some (Inl Bad_read)"
      by (intro probe_loop_fault [OF fcount_from.simps, where m = "length ss"])
        (use assms(1) in \<open>auto simp: l f index_where_None nth_field_bound
          intro!: fstrlen_field(2) fstrlen_overrun\<close>)
    with None show ?thesis by (simp add: mpif_fcount_def)
  next
    case (Some i)
    then have i: "i < length ss" "all_blank (ss ! i)" "\<And>k. k < i \<Longrightarrow> \<not> all_blank (ss ! k)"
      by (simp_all add: index_where_Some)
    then have "fcount_from (concat ss) len 0 = Some (Inr i)"
      by (intro probe_loop_found [OF fcount_from.simps])
        (simp_all add: l f nth_field_bound fstrlen_field)
    with Some show ?thesis by (simp add: mpif_fcount_def)
  qed
qed

lemma fcount2d_from_stuck:
  assumes "mpif_fstrlen r (idx * len) len = Inr (Suc k)"
  shows "fcount2d_from r 0 idx len n = None"
proof (rule ccontr)
  assume "fcount2d_from r 0 idx len n \<noteq> None"
  then obtain y where ret: "fcount2d_from r 0 idx len n = Some y" by blast
  have "0 = (0::nat) \<longrightarrow> mpif_fstrlen r (idx * len) len = Inr (Suc k) \<longrightarrow> False"
  proof (rule fcount2d_from.raw_induct
      [where P = "\<lambda>r rows idx len n y. rows = 0 \<longrightarrow> mpif_fstrlen r (idx * len) len = Inr (Suc k) \<longrightarrow> False",
       OF _ ret])
    fix f r rows idx len n y
    assume IH: "\<And>r rows idx len n y. f r rows idx len n = Some y \<Longrightarrow>
        rows = 0 \<longrightarrow> mpif_fstrlen r (idx * len) len = Inr (Suc k) \<longrightarrow> False"
      and eq: "(case mpif_fstrlen r (idx * len + n * len * rows) len of
          Inl e \<Rightarrow> Some (Inl e)
        | Inr k \<Rightarrow> if k = 0 then Some (Inr n) else f r rows idx len (Suc n)) = Some y"
    show "rows = 0 \<longrightarrow> mpif_fstrlen r (idx * len) len = Inr (Suc k) \<longrightarrow> False"
      using eq IH [of r rows idx len "Suc n" y] by auto
  qed
  with assms show False by blast
qed

text \<open>
  Counting the arguments of one command of a spawn: on a two-dimensional array of strings
  stored column by column (\<open>rows\<close> rows, \<open>cols\<close> columns), \<open>mpif_fcount2d\<close> for a row returns the
  column of that row's first blank string, whatever the other rows hold; a row with none runs
  past the end of the array.
\<close>

theorem fcount2d_first_blank:
  assumes "0 < len" and "\<forall>s \<in> set ss. length s = len" and "row < rows"
    and "length ss = cols * rows"
  shows "mpif_fcount2d (concat ss) rows row len =
    Some (case index_where all_blank (map (\<lambda>n. ss ! (row + n * rows)) [0..<cols]) of
        Some n \<Rightarrow> Inr n | None \<Rightarrow> Inl Bad_read)"
proof -
  have l: "length (concat ss) = length ss * len"
    using length_concat_uniform [of ss len] assms(2) by simp
  have off: "row * len + n * len * rows = (row + n * rows) * len" for n
    by (simp add: algebra_simps)
  have idx: "row + n * rows < length ss" if "n < cols" for n
    using nth_field_bound [OF that, of rows] assms(3,4) by linarith
  have f: "field (concat ss) ((row + n * rows) * len) len = ss ! (row + n * rows)" if "n < cols" for n
    using field_concat [of ss len] assms(2) idx [OF that] by simp
  have b: "(row + n * rows) * len + len \<le> length (concat ss)" if "n < cols" for n
    unfolding l by (rule nth_field_bound [OF idx [OF that]])
  have out: "length (concat ss) < (row + cols * rows) * len + len"
    using assms(1,4) by (simp add: l algebra_simps)
  let ?row = "map (\<lambda>n. ss ! (row + n * rows)) [0..<cols]"
  show ?thesis
  proof (cases "index_where all_blank ?row")
    case None
    then have nb: "\<not> all_blank (ss ! (row + n * rows))" if "n < cols" for n
      using that by (auto simp: index_where_None)
    have "fcount2d_from (concat ss) rows row len 0 = Some (Inl Bad_read)"
      by (rule probe_loop_fault [OF fcount2d_from.simps, where m = cols])
        (use assms(1) out nb f b in \<open>auto simp: off intro!: fstrlen_field(2) fstrlen_overrun\<close>)
    with None show ?thesis by (simp add: mpif_fcount2d_def)
  next
    case (Some n)
    then have n: "n < cols" "all_blank (ss ! (row + n * rows))"
        "\<And>k. k < n \<Longrightarrow> \<not> all_blank (ss ! (row + k * rows))"
      by (auto simp: index_where_Some)
    have "fcount2d_from (concat ss) rows row len 0 = Some (Inr n)"
      by (rule probe_loop_found [OF fcount2d_from.simps])
        (use n f b in \<open>auto simp: off intro!: fstrlen_field\<close>)
    with Some show ?thesis by (simp add: mpif_fcount2d_def)
  qed
qed

theorem fcount2d_first_blank_witness:
  "mpif_fcount2d (concat [[0x41], [0x42], [0x20], [0x43], [0x44], [0x20]]) 2 1 1 = Some (Inr 2)"
  using fcount2d_first_blank [of 1 "[[0x41], [0x42], [0x20], [0x43], [0x44], [0x20]]" 1 2 3]
  by (simp add: all_blank_def blank_def upt_rec)

end
