(* ===== verification/Abi.thy ===== *)
theory Abi
  imports Prelude
begin

text \<open>
  The constants of the MPI standard ABI the code compares against, with the values
  \<open>include/mpif_constants.h\<close> gives their Fortran spellings and \<open>include/mpif_sentinels.h\<close>
  gives the address-valued ones, and the interface of the ABI library's handle conversions.
\<close>

section \<open>Integer constants\<close>

abbreviation MPI_SUCCESS :: fint where "MPI_SUCCESS \<equiv> 0"
abbreviation MPI_ERR_BUFFER :: fint where "MPI_ERR_BUFFER \<equiv> 1"
abbreviation MPI_ERR_ARG :: fint where "MPI_ERR_ARG \<equiv> 13"
abbreviation MPI_ERR_OTHER :: fint where "MPI_ERR_OTHER \<equiv> 16"
abbreviation MPI_ROOT :: fint where "MPI_ROOT \<equiv> - 4"
abbreviation MPI_UNDEFINED :: fint where "MPI_UNDEFINED \<equiv> - 32766"
abbreviation MPI_CART :: fint where "MPI_CART \<equiv> 211"
abbreviation MPI_GRAPH :: fint where "MPI_GRAPH \<equiv> 212"
abbreviation MPI_DIST_GRAPH :: fint where "MPI_DIST_GRAPH \<equiv> 213"
abbreviation MPI_KEYVAL_INVALID :: fint where "MPI_KEYVAL_INVALID \<equiv> 0"
abbreviation MPI_TAG_UB :: fint where "MPI_TAG_UB \<equiv> 501"
abbreviation MPI_IO :: fint where "MPI_IO \<equiv> 502"
abbreviation MPI_HOST :: fint where "MPI_HOST \<equiv> 503"
abbreviation MPI_WTIME_IS_GLOBAL :: fint where "MPI_WTIME_IS_GLOBAL \<equiv> 504"
abbreviation MPI_APPNUM :: fint where "MPI_APPNUM \<equiv> 505"
abbreviation MPI_LASTUSEDCODE :: fint where "MPI_LASTUSEDCODE \<equiv> 506"
abbreviation MPI_UNIVERSE_SIZE :: fint where "MPI_UNIVERSE_SIZE \<equiv> 507"
abbreviation MPI_WIN_BASE :: fint where "MPI_WIN_BASE \<equiv> 601"
abbreviation MPI_WIN_DISP_UNIT :: fint where "MPI_WIN_DISP_UNIT \<equiv> 602"
abbreviation MPI_WIN_SIZE :: fint where "MPI_WIN_SIZE \<equiv> 603"
abbreviation MPI_WIN_CREATE_FLAVOR :: fint where "MPI_WIN_CREATE_FLAVOR \<equiv> 604"
abbreviation MPI_WIN_MODEL :: fint where "MPI_WIN_MODEL \<equiv> 605"

section \<open>Address-valued constants\<close>

abbreviation MPI_BOTTOM :: addr where "MPI_BOTTOM \<equiv> 0"
abbreviation MPI_IN_PLACE :: addr where "MPI_IN_PLACE \<equiv> 1"
abbreviation MPI_BUFFER_AUTOMATIC :: addr where "MPI_BUFFER_AUTOMATIC \<equiv> 2"
abbreviation MPI_UNWEIGHTED :: addr where "MPI_UNWEIGHTED \<equiv> 10"
abbreviation MPI_WEIGHTS_EMPTY :: addr where "MPI_WEIGHTS_EMPTY \<equiv> 11"
abbreviation MPI_STATUS_IGNORE :: addr where "MPI_STATUS_IGNORE \<equiv> 0"
abbreviation MPI_STATUSES_IGNORE :: addr where "MPI_STATUSES_IGNORE \<equiv> 0"
abbreviation MPI_ERRCODES_IGNORE :: addr where "MPI_ERRCODES_IGNORE \<equiv> 0"

text \<open>Predefined handles: the ABI's handles are pointers holding these small values.\<close>

abbreviation MPI_OP_NULL :: handle where "MPI_OP_NULL \<equiv> 0x20"
abbreviation MPI_COMM_NULL :: handle where "MPI_COMM_NULL \<equiv> 0x100"
abbreviation MPI_COMM_WORLD :: handle where "MPI_COMM_WORLD \<equiv> 0x101"
abbreviation MPI_INFO_NULL :: handle where "MPI_INFO_NULL \<equiv> 0x130"
abbreviation MPI_ERRHANDLER_NULL :: handle where "MPI_ERRHANDLER_NULL \<equiv> 0x140"
abbreviation MPI_REQUEST_NULL :: handle where "MPI_REQUEST_NULL \<equiv> 0x180"
abbreviation MPI_DATATYPE_NULL :: handle where "MPI_DATATYPE_NULL \<equiv> 0x200"

section \<open>Handle conversions\<close>

text \<open>
  \<open>MPI_Comm_fromint\<close>, \<open>MPI_Comm_toint\<close> and their kin belong to the ABI library, which is not
  part of this code: they are parameters. \<open>toint\<close> returns nothing where the library may abort,
  which it does when handed an invalid handle.
\<close>

datatype hkind =
    Comm | Errhandler | File | Group | Info | Message | Op | Request | Session | Type | Win

record handle_api =
  fromint :: "hkind \<Rightarrow> fint \<Rightarrow> handle"
  toint :: "hkind \<Rightarrow> handle \<Rightarrow> fint option"

definition toint_checked :: "handle_api \<Rightarrow> hkind \<Rightarrow> handle \<Rightarrow> fault + fint" where
  "toint_checked H k h = (case toint H k h of None \<Rightarrow> Inl Invalid_handle | Some i \<Rightarrow> Inr i)"

text \<open>
  Every MPI function exists under two names, \<open>MPI_\<close> and \<open>PMPI_\<close>, and every wrapper in two
  versions, each calling the functions of its own name.
\<close>

datatype profile = MPI | PMPI

text \<open>The null handles the wrappers initialise their temporaries with.\<close>

fun null_handle :: "hkind \<Rightarrow> handle" where
  "null_handle Comm = MPI_COMM_NULL"
| "null_handle Errhandler = MPI_ERRHANDLER_NULL"
| "null_handle File = 0x118"
| "null_handle Group = 0x108"
| "null_handle Info = MPI_INFO_NULL"
| "null_handle Message = 0x128"
| "null_handle Op = MPI_OP_NULL"
| "null_handle Request = MPI_REQUEST_NULL"
| "null_handle Session = 0x120"
| "null_handle Type = MPI_DATATYPE_NULL"
| "null_handle Win = 0x110"

text \<open>
  What the code relies on (MPI-5.0's handle conversion functions): a predefined null handle
  converts to the integer of the same value.
\<close>

definition handle_api_ok :: "handle_api \<Rightarrow> bool" where
  "handle_api_ok H \<longleftrightarrow>
     (\<forall>k. toint H k (null_handle k) = Some (to_fint (null_handle k))) \<and>
     (\<forall>k. fromint H k (to_fint (null_handle k)) = null_handle k)"

text \<open>The library whose handles are the integers themselves; MPI-stub-like, and total.\<close>

definition identity_handles :: handle_api where
  "identity_handles = \<lparr>fromint = (\<lambda>_ i. to_aint i), toint = (\<lambda>_ h. Some (to_fint h))\<rparr>"

lemma toint_checked_null [simp]:
  "handle_api_ok H \<Longrightarrow> toint_checked H k (null_handle k) = Inr (to_fint (null_handle k))"
  by (simp add: toint_checked_def handle_api_ok_def)

lemma identity_handles_ok [simp]: "handle_api_ok identity_handles"
proof -
  have "to_aint (to_fint (null_handle k)) = null_handle k" for k
    by (cases k) (simp_all add: to_fint_def to_aint_def)
  then show ?thesis by (simp add: handle_api_ok_def identity_handles_def)
qed

end
