(* ===== verification/Logicals.thy ===== *)
theory Logicals
  imports Abi
begin

text \<open>
  \<open>src/mpif_logical.c\<close>: C truth values against Fortran LOGICAL. The bit patterns of \<open>.TRUE.\<close> and
  \<open>.FALSE.\<close> are two objects the Fortran compiler defines (\<open>src/mpif_logical.F90\<close>); they are a
  parameter here. gfortran and flang use 1 and 0, Intel -1 and 0.
\<close>

record logical_repr =
  logical_true :: fint
  logical_false :: fint

definition mpif_bool2logical :: "logical_repr \<Rightarrow> fint \<Rightarrow> fint" where
  "mpif_bool2logical L v = (if v \<noteq> 0 then logical_true L else logical_false L)"

definition mpif_logical2bool :: "logical_repr \<Rightarrow> fint \<Rightarrow> fint" where
  "mpif_logical2bool L v = (if v \<noteq> logical_false L then 1 else 0)"

text \<open>A compiler whose two LOGICAL values are different.\<close>

definition logical_ok :: "logical_repr \<Rightarrow> bool" where
  "logical_ok L \<longleftrightarrow> logical_true L \<noteq> logical_false L"

definition gfortran_logical :: logical_repr where
  "gfortran_logical = \<lparr>logical_true = 1, logical_false = 0\<rparr>"

definition intel_logical :: logical_repr where
  "intel_logical = \<lparr>logical_true = - 1, logical_false = 0\<rparr>"

lemma logical_ok_gfortran [simp]: "logical_ok gfortran_logical"
  by (simp add: logical_ok_def gfortran_logical_def)

lemma logical_ok_intel [simp]: "logical_ok intel_logical"
  by (simp add: logical_ok_def intel_logical_def)

lemma logical2bool_range: "mpif_logical2bool L v \<in> {0, 1}"
  by (simp add: mpif_logical2bool_def)

lemma bool2logical_0 [simp]: "mpif_bool2logical L 0 = logical_false L"
  by (simp add: mpif_bool2logical_def)

text \<open>
  Truth values survive the crossing in both directions, whatever the compiler's patterns: a C
  value comes back from LOGICAL as its truth value (0 or 1), a canonical LOGICAL comes back as
  itself, and a non-canonical LOGICAL (Intel reads any odd value as true) is read as true and
  comes back as the canonical \<open>.TRUE.\<close>.
\<close>

lemma logical_roundtrip:
  assumes "logical_ok L"
  shows "mpif_logical2bool L (mpif_bool2logical L v) = (if v = 0 then 0 else 1) \<and>
    mpif_bool2logical L (mpif_logical2bool L l) =
      (if l = logical_false L then logical_false L else logical_true L)"
  using assms by (auto simp: mpif_logical2bool_def mpif_bool2logical_def logical_ok_def)

end
