(* ===== verification/Sentinels.thy ===== *)
theory Sentinels
  imports Abi
begin

text \<open>
  \<open>include/mpif_sentinels.h\<close> and \<open>src/mpif_constants.c\<close>: a Fortran sentinel is a COMMON block
  merged onto a C cell, recognised by the cell's address and translated into the ABI's value.
  Where the linker puts the cells is a parameter.
\<close>

section \<open>The cells\<close>

datatype cell =
    mpif_bottom
  | mpif_in_place
  | mpif_buffer_automatic
  | mpif_argv_null
  | mpif_argvs_null
  | mpif_errcodes_ignore
  | mpif_unweighted
  | mpif_weights_empty
  | mpif_status_ignore
  | mpif_statuses_ignore
  | mpif_f08_status_ignore
  | mpif_f08_statuses_ignore

abbreviation MPIF_SENTINEL_INT_WORDS :: nat where "MPIF_SENTINEL_INT_WORDS \<equiv> 1"
abbreviation MPIF_SENTINEL_CHAR_BYTES :: nat where "MPIF_SENTINEL_CHAR_BYTES \<equiv> 1"
abbreviation MPIF_SENTINEL_STATUS_WORDS :: nat where "MPIF_SENTINEL_STATUS_WORDS \<equiv> 8"

definition MPIF_SENTINEL_ALIGNMENT :: "nat option \<Rightarrow> nat" where
  "MPIF_SENTINEL_ALIGNMENT biggest_alignment =
     (case biggest_alignment of Some b \<Rightarrow> if b > 64 then b else 64 | None \<Rightarrow> 64)"

text \<open>What the cells hold: integers, or a character. \<open>sizeof (MPI_Fint)\<close> is 4.\<close>

datatype contents = Fints "fint list" | Chars "byte list"

definition MPIF_POISON_INT :: contents where
  "MPIF_POISON_INT = Fints [0xBAADC0DE]"

definition MPIF_POISON_CHAR :: contents where
  "MPIF_POISON_CHAR = Chars [0xA5]"

definition MPIF_POISON_STATUS :: contents where
  "MPIF_POISON_STATUS =
     Fints [0x0EADC0DE, 0x0EADC0DE, 0x0EADC0DE, 0x0EADC0DE,
            0x0EADC0DE, 0x0EADC0DE, 0x0EADC0DE, 0x0EADC0DE]"

fun cell_contents :: "cell \<Rightarrow> contents" where
  "cell_contents mpif_bottom = MPIF_POISON_INT"
| "cell_contents mpif_in_place = MPIF_POISON_INT"
| "cell_contents mpif_buffer_automatic = MPIF_POISON_INT"
| "cell_contents mpif_argv_null = MPIF_POISON_CHAR"
| "cell_contents mpif_argvs_null = MPIF_POISON_CHAR"
| "cell_contents mpif_errcodes_ignore = MPIF_POISON_INT"
| "cell_contents mpif_unweighted = MPIF_POISON_INT"
| "cell_contents mpif_weights_empty = MPIF_POISON_INT"
| "cell_contents mpif_status_ignore = MPIF_POISON_STATUS"
| "cell_contents mpif_statuses_ignore = MPIF_POISON_STATUS"
| "cell_contents mpif_f08_status_ignore = MPIF_POISON_STATUS"
| "cell_contents mpif_f08_statuses_ignore = MPIF_POISON_STATUS"

fun contents_bytes :: "contents \<Rightarrow> nat" where
  "contents_bytes (Fints ws) = 4 * length ws"
| "contents_bytes (Chars bs) = length bs"

text \<open>The array bounds the header declares the cells with.\<close>

fun cell_bytes :: "cell \<Rightarrow> nat" where
  "cell_bytes mpif_bottom = 4 * MPIF_SENTINEL_INT_WORDS"
| "cell_bytes mpif_in_place = 4 * MPIF_SENTINEL_INT_WORDS"
| "cell_bytes mpif_buffer_automatic = 4 * MPIF_SENTINEL_INT_WORDS"
| "cell_bytes mpif_argv_null = MPIF_SENTINEL_CHAR_BYTES"
| "cell_bytes mpif_argvs_null = MPIF_SENTINEL_CHAR_BYTES"
| "cell_bytes mpif_errcodes_ignore = 4 * MPIF_SENTINEL_INT_WORDS"
| "cell_bytes mpif_unweighted = 4 * MPIF_SENTINEL_INT_WORDS"
| "cell_bytes mpif_weights_empty = 4 * MPIF_SENTINEL_INT_WORDS"
| "cell_bytes mpif_status_ignore = 4 * MPIF_SENTINEL_STATUS_WORDS"
| "cell_bytes mpif_statuses_ignore = 4 * MPIF_SENTINEL_STATUS_WORDS"
| "cell_bytes mpif_f08_status_ignore = 4 * MPIF_SENTINEL_STATUS_WORDS"
| "cell_bytes mpif_f08_statuses_ignore = 4 * MPIF_SENTINEL_STATUS_WORDS"

section \<open>The linked program\<close>

text \<open>
  Where the linker puts the cells. What the C language and the alignment attribute give: the
  cells are distinct objects, no object is at the null address, and each address is a multiple
  of the alignment asked for. A placement is a function with those properties.
\<close>

fun cell_index :: "cell \<Rightarrow> nat" where
  "cell_index mpif_bottom = 1"
| "cell_index mpif_in_place = 2"
| "cell_index mpif_buffer_automatic = 3"
| "cell_index mpif_argv_null = 4"
| "cell_index mpif_argvs_null = 5"
| "cell_index mpif_errcodes_ignore = 6"
| "cell_index mpif_unweighted = 7"
| "cell_index mpif_weights_empty = 8"
| "cell_index mpif_status_ignore = 9"
| "cell_index mpif_statuses_ignore = 10"
| "cell_index mpif_f08_status_ignore = 11"
| "cell_index mpif_f08_statuses_ignore = 12"

lemma cell_index_inj: "cell_index c = cell_index d \<Longrightarrow> c = d"
  by (cases c; cases d) simp_all

lemma cell_index_bound: "0 < cell_index c \<and> cell_index c \<le> 12"
  by (cases c) simp_all

definition linked :: "(cell \<Rightarrow> addr) \<Rightarrow> bool" where
  "linked f \<longleftrightarrow> inj f \<and> (\<forall>c. f c \<noteq> null) \<and> (\<forall>c. 64 dvd unat (f c))"

text \<open>A placement to evaluate with: the cells one after the other.\<close>

definition packed_cell :: "cell \<Rightarrow> addr" where
  "packed_cell c = of_nat (64 * cell_index c)"

lemma unat_packed_cell: "unat (packed_cell c) = 64 * cell_index c"
  by (cases c) (simp_all add: packed_cell_def)

lemma linked_packed_cell: "linked packed_cell"
  unfolding linked_def
proof (intro conjI allI)
  show "inj packed_cell"
  proof (rule injI)
    fix c d
    assume "packed_cell c = packed_cell d"
    then have "unat (packed_cell c) = unat (packed_cell d)" by simp
    then have "cell_index c = cell_index d" by (simp add: unat_packed_cell)
    then show "c = d" by (rule cell_index_inj)
  qed
next
  fix c
  show "packed_cell c \<noteq> null"
    using unat_packed_cell [of c] cell_index_bound [of c] by auto
  show "64 dvd unat (packed_cell c)"
    by (simp add: unat_packed_cell)
qed

typedef placement = "{f. linked f}" morphisms cell_addr Placement
  using linked_packed_cell by blast

definition packed :: placement where
  "packed = Placement packed_cell"

lemma cell_addr_packed: "cell_addr packed = packed_cell"
  by (simp add: packed_def Placement_inverse linked_packed_cell)

lemma cell_addr_linked: "linked (cell_addr P)"
  using cell_addr [of P] by simp

lemma cell_addr_inj [simp]: "cell_addr P c = cell_addr P d \<longleftrightarrow> c = d"
  using cell_addr_linked [of P] by (auto simp: linked_def inj_def)

definition abi_address_values :: "addr set" where
  "abi_address_values =
     {MPI_BOTTOM, MPI_IN_PLACE, MPI_BUFFER_AUTOMATIC, MPI_UNWEIGHTED, MPI_WEIGHTS_EMPTY}"

lemma cell_addr_not_abi: "cell_addr P c \<notin> abi_address_values"
proof
  assume "cell_addr P c \<in> abi_address_values"
  then have "unat (cell_addr P c) \<in> {0, 1, 2, 10, 11}"
    by (auto simp: abi_address_values_def)
  moreover have "64 dvd unat (cell_addr P c)" and "unat (cell_addr P c) \<noteq> 0"
    using cell_addr_linked [of P] by (auto simp: linked_def unat_eq_0)
  ultimately show False by auto
qed

lemma cell_addr_neq_abi [simp]:
  "cell_addr P c \<noteq> 0" "cell_addr P c \<noteq> 1" "cell_addr P c \<noteq> 2"
  "cell_addr P c \<noteq> 10" "cell_addr P c \<noteq> 11"
  using cell_addr_not_abi [of P c] by (auto simp: abi_address_values_def)

lemma cell_bytes_bound: "0 < cell_bytes c \<and> cell_bytes c \<le> 32"
  by (cases c) simp_all

section \<open>The translators\<close>

definition mpif_c_cbuffer :: "placement \<Rightarrow> addr \<Rightarrow> addr" where
  "mpif_c_cbuffer P p =
     (if p = cell_addr P mpif_bottom then MPI_BOTTOM
      else if p = cell_addr P mpif_in_place then MPI_IN_PLACE
      else if p = cell_addr P mpif_buffer_automatic then MPI_BUFFER_AUTOMATIC
      else p)"

definition mpif_c_buffer :: "placement \<Rightarrow> addr \<Rightarrow> addr" where
  "mpif_c_buffer P p =
     (if p = cell_addr P mpif_bottom then MPI_BOTTOM
      else if p = cell_addr P mpif_in_place then MPI_IN_PLACE
      else if p = cell_addr P mpif_buffer_automatic then MPI_BUFFER_AUTOMATIC
      else p)"

definition mpif_f_buffer_addr :: "placement \<Rightarrow> addr \<Rightarrow> addr" where
  "mpif_f_buffer_addr P p = (if p = MPI_BUFFER_AUTOMATIC then cell_addr P mpif_buffer_automatic else p)"

definition mpif_c_status :: "placement \<Rightarrow> addr \<Rightarrow> addr" where
  "mpif_c_status P p =
     (if p = cell_addr P mpif_status_ignore \<or> p = cell_addr P mpif_f08_status_ignore then MPI_STATUS_IGNORE
      else if p = cell_addr P mpif_statuses_ignore \<or> p = cell_addr P mpif_f08_statuses_ignore
      then MPI_STATUSES_IGNORE
      else p)"

definition mpif_c_cstatus :: "placement \<Rightarrow> addr \<Rightarrow> addr" where
  "mpif_c_cstatus P p = mpif_c_status P p"

definition mpif_c_weights :: "placement \<Rightarrow> addr \<Rightarrow> addr" where
  "mpif_c_weights P p =
     (if p = cell_addr P mpif_unweighted then MPI_UNWEIGHTED
      else if p = cell_addr P mpif_weights_empty then MPI_WEIGHTS_EMPTY
      else p)"

definition mpif_c_cweights :: "placement \<Rightarrow> addr \<Rightarrow> addr" where
  "mpif_c_cweights P p = mpif_c_weights P p"

definition mpif_c_errcodes :: "placement \<Rightarrow> addr \<Rightarrow> addr" where
  "mpif_c_errcodes P p = (if p = cell_addr P mpif_errcodes_ignore then MPI_ERRCODES_IGNORE else p)"

definition mpif_is_argv_null :: "placement \<Rightarrow> addr \<Rightarrow> bool" where
  "mpif_is_argv_null P p \<longleftrightarrow> p = cell_addr P mpif_argv_null"

definition mpif_is_argvs_null :: "placement \<Rightarrow> addr \<Rightarrow> bool" where
  "mpif_is_argvs_null P p \<longleftrightarrow> p = cell_addr P mpif_argvs_null"

text \<open>\<open>include/mpif_cdesc.h\<close>: the same test on the C side, after translation.\<close>

definition mpif_cdesc_is_sentinel :: "addr \<Rightarrow> bool" where
  "mpif_cdesc_is_sentinel p \<longleftrightarrow>
     p = MPI_BOTTOM \<or> p = MPI_IN_PLACE \<or> p = MPI_BUFFER_AUTOMATIC"

section \<open>What a translator promises\<close>

text \<open>
  Every translator is a lookup in a table of cell addresses that leaves all other addresses
  alone. The consequences the wrappers rely on are proved once, from that law and from two facts
  of the placement: a cell is in a table once, and no table value is a cell address.
\<close>

locale address_translation =
  fixes tr :: "addr \<Rightarrow> addr" and table :: "(addr \<times> addr) list"
  assumes tr_lookup: "tr p = (case map_of table p of Some v \<Rightarrow> v | None \<Rightarrow> p)"
    and table_distinct: "distinct (map fst table)"
    and table_values: "fst ` set table \<inter> snd ` set table = {}"
begin

lemma tr_other: "p \<notin> fst ` set table \<Longrightarrow> tr p = p"
  using map_of_eq_None_iff [of table p] by (simp add: tr_lookup)

lemma tr_cell: "(p, v) \<in> set table \<Longrightarrow> tr p = v"
  using table_distinct by (simp add: tr_lookup)

lemma tr_cases: "tr p = p \<and> p \<notin> fst ` set table \<or> (p, tr p) \<in> set table"
  using tr_cell tr_other by fastforce

lemma tr_not_cell: "tr p \<notin> fst ` set table"
  using tr_cases [of p] table_values by force

lemma tr_idem: "tr (tr p) = tr p"
  by (rule tr_other) (rule tr_not_cell)

lemma tr_cell_value: "p \<in> fst ` set table \<Longrightarrow> tr p \<in> snd ` set table"
  using tr_cell by force

lemma tr_sentinel_iff:
  "tr p \<in> snd ` set table \<longleftrightarrow> p \<in> fst ` set table \<or> p \<in> snd ` set table"
proof (cases "p \<in> fst ` set table")
  case True
  then show ?thesis by (simp add: tr_cell_value)
next
  case False
  then show ?thesis by (simp add: tr_other)
qed

lemma tr_inj_on_objects: "inj_on tr (- (fst ` set table))"
  by (rule inj_onI) (simp add: tr_other)

end

definition buffer_table :: "placement \<Rightarrow> (addr \<times> addr) list" where
  "buffer_table P =
     [(cell_addr P mpif_bottom, MPI_BOTTOM), (cell_addr P mpif_in_place, MPI_IN_PLACE),
      (cell_addr P mpif_buffer_automatic, MPI_BUFFER_AUTOMATIC)]"

definition status_table :: "placement \<Rightarrow> (addr \<times> addr) list" where
  "status_table P =
     [(cell_addr P mpif_status_ignore, MPI_STATUS_IGNORE), (cell_addr P mpif_f08_status_ignore, MPI_STATUS_IGNORE),
      (cell_addr P mpif_statuses_ignore, MPI_STATUSES_IGNORE),
      (cell_addr P mpif_f08_statuses_ignore, MPI_STATUSES_IGNORE)]"

definition weights_table :: "placement \<Rightarrow> (addr \<times> addr) list" where
  "weights_table P =
     [(cell_addr P mpif_unweighted, MPI_UNWEIGHTED), (cell_addr P mpif_weights_empty, MPI_WEIGHTS_EMPTY)]"

definition errcodes_table :: "placement \<Rightarrow> (addr \<times> addr) list" where
  "errcodes_table P = [(cell_addr P mpif_errcodes_ignore, MPI_ERRCODES_IGNORE)]"

lemmas translator_defs =
  mpif_c_cbuffer_def mpif_c_buffer_def mpif_c_status_def mpif_c_cstatus_def mpif_c_weights_def
  mpif_c_cweights_def mpif_c_errcodes_def
  buffer_table_def status_table_def weights_table_def errcodes_table_def

interpretation cbuffer: address_translation "mpif_c_cbuffer P" "buffer_table P" for P
  by unfold_locales (auto simp: translator_defs)

interpretation buffer: address_translation "mpif_c_buffer P" "buffer_table P" for P
  by unfold_locales (auto simp: translator_defs)

interpretation status: address_translation "mpif_c_status P" "status_table P" for P
  by unfold_locales (auto simp: translator_defs)

interpretation weights: address_translation "mpif_c_weights P" "weights_table P" for P
  by unfold_locales (auto simp: translator_defs)

interpretation errcodes: address_translation "mpif_c_errcodes P" "errcodes_table P" for P
  by unfold_locales (auto simp: translator_defs)

section \<open>Arithmetic on cell addresses\<close>

lemma aligned_room: "unat (cell_addr P c) + 64 \<le> 2 ^ 64"
proof -
  obtain k where k: "unat (cell_addr P c) = 64 * k"
    using cell_addr_linked [of P] by (auto simp: linked_def dvd_def)
  moreover have "unat (cell_addr P c) < 2 ^ 64"
    using unsigned_less [of "cell_addr P c"] by simp
  ultimately show ?thesis by simp
qed

lemma unat_cell_byte:
  assumes "i < 64"
  shows "unat (cell_addr P c + of_nat i) = unat (cell_addr P c) + i"
proof -
  have "unat (of_nat i :: addr) = i"
    using assms by (simp add: unat_of_nat)
  then show ?thesis
    using aligned_room [of P c] assms by (simp add: unat_word_ariths)
qed

lemma unat_cell_byte_div:
  assumes "i < 64"
  shows "unat (cell_addr P c + of_nat i) div 64 = unat (cell_addr P c) div 64"
proof -
  obtain k where "unat (cell_addr P c) = 64 * k"
    using cell_addr_linked [of P] by (auto simp: linked_def dvd_def)
  with assms show ?thesis by (simp add: unat_cell_byte)
qed

lemma cell_div_eq:
  assumes "unat (cell_addr P c) div 64 = unat (cell_addr P d) div 64"
  shows "c = d"
proof -
  have "64 dvd unat (cell_addr P c)" and "64 dvd unat (cell_addr P d)"
    using cell_addr_linked [of P] by (auto simp: linked_def)
  with assms have "unat (cell_addr P c) = unat (cell_addr P d)"
    by (metis dvd_div_mult_self)
  then have "cell_addr P c = cell_addr P d" by (simp only: word_unat_eq_iff)
  then show ?thesis by simp
qed

section \<open>Properties\<close>

text \<open>
  C14. Translating a choice buffer: the result is one of the ABI's buffer sentinels exactly when
  the argument is one of the three buffer cells or already one of the three values; each cell
  goes to its own value and the nine other cells stay themselves; the const and the non-const
  translator agree; translating twice is translating once; and away from the three cells the
  translator is injective (it is the identity), so no two user buffers are confused. The C-side
  test recognises the values only: an untranslated cell is no sentinel to it.
\<close>

theorem buffer_translation:
  "(mpif_cdesc_is_sentinel (mpif_c_buffer P p) \<longleftrightarrow>
      p \<in> cell_addr P ` {mpif_bottom, mpif_in_place, mpif_buffer_automatic} \<or>
      mpif_cdesc_is_sentinel p) \<and>
   mpif_c_buffer P (cell_addr P c) =
      (case c of mpif_bottom \<Rightarrow> MPI_BOTTOM | mpif_in_place \<Rightarrow> MPI_IN_PLACE
       | mpif_buffer_automatic \<Rightarrow> MPI_BUFFER_AUTOMATIC | _ \<Rightarrow> cell_addr P c) \<and>
   mpif_c_cbuffer P p = mpif_c_buffer P p \<and>
   mpif_c_buffer P (mpif_c_buffer P p) = mpif_c_buffer P p \<and>
   inj_on (mpif_c_buffer P) (- cell_addr P ` {mpif_bottom, mpif_in_place, mpif_buffer_automatic}) \<and>
   \<not> mpif_cdesc_is_sentinel (cell_addr P c)"
proof -
  have "\<not> mpif_cdesc_is_sentinel (cell_addr P c)" by (simp add: mpif_cdesc_is_sentinel_def)
  moreover have "mpif_cdesc_is_sentinel q \<longleftrightarrow> q \<in> snd ` set (buffer_table P)" for q
    by (auto simp: mpif_cdesc_is_sentinel_def buffer_table_def)
  moreover have "fst ` set (buffer_table P) =
      cell_addr P ` {mpif_bottom, mpif_in_place, mpif_buffer_automatic}"
    by (simp add: buffer_table_def)
  moreover have "mpif_c_buffer P (cell_addr P c) =
      (case c of mpif_bottom \<Rightarrow> MPI_BOTTOM | mpif_in_place \<Rightarrow> MPI_IN_PLACE
       | mpif_buffer_automatic \<Rightarrow> MPI_BUFFER_AUTOMATIC | _ \<Rightarrow> cell_addr P c)"
    by (simp add: mpif_c_buffer_def split: cell.split)
  moreover have "mpif_c_cbuffer P p = mpif_c_buffer P p"
    by (simp add: mpif_c_cbuffer_def mpif_c_buffer_def)
  ultimately show ?thesis
    using buffer.tr_sentinel_iff [of P p] buffer.tr_idem [of P p] buffer.tr_inj_on_objects [of P]
    by simp
qed

text \<open>
  Attach and detach: what the detach procedures hand back is the address that was attached,
  for every buffer but the two cells that are no attachable buffer and the ABI value that stands
  for the automatic one; in particular the Fortran \<open>MPI_BUFFER_AUTOMATIC\<close> comes back as its own
  address.
\<close>

theorem detach_returns_attached:
  "mpif_f_buffer_addr P (mpif_c_buffer P p) = p \<longleftrightarrow>
     p \<notin> {cell_addr P mpif_bottom, cell_addr P mpif_in_place, MPI_BUFFER_AUTOMATIC}"
  by (simp add: mpif_f_buffer_addr_def mpif_c_buffer_def)

text \<open>
  The other translators: a status argument becomes the null sentinel exactly for the four
  status cells of the two interfaces (and for null itself), through either constness; a weights
  argument becomes one of the two weight sentinels exactly for its two cells, which are not
  confused with each other; an error-code array becomes null exactly for its cell.
\<close>

lemma argument_translation:
  "(mpif_c_status P p = null \<longleftrightarrow>
      p = null \<or> p \<in> cell_addr P ` {mpif_status_ignore, mpif_statuses_ignore,
        mpif_f08_status_ignore, mpif_f08_statuses_ignore}) \<and>
   mpif_c_cstatus P p = mpif_c_status P p \<and>
   (mpif_c_weights P p = MPI_UNWEIGHTED \<longleftrightarrow> p \<in> {MPI_UNWEIGHTED, cell_addr P mpif_unweighted}) \<and>
   (mpif_c_weights P p = MPI_WEIGHTS_EMPTY \<longleftrightarrow>
      p \<in> {MPI_WEIGHTS_EMPTY, cell_addr P mpif_weights_empty}) \<and>
   (mpif_c_errcodes P p = null \<longleftrightarrow> p \<in> {null, cell_addr P mpif_errcodes_ignore})"
proof -
  have "snd ` set (status_table P) = {null}"
    and "fst ` set (status_table P) = cell_addr P ` {mpif_status_ignore, mpif_statuses_ignore,
        mpif_f08_status_ignore, mpif_f08_statuses_ignore}"
    by (auto simp: status_table_def)
  then have "mpif_c_status P p = null \<longleftrightarrow>
      p = null \<or> p \<in> cell_addr P ` {mpif_status_ignore, mpif_statuses_ignore,
        mpif_f08_status_ignore, mpif_f08_statuses_ignore}"
    using status.tr_sentinel_iff [of P p] by auto
  then show ?thesis
    by (auto simp: mpif_c_cstatus_def mpif_c_weights_def mpif_c_errcodes_def)
qed

text \<open>
  The cells as objects: the storage each is given is exactly as large as the header
  declares it; no byte of one cell is a byte of another, so an address inside one sentinel is
  never taken for another; and no byte of a cell is at an address the ABI uses as a value.
\<close>

theorem cells_disjoint:
  assumes "i < cell_bytes c" and "j < cell_bytes d"
  shows "contents_bytes (cell_contents c) = cell_bytes c \<and>
    (cell_addr P c + of_nat i = cell_addr P d + of_nat j \<longleftrightarrow> c = d \<and> i = j) \<and>
    cell_addr P c + of_nat i \<notin> abi_address_values"
proof (intro conjI)
  show "contents_bytes (cell_contents c) = cell_bytes c"
    by (cases c) (simp_all add: MPIF_POISON_INT_def MPIF_POISON_CHAR_def MPIF_POISON_STATUS_def)
  have ij: "i < 64" "j < 64" using assms cell_bytes_bound [of c] cell_bytes_bound [of d] by auto
  show "cell_addr P c + of_nat i = cell_addr P d + of_nat j \<longleftrightarrow> c = d \<and> i = j"
  proof
    assume eq: "cell_addr P c + of_nat i = cell_addr P d + of_nat j"
    then have "unat (cell_addr P c) div 64 = unat (cell_addr P d) div 64"
      using unat_cell_byte_div [OF ij(1), of P c] unat_cell_byte_div [OF ij(2), of P d] by simp
    then have "c = d" by (rule cell_div_eq)
    moreover from eq have "unat (cell_addr P c) + i = unat (cell_addr P d) + j"
      using unat_cell_byte [OF ij(1), of P c] unat_cell_byte [OF ij(2), of P d] by simp
    ultimately show "c = d \<and> i = j" by simp
  qed simp
  have "64 dvd unat (cell_addr P c)" and "unat (cell_addr P c) \<noteq> 0"
    using cell_addr_linked [of P] by (auto simp: linked_def unat_eq_0)
  then have "64 \<le> unat (cell_addr P c)" by (auto dest: dvd_imp_le)
  then have "64 \<le> unat (cell_addr P c + of_nat i)"
    using unat_cell_byte [OF ij(1), of P c] by simp
  then show "cell_addr P c + of_nat i \<notin> abi_address_values"
    by (auto simp: abi_address_values_def)
qed

theorem cells_disjoint_witness:
  "cell_addr packed mpif_status_ignore + of_nat 31 \<noteq> cell_addr packed mpif_f08_status_ignore + of_nat 31"
  using cells_disjoint [of 31 mpif_status_ignore 31 mpif_f08_status_ignore packed] by simp

text \<open>
  The poison of the status cells survives what is done with a count: as a C \<open>int\<close> it is
  positive (so it is none of the negative constants code tolerates) and multiplying it by an
  element size of up to eight bytes neither wraps nor makes it small.
\<close>

lemma status_poison_survives_scaling:
  assumes "MPIF_POISON_STATUS = Fints ws" and "w \<in> set ws" and "1 \<le> k" and "k \<le> 8"
  shows "sint (word_of_int k * w) = k * sint w \<and> 2 ^ 27 \<le> sint (word_of_int k * w)"
proof -
  from assms have w: "w = 0x0EADC0DE" by (auto simp: MPIF_POISON_STATUS_def)
  from assms(3,4) consider "k = 1" | "k = 2" | "k = 3" | "k = 4" | "k = 5" | "k = 6" | "k = 7" | "k = 8"
    by linarith
  then show ?thesis by cases (simp_all add: w)
qed

end
