(* ===== verification/Attr_Values.thy ===== *)
theory Attr_Values
  imports Abi
begin

text \<open>
  \<open>src/mpif_attrs.c\<close>: the C binding returns the address of a predefined attribute's value, the
  Fortran binding the value. The memory MPI's pointers lead into is a parameter: what an
  \<open>int\<close> and an \<open>MPI_Aint\<close> read at an address give, if anything.
\<close>

record c_memory =
  int_at :: "addr \<Rightarrow> fint option"
  aint_at :: "addr \<Rightarrow> aint option"

definition deref :: "'a option \<Rightarrow> fault + 'a" where
  "deref v = (case v of None \<Rightarrow> Inl Bad_read | Some x \<Rightarrow> Inr x)"

lemma deref_simps [simp]: "deref (Some x) = Inr x" "deref None = Inl Bad_read"
  by (simp_all add: deref_def)

definition mpif_attr_value :: "c_memory \<Rightarrow> fint \<Rightarrow> addr \<Rightarrow> fault + aint" where
  "mpif_attr_value M keyval value =
     (if value = null then Inr 0
      else if keyval \<in> {MPI_TAG_UB, MPI_IO, MPI_HOST, MPI_WTIME_IS_GLOBAL, MPI_APPNUM,
                MPI_LASTUSEDCODE, MPI_UNIVERSE_SIZE, MPI_WIN_DISP_UNIT, MPI_WIN_CREATE_FLAVOR,
                MPI_WIN_MODEL}
      then bindE (deref (int_at M value)) (\<lambda>i. Inr (to_aint i))
      else if keyval = MPI_WIN_SIZE then deref (aint_at M value)
      else if keyval = MPI_WIN_BASE then Inr value
      else Inr value)"

text \<open>The predefined keys, communicators' and windows'.\<close>

definition int_keyvals :: "fint set" where
  "int_keyvals = {501, 502, 503, 504, 505, 506, 507, 602, 604, 605}"

definition predefined_keyvals :: "fint set" where
  "predefined_keyvals = {501, 502, 503, 504, 505, 506, 507, 601, 602, 603, 604, 605}"

lemma attr_value_verbatim:
  "keyval \<notin> predefined_keyvals \<Longrightarrow> mpif_attr_value M keyval value = Inr value"
  by (auto simp: mpif_attr_value_def predefined_keyvals_def)

lemma attr_value_int:
  "keyval \<in> int_keyvals \<Longrightarrow> value \<noteq> null \<Longrightarrow> int_at M value = Some i \<Longrightarrow>
   mpif_attr_value M keyval value = Inr (to_aint i)"
  by (auto simp: mpif_attr_value_def int_keyvals_def)

end
