(* ===== verification/Predefined_Callbacks.thy ===== *)
theory Predefined_Callbacks
  imports Abi
begin

text \<open>
  The table of \<open>src/mpif_callbacks.c\<close> that turns the addresses of Fortran's predefined callback
  procedures into the ABI's sentinels. The addresses are the linker's: a parameter, of which the
  code relies on distinct procedures having distinct non-null addresses. The two conversion
  sentinels are the ABI header's; they are a parameter too.
\<close>

section \<open>The procedures and where they are\<close>

datatype fortran_procedure =
    mpi_null_copy_fn | mpi_dup_fn | mpi_null_delete_fn
  | mpi_comm_null_copy_fn | mpi_comm_dup_fn | mpi_comm_null_delete_fn
  | mpi_type_null_copy_fn | mpi_type_dup_fn | mpi_type_null_delete_fn
  | mpi_win_null_copy_fn | mpi_win_dup_fn | mpi_win_null_delete_fn
  | mpi_conversion_fn_null | mpi_conversion_fn_null_c
  | mpif_f08_comm_null_copy_fn | mpif_f08_comm_dup_fn | mpif_f08_comm_null_delete_fn
  | mpif_f08_type_null_copy_fn | mpif_f08_type_dup_fn | mpif_f08_type_null_delete_fn
  | mpif_f08_win_null_copy_fn | mpif_f08_win_dup_fn | mpif_f08_win_null_delete_fn
  | mpif_f08_conversion_fn_null | mpif_f08_conversion_fn_null_c

definition all_procedures :: "fortran_procedure list" where
  "all_procedures =
     [mpi_null_copy_fn, mpi_dup_fn, mpi_null_delete_fn,
      mpi_comm_null_copy_fn, mpi_comm_dup_fn, mpi_comm_null_delete_fn,
      mpi_type_null_copy_fn, mpi_type_dup_fn, mpi_type_null_delete_fn,
      mpi_win_null_copy_fn, mpi_win_dup_fn, mpi_win_null_delete_fn,
      mpi_conversion_fn_null, mpi_conversion_fn_null_c,
      mpif_f08_comm_null_copy_fn, mpif_f08_comm_dup_fn, mpif_f08_comm_null_delete_fn,
      mpif_f08_type_null_copy_fn, mpif_f08_type_dup_fn, mpif_f08_type_null_delete_fn,
      mpif_f08_win_null_copy_fn, mpif_f08_win_dup_fn, mpif_f08_win_null_delete_fn,
      mpif_f08_conversion_fn_null, mpif_f08_conversion_fn_null_c]"

fun procedure_index :: "fortran_procedure \<Rightarrow> fortran_procedure list \<Rightarrow> nat" where
  "procedure_index p [] = 0"
| "procedure_index p (q # qs) = (if p = q then 0 else Suc (procedure_index p qs))"

lemma procedure_index_nth: "p \<in> set qs \<Longrightarrow> procedure_index p qs < length qs \<and> qs ! procedure_index p qs = p"
  by (induction qs) auto

lemma all_procedures_complete: "p \<in> set all_procedures"
  by (cases p) (simp_all add: all_procedures_def)

definition packed_procedure :: "fortran_procedure \<Rightarrow> addr" where
  "packed_procedure p = of_nat (16 * Suc (procedure_index p all_procedures))"

lemma procedure_index_inj:
  "procedure_index p all_procedures = procedure_index q all_procedures \<Longrightarrow> p = q"
  by (metis all_procedures_complete procedure_index_nth)

lemma unat_packed_procedure:
  "unat (packed_procedure p) = 16 * Suc (procedure_index p all_procedures)"
proof -
  have "procedure_index p all_procedures < length all_procedures"
    using procedure_index_nth [OF all_procedures_complete] by simp
  then have "16 * Suc (procedure_index p all_procedures) < 2 ^ 64"
    by (simp add: all_procedures_def)
  then show ?thesis by (simp only: packed_procedure_def unat_of_nat) simp
qed

lemma packed_procedure_linked:
  "packed_procedure \<in> {f. inj f \<and> (\<forall>p. f p \<noteq> null)}"
proof -
  have "inj packed_procedure"
  proof (rule injI)
    fix p q
    assume "packed_procedure p = packed_procedure q"
    then have "unat (packed_procedure p) = unat (packed_procedure q)" by simp
    then show "p = q" by (simp only: unat_packed_procedure) (simp add: procedure_index_inj)
  qed
  moreover have "packed_procedure p \<noteq> null" for p
    using unat_packed_procedure [of p] by auto
  ultimately show ?thesis by simp
qed

typedef linkage = "{f :: fortran_procedure \<Rightarrow> addr. inj f \<and> (\<forall>p. f p \<noteq> null)}"
  morphisms proc_addr Linkage
  using packed_procedure_linked by blast

text \<open>A linkage to evaluate with: mpif's procedures sixteen bytes apart.\<close>

definition packed_linkage :: linkage where
  "packed_linkage = Linkage packed_procedure"

lemma proc_addr_packed: "proc_addr packed_linkage = packed_procedure"
  unfolding packed_linkage_def by (rule Linkage_inverse [OF packed_procedure_linked])

lemma not_in_packed_linkage: "\<not> 16 dvd unat a \<Longrightarrow> a \<notin> range (proc_addr packed_linkage)"
  using unat_packed_procedure by (auto simp: proc_addr_packed)

lemma proc_addr_inj [simp]: "proc_addr L p = proc_addr L q \<longleftrightarrow> p = q"
  using proc_addr [of L] by (auto simp: inj_def)

lemma proc_addr_nonnull [simp]: "proc_addr L p \<noteq> null"
  using proc_addr [of L] by simp

record conversion_sentinels =
  MPI_CONVERSION_FN_NULL :: addr
  MPI_CONVERSION_FN_NULL_C :: addr

section \<open>The table\<close>

abbreviation MPI_COMM_NULL_COPY_FN :: addr where "MPI_COMM_NULL_COPY_FN \<equiv> 0"
abbreviation MPI_COMM_DUP_FN :: addr where "MPI_COMM_DUP_FN \<equiv> 1"
abbreviation MPI_COMM_NULL_DELETE_FN :: addr where "MPI_COMM_NULL_DELETE_FN \<equiv> 0"
abbreviation MPI_TYPE_NULL_COPY_FN :: addr where "MPI_TYPE_NULL_COPY_FN \<equiv> 0"
abbreviation MPI_TYPE_DUP_FN :: addr where "MPI_TYPE_DUP_FN \<equiv> 1"
abbreviation MPI_TYPE_NULL_DELETE_FN :: addr where "MPI_TYPE_NULL_DELETE_FN \<equiv> 0"
abbreviation MPI_WIN_NULL_COPY_FN :: addr where "MPI_WIN_NULL_COPY_FN \<equiv> 0"
abbreviation MPI_WIN_DUP_FN :: addr where "MPI_WIN_DUP_FN \<equiv> 1"
abbreviation MPI_WIN_NULL_DELETE_FN :: addr where "MPI_WIN_NULL_DELETE_FN \<equiv> 0"

definition predefined_callbacks :: "conversion_sentinels \<Rightarrow> (fortran_procedure \<times> addr) list" where
  "predefined_callbacks C =
     [(mpi_null_copy_fn, MPI_COMM_NULL_COPY_FN),
      (mpi_dup_fn, MPI_COMM_DUP_FN),
      (mpi_null_delete_fn, MPI_COMM_NULL_DELETE_FN),

      (mpi_comm_null_copy_fn, MPI_COMM_NULL_COPY_FN),
      (mpi_comm_dup_fn, MPI_COMM_DUP_FN),
      (mpi_comm_null_delete_fn, MPI_COMM_NULL_DELETE_FN),

      (mpi_type_null_copy_fn, MPI_TYPE_NULL_COPY_FN),
      (mpi_type_dup_fn, MPI_TYPE_DUP_FN),
      (mpi_type_null_delete_fn, MPI_TYPE_NULL_DELETE_FN),

      (mpi_win_null_copy_fn, MPI_WIN_NULL_COPY_FN),
      (mpi_win_dup_fn, MPI_WIN_DUP_FN),
      (mpi_win_null_delete_fn, MPI_WIN_NULL_DELETE_FN),

      (mpi_conversion_fn_null, MPI_CONVERSION_FN_NULL C),
      (mpi_conversion_fn_null_c, MPI_CONVERSION_FN_NULL_C C),

      (mpif_f08_comm_null_copy_fn, MPI_COMM_NULL_COPY_FN),
      (mpif_f08_comm_dup_fn, MPI_COMM_DUP_FN),
      (mpif_f08_comm_null_delete_fn, MPI_COMM_NULL_DELETE_FN),

      (mpif_f08_type_null_copy_fn, MPI_TYPE_NULL_COPY_FN),
      (mpif_f08_type_dup_fn, MPI_TYPE_DUP_FN),
      (mpif_f08_type_null_delete_fn, MPI_TYPE_NULL_DELETE_FN),

      (mpif_f08_win_null_copy_fn, MPI_WIN_NULL_COPY_FN),
      (mpif_f08_win_dup_fn, MPI_WIN_DUP_FN),
      (mpif_f08_win_null_delete_fn, MPI_WIN_NULL_DELETE_FN),

      (mpif_f08_conversion_fn_null, MPI_CONVERSION_FN_NULL C),
      (mpif_f08_conversion_fn_null_c, MPI_CONVERSION_FN_NULL_C C)]"

text \<open>The linear search; \<open>None\<close> is the return value 0, which leaves \<open>*result\<close> unwritten.\<close>

definition mpif_predefined_callback ::
    "linkage \<Rightarrow> conversion_sentinels \<Rightarrow> addr \<Rightarrow> addr option" where
  "mpif_predefined_callback L C callback =
     (case index_where (\<lambda>(fortran, abi). proc_addr L fortran = callback) (predefined_callbacks C) of
        Some i \<Rightarrow> Some (snd (predefined_callbacks C ! i))
      | None \<Rightarrow> None)"

section \<open>What it computes\<close>

text \<open>What a predefined procedure stands for, by what it does.\<close>

datatype behaviour = Null_copy | Dup | Null_delete | No_conversion | No_conversion_c

fun behaviour_of :: "fortran_procedure \<Rightarrow> behaviour" where
  "behaviour_of mpi_null_copy_fn = Null_copy"
| "behaviour_of mpi_comm_null_copy_fn = Null_copy"
| "behaviour_of mpi_type_null_copy_fn = Null_copy"
| "behaviour_of mpi_win_null_copy_fn = Null_copy"
| "behaviour_of mpif_f08_comm_null_copy_fn = Null_copy"
| "behaviour_of mpif_f08_type_null_copy_fn = Null_copy"
| "behaviour_of mpif_f08_win_null_copy_fn = Null_copy"
| "behaviour_of mpi_dup_fn = Dup"
| "behaviour_of mpi_comm_dup_fn = Dup"
| "behaviour_of mpi_type_dup_fn = Dup"
| "behaviour_of mpi_win_dup_fn = Dup"
| "behaviour_of mpif_f08_comm_dup_fn = Dup"
| "behaviour_of mpif_f08_type_dup_fn = Dup"
| "behaviour_of mpif_f08_win_dup_fn = Dup"
| "behaviour_of mpi_conversion_fn_null = No_conversion"
| "behaviour_of mpif_f08_conversion_fn_null = No_conversion"
| "behaviour_of mpi_conversion_fn_null_c = No_conversion_c"
| "behaviour_of mpif_f08_conversion_fn_null_c = No_conversion_c"
| "behaviour_of _ = Null_delete"

fun abi_sentinel :: "conversion_sentinels \<Rightarrow> behaviour \<Rightarrow> addr" where
  "abi_sentinel C Null_copy = 0"
| "abi_sentinel C Dup = 1"
| "abi_sentinel C Null_delete = 0"
| "abi_sentinel C No_conversion = MPI_CONVERSION_FN_NULL C"
| "abi_sentinel C No_conversion_c = MPI_CONVERSION_FN_NULL_C C"

lemma index_where_map_of:
  assumes "\<And>p q. f p = f q \<longleftrightarrow> p = q"
  shows "(case index_where (\<lambda>(p, v). f p = a) t of Some i \<Rightarrow> Some (snd (t ! i)) | None \<Rightarrow> None) =
    map_of (map (\<lambda>(p, v). (f p, v)) t) a"
  by (induction t) (auto split: option.splits)

lemma predefined_callback_proc:
  "mpif_predefined_callback L C (proc_addr L p) = Some (abi_sentinel C (behaviour_of p))"
  unfolding mpif_predefined_callback_def index_where_map_of [of "proc_addr L", OF proc_addr_inj]
  by (cases p) (simp_all add: predefined_callbacks_def)

lemma predefined_callback_other:
  "a \<notin> range (proc_addr L) \<Longrightarrow> mpif_predefined_callback L C a = None"
  by (auto simp: mpif_predefined_callback_def index_where_None split: option.splits)

lemma predefined_callback_None:
  "mpif_predefined_callback L C a = None \<longleftrightarrow> a \<notin> range (proc_addr L)"
  using predefined_callback_other [of a L C] by (auto simp: predefined_callback_proc)

text \<open>
  Recognising predefined callbacks: an address is recognised exactly when it is one of the
  25 procedures mpif defines, from either Fortran interface, and the value handed to MPI is the
  sentinel of what that procedure does (no copy, duplicate, no delete, no conversion); any other
  address, a user's procedure, is not recognised.
\<close>

lemma predefined_callback_recognises:
  "mpif_predefined_callback L C a = Some v \<longleftrightarrow>
     (\<exists>p. a = proc_addr L p \<and> v = abi_sentinel C (behaviour_of p))"
proof (cases "a \<in> range (proc_addr L)")
  case True
  then obtain p where "a = proc_addr L p" by blast
  then show ?thesis by (auto simp: predefined_callback_proc)
next
  case False
  then show ?thesis by (auto simp: predefined_callback_other)
qed

end
