(* ===== verification/Attr_Registry.thy ===== *)
theory Attr_Registry
  imports Predefined_Callbacks Logicals
begin

text \<open>
  The table of user-defined attribute callbacks of \<open>src/mpif_callbacks.c\<close> and the trampolines
  MPI is given in their place. MPI identifies an attribute callback by nothing but the keyval, so
  the table maps a keyval to the two Fortran procedures registered for it. This theory is the
  code as one thread runs it; \<open>Attr_Concurrency\<close> runs it in several.
\<close>

section \<open>The table\<close>

abbreviation MPIF_MAX_KEYVALS :: nat where "MPIF_MAX_KEYVALS \<equiv> 256"
abbreviation KEYVAL_RESERVED :: fint where "KEYVAL_RESERVED \<equiv> - 1"

record attr_entry =
  keyval :: fint
  copy_fn :: addr
  delete_fn :: addr

type_synonym attr_table = "attr_entry list"

text \<open>Static storage starts as zeroes, and \<open>MPI_KEYVAL_INVALID\<close> is 0.\<close>

definition attr_entries_init :: attr_table where
  "attr_entries_init = replicate MPIF_MAX_KEYVALS \<lparr>keyval = 0, copy_fn = null, delete_fn = null\<rparr>"

definition find_attr_entry :: "attr_table \<Rightarrow> fint \<Rightarrow> nat option" where
  "find_attr_entry es kv = index_where (\<lambda>e. keyval e = kv) es"

datatype attr_callback_kind =
    MPIF_ATTR_COMM_COPY
  | MPIF_ATTR_COMM_DELETE
  | MPIF_ATTR_TYPE_COPY
  | MPIF_ATTR_TYPE_DELETE
  | MPIF_ATTR_WIN_COPY
  | MPIF_ATTR_WIN_DELETE
  | MPIF_ATTR_COMM_COPY_10
  | MPIF_ATTR_COMM_DELETE_10

text \<open>The final \<open>switch\<close>: a copy kind writes \<open>copy_fn\<close>, any other \<open>delete_fn\<close>.\<close>

fun set_payload :: "attr_callback_kind \<Rightarrow> addr \<Rightarrow> attr_entry \<Rightarrow> attr_entry" where
  "set_payload MPIF_ATTR_COMM_COPY callback e = e\<lparr>copy_fn := callback\<rparr>"
| "set_payload MPIF_ATTR_TYPE_COPY callback e = e\<lparr>copy_fn := callback\<rparr>"
| "set_payload MPIF_ATTR_WIN_COPY callback e = e\<lparr>copy_fn := callback\<rparr>"
| "set_payload MPIF_ATTR_COMM_COPY_10 callback e = e\<lparr>copy_fn := callback\<rparr>"
| "set_payload _ callback e = e\<lparr>delete_fn := callback\<rparr>"

text \<open>
  The compare-and-swap loop claims the first slot whose keyval is \<open>MPI_KEYVAL_INVALID\<close>, clears
  its payload and publishes it.
\<close>

definition claim_entry :: "attr_table \<Rightarrow> fint \<Rightarrow> (nat \<times> attr_table) option" where
  "claim_entry es kv =
     (case index_where (\<lambda>e. keyval e = MPI_KEYVAL_INVALID) es of
        None \<Rightarrow> None
      | Some i \<Rightarrow>
          (let es = es[i := (es ! i)\<lparr>keyval := KEYVAL_RESERVED\<rparr>];
               es = es[i := (es ! i)\<lparr>copy_fn := null\<rparr>];
               es = es[i := (es ! i)\<lparr>delete_fn := null\<rparr>];
               es = es[i := (es ! i)\<lparr>keyval := kv\<rparr>]
           in Some (i, es)))"

definition mpif_register_attr_callback ::
    "linkage \<Rightarrow> conversion_sentinels \<Rightarrow> fint \<Rightarrow> attr_callback_kind \<Rightarrow> addr \<Rightarrow> attr_table \<Rightarrow>
     fint \<times> attr_table" where
  "mpif_register_attr_callback L C kv kind callback es =
     (case mpif_predefined_callback L C callback of
        Some _ \<Rightarrow> (MPI_SUCCESS, es)
      | None \<Rightarrow>
          (case (case find_attr_entry es kv of Some i \<Rightarrow> Some (i, es) | None \<Rightarrow> claim_entry es kv) of
             None \<Rightarrow> (MPI_ERR_OTHER, es)
           | Some (i, es) \<Rightarrow> (MPI_SUCCESS, es[i := set_payload kind callback (es ! i)])))"

section \<open>The trampolines\<close>

text \<open>
  A Fortran procedure gets every argument by reference. What it does is a parameter: for the
  address called and the values of all the arguments, the values it leaves in the ones that are
  read afterwards. \<open>aint\<close> arguments are the address-sized ones of the current interface;
  the MPI-1 interface passes default integers.
\<close>

record fortran_attr =
  run_copy :: "addr \<Rightarrow> fint \<Rightarrow> fint \<Rightarrow> aint \<Rightarrow> aint \<Rightarrow> aint \<Rightarrow> fint \<Rightarrow> fint \<Rightarrow> aint \<times> fint \<times> fint"
  run_delete :: "addr \<Rightarrow> fint \<Rightarrow> fint \<Rightarrow> aint \<Rightarrow> aint \<Rightarrow> fint \<Rightarrow> fint"
  run_copy_10 :: "addr \<Rightarrow> fint \<Rightarrow> fint \<Rightarrow> fint \<Rightarrow> fint \<Rightarrow> fint \<Rightarrow> fint \<Rightarrow> fint \<Rightarrow> fint \<times> fint \<times> fint"
  run_delete_10 :: "addr \<Rightarrow> fint \<Rightarrow> fint \<Rightarrow> fint \<Rightarrow> fint \<Rightarrow> fint \<Rightarrow> fint"

text \<open>
  The result of a copy callback: the error code and, unless the callback was not found, the
  values stored through \<open>attribute_val_out\<close> and \<open>flag\<close>.
\<close>

definition call_copy_attr ::
    "fortran_attr \<Rightarrow> logical_repr \<Rightarrow> attr_table \<Rightarrow> fint \<Rightarrow> fint \<Rightarrow> addr \<Rightarrow> addr \<Rightarrow>
     fint \<times> (addr \<times> fint) option" where
  "call_copy_attr F B es hdl kv extra_state attribute_val_in =
     (case find_attr_entry es kv of
        None \<Rightarrow> (MPI_ERR_OTHER, None)
      | Some i \<Rightarrow>
          if copy_fn (es ! i) = null then (MPI_ERR_OTHER, None)
          else
            (let (f_val_out, f_flag, f_ierror) =
                   run_copy F (copy_fn (es ! i)) hdl kv extra_state attribute_val_in 0 0 MPI_SUCCESS
             in (f_ierror, Some (f_val_out, mpif_logical2bool B f_flag))))"

definition call_delete_attr ::
    "fortran_attr \<Rightarrow> attr_table \<Rightarrow> fint \<Rightarrow> fint \<Rightarrow> addr \<Rightarrow> addr \<Rightarrow> fint" where
  "call_delete_attr F es hdl kv attribute_val extra_state =
     (case find_attr_entry es kv of
        None \<Rightarrow> MPI_ERR_OTHER
      | Some i \<Rightarrow>
          if delete_fn (es ! i) = null then MPI_ERR_OTHER
          else run_delete F (delete_fn (es ! i)) hdl kv attribute_val extra_state MPI_SUCCESS)"

definition comm_copy_attr_10 ::
    "fortran_attr \<Rightarrow> logical_repr \<Rightarrow> handle_api \<Rightarrow> attr_table \<Rightarrow> handle \<Rightarrow> fint \<Rightarrow> addr \<Rightarrow> addr \<Rightarrow>
     fault + fint \<times> (addr \<times> fint) option" where
  "comm_copy_attr_10 F B H es oldcomm kv extra_state attribute_val_in =
     (case find_attr_entry es kv of
        None \<Rightarrow> Inr (MPI_ERR_OTHER, None)
      | Some i \<Rightarrow>
          if copy_fn (es ! i) = null then Inr (MPI_ERR_OTHER, None)
          else bindE (toint_checked H Comm oldcomm)
            (\<lambda>f_comm.
              (let (f_val_out, f_flag, f_ierr) =
                     run_copy_10 F (copy_fn (es ! i)) f_comm kv (to_fint extra_state)
                       (to_fint attribute_val_in) 0 0 MPI_SUCCESS
               in Inr (f_ierr, Some (to_aint f_val_out, mpif_logical2bool B f_flag)))))"

definition comm_delete_attr_10 ::
    "fortran_attr \<Rightarrow> handle_api \<Rightarrow> attr_table \<Rightarrow> handle \<Rightarrow> fint \<Rightarrow> addr \<Rightarrow> addr \<Rightarrow> fault + fint" where
  "comm_delete_attr_10 F H es comm kv attribute_val extra_state =
     (case find_attr_entry es kv of
        None \<Rightarrow> Inr MPI_ERR_OTHER
      | Some i \<Rightarrow>
          if delete_fn (es ! i) = null then Inr MPI_ERR_OTHER
          else bindE (toint_checked H Comm comm)
            (\<lambda>f_comm. Inr (run_delete_10 F (delete_fn (es ! i)) f_comm kv
                             (to_fint attribute_val) (to_fint extra_state) MPI_SUCCESS)))"

text \<open>
  The six trampolines of the current interface convert the handle and share one body. A code
  pointer to a trampoline is its name.
\<close>

datatype attr_trampoline =
    comm_copy_attr | comm_delete_attr | type_copy_attr | type_delete_attr
  | win_copy_attr | win_delete_attr | comm_copy_attr_10_tr | comm_delete_attr_10_tr

fun mpif_attr_trampoline :: "attr_callback_kind \<Rightarrow> attr_trampoline" where
  "mpif_attr_trampoline MPIF_ATTR_COMM_COPY = comm_copy_attr"
| "mpif_attr_trampoline MPIF_ATTR_COMM_DELETE = comm_delete_attr"
| "mpif_attr_trampoline MPIF_ATTR_TYPE_COPY = type_copy_attr"
| "mpif_attr_trampoline MPIF_ATTR_TYPE_DELETE = type_delete_attr"
| "mpif_attr_trampoline MPIF_ATTR_WIN_COPY = win_copy_attr"
| "mpif_attr_trampoline MPIF_ATTR_WIN_DELETE = win_delete_attr"
| "mpif_attr_trampoline MPIF_ATTR_COMM_COPY_10 = comm_copy_attr_10_tr"
| "mpif_attr_trampoline MPIF_ATTR_COMM_DELETE_10 = comm_delete_attr_10_tr"

text \<open>MPI calling a copy trampoline, and a delete trampoline.\<close>

fun enter_copy :: "fortran_attr \<Rightarrow> logical_repr \<Rightarrow> handle_api \<Rightarrow> attr_table \<Rightarrow> attr_trampoline \<Rightarrow>
    handle \<Rightarrow> fint \<Rightarrow> addr \<Rightarrow> addr \<Rightarrow> fault + fint \<times> (addr \<times> fint) option" where
  "enter_copy F B H es comm_copy_attr oldcomm kv extra_state val_in =
     bindE (toint_checked H Comm oldcomm)
       (\<lambda>h. Inr (call_copy_attr F B es h kv extra_state val_in))"
| "enter_copy F B H es type_copy_attr oldtype kv extra_state val_in =
     bindE (toint_checked H Type oldtype)
       (\<lambda>h. Inr (call_copy_attr F B es h kv extra_state val_in))"
| "enter_copy F B H es win_copy_attr oldwin kv extra_state val_in =
     bindE (toint_checked H Win oldwin)
       (\<lambda>h. Inr (call_copy_attr F B es h kv extra_state val_in))"
| "enter_copy F B H es comm_copy_attr_10_tr oldcomm kv extra_state val_in =
     comm_copy_attr_10 F B H es oldcomm kv extra_state val_in"
| "enter_copy F B H es _ hdl kv extra_state val_in = Inl Indeterminate"

fun enter_delete :: "fortran_attr \<Rightarrow> handle_api \<Rightarrow> attr_table \<Rightarrow> attr_trampoline \<Rightarrow>
    handle \<Rightarrow> fint \<Rightarrow> addr \<Rightarrow> addr \<Rightarrow> fault + fint" where
  "enter_delete F H es comm_delete_attr comm kv attribute_val extra_state =
     bindE (toint_checked H Comm comm)
       (\<lambda>h. Inr (call_delete_attr F es h kv attribute_val extra_state))"
| "enter_delete F H es type_delete_attr datatype kv attribute_val extra_state =
     bindE (toint_checked H Type datatype)
       (\<lambda>h. Inr (call_delete_attr F es h kv attribute_val extra_state))"
| "enter_delete F H es win_delete_attr win kv attribute_val extra_state =
     bindE (toint_checked H Win win)
       (\<lambda>h. Inr (call_delete_attr F es h kv attribute_val extra_state))"
| "enter_delete F H es comm_delete_attr_10_tr comm kv attribute_val extra_state =
     comm_delete_attr_10 F H es comm kv attribute_val extra_state"
| "enter_delete F H es _ hdl kv attribute_val extra_state = Inl Indeterminate"

section \<open>The invariant\<close>

text \<open>
  What every registration keeps: 256 slots, none left reserved, and no keyval published twice.
  A keyval MPI hands out is neither \<open>MPI_KEYVAL_INVALID\<close> nor the reservation mark.
\<close>

definition attr_inv :: "attr_table \<Rightarrow> bool" where
  "attr_inv es \<longleftrightarrow>
     length es = MPIF_MAX_KEYVALS \<and>
     (\<forall>e \<in> set es. keyval e \<noteq> KEYVAL_RESERVED) \<and>
     (\<forall>i < length es. \<forall>j < length es.
        keyval (es ! i) = keyval (es ! j) \<and> keyval (es ! i) \<noteq> MPI_KEYVAL_INVALID \<longrightarrow> i = j)"

definition valid_keyval :: "fint \<Rightarrow> bool" where
  "valid_keyval kv \<longleftrightarrow> kv \<noteq> MPI_KEYVAL_INVALID \<and> kv \<noteq> KEYVAL_RESERVED"

definition attr_lookup :: "attr_table \<Rightarrow> fint \<Rightarrow> attr_entry option" where
  "attr_lookup es kv = map_option (\<lambda>i. es ! i) (find_attr_entry es kv)"

lemma attr_inv_init: "attr_inv attr_entries_init"
  by (simp add: attr_inv_def attr_entries_init_def)

lemma find_attr_entry_None: "find_attr_entry es kv = None \<longleftrightarrow> (\<forall>e \<in> set es. keyval e \<noteq> kv)"
  by (simp add: find_attr_entry_def index_where_None)

lemma find_attr_entry_Some:
  assumes "attr_inv es" and "valid_keyval kv"
  shows "find_attr_entry es kv = Some i \<longleftrightarrow> i < length es \<and> keyval (es ! i) = kv"
proof
  assume "find_attr_entry es kv = Some i"
  then show "i < length es \<and> keyval (es ! i) = kv"
    by (simp add: find_attr_entry_def index_where_Some)
next
  assume i: "i < length es \<and> keyval (es ! i) = kv"
  then have "find_attr_entry es kv \<noteq> None"
    by (metis find_attr_entry_None nth_mem)
  then obtain j where j: "find_attr_entry es kv = Some j" by blast
  then have "j < length es \<and> keyval (es ! j) = kv"
    by (simp add: find_attr_entry_def index_where_Some)
  with i assms have "i = j" by (simp add: attr_inv_def valid_keyval_def)
  with j show "find_attr_entry es kv = Some i" by simp
qed

lemma attr_lookup_Some:
  assumes "attr_inv es" and "valid_keyval kv"
  shows "attr_lookup es kv = Some e \<longleftrightarrow> (\<exists>i < length es. es ! i = e \<and> keyval e = kv)"
  using assms by (auto simp: attr_lookup_def find_attr_entry_Some)

lemma attr_lookup_None: "attr_lookup es kv = None \<longleftrightarrow> (\<forall>e \<in> set es. keyval e \<noteq> kv)"
  by (simp add: attr_lookup_def find_attr_entry_None)

lemma attr_lookup_eqI:
  assumes "attr_inv es" and "valid_keyval kv" and "i < length es" and "keyval (es ! i) = kv"
  shows "attr_lookup es kv = Some (es ! i)"
  using assms by (auto simp: attr_lookup_Some)

text \<open>Writing one slot, which is how both branches of a registration change the table.\<close>

lemma attr_slot_update:
  assumes inv: "attr_inv es" and i: "i < length es" and kv: "valid_keyval kv" and e: "keyval e = kv"
    and old: "keyval (es ! i) = kv \<or> keyval (es ! i) = MPI_KEYVAL_INVALID \<and> attr_lookup es kv = None"
  shows "attr_inv (es[i := e])"
    and "attr_lookup (es[i := e]) kv = Some e"
    and "valid_keyval k \<Longrightarrow> k \<noteq> kv \<Longrightarrow> attr_lookup (es[i := e]) k = attr_lookup es k"
proof -
  have other: "keyval (es ! j) \<noteq> kv" if "j < length es" "j \<noteq> i" for j
    using old
  proof
    assume "keyval (es ! i) = kv"
    with inv i that kv show ?thesis by (auto simp: attr_inv_def valid_keyval_def)
  next
    assume "keyval (es ! i) = MPI_KEYVAL_INVALID \<and> attr_lookup es kv = None"
    with that show ?thesis by (auto simp: attr_lookup_None)
  qed
  show inv': "attr_inv (es[i := e])"
    unfolding attr_inv_def
  proof (intro conjI allI impI ballI)
    show "length (es[i := e]) = MPIF_MAX_KEYVALS" using inv by (simp add: attr_inv_def)
    show "keyval x \<noteq> KEYVAL_RESERVED" if "x \<in> set (es[i := e])" for x
      using that set_update_subset_insert [of es i e] inv e kv
      by (auto simp: attr_inv_def valid_keyval_def)
    show "j = k" if "j < length (es[i := e])" and "k < length (es[i := e])" and
      "keyval (es[i := e] ! j) = keyval (es[i := e] ! k) \<and>
       keyval (es[i := e] ! j) \<noteq> MPI_KEYVAL_INVALID" for j k
      using that inv e i other [of j] other [of k]
      by (cases "j = i"; cases "k = i") (auto simp: attr_inv_def)
  qed
  show "attr_lookup (es[i := e]) kv = Some e"
    using attr_lookup_eqI [OF inv' kv, of i] i e by simp
  show "attr_lookup (es[i := e]) k = attr_lookup es k" if k: "valid_keyval k" "k \<noteq> kv"
  proof -
    have ik: "keyval (es ! i) \<noteq> k" using old k by (auto simp: valid_keyval_def)
    have same: "attr_lookup (es[i := e]) k = Some x \<longleftrightarrow> attr_lookup es k = Some x" for x
      unfolding attr_lookup_Some [OF inv' k(1)] attr_lookup_Some [OF inv k(1)]
      using e k(2) ik i by (metis length_list_update nth_list_update_eq nth_list_update_neq)
    then show ?thesis by (metis option.exhaust)
  qed
qed

lemma attr_entry_fresh:
  "e\<lparr>copy_fn := null, delete_fn := null, keyval := kv\<rparr> =
     \<lparr>keyval = kv, copy_fn = null, delete_fn = null\<rparr>"
  by (cases e) simp

lemma claim_entry_eq:
  "claim_entry es kv =
     map_option (\<lambda>i. (i, es[i := \<lparr>keyval = kv, copy_fn = null, delete_fn = null\<rparr>]))
       (index_where (\<lambda>e. keyval e = MPI_KEYVAL_INVALID) es)"
  by (auto simp: claim_entry_def Let_def attr_entry_fresh split: option.splits
      dest!: index_where_SomeD(1))

section \<open>Registration as an update of a map\<close>

text \<open>A callback a registration records: neither a predefined procedure nor null.\<close>

definition user_callback :: "linkage \<Rightarrow> addr \<Rightarrow> bool" where
  "user_callback L callback \<longleftrightarrow> callback \<noteq> null \<and> callback \<notin> range (proc_addr L)"

text \<open>
  What a keyval's entry is to hold after a registration: a copy procedure goes beside the delete procedure
  there was, a delete procedure beside the copy procedure there was.
\<close>

definition copy_kinds :: "attr_callback_kind set" where
  "copy_kinds = {MPIF_ATTR_COMM_COPY, MPIF_ATTR_TYPE_COPY, MPIF_ATTR_WIN_COPY, MPIF_ATTR_COMM_COPY_10}"

definition recorded :: "fint \<Rightarrow> attr_callback_kind \<times> addr \<Rightarrow> attr_entry option \<Rightarrow> attr_entry" where
  "recorded kv = (\<lambda>(kind, callback) old.
     let was = (case old of None \<Rightarrow> \<lparr>keyval = kv, copy_fn = null, delete_fn = null\<rparr> | Some e \<Rightarrow> e)
     in if kind \<in> copy_kinds
        then \<lparr>keyval = keyval was, copy_fn = callback, delete_fn = delete_fn was\<rparr>
        else \<lparr>keyval = keyval was, copy_fn = copy_fn was, delete_fn = callback\<rparr>)"

definition attr_register ::
    "linkage \<Rightarrow> conversion_sentinels \<Rightarrow> fint \<Rightarrow> attr_callback_kind \<times> addr \<Rightarrow> attr_table \<Rightarrow>
     attr_table option" where
  "attr_register L C kv kc es =
     (case mpif_register_attr_callback L C kv (fst kc) (snd kc) es of
        (rc, es') \<Rightarrow> if rc = MPI_SUCCESS then Some es' else None)"

definition attr_full :: "attr_table \<Rightarrow> bool" where
  "attr_full es \<longleftrightarrow> (\<forall>e \<in> set es. keyval e \<noteq> MPI_KEYVAL_INVALID)"

lemma recorded_payload:
  "recorded kv kc old =
     set_payload (fst kc) (snd kc)
       (case old of None \<Rightarrow> \<lparr>keyval = kv, copy_fn = null, delete_fn = null\<rparr> | Some e \<Rightarrow> e)"
  by (cases kc; cases "fst kc") (auto simp: recorded_def copy_kinds_def Let_def split: option.split)

lemma keyval_set_payload [simp]: "keyval (set_payload kind callback e) = keyval e"
  by (cases kind) simp_all

lemma user_callback_not_predefined:
  "user_callback L callback \<Longrightarrow> mpif_predefined_callback L C callback = None"
  by (simp add: user_callback_def predefined_callback_other)

lemma user_callback_packed:
  "a \<noteq> null \<Longrightarrow> \<not> 16 dvd unat a \<Longrightarrow> user_callback packed_linkage a"
  by (simp add: user_callback_def not_in_packed_linkage)

text \<open>The three outcomes of registering a procedure that is not predefined.\<close>

lemma register_cases:
  assumes "attr_inv es" and "valid_keyval kv" and "callback \<notin> range (proc_addr L)"
  obtains (known) i where "i < length es" "keyval (es ! i) = kv"
      "mpif_register_attr_callback L C kv kind callback es =
         (MPI_SUCCESS, es[i := recorded kv (kind, callback) (attr_lookup es kv)])"
  | (fresh) i where "i < length es" "keyval (es ! i) = MPI_KEYVAL_INVALID" "attr_lookup es kv = None"
      "mpif_register_attr_callback L C kv kind callback es =
         (MPI_SUCCESS, es[i := recorded kv (kind, callback) (attr_lookup es kv)])"
  | (full) "attr_lookup es kv = None" "attr_full es"
      "mpif_register_attr_callback L C kv kind callback es = (MPI_ERR_OTHER, es)"
proof (cases "find_attr_entry es kv")
  case (Some i)
  with assms have "i < length es" "keyval (es ! i) = kv" by (simp_all add: find_attr_entry_Some)
  with Some assms(3) show thesis
    by (intro known) (simp_all add: mpif_register_attr_callback_def predefined_callback_other
        attr_lookup_def recorded_payload)
next
  case None
  note none = None
  show thesis
  proof (cases "index_where (\<lambda>e. keyval e = MPI_KEYVAL_INVALID) es")
    case None
    with none assms(3) show thesis
      by (intro full) (simp_all add: mpif_register_attr_callback_def predefined_callback_other
          attr_lookup_def claim_entry_eq None attr_full_def index_where_None [THEN iffD1, OF None])
  next
    case (Some i)
    then have "i < length es" "keyval (es ! i) = MPI_KEYVAL_INVALID"
      by (simp_all add: index_where_Some)
    with none Some assms(3) show thesis
      by (intro fresh [of i]) (simp_all add: mpif_register_attr_callback_def
          predefined_callback_other attr_lookup_def claim_entry_eq recorded_payload)
  qed
qed

lemma attr_register_Some:
  assumes "attr_inv es" and "valid_keyval kv" and "snd kc \<notin> range (proc_addr L)"
    and "attr_register L C kv kc es = Some es'"
  shows "attr_inv es'"
    and "attr_lookup es' kv = Some (recorded kv kc (attr_lookup es kv))"
    and "valid_keyval k \<Longrightarrow> k \<noteq> kv \<Longrightarrow> attr_lookup es' k = attr_lookup es k"
proof -
  have rec: "keyval (recorded kv kc (attr_lookup es kv)) = kv"
    using attr_lookup_Some [OF assms(1,2)] by (auto simp: recorded_payload split: option.splits)
  obtain i where i: "i < length es"
      "keyval (es ! i) = kv \<or> keyval (es ! i) = MPI_KEYVAL_INVALID \<and> attr_lookup es kv = None"
      "es' = es[i := recorded kv kc (attr_lookup es kv)]"
    by (rule register_cases [OF assms(1-3), of C "fst kc"])
      (use assms(4) in \<open>auto simp: attr_register_def\<close>)
  note u = attr_slot_update [OF assms(1) i(1) assms(2) rec i(2)]
  show "attr_inv es'" unfolding i(3) by (rule u(1))
  show "attr_lookup es' kv = Some (recorded kv kc (attr_lookup es kv))"
    unfolding i(3) by (rule u(2))
  show "valid_keyval k \<Longrightarrow> k \<noteq> kv \<Longrightarrow> attr_lookup es' k = attr_lookup es k"
    unfolding i(3) by (rule u(3))
qed

lemma attr_register_None:
  assumes "attr_inv es" and "valid_keyval kv" and "snd kc \<notin> range (proc_addr L)"
  shows "attr_register L C kv kc es = None \<longleftrightarrow> attr_lookup es kv = None \<and> attr_full es"
proof (rule register_cases [OF assms, of C "fst kc"])
  fix i
  assume "i < length es" "keyval (es ! i) = kv"
    "mpif_register_attr_callback L C kv (fst kc) (snd kc) es =
       (MPI_SUCCESS, es[i := recorded kv (fst kc, snd kc) (attr_lookup es kv)])"
  moreover from this assms have "attr_lookup es kv \<noteq> None" by (simp add: attr_lookup_eqI)
  ultimately show ?thesis by (simp add: attr_register_def)
next
  fix i
  assume "i < length es" "keyval (es ! i) = MPI_KEYVAL_INVALID"
    "mpif_register_attr_callback L C kv (fst kc) (snd kc) es =
       (MPI_SUCCESS, es[i := recorded kv (fst kc, snd kc) (attr_lookup es kv)])"
  moreover from this have "\<not> attr_full es" unfolding attr_full_def by (metis nth_mem)
  ultimately show ?thesis by (simp add: attr_register_def)
next
  assume "attr_lookup es kv = None" "attr_full es"
    "mpif_register_attr_callback L C kv (fst kc) (snd kc) es = (MPI_ERR_OTHER, es)"
  then show ?thesis by (simp add: attr_register_def)
qed

lemma register_attr_codes:
  "mpif_register_attr_callback L C kv kind callback es = (rc, es') \<Longrightarrow>
   rc = MPI_SUCCESS \<or> rc = MPI_ERR_OTHER \<and> es' = es"
  by (auto simp: mpif_register_attr_callback_def split: option.splits prod.splits)

text \<open>Any successful registration, of a predefined procedure or another.\<close>

lemma register_lookup:
  assumes "attr_inv es" and "valid_keyval kv"
    and "mpif_register_attr_callback L C kv kind callback es = (MPI_SUCCESS, es')"
  shows "attr_inv es'" and "attr_lookup es' kv =
    (if callback \<in> range (proc_addr L) then attr_lookup es kv
     else Some (recorded kv (kind, callback) (attr_lookup es kv)))"
proof -
  have "attr_inv es' \<and> attr_lookup es' kv =
    (if callback \<in> range (proc_addr L) then attr_lookup es kv
     else Some (recorded kv (kind, callback) (attr_lookup es kv)))"
  proof (cases "callback \<in> range (proc_addr L)")
    case True
    then obtain p where "callback = proc_addr L p" by blast
    with assms(1,3) True show ?thesis
      by (auto simp: mpif_register_attr_callback_def predefined_callback_proc)
  next
    case False
    have "attr_register L C kv (kind, callback) es = Some es'"
      using assms(3) by (simp add: attr_register_def)
    with attr_register_Some [OF assms(1,2) _ this] False show ?thesis by simp
  qed
  then show "attr_inv es'" and "attr_lookup es' kv =
    (if callback \<in> range (proc_addr L) then attr_lookup es kv
     else Some (recorded kv (kind, callback) (attr_lookup es kv)))" by blast+
qed

section \<open>The interface: a registry keyed by what MPI hands back\<close>

text \<open>
  What the trampolines need of the table, whatever its layout: a registration makes its own key
  answer with the payload written onto what was there, leaves every other key alone, and fails
  only for a key that is not there yet.
\<close>

locale keyed_registry =
  fixes inv :: "'s \<Rightarrow> bool"
    and valid :: "'k \<Rightarrow> bool"
    and admissible :: "'d \<Rightarrow> bool"
    and lookup :: "'s \<Rightarrow> 'k \<Rightarrow> 'v option"
    and register :: "'k \<Rightarrow> 'd \<Rightarrow> 's \<Rightarrow> 's option"
    and payload :: "'k \<Rightarrow> 'd \<Rightarrow> 'v option \<Rightarrow> 'v"
  assumes register_inv:
      "inv s \<Longrightarrow> valid k \<Longrightarrow> admissible d \<Longrightarrow> register k d s = Some s' \<Longrightarrow> inv s'"
    and lookup_same:
      "inv s \<Longrightarrow> valid k \<Longrightarrow> admissible d \<Longrightarrow> register k d s = Some s' \<Longrightarrow>
       lookup s' k = Some (payload k d (lookup s k))"
    and lookup_other:
      "inv s \<Longrightarrow> valid k \<Longrightarrow> admissible d \<Longrightarrow> register k d s = Some s' \<Longrightarrow> valid j \<Longrightarrow> j \<noteq> k \<Longrightarrow>
       lookup s' j = lookup s j"
    and register_known:
      "inv s \<Longrightarrow> valid k \<Longrightarrow> admissible d \<Longrightarrow> lookup s k \<noteq> None \<Longrightarrow> register k d s \<noteq> None"
begin

text \<open>A run of registrations; a refused one leaves the state as it was.\<close>

primrec run :: "('k \<times> 'd) list \<Rightarrow> 's \<Rightarrow> 's" where
  "run [] s = s"
| "run (r # rs) s = run rs (case register (fst r) (snd r) s of None \<Rightarrow> s | Some s' \<Rightarrow> s')"

lemma run_inv:
  "inv s \<Longrightarrow> \<forall>r \<in> set rs. valid (fst r) \<and> admissible (snd r) \<Longrightarrow> inv (run rs s)"
  by (induction rs arbitrary: s) (auto split: option.split intro: register_inv)

lemma run_other:
  "inv s \<Longrightarrow> \<forall>r \<in> set rs. valid (fst r) \<and> admissible (snd r) \<and> fst r \<noteq> j \<Longrightarrow> valid j \<Longrightarrow>
   lookup (run rs s) j = lookup s j"
proof (induction rs arbitrary: s)
  case Nil
  then show ?case by simp
next
  case (Cons r rs)
  show ?case
  proof (cases "register (fst r) (snd r) s")
    case None
    with Cons show ?thesis by simp
  next
    case (Some s')
    with Cons.prems have "inv s'" "lookup s' j = lookup s j"
      using register_inv [of s "fst r" "snd r" s'] lookup_other [of s "fst r" "snd r" s' j] by auto
    with Some Cons show ?thesis by simp
  qed
qed

text \<open>A key that is present answers to every later registration under it, in order.\<close>

lemma run_same:
  "inv s \<Longrightarrow> valid k \<Longrightarrow> \<forall>d \<in> set ds. admissible d \<Longrightarrow> lookup s k = Some v \<Longrightarrow>
   lookup (run (map (Pair k) ds) s) k = Some (fold (\<lambda>d v. payload k d (Some v)) ds v)"
proof (induction ds arbitrary: s v)
  case Nil
  then show ?case by simp
next
  case (Cons d ds)
  then obtain s' where s': "register k d s = Some s'"
    using register_known [of s k d] by auto
  with Cons.prems have "inv s'" "lookup s' k = Some (payload k d (Some v))"
    using register_inv [of s k d s'] lookup_same [of s k d s'] by auto
  with s' Cons show ?case by simp
qed

text \<open>Two registrations under one key, then any number under others.\<close>

lemma pair_stays:
  assumes "inv s" and "valid k" and "admissible d" and "admissible e"
    and "register k d s = Some s1" and "register k e s1 = Some s2"
    and "\<forall>r \<in> set rs. valid (fst r) \<and> admissible (snd r) \<and> fst r \<noteq> k"
  shows "lookup (run rs s2) k = Some (payload k e (Some (payload k d (lookup s k))))"
proof -
  from assms have s1: "inv s1" "lookup s1 k = Some (payload k d (lookup s k))"
    by (auto intro: register_inv lookup_same)
  with assms have "inv s2" "lookup s2 k = Some (payload k e (lookup s1 k))"
    by (auto intro: register_inv dest: lookup_same [of s1 k e s2])
  with s1(2) run_other [OF this(1), of rs k] assms(2,7) show ?thesis by simp
qed

end

interpretation attr: keyed_registry attr_inv valid_keyval "\<lambda>kc. user_callback L (snd kc)"
    attr_lookup "attr_register L C" recorded for L C
  by unfold_locales (auto intro: attr_register_Some simp: attr_register_None user_callback_def)

section \<open>Capacity\<close>

definition attr_keyvals :: "attr_table \<Rightarrow> fint set" where
  "attr_keyvals es = {k. valid_keyval k \<and> attr_lookup es k \<noteq> None}"

lemma attr_keyvals_eq: "attr_inv es \<Longrightarrow> attr_keyvals es = keyval ` set es - {MPI_KEYVAL_INVALID}"
  by (auto simp: attr_keyvals_def valid_keyval_def attr_lookup_None attr_inv_def)

lemma attr_full_card:
  assumes "attr_inv es"
  shows "attr_full es \<longleftrightarrow> card (attr_keyvals es) = MPIF_MAX_KEYVALS"
proof
  assume full: "attr_full es"
  then have nz: "keyval (es ! i) \<noteq> MPI_KEYVAL_INVALID" if "i < length es" for i
    using that by (simp add: attr_full_def)
  with assms have "distinct (map keyval es)"
    by (simp add: distinct_conv_nth attr_inv_def) metis
  then have "card (keyval ` set es) = length es"
    by (simp add: distinct_card [symmetric, of "map keyval es", unfolded set_map length_map])
  moreover from full have "MPI_KEYVAL_INVALID \<notin> keyval ` set es"
    by (auto simp: attr_full_def)
  ultimately show "card (attr_keyvals es) = MPIF_MAX_KEYVALS"
    unfolding attr_keyvals_eq [OF assms] using assms by (simp add: attr_inv_def)
next
  assume card: "card (attr_keyvals es) = MPIF_MAX_KEYVALS"
  show "attr_full es"
  proof (rule ccontr)
    assume "\<not> attr_full es"
    then have "MPI_KEYVAL_INVALID \<in> keyval ` set es" by (force simp: attr_full_def)
    then have "card (attr_keyvals es) < card (keyval ` set es)"
      unfolding attr_keyvals_eq [OF assms] by (intro card_Diff1_less) simp_all
    moreover have "card (keyval ` set es) \<le> length es"
      by (metis card_length length_map set_map)
    ultimately show False using card assms by (simp add: attr_inv_def)
  qed
qed

text \<open>
  C8. Registering a callback is an update of a bounded map from keyvals to pairs of procedures.
  A predefined procedure is accepted and nothing is recorded. A user's procedure is recorded for
  its keyval, next to what the other kind of callback recorded under the same keyval, and no other
  keyval's callbacks change; it is refused, with \<open>MPI_ERR_OTHER\<close> and an unchanged table, exactly
  when the keyval is new and 256 keyvals are recorded.
\<close>

theorem register_attr_is_bounded_map_update:
  assumes "attr_inv es" and "valid_keyval kv" and "callback \<noteq> null"
    and "mpif_register_attr_callback L C kv kind callback es = (rc, es')"
  shows "if callback \<in> range (proc_addr L) then rc = MPI_SUCCESS \<and> es' = es
    else if attr_lookup es kv = None \<and> card (attr_keyvals es) = MPIF_MAX_KEYVALS
      then rc = MPI_ERR_OTHER \<and> es' = es
    else rc = MPI_SUCCESS \<and> attr_inv es' \<and>
      attr_lookup es' kv = Some (recorded kv (kind, callback) (attr_lookup es kv)) \<and>
      (\<forall>k. valid_keyval k \<and> k \<noteq> kv \<longrightarrow> attr_lookup es' k = attr_lookup es k)"
proof (cases "callback \<in> range (proc_addr L)")
  case True
  then obtain p where "callback = proc_addr L p" by blast
  with assms(4) True show ?thesis
    by (simp add: mpif_register_attr_callback_def predefined_callback_proc)
next
  case False
  then have user: "snd (kind, callback) \<notin> range (proc_addr L)" by simp
  note none = attr_register_None [OF assms(1,2) user, of C]
  note some = attr_register_Some [OF assms(1,2) user, of C]
  show ?thesis
  proof (cases "attr_register L C kv (kind, callback) es")
    case None
    with none have "attr_lookup es kv = None" "attr_full es" by simp_all
    moreover from None assms(4) have "rc \<noteq> MPI_SUCCESS"
      by (auto simp: attr_register_def split: if_splits)
    ultimately show ?thesis
      using False register_attr_codes [OF assms(4)] by (simp add: attr_full_card [OF assms(1)])
  next
    case (Some x)
    with assms(4) have "rc = MPI_SUCCESS" "x = es'"
      by (auto simp: attr_register_def split: if_splits)
    with some [OF Some] False none Some show ?thesis
      by (simp add: attr_full_card [OF assms(1)])
  qed
qed

theorem register_attr_is_bounded_map_update_witness:
  "attr_lookup
     (snd (mpif_register_attr_callback packed_linkage
             \<lparr>MPI_CONVERSION_FN_NULL = 0, MPI_CONVERSION_FN_NULL_C = 0\<rparr>
        7 MPIF_ATTR_COMM_COPY 0x1001 attr_entries_init)) 7 =
   Some \<lparr>keyval = 7, copy_fn = 0x1001, delete_fn = null\<rparr>"
proof -
  define C :: conversion_sentinels where
    "C = \<lparr>MPI_CONVERSION_FN_NULL = 0, MPI_CONVERSION_FN_NULL_C = 0\<rparr>"
  define r where
    "r = mpif_register_attr_callback packed_linkage C 7 MPIF_ATTR_COMM_COPY 0x1001 attr_entries_init"
  have none: "attr_lookup attr_entries_init k = None" if "valid_keyval k" for k
    using that by (simp add: attr_lookup_None attr_entries_init_def valid_keyval_def)
  then have empty: "attr_keyvals attr_entries_init = {}" by (auto simp: attr_keyvals_def)
  have valid: "valid_keyval 7" by (simp add: valid_keyval_def)
  have "0x1001 \<notin> range (proc_addr packed_linkage)" by (rule not_in_packed_linkage) simp
  moreover have "r = (fst r, snd r)" by simp
  ultimately have "attr_lookup (snd r) 7 =
      Some (recorded 7 (MPIF_ATTR_COMM_COPY, 0x1001) (attr_lookup attr_entries_init 7))"
    using register_attr_is_bounded_map_update
      [OF attr_inv_init valid, of "0x1001" packed_linkage C MPIF_ATTR_COMM_COPY "fst r" "snd r"]
    by (simp add: r_def empty)
  then show ?thesis by (simp add: r_def C_def none [OF valid] recorded_payload)
qed

section \<open>Dispatch\<close>

text \<open>The object an attribute callback is about, and the kinds of callback.\<close>

fun attr_hkind :: "attr_callback_kind \<Rightarrow> hkind" where
  "attr_hkind MPIF_ATTR_TYPE_COPY = Type"
| "attr_hkind MPIF_ATTR_TYPE_DELETE = Type"
| "attr_hkind MPIF_ATTR_WIN_COPY = Win"
| "attr_hkind MPIF_ATTR_WIN_DELETE = Win"
| "attr_hkind _ = Comm"

text \<open>The copy and the delete callback of one keyval-creating call.\<close>

datatype attr_class = Comm_attr | Type_attr | Win_attr

fun copy_kind :: "attr_class \<Rightarrow> attr_callback_kind" where
  "copy_kind Comm_attr = MPIF_ATTR_COMM_COPY"
| "copy_kind Type_attr = MPIF_ATTR_TYPE_COPY"
| "copy_kind Win_attr = MPIF_ATTR_WIN_COPY"

fun delete_kind :: "attr_class \<Rightarrow> attr_callback_kind" where
  "delete_kind Comm_attr = MPIF_ATTR_COMM_DELETE"
| "delete_kind Type_attr = MPIF_ATTR_TYPE_DELETE"
| "delete_kind Win_attr = MPIF_ATTR_WIN_DELETE"

fun class_hkind :: "attr_class \<Rightarrow> hkind" where
  "class_hkind Comm_attr = Comm"
| "class_hkind Type_attr = Type"
| "class_hkind Win_attr = Win"

lemma find_of_lookup:
  "attr_lookup es kv = Some e \<Longrightarrow> \<exists>i. find_attr_entry es kv = Some i \<and> es ! i = e"
  by (auto simp: attr_lookup_def)

lemma enter_copy_lookup:
  assumes "attr_lookup es kv = Some e" and "copy_fn e \<noteq> null" and "toint H (class_hkind k) h = Some f"
  shows "enter_copy F B H es (mpif_attr_trampoline (copy_kind k)) h kv x v =
    (let (val, flag, ierror) = run_copy F (copy_fn e) f kv x v 0 0 MPI_SUCCESS
     in Inr (ierror, Some (val, mpif_logical2bool B flag)))"
  using find_of_lookup [OF assms(1)] assms(2,3)
  by (cases k) (auto simp: toint_checked_def call_copy_attr_def split: prod.splits)

lemma enter_delete_lookup:
  assumes "attr_lookup es kv = Some e" and "delete_fn e \<noteq> null" and "toint H (class_hkind k) h = Some f"
  shows "enter_delete F H es (mpif_attr_trampoline (delete_kind k)) h kv v x =
    Inr (run_delete F (delete_fn e) f kv v x MPI_SUCCESS)"
  using find_of_lookup [OF assms(1)] assms(2,3)
  by (cases k) (auto simp: toint_checked_def call_delete_attr_def)

lemma enter_10_lookup:
  assumes "attr_lookup es kv = Some e" and "toint H Comm h = Some f"
  shows "copy_fn e \<noteq> null \<Longrightarrow> enter_copy F B H es (mpif_attr_trampoline MPIF_ATTR_COMM_COPY_10) h kv x v =
      (let (val, flag, ierr) =
         run_copy_10 F (copy_fn e) f kv (to_fint x) (to_fint v) 0 0 MPI_SUCCESS
       in Inr (ierr, Some (to_aint val, mpif_logical2bool B flag)))"
    and "delete_fn e \<noteq> null \<Longrightarrow> enter_delete F H es (mpif_attr_trampoline MPIF_ATTR_COMM_DELETE_10) h kv v x =
      Inr (run_delete_10 F (delete_fn e) f kv (to_fint v) (to_fint x) MPI_SUCCESS)"
  using find_of_lookup [OF assms(1)] assms(2-)
  by (auto simp: toint_checked_def comm_copy_attr_10_def comm_delete_attr_10_def split: prod.splits)

lemma recorded_pair:
  assumes "kd \<in> {MPIF_ATTR_COMM_DELETE, MPIF_ATTR_TYPE_DELETE, MPIF_ATTR_WIN_DELETE, MPIF_ATTR_COMM_DELETE_10}"
    and "kc \<in> {MPIF_ATTR_COMM_COPY, MPIF_ATTR_TYPE_COPY, MPIF_ATTR_WIN_COPY, MPIF_ATTR_COMM_COPY_10}"
  shows "copy_fn (recorded kv (kd, d) (Some (recorded kv (kc, c) old))) = c"
    and "delete_fn (recorded kv (kd, d) (Some (recorded kv (kc, c) old))) = d"
  using assms by (auto simp: recorded_payload)

text \<open>What a program registers later: any number of procedures under any keyvals.\<close>

primrec register_all ::
    "linkage \<Rightarrow> conversion_sentinels \<Rightarrow> (fint \<times> attr_callback_kind \<times> addr) list \<Rightarrow> attr_table \<Rightarrow>
     attr_table" where
  "register_all L C [] es = es"
| "register_all L C (r # rs) es =
     register_all L C rs
       (snd (mpif_register_attr_callback L C (fst r) (fst (snd r)) (snd (snd r)) es))"

lemma register_all_run: "register_all L C rs es = attr.run L C rs es"
proof (induction rs arbitrary: es)
  case Nil
  then show ?case by simp
next
  case (Cons r rs)
  have "snd (mpif_register_attr_callback L C (fst r) (fst (snd r)) (snd (snd r)) es) =
      (case attr_register L C (fst r) (snd r) es of None \<Rightarrow> es | Some es' \<Rightarrow> es')"
    using register_attr_codes [of L C "fst r" "fst (snd r)" "snd (snd r)" es]
    by (auto simp: attr_register_def split: prod.splits)
  with Cons show ?case by simp
qed

lemma attr_registerI:
  "mpif_register_attr_callback L C kv k c es = (MPI_SUCCESS, es') \<Longrightarrow>
   attr_register L C kv (k, c) es = Some es'"
  by (simp add: attr_register_def)

lemma registered_pair_lookup:
  assumes "attr_inv es" and "valid_keyval kv" and "user_callback L c" and "user_callback L d"
    and "mpif_register_attr_callback L C kv kc c es = (MPI_SUCCESS, es1)"
    and "mpif_register_attr_callback L C kv kd d es1 = (MPI_SUCCESS, es2)"
    and "\<forall>r \<in> set rs. valid_keyval (fst r) \<and> user_callback L (snd (snd r)) \<and> fst r \<noteq> kv"
  shows "attr_lookup (register_all L C rs es2) kv =
    Some (recorded kv (kd, d) (Some (recorded kv (kc, c) (attr_lookup es kv))))"
  using attr.pair_stays [OF assms(1,2), of L "(kc, c)" "(kd, d)" C es1 es2 rs] assms(3-)
  by (simp add: register_all_run attr_registerI)

text \<open>Two registrations under a keyval, entered through the trampolines after any others.\<close>

lemma registered_pair_runs:
  assumes "attr_inv es" and "valid_keyval kv" and "user_callback L c" and "user_callback L d"
    and "mpif_register_attr_callback L C kv (copy_kind k) c es = (MPI_SUCCESS, es1)"
    and "mpif_register_attr_callback L C kv (delete_kind k) d es1 = (MPI_SUCCESS, es2)"
    and "\<forall>r \<in> set rs. valid_keyval (fst r) \<and> user_callback L (snd (snd r)) \<and> fst r \<noteq> kv"
    and "toint H (class_hkind k) h = Some f"
  shows "enter_copy F B H (register_all L C rs es2) (mpif_attr_trampoline (copy_kind k)) h kv x v =
      (let (val, flag, ierror) = run_copy F c f kv x v 0 0 MPI_SUCCESS
       in Inr (ierror, Some (val, mpif_logical2bool B flag))) \<and>
    enter_delete F H (register_all L C rs es2) (mpif_attr_trampoline (delete_kind k)) h kv v x =
      Inr (run_delete F d f kv v x MPI_SUCCESS)"
proof -
  note e = registered_pair_lookup [OF assms(1-7)]
  have cd: "copy_fn (recorded kv (delete_kind k, d) (Some (recorded kv (copy_kind k, c) old))) = c \<and>
      delete_fn (recorded kv (delete_kind k, d) (Some (recorded kv (copy_kind k, c) old))) = d" for old
    by (cases k) (simp_all add: recorded_pair)
  with assms(3,4) show ?thesis
    using enter_copy_lookup [OF e _ assms(8)] enter_delete_lookup [OF e _ assms(8)]
    by (simp add: user_callback_def)
qed

definition demo_sentinels :: conversion_sentinels where
  "demo_sentinels = \<lparr>MPI_CONVERSION_FN_NULL = 0, MPI_CONVERSION_FN_NULL_C = 0\<rparr>"

definition demo_table :: "attr_callback_kind \<Rightarrow> attr_callback_kind \<Rightarrow> attr_table" where
  "demo_table kc kd =
     attr_entries_init[0 := recorded 7 (kd, 0x1003) (Some (recorded 7 (kc, 0x1001) None))]"

lemma register_on_init:
  assumes "valid_keyval kv" and "user_callback L c"
  shows "mpif_register_attr_callback L C kv k c attr_entries_init =
    (MPI_SUCCESS, attr_entries_init[0 := recorded kv (k, c) None])"
proof -
  have free: "index_where (\<lambda>e. keyval e = MPI_KEYVAL_INVALID) attr_entries_init = Some 0"
    by (simp add: index_where_Some attr_entries_init_def)
  have none: "find_attr_entry attr_entries_init kv = None"
    using assms(1) by (simp add: find_attr_entry_None attr_entries_init_def valid_keyval_def)
  have len: "length attr_entries_init = 256" by (simp add: attr_entries_init_def)
  show ?thesis
    using assms(2) by (simp add: mpif_register_attr_callback_def user_callback_not_predefined none
        claim_entry_eq free recorded_payload len)
qed

lemma register_on_first:
  assumes "user_callback L c" and "keyval e = kv"
  shows "mpif_register_attr_callback L C kv k c (attr_entries_init[0 := e]) =
    (MPI_SUCCESS, attr_entries_init[0 := recorded kv (k, c) (Some e)])"
proof -
  have "find_attr_entry (attr_entries_init[0 := e]) kv = Some 0"
    using assms(2) by (simp add: find_attr_entry_def index_where_Some attr_entries_init_def)
  with assms(1) show ?thesis
    by (simp add: mpif_register_attr_callback_def user_callback_not_predefined recorded_payload
        attr_entries_init_def)
qed

lemma demo_registrations:
  "mpif_register_attr_callback packed_linkage C 7 kc 0x1001 attr_entries_init =
     (MPI_SUCCESS, attr_entries_init[0 := recorded 7 (kc, 0x1001) None]) \<and>
   mpif_register_attr_callback packed_linkage C 7 kd 0x1003
     (attr_entries_init[0 := recorded 7 (kc, 0x1001) None]) = (MPI_SUCCESS, demo_table kc kd)"
proof -
  have "keyval (recorded 7 (kc, 0x1001) None) = 7" by (simp add: recorded_payload)
  then show ?thesis
    by (simp add: register_on_init register_on_first user_callback_packed valid_keyval_def
        demo_table_def)
qed

text \<open>A procedure that duplicates the attribute and one that deletes nothing.\<close>

definition demo_attr :: fortran_attr where
  "demo_attr =
     \<lparr>run_copy = (\<lambda>p h kv x v out flag err. (v + x, logical_true intel_logical, err)),
      run_delete = (\<lambda>p h kv v x err. MPI_ERR_ARG),
      run_copy_10 = (\<lambda>p h kv x v out flag err. (v + x, logical_true intel_logical, err)),
      run_delete_10 = (\<lambda>p h kv v x err. MPI_ERR_ARG)\<rparr>"

text \<open>
  The MPI-1 callbacks see default integers: the attribute value and the extra state reach the
  registered procedures as the integers the application stored (a stored integer is sign-extended
  into the pointer MPI keeps, and the trampoline takes it back out), and the integer a copy
  procedure returns is sign-extended into the value MPI keeps.
\<close>

lemma registered_mpi1_callbacks_run:
  assumes "attr_inv es" and "valid_keyval kv" and "user_callback L c" and "user_callback L d"
    and "mpif_register_attr_callback L C kv MPIF_ATTR_COMM_COPY_10 c es = (MPI_SUCCESS, es1)"
    and "mpif_register_attr_callback L C kv MPIF_ATTR_COMM_DELETE_10 d es1 = (MPI_SUCCESS, es2)"
    and "\<forall>r \<in> set rs. valid_keyval (fst r) \<and> user_callback L (snd (snd r)) \<and> fst r \<noteq> kv"
    and "toint H Comm h = Some f"
    and "run_copy_10 F c f kv x v 0 0 MPI_SUCCESS = (out, flag, ierr)"
  shows "enter_copy F B H (register_all L C rs es2)
        (mpif_attr_trampoline MPIF_ATTR_COMM_COPY_10) h kv (to_aint x) (to_aint v) =
      Inr (ierr, Some (to_aint out, mpif_logical2bool B flag)) \<and>
    enter_delete F H (register_all L C rs es2)
        (mpif_attr_trampoline MPIF_ATTR_COMM_DELETE_10) h kv (to_aint v) (to_aint x) =
      Inr (run_delete_10 F d f kv v x MPI_SUCCESS)"
proof -
  note e = registered_pair_lookup [OF assms(1-7)]
  show ?thesis
    using enter_10_lookup [OF e assms(8)] assms(3,4,9)
    by (simp add: recorded_pair user_callback_def)
qed

section \<open>What cannot be forwarded\<close>

text \<open>The code the wrappers return for a procedure they cannot hand to MPI.\<close>

definition mpif_unsupported_callback :: fint where
  "mpif_unsupported_callback = MPI_ERR_OTHER"

end
