(* ===== verification/Attr_Concurrency.thy ===== *)
theory Attr_Concurrency
  imports Attr_Registry
begin

text \<open>
  The registration of attribute callbacks by several threads at once. Each access to a slot of the
  table is one atomic step: the acquire loads of \<open>find_attr_entry\<close>, the compare-and-swap that
  claims a slot, the clearing of its payload, the release store that publishes it and the store of
  the callback. The steps of the threads interleave in any order. A thread here is one
  keyval-creating call: it registers callbacks, in order, for the keyval MPI has just handed to
  it, and MPI hands no keyval to two callers. One thread of the program making several such
  calls is the special case of an order between them.
\<close>

section \<open>One thread\<close>

datatype location =
    Idle
  | Finding nat
  | Claiming nat
  | Clearing_copy nat
  | Clearing_delete nat
  | Publishing nat
  | Writing nat

text \<open>\<open>jobs\<close> are the registrations to come, the current one first; \<open>past\<close> those that returned.\<close>

type_synonym job = "attr_callback_kind \<times> addr"

record thread =
  pc :: location
  jobs :: "job list"
  past :: "(job \<times> fint) list"

definition finish :: "fint \<Rightarrow> thread \<Rightarrow> thread" where
  "finish rc th =
     \<lparr>pc = Idle, jobs = tl (jobs th), past = past th @ [(hd (jobs th), rc)]\<rparr>"

definition thread_step ::
    "linkage \<Rightarrow> conversion_sentinels \<Rightarrow> fint \<Rightarrow> attr_table \<Rightarrow> thread \<Rightarrow> attr_table \<times> thread" where
  "thread_step L C kv es th =
     (case pc th of
        Idle \<Rightarrow>
          if mpif_predefined_callback L C (snd (hd (jobs th))) \<noteq> None
          then (es, finish MPI_SUCCESS th) else (es, th\<lparr>pc := Finding 0\<rparr>)
      | Finding i \<Rightarrow>
          if \<not> i < MPIF_MAX_KEYVALS then (es, th\<lparr>pc := Claiming 0\<rparr>)
          else if keyval (es ! i) = kv then (es, th\<lparr>pc := Writing i\<rparr>)
          else (es, th\<lparr>pc := Finding (Suc i)\<rparr>)
      | Claiming i \<Rightarrow>
          if \<not> i < MPIF_MAX_KEYVALS then (es, finish MPI_ERR_OTHER th)
          else if keyval (es ! i) = MPI_KEYVAL_INVALID
          then (es[i := (es ! i)\<lparr>keyval := KEYVAL_RESERVED\<rparr>], th\<lparr>pc := Clearing_copy i\<rparr>)
          else (es, th\<lparr>pc := Claiming (Suc i)\<rparr>)
      | Clearing_copy i \<Rightarrow>
          (es[i := (es ! i)\<lparr>copy_fn := null\<rparr>], th\<lparr>pc := Clearing_delete i\<rparr>)
      | Clearing_delete i \<Rightarrow>
          (es[i := (es ! i)\<lparr>delete_fn := null\<rparr>], th\<lparr>pc := Publishing i\<rparr>)
      | Publishing i \<Rightarrow>
          (es[i := (es ! i)\<lparr>keyval := kv\<rparr>], th\<lparr>pc := Writing i\<rparr>)
      | Writing i \<Rightarrow>
          (es[i := set_payload (fst (hd (jobs th))) (snd (hd (jobs th))) (es ! i)],
           finish MPI_SUCCESS th))"

section \<open>All threads\<close>

text \<open>Threads are named by the keyval they register for.\<close>

record attr_system =
  entries :: attr_table
  threads :: "fint \<Rightarrow> thread"

inductive attr_step ::
    "linkage \<Rightarrow> conversion_sentinels \<Rightarrow> attr_system \<Rightarrow> fint \<Rightarrow> attr_system \<Rightarrow> bool"
    for L C where
  step: "jobs (threads s kv) \<noteq> [] \<Longrightarrow>
     thread_step L C kv (entries s) (threads s kv) = (es, th) \<Longrightarrow>
     attr_step L C s kv \<lparr>entries = es, threads = (threads s)(kv := th)\<rparr>"

inductive_cases attr_stepE: "attr_step L C s kv s'"

definition attr_start :: "attr_table \<Rightarrow> (fint \<Rightarrow> job list) \<Rightarrow> attr_system" where
  "attr_start es0 J =
     \<lparr>entries = es0, threads = (\<lambda>kv. \<lparr>pc = Idle, jobs = J kv, past = []\<rparr>)\<rparr>"

text \<open>A run, with its schedule: which thread took each step.\<close>

inductive attr_run ::
    "linkage \<Rightarrow> conversion_sentinels \<Rightarrow> attr_system \<Rightarrow> fint list \<Rightarrow> attr_system \<Rightarrow> bool"
    for L C s0 where
  start: "attr_run L C s0 [] s0"
| more: "attr_run L C s0 ts s \<Longrightarrow> attr_step L C s kv s' \<Longrightarrow> attr_run L C s0 (ts @ [kv]) s'"

section \<open>What each thread relies on\<close>

fun owned :: "location \<Rightarrow> nat option" where
  "owned (Clearing_copy i) = Some i"
| "owned (Clearing_delete i) = Some i"
| "owned (Publishing i) = Some i"
| "owned _ = None"

definition absent :: "attr_table \<Rightarrow> fint \<Rightarrow> bool" where
  "absent es kv \<longleftrightarrow> (\<forall>j < MPIF_MAX_KEYVALS. keyval (es ! j) \<noteq> kv)"

definition taken_below :: "attr_table \<Rightarrow> nat \<Rightarrow> bool" where
  "taken_below es n \<longleftrightarrow> (\<forall>j < n. keyval (es ! j) \<noteq> MPI_KEYVAL_INVALID)"

fun location_ok :: "fint \<Rightarrow> attr_table \<Rightarrow> location \<Rightarrow> bool" where
  "location_ok kv es Idle = True"
| "location_ok kv es (Finding i) \<longleftrightarrow> i \<le> MPIF_MAX_KEYVALS \<and> (\<forall>j < i. keyval (es ! j) \<noteq> kv)"
| "location_ok kv es (Claiming i) \<longleftrightarrow> i \<le> MPIF_MAX_KEYVALS \<and> absent es kv \<and> taken_below es i"
| "location_ok kv es (Clearing_copy i) \<longleftrightarrow>
     i < MPIF_MAX_KEYVALS \<and> absent es kv \<and> keyval (es ! i) = KEYVAL_RESERVED"
| "location_ok kv es (Clearing_delete i) \<longleftrightarrow>
     i < MPIF_MAX_KEYVALS \<and> absent es kv \<and> keyval (es ! i) = KEYVAL_RESERVED \<and>
     copy_fn (es ! i) = null"
| "location_ok kv es (Publishing i) \<longleftrightarrow>
     i < MPIF_MAX_KEYVALS \<and> absent es kv \<and> keyval (es ! i) = KEYVAL_RESERVED \<and>
     copy_fn (es ! i) = null \<and> delete_fn (es ! i) = null"
| "location_ok kv es (Writing i) \<longleftrightarrow> i < MPIF_MAX_KEYVALS \<and> keyval (es ! i) = kv"

text \<open>The entry a thread's finished registrations add up to, on top of what was there before.\<close>

definition replay :: "linkage \<Rightarrow> fint \<Rightarrow> attr_entry option \<Rightarrow> (job \<times> fint) list \<Rightarrow> attr_entry option" where
  "replay L kv old ps =
     fold (\<lambda>(job, rc) e. if rc = MPI_SUCCESS \<and> snd job \<notin> range (proc_addr L)
                         then Some (recorded kv job e) else e) ps old"

definition contents_ok :: "fint \<Rightarrow> attr_table \<Rightarrow> attr_entry option \<Rightarrow> location \<Rightarrow> bool" where
  "contents_ok kv es e l \<longleftrightarrow>
     (case l of
        Writing i \<Rightarrow>
          es ! i = (case e of None \<Rightarrow> \<lparr>keyval = kv, copy_fn = null, delete_fn = null\<rparr> | Some e \<Rightarrow> e)
      | _ \<Rightarrow>
          (case e of
             None \<Rightarrow> absent es kv
           | Some e \<Rightarrow> keyval e = kv \<and> (\<exists>j < MPIF_MAX_KEYVALS. es ! j = e)))"

definition thread_ok :: "linkage \<Rightarrow> fint \<Rightarrow> attr_table \<Rightarrow> attr_entry option \<Rightarrow> thread \<Rightarrow> bool" where
  "thread_ok L kv es old th \<longleftrightarrow>
     location_ok kv es (pc th) \<and>
     contents_ok kv es (replay L kv old (past th)) (pc th) \<and>
     ((\<exists>job. (job, MPI_ERR_OTHER) \<in> set (past th)) \<longrightarrow> taken_below es MPIF_MAX_KEYVALS) \<and>
     (\<forall>p \<in> set (past th). snd p \<in> {MPI_SUCCESS, MPI_ERR_OTHER}) \<and>
     (pc th \<noteq> Idle \<longrightarrow> snd (hd (jobs th)) \<notin> range (proc_addr L))"

text \<open>Which slots are reserved, by whom, and that no keyval is published twice.\<close>

definition slots_ok :: "attr_table \<Rightarrow> (fint \<Rightarrow> location) \<Rightarrow> bool" where
  "slots_ok es ls \<longleftrightarrow>
     (\<forall>i < MPIF_MAX_KEYVALS. keyval (es ! i) = KEYVAL_RESERVED \<longrightarrow> (\<exists>t. owned (ls t) = Some i)) \<and>
     (\<forall>t u i. owned (ls t) = Some i \<longrightarrow> owned (ls u) = Some i \<longrightarrow> t = u)"

definition distinct_ok :: "attr_table \<Rightarrow> bool" where
  "distinct_ok es \<longleftrightarrow>
     (\<forall>i < MPIF_MAX_KEYVALS. \<forall>j < MPIF_MAX_KEYVALS.
        keyval (es ! i) = keyval (es ! j) \<longrightarrow> valid_keyval (keyval (es ! i)) \<longrightarrow> i = j)"

definition system_ok :: "linkage \<Rightarrow> attr_table \<Rightarrow> attr_system \<Rightarrow> bool" where
  "system_ok L es0 s \<longleftrightarrow>
     length (entries s) = MPIF_MAX_KEYVALS \<and>
     slots_ok (entries s) (\<lambda>t. pc (threads s t)) \<and> distinct_ok (entries s) \<and>
     (\<forall>kv. valid_keyval kv \<longrightarrow> thread_ok L kv (entries s) (attr_lookup es0 kv) (threads s kv)) \<and>
     (\<forall>kv. \<not> valid_keyval kv \<longrightarrow> jobs (threads s kv) = [] \<and> pc (threads s kv) = Idle)"

section \<open>One step, seen by the thread that takes it\<close>

text \<open>The only ways a step changes the table.\<close>

inductive slot_change ::
    "fint \<Rightarrow> attr_table \<Rightarrow> location \<Rightarrow> attr_table \<Rightarrow> location \<Rightarrow> bool" for kv es where
  looking: "owned l = None \<Longrightarrow> owned l' = None \<Longrightarrow> slot_change kv es l es l'"
| claiming: "owned l = None \<Longrightarrow> owned l' = Some i \<Longrightarrow> i < MPIF_MAX_KEYVALS \<Longrightarrow>
     keyval (es ! i) = MPI_KEYVAL_INVALID \<Longrightarrow> keyval e = KEYVAL_RESERVED \<Longrightarrow>
     slot_change kv es l (es[i := e]) l'"
| clearing: "owned l = Some i \<Longrightarrow> owned l' = Some i \<Longrightarrow> i < MPIF_MAX_KEYVALS \<Longrightarrow>
     keyval (es ! i) = KEYVAL_RESERVED \<Longrightarrow> keyval e = KEYVAL_RESERVED \<Longrightarrow>
     slot_change kv es l (es[i := e]) l'"
| publishing: "owned l = Some i \<Longrightarrow> owned l' = None \<Longrightarrow> i < MPIF_MAX_KEYVALS \<Longrightarrow>
     keyval (es ! i) = KEYVAL_RESERVED \<Longrightarrow> keyval e = kv \<Longrightarrow> absent es kv \<Longrightarrow>
     slot_change kv es l (es[i := e]) l'"
| writing: "owned l = None \<Longrightarrow> owned l' = None \<Longrightarrow> i < MPIF_MAX_KEYVALS \<Longrightarrow>
     keyval (es ! i) = kv \<Longrightarrow> keyval e = kv \<Longrightarrow>
     slot_change kv es l (es[i := e]) l'"

lemmas thread_step_simps = thread_step_def finish_def

lemma thread_step_change:
  assumes "location_ok kv es (pc th)"
    and "thread_step L C kv es th = (es', th')"
  shows "slot_change kv es (pc th) es' (pc th')"
proof (cases "pc th")
  case Idle
  with assms show ?thesis by (auto simp: thread_step_simps intro: slot_change.intros split: if_splits)
next
  case (Finding i)
  with assms show ?thesis by (auto simp: thread_step_simps intro: slot_change.intros split: if_splits)
next
  case (Claiming i)
  with assms show ?thesis by (auto simp: thread_step_simps intro: slot_change.intros split: if_splits)
next
  case (Clearing_copy i)
  with assms show ?thesis by (auto simp: thread_step_simps intro: slot_change.intros)
next
  case (Clearing_delete i)
  with assms show ?thesis by (auto simp: thread_step_simps intro: slot_change.intros)
next
  case (Publishing i)
  with assms show ?thesis by (auto simp: thread_step_simps intro: slot_change.intros)
next
  case (Writing i)
  with assms show ?thesis by (auto simp: thread_step_simps intro: slot_change.intros)
qed

lemma absent_update:
  "absent es kv \<Longrightarrow> keyval e \<noteq> kv \<Longrightarrow> absent (es[i := e]) kv"
  by (auto simp: absent_def nth_list_update_if)

lemma taken_below_update:
  "taken_below es n \<Longrightarrow> keyval e \<noteq> MPI_KEYVAL_INVALID \<Longrightarrow> taken_below (es[i := e]) n"
  by (auto simp: taken_below_def nth_list_update_if)

lemma replay_snoc:
  "replay L kv old (ps @ [(job, rc)]) =
     (if rc = MPI_SUCCESS \<and> snd job \<notin> range (proc_addr L)
      then Some (recorded kv job (replay L kv old ps)) else replay L kv old ps)"
  by (simp add: replay_def)

lemma replay_keyval:
  "(\<And>e. old = Some e \<Longrightarrow> keyval e = kv) \<Longrightarrow> replay L kv old ps = Some e \<Longrightarrow> keyval e = kv"
proof (induction ps arbitrary: e rule: rev_induct)
  case Nil
  then show ?case by (simp add: replay_def)
next
  case (snoc p ps)
  obtain job rc where p: "p = (job, rc)" by (cases p) auto
  from snoc show ?case
    by (auto simp: p replay_snoc recorded_payload split: if_splits option.splits)
qed

text \<open>The thread's own facts survive its own step.\<close>

lemma contents_not_writing:
  "\<forall>j. l \<noteq> Writing j \<Longrightarrow>
   contents_ok kv es e l \<longleftrightarrow>
     (case e of
        None \<Rightarrow> absent es kv
      | Some e \<Rightarrow> keyval e = kv \<and> (\<exists>j < MPIF_MAX_KEYVALS. es ! j = e))"
  by (cases l) (simp_all add: contents_ok_def)

lemma contents_present:
  assumes "contents_ok kv es e l" and "\<forall>j. l \<noteq> Writing j" and "i < MPIF_MAX_KEYVALS"
    and "keyval (es ! i) = kv"
    and unique: "\<And>j. j < MPIF_MAX_KEYVALS \<Longrightarrow> keyval (es ! j) = kv \<Longrightarrow> j = i"
  shows "e = Some (es ! i)"
proof (cases e)
  case None
  with assms(1-4) show ?thesis by (auto simp: contents_not_writing absent_def)
next
  case (Some x)
  with assms(1,2) obtain j where "j < MPIF_MAX_KEYVALS" "es ! j = x" "keyval x = kv"
    by (auto simp: contents_not_writing)
  with unique [of j] Some show ?thesis by simp
qed

lemma contents_absent:
  assumes "contents_ok kv es e l" and "absent es kv" and "location_ok kv es l"
  shows "e = None"
proof (cases "\<exists>j. l = Writing j")
  case True
  with assms show ?thesis by (auto simp: absent_def)
next
  case False
  with assms(1,2) show ?thesis by (auto simp: contents_not_writing absent_def split: option.splits)
qed

lemma absent_reserved:
  "absent es kv \<Longrightarrow> valid_keyval kv \<Longrightarrow> keyval e = KEYVAL_RESERVED \<Longrightarrow> absent (es[i := e]) kv"
  by (rule absent_update) (auto simp: valid_keyval_def)

lemma taken_below_writing:
  "taken_below es n \<Longrightarrow> keyval e = kv \<Longrightarrow> valid_keyval kv \<Longrightarrow> taken_below (es[i := e]) n"
  by (simp add: taken_below_update valid_keyval_def)

lemma own_writing:
  assumes ok: "thread_ok L kv es old th" and len: "length es = MPIF_MAX_KEYVALS"
    and valid: "valid_keyval kv"
    and pc: "pc th = Writing i" and step: "thread_step L C kv es th = (es', th')"
  shows "thread_ok L kv es' old th'"
proof -
  obtain kind callback where job: "hd (jobs th) = (kind, callback)" by (cases "hd (jobs th)") auto
  let ?e = "replay L kv old (past th)"
  from step pc job have es': "es' = es[i := set_payload kind callback (es ! i)]"
    and th': "th' = finish MPI_SUCCESS th" by (auto simp: thread_step_def)
  from ok pc have i: "i < MPIF_MAX_KEYVALS" "keyval (es ! i) = kv"
    and slot: "es ! i = (case ?e of None \<Rightarrow> \<lparr>keyval = kv, copy_fn = null, delete_fn = null\<rparr> | Some e \<Rightarrow> e)"
    and user: "callback \<notin> range (proc_addr L)"
    by (auto simp: thread_ok_def contents_ok_def job)
  have new: "recorded kv (kind, callback) ?e = set_payload kind callback (es ! i)"
    unfolding slot by (simp add: recorded_payload)
  have replay: "replay L kv old (past th') = Some (set_payload kind callback (es ! i))"
    using user by (simp add: th' finish_def job replay_snoc new)
  have th'_past: "past th' = past th @ [((kind, callback), MPI_SUCCESS)]" and idle: "pc th' = Idle"
    by (simp_all add: th' finish_def job)
  have "taken_below es' MPIF_MAX_KEYVALS" if "taken_below es MPIF_MAX_KEYVALS"
    using that i valid by (simp add: es' taken_below_writing)
  moreover have "es' ! i = set_payload kind callback (es ! i)"
    using i len by (simp add: es')
  then have "contents_ok kv es' (replay L kv old (past th')) (pc th')"
    using i by (auto simp: replay idle contents_ok_def)
  ultimately show ?thesis
    using ok by (auto simp: thread_ok_def idle th'_past)
qed

lemma contents_move:
  "contents_ok kv es e l \<Longrightarrow> \<forall>j. l \<noteq> Writing j \<Longrightarrow> \<forall>j. l' \<noteq> Writing j \<Longrightarrow> contents_ok kv es e l'"
  by (simp add: contents_not_writing)

lemma own_idle:
  assumes ok: "thread_ok L kv es old th" and pc: "pc th = Idle"
    and step: "thread_step L C kv es th = (es', th')"
  shows "thread_ok L kv es' old th'"
proof (cases "snd (hd (jobs th)) \<in> range (proc_addr L)")
  case True
  with pc step have "es' = es" "th' = finish MPI_SUCCESS th"
    by (auto simp: thread_step_def predefined_callback_None)
  with ok pc True show ?thesis
    by (cases "hd (jobs th)") (auto simp: thread_ok_def finish_def replay_snoc)
next
  case False
  with pc step have "es' = es" "th' = th\<lparr>pc := Finding 0\<rparr>"
    using predefined_callback_None [of L C] by (auto simp: thread_step_def)
  with ok pc False show ?thesis
    by (auto simp: thread_ok_def contents_not_writing)
qed

lemma own_finding:
  assumes ok: "thread_ok L kv es old th" and pc: "pc th = Finding i"
    and unique: "\<And>j. i < MPIF_MAX_KEYVALS \<Longrightarrow> keyval (es ! i) = kv \<Longrightarrow> j < MPIF_MAX_KEYVALS \<Longrightarrow>
      keyval (es ! j) = kv \<Longrightarrow> j = i"
    and step: "thread_step L C kv es th = (es', th')"
  shows "thread_ok L kv es' old th'"
proof -
  let ?e = "replay L kv old (past th)"
  from ok pc have i: "i \<le> MPIF_MAX_KEYVALS" "\<forall>j < i. keyval (es ! j) \<noteq> kv"
    and c: "contents_ok kv es ?e (Finding i)"
    by (simp_all add: thread_ok_def)
  consider "i = MPIF_MAX_KEYVALS" | "i < MPIF_MAX_KEYVALS" "keyval (es ! i) = kv"
    | "i < MPIF_MAX_KEYVALS" "keyval (es ! i) \<noteq> kv"
    using i(1) by linarith
  then show ?thesis
  proof cases
    case 1
    with pc step have "es' = es" "th' = th\<lparr>pc := Claiming 0\<rparr>"
      by (auto simp: thread_step_def)
    moreover have "location_ok kv es (Claiming 0)"
      using 1 i by (simp add: absent_def taken_below_def)
    moreover have "contents_ok kv es ?e (Claiming 0)" using c by (rule contents_move) simp_all
    ultimately show ?thesis using ok pc by (simp add: thread_ok_def)
  next
    case 2
    with pc step have "es' = es" "th' = th\<lparr>pc := Writing i\<rparr>"
      by (auto simp: thread_step_def)
    moreover have "?e = Some (es ! i)"
      by (rule contents_present [OF c]) (use 2 unique in blast)+
    ultimately show ?thesis using ok pc 2 by (auto simp: thread_ok_def contents_ok_def)
  next
    case 3
    with pc step have "es' = es" "th' = th\<lparr>pc := Finding (Suc i)\<rparr>"
      by (auto simp: thread_step_def)
    with ok pc 3 i show ?thesis
      by (auto simp: thread_ok_def contents_not_writing less_Suc_eq)
  qed
qed

lemma own_claiming:
  assumes ok: "thread_ok L kv es old th" and len: "length es = MPIF_MAX_KEYVALS"
    and valid: "valid_keyval kv" and pc: "pc th = Claiming i"
    and step: "thread_step L C kv es th = (es', th')"
  shows "thread_ok L kv es' old th'"
proof -
  let ?e = "replay L kv old (past th)"
  from ok pc have i: "i \<le> MPIF_MAX_KEYVALS" "absent es kv" "taken_below es i"
    and c: "contents_ok kv es ?e (Claiming i)"
    by (simp_all add: thread_ok_def)
  consider "i = MPIF_MAX_KEYVALS" | "i < MPIF_MAX_KEYVALS" "keyval (es ! i) = MPI_KEYVAL_INVALID"
    | "i < MPIF_MAX_KEYVALS" "keyval (es ! i) \<noteq> MPI_KEYVAL_INVALID"
    using i(1) by linarith
  then show ?thesis
  proof cases
    case 1
    with pc step have "es' = es" "th' = finish MPI_ERR_OTHER th"
      by (auto simp: thread_step_def)
    with ok pc 1 i show ?thesis
      by (cases "hd (jobs th)") (auto simp: thread_ok_def contents_not_writing finish_def replay_snoc)
  next
    case 2
    let ?r = "(es ! i)\<lparr>keyval := KEYVAL_RESERVED\<rparr>"
    from 2 pc step have s: "es' = es[i := ?r]" "th' = th\<lparr>pc := Clearing_copy i\<rparr>"
      by (auto simp: thread_step_def)
    from valid i have "absent es' kv" by (simp add: s absent_reserved)
    moreover have "?e = None" using contents_absent [OF c i(2)] i by simp
    moreover have "taken_below es' n" if "taken_below es n" for n
      using that by (simp add: s taken_below_update)
    ultimately show ?thesis
      using ok pc 2(1) len by (auto simp: thread_ok_def contents_not_writing s)
  next
    case 3
    with pc step have "es' = es" "th' = th\<lparr>pc := Claiming (Suc i)\<rparr>"
      by (auto simp: thread_step_def)
    with ok pc 3 i show ?thesis
      by (auto simp: thread_ok_def contents_not_writing less_Suc_eq taken_below_def)
  qed
qed

lemma own_reserved:
  assumes ok: "thread_ok L kv es old th" and len: "length es = MPIF_MAX_KEYVALS"
    and valid: "valid_keyval kv" and pc: "owned (pc th) = Some i"
    and step: "thread_step L C kv es th = (es', th')"
  shows "thread_ok L kv es' old th'"
proof -
  let ?e = "replay L kv old (past th)"
  from ok pc have i: "i < MPIF_MAX_KEYVALS" "absent es kv" "keyval (es ! i) = KEYVAL_RESERVED"
    by (auto simp: thread_ok_def elim!: owned.elims)
  have c: "contents_ok kv es ?e (pc th)" and l: "location_ok kv es (pc th)"
    using ok by (simp_all add: thread_ok_def)
  have e: "?e = None" by (rule contents_absent [OF c i(2) l])
  have taken: "taken_below (es[i := x]) n" if "taken_below es n" "keyval x \<noteq> MPI_KEYVAL_INVALID" for x n
    using that by (simp add: taken_below_update)
  have abs: "absent (es[i := x]) kv" if "keyval x = KEYVAL_RESERVED" for x
    using that i(2) valid by (simp add: absent_reserved)
  from pc consider "pc th = Clearing_copy i" | "pc th = Clearing_delete i" | "pc th = Publishing i"
    by (auto elim: owned.elims)
  then show ?thesis
  proof cases
    case 1
    with step have "es' = es[i := (es ! i)\<lparr>copy_fn := null\<rparr>]" "th' = th\<lparr>pc := Clearing_delete i\<rparr>"
      by (auto simp: thread_step_def)
    with ok i len e taken [of _ "(es ! i)\<lparr>copy_fn := null\<rparr>"] abs [of "(es ! i)\<lparr>copy_fn := null\<rparr>"] 1
    show ?thesis by (auto simp: thread_ok_def contents_not_writing)
  next
    case 2
    with step have "es' = es[i := (es ! i)\<lparr>delete_fn := null\<rparr>]" "th' = th\<lparr>pc := Publishing i\<rparr>"
      by (auto simp: thread_step_def)
    with ok i len e taken [of _ "(es ! i)\<lparr>delete_fn := null\<rparr>"] abs [of "(es ! i)\<lparr>delete_fn := null\<rparr>"] 2
    show ?thesis by (auto simp: thread_ok_def contents_not_writing)
  next
    case 3
    with step have "es' = es[i := (es ! i)\<lparr>keyval := kv\<rparr>]" "th' = th\<lparr>pc := Writing i\<rparr>"
      by (auto simp: thread_step_def)
    with ok i len e taken [of _ "(es ! i)\<lparr>keyval := kv\<rparr>"] valid 3
    show ?thesis by (auto simp: thread_ok_def contents_ok_def valid_keyval_def)
  qed
qed

lemma own_step:
  assumes ok: "thread_ok L kv es old th" and len: "length es = MPIF_MAX_KEYVALS"
    and valid: "valid_keyval kv"
    and unique: "\<And>i j. i < MPIF_MAX_KEYVALS \<Longrightarrow> keyval (es ! i) = kv \<Longrightarrow> j < MPIF_MAX_KEYVALS \<Longrightarrow>
      keyval (es ! j) = kv \<Longrightarrow> j = i"
    and step: "thread_step L C kv es th = (es', th')"
  shows "thread_ok L kv es' old th'"
proof (cases "pc th")
  case Idle
  then show ?thesis by (rule own_idle [OF ok _ step])
next
  case (Finding i)
  show ?thesis by (rule own_finding [OF ok Finding unique step])
next
  case (Claiming i)
  then show ?thesis by (rule own_claiming [OF ok len valid _ step])
next
  case (Writing i)
  then show ?thesis by (rule own_writing [OF ok len valid _ step])
qed (auto intro: own_reserved [OF ok len valid _ step])

text \<open>The facts of every other thread survive it too.\<close>

lemma others_step:
  assumes ok: "thread_ok L ku es old th" and "slot_change kv es l es' l'"
    and "valid_keyval ku" and "valid_keyval kv" and "ku \<noteq> kv"
    and apart: "\<And>i. owned l' = Some i \<or> owned l = Some i \<Longrightarrow> owned (pc th) \<noteq> Some i"
  shows "thread_ok L ku es' old th"
proof -
  have "thread_ok L ku (es[i := e]) old th"
    if "i < MPIF_MAX_KEYVALS" "keyval (es ! i) \<noteq> ku" "keyval e \<noteq> ku"
      "keyval e \<noteq> MPI_KEYVAL_INVALID" "owned (pc th) \<noteq> Some i" for i e
  proof -
    have abs: "absent es ku \<Longrightarrow> absent (es[i := e]) ku"
      and taken: "taken_below es n \<Longrightarrow> taken_below (es[i := e]) n" for n
      using that by (simp_all add: absent_update taken_below_update)
    have loc: "location_ok ku (es[i := e]) (pc th)"
      using ok that abs taken
      by (cases "pc th") (auto simp: thread_ok_def nth_list_update_if)
    have "contents_ok ku (es[i := e]) x (pc th)" if "contents_ok ku es x (pc th)" for x
    proof (cases "pc th")
      case (Writing j)
      with that ok \<open>keyval (es ! i) \<noteq> ku\<close> show ?thesis
        by (auto simp: contents_ok_def thread_ok_def nth_list_update_if)
    qed (use that abs \<open>keyval (es ! i) \<noteq> ku\<close> in
        \<open>auto simp: contents_ok_def nth_list_update_if split: option.splits\<close>)
    with ok loc taken show ?thesis by (auto simp: thread_ok_def)
  qed
  note update = this
  have notmine: "owned (pc th) \<noteq> Some i" if "keyval (es ! i) = kv" for i
    using ok that assms(4) by (cases "pc th") (auto simp: thread_ok_def valid_keyval_def)
  have ku: "MPI_KEYVAL_INVALID \<noteq> ku" "KEYVAL_RESERVED \<noteq> ku" "kv \<noteq> ku" "kv \<noteq> MPI_KEYVAL_INVALID"
    using assms by (auto simp: valid_keyval_def)
  from assms(2) show ?thesis
  proof cases
    case looking
    with ok show ?thesis by simp
  next
    case (claiming i e)
    with update [of i e] ku apart [of i] show ?thesis by simp
  next
    case (clearing i e)
    with update [of i e] ku apart [of i] show ?thesis by simp
  next
    case (publishing i e)
    with update [of i e] ku apart [of i] show ?thesis by simp
  next
    case (writing i e)
    with update [of i e] ku notmine [of i] show ?thesis by simp
  qed
qed

section \<open>All threads together\<close>

lemma owner_stays:
  assumes "\<exists>u. owned (ls u) = Some j" and "owned (ls t) \<noteq> Some j"
  shows "\<exists>u. owned ((ls(t := l')) u) = Some j"
  using assms by (metis fun_upd_apply)

lemma slots_ok_step:
  assumes ok: "slots_ok es ls" and change: "slot_change kv es (ls t) es' l'"
    and kv: "valid_keyval kv" and len: "length es = MPIF_MAX_KEYVALS"
    and owners: "\<And>u i. owned (ls u) = Some i \<Longrightarrow> keyval (es ! i) = KEYVAL_RESERVED"
  shows "slots_ok es' (ls(t := l'))"
  using change
proof cases
  case looking
  with ok show ?thesis by (auto simp: slots_ok_def) (metis option.distinct(1))
next
  case (claiming i e)
  then have free: "owned (ls u) \<noteq> Some i" for u using owners [of u i] by auto
  show ?thesis
    unfolding slots_ok_def
  proof (intro conjI allI impI)
    fix j
    assume j: "j < MPIF_MAX_KEYVALS" "keyval (es' ! j) = KEYVAL_RESERVED"
    show "\<exists>u. owned ((ls(t := l')) u) = Some j"
    proof (cases "j = i")
      case True
      with claiming show ?thesis by (intro exI [of _ t]) simp
    next
      case False
      with j ok claiming show ?thesis by (intro owner_stays) (auto simp: slots_ok_def)
    qed
  qed (use ok claiming free in \<open>auto simp: slots_ok_def split: if_splits\<close>)
next
  case (clearing i e)
  with ok show ?thesis
    by (auto simp: slots_ok_def nth_list_update_if) (metis option.sel)+
next
  case (publishing i e)
  show ?thesis
    unfolding slots_ok_def
  proof (intro conjI allI impI)
    fix j
    assume j: "j < MPIF_MAX_KEYVALS" "keyval (es' ! j) = KEYVAL_RESERVED"
    with publishing kv len have "j \<noteq> i" by (auto simp: valid_keyval_def)
    with j publishing have "keyval (es ! j) = KEYVAL_RESERVED" by simp
    with ok j publishing \<open>j \<noteq> i\<close> show "\<exists>u. owned ((ls(t := l')) u) = Some j"
      by (intro owner_stays) (auto simp: slots_ok_def)
  qed (use ok publishing in \<open>auto simp: slots_ok_def split: if_splits\<close>)
next
  case (writing i e)
  show ?thesis
    unfolding slots_ok_def
  proof (intro conjI allI impI)
    fix j
    assume j: "j < MPIF_MAX_KEYVALS" "keyval (es' ! j) = KEYVAL_RESERVED"
    with writing kv len have "j \<noteq> i" by (auto simp: valid_keyval_def)
    with j writing have "keyval (es ! j) = KEYVAL_RESERVED" by simp
    with ok j writing show "\<exists>u. owned ((ls(t := l')) u) = Some j"
      by (intro owner_stays) (auto simp: slots_ok_def)
  qed (use ok writing in \<open>auto simp: slots_ok_def split: if_splits\<close>)
qed

lemma distinct_ok_step:
  assumes "distinct_ok es" and "slot_change kv es l es' l'" and "valid_keyval kv"
    and "length es = MPIF_MAX_KEYVALS"
  shows "distinct_ok es' \<and> length es' = MPIF_MAX_KEYVALS"
  using assms(2)
proof cases
  case looking
  with assms show ?thesis by simp
next
  case (claiming i e)
  with assms show ?thesis by (auto simp: distinct_ok_def nth_list_update_if valid_keyval_def)
next
  case (clearing i e)
  with assms show ?thesis by (auto simp: distinct_ok_def nth_list_update_if valid_keyval_def)
next
  case (publishing i e)
  with assms show ?thesis by (auto simp: distinct_ok_def nth_list_update_if absent_def)
next
  case (writing i e)
  with assms show ?thesis by (auto simp: distinct_ok_def nth_list_update_if)
qed

lemma location_owned_reserved:
  "thread_ok L kv es old th \<Longrightarrow> owned (pc th) = Some i \<Longrightarrow> keyval (es ! i) = KEYVAL_RESERVED"
  by (cases "pc th") (auto simp: thread_ok_def)

lemma system_ok_step:
  assumes ok: "system_ok L es0 s" and step: "attr_step L C s kv s'"
  shows "system_ok L es0 s'"
proof -
  obtain es th where s': "s' = \<lparr>entries = es, threads = (threads s)(kv := th)\<rparr>"
    and jobs: "jobs (threads s kv) \<noteq> []"
    and th: "thread_step L C kv (entries s) (threads s kv) = (es, th)"
    using step by (auto elim: attr_stepE)
  have valid: "valid_keyval kv" using ok jobs by (auto simp: system_ok_def)
  have tok: "thread_ok L u (entries s) (attr_lookup es0 u) (threads s u)" if "valid_keyval u" for u
    using ok that by (simp add: system_ok_def)
  have len: "length (entries s) = MPIF_MAX_KEYVALS"
    and slots: "slots_ok (entries s) (\<lambda>u. pc (threads s u))" and dist: "distinct_ok (entries s)"
    using ok by (simp_all add: system_ok_def)
  have change: "slot_change kv (entries s) (pc (threads s kv)) es (pc th)"
    using thread_step_change [OF _ th] tok [OF valid] by (simp add: thread_ok_def)
  have owners: "keyval (entries s ! i) = KEYVAL_RESERVED"
    if "owned (pc (threads s u)) = Some i" for u i
    using ok that location_owned_reserved [OF tok] by (cases "valid_keyval u") (auto simp: system_ok_def)
  have slots': "slots_ok es ((\<lambda>u. pc (threads s u))(kv := pc th))"
    by (rule slots_ok_step [OF slots change valid len owners])
  have "thread_ok L kv es (attr_lookup es0 kv) th"
    by (rule own_step [OF tok [OF valid] len valid _ th]) (use dist valid in \<open>auto simp: distinct_ok_def\<close>)
  moreover have "thread_ok L u es (attr_lookup es0 u) (threads s u)"
    if "valid_keyval u" "u \<noteq> kv" for u
  proof (rule others_step [OF tok change])
    show "owned (pc (threads s u)) \<noteq> Some i"
      if "owned (pc th) = Some i \<or> owned (pc (threads s kv)) = Some i" for i
      using that \<open>u \<noteq> kv\<close> slots slots' unfolding slots_ok_def by (metis fun_upd_apply)
  qed (use that valid in auto)
  ultimately have "thread_ok L u es (attr_lookup es0 u) (threads s' u)" if "valid_keyval u" for u
    using that by (simp add: s')
  moreover have "(\<lambda>u. pc (threads s' u)) = (\<lambda>u. pc (threads s u))(kv := pc th)"
    by (auto simp: s')
  ultimately show ?thesis
    using slots' distinct_ok_step [OF dist change valid len] ok valid
    by (auto simp: system_ok_def s')
qed

lemma system_ok_start:
  assumes "attr_inv es0" and "\<forall>kv. J kv \<noteq> [] \<longrightarrow> valid_keyval kv"
  shows "system_ok L es0 (attr_start es0 J)"
proof -
  have "contents_ok kv es0 (attr_lookup es0 kv) Idle" if "valid_keyval kv" for kv
    using attr_lookup_Some [OF assms(1) that] assms(1)
    by (auto simp: contents_ok_def attr_lookup_None absent_def attr_inv_def split: option.splits)
  with assms show ?thesis
    by (auto simp: system_ok_def attr_start_def thread_ok_def replay_def slots_ok_def
        distinct_ok_def attr_inv_def valid_keyval_def)
qed

lemma system_ok_run:
  assumes "attr_run L C (attr_start es0 J) ts s"
    and "attr_inv es0" and "\<forall>kv. J kv \<noteq> [] \<longrightarrow> valid_keyval kv"
  shows "system_ok L es0 s"
  using assms
proof (induction rule: attr_run.induct)
  case start
  then show ?case by (intro system_ok_start)
next
  case more
  then show ?case by (blast intro: system_ok_step)
qed

section \<open>What every run guarantees\<close>

lemma distinct_lookup:
  assumes "distinct_ok es" and "length es = MPIF_MAX_KEYVALS" and "valid_keyval kv"
    and "i < MPIF_MAX_KEYVALS" and "keyval (es ! i) = kv"
  shows "attr_lookup es kv = Some (es ! i)"
proof -
  have "find_attr_entry es kv \<noteq> None"
    using assms nth_mem [of i es] by (auto simp: find_attr_entry_None)
  then obtain j where j: "find_attr_entry es kv = Some j" by blast
  then have "j < length es" "keyval (es ! j) = kv"
    by (simp_all add: find_attr_entry_def index_where_Some)
  with assms have "i = j" by (simp add: distinct_ok_def)
  with j show ?thesis by (simp add: attr_lookup_def)
qed

lemma absent_lookup: "absent es kv \<Longrightarrow> length es = MPIF_MAX_KEYVALS \<Longrightarrow> attr_lookup es kv = None"
  by (auto simp: attr_lookup_None absent_def in_set_conv_nth)

lemma thread_step_history:
  assumes "thread_step L C kv es th = (es', th')" and "jobs th \<noteq> []"
  shows "map fst (past th') @ jobs th' = map fst (past th) @ jobs th"
  using assms by (auto simp: thread_step_simps split: location.splits if_splits)

lemma attr_run_history:
  assumes "attr_run L C (attr_start es0 J) ts s"
  shows "map fst (past (threads s kv)) @ jobs (threads s kv) = J kv"
  using assms
proof (induction rule: attr_run.induct)
  case start
  then show ?case by (simp add: attr_start_def)
next
  case (more ts s u s')
  then show ?case using thread_step_history by (auto elim!: attr_stepE)
qed

lemma idle_lookup:
  assumes ok: "system_ok L es0 s" and valid: "valid_keyval kv" and idle: "pc (threads s kv) = Idle"
  shows "attr_lookup (entries s) kv = replay L kv (attr_lookup es0 kv) (past (threads s kv))"
proof -
  have c: "contents_ok kv (entries s) (replay L kv (attr_lookup es0 kv) (past (threads s kv))) Idle"
    using ok valid idle by (metis system_ok_def thread_ok_def)
  have len: "length (entries s) = MPIF_MAX_KEYVALS" and dist: "distinct_ok (entries s)"
    using ok by (simp_all add: system_ok_def)
  show ?thesis
  proof (cases "replay L kv (attr_lookup es0 kv) (past (threads s kv))")
    case None
    with c len show ?thesis by (simp add: contents_not_writing absent_lookup)
  next
    case (Some e)
    with c obtain j where "j < MPIF_MAX_KEYVALS" "entries s ! j = e" "keyval e = kv"
      by (auto simp: contents_not_writing)
    with Some distinct_lookup [OF dist len valid, of j] show ?thesis by simp
  qed
qed

text \<open>
  C2. Concurrent registrations do not disturb one another. In every interleaving of any number of
  keyval creations, each registering its callbacks for its own keyval, whenever a creation is not
  in the middle of a registration, the table answers for its keyval with exactly what its finished
  registrations recorded, in their order, on top of what the table held for that keyval at the
  start: as if it had run alone. Its registrations happen in program order, each returns
  \<open>MPI_SUCCESS\<close> or \<open>MPI_ERR_OTHER\<close>, and \<open>MPI_ERR_OTHER\<close> only when no slot is left free.
\<close>

theorem concurrent_registrations_as_if_alone:
  assumes "attr_run L C (attr_start es0 J) ts s" and "attr_inv es0"
    and "\<forall>kv. J kv \<noteq> [] \<longrightarrow> valid_keyval kv"
    and "valid_keyval kv" and "pc (threads s kv) = Idle"
  shows "attr_lookup (entries s) kv = replay L kv (attr_lookup es0 kv) (past (threads s kv)) \<and>
    map fst (past (threads s kv)) @ jobs (threads s kv) = J kv \<and>
    snd ` set (past (threads s kv)) \<subseteq> {MPI_SUCCESS, MPI_ERR_OTHER} \<and>
    (MPI_ERR_OTHER \<in> snd ` set (past (threads s kv)) \<longrightarrow> attr_full (entries s))"
proof -
  note ok = system_ok_run [OF assms(1-3)]
  have t: "thread_ok L kv (entries s) (attr_lookup es0 kv) (threads s kv)"
    and len: "length (entries s) = MPIF_MAX_KEYVALS"
    using ok assms(4) by (simp_all add: system_ok_def)
  have codes: "snd ` set (past (threads s kv)) \<subseteq> {MPI_SUCCESS, MPI_ERR_OTHER}"
    using t unfolding thread_ok_def by blast
  have full: "attr_full (entries s)" if "MPI_ERR_OTHER \<in> snd ` set (past (threads s kv))"
  proof -
    from that obtain a b where "((a, b), MPI_ERR_OTHER) \<in> set (past (threads s kv))"
      by auto
    with t have "taken_below (entries s) MPIF_MAX_KEYVALS" by (auto simp: thread_ok_def)
    with len show ?thesis by (auto simp: attr_full_def taken_below_def in_set_conv_nth)
  qed
  from idle_lookup [OF ok assms(4,5)] attr_run_history [OF assms(1)] codes full show ?thesis
    by blast
qed

text \<open>Two creations at once: keyval 7 is reused, keyval 9 is new.\<close>

definition demo_jobs :: "fint \<Rightarrow> job list" where
  "demo_jobs kv =
     (if kv = 7 then [(MPIF_ATTR_COMM_DELETE, 0x1005)]
      else if kv = 9 then [(MPIF_ATTR_WIN_COPY, 0x1007)] else [])"

abbreviation demo_old :: attr_table where
  "demo_old \<equiv> demo_table MPIF_ATTR_COMM_COPY MPIF_ATTR_COMM_DELETE"

lemma demo_old_slot:
  "keyval (demo_old ! 0) = 7 \<and> length demo_old = MPIF_MAX_KEYVALS \<and>
   demo_old ! 0 = \<lparr>keyval = 7, copy_fn = 0x1001, delete_fn = 0x1003\<rparr>"
  by (simp add: demo_table_def attr_entries_init_def recorded_payload)

lemma demo_old_inv: "attr_inv demo_old"
proof -
  have "attr_inv (attr_entries_init[0 := \<lparr>keyval = 7, copy_fn = 0x1001, delete_fn = 0x1003\<rparr>])"
    by (rule attr_slot_update(1) [OF attr_inv_init, where kv = 7])
      (auto simp: attr_entries_init_def valid_keyval_def attr_lookup_None)
  then show ?thesis by (simp add: demo_table_def recorded_payload)
qed

lemma demo_run:
  "attr_run packed_linkage C (attr_start demo_old demo_jobs) [7, 9, 7, 7]
     \<lparr>entries = demo_old[0 := \<lparr>keyval = 7, copy_fn = 0x1001, delete_fn = 0x1005\<rparr>],
      threads = (\<lambda>kv. \<lparr>pc = Idle, jobs = demo_jobs kv, past = []\<rparr>)
        (9 := \<lparr>pc = Finding 0, jobs = demo_jobs 9, past = []\<rparr>,
         7 := \<lparr>pc = Idle, jobs = [], past = [((MPIF_ATTR_COMM_DELETE, 0x1005), MPI_SUCCESS)]\<rparr>)\<rparr>"
proof -
  have user: "mpif_predefined_callback packed_linkage C a = None" if "\<not> 16 dvd unat a" for a
    using that not_in_packed_linkage by (simp add: predefined_callback_None)
  let ?th = "\<lambda>l kv. \<lparr>pc = l, jobs = demo_jobs kv, past = []\<rparr>"
  let ?s = "\<lambda>l l'. \<lparr>entries = demo_old, threads = (?th Idle)(9 := ?th l' 9, 7 := ?th l 7)\<rparr>"
  have r0: "attr_run packed_linkage C (attr_start demo_old demo_jobs) [] (?s Idle Idle)"
    using attr_run.start [of packed_linkage C] by (simp add: attr_start_def fun_upd_idem)
  have s1: "attr_step packed_linkage C (?s Idle Idle) 7 (?s (Finding 0) Idle)"
    using attr_step.step [of "?s Idle Idle" 7 packed_linkage C demo_old "?th (Finding 0) 7"]
    by (simp add: thread_step_def user demo_jobs_def)
  have s2: "attr_step packed_linkage C (?s (Finding 0) Idle) 9 (?s (Finding 0) (Finding 0))"
    using attr_step.step [of "?s (Finding 0) Idle" 9 packed_linkage C demo_old "?th (Finding 0) 9"]
    by (simp add: thread_step_def user demo_jobs_def fun_upd_twist [of 7 9])
  have s3: "attr_step packed_linkage C (?s (Finding 0) (Finding 0)) 7
      (?s (Writing 0) (Finding 0))"
    using attr_step.step [of "?s (Finding 0) (Finding 0)" 7 packed_linkage C demo_old "?th (Writing 0) 7"]
    by (simp add: thread_step_def demo_jobs_def demo_old_slot)
  have s4: "attr_step packed_linkage C (?s (Writing 0) (Finding 0)) 7
     \<lparr>entries = demo_old[0 := \<lparr>keyval = 7, copy_fn = 0x1001, delete_fn = 0x1005\<rparr>],
      threads = (?th Idle)(9 := ?th (Finding 0) 9,
        7 := \<lparr>pc = Idle, jobs = [], past = [((MPIF_ATTR_COMM_DELETE, 0x1005), MPI_SUCCESS)]\<rparr>)\<rparr>"
    using attr_step.step [of "?s (Writing 0) (Finding 0)" 7 packed_linkage C]
    by (simp add: thread_step_simps demo_jobs_def demo_old_slot)
  from attr_run.more [OF attr_run.more [OF attr_run.more [OF attr_run.more [OF r0 s1] s2] s3] s4]
  show ?thesis by simp
qed

theorem concurrent_registrations_as_if_alone_witness:
  "attr_lookup (demo_old[0 := \<lparr>keyval = 7, copy_fn = 0x1001, delete_fn = 0x1005\<rparr>]) 7 =
   Some \<lparr>keyval = 7, copy_fn = 0x1001, delete_fn = 0x1005\<rparr>"
proof -
  have "attr_lookup demo_old 7 = Some (demo_old ! 0)"
    using demo_old_slot by (intro attr_lookup_eqI demo_old_inv) (auto simp: valid_keyval_def)
  moreover have "0x1005 \<notin> range (proc_addr packed_linkage)" by (rule not_in_packed_linkage) simp
  ultimately show ?thesis
    using concurrent_registrations_as_if_alone
      [OF demo_run demo_old_inv, of 7] demo_old_slot
    by (simp add: demo_jobs_def valid_keyval_def replay_def recorded_payload)
qed

text \<open>
  C3. The reservation protocol. At every moment of every interleaving, a slot is reserved exactly
  while one creation, and no other, is filling it in, and no keyval is published in two slots. Once no creation is in the middle of
  a registration, the table satisfies the invariant of the sequential code.
\<close>

theorem reserved_slot_has_one_owner:
  assumes "attr_run L C (attr_start es0 J) ts s" and "attr_inv es0"
    and "\<forall>kv. J kv \<noteq> [] \<longrightarrow> valid_keyval kv"
  shows "(\<forall>i < MPIF_MAX_KEYVALS.
       keyval (entries s ! i) = KEYVAL_RESERVED \<longleftrightarrow> (\<exists>!kv. owned (pc (threads s kv)) = Some i)) \<and>
     (\<forall>i < MPIF_MAX_KEYVALS. \<forall>j < MPIF_MAX_KEYVALS.
       keyval (entries s ! i) = keyval (entries s ! j) \<and> valid_keyval (keyval (entries s ! i)) \<longrightarrow> i = j) \<and>
     ((\<forall>kv. pc (threads s kv) = Idle) \<longrightarrow> attr_inv (entries s))"
proof -
  note ok = system_ok_run [OF assms]
  have slots: "slots_ok (entries s) (\<lambda>kv. pc (threads s kv))" and dist: "distinct_ok (entries s)"
    and len: "length (entries s) = MPIF_MAX_KEYVALS"
    using ok by (simp_all add: system_ok_def)
  have owner: "keyval (entries s ! i) = KEYVAL_RESERVED"
    if "owned (pc (threads s kv)) = Some i" for kv i
    using ok that location_owned_reserved [of L kv "entries s" _ "threads s kv" i]
    by (cases "valid_keyval kv") (auto simp: system_ok_def)
  have one: "keyval (entries s ! i) = KEYVAL_RESERVED \<longleftrightarrow>
      (\<exists>!kv. owned (pc (threads s kv)) = Some i)" if "i < MPIF_MAX_KEYVALS" for i
    using slots owner that unfolding slots_ok_def by metis
  moreover have "attr_inv (entries s)" if idle: "\<forall>kv. pc (threads s kv) = Idle"
  proof -
    have unreserved: "keyval (entries s ! i) \<noteq> KEYVAL_RESERVED" if "i < MPIF_MAX_KEYVALS" for i
      using one [OF that] idle by auto
    then have "keyval e \<noteq> KEYVAL_RESERVED" if "e \<in> set (entries s)" for e
      using that len by (auto simp: in_set_conv_nth)
    with dist len unreserved show ?thesis by (auto simp: attr_inv_def distinct_ok_def valid_keyval_def)
  qed
  moreover have "\<forall>i < MPIF_MAX_KEYVALS. \<forall>j < MPIF_MAX_KEYVALS.
      keyval (entries s ! i) = keyval (entries s ! j) \<and> valid_keyval (keyval (entries s ! i)) \<longrightarrow> i = j"
    using dist unfolding distinct_ok_def by blast
  ultimately show ?thesis by blast
qed

theorem reserved_slot_has_one_owner_witness:
  "keyval (demo_old[0 := \<lparr>keyval = 7, copy_fn = 0x1001, delete_fn = 0x1005\<rparr>] ! 0) \<noteq> KEYVAL_RESERVED"
proof -
  have valid: "\<forall>kv. demo_jobs kv \<noteq> [] \<longrightarrow> valid_keyval kv"
    by (simp add: demo_jobs_def valid_keyval_def)
  show ?thesis
    using reserved_slot_has_one_owner [OF demo_run demo_old_inv valid]
    by simp (metis fun_upd_apply option.distinct(1) owned.simps(4,5) thread.select_convs(1))
qed

text \<open>How many steps a thread can still take.\<close>

fun location_rank :: "location \<Rightarrow> nat" where
  "location_rank Idle = 519"
| "location_rank (Finding i) = 262 + (MPIF_MAX_KEYVALS - i)"
| "location_rank (Claiming i) = 5 + (MPIF_MAX_KEYVALS - i)"
| "location_rank (Clearing_copy i) = 4"
| "location_rank (Clearing_delete i) = 3"
| "location_rank (Publishing i) = 2"
| "location_rank (Writing i) = 1"

definition thread_rank :: "thread \<Rightarrow> nat" where
  "thread_rank th =
     (if jobs th = [] then 0 else 519 * (length (jobs th) - 1) + location_rank (pc th))"

lemma thread_step_rank:
  assumes "thread_step L C kv es th = (es', th')" and "jobs th \<noteq> []"
  shows "thread_rank th' < thread_rank th"
proof -
  obtain job rest where "jobs th = job # rest" using assms(2) by (cases "jobs th") auto
  with assms(1) show ?thesis
    by (cases rest) (auto simp: thread_step_simps thread_rank_def split: location.splits if_splits)
qed

text \<open>
  C40. Registration is wait-free: a keyval creation registering \<open>n\<close> callbacks takes at most
  \<open>519 * n\<close> steps of its own (two scans of the 256 slots and a few more), whatever the others do
  and however the steps interleave, and as long as it is not finished it can take a step, so a
  thread that is scheduled often enough finishes; no thread ever waits for another.
\<close>

theorem registration_is_wait_free:
  assumes "attr_run L C (attr_start es0 J) ts s"
  shows "count_list ts kv + thread_rank (threads s kv) \<le> 519 * length (J kv) \<and>
    ((\<exists>s'. attr_step L C s kv s') \<longleftrightarrow> jobs (threads s kv) \<noteq> []) \<and>
    (count_list ts kv = 519 * length (J kv) \<longrightarrow> jobs (threads s kv) = [])"
proof -
  have "count_list ts kv + thread_rank (threads s kv) \<le> 519 * length (J kv)"
    using assms
  proof (induction rule: attr_run.induct)
    case start
    then show ?case by (cases "J kv") (auto simp: attr_start_def thread_rank_def)
  next
    case (more ts s u s')
    from more.hyps(2) obtain es th where "thread_step L C u (entries s) (threads s u) = (es, th)"
      "jobs (threads s u) \<noteq> []" "s' = \<lparr>entries = es, threads = (threads s)(u := th)\<rparr>"
      by (auto elim: attr_stepE)
    with more.IH thread_step_rank [of L C u "entries s" "threads s u" es th] show ?case
      by (cases "u = kv") auto
  qed
  moreover have "thread_rank (threads s kv) = 0 \<longleftrightarrow> jobs (threads s kv) = []"
    by (cases "pc (threads s kv)") (auto simp: thread_rank_def)
  moreover have "(\<exists>s'. attr_step L C s kv s') \<longleftrightarrow> jobs (threads s kv) \<noteq> []"
    using attr_step.step [of s kv L C] by (auto elim: attr_stepE) (metis surj_pair)
  ultimately show ?thesis by auto
qed

theorem registration_is_wait_free_witness:
  "count_list [7, 9, 7, 7] (9 :: fint) + thread_rank \<lparr>pc = Finding 0, jobs = demo_jobs 9, past = []\<rparr> \<le> 519"
  using registration_is_wait_free [OF demo_run, of 9] by (simp add: demo_jobs_def)

end
