(* ===== verification/Slot_Pools.thy ===== *)
theory Slot_Pools
  imports Logicals
begin

text \<open>
  The trampoline pools of \<open>src/mpif_callbacks.c\<close>: 128 slots for reduction operators, 64 for error
  handlers. MPI tells a callback nothing about which operator or handler is running, so each slot
  has code of its own that knows the slot; a slot is given out once and taken back only when
  MPI refused to create the object.
\<close>

section \<open>Slots\<close>

text \<open>\<open>struct op_slot\<close> and \<open>struct errhandler_slot\<close> have the same two fields.\<close>

record pool_slot =
  in_use :: fint
  fn :: addr

type_synonym pool = "pool_slot list"

abbreviation MPIF_OP_SLOTS :: nat where "MPIF_OP_SLOTS \<equiv> 128"
abbreviation MPIF_ERRHANDLER_SLOTS :: nat where "MPIF_ERRHANDLER_SLOTS \<equiv> 64"

definition op_slots_init :: pool where
  "op_slots_init = replicate MPIF_OP_SLOTS \<lparr>in_use = 0, fn = null\<rparr>"

definition errhandler_slots_init :: pool where
  "errhandler_slots_init = replicate MPIF_ERRHANDLER_SLOTS \<lparr>in_use = 0, fn = null\<rparr>"

text \<open>The loop both pools share: the first slot whose compare-and-swap from 0 to 1 succeeds.\<close>

definition first_free :: "pool \<Rightarrow> nat option" where
  "first_free ss = index_where (\<lambda>s. in_use s = 0) ss"

definition occupy :: "nat \<Rightarrow> addr \<Rightarrow> pool \<Rightarrow> pool" where
  "occupy i callback ss =
     (let ss = ss[i := (ss ! i)\<lparr>in_use := 1\<rparr>] in ss[i := (ss ! i)\<lparr>fn := callback\<rparr>])"

definition vacate :: "nat \<Rightarrow> pool \<Rightarrow> pool" where
  "vacate i ss =
     (let ss = ss[i := (ss ! i)\<lparr>fn := null\<rparr>] in ss[i := (ss ! i)\<lparr>in_use := 0\<rparr>])"

section \<open>Reduction operators\<close>

text \<open>The two arrays of generated trampolines; the code of one is its name and slot.\<close>

datatype op_code = op_trampoline nat | op_trampoline_c nat

text \<open>The trampoline, or nothing for NULL, and the slot stored through the last argument.\<close>

definition mpif_op_reserve :: "addr \<Rightarrow> fint \<Rightarrow> pool \<Rightarrow> op_code option \<times> fint \<times> pool" where
  "mpif_op_reserve callback large ss =
     (case first_free ss of
        Some i \<Rightarrow>
          (Some (if large \<noteq> 0 then op_trampoline_c i else op_trampoline i),
           of_nat i, occupy i callback ss)
      | None \<Rightarrow> (None, - 1, ss))"

definition mpif_op_cancel :: "fint \<Rightarrow> pool \<Rightarrow> pool" where
  "mpif_op_cancel slot ss =
     (if sint slot < 0 \<or> sint slot \<ge> int MPIF_OP_SLOTS then ss else vacate (unat slot) ss)"

text \<open>
  A reduction procedure changes memory; what it does is a parameter, a function of its address
  and the arguments, on memory of any type. The buffers pass through as addresses.
\<close>

record 'm fortran_op =
  run_user_fn :: "addr \<Rightarrow> addr \<Rightarrow> addr \<Rightarrow> fint \<Rightarrow> fint \<Rightarrow> 'm \<Rightarrow> 'm"
  run_user_fn_c :: "addr \<Rightarrow> addr \<Rightarrow> addr \<Rightarrow> count \<Rightarrow> fint \<Rightarrow> 'm \<Rightarrow> 'm"

definition call_user_fn ::
    "'m fortran_op \<Rightarrow> handle_api \<Rightarrow> pool \<Rightarrow> nat \<Rightarrow> addr \<Rightarrow> addr \<Rightarrow> fint \<Rightarrow> handle \<Rightarrow> 'm \<Rightarrow> fault + 'm" where
  "call_user_fn F H ss slot invec inoutvec len datatype m =
     bindE (read_at ss slot) (\<lambda>s.
       if fn s = null then Inr m
       else bindE (toint_checked H Type datatype) (\<lambda>f_datatype.
         Inr (run_user_fn F (fn s) invec inoutvec len f_datatype m)))"

definition call_user_fn_c ::
    "'m fortran_op \<Rightarrow> handle_api \<Rightarrow> pool \<Rightarrow> nat \<Rightarrow> addr \<Rightarrow> addr \<Rightarrow> count \<Rightarrow> handle \<Rightarrow> 'm \<Rightarrow> fault + 'm" where
  "call_user_fn_c F H ss slot invec inoutvec len datatype m =
     bindE (read_at ss slot) (\<lambda>s.
       if fn s = null then Inr m
       else bindE (toint_checked H Type datatype) (\<lambda>f_datatype.
         Inr (run_user_fn_c F (fn s) invec inoutvec len f_datatype m)))"

text \<open>
  MPI applying an operator, with an \<open>int\<close> length or with a count; calling code through a pointer
  of the other type is undefined.
\<close>

fun enter_op ::
    "'m fortran_op \<Rightarrow> handle_api \<Rightarrow> pool \<Rightarrow> op_code \<Rightarrow> addr \<Rightarrow> addr \<Rightarrow> fint \<Rightarrow> handle \<Rightarrow> 'm \<Rightarrow> fault + 'm" where
  "enter_op F H ss (op_trampoline slot) invec inoutvec len datatype m =
     call_user_fn F H ss slot invec inoutvec len datatype m"
| "enter_op F H ss (op_trampoline_c slot) invec inoutvec len datatype m = Inl Indeterminate"

fun enter_op_c ::
    "'m fortran_op \<Rightarrow> handle_api \<Rightarrow> pool \<Rightarrow> op_code \<Rightarrow> addr \<Rightarrow> addr \<Rightarrow> count \<Rightarrow> handle \<Rightarrow> 'm \<Rightarrow> fault + 'm" where
  "enter_op_c F H ss (op_trampoline_c slot) invec inoutvec len datatype m =
     call_user_fn_c F H ss slot invec inoutvec len datatype m"
| "enter_op_c F H ss (op_trampoline slot) invec inoutvec len datatype m = Inl Indeterminate"

section \<open>Error handlers\<close>

text \<open>\<open>kind\<close> is an \<open>enum mpif_errhandler_kind\<close>, which C lets hold any integer.\<close>

abbreviation MPIF_ERRHANDLER_COMM :: fint where "MPIF_ERRHANDLER_COMM \<equiv> 0"
abbreviation MPIF_ERRHANDLER_WIN :: fint where "MPIF_ERRHANDLER_WIN \<equiv> 1"
abbreviation MPIF_ERRHANDLER_FILE :: fint where "MPIF_ERRHANDLER_FILE \<equiv> 2"
abbreviation MPIF_ERRHANDLER_SESSION :: fint where "MPIF_ERRHANDLER_SESSION \<equiv> 3"

datatype errhandler_code =
    comm_errhandler_trampoline nat
  | win_errhandler_trampoline nat
  | file_errhandler_trampoline nat
  | session_errhandler_trampoline nat

definition mpif_errhandler_cancel :: "fint \<Rightarrow> pool \<Rightarrow> pool" where
  "mpif_errhandler_cancel slot ss =
     (if sint slot < 0 \<or> sint slot \<ge> int MPIF_ERRHANDLER_SLOTS then ss else vacate (unat slot) ss)"

definition mpif_errhandler_reserve ::
    "addr \<Rightarrow> fint \<Rightarrow> pool \<Rightarrow> errhandler_code option \<times> fint \<times> pool" where
  "mpif_errhandler_reserve callback kind ss =
     (case first_free ss of
        Some i \<Rightarrow>
          (let ss = occupy i callback ss; slot = of_nat i
           in if kind = MPIF_ERRHANDLER_COMM then (Some (comm_errhandler_trampoline i), slot, ss)
              else if kind = MPIF_ERRHANDLER_WIN then (Some (win_errhandler_trampoline i), slot, ss)
              else if kind = MPIF_ERRHANDLER_FILE then (Some (file_errhandler_trampoline i), slot, ss)
              else if kind = MPIF_ERRHANDLER_SESSION
                then (Some (session_errhandler_trampoline i), slot, ss)
              else (None, slot, mpif_errhandler_cancel (of_nat i) ss))
      | None \<Rightarrow> (None, - 1, ss))"

text \<open>
  The Fortran handler gets the handle and the error code by reference; the code it leaves is
  what MPI sees. The parameter gives that code and what the handler does to the program's state.
\<close>

type_synonym 'm fortran_errhandler = "addr \<Rightarrow> fint \<Rightarrow> fint \<Rightarrow> 'm \<Rightarrow> fint \<times> 'm"

definition call_errhandler ::
    "hkind \<Rightarrow> 'm fortran_errhandler \<Rightarrow> handle_api \<Rightarrow> pool \<Rightarrow> nat \<Rightarrow> handle \<Rightarrow> fint \<Rightarrow> 'm \<Rightarrow>
     fault + fint \<times> 'm" where
  "call_errhandler k F H ss slot hdl error_code m =
     bindE (read_at ss slot) (\<lambda>s.
       if fn s = null then Inr (error_code, m)
       else bindE (toint_checked H k hdl) (\<lambda>f_handle. Inr (F (fn s) f_handle error_code m)))"

definition call_comm_errhandler ::
    "'m fortran_errhandler \<Rightarrow> handle_api \<Rightarrow> pool \<Rightarrow> nat \<Rightarrow> handle \<Rightarrow> fint \<Rightarrow> 'm \<Rightarrow>
     fault + fint \<times> 'm" where
  "call_comm_errhandler = call_errhandler Comm"

definition call_win_errhandler ::
    "'m fortran_errhandler \<Rightarrow> handle_api \<Rightarrow> pool \<Rightarrow> nat \<Rightarrow> handle \<Rightarrow> fint \<Rightarrow> 'm \<Rightarrow>
     fault + fint \<times> 'm" where
  "call_win_errhandler = call_errhandler Win"

definition call_file_errhandler ::
    "'m fortran_errhandler \<Rightarrow> handle_api \<Rightarrow> pool \<Rightarrow> nat \<Rightarrow> handle \<Rightarrow> fint \<Rightarrow> 'm \<Rightarrow>
     fault + fint \<times> 'm" where
  "call_file_errhandler = call_errhandler File"

definition call_session_errhandler ::
    "'m fortran_errhandler \<Rightarrow> handle_api \<Rightarrow> pool \<Rightarrow> nat \<Rightarrow> handle \<Rightarrow> fint \<Rightarrow> 'm \<Rightarrow>
     fault + fint \<times> 'm" where
  "call_session_errhandler = call_errhandler Session"

fun enter_errhandler ::
    "'m fortran_errhandler \<Rightarrow> handle_api \<Rightarrow> pool \<Rightarrow> errhandler_code \<Rightarrow> handle \<Rightarrow> fint \<Rightarrow> 'm \<Rightarrow>
     fault + fint \<times> 'm" where
  "enter_errhandler F H ss (comm_errhandler_trampoline slot) hdl code m =
     call_comm_errhandler F H ss slot hdl code m"
| "enter_errhandler F H ss (win_errhandler_trampoline slot) hdl code m =
     call_win_errhandler F H ss slot hdl code m"
| "enter_errhandler F H ss (file_errhandler_trampoline slot) hdl code m =
     call_file_errhandler F H ss slot hdl code m"
| "enter_errhandler F H ss (session_errhandler_trampoline slot) hdl code m =
     call_session_errhandler F H ss slot hdl code m"

section \<open>The interface: a pool of slots\<close>

text \<open>
  \<open>target s i\<close> is what a slot that has been given out calls. A reservation takes a free slot below
  the capacity and changes no other; it fails only when every slot is taken; cancelling frees
  one slot.
\<close>

locale slot_pool =
  fixes inv :: "'s \<Rightarrow> bool"
    and capacity :: nat
    and target :: "'s \<Rightarrow> nat \<Rightarrow> 'd option"
    and reserve :: "'d \<Rightarrow> 's \<Rightarrow> (nat \<times> 's) option"
    and cancel :: "nat \<Rightarrow> 's \<Rightarrow> 's"
  assumes reserve_inv: "inv s \<Longrightarrow> reserve d s = Some (i, s') \<Longrightarrow> inv s'"
    and reserve_free: "inv s \<Longrightarrow> reserve d s = Some (i, s') \<Longrightarrow> i < capacity \<and> target s i = None"
    and reserve_target: "inv s \<Longrightarrow> reserve d s = Some (i, s') \<Longrightarrow> target s' = (target s)(i \<mapsto> d)"
    and reserve_None: "inv s \<Longrightarrow> reserve d s = None \<Longrightarrow> i < capacity \<Longrightarrow> target s i \<noteq> None"
    and bounded: "inv s \<Longrightarrow> target s i \<noteq> None \<Longrightarrow> i < capacity"
    and cancel_inv: "inv s \<Longrightarrow> i < capacity \<Longrightarrow> inv (cancel i s)"
    and cancel_target: "inv s \<Longrightarrow> i < capacity \<Longrightarrow> target (cancel i s) = (target s)(i := None)"
begin

text \<open>
  A program's creations, each with whether MPI accepts it; one MPI refuses is cancelled. The
  result lists the slots of those that exist afterwards.
\<close>

primrec create :: "('d \<times> bool) list \<Rightarrow> 's \<Rightarrow> nat option list \<times> 's" where
  "create [] s = ([], s)"
| "create (c # cs) s =
     (case reserve (fst c) s of
        None \<Rightarrow> apfst (Cons None) (create cs s)
      | Some (i, s') \<Rightarrow>
          if snd c then apfst (Cons (Some i)) (create cs s')
          else apfst (Cons None) (create cs (cancel i s')))"

lemma refused_creation_is_undone:
  assumes "inv s" and "reserve d s = Some (i, s')"
  shows "inv (cancel i s')" and "target (cancel i s') = target s"
  using reserve_inv [OF assms] reserve_free [OF assms] reserve_target [OF assms]
  by (auto simp: cancel_inv cancel_target)

lemma create_inv: "inv s \<Longrightarrow> inv (snd (create cs s))"
  by (induction cs arbitrary: s)
    (auto split: option.splits intro: reserve_inv refused_creation_is_undone)

lemma create_length: "length (fst (create cs s)) = length cs"
  by (induction cs arbitrary: s) (auto split: option.splits)

text \<open>A slot in use keeps its target for ever.\<close>

lemma create_keeps: "inv s \<Longrightarrow> target s i = Some d \<Longrightarrow> target (snd (create cs s)) i = Some d"
proof (induction cs arbitrary: s)
  case Nil
  then show ?case by simp
next
  case (Cons c cs)
  show ?case
  proof (cases "reserve (fst c) s")
    case None
    with Cons show ?thesis by simp
  next
    case (Some r)
    obtain j s' where r: "r = (j, s')" by (cases r) auto
    with Some have res: "reserve (fst c) s = Some (j, s')" by simp
    have "j \<noteq> i" using reserve_free [OF Cons.prems(1) res] Cons.prems(2) by auto
    with reserve_target [OF Cons.prems(1) res] Cons.prems have "target s' i = Some d" by simp
    moreover have "inv s'" by (rule reserve_inv [OF Cons.prems(1) res])
    ultimately show ?thesis
      using Cons.IH [of s'] Cons.IH [of "cancel j s'"] Cons.prems res
        refused_creation_is_undone [OF Cons.prems(1) res]
      by simp
  qed
qed

text \<open>The object created by the \<open>k\<close>-th creation runs the procedure it was created with.\<close>

lemma create_target:
  "inv s \<Longrightarrow> k < length cs \<Longrightarrow> fst (create cs s) ! k = Some i \<Longrightarrow>
   target s i = None \<and> target (snd (create cs s)) i = Some (fst (cs ! k)) \<and> snd (cs ! k)"
proof (induction cs arbitrary: s k)
  case Nil
  then show ?case by simp
next
  case (Cons c cs)
  show ?case
  proof (cases "reserve (fst c) s")
    case None
    with Cons show ?thesis by (cases k) auto
  next
    case (Some r)
    obtain j s' where r: "r = (j, s')" by (cases r) auto
    with Some have res: "reserve (fst c) s = Some (j, s')" by simp
    have inv': "inv s'" by (rule reserve_inv [OF Cons.prems(1) res])
    note tgt = reserve_target [OF Cons.prems(1) res] and free = reserve_free [OF Cons.prems(1) res]
    note undone = refused_creation_is_undone [OF Cons.prems(1) res]
    show ?thesis
    proof (cases k)
      case 0
      with Cons.prems res tgt free create_keeps [OF inv', of j "fst c" cs] show ?thesis
        by (auto split: if_splits)
    next
      case (Suc k')
      with Cons.prems res Cons.IH [OF inv', of k'] Cons.IH [OF undone(1), of k'] tgt undone(2)
      show ?thesis by (auto split: if_splits)
    qed
  qed
qed

lemma create_distinct:
  assumes "inv s" and "j < k" and "k < length cs"
    and "fst (create cs s) ! j = Some i" and "fst (create cs s) ! k = Some i'"
  shows "i \<noteq> i'"
  using assms
proof (induction cs arbitrary: s j k)
  case Nil
  then show ?case by simp
next
  case (Cons c cs)
  then obtain k' where k: "k = Suc k'" by (cases k) auto
  show ?case
  proof (cases "reserve (fst c) s")
    case None
    with Cons k show ?thesis by (cases j) auto
  next
    case (Some r)
    obtain l s' where r: "r = (l, s')" by (cases r) auto
    with Some have res: "reserve (fst c) s = Some (l, s')" by simp
    have inv': "inv s'" by (rule reserve_inv [OF Cons.prems(1) res])
    note tgt = reserve_target [OF Cons.prems(1) res]
    note undone = refused_creation_is_undone [OF Cons.prems(1) res]
    show ?thesis
    proof (cases j)
      case 0
      with Cons.prems k res have "i = l" "fst (create cs s') ! k' = Some i'"
        by (auto split: if_splits)
      with create_target [OF inv', of k' cs i'] tgt Cons.prems k show ?thesis by auto
    next
      case (Suc j')
      with Cons.prems k res Cons.IH [OF inv', of j' k'] Cons.IH [OF undone(1), of j' k']
      show ?thesis by (auto split: if_splits)
    qed
  qed
qed

definition used :: "'s \<Rightarrow> nat set" where
  "used s = {i. target s i \<noteq> None}"

lemma used_card:
  assumes "inv s"
  shows "finite (used s)" and "card (used s) \<le> capacity"
    and "(\<forall>i < capacity. target s i \<noteq> None) \<longleftrightarrow> card (used s) = capacity"
proof -
  have sub: "used s \<subseteq> {..<capacity}" using bounded [OF assms] by (auto simp: used_def)
  then show "finite (used s)" by (rule finite_subset) simp
  show "card (used s) \<le> capacity" using card_mono [OF _ sub] by simp
  show "(\<forall>i < capacity. target s i \<noteq> None) \<longleftrightarrow> card (used s) = capacity"
  proof
    assume "\<forall>i < capacity. target s i \<noteq> None"
    with sub have "used s = {..<capacity}" by (auto simp: used_def)
    then show "card (used s) = capacity" by simp
  next
    assume "card (used s) = capacity"
    with sub have "used s = {..<capacity}" by (intro card_subset_eq) auto
    then show "\<forall>i < capacity. target s i \<noteq> None" by (auto simp: used_def)
  qed
qed

text \<open>An accepted creation gets no slot only after \<open>capacity\<close> objects have been created.\<close>

lemma create_count:
  "inv s \<Longrightarrow>
   card (used (snd (create cs s))) = card (used s) + length (filter (\<lambda>r. r \<noteq> None) (fst (create cs s)))"
proof (induction cs arbitrary: s)
  case Nil
  then show ?case by simp
next
  case (Cons c cs)
  show ?case
  proof (cases "reserve (fst c) s")
    case None
    with Cons show ?thesis by simp
  next
    case (Some r)
    obtain l s' where r: "r = (l, s')" by (cases r) auto
    with Some have res: "reserve (fst c) s = Some (l, s')" by simp
    have inv': "inv s'" by (rule reserve_inv [OF Cons.prems res])
    note undone = refused_creation_is_undone [OF Cons.prems res]
    have "used s' = insert l (used s)" "l \<notin> used s"
      using reserve_target [OF Cons.prems res] reserve_free [OF Cons.prems res]
      by (auto simp: used_def)
    then have "card (used s') = Suc (card (used s))"
      using used_card(1) [OF Cons.prems] by simp
    moreover have "used (cancel l s') = used s" using undone(2) by (simp add: used_def)
    ultimately show ?thesis
      using res Cons.IH [OF inv'] Cons.IH [OF undone(1)] by simp
  qed
qed

lemma create_refused:
  "inv s \<Longrightarrow> k < length cs \<Longrightarrow> snd (cs ! k) \<Longrightarrow> fst (create cs s) ! k = None \<Longrightarrow>
   card (used s) + length (filter (\<lambda>r. r \<noteq> None) (take k (fst (create cs s)))) = capacity"
proof (induction cs arbitrary: s k)
  case Nil
  then show ?case by simp
next
  case (Cons c cs)
  show ?case
  proof (cases "reserve (fst c) s")
    case None
    then have "card (used s) = capacity"
      using reserve_None [OF Cons.prems(1) None] used_card(3) [OF Cons.prems(1)] by simp
    moreover have "card (used s) + length (filter (\<lambda>r. r \<noteq> None) (fst (create cs s))) \<le> capacity"
      using create_count [OF Cons.prems(1), of cs] used_card(2) [OF create_inv [OF Cons.prems(1)], of cs]
      by simp
    ultimately have "filter (\<lambda>r. r \<noteq> None) (fst (create cs s)) = []" by simp
    then have "filter (\<lambda>r. r \<noteq> None) (take j (fst (create cs s))) = []" for j
      by (auto simp: filter_empty_conv dest: in_set_takeD)
    with None \<open>card (used s) = capacity\<close> show ?thesis by (cases k) simp_all
  next
    case (Some r)
    obtain l s' where r: "r = (l, s')" by (cases r) auto
    with Some have res: "reserve (fst c) s = Some (l, s')" by simp
    have inv': "inv s'" by (rule reserve_inv [OF Cons.prems(1) res])
    note undone = refused_creation_is_undone [OF Cons.prems(1) res]
    have "used s' = insert l (used s)" "l \<notin> used s"
      using reserve_target [OF Cons.prems(1) res] reserve_free [OF Cons.prems(1) res]
      by (auto simp: used_def)
    then have "card (used s') = Suc (card (used s))"
      using used_card(1) [OF Cons.prems(1)] by simp
    moreover have "used (cancel l s') = used s" using undone(2) by (simp add: used_def)
    ultimately show ?thesis
      using res Cons.prems Cons.IH [OF inv', of "k - 1"] Cons.IH [OF undone(1), of "k - 1"]
      by (cases k) auto
  qed
qed

end

section \<open>The two pools\<close>

definition pool_inv :: "nat \<Rightarrow> pool \<Rightarrow> bool" where
  "pool_inv n ss \<longleftrightarrow> length ss = n \<and> (\<forall>s \<in> set ss. in_use s \<in> {0, 1})"

definition pool_target :: "pool \<Rightarrow> nat \<Rightarrow> addr option" where
  "pool_target ss i = (if i < length ss \<and> in_use (ss ! i) \<noteq> 0 then Some (fn (ss ! i)) else None)"

lemma occupy_eq: "occupy i callback ss = ss[i := \<lparr>in_use = 1, fn = callback\<rparr>]"
  by (cases "ss ! i"; cases "i < length ss") (simp_all add: occupy_def list_update_beyond)

lemma vacate_eq: "vacate i ss = ss[i := \<lparr>in_use = 0, fn = null\<rparr>]"
  by (cases "ss ! i"; cases "i < length ss") (simp_all add: vacate_def list_update_beyond)

lemma pool_inv_init [simp]:
  "pool_inv MPIF_OP_SLOTS op_slots_init" "pool_inv MPIF_ERRHANDLER_SLOTS errhandler_slots_init"
  by (simp_all add: pool_inv_def op_slots_init_def errhandler_slots_init_def)

lemma pool_target_init [simp]:
  "pool_target op_slots_init i = None" "pool_target errhandler_slots_init i = None"
  by (simp_all add: pool_target_def op_slots_init_def errhandler_slots_init_def)

lemma pool_inv_occupy: "pool_inv n ss \<Longrightarrow> pool_inv n (occupy i callback ss)"
  using set_update_subset_insert [of ss i] by (fastforce simp: pool_inv_def occupy_eq)

lemma pool_inv_vacate: "pool_inv n ss \<Longrightarrow> pool_inv n (vacate i ss)"
  using set_update_subset_insert [of ss i] by (fastforce simp: pool_inv_def vacate_eq)

lemma pool_target_occupy:
  "i < length ss \<Longrightarrow> pool_target (occupy i callback ss) = (pool_target ss)(i \<mapsto> callback)"
  by (auto simp: pool_target_def occupy_eq nth_list_update_if fun_eq_iff)

lemma pool_target_vacate: "pool_target (vacate i ss) = (pool_target ss)(i := None)"
  by (auto simp: pool_target_def vacate_eq nth_list_update_if fun_eq_iff)

lemma first_free_Some: "first_free ss = Some i \<Longrightarrow> i < length ss \<and> pool_target ss i = None"
  by (simp add: first_free_def index_where_Some pool_target_def)

lemma first_free_None: "first_free ss = None \<Longrightarrow> i < length ss \<Longrightarrow> pool_target ss i \<noteq> None"
  by (simp add: first_free_def index_where_None pool_target_def)

text \<open>The laws of a pool, over the shared loop.\<close>

lemma pool_laws:
  assumes "pool_inv n ss"
  shows "first_free ss = Some i \<Longrightarrow> i < n \<and> pool_target ss i = None"
    and "first_free ss = Some i \<Longrightarrow> pool_target (occupy i d ss) = (pool_target ss)(i \<mapsto> d)"
    and "first_free ss = None \<Longrightarrow> i < n \<Longrightarrow> pool_target ss i \<noteq> None"
    and "pool_target ss i \<noteq> None \<Longrightarrow> i < n"
proof -
  have len: "length ss = n" using assms by (simp add: pool_inv_def)
  show "first_free ss = Some i \<Longrightarrow> i < n \<and> pool_target ss i = None"
    and "first_free ss = Some i \<Longrightarrow> pool_target (occupy i d ss) = (pool_target ss)(i \<mapsto> d)"
    and "first_free ss = None \<Longrightarrow> i < n \<Longrightarrow> pool_target ss i \<noteq> None"
    using first_free_Some [of ss i] first_free_None [of ss i] len
    by (auto simp: pool_target_occupy)
  show "pool_target ss i \<noteq> None \<Longrightarrow> i < n"
    using len by (simp add: pool_target_def split: if_splits)
qed

text \<open>The slot number is stored in an \<open>int\<close> and comes back from one.\<close>

lemma slot_index:
  assumes "i < 128"
  shows "sint (of_nat i :: fint) = int i" and "unat (of_nat i :: fint) = i"
proof -
  show "unat (of_nat i :: fint) = i" using assms by (simp add: unat_of_nat)
  show "sint (of_nat i :: fint) = int i"
    using assms by (simp add: signed_of_nat signed_take_bit_int_eq_self)
qed

lemma op_cancel_slot: "i < MPIF_OP_SLOTS \<Longrightarrow> mpif_op_cancel (of_nat i) ss = vacate i ss"
  by (simp add: mpif_op_cancel_def slot_index)

lemma errhandler_cancel_slot:
  "i < MPIF_ERRHANDLER_SLOTS \<Longrightarrow> mpif_errhandler_cancel (of_nat i) ss = vacate i ss"
  by (simp add: mpif_errhandler_cancel_def slot_index)

text \<open>What the creating wrappers see of a reservation: the slot, when there is a trampoline.\<close>

definition op_reserved :: "addr \<Rightarrow> pool \<Rightarrow> (nat \<times> pool) option" where
  "op_reserved callback ss =
     (case mpif_op_reserve callback 0 ss of
        (None, _, _) \<Rightarrow> None | (Some _, slot, ss') \<Rightarrow> Some (unat slot, ss'))"

definition errhandler_reserved :: "addr \<Rightarrow> pool \<Rightarrow> (nat \<times> pool) option" where
  "errhandler_reserved callback ss =
     (case mpif_errhandler_reserve callback MPIF_ERRHANDLER_COMM ss of
        (None, _, _) \<Rightarrow> None | (Some _, slot, ss') \<Rightarrow> Some (unat slot, ss'))"

lemma op_reserved_eq:
  "pool_inv MPIF_OP_SLOTS ss \<Longrightarrow>
   op_reserved callback ss = map_option (\<lambda>i. (i, occupy i callback ss)) (first_free ss)"
  by (auto simp: op_reserved_def mpif_op_reserve_def pool_inv_def slot_index split: option.splits
      dest!: first_free_Some)

lemma errhandler_reserved_eq:
  "pool_inv MPIF_ERRHANDLER_SLOTS ss \<Longrightarrow>
   errhandler_reserved callback ss = map_option (\<lambda>i. (i, occupy i callback ss)) (first_free ss)"
  by (auto simp: errhandler_reserved_def mpif_errhandler_reserve_def pool_inv_def slot_index
      split: option.splits dest!: first_free_Some)

interpretation ops: slot_pool "pool_inv MPIF_OP_SLOTS" MPIF_OP_SLOTS pool_target op_reserved
    "\<lambda>i. mpif_op_cancel (of_nat i)"
  by unfold_locales
    (auto simp: op_reserved_eq op_cancel_slot pool_inv_occupy pool_inv_vacate pool_target_vacate pool_laws
      dest: pool_laws(3))

interpretation errhandlers: slot_pool "pool_inv MPIF_ERRHANDLER_SLOTS" MPIF_ERRHANDLER_SLOTS
    pool_target errhandler_reserved "\<lambda>i. mpif_errhandler_cancel (of_nat i)"
  by unfold_locales
    (auto simp: errhandler_reserved_eq errhandler_cancel_slot pool_inv_occupy pool_inv_vacate pool_target_vacate pool_laws
      dest: pool_laws(3))

section \<open>Creating operators\<close>

text \<open>
  \<open>MPI_Op_create\<close> and its \<open>_c\<close> form are parameters, over a state of MPI of any type: the error code
  and the handle they leave in the variable that came in as \<open>MPI_OP_NULL\<close>.
\<close>

record 'w op_api =
  MPI_Op_create :: "profile \<Rightarrow> op_code \<Rightarrow> fint \<Rightarrow> handle \<Rightarrow> 'w \<Rightarrow> fint \<times> handle \<times> 'w"
  MPI_Op_create_c :: "profile \<Rightarrow> op_code \<Rightarrow> fint \<Rightarrow> handle \<Rightarrow> 'w \<Rightarrow> fint \<times> handle \<times> 'w"

text \<open>What a call leaves: the handle argument where it is written, \<open>*ierror\<close>, and the trampoline it handed to MPI, if it called MPI.\<close>

record 'c creation =
  out_handle :: "fint option"
  out_ierror :: fint
  handed :: "'c option"

text \<open>\<open>large\<close> is 1 in the wrappers of the \<open>_c\<close> routine and 0 in the others.\<close>

definition mpi_op_create ::
    "'w op_api \<Rightarrow> logical_repr \<Rightarrow> handle_api \<Rightarrow> profile \<Rightarrow> fint \<Rightarrow> addr \<Rightarrow> fint \<Rightarrow> pool \<times> 'w \<Rightarrow>
     fault + op_code creation \<times> pool \<times> 'w" where
  "mpi_op_create M B H pr large user_fn commute = (\<lambda>(ss, w).
     (case mpif_op_reserve user_fn large ss of
        (None, slot, ss) \<Rightarrow>
          bindE (toint_checked H Op MPI_OP_NULL) (\<lambda>opr.
            Inr (\<lparr>out_handle = Some opr, out_ierror = MPI_ERR_OTHER, handed = None\<rparr>, ss, w))
      | (Some code, slot, ss) \<Rightarrow>
          (let (ierror, c_op, w) =
                 (if large = 0 then MPI_Op_create M else MPI_Op_create_c M)
                   pr code (mpif_logical2bool B commute) MPI_OP_NULL w;
               ss = (if ierror \<noteq> MPI_SUCCESS then mpif_op_cancel slot ss else ss)
           in bindE (toint_checked H Op c_op) (\<lambda>opr.
                Inr (\<lparr>out_handle = Some opr, out_ierror = ierror, handed = Some code\<rparr>, ss, w)))))"

text \<open>A program's creations, in order.\<close>

record op_call =
  call_profile :: profile
  call_large :: fint
  call_user :: addr
  call_commute :: fint

primrec op_program ::
    "'w op_api \<Rightarrow> logical_repr \<Rightarrow> handle_api \<Rightarrow> op_call list \<Rightarrow> pool \<times> 'w \<Rightarrow>
     fault + op_code creation list \<times> pool \<times> 'w" where
  "op_program M B H [] s = Inr ([], s)"
| "op_program M B H (c # cs) s =
     bindE (mpi_op_create M B H (call_profile c) (call_large c) (call_user c) (call_commute c) s)
       (\<lambda>(r, s). bindE (op_program M B H cs s) (\<lambda>(rs, s). Inr (r # rs, s)))"

fun op_slot_of :: "op_code \<Rightarrow> nat" where
  "op_slot_of (op_trampoline i) = i"
| "op_slot_of (op_trampoline_c i) = i"

text \<open>The slot a creation leaves in use.\<close>

definition kept :: "('c \<Rightarrow> nat) \<Rightarrow> 'c creation \<Rightarrow> nat option" where
  "kept slot_of r = (if out_ierror r = MPI_SUCCESS then map_option slot_of (handed r) else None)"

definition accepted :: "'c creation \<Rightarrow> bool" where
  "accepted r \<longleftrightarrow> handed r = None \<or> out_ierror r = MPI_SUCCESS"

lemma op_reserve_cases:
  assumes "pool_inv MPIF_OP_SLOTS ss"
  obtains (full) "first_free ss = None" "op_reserved d ss = None" "mpif_op_reserve d large ss = (None, - 1, ss)"
  | (slot) i where "i < MPIF_OP_SLOTS" "first_free ss = Some i"
      "op_reserved d ss = Some (i, occupy i d ss)"
      "mpif_op_reserve d large ss =
         (Some (if large = 0 then op_trampoline i else op_trampoline_c i), of_nat i, occupy i d ss)"
proof (cases "first_free ss")
  case None
  with assms show thesis by (intro full) (simp_all add: op_reserved_eq mpif_op_reserve_def)
next
  case (Some i)
  with assms pool_laws(1) [OF assms Some] show thesis
    by (intro slot [of i]) (simp_all add: op_reserved_eq mpif_op_reserve_def)
qed

lemma op_create_full:
  assumes "mpi_op_create M B H pr large d commute (ss, w) = Inr (r, ss', w')"
    and "mpif_op_reserve d large ss = (None, - 1, ss)"
  shows "handed r = None \<and> ss' = ss \<and> (\<exists>opr. out_handle r = Some opr \<and> toint H Op MPI_OP_NULL = Some opr) \<and>
    out_ierror r = MPI_ERR_OTHER"
  using assms by (auto simp: mpi_op_create_def toint_checked_def split: option.splits)

lemma op_create_slot:
  assumes "mpi_op_create M B H pr large d commute (ss, w) = Inr (r, ss', w')"
    and "mpif_op_reserve d large ss = (Some code, slot, ss1)"
  shows "handed r = Some code \<and> ss' = (if out_ierror r = MPI_SUCCESS then ss1 else mpif_op_cancel slot ss1)"
  using assms by (auto simp: mpi_op_create_def toint_checked_def Let_def split: option.splits prod.splits)

lemma op_create_step:
  assumes inv: "pool_inv MPIF_OP_SLOTS ss"
    and call: "mpi_op_create M B H pr large d commute (ss, w) = Inr (r, ss', w')"
  shows "ops.create ((d, accepted r) # cs) ss = apfst (Cons (kept op_slot_of r)) (ops.create cs ss')"
    and "pool_inv MPIF_OP_SLOTS ss'"
    and "handed r = Some code \<Longrightarrow>
      code = (if large = 0 then op_trampoline (op_slot_of code) else op_trampoline_c (op_slot_of code))"
    and "handed r = None \<Longrightarrow> (\<exists>opr. out_handle r = Some opr \<and> toint H Op MPI_OP_NULL = Some opr) \<and> out_ierror r = MPI_ERR_OTHER"
proof -
  have "ops.create ((d, accepted r) # cs) ss = apfst (Cons (kept op_slot_of r)) (ops.create cs ss') \<and>
    pool_inv MPIF_OP_SLOTS ss' \<and>
    (handed r = Some code \<longrightarrow>
      code = (if large = 0 then op_trampoline (op_slot_of code) else op_trampoline_c (op_slot_of code))) \<and>
    (handed r = None \<longrightarrow> (\<exists>opr. out_handle r = Some opr \<and> toint H Op MPI_OP_NULL = Some opr) \<and> out_ierror r = MPI_ERR_OTHER)"
  proof (rule op_reserve_cases [OF inv, of d large])
    assume "op_reserved d ss = None" "mpif_op_reserve d large ss = (None, - 1, ss)"
    with op_create_full [OF call] inv show ?thesis by (simp add: kept_def)
  next
    fix i
    assume i: "i < MPIF_OP_SLOTS" and res: "op_reserved d ss = Some (i, occupy i d ss)"
      "mpif_op_reserve d large ss =
         (Some (if large = 0 then op_trampoline i else op_trampoline_c i), of_nat i, occupy i d ss)"
    note out = op_create_slot [OF call res(2)]
    have pools: "pool_inv MPIF_OP_SLOTS (occupy i d ss)"
      "pool_inv MPIF_OP_SLOTS (mpif_op_cancel (of_nat i) (occupy i d ss))"
      using inv i by (simp_all add: op_cancel_slot pool_inv_occupy pool_inv_vacate)
    show ?thesis
      using out res(1) pools by (auto simp: kept_def accepted_def)
  qed
  then show "ops.create ((d, accepted r) # cs) ss = apfst (Cons (kept op_slot_of r)) (ops.create cs ss')"
    and "pool_inv MPIF_OP_SLOTS ss'"
    and "handed r = Some code \<Longrightarrow>
      code = (if large = 0 then op_trampoline (op_slot_of code) else op_trampoline_c (op_slot_of code))"
    and "handed r = None \<Longrightarrow> (\<exists>opr. out_handle r = Some opr \<and> toint H Op MPI_OP_NULL = Some opr) \<and> out_ierror r = MPI_ERR_OTHER"
    by simp_all
qed

text \<open>A program's creations are a run of the pool.\<close>

lemma op_program_create:
  assumes "op_program M B H calls (ss, w) = Inr (rs, ss', w')" and "pool_inv MPIF_OP_SLOTS ss"
  shows "length rs = length calls \<and>
    ops.create (map2 (\<lambda>c r. (call_user c, accepted r)) calls rs) ss = (map (kept op_slot_of) rs, ss') \<and>
    pool_inv MPIF_OP_SLOTS ss'"
  using assms
proof (induction calls arbitrary: ss w rs)
  case Nil
  then show ?case by simp
next
  case (Cons c calls)
  then obtain r ss1 w1 rs1 where
    one: "mpi_op_create M B H (call_profile c) (call_large c) (call_user c) (call_commute c) (ss, w)
      = Inr (r, ss1, w1)"
    and rest: "op_program M B H calls (ss1, w1) = Inr (rs1, ss', w')" and rs: "rs = r # rs1"
    by (auto simp: outcome_simps split: prod.splits)
  note step = op_create_step [OF Cons.prems(2) one]
  from Cons.IH [OF rest step(2)] step(1) show ?case by (simp add: rs)
qed

lemma op_program_nth:
  assumes "op_program M B H calls (ss, w) = Inr (rs, ss', w')" and "pool_inv MPIF_OP_SLOTS ss"
    and "k < length calls"
  shows "(\<forall>code. handed (rs ! k) = Some code \<longrightarrow>
      code = (if call_large (calls ! k) = 0 then op_trampoline (op_slot_of code)
              else op_trampoline_c (op_slot_of code))) \<and>
    (handed (rs ! k) = None \<longrightarrow>
      (\<exists>opr. out_handle (rs ! k) = Some opr \<and> toint H Op MPI_OP_NULL = Some opr) \<and> out_ierror (rs ! k) = MPI_ERR_OTHER)"
  using assms
proof (induction calls arbitrary: ss w rs k)
  case Nil
  then show ?case by simp
next
  case (Cons c calls)
  then obtain r ss1 w1 rs1 where
    one: "mpi_op_create M B H (call_profile c) (call_large c) (call_user c) (call_commute c) (ss, w)
      = Inr (r, ss1, w1)"
    and rest: "op_program M B H calls (ss1, w1) = Inr (rs1, ss', w')" and rs: "rs = r # rs1"
    by (auto simp: outcome_simps split: prod.splits)
  note step = op_create_step [OF Cons.prems(2) one]
  show ?case
  proof (cases k)
    case 0
    with step(3,4) rs show ?thesis by auto
  next
    case (Suc k')
    with Cons.IH [OF rest step(2), of k'] Cons.prems(3) rs show ?thesis by simp
  qed
qed

lemma pool_target_read:
  "pool_target ss i = Some d \<Longrightarrow> \<exists>s. read_at ss i = Inr s \<and> fn s = d"
  by (auto simp: pool_target_def read_at_def split: if_splits)

lemma op_program_split:
  assumes "op_program M B H calls s = Inr (rs, s')" and "k < length calls"
  shows "\<exists>ss1 w1 ss2 w2. op_program M B H (take k calls) s = Inr (take k rs, ss1, w1) \<and>
    mpi_op_create M B H (call_profile (calls ! k)) (call_large (calls ! k)) (call_user (calls ! k))
      (call_commute (calls ! k)) (ss1, w1) = Inr (rs ! k, ss2, w2)"
  using assms
proof (induction calls arbitrary: s rs k)
  case Nil
  then show ?case by simp
next
  case (Cons c calls)
  then obtain r s1 rs1 where
    one: "mpi_op_create M B H (call_profile c) (call_large c) (call_user c) (call_commute c) s = Inr (r, s1)"
    and rest: "op_program M B H calls s1 = Inr (rs1, s')" and rs: "rs = r # rs1"
    by (auto simp: outcome_simps split: prod.splits)
  obtain ss w where s: "s = (ss, w)" by (cases s)
  obtain ss1 w1 where s1: "s1 = (ss1, w1)" by (cases s1)
  show ?case
  proof (cases k)
    case 0
    with one s s1 rs show ?thesis by auto
  next
    case (Suc k')
    with Cons.IH [OF rest, of k'] Cons.prems(2) one rs show ?thesis by (auto simp: outcome_simps)
  qed
qed

lemma op_program_count:
  assumes "op_program M B H calls (op_slots_init, w) = Inr (rs, ss, w')"
  shows "length (filter (\<lambda>r. out_ierror r = MPI_SUCCESS) rs) = card (ops.used ss)"
    and "pool_inv MPIF_OP_SLOTS ss"
proof -
  let ?cs = "map2 (\<lambda>c r. (call_user c, accepted r)) calls rs"
  note prog = op_program_create [OF assms pool_inv_init(1)]
  have "kept op_slot_of r \<noteq> None \<longleftrightarrow> out_ierror r = MPI_SUCCESS" if mem: "r \<in> set rs" for r
  proof -
    obtain i where i: "i < length calls" "r = rs ! i"
      using mem prog by (auto simp: in_set_conv_nth)
    with op_program_nth [OF assms pool_inv_init(1) i(1)] show ?thesis
      by (cases "handed r") (auto simp: kept_def)
  qed
  then have "filter (\<lambda>r. kept op_slot_of r \<noteq> None) rs = filter (\<lambda>r. out_ierror r = MPI_SUCCESS) rs"
    by (rule filter_cong [OF refl])
  then have "length (filter (\<lambda>r. r \<noteq> None) (map (kept op_slot_of) rs)) =
      length (filter (\<lambda>r. out_ierror r = MPI_SUCCESS) rs)"
    by (simp add: filter_map o_def)
  moreover have "ops.used op_slots_init = {}" by (simp add: ops.used_def)
  ultimately show "length (filter (\<lambda>r. out_ierror r = MPI_SUCCESS) rs) = card (ops.used ss)"
    using ops.create_count [OF pool_inv_init(1), of ?cs] prog by simp
  show "pool_inv MPIF_OP_SLOTS ss" using prog by simp
qed

lemma op_create_handed:
  assumes "pool_inv MPIF_OP_SLOTS ss"
    and "mpi_op_create M B H pr large d commute (ss, w) = Inr (r, ss', w')"
  shows "handed r = None \<longleftrightarrow> (\<forall>i < MPIF_OP_SLOTS. pool_target ss i \<noteq> None)"
proof (rule op_reserve_cases [OF assms(1), of d large])
  assume full: "first_free ss = None" "mpif_op_reserve d large ss = (None, - 1, ss)"
  with op_create_full [OF assms(2)] pool_laws(3) [OF assms(1) full(1)] show ?thesis by simp
next
  fix i
  assume i: "i < MPIF_OP_SLOTS" and free: "first_free ss = Some i" and
    "mpif_op_reserve d large ss =
       (Some (if large = 0 then op_trampoline i else op_trampoline_c i), of_nat i, occupy i d ss)"
  from op_create_slot [OF assms(2) this(3)] pool_laws(1) [OF assms(1) free] show ?thesis by auto
qed

text \<open>
  C4. Every reduction operator runs its own procedure, for the whole program. Whatever sequence of
  operator creations a program makes, of either size and under either name, and whatever MPI
  does with them, the trampoline handed to MPI for a creation that succeeded calls exactly the
  Fortran procedure that creation was given, with the buffers passed through, the length and
  the converted datatype; and no two operators share a trampoline.
\<close>

theorem operators_reach_their_procedure:
  assumes "op_program M B H calls (op_slots_init, w) = Inr (rs, ss, w')" and "k < length calls"
    and "out_ierror (rs ! k) = MPI_SUCCESS" and "handed (rs ! k) = Some code"
    and "call_user (calls ! k) \<noteq> null" and "toint H Type dt = Some f"
  shows "(call_large (calls ! k) = 0 \<longrightarrow>
        enter_op F H ss code a b len dt m = Inr (run_user_fn F (call_user (calls ! k)) a b len f m)) \<and>
    (call_large (calls ! k) \<noteq> 0 \<longrightarrow>
        enter_op_c F H ss code a b len_c dt m =
          Inr (run_user_fn_c F (call_user (calls ! k)) a b len_c f m)) \<and>
    (\<forall>j < k. out_ierror (rs ! j) = MPI_SUCCESS \<longrightarrow> handed (rs ! j) \<noteq> Some code)"
proof -
  let ?cs = "map2 (\<lambda>c r. (call_user c, accepted r)) calls rs"
  note prog = op_program_create [OF assms(1) pool_inv_init(1)]
  note kth = op_program_nth [OF assms(1) pool_inv_init(1)]
  have len: "length rs = length calls" and cr: "ops.create ?cs op_slots_init = (map (kept op_slot_of) rs, ss)"
    using prog by simp_all
  have slot: "fst (ops.create ?cs op_slots_init) ! k = Some (op_slot_of code)"
    using assms(2-4) len by (simp add: cr kept_def)
  have "pool_target ss (op_slot_of code) = Some (call_user (calls ! k))"
    using ops.create_target [OF pool_inv_init(1), of k ?cs "op_slot_of code"] slot assms(2) len
    by (simp add: cr)
  then obtain s where s: "read_at ss (op_slot_of code) = Inr s" "fn s = call_user (calls ! k)"
    using pool_target_read by blast
  have code: "code = (if call_large (calls ! k) = 0 then op_trampoline (op_slot_of code)
                      else op_trampoline_c (op_slot_of code))"
    using kth [OF assms(2)] assms(4) by simp
  have "handed (rs ! j) \<noteq> Some code" if "j < k" "out_ierror (rs ! j) = MPI_SUCCESS" for j
  proof
    assume "handed (rs ! j) = Some code"
    with that have "fst (ops.create ?cs op_slots_init) ! j = Some (op_slot_of code)"
      using assms(2) len by (simp add: cr kept_def)
    with ops.create_distinct [OF pool_inv_init(1) that(1), of ?cs] slot assms(2) len show False by simp
  qed
  moreover have "enter_op F H ss code a b len dt m = Inr (run_user_fn F (call_user (calls ! k)) a b len f m)"
    if "call_large (calls ! k) = 0"
    using code that s assms(5,6) by (cases code) (simp_all add: call_user_fn_def toint_checked_def)
  moreover have "enter_op_c F H ss code a b len_c dt m =
      Inr (run_user_fn_c F (call_user (calls ! k)) a b len_c f m)"
    if "call_large (calls ! k) \<noteq> 0"
    using code that s assms(5,6) by (cases code) (simp_all add: call_user_fn_c_def toint_checked_def)
  ultimately show ?thesis by blast
qed

text \<open>An MPI that accepts every other creation, and a procedure that adds.\<close>

definition demo_op_api :: "nat op_api" where
  "demo_op_api =
     \<lparr>MPI_Op_create = (\<lambda>pr code commute h n. (if even n then MPI_ERR_ARG else MPI_SUCCESS, h, Suc n)),
      MPI_Op_create_c = (\<lambda>pr code commute h n. (if even n then MPI_ERR_ARG else MPI_SUCCESS, h, Suc n))\<rparr>"

definition demo_calls :: "op_call list" where
  "demo_calls =
     [\<lparr>call_profile = MPI, call_large = 0, call_user = 0x501, call_commute = 1\<rparr>,
      \<lparr>call_profile = MPI, call_large = 0, call_user = 0x601, call_commute = 1\<rparr>]"

definition demo_fortran_op :: "int fortran_op" where
  "demo_fortran_op =
     \<lparr>run_user_fn = (\<lambda>p a b len dt m. m + uint p + sint len),
      run_user_fn_c = (\<lambda>p a b len dt m. m + uint p + sint len)\<rparr>"

lemma first_free_init: "first_free op_slots_init = Some 0"
  by (simp add: first_free_def index_where_Some op_slots_init_def)

lemma demo_op_program:
  "op_program demo_op_api gfortran_logical identity_handles demo_calls (op_slots_init, 0) =
   Inr ([\<lparr>out_handle = Some 0x20, out_ierror = MPI_ERR_ARG, handed = Some (op_trampoline 0)\<rparr>,
         \<lparr>out_handle = Some 0x20, out_ierror = MPI_SUCCESS, handed = Some (op_trampoline 0)\<rparr>],
        occupy 0 0x601 op_slots_init, 2)"
proof -
  have "vacate 0 (occupy 0 0x501 op_slots_init) = op_slots_init"
    by (simp add: vacate_eq occupy_eq op_slots_init_def list_update_same_conv)
  then show ?thesis
    by (simp add: demo_calls_def mpi_op_create_def mpif_op_reserve_def first_free_init demo_op_api_def
        toint_checked_def identity_handles_def to_fint_def mpif_op_cancel_def)
qed

theorem operators_reach_their_procedure_witness:
  "enter_op demo_fortran_op identity_handles (occupy 0 0x601 op_slots_init) (op_trampoline 0) 8 16 3 1 100 =
   Inr (0x601 + 103)"
  using operators_reach_their_procedure
    [OF demo_op_program, of 1 "op_trampoline 0" 1 1 demo_fortran_op 8 16 3 100]
  by (simp add: demo_calls_def identity_handles_def to_fint_def demo_fortran_op_def)

text \<open>
  The budget of operators counts operators that exist. A creation gets as far as MPI unless 128
  earlier ones succeeded; creations MPI refuses use nothing up. One that finds no slot fails with
  \<open>MPI_ERR_OTHER\<close>, leaves \<open>MPI_OP_NULL\<close> in the handle, and changes nothing.
\<close>

theorem operator_budget:
  assumes "op_program M B H calls (op_slots_init, w) = Inr (rs, ss, w')" and "k < length calls"
  shows "(handed (rs ! k) = None \<longleftrightarrow>
       length (filter (\<lambda>r. out_ierror r = MPI_SUCCESS) (take k rs)) = MPIF_OP_SLOTS) \<and>
    length (filter (\<lambda>r. out_ierror r = MPI_SUCCESS) rs) \<le> MPIF_OP_SLOTS \<and>
    (handed (rs ! k) = None \<longrightarrow>
       (\<exists>opr. out_handle (rs ! k) = Some opr \<and> toint H Op MPI_OP_NULL = Some opr) \<and> out_ierror (rs ! k) = MPI_ERR_OTHER)"
proof -
  obtain ss1 w1 ss2 w2 where
    before: "op_program M B H (take k calls) (op_slots_init, w) = Inr (take k rs, ss1, w1)"
    and one: "mpi_op_create M B H (call_profile (calls ! k)) (call_large (calls ! k))
      (call_user (calls ! k)) (call_commute (calls ! k)) (ss1, w1) = Inr (rs ! k, ss2, w2)"
    using op_program_split [OF assms] by blast
  note upto = op_program_count [OF before]
  have "handed (rs ! k) = None \<longleftrightarrow> card (ops.used ss1) = MPIF_OP_SLOTS"
    using op_create_handed [OF upto(2) one] ops.used_card(3) [OF upto(2)] by simp
  moreover have "length (filter (\<lambda>r. out_ierror r = MPI_SUCCESS) rs) \<le> MPIF_OP_SLOTS"
    using op_program_count [OF assms(1)] ops.used_card(2) by metis
  ultimately show ?thesis
    using upto(1) op_program_nth [OF assms(1) pool_inv_init(1) assms(2)] by simp
qed

theorem operator_budget_witness:
  "length (filter (\<lambda>r. out_ierror r = MPI_SUCCESS)
     [\<lparr>out_handle = Some 0x20, out_ierror = MPI_ERR_ARG, handed = Some (op_trampoline 0)\<rparr>]) \<noteq> MPIF_OP_SLOTS"
  using operator_budget [OF demo_op_program, of 1] by (simp add: demo_calls_def)

section \<open>Creating error handlers\<close>

type_synonym 'w create_errhandler = "profile \<Rightarrow> errhandler_code \<Rightarrow> handle \<Rightarrow> 'w \<Rightarrow> fint \<times> handle \<times> 'w"

record 'w errhandler_api =
  MPI_Comm_create_errhandler :: "'w create_errhandler"
  MPI_Win_create_errhandler :: "'w create_errhandler"
  MPI_File_create_errhandler :: "'w create_errhandler"
  MPI_Session_create_errhandler :: "'w create_errhandler"

text \<open>The body the four wrappers share; without a slot \<open>*errhandler\<close> is left as it was.\<close>

definition create_errhandler_body ::
    "fint \<Rightarrow> 'w create_errhandler \<Rightarrow> handle_api \<Rightarrow> profile \<Rightarrow> addr \<Rightarrow> pool \<times> 'w \<Rightarrow>
     fault + errhandler_code creation \<times> pool \<times> 'w" where
  "create_errhandler_body kind create H pr errhandler_fn = (\<lambda>(ss, w).
     (case mpif_errhandler_reserve errhandler_fn kind ss of
        (None, slot, ss) \<Rightarrow>
          Inr (\<lparr>out_handle = None, out_ierror = MPI_ERR_OTHER, handed = None\<rparr>, ss, w)
      | (Some code, slot, ss) \<Rightarrow>
          (let (ierror, c_errhandler, w) = create pr code MPI_ERRHANDLER_NULL w;
               ss = (if ierror \<noteq> MPI_SUCCESS then mpif_errhandler_cancel slot ss else ss)
           in bindE (toint_checked H Errhandler c_errhandler) (\<lambda>errhandler.
                Inr (\<lparr>out_handle = Some errhandler, out_ierror = ierror, handed = Some code\<rparr>, ss, w)))))"

definition mpi_comm_create_errhandler ::
    "('w, 'x) errhandler_api_scheme \<Rightarrow> handle_api \<Rightarrow> profile \<Rightarrow> addr \<Rightarrow> pool \<times> 'w \<Rightarrow>
     fault + errhandler_code creation \<times> pool \<times> 'w" where
  "mpi_comm_create_errhandler M =
     create_errhandler_body MPIF_ERRHANDLER_COMM (MPI_Comm_create_errhandler M)"

definition mpi_win_create_errhandler ::
    "('w, 'x) errhandler_api_scheme \<Rightarrow> handle_api \<Rightarrow> profile \<Rightarrow> addr \<Rightarrow> pool \<times> 'w \<Rightarrow>
     fault + errhandler_code creation \<times> pool \<times> 'w" where
  "mpi_win_create_errhandler M =
     create_errhandler_body MPIF_ERRHANDLER_WIN (MPI_Win_create_errhandler M)"

definition mpi_file_create_errhandler ::
    "('w, 'x) errhandler_api_scheme \<Rightarrow> handle_api \<Rightarrow> profile \<Rightarrow> addr \<Rightarrow> pool \<times> 'w \<Rightarrow>
     fault + errhandler_code creation \<times> pool \<times> 'w" where
  "mpi_file_create_errhandler M =
     create_errhandler_body MPIF_ERRHANDLER_FILE (MPI_File_create_errhandler M)"

definition mpi_session_create_errhandler ::
    "('w, 'x) errhandler_api_scheme \<Rightarrow> handle_api \<Rightarrow> profile \<Rightarrow> addr \<Rightarrow> pool \<times> 'w \<Rightarrow>
     fault + errhandler_code creation \<times> pool \<times> 'w" where
  "mpi_session_create_errhandler M =
     create_errhandler_body MPIF_ERRHANDLER_SESSION (MPI_Session_create_errhandler M)"

datatype errhandler_class = Comm_handler | Win_handler | File_handler | Session_handler

record errhandler_call =
  eh_class :: errhandler_class
  eh_profile :: profile
  eh_user :: addr

fun create_errhandler where
  "create_errhandler M Comm_handler = mpi_comm_create_errhandler M"
| "create_errhandler M Win_handler = mpi_win_create_errhandler M"
| "create_errhandler M File_handler = mpi_file_create_errhandler M"
| "create_errhandler M Session_handler = mpi_session_create_errhandler M"

fun handler_hkind :: "errhandler_class \<Rightarrow> hkind" where
  "handler_hkind Comm_handler = Comm"
| "handler_hkind Win_handler = Win"
| "handler_hkind File_handler = File"
| "handler_hkind Session_handler = Session"

primrec errhandler_program ::
    "'w errhandler_api \<Rightarrow> handle_api \<Rightarrow> errhandler_call list \<Rightarrow> pool \<times> 'w \<Rightarrow>
     fault + errhandler_code creation list \<times> pool \<times> 'w" where
  "errhandler_program M H [] s = Inr ([], s)"
| "errhandler_program M H (c # cs) s =
     bindE (create_errhandler M (eh_class c) H (eh_profile c) (eh_user c) s)
       (\<lambda>(r, s). bindE (errhandler_program M H cs s) (\<lambda>(rs, s). Inr (r # rs, s)))"

fun handler_code :: "errhandler_class \<Rightarrow> nat \<Rightarrow> errhandler_code" where
  "handler_code Comm_handler = comm_errhandler_trampoline"
| "handler_code Win_handler = win_errhandler_trampoline"
| "handler_code File_handler = file_errhandler_trampoline"
| "handler_code Session_handler = session_errhandler_trampoline"

fun handler_slot_of :: "errhandler_code \<Rightarrow> nat" where
  "handler_slot_of (comm_errhandler_trampoline i) = i"
| "handler_slot_of (win_errhandler_trampoline i) = i"
| "handler_slot_of (file_errhandler_trampoline i) = i"
| "handler_slot_of (session_errhandler_trampoline i) = i"

fun kind_of :: "errhandler_class \<Rightarrow> fint" where
  "kind_of Comm_handler = MPIF_ERRHANDLER_COMM"
| "kind_of Win_handler = MPIF_ERRHANDLER_WIN"
| "kind_of File_handler = MPIF_ERRHANDLER_FILE"
| "kind_of Session_handler = MPIF_ERRHANDLER_SESSION"

lemma handler_slot_code [simp]: "handler_slot_of (handler_code k i) = i"
  by (cases k) simp_all

lemma create_errhandler_eq:
  "\<exists>create. create_errhandler M k = create_errhandler_body (kind_of k) create"
  by (cases k) (auto simp: mpi_comm_create_errhandler_def mpi_win_create_errhandler_def
      mpi_file_create_errhandler_def mpi_session_create_errhandler_def)

lemma errhandler_reserve_eq:
  "mpif_errhandler_reserve d (kind_of k) ss =
     (case first_free ss of
        None \<Rightarrow> (None, - 1, ss)
      | Some i \<Rightarrow> (Some (handler_code k i), of_nat i, occupy i d ss))"
  by (cases k) (simp_all add: mpif_errhandler_reserve_def split: option.split)

lemma create_errhandler_step:
  assumes inv: "pool_inv MPIF_ERRHANDLER_SLOTS ss"
    and call: "create_errhandler M k H pr d (ss, w) = Inr (r, ss', w')"
  shows "errhandlers.create ((d, accepted r) # cs) ss =
      apfst (Cons (kept handler_slot_of r)) (errhandlers.create cs ss')"
    and "pool_inv MPIF_ERRHANDLER_SLOTS ss'"
    and "handed r = Some code \<Longrightarrow> code = handler_code k (handler_slot_of code)"
    and "handed r = None \<longleftrightarrow> (\<forall>i < MPIF_ERRHANDLER_SLOTS. pool_target ss i \<noteq> None)"
    and "handed r = None \<Longrightarrow> out_ierror r = MPI_ERR_OTHER"
proof -
  obtain create where body: "create_errhandler M k = create_errhandler_body (kind_of k) create"
    using create_errhandler_eq by blast
  note out = call [unfolded body create_errhandler_body_def errhandler_reserve_eq]
  have "errhandlers.create ((d, accepted r) # cs) ss =
      apfst (Cons (kept handler_slot_of r)) (errhandlers.create cs ss') \<and>
    pool_inv MPIF_ERRHANDLER_SLOTS ss' \<and>
    (handed r = Some code \<longrightarrow> code = handler_code k (handler_slot_of code)) \<and>
    (handed r = None \<longleftrightarrow> (\<forall>i < MPIF_ERRHANDLER_SLOTS. pool_target ss i \<noteq> None)) \<and>
    (handed r = None \<longrightarrow> out_ierror r = MPI_ERR_OTHER)"
  proof (cases "first_free ss")
    case None
    with out have "r = \<lparr>out_handle = None, out_ierror = MPI_ERR_OTHER, handed = None\<rparr>" "ss' = ss"
      by auto
    with None pool_laws(3) [OF inv None] inv show ?thesis
      by (simp add: kept_def errhandler_reserved_eq)
  next
    case (Some i)
    with out have r: "handed r = Some (handler_code k i)"
      "ss' = (if out_ierror r = MPI_SUCCESS then occupy i d ss
              else mpif_errhandler_cancel (of_nat i) (occupy i d ss))"
      by (auto simp: Let_def toint_checked_def split: prod.splits option.splits)
    have i: "i < MPIF_ERRHANDLER_SLOTS" "pool_target ss i = None"
      using pool_laws(1) [OF inv Some] by simp_all
    have pools: "pool_inv MPIF_ERRHANDLER_SLOTS (occupy i d ss)"
      "pool_inv MPIF_ERRHANDLER_SLOTS (mpif_errhandler_cancel (of_nat i) (occupy i d ss))"
      using inv i by (simp_all add: errhandler_cancel_slot pool_inv_occupy pool_inv_vacate)
    have res: "errhandler_reserved d ss = Some (i, occupy i d ss)"
      using inv Some by (simp add: errhandler_reserved_eq)
    from r i pools res show ?thesis by (auto simp: kept_def accepted_def)
  qed
  then show "errhandlers.create ((d, accepted r) # cs) ss =
      apfst (Cons (kept handler_slot_of r)) (errhandlers.create cs ss')"
    and "pool_inv MPIF_ERRHANDLER_SLOTS ss'"
    and "handed r = Some code \<Longrightarrow> code = handler_code k (handler_slot_of code)"
    and "handed r = None \<longleftrightarrow> (\<forall>i < MPIF_ERRHANDLER_SLOTS. pool_target ss i \<noteq> None)"
    and "handed r = None \<Longrightarrow> out_ierror r = MPI_ERR_OTHER"
    by simp_all
qed

lemma errhandler_program_create:
  assumes "errhandler_program M H calls (ss, w) = Inr (rs, ss', w')"
    and "pool_inv MPIF_ERRHANDLER_SLOTS ss"
  shows "length rs = length calls \<and>
    errhandlers.create (map2 (\<lambda>c r. (eh_user c, accepted r)) calls rs) ss =
      (map (kept handler_slot_of) rs, ss') \<and>
    (\<forall>k < length calls. \<forall>code. handed (rs ! k) = Some code \<longrightarrow>
       code = handler_code (eh_class (calls ! k)) (handler_slot_of code))"
  using assms
proof (induction calls arbitrary: ss w rs)
  case Nil
  then show ?case by simp
next
  case (Cons c calls)
  then obtain r ss1 w1 rs1 where
    one: "create_errhandler M (eh_class c) H (eh_profile c) (eh_user c) (ss, w) = Inr (r, ss1, w1)"
    and rest: "errhandler_program M H calls (ss1, w1) = Inr (rs1, ss', w')" and rs: "rs = r # rs1"
    by (auto simp: outcome_simps split: prod.splits)
  note step = create_errhandler_step [OF Cons.prems(2) one]
  note ih = Cons.IH [OF rest step(2)]
  have "code = handler_code (eh_class ((c # calls) ! k)) (handler_slot_of code)"
    if "k < length (c # calls)" "handed (rs ! k) = Some code" for k code
    using that step(3) ih rs by (cases k) auto
  with ih step(1) rs show ?case by simp
qed

lemma enter_handler_code:
  assumes "read_at ss i = Inr s" and "fn s \<noteq> null" and "toint H (handler_hkind k) hdl = Some f"
  shows "enter_errhandler F H ss (handler_code k i) hdl ec m = Inr (F (fn s) f ec m)"
  using assms
  by (cases k) (simp_all add: call_comm_errhandler_def call_win_errhandler_def
      call_file_errhandler_def call_session_errhandler_def call_errhandler_def toint_checked_def)

text \<open>
  C5. Every error handler runs its own procedure. Whatever error handlers a program creates, for
  communicators, windows, files and sessions, in any order, an error on an object the handler is
  attached to reaches exactly the Fortran procedure given when that handler was created, with the
  converted handle of the right kind and the error code, and the code the procedure leaves is
  what MPI gets back; no two handlers share a slot, of whatever kind they are.
\<close>

theorem errhandlers_reach_their_procedure:
  assumes "errhandler_program M H calls (errhandler_slots_init, w) = Inr (rs, ss, w')"
    and "k < length calls" and "out_ierror (rs ! k) = MPI_SUCCESS" and "handed (rs ! k) = Some code"
    and "eh_user (calls ! k) \<noteq> null" and "toint H (handler_hkind (eh_class (calls ! k))) hdl = Some f"
  shows "enter_errhandler F H ss code hdl ec m = Inr (F (eh_user (calls ! k)) f ec m) \<and>
    (\<forall>j < k. \<forall>code'. out_ierror (rs ! j) = MPI_SUCCESS \<and> handed (rs ! j) = Some code' \<longrightarrow>
       handler_slot_of code' \<noteq> handler_slot_of code)"
proof -
  let ?cs = "map2 (\<lambda>c r. (eh_user c, accepted r)) calls rs"
  note prog = errhandler_program_create [OF assms(1) pool_inv_init(2)]
  have len: "length rs = length calls"
    and cr: "errhandlers.create ?cs errhandler_slots_init = (map (kept handler_slot_of) rs, ss)"
    and code: "code = handler_code (eh_class (calls ! k)) (handler_slot_of code)"
    using prog assms(2,4) by blast+
  have slot: "fst (errhandlers.create ?cs errhandler_slots_init) ! k = Some (handler_slot_of code)"
    using assms(2-4) len by (simp add: cr kept_def)
  have "pool_target ss (handler_slot_of code) = Some (eh_user (calls ! k))"
    using errhandlers.create_target [OF pool_inv_init(2), of k ?cs "handler_slot_of code"] slot assms(2) len
    by (simp add: cr)
  then obtain s where s: "read_at ss (handler_slot_of code) = Inr s" "fn s = eh_user (calls ! k)"
    using pool_target_read by blast
  have "handler_slot_of code' \<noteq> handler_slot_of code"
    if "j < k" "out_ierror (rs ! j) = MPI_SUCCESS" "handed (rs ! j) = Some code'" for j code'
  proof -
    have "fst (errhandlers.create ?cs errhandler_slots_init) ! j = Some (handler_slot_of code')"
      using that assms(2) len by (simp add: cr kept_def)
    with errhandlers.create_distinct [OF pool_inv_init(2) that(1), of ?cs] slot assms(2) len
    show ?thesis by simp
  qed
  moreover have "enter_errhandler F H ss code hdl ec m = Inr (F (eh_user (calls ! k)) f ec m)"
    using enter_handler_code [OF s(1) _ assms(6), of F ec m] s(2) assms(5) code by simp
  ultimately show ?thesis by blast
qed

definition demo_errhandler_api :: "nat errhandler_api" where
  "demo_errhandler_api =
     \<lparr>MPI_Comm_create_errhandler = (\<lambda>pr code h n. (MPI_SUCCESS, of_nat n, Suc n)),
      MPI_Win_create_errhandler = (\<lambda>pr code h n. (MPI_SUCCESS, of_nat n, Suc n)),
      MPI_File_create_errhandler = (\<lambda>pr code h n. (MPI_SUCCESS, of_nat n, Suc n)),
      MPI_Session_create_errhandler = (\<lambda>pr code h n. (MPI_SUCCESS, of_nat n, Suc n))\<rparr>"

lemma demo_errhandler_program:
  "errhandler_program demo_errhandler_api identity_handles
     [\<lparr>eh_class = Win_handler, eh_profile = PMPI, eh_user = 0x700\<rparr>] (errhandler_slots_init, 5) =
   Inr ([\<lparr>out_handle = Some 5, out_ierror = MPI_SUCCESS, handed = Some (win_errhandler_trampoline 0)\<rparr>],
        occupy 0 0x700 errhandler_slots_init, 6)"
proof -
  have "first_free errhandler_slots_init = Some 0"
    by (simp add: first_free_def index_where_Some errhandler_slots_init_def)
  then show ?thesis
    by (simp add: mpi_win_create_errhandler_def create_errhandler_body_def mpif_errhandler_reserve_def
        demo_errhandler_api_def toint_checked_def identity_handles_def to_fint_def)
qed

theorem errhandlers_reach_their_procedure_witness:
  "enter_errhandler (\<lambda>p h ec m. (ec + 1, m + uint p)) identity_handles
     (occupy 0 0x700 errhandler_slots_init) (win_errhandler_trampoline 0) 0x110 15 1 = Inr (16, 0x701)"
  using errhandlers_reach_their_procedure
    [OF demo_errhandler_program, of 0 "win_errhandler_trampoline 0" "0x110" "0x110"
      "\<lambda>p h ec m. (ec + 1, m + uint p)" 15 1]
  by (simp add: identity_handles_def to_fint_def)

end
