(* ===== verification/Pool_Concurrency.thy ===== *)
theory Pool_Concurrency
  imports Slot_Pools
begin

text \<open>
  Operators and error handlers created by several threads at once. The compare-and-swap that claims a
  slot, the store of the procedure, MPI's own call, and the two stores that take a reservation back are
  atomic steps, and the steps of the threads interleave in any order. A thread makes its creations one
  after the other; whether MPI will accept a creation is part of what is to be done.
\<close>

section \<open>One thread\<close>

datatype pool_location =
    Resting
  | Scanning nat
  | Storing nat
  | Calling nat
  | Clearing nat
  | Releasing nat

text \<open>\<open>made\<close> are the creations that returned, with the slot they keep.\<close>

record pool_thread =
  at :: pool_location
  to_make :: "(addr \<times> bool) list"
  made :: "(addr \<times> nat option) list"

definition made_one :: "nat option \<Rightarrow> pool_thread \<Rightarrow> pool_thread" where
  "made_one slot th =
     \<lparr>at = Resting, to_make = tl (to_make th), made = made th @ [(fst (hd (to_make th)), slot)]\<rparr>"

definition pool_thread_step :: "nat \<Rightarrow> pool \<Rightarrow> pool_thread \<Rightarrow> pool \<times> pool_thread" where
  "pool_thread_step n ss th =
     (case at th of
        Resting \<Rightarrow> (ss, th\<lparr>at := Scanning 0\<rparr>)
      | Scanning i \<Rightarrow>
          if \<not> i < n then (ss, made_one None th)
          else if in_use (ss ! i) = 0 then (ss[i := (ss ! i)\<lparr>in_use := 1\<rparr>], th\<lparr>at := Storing i\<rparr>)
          else (ss, th\<lparr>at := Scanning (Suc i)\<rparr>)
      | Storing i \<Rightarrow> (ss[i := (ss ! i)\<lparr>fn := fst (hd (to_make th))\<rparr>], th\<lparr>at := Calling i\<rparr>)
      | Calling i \<Rightarrow>
          if snd (hd (to_make th)) then (ss, made_one (Some i) th) else (ss, th\<lparr>at := Clearing i\<rparr>)
      | Clearing i \<Rightarrow> (ss[i := (ss ! i)\<lparr>fn := null\<rparr>], th\<lparr>at := Releasing i\<rparr>)
      | Releasing i \<Rightarrow> (ss[i := (ss ! i)\<lparr>in_use := 0\<rparr>], made_one None th))"

section \<open>All threads\<close>

record pool_system =
  slots :: pool
  makers :: "nat \<Rightarrow> pool_thread"

inductive pool_step :: "nat \<Rightarrow> pool_system \<Rightarrow> nat \<Rightarrow> pool_system \<Rightarrow> bool" for n where
  step: "to_make (makers s t) \<noteq> [] \<Longrightarrow> pool_thread_step n (slots s) (makers s t) = (ss, th) \<Longrightarrow>
     pool_step n s t \<lparr>slots = ss, makers = (makers s)(t := th)\<rparr>"

inductive_cases pool_stepE: "pool_step n s t s'"

definition pool_start :: "pool \<Rightarrow> (nat \<Rightarrow> (addr \<times> bool) list) \<Rightarrow> pool_system" where
  "pool_start ss J = \<lparr>slots = ss, makers = (\<lambda>t. \<lparr>at = Resting, to_make = J t, made = []\<rparr>)\<rparr>"

inductive pool_run :: "nat \<Rightarrow> pool_system \<Rightarrow> nat list \<Rightarrow> pool_system \<Rightarrow> bool" for n s0 where
  start: "pool_run n s0 [] s0"
| more: "pool_run n s0 ts s \<Longrightarrow> pool_step n s t s' \<Longrightarrow> pool_run n s0 (ts @ [t]) s'"

section \<open>Who holds a slot\<close>

fun holding :: "pool_location \<Rightarrow> nat list" where
  "holding (Storing i) = [i]"
| "holding (Calling i) = [i]"
| "holding (Clearing i) = [i]"
| "holding (Releasing i) = [i]"
| "holding _ = []"

fun kept_slots :: "(addr \<times> nat option) list \<Rightarrow> nat list" where
  "kept_slots [] = []"
| "kept_slots ((f, None) # ms) = kept_slots ms"
| "kept_slots ((f, Some i) # ms) = i # kept_slots ms"

definition held :: "pool_thread \<Rightarrow> nat list" where
  "held th = kept_slots (made th) @ holding (at th)"

lemma kept_append [simp]: "kept_slots (ms @ ns) = kept_slots ms @ kept_slots ns"
  by (induction ms rule: kept_slots.induct) simp_all

lemma kept_in: "i \<in> set (kept_slots ms) \<longleftrightarrow> (\<exists>f. (f, Some i) \<in> set ms)"
  by (induction ms rule: kept_slots.induct) auto

text \<open>Slots in use are those held, each by one thread once.\<close>

definition shared_ok :: "nat \<Rightarrow> pool \<Rightarrow> (nat \<Rightarrow> nat list) \<Rightarrow> bool" where
  "shared_ok n ss hs \<longleftrightarrow>
     pool_inv n ss \<and> (\<forall>i < n. in_use (ss ! i) \<noteq> 0 \<longleftrightarrow> i \<in> (\<Union>t. set (hs t))) \<and>
     (\<forall>t. distinct (hs t) \<and> set (hs t) \<subseteq> {..<n}) \<and>
     (\<forall>t u i. i \<in> set (hs t) \<longrightarrow> i \<in> set (hs u) \<longrightarrow> t = u)"

definition contents_fine :: "pool \<Rightarrow> pool_thread \<Rightarrow> bool" where
  "contents_fine ss th \<longleftrightarrow>
     (\<forall>f i. (f, Some i) \<in> set (made th) \<longrightarrow> fn (ss ! i) = f) \<and>
     (\<forall>i. at th = Calling i \<longrightarrow> fn (ss ! i) = fst (hd (to_make th)))"

definition pool_ok :: "nat \<Rightarrow> pool_system \<Rightarrow> bool" where
  "pool_ok n s \<longleftrightarrow>
     shared_ok n (slots s) (\<lambda>t. held (makers s t)) \<and> (\<forall>t. contents_fine (slots s) (makers s t))"

lemma pool_inv_update:
  "pool_inv n ss \<Longrightarrow> in_use e \<in> {0, 1} \<Longrightarrow> pool_inv n (ss[i := e])"
  using set_update_subset_insert [of ss i e] by (auto simp: pool_inv_def)

lemma shared_claim:
  assumes ok: "shared_ok n ss hs" and i: "i < n" "in_use (ss ! i) = 0" and e: "in_use e = 1"
  shows "shared_ok n (ss[i := e]) (hs(t := hs t @ [i]))"
proof -
  have free: "i \<notin> set (hs u)" for u
    using ok i by (auto simp: shared_ok_def)
  have len: "length ss = n"
    using ok by (simp add: shared_ok_def pool_inv_def)
  have union: "(\<Union>u. set ((hs(t := hs t @ [i])) u)) = insert i (\<Union>u. set (hs u))"
    by (auto split: if_splits)
  show ?thesis
    unfolding shared_ok_def union
    using ok i e free len unfolding shared_ok_def
    by (intro conjI) (auto simp: pool_inv_update nth_list_update_if split: if_splits)
qed

lemma shared_store:
  assumes ok: "shared_ok n ss hs" and e: "in_use e = in_use (ss ! i)"
  shows "shared_ok n (ss[i := e]) hs"
proof (cases "i < n")
  case True
  then have "in_use (ss ! i) \<in> {0, 1}"
    using ok by (auto simp: shared_ok_def pool_inv_def)
  then have "pool_inv n (ss[i := e])"
    using ok e by (intro pool_inv_update) (auto simp: shared_ok_def)
  then show ?thesis
    using ok e True unfolding shared_ok_def by (auto simp: nth_list_update_if pool_inv_def)
next
  case False
  then show ?thesis
    using ok by (simp add: shared_ok_def pool_inv_def list_update_beyond)
qed

lemma shared_release:
  assumes ok: "shared_ok n ss hs" and hs: "hs t = ks @ [i]" and e: "in_use e = 0"
  shows "shared_ok n (ss[i := e]) (hs(t := ks))"
proof -
  have d: "distinct (ks @ [i])" "set (ks @ [i]) \<subseteq> {..<n}"
    using ok hs by (metis shared_ok_def)+
  have only: "u = t" if "i \<in> set (hs u)" for u
    using ok hs that unfolding shared_ok_def by (metis in_set_conv_decomp)
  have len: "length ss = n"
    using ok by (simp add: shared_ok_def pool_inv_def)
  have t: "set (hs t) = insert i (set ks)" "i \<notin> set ks"
    using d hs by auto
  have union: "(\<Union>u. set ((hs(t := ks)) u)) = (\<Union>u. set (hs u)) - {i}"
  proof (intro set_eqI iffI)
    fix x
    assume "x \<in> (\<Union>u. set (hs u)) - {i}"
    then obtain u where "x \<in> set (hs u)" "x \<noteq> i" by blast
    with t(1) show "x \<in> (\<Union>u. set ((hs(t := ks)) u))"
      by (cases "u = t") (auto intro!: UN_I [of u])
  next
    fix x
    assume "x \<in> (\<Union>u. set ((hs(t := ks)) u))"
    then obtain u where "x \<in> set ((hs(t := ks)) u)" by blast
    with t only [of u] show "x \<in> (\<Union>u. set (hs u)) - {i}"
      by (cases "u = t") auto
  qed
  have parts: "pool_inv n ss" "\<forall>j < n. in_use (ss ! j) \<noteq> 0 \<longleftrightarrow> j \<in> (\<Union>t. set (hs t))"
    "\<forall>t. distinct (hs t) \<and> set (hs t) \<subseteq> {..<n}"
    "\<forall>t u i. i \<in> set (hs t) \<longrightarrow> i \<in> set (hs u) \<longrightarrow> t = u"
    using ok unfolding shared_ok_def by blast+
  show ?thesis
    unfolding shared_ok_def union
  proof (intro conjI)
    show "pool_inv n (ss[i := e])"
      using parts(1) e by (simp add: pool_inv_update)
    show "\<forall>j < n. in_use (ss[i := e] ! j) \<noteq> 0 \<longleftrightarrow> j \<in> (\<Union>u. set (hs u)) - {i}"
      using parts(2) e len by (auto simp: nth_list_update_if)
    show "\<forall>u. distinct ((hs(t := ks)) u) \<and> set ((hs(t := ks)) u) \<subseteq> {..<n}"
      using parts(3) d by simp
    show "\<forall>u v j. j \<in> set ((hs(t := ks)) u) \<longrightarrow> j \<in> set ((hs(t := ks)) v) \<longrightarrow> u = v"
      using parts(4) t(1) by (auto split: if_splits)
  qed
qed

text \<open>A step writes only to the slot its thread holds, or claims a free one.\<close>

lemma step_leaves_other_slots:
  assumes "pool_thread_step n ss th = (ss', th')" and "i \<notin> set (held th)" and "in_use (ss ! i) \<noteq> 0"
  shows "ss' ! i = ss ! i"
  using assms
  by (auto simp: pool_thread_step_def held_def nth_list_update_if
      split: pool_location.splits if_splits)

lemma step_shared:
  assumes step: "pool_thread_step n ss (ths t) = (ss', th')" and ok: "shared_ok n ss (\<lambda>u. held (ths u))"
  shows "shared_ok n ss' (\<lambda>u. held ((ths(t := th')) u))"
proof -
  let ?hs = "\<lambda>u. held (ths u)"
  have upd: "(\<lambda>u. held ((ths(t := th')) u)) = ?hs(t := held th')"
    by (rule ext) simp
  have same: "?hs(t := held (ths t)) = ?hs"
    by (rule ext) simp
  show ?thesis
  proof (cases "at (ths t)")
    case Resting
    with step ok same show ?thesis
      unfolding upd by (auto simp: pool_thread_step_def held_def)
  next
    case (Scanning i)
    consider "\<not> i < n" | "i < n" "in_use (ss ! i) = 0" | "i < n" "in_use (ss ! i) \<noteq> 0"
      by blast
    then show ?thesis
    proof cases
      case 2
      with step Scanning
      have "ss' = ss[i := (ss ! i)\<lparr>in_use := 1\<rparr>]" "held th' = held (ths t) @ [i]"
        by (auto simp: pool_thread_step_def held_def)
      with shared_claim [OF ok 2, of "(ss ! i)\<lparr>in_use := 1\<rparr>" t] show ?thesis
        unfolding upd by simp
    qed (use step ok same Scanning in \<open>unfold upd, auto simp: pool_thread_step_def held_def made_one_def\<close>)
  next
    case (Storing i)
    with step have "ss' = ss[i := (ss ! i)\<lparr>fn := fst (hd (to_make (ths t)))\<rparr>]" "held th' = held (ths t)"
      by (auto simp: pool_thread_step_def held_def)
    with shared_store [OF ok] same show ?thesis
      unfolding upd by simp
  next
    case (Calling i)
    with step ok same show ?thesis
      unfolding upd by (auto simp: pool_thread_step_def held_def made_one_def split: if_splits)
  next
    case (Clearing i)
    with step have "ss' = ss[i := (ss ! i)\<lparr>fn := null\<rparr>]" "held th' = held (ths t)"
      by (auto simp: pool_thread_step_def held_def)
    with shared_store [OF ok] same show ?thesis
      unfolding upd by simp
  next
    case (Releasing i)
    with step have "ss' = ss[i := (ss ! i)\<lparr>in_use := 0\<rparr>]" "held (ths t) = held th' @ [i]"
      by (auto simp: pool_thread_step_def held_def made_one_def)
    with shared_release [OF ok, of t "held th'" i] show ?thesis
      unfolding upd by simp
  qed
qed

text \<open>Every slot a thread keeps or is about to pass to MPI holds that thread's procedure.\<close>

lemma contents_of_the_others:
  assumes "pool_thread_step n ss th = (ss', th')" and "contents_fine ss other"
    and "\<And>i. i \<in> set (held other) \<Longrightarrow> i \<notin> set (held th) \<and> in_use (ss ! i) \<noteq> 0"
  shows "contents_fine ss' other"
  using assms step_leaves_other_slots [OF assms(1)]
  by (fastforce simp: contents_fine_def held_def kept_in)

lemma contents_of_its_own:
  assumes step: "pool_thread_step n ss th = (ss', th')" and ok: "contents_fine ss th"
    and held: "distinct (held th)" "\<And>i. i \<in> set (held th) \<Longrightarrow> i < length ss \<and> in_use (ss ! i) \<noteq> 0"
  shows "contents_fine ss' th'"
proof (cases "at th")
  case (Storing i)
  with held have "i < length ss" "i \<notin> set (kept_slots (made th))"
    by (auto simp: held_def)
  with step ok Storing show ?thesis
    by (auto simp: pool_thread_step_def contents_fine_def nth_list_update_if kept_in)
next
  case (Clearing i)
  with held have "i \<notin> set (kept_slots (made th))"
    by (auto simp: held_def)
  with step ok Clearing show ?thesis
    by (auto simp: pool_thread_step_def contents_fine_def nth_list_update_if kept_in)
next
  case (Releasing i)
  with held have "i \<notin> set (kept_slots (made th))"
    by (auto simp: held_def)
  with step ok Releasing show ?thesis
    by (auto simp: pool_thread_step_def contents_fine_def made_one_def nth_list_update_if kept_in)
qed (use step ok in \<open>auto simp: pool_thread_step_def contents_fine_def made_one_def nth_list_update_if
    split: if_splits\<close>)

lemma shared_okD:
  assumes "shared_ok n ss hs" and "i \<in> set (hs t)"
  shows "i < length ss" and "in_use (ss ! i) \<noteq> 0" and "i \<in> set (hs u) \<Longrightarrow> u = t"
proof -
  show lt: "i < length ss"
    using assms unfolding shared_ok_def pool_inv_def by blast
  then have "i < n"
    using assms(1) by (simp add: shared_ok_def pool_inv_def)
  with assms show "in_use (ss ! i) \<noteq> 0"
    unfolding shared_ok_def by blast
  show "u = t" if "i \<in> set (hs u)"
    using assms that unfolding shared_ok_def by blast
qed

lemma pool_step_ok:
  assumes "pool_step n s t s'" and "pool_ok n s"
  shows "pool_ok n s'"
proof -
  obtain ss th where step: "pool_thread_step n (slots s) (makers s t) = (ss, th)"
    and s': "s' = \<lparr>slots = ss, makers = (makers s)(t := th)\<rparr>"
    using assms(1) by (auto elim: pool_stepE)
  have ok: "shared_ok n (slots s) (\<lambda>u. held (makers s u))" "\<And>u. contents_fine (slots s) (makers s u)"
    using assms(2) by (simp_all add: pool_ok_def)
  have "contents_fine ss (((makers s)(t := th)) u)" for u
  proof (cases "u = t")
    case True
    have "distinct (held (makers s t))"
      using ok(1) by (auto simp: shared_ok_def)
    with contents_of_its_own [OF step ok(2)] shared_okD(1,2) [OF ok(1)] True show ?thesis
      by auto
  next
    case False
    have "i \<notin> set (held (makers s t)) \<and> in_use (slots s ! i) \<noteq> 0" if "i \<in> set (held (makers s u))" for i
      using shared_okD(2) [OF ok(1) that] shared_okD(3) [OF ok(1) that, of t] False by auto
    from contents_of_the_others [OF step ok(2) this] False show ?thesis
      by simp
  qed
  with step_shared [OF step ok(1)] s' show ?thesis
    by (simp add: pool_ok_def)
qed

section \<open>Progress\<close>

text \<open>What a thread has made and has yet to make is what it was given to make.\<close>

definition on_course :: "(addr \<times> bool) list \<Rightarrow> pool_thread \<Rightarrow> bool" where
  "on_course J th \<longleftrightarrow>
     length (made th) \<le> length J \<and> to_make th = drop (length (made th)) J \<and>
     (\<forall>k < length (made th). fst (made th ! k) = fst (J ! k) \<and> (snd (made th ! k) \<noteq> None \<longrightarrow> snd (J ! k))) \<and>
     (to_make th = [] \<longrightarrow> at th = Resting)"

lemma made_one_on_course:
  assumes "on_course J th" and "to_make th \<noteq> []" and "slot \<noteq> None \<Longrightarrow> snd (hd (to_make th))"
  shows "on_course J (made_one slot th)"
proof -
  have len: "length (made th) < length J" and drop: "to_make th = drop (length (made th)) J"
    using assms(1,2) by (auto simp: on_course_def)
  then have hd: "hd (to_make th) = J ! length (made th)"
    by (simp add: hd_drop_conv_nth)
  with assms(1) len drop assms(3) show ?thesis
    by (auto simp: on_course_def made_one_def nth_append less_Suc_eq tl_drop drop_Suc)
qed

lemma thread_step_on_course:
  assumes "pool_thread_step n ss th = (ss', th')" and "on_course J th" and "to_make th \<noteq> []"
  shows "on_course J th'"
proof -
  have "th' = made_one None th \<or> (\<exists>i. th' = made_one (Some i) th) \<and> snd (hd (to_make th)) \<or>
    to_make th' = to_make th \<and> made th' = made th"
    using assms(1) by (auto simp: pool_thread_step_def split: pool_location.splits if_splits)
  with assms(2,3) show ?thesis
    by (auto intro: made_one_on_course) (simp add: on_course_def)
qed

text \<open>The steps a thread can still take, whatever the others do.\<close>

fun steps_taken :: "nat \<Rightarrow> pool_location \<Rightarrow> nat" where
  "steps_taken n Resting = 0"
| "steps_taken n (Scanning i) = Suc (min i n)"
| "steps_taken n (Storing i) = n + 2"
| "steps_taken n (Calling i) = n + 3"
| "steps_taken n (Clearing i) = n + 4"
| "steps_taken n (Releasing i) = n + 5"

definition steps_left :: "nat \<Rightarrow> pool_thread \<Rightarrow> nat" where
  "steps_left n th = length (to_make th) * (n + 6) - steps_taken n (at th)"

lemma thread_step_left:
  assumes "pool_thread_step n ss th = (ss', th')" and "to_make th \<noteq> []"
  shows "Suc (steps_left n th') \<le> steps_left n th"
proof -
  obtain j js where "to_make th = j # js"
    using assms(2) by (cases "to_make th") auto
  with assms(1) show ?thesis
    by (auto simp: pool_thread_step_def steps_left_def made_one_def split: pool_location.splits if_splits)
qed

section \<open>Runs\<close>

lemma pool_start_ok:
  assumes "pool_inv n ss" and "\<And>i. i < n \<Longrightarrow> in_use (ss ! i) = 0"
  shows "pool_ok n (pool_start ss J)"
  using assms by (simp add: pool_ok_def pool_start_def shared_ok_def held_def contents_fine_def)

lemma pool_run_ok:
  assumes "pool_run n s0 ts s" and "pool_ok n s0"
  shows "pool_ok n s"
  using assms by (induction rule: pool_run.induct) (auto intro: pool_step_ok)

lemma pool_run_thread:
  assumes "pool_run n (pool_start ss J) ts s"
  shows "on_course (J t) (makers s t) \<and>
    count_list ts t + steps_left n (makers s t) \<le> length (J t) * (n + 6)"
  using assms
proof (induction rule: pool_run.induct)
  case start
  show ?case by (simp add: pool_start_def on_course_def steps_left_def)
next
  case (more ts s u s')
  from more.hyps(2) obtain ss' th where step: "pool_thread_step n (slots s) (makers s u) = (ss', th)"
    "to_make (makers s u) \<noteq> []" and s': "s' = \<lparr>slots = ss', makers = (makers s)(u := th)\<rparr>"
    by (auto elim: pool_stepE)
  show ?case
    using more.IH thread_step_on_course [OF step(1) _ step(2)] thread_step_left [OF step] s'
    by (cases "u = t") auto
qed

definition kept_by :: "pool_system \<Rightarrow> nat \<Rightarrow> nat \<Rightarrow> nat option" where
  "kept_by s t k =
     (if k < length (made (makers s t)) then snd (made (makers s t) ! k) else None)"

lemma kept_by_in:
  assumes "kept_by s t k = Some i"
  shows "(fst (made (makers s t) ! k), Some i) \<in> set (made (makers s t))"
    and "k < length (made (makers s t))" and "i \<in> set (held (makers s t))"
proof -
  show k: "k < length (made (makers s t))"
    using assms by (auto simp: kept_by_def split: if_splits)
  with assms have "snd (made (makers s t) ! k) = Some i"
    by (simp add: kept_by_def)
  with k show mem: "(fst (made (makers s t) ! k), Some i) \<in> set (made (makers s t))"
    by (metis nth_mem prod.collapse)
  then show "i \<in> set (held (makers s t))"
    by (auto simp: held_def kept_in)
qed

lemma kept_once:
  assumes "distinct (kept_slots ms)" and "j < k" and "k < length ms"
    and "snd (ms ! j) = Some i" and "snd (ms ! k) = Some i"
  shows False
proof -
  obtain f g where fg: "ms ! j = (f, Some i)" "ms ! k = (g, Some i)"
    using assms(4,5) by (metis prod.collapse)
  have "ms = take j ms @ (f, Some i) # drop (Suc j) ms"
    using assms(2,3) fg(1) by (metis id_take_nth_drop order_less_trans)
  moreover have "(g, Some i) \<in> set (drop (Suc j) ms)"
    using assms(2,3) fg(2) in_set_conv_nth [of "(g, Some i)" "drop (Suc j) ms"]
    by (auto intro!: exI [of _ "k - Suc j"])
  then have "i \<in> set (kept_slots (drop (Suc j) ms))"
    by (auto simp: kept_in)
  ultimately show False
    using assms(1) by (metis distinct.simps(2) distinct_append kept_append kept_slots.simps(3))
qed

lemma kept_by_one:
  assumes "pool_ok n s" and "kept_by s t j = Some i" and "kept_by s u k = Some i"
  shows "t = u \<and> j = k"
proof -
  have ok: "shared_ok n (slots s) (\<lambda>t. held (makers s t))"
    using assms(1) by (simp add: pool_ok_def)
  then have "t = u"
    using kept_by_in(3) [OF assms(2)] kept_by_in(3) [OF assms(3)] by (auto dest: shared_okD(3))
  moreover have "distinct (kept_slots (made (makers s u)))"
    using ok by (simp add: shared_ok_def held_def)
  ultimately show ?thesis
    using assms(2,3) kept_once [of "made (makers s u)" j k i] kept_once [of "made (makers s u)" k j i]
    by (fastforce simp: kept_by_def split: if_splits)
qed

lemma kept_slots_by: "i \<in> set (kept_slots (made (makers s t))) \<longleftrightarrow> (\<exists>k. kept_by s t k = Some i)"
proof
  assume "i \<in> set (kept_slots (made (makers s t)))"
  then obtain f where "(f, Some i) \<in> set (made (makers s t))"
    by (auto simp: kept_in)
  then obtain k where "k < length (made (makers s t))" "made (makers s t) ! k = (f, Some i)"
    by (auto simp: in_set_conv_nth)
  then have "kept_by s t k = Some i"
    by (simp add: kept_by_def)
  then show "\<exists>k. kept_by s t k = Some i" ..
next
  assume "\<exists>k. kept_by s t k = Some i"
  then show "i \<in> set (kept_slots (made (makers s t)))"
    by (auto simp: kept_in dest: kept_by_in(1))
qed

lemma pool_of_resting_threads:
  assumes "pool_ok n s" and "\<And>t. at (makers s t) = Resting"
  shows "pool_target (slots s) i \<noteq> None \<longleftrightarrow> (\<exists>t k. kept_by s t k = Some i)"
proof -
  have ok: "shared_ok n (slots s) (\<lambda>t. held (makers s t))"
    using assms(1) by (simp add: pool_ok_def)
  have "held (makers s t) = kept_slots (made (makers s t))" for t
    using assms(2) by (simp add: held_def)
  moreover have "length (slots s) = n"
    using ok by (simp add: shared_ok_def pool_inv_def)
  ultimately have "pool_target (slots s) i \<noteq> None \<longleftrightarrow> (\<exists>t. i \<in> set (kept_slots (made (makers s t))))"
    using ok unfolding shared_ok_def pool_target_def by auto
  then show ?thesis
    by (simp add: kept_slots_by)
qed

text \<open>
  C6. Operators and error handlers may be created by several threads at once. Whatever the order of
  their steps, a slot kept by a creation holds the procedure it was created with, and MPI accepted
  it; no two creations, of one thread or of two, keep the same slot; when every thread is done, the
  slots in use are those kept, so that nothing refused has leaked a slot; and a thread ends its
  creations within a number of its own steps that the others cannot raise.
\<close>

theorem concurrent_creations_keep_their_slots:
  assumes "pool_run (length ss) (pool_start ss J) ts s"
    and "ss = op_slots_init \<or> ss = errhandler_slots_init"
  shows "(\<forall>t k i. kept_by s t k = Some i \<longrightarrow>
      k < length (J t) \<and> snd (J t ! k) \<and> pool_target (slots s) i = Some (fst (J t ! k))) \<and>
    (\<forall>t u j k i. kept_by s t j = Some i \<longrightarrow> kept_by s u k = Some i \<longrightarrow> t = u \<and> j = k) \<and>
    ((\<forall>t. to_make (makers s t) = []) \<longrightarrow>
      (\<forall>i. pool_target (slots s) i \<noteq> None \<longleftrightarrow> (\<exists>t k. kept_by s t k = Some i))) \<and>
    (\<forall>t. count_list ts t \<le> length (J t) * (length ss + 6))"
proof -
  have "pool_inv (length ss) ss" "\<And>i. i < length ss \<Longrightarrow> in_use (ss ! i) = 0"
    using assms(2) by (auto simp: pool_inv_def op_slots_init_def errhandler_slots_init_def)
  then have ok: "pool_ok (length ss) s"
    by (intro pool_run_ok [OF assms(1)] pool_start_ok)
  note run = pool_run_thread [OF assms(1)]
  have kept: "k < length (J t) \<and> snd (J t ! k) \<and> pool_target (slots s) i = Some (fst (J t ! k))"
    if "kept_by s t k = Some i" for t k i
  proof -
    have "on_course (J t) (makers s t)"
      using run by simp
    then have "k < length (J t)" "snd (J t ! k)" "fst (made (makers s t) ! k) = fst (J t ! k)"
      using that by (auto simp: on_course_def kept_by_def split: if_splits)
    moreover have "fn (slots s ! i) = fst (made (makers s t) ! k)"
      using ok kept_by_in(1) [OF that] by (auto simp: pool_ok_def contents_fine_def)
    moreover have "i < length (slots s)" "in_use (slots s ! i) \<noteq> 0"
      using ok kept_by_in(3) [OF that] by (auto simp: pool_ok_def dest: shared_okD)
    ultimately show ?thesis
      by (simp add: pool_target_def)
  qed
  moreover have "t = u \<and> j = k" if "kept_by s t j = Some i" "kept_by s u k = Some i" for t u j k i
    using kept_by_one [OF ok that] .
  moreover have "pool_target (slots s) i \<noteq> None \<longleftrightarrow> (\<exists>t k. kept_by s t k = Some i)"
    if "\<forall>t. to_make (makers s t) = []" for i
    using run that by (intro pool_of_resting_threads [OF ok]) (simp add: on_course_def)
  moreover have "count_list ts t \<le> length (J t) * (length ss + 6)" for t
    using run [of t] by simp
  ultimately show ?thesis
    by blast
qed

text \<open>A run given by the order of its steps.\<close>

definition pool_next :: "nat \<Rightarrow> pool_system \<Rightarrow> nat \<Rightarrow> pool_system" where
  "pool_next n s t =
     (let (ss, th) = pool_thread_step n (slots s) (makers s t) in \<lparr>slots = ss, makers = (makers s)(t := th)\<rparr>)"

fun runnable :: "nat \<Rightarrow> pool_system \<Rightarrow> nat list \<Rightarrow> bool" where
  "runnable n s [] = True"
| "runnable n s (t # ts) = (to_make (makers s t) \<noteq> [] \<and> runnable n (pool_next n s t) ts)"

lemma runnable_run:
  "runnable n s ts \<Longrightarrow> pool_run n s0 us s \<Longrightarrow> pool_run n s0 (us @ ts) (foldl (pool_next n) s ts)"
proof (induction ts arbitrary: us s)
  case (Cons t ts)
  have "pool_step n s t (pool_next n s t)"
    using Cons.prems(1) pool_step.step [of s t n] by (simp add: pool_next_def split: prod.split)
  with Cons.IH [of "pool_next n s t" "us @ [t]"] Cons.prems show ?case
    by (simp add: pool_run.more)
qed simp

text \<open>One thread's first operator is refused by MPI while another thread creates one.\<close>

definition demo_operators :: "nat \<Rightarrow> (addr \<times> bool) list" where
  "demo_operators = (\<lambda>_. [])(0 := [(0x501, False), (0x601, True)], 1 := [(0x701, True)])"

definition demo_order :: "nat list" where
  "demo_order = [0, 1, 0, 1, 1, 1, 1, 0, 0, 0, 0, 0, 0, 0, 0]"

lemma demo_slots: "op_slots_init ! 0 = \<lparr>in_use = 0, fn = null\<rparr>" "op_slots_init ! Suc 0 = \<lparr>in_use = 0, fn = null\<rparr>"
  "length op_slots_init = 128"
  by (simp_all add: op_slots_init_def)

lemma demo_runnable: "runnable 128 (pool_start op_slots_init demo_operators) demo_order"
  by (simp add: demo_order_def demo_operators_def pool_start_def pool_next_def pool_thread_step_def
      made_one_def demo_slots)

lemma demo_end:
  "\<exists>s. s = foldl (pool_next 128) (pool_start op_slots_init demo_operators) demo_order \<and>
     kept_by s 0 0 = None \<and> kept_by s 0 1 = Some 0 \<and> kept_by s 1 0 = Some 1 \<and>
     (\<forall>t. to_make (makers s t) = [])"
  by (simp add: demo_order_def demo_operators_def pool_start_def pool_next_def pool_thread_step_def
      made_one_def kept_by_def demo_slots)

theorem concurrent_creations_keep_their_slots_witness:
  "\<exists>s. pool_run 128 (pool_start op_slots_init demo_operators) demo_order s \<and>
     pool_target (slots s) 0 = Some 0x601 \<and> pool_target (slots s) 1 = Some 0x701 \<and>
     pool_target (slots s) 2 = None"
proof -
  obtain s where s: "s = foldl (pool_next 128) (pool_start op_slots_init demo_operators) demo_order"
    "kept_by s 0 0 = None" "kept_by s 0 1 = Some 0" "kept_by s 1 0 = Some 1"
    "\<forall>t. to_make (makers s t) = []"
    using demo_end by blast
  have run: "pool_run 128 (pool_start op_slots_init demo_operators) demo_order s"
    using runnable_run [OF demo_runnable pool_run.start] s(1) by simp
  note all = concurrent_creations_keep_their_slots
    [of op_slots_init demo_operators demo_order s, unfolded demo_slots(3), OF run disjI1 [OF refl]]
  have "\<not> (\<exists>t k. kept_by s t k = Some 2)"
  proof
    assume "\<exists>t k. kept_by s t k = Some 2"
    then obtain t k where tk: "kept_by s t k = Some 2" by blast
    with all have "k < length (demo_operators t)" by blast
    then have "t = 0 \<and> k = 0 \<or> t = 0 \<and> k = 1 \<or> t = 1 \<and> k = 0"
      by (auto simp: demo_operators_def split: if_splits)
    with tk s(2-4) show False by auto
  qed
  with all s(5) have "pool_target (slots s) 2 = None" by blast
  moreover have "pool_target (slots s) 0 = Some (fst (demo_operators 0 ! 1))"
    "pool_target (slots s) 1 = Some (fst (demo_operators 1 ! 0))"
    using all s(3,4) by blast+
  ultimately show ?thesis
    using run by (auto simp: demo_operators_def)
qed

end
