(* ===== verification/Mpi_Calls.thy ===== *)
theory Mpi_Calls
  imports Sentinels Logicals Fortran_Strings
begin

text \<open>
  What the generated wrappers share: how they call MPI, and the questions they ask it before a
  call whose arguments mean something only at the root or in a number only the communicator
  knows. MPI itself is a parameter.
\<close>

section \<open>A call of MPI\<close>

text \<open>
  The arguments of a call in their order. A \<open>Val\<close> is an integer of any width by its value, a
  \<open>Buf\<close> an address that is passed on (a buffer, an array, a status, or a caller's variable MPI
  writes itself), a \<open>Hdl\<close> a handle, \<open>Handles\<close>, \<open>Vals\<close> and \<open>Aints\<close> local arrays of handles and of integers the
  wrapper has filled for MPI to read. A \<open>Temp\<close> is the address of a handle and a \<open>Flag\<close> that of an
  integer, \<open>Temps\<close> and \<open>Flags\<close> are arrays of these, with the variable's name and the contents it
  comes in with; the reply tells what MPI leaves in them. They are the wrapper's locals, or a
  caller's variable the wrapper reads after the call.

  \<open>Chars\<close> is a C string MPI reads, \<open>Argv\<close> an array of them that a null pointer ends, \<open>Argvs\<close> an array
  of such arrays, in which \<open>None\<close> is a null pointer. \<open>Room\<close> is a local array of characters MPI writes
  a string into. A wrapper refers to its C strings by pointers, \<open>Ptr\<close>, \<open>Ptrs\<close> and \<open>Ptrss\<close>, which are
  followed when MPI is called.
\<close>

datatype arg =
    Val int
  | Buf addr
  | Hdl handle
  | Handles "handle list"
  | Vals "fint list"
  | Aints "aint list"
  | Temp string handle
  | Temps string "handle list"
  | Flag string fint
  | Flags string "fint list"
  | Chars "byte list"
  | Argv "byte list list"
  | Argvs "byte list list option list"
  | Room string "byte option list"
  | Ptr "ptr option"
  | Ptrs "ptr option list"
  | Ptrss "ptr option list"

record reply =
  rc :: fint
  temp :: "string \<Rightarrow> handle"
  flag :: "string \<Rightarrow> fint"
  temps :: "string \<Rightarrow> handle list"
  flags :: "string \<Rightarrow> fint list"
  chars :: "string \<Rightarrow> byte list"

abbreviation short_reply :: "fint \<Rightarrow> (string \<Rightarrow> handle) \<Rightarrow> reply" where
  "short_reply e t \<equiv>
     \<lparr>rc = e, temp = t, flag = (\<lambda>_. 0), temps = (\<lambda>_. []), flags = (\<lambda>_. []), chars = (\<lambda>_. [])\<rparr>"

text \<open>
  The functions used before the principal call are local queries: they return an error code and
  values. \<open>mpi pr large name args\<close> is the principal call: the function \<open>name\<close> under the
  name \<open>MPI_\<close> or \<open>PMPI_\<close>, in its large-count version \<open>_c\<close> if \<open>large\<close>.
\<close>

record 'w mpi_lib =
  place :: placement
  handles :: handle_api
  logicals :: logical_repr
  PMPI_Comm_test_inter :: "handle \<Rightarrow> 'w \<Rightarrow> fint \<times> bool"
  PMPI_Comm_rank :: "handle \<Rightarrow> 'w \<Rightarrow> fint \<times> fint"
  PMPI_Comm_size :: "handle \<Rightarrow> 'w \<Rightarrow> fint \<times> fint"
  PMPI_Comm_remote_size :: "handle \<Rightarrow> 'w \<Rightarrow> fint \<times> fint"
  PMPI_Topo_test :: "handle \<Rightarrow> 'w \<Rightarrow> fint \<times> fint"
  PMPI_Cartdim_get :: "handle \<Rightarrow> 'w \<Rightarrow> fint \<times> fint"
  PMPI_Graph_neighbors_count :: "handle \<Rightarrow> fint \<Rightarrow> 'w \<Rightarrow> fint \<times> fint"
  PMPI_Dist_graph_neighbors_count :: "handle \<Rightarrow> 'w \<Rightarrow> fint \<times> fint \<times> fint"
  mpi :: "profile \<Rightarrow> bool \<Rightarrow> string \<Rightarrow> arg list \<Rightarrow> 'w \<Rightarrow> reply \<times> 'w"

abbreviation of_int_handle :: "('w, 'z) mpi_lib_scheme \<Rightarrow> hkind \<Rightarrow> fint \<Rightarrow> handle" where
  "of_int_handle E \<equiv> fromint (handles E)"

text \<open>
  What a wrapper leaves in the caller's variables: the error code, and the locals it converts back,
  in the order of its statements (none when it returns early).
\<close>

record outcome =
  ierror :: fint
  out :: "fint list"

definition returns :: "fint \<Rightarrow> 'w \<Rightarrow> fault + outcome \<times> 'w" where
  "returns e w = Inr (\<lparr>ierror = e, out = []\<rparr>, w)"

text \<open>The principal call, followed by converting back locals: a handle, or an integer as a LOGICAL.\<close>

datatype exported =
    Handle hkind string
  | Logical string

fun convert_one :: "('w, 'z) mpi_lib_scheme \<Rightarrow> reply \<Rightarrow> exported \<Rightarrow> fault + fint" where
  "convert_one E r (Handle k x) = toint_checked (handles E) k (temp r x)"
| "convert_one E r (Logical x) = Inr (mpif_bool2logical (logicals E) (flag r x))"

fun convert_back :: "('w, 'z) mpi_lib_scheme \<Rightarrow> reply \<Rightarrow> exported list \<Rightarrow> fault + fint list" where
  "convert_back E r [] = Inr []"
| "convert_back E r (b # bs) =
     bindE (convert_one E r b) (\<lambda>i. bindE (convert_back E r bs) (\<lambda>is. Inr (i # is)))"

definition calls ::
    "('w, 'z) mpi_lib_scheme \<Rightarrow> profile \<Rightarrow> bool \<Rightarrow> string \<Rightarrow> arg list \<Rightarrow> exported list \<Rightarrow> 'w \<Rightarrow>
     fault + outcome \<times> 'w" where
  "calls E pr large name args bs w =
     (let (r, w) = mpi E pr large name args w
      in bindE (convert_back E r bs) (\<lambda>os. Inr (\<lparr>ierror = rc r, out = os\<rparr>, w)))"

lemma returns_Inr [simp]: "returns e w = Inr (r, w') \<longleftrightarrow> r = \<lparr>ierror = e, out = []\<rparr> \<and> w' = w"
  by (auto simp: returns_def)

lemma calls_nothing [simp]:
  "calls E pr large name args [] w =
     (let (r, w) = mpi E pr large name args w in Inr (\<lparr>ierror = rc r, out = []\<rparr>, w))"
  by (simp add: calls_def)

section \<open>Probes\<close>

text \<open>Each gives an error code to return, or what was asked.\<close>

definition at_root :: "('w, 'z) mpi_lib_scheme \<Rightarrow> handle \<Rightarrow> fint \<Rightarrow> 'w \<Rightarrow> fint + bool" where
  "at_root E comm root w =
     (let (e, inter) = PMPI_Comm_test_inter E comm w
      in if e \<noteq> MPI_SUCCESS then Inl e
         else if inter then Inr (root = MPI_ROOT)
         else (let (e, rank) = PMPI_Comm_rank E comm w
               in if e \<noteq> MPI_SUCCESS then Inl e else Inr (rank = root)))"

definition group_size :: "('w, 'z) mpi_lib_scheme \<Rightarrow> handle \<Rightarrow> 'w \<Rightarrow> fint + fint" where
  "group_size E comm w =
     (let (e, inter) = PMPI_Comm_test_inter E comm w;
          (e, n) = (if e = MPI_SUCCESS
                    then (if inter then PMPI_Comm_remote_size E comm w else PMPI_Comm_size E comm w)
                    else (e, 0))
      in if e \<noteq> MPI_SUCCESS then Inl e else Inr n)"

text \<open>
  The in-degree and the out-degree; a communicator without topology has none. Counts are words: the
  doubled number of dimensions would wrap where C's \<open>int\<close> overflows, beyond any topology.
\<close>

definition neighbour_counts :: "('w, 'z) mpi_lib_scheme \<Rightarrow> handle \<Rightarrow> 'w \<Rightarrow> fint + fint \<times> fint" where
  "neighbour_counts E comm w =
     (let (e, topology) = PMPI_Topo_test E comm w;
          (e, indegree, outdegree) =
            (if e \<noteq> MPI_SUCCESS then (e, 0, 0)
             else if topology = MPI_CART
             then (let (e, ndims) = PMPI_Cartdim_get E comm w
                   in if e = MPI_SUCCESS then (e, 2 * ndims, 2 * ndims) else (e, 0, 0))
             else if topology = MPI_GRAPH
             then (let (e, rank) = PMPI_Comm_rank E comm w;
                       (e, n) = (if e = MPI_SUCCESS then PMPI_Graph_neighbors_count E comm rank w
                                 else (e, 0))
                   in if e = MPI_SUCCESS then (e, n, n) else (e, 0, 0))
             else if topology = MPI_DIST_GRAPH then PMPI_Dist_graph_neighbors_count E comm w
             else (e, 0, 0))
      in if e \<noteq> MPI_SUCCESS then Inl e else Inr (indegree, outdegree))"

definition probing ::
    "('w \<Rightarrow> fint + 'a) \<Rightarrow> ('a \<Rightarrow> 'w \<Rightarrow> fault + outcome \<times> 'w) \<Rightarrow> 'w \<Rightarrow> fault + outcome \<times> 'w" where
  "probing p k w = (case p w of Inl e \<Rightarrow> returns e w | Inr x \<Rightarrow> k x w)"

lemma at_root_inter:
  "PMPI_Comm_test_inter E comm w = (MPI_SUCCESS, True) \<Longrightarrow> at_root E comm root w = Inr (root = MPI_ROOT)"
  by (simp add: at_root_def)

lemma at_root_intra:
  "PMPI_Comm_test_inter E comm w = (MPI_SUCCESS, False) \<Longrightarrow>
   PMPI_Comm_rank E comm w = (MPI_SUCCESS, rank) \<Longrightarrow> at_root E comm root w = Inr (rank = root)"
  by (simp add: at_root_def)

section \<open>Arrays of handles\<close>

text \<open>
  The loop that converts the first \<open>n\<close> integers of a caller's array, which is a fault beyond its end.
  The local array has at least one element; those not assigned are indeterminate and not listed.
\<close>

definition from_array :: "handle_api \<Rightarrow> hkind \<Rightarrow> fint list \<Rightarrow> fint \<Rightarrow> fault + handle list" where
  "from_array H k xs n =
     for_upto (\<lambda>i. bindE (read_at xs i) (\<lambda>x. Inr (fromint H k x))) [0..<nat (sint n)]"

lemma from_array_spec:
  "nat (sint n) \<le> length xs \<Longrightarrow> from_array H k xs n = Inr (map (fromint H k) (take (nat (sint n)) xs))"
proof -
  assume le: "nat (sint n) \<le> length xs"
  have "for_upto (\<lambda>i. bindE (read_at xs i) (\<lambda>x. Inr (fromint H k x))) is =
      Inr (map (\<lambda>i. fromint H k (xs ! i)) is)" if "\<forall>i \<in> set is. i < length xs" for "is"
    using that by (induction "is") (simp_all add: read_at_def)
  moreover have "map (\<lambda>i. fromint H k (xs ! i)) [0..<m] = map (fromint H k) (take m xs)"
    if "m \<le> length xs" for m
    using that by (intro nth_equalityI) simp_all
  ultimately show ?thesis using le by (simp add: from_array_def)
qed

lemma from_array_fault:
  assumes "length xs < nat (sint n)"
  shows "from_array H k xs n = Inl Bad_read"
proof -
  have "for_upto (\<lambda>i. bindE (read_at xs i) (\<lambda>x. Inr (fromint H k x))) is = Inl Bad_read"
    if "\<exists>i \<in> set is. length xs \<le> i" for "is"
    using that
  proof (induction "is")
    case (Cons i "is")
    then show ?case by (cases "length xs \<le> i") (simp_all add: read_at_def)
  qed simp
  moreover have "\<exists>i \<in> set [0..<nat (sint n)]. length xs \<le> i"
    using assms by (intro bexI [of _ "length xs"]) simp_all
  ultimately show ?thesis unfolding from_array_def by blast
qed

section \<open>What a call's variables hold when MPI is called\<close>

text \<open>For stating what MPI does: the contents with which a named variable is passed.\<close>

fun initial :: "arg list \<Rightarrow> string \<Rightarrow> handle" where
  "initial [] x = 0"
| "initial (Temp y v # as) x = (if x = y then v else initial as x)"
| "initial (_ # as) x = initial as x"

fun incoming :: "arg list \<Rightarrow> string \<Rightarrow> fint" where
  "incoming [] x = 0"
| "incoming (Flag y i # as) x = (if x = y then i else incoming as x)"
| "incoming (_ # as) x = incoming as x"

fun initials :: "arg list \<Rightarrow> string \<Rightarrow> handle list" where
  "initials [] x = []"
| "initials (Temps y vs # as) x = (if x = y then vs else initials as x)"
| "initials (_ # as) x = initials as x"

fun incomings :: "arg list \<Rightarrow> string \<Rightarrow> fint list" where
  "incomings [] x = []"
| "incomings (Flags y is # as) x = (if x = y then is else incomings as x)"
| "incomings (_ # as) x = incomings as x"

section \<open>A library to run calls on\<close>

text \<open>Its world is the calls that were made, its handles are the integers, and it stores nothing.\<close>

definition logging_lib :: "(string \<times> arg list) list mpi_lib" where
  "logging_lib =
     \<lparr>place = packed, handles = identity_handles, logicals = \<lparr>logical_true = 1, logical_false = 0\<rparr>,
      PMPI_Comm_test_inter = (\<lambda>_ _. (MPI_SUCCESS, False)), PMPI_Comm_rank = (\<lambda>_ _. (MPI_SUCCESS, 0)),
      PMPI_Comm_size = (\<lambda>_ _. (MPI_SUCCESS, 1)), PMPI_Comm_remote_size = (\<lambda>_ _. (MPI_SUCCESS, 1)),
      PMPI_Topo_test = (\<lambda>_ _. (MPI_SUCCESS, MPI_CART)), PMPI_Cartdim_get = (\<lambda>_ _. (MPI_SUCCESS, 2)),
      PMPI_Graph_neighbors_count = (\<lambda>_ _ _. (MPI_SUCCESS, 2)),
      PMPI_Dist_graph_neighbors_count = (\<lambda>_ _. (MPI_SUCCESS, 2, 2)),
      mpi = (\<lambda>pr large name args w. (short_reply MPI_SUCCESS (\<lambda>_. 0), w @ [(name, args)]))\<rparr>"

end
