(* ===== verification/Wrappers_Plain.thy ===== *)
theory Wrappers_Plain
  imports Mpi_Calls
begin

text \<open>
  The wrappers of \<open>gen/mpif_functions.c\<close> without choice buffers, strings and arrays of handles:
  their work is converting handles and logical values in both directions and recognising sentinels.
  One definition stands for a routine's versions, as in the other wrapper theories.
\<close>

section \<open>The ABI\<close>

definition mpi_abi_get_fortran_booleans where
  "mpi_abi_get_fortran_booleans E pr logical_size true_p false_p =
     calls E pr False ''Abi_get_fortran_booleans''
       [Val logical_size, Buf true_p, Buf false_p, Flag ''is_set'' 0] [Logical ''is_set'']"

definition mpi_abi_get_fortran_info where
  "mpi_abi_get_fortran_info E pr =
     calls E pr False ''Abi_get_fortran_info''
       [Temp ''info'' MPI_INFO_NULL] [Handle Info ''info'']"

definition mpi_abi_get_info where
  "mpi_abi_get_info E pr =
     calls E pr False ''Abi_get_info''
       [Temp ''info'' MPI_INFO_NULL] [Handle Info ''info'']"

definition mpi_abi_get_version where
  "mpi_abi_get_version E pr abi_major abi_minor =
     calls E pr False ''Abi_get_version''
       [Buf abi_major, Buf abi_minor] []"

definition mpi_abi_set_fortran_booleans where
  "mpi_abi_set_fortran_booleans E pr logical_size true_p false_p =
     calls E pr False ''Abi_set_fortran_booleans''
       [Val logical_size, Buf true_p, Buf false_p] []"

definition mpi_abi_set_fortran_info where
  "mpi_abi_set_fortran_info E pr info =
     calls E pr False ''Abi_set_fortran_info''
       [Hdl (of_int_handle E Info info)] []"

section \<open>Environment, messages, requests and everything else\<close>

definition mpi_abort where
  "mpi_abort E pr comm errorcode =
     calls E pr False ''Abort''
       [Hdl (of_int_handle E Comm comm), Val errorcode] []"

definition mpi_add_error_class where
  "mpi_add_error_class E pr errorclass =
     calls E pr False ''Add_error_class''
       [Buf errorclass] []"

definition mpi_add_error_code where
  "mpi_add_error_code E pr errorclass errorcode =
     calls E pr False ''Add_error_code''
       [Val errorclass, Buf errorcode] []"

definition mpi_alloc_mem where
  "mpi_alloc_mem E pr sz info baseptr =
     calls E pr False ''Alloc_mem''
       [Val sz, Hdl (of_int_handle E Info info), Buf baseptr] []"

text \<open>
  The ABI has no MPI-1 attribute routines. The file's macros turn \<open>MPI_Attr_delete\<close>, \<open>MPI_Attr_get\<close>, \<open>MPI_Attr_put\<close>,
  \<open>MPI_Keyval_create\<close> and \<open>MPI_Keyval_free\<close> into the routines for communicators, which are what is called.
\<close>

definition mpi_attr_delete where
  "mpi_attr_delete E pr comm keyval =
     calls E pr False ''Comm_delete_attr''
       [Hdl (of_int_handle E Comm comm), Val keyval] []"

definition mpi_attr_put where
  "mpi_attr_put E pr comm keyval attribute_val =
     calls E pr False ''Comm_set_attr''
       [Hdl (of_int_handle E Comm comm), Val keyval, Buf (to_aint attribute_val)] []"

definition mpi_barrier where
  "mpi_barrier E pr comm =
     calls E pr False ''Barrier''
       [Hdl (of_int_handle E Comm comm)] []"

definition mpi_barrier_init where
  "mpi_barrier_init E pr comm info =
     calls E pr False ''Barrier_init''
       [Hdl (of_int_handle E Comm comm), Hdl (of_int_handle E Info info),
        Temp ''request'' MPI_REQUEST_NULL] [Handle Request ''request'']"

definition mpi_buffer_flush where
  "mpi_buffer_flush E pr =
     calls E pr False ''Buffer_flush''
       [] []"

definition mpi_buffer_iflush where
  "mpi_buffer_iflush E pr =
     calls E pr False ''Buffer_iflush''
       [Temp ''request'' MPI_REQUEST_NULL] [Handle Request ''request'']"

definition mpi_cancel where
  "mpi_cancel E pr request =
     calls E pr False ''Cancel''
       [Temp ''request'' (of_int_handle E Request request)] [Handle Request ''request'']"

definition mpi_cartdim_get where
  "mpi_cartdim_get E pr comm ndims =
     calls E pr False ''Cartdim_get''
       [Hdl (of_int_handle E Comm comm), Buf ndims] []"

definition mpi_dims_create where
  "mpi_dims_create E pr nnodes ndims dims =
     calls E pr False ''Dims_create''
       [Val nnodes, Val ndims, Buf dims] []"

definition mpi_finalize where
  "mpi_finalize E pr =
     calls E pr False ''Finalize''
       [] []"

definition mpi_finalized where
  "mpi_finalized E pr =
     calls E pr False ''Finalized''
       [Flag ''flag'' 0] [Logical ''flag'']"

definition mpi_get_count where
  "mpi_get_count E pr large status datatype cnt =
     calls E pr large ''Get_count''
       [Buf (mpif_c_cstatus (place E) status), Hdl (of_int_handle E Type datatype), Buf cnt] []"

definition mpi_get_elements where
  "mpi_get_elements E pr large status datatype cnt =
     calls E pr large ''Get_elements''
       [Buf (mpif_c_cstatus (place E) status), Hdl (of_int_handle E Type datatype), Buf cnt] []"

definition mpi_get_elements_x where
  "mpi_get_elements_x E pr status datatype cnt =
     calls E pr False ''Get_elements_x''
       [Buf (mpif_c_cstatus (place E) status), Hdl (of_int_handle E Type datatype), Buf cnt] []"

definition mpi_get_hw_resource_info where
  "mpi_get_hw_resource_info E pr =
     calls E pr False ''Get_hw_resource_info''
       [Temp ''hw_info'' MPI_INFO_NULL] [Handle Info ''hw_info'']"

definition mpi_get_version where
  "mpi_get_version E pr version subversion =
     calls E pr False ''Get_version''
       [Buf version, Buf subversion] []"

definition mpi_graphdims_get where
  "mpi_graphdims_get E pr comm nnodes nedges =
     calls E pr False ''Graphdims_get''
       [Hdl (of_int_handle E Comm comm), Buf nnodes, Buf nedges] []"

definition mpi_grequest_complete where
  "mpi_grequest_complete E pr request =
     calls E pr False ''Grequest_complete''
       [Hdl (of_int_handle E Request request)] []"

definition mpi_ibarrier where
  "mpi_ibarrier E pr comm =
     calls E pr False ''Ibarrier''
       [Hdl (of_int_handle E Comm comm), Temp ''request'' MPI_REQUEST_NULL]
       [Handle Request ''request'']"

definition mpi_improbe where
  "mpi_improbe E pr source tag comm status =
     calls E pr False ''Improbe''
       [Val source, Val tag, Hdl (of_int_handle E Comm comm), Flag ''flag'' 0,
        Temp ''message'' (null_handle Message), Buf (mpif_c_status (place E) status)]
       [Logical ''flag'', Handle Message ''message'']"

definition mpi_init where
  "mpi_init E pr =
     calls E pr False ''Init''
       [Buf null, Buf null] []"

definition mpi_init_thread where
  "mpi_init_thread E pr required provided =
     calls E pr False ''Init_thread''
       [Buf null, Buf null, Val required, Buf provided] []"

definition mpi_initialized where
  "mpi_initialized E pr =
     calls E pr False ''Initialized''
       [Flag ''flag'' 0] [Logical ''flag'']"

definition mpi_intercomm_create where
  "mpi_intercomm_create E pr local_comm local_leader peer_comm remote_leader tag =
     calls E pr False ''Intercomm_create''
       [Hdl (of_int_handle E Comm local_comm), Val local_leader,
        Hdl (of_int_handle E Comm peer_comm), Val remote_leader, Val tag,
        Temp ''newintercomm'' MPI_COMM_NULL] [Handle Comm ''newintercomm'']"

definition mpi_intercomm_merge where
  "mpi_intercomm_merge E pr intercomm high =
     calls E pr False ''Intercomm_merge''
       [Hdl (of_int_handle E Comm intercomm), Val (sint (mpif_logical2bool (logicals E) high)),
        Temp ''newintracomm'' MPI_COMM_NULL] [Handle Comm ''newintracomm'']"

definition mpi_iprobe where
  "mpi_iprobe E pr source tag comm status =
     calls E pr False ''Iprobe''
       [Val source, Val tag, Hdl (of_int_handle E Comm comm), Flag ''flag'' 0,
        Buf (mpif_c_status (place E) status)] [Logical ''flag'']"

definition mpi_is_thread_main where
  "mpi_is_thread_main E pr =
     calls E pr False ''Is_thread_main''
       [Flag ''flag'' 0] [Logical ''flag'']"

definition mpi_keyval_free where
  "mpi_keyval_free E pr keyval =
     calls E pr False ''Comm_free_keyval''
       [Buf keyval] []"

definition mpi_mprobe where
  "mpi_mprobe E pr source tag comm status =
     calls E pr False ''Mprobe''
       [Val source, Val tag, Hdl (of_int_handle E Comm comm),
        Temp ''message'' (null_handle Message), Buf (mpif_c_status (place E) status)]
       [Handle Message ''message'']"

definition mpi_pack_size where
  "mpi_pack_size E pr large incount datatype comm sz =
     calls E pr large ''Pack_size''
       [Val incount, Hdl (of_int_handle E Type datatype), Hdl (of_int_handle E Comm comm),
        Buf sz] []"

definition mpi_parrived where
  "mpi_parrived E pr request partition_p =
     calls E pr False ''Parrived''
       [Hdl (of_int_handle E Request request), Val partition_p, Flag ''flag'' 0] [Logical ''flag'']"

definition mpi_pready where
  "mpi_pready E pr partition_p request =
     calls E pr False ''Pready''
       [Val partition_p, Hdl (of_int_handle E Request request)] []"

definition mpi_pready_list where
  "mpi_pready_list E pr length_p array_of_partitions request =
     calls E pr False ''Pready_list''
       [Val length_p, Buf array_of_partitions, Hdl (of_int_handle E Request request)] []"

definition mpi_pready_range where
  "mpi_pready_range E pr partition_low partition_high request =
     calls E pr False ''Pready_range''
       [Val partition_low, Val partition_high, Hdl (of_int_handle E Request request)] []"

definition mpi_probe where
  "mpi_probe E pr source tag comm status =
     calls E pr False ''Probe''
       [Val source, Val tag, Hdl (of_int_handle E Comm comm),
        Buf (mpif_c_status (place E) status)] []"

definition mpi_query_thread where
  "mpi_query_thread E pr provided =
     calls E pr False ''Query_thread''
       [Buf provided] []"

definition mpi_remove_error_class where
  "mpi_remove_error_class E pr errorclass =
     calls E pr False ''Remove_error_class''
       [Val errorclass] []"

definition mpi_remove_error_code where
  "mpi_remove_error_code E pr errorcode =
     calls E pr False ''Remove_error_code''
       [Val errorcode] []"

definition mpi_remove_error_string where
  "mpi_remove_error_string E pr errorcode =
     calls E pr False ''Remove_error_string''
       [Val errorcode] []"

definition mpi_start where
  "mpi_start E pr request =
     calls E pr False ''Start''
       [Temp ''request'' (of_int_handle E Request request)] [Handle Request ''request'']"

definition mpi_test where
  "mpi_test E pr request status =
     calls E pr False ''Test''
       [Temp ''request'' (of_int_handle E Request request), Flag ''flag'' 0,
        Buf (mpif_c_status (place E) status)] [Handle Request ''request'', Logical ''flag'']"

definition mpi_test_cancelled where
  "mpi_test_cancelled E pr status =
     calls E pr False ''Test_cancelled''
       [Buf (mpif_c_cstatus (place E) status), Flag ''flag'' 0] [Logical ''flag'']"

definition mpi_wait where
  "mpi_wait E pr request status =
     calls E pr False ''Wait''
       [Temp ''request'' (of_int_handle E Request request),
        Buf (mpif_c_status (place E) status)] [Handle Request ''request'']"

section \<open>Cartesian topologies\<close>

definition mpi_cart_coords where
  "mpi_cart_coords E pr comm rnk maxdims coords =
     calls E pr False ''Cart_coords''
       [Hdl (of_int_handle E Comm comm), Val rnk, Val maxdims, Buf coords] []"

definition mpi_cart_rank where
  "mpi_cart_rank E pr comm coords rnk =
     calls E pr False ''Cart_rank''
       [Hdl (of_int_handle E Comm comm), Buf coords, Buf rnk] []"

definition mpi_cart_shift where
  "mpi_cart_shift E pr comm direction disp rank_source rank_dest =
     calls E pr False ''Cart_shift''
       [Hdl (of_int_handle E Comm comm), Val direction, Val disp, Buf rank_source,
        Buf rank_dest] []"

section \<open>Communicators\<close>

definition mpi_comm_call_errhandler where
  "mpi_comm_call_errhandler E pr comm errorcode =
     calls E pr False ''Comm_call_errhandler''
       [Hdl (of_int_handle E Comm comm), Val errorcode] []"

definition mpi_comm_compare where
  "mpi_comm_compare E pr comm1 comm2 res =
     calls E pr False ''Comm_compare''
       [Hdl (of_int_handle E Comm comm1), Hdl (of_int_handle E Comm comm2), Buf res] []"

definition mpi_comm_create where
  "mpi_comm_create E pr comm group_p =
     calls E pr False ''Comm_create''
       [Hdl (of_int_handle E Comm comm), Hdl (of_int_handle E Group group_p),
        Temp ''newcomm'' MPI_COMM_NULL] [Handle Comm ''newcomm'']"

definition mpi_comm_create_group where
  "mpi_comm_create_group E pr comm group_p tag =
     calls E pr False ''Comm_create_group''
       [Hdl (of_int_handle E Comm comm), Hdl (of_int_handle E Group group_p), Val tag,
        Temp ''newcomm'' MPI_COMM_NULL] [Handle Comm ''newcomm'']"

definition mpi_comm_delete_attr where
  "mpi_comm_delete_attr E pr comm comm_keyval =
     calls E pr False ''Comm_delete_attr''
       [Hdl (of_int_handle E Comm comm), Val comm_keyval] []"

definition mpi_comm_disconnect where
  "mpi_comm_disconnect E pr comm =
     calls E pr False ''Comm_disconnect''
       [Temp ''comm'' (of_int_handle E Comm comm)] [Handle Comm ''comm'']"

definition mpi_comm_dup where
  "mpi_comm_dup E pr comm =
     calls E pr False ''Comm_dup''
       [Hdl (of_int_handle E Comm comm), Temp ''newcomm'' MPI_COMM_NULL] [Handle Comm ''newcomm'']"

definition mpi_comm_dup_with_info where
  "mpi_comm_dup_with_info E pr comm info =
     calls E pr False ''Comm_dup_with_info''
       [Hdl (of_int_handle E Comm comm), Hdl (of_int_handle E Info info),
        Temp ''newcomm'' MPI_COMM_NULL] [Handle Comm ''newcomm'']"

definition mpi_comm_flush_buffer where
  "mpi_comm_flush_buffer E pr comm =
     calls E pr False ''Comm_flush_buffer''
       [Hdl (of_int_handle E Comm comm)] []"

definition mpi_comm_free where
  "mpi_comm_free E pr comm =
     calls E pr False ''Comm_free''
       [Temp ''comm'' (of_int_handle E Comm comm)] [Handle Comm ''comm'']"

definition mpi_comm_free_keyval where
  "mpi_comm_free_keyval E pr comm_keyval =
     calls E pr False ''Comm_free_keyval''
       [Buf comm_keyval] []"

definition mpi_comm_get_errhandler where
  "mpi_comm_get_errhandler E pr comm =
     calls E pr False ''Comm_get_errhandler''
       [Hdl (of_int_handle E Comm comm), Temp ''errhandler'' MPI_ERRHANDLER_NULL]
       [Handle Errhandler ''errhandler'']"

definition mpi_comm_get_info where
  "mpi_comm_get_info E pr comm =
     calls E pr False ''Comm_get_info''
       [Hdl (of_int_handle E Comm comm), Temp ''info_used'' MPI_INFO_NULL]
       [Handle Info ''info_used'']"

definition mpi_comm_get_parent where
  "mpi_comm_get_parent E pr =
     calls E pr False ''Comm_get_parent''
       [Temp ''parent'' MPI_COMM_NULL] [Handle Comm ''parent'']"

definition mpi_comm_group where
  "mpi_comm_group E pr comm =
     calls E pr False ''Comm_group''
       [Hdl (of_int_handle E Comm comm), Temp ''group'' (null_handle Group)]
       [Handle Group ''group'']"

definition mpi_comm_idup where
  "mpi_comm_idup E pr comm =
     calls E pr False ''Comm_idup''
       [Hdl (of_int_handle E Comm comm), Temp ''newcomm'' MPI_COMM_NULL,
        Temp ''request'' MPI_REQUEST_NULL] [Handle Comm ''newcomm'', Handle Request ''request'']"

definition mpi_comm_idup_with_info where
  "mpi_comm_idup_with_info E pr comm info =
     calls E pr False ''Comm_idup_with_info''
       [Hdl (of_int_handle E Comm comm), Hdl (of_int_handle E Info info),
        Temp ''newcomm'' MPI_COMM_NULL, Temp ''request'' MPI_REQUEST_NULL]
       [Handle Comm ''newcomm'', Handle Request ''request'']"

definition mpi_comm_iflush_buffer where
  "mpi_comm_iflush_buffer E pr comm =
     calls E pr False ''Comm_iflush_buffer''
       [Hdl (of_int_handle E Comm comm), Temp ''request'' MPI_REQUEST_NULL]
       [Handle Request ''request'']"

definition mpi_comm_join where
  "mpi_comm_join E pr fd =
     calls E pr False ''Comm_join''
       [Val fd, Temp ''intercomm'' MPI_COMM_NULL] [Handle Comm ''intercomm'']"

definition mpi_comm_rank where
  "mpi_comm_rank E pr comm rnk =
     calls E pr False ''Comm_rank''
       [Hdl (of_int_handle E Comm comm), Buf rnk] []"

definition mpi_comm_remote_group where
  "mpi_comm_remote_group E pr comm =
     calls E pr False ''Comm_remote_group''
       [Hdl (of_int_handle E Comm comm), Temp ''group'' (null_handle Group)]
       [Handle Group ''group'']"

definition mpi_comm_remote_size where
  "mpi_comm_remote_size E pr comm sz =
     calls E pr False ''Comm_remote_size''
       [Hdl (of_int_handle E Comm comm), Buf sz] []"

definition mpi_comm_set_attr where
  "mpi_comm_set_attr E pr comm comm_keyval attribute_val =
     calls E pr False ''Comm_set_attr''
       [Hdl (of_int_handle E Comm comm), Val comm_keyval, Buf attribute_val] []"

definition mpi_comm_set_errhandler where
  "mpi_comm_set_errhandler E pr comm errhandler =
     calls E pr False ''Comm_set_errhandler''
       [Hdl (of_int_handle E Comm comm), Hdl (of_int_handle E Errhandler errhandler)] []"

definition mpi_comm_set_info where
  "mpi_comm_set_info E pr comm info =
     calls E pr False ''Comm_set_info''
       [Hdl (of_int_handle E Comm comm), Hdl (of_int_handle E Info info)] []"

definition mpi_comm_size where
  "mpi_comm_size E pr comm sz =
     calls E pr False ''Comm_size''
       [Hdl (of_int_handle E Comm comm), Buf sz] []"

definition mpi_comm_split where
  "mpi_comm_split E pr comm color key =
     calls E pr False ''Comm_split''
       [Hdl (of_int_handle E Comm comm), Val color, Val key, Temp ''newcomm'' MPI_COMM_NULL]
       [Handle Comm ''newcomm'']"

definition mpi_comm_split_type where
  "mpi_comm_split_type E pr comm split_type key info =
     calls E pr False ''Comm_split_type''
       [Hdl (of_int_handle E Comm comm), Val split_type, Val key,
        Hdl (of_int_handle E Info info), Temp ''newcomm'' MPI_COMM_NULL] [Handle Comm ''newcomm'']"

definition mpi_comm_test_inter where
  "mpi_comm_test_inter E pr comm =
     calls E pr False ''Comm_test_inter''
       [Hdl (of_int_handle E Comm comm), Flag ''flag'' 0] [Logical ''flag'']"

section \<open>Distributed graph topologies\<close>

definition mpi_dist_graph_create where
  "mpi_dist_graph_create E pr comm_old n sources degrees destinations weights info reorder =
     calls E pr False ''Dist_graph_create''
       [Hdl (of_int_handle E Comm comm_old), Val n, Buf sources, Buf degrees, Buf destinations,
        Buf (mpif_c_cweights (place E) weights), Hdl (of_int_handle E Info info),
        Val (sint (mpif_logical2bool (logicals E) reorder)),
        Temp ''comm_dist_graph'' MPI_COMM_NULL] [Handle Comm ''comm_dist_graph'']"

definition mpi_dist_graph_create_adjacent where
  "mpi_dist_graph_create_adjacent E pr comm_old indegree sources sourceweights outdegree
    destinations destweights info reorder =
     calls E pr False ''Dist_graph_create_adjacent''
       [Hdl (of_int_handle E Comm comm_old), Val indegree, Buf sources,
        Buf (mpif_c_cweights (place E) sourceweights), Val outdegree, Buf destinations,
        Buf (mpif_c_cweights (place E) destweights), Hdl (of_int_handle E Info info),
        Val (sint (mpif_logical2bool (logicals E) reorder)),
        Temp ''comm_dist_graph'' MPI_COMM_NULL] [Handle Comm ''comm_dist_graph'']"

definition mpi_dist_graph_neighbors where
  "mpi_dist_graph_neighbors E pr comm maxindegree sources sourceweights maxoutdegree
    destinations destweights =
     calls E pr False ''Dist_graph_neighbors''
       [Hdl (of_int_handle E Comm comm), Val maxindegree, Buf sources,
        Buf (mpif_c_weights (place E) sourceweights), Val maxoutdegree, Buf destinations,
        Buf (mpif_c_weights (place E) destweights)] []"

definition mpi_dist_graph_neighbors_count where
  "mpi_dist_graph_neighbors_count E pr comm indegree outdegree =
     calls E pr False ''Dist_graph_neighbors_count''
       [Hdl (of_int_handle E Comm comm), Buf indegree, Buf outdegree, Flag ''weighted'' 0]
       [Logical ''weighted'']"

section \<open>Error handlers\<close>

definition mpi_errhandler_free where
  "mpi_errhandler_free E pr errhandler =
     calls E pr False ''Errhandler_free''
       [Temp ''errhandler'' (of_int_handle E Errhandler errhandler)]
       [Handle Errhandler ''errhandler'']"

section \<open>Errors\<close>

definition mpi_error_class where
  "mpi_error_class E pr errorcode errorclass =
     calls E pr False ''Error_class''
       [Val errorcode, Buf errorclass] []"

section \<open>Files\<close>

definition mpi_file_call_errhandler where
  "mpi_file_call_errhandler E pr fh errorcode =
     calls E pr False ''File_call_errhandler''
       [Hdl (of_int_handle E File fh), Val errorcode] []"

definition mpi_file_close where
  "mpi_file_close E pr fh =
     calls E pr False ''File_close''
       [Temp ''fh'' (of_int_handle E File fh)] [Handle File ''fh'']"

definition mpi_file_get_amode where
  "mpi_file_get_amode E pr fh amode =
     calls E pr False ''File_get_amode''
       [Hdl (of_int_handle E File fh), Buf amode] []"

definition mpi_file_get_atomicity where
  "mpi_file_get_atomicity E pr fh =
     calls E pr False ''File_get_atomicity''
       [Hdl (of_int_handle E File fh), Flag ''flag'' 0] [Logical ''flag'']"

definition mpi_file_get_byte_offset where
  "mpi_file_get_byte_offset E pr fh offset disp =
     calls E pr False ''File_get_byte_offset''
       [Hdl (of_int_handle E File fh), Val offset, Buf disp] []"

definition mpi_file_get_errhandler where
  "mpi_file_get_errhandler E pr file =
     calls E pr False ''File_get_errhandler''
       [Hdl (of_int_handle E File file), Temp ''errhandler'' MPI_ERRHANDLER_NULL]
       [Handle Errhandler ''errhandler'']"

definition mpi_file_get_group where
  "mpi_file_get_group E pr fh =
     calls E pr False ''File_get_group''
       [Hdl (of_int_handle E File fh), Temp ''group'' (null_handle Group)] [Handle Group ''group'']"

definition mpi_file_get_info where
  "mpi_file_get_info E pr fh =
     calls E pr False ''File_get_info''
       [Hdl (of_int_handle E File fh), Temp ''info_used'' MPI_INFO_NULL] [Handle Info ''info_used'']"

definition mpi_file_get_position where
  "mpi_file_get_position E pr fh offset =
     calls E pr False ''File_get_position''
       [Hdl (of_int_handle E File fh), Buf offset] []"

definition mpi_file_get_position_shared where
  "mpi_file_get_position_shared E pr fh offset =
     calls E pr False ''File_get_position_shared''
       [Hdl (of_int_handle E File fh), Buf offset] []"

definition mpi_file_get_size where
  "mpi_file_get_size E pr fh sz =
     calls E pr False ''File_get_size''
       [Hdl (of_int_handle E File fh), Buf sz] []"

definition mpi_file_get_type_extent where
  "mpi_file_get_type_extent E pr large fh datatype extent =
     calls E pr large ''File_get_type_extent''
       [Hdl (of_int_handle E File fh), Hdl (of_int_handle E Type datatype), Buf extent] []"

definition mpi_file_preallocate where
  "mpi_file_preallocate E pr fh sz =
     calls E pr False ''File_preallocate''
       [Hdl (of_int_handle E File fh), Val sz] []"

definition mpi_file_seek where
  "mpi_file_seek E pr fh offset whence =
     calls E pr False ''File_seek''
       [Hdl (of_int_handle E File fh), Val offset, Val whence] []"

definition mpi_file_seek_shared where
  "mpi_file_seek_shared E pr fh offset whence =
     calls E pr False ''File_seek_shared''
       [Hdl (of_int_handle E File fh), Val offset, Val whence] []"

definition mpi_file_set_atomicity where
  "mpi_file_set_atomicity E pr fh flag_v =
     calls E pr False ''File_set_atomicity''
       [Hdl (of_int_handle E File fh), Val (sint (mpif_logical2bool (logicals E) flag_v))] []"

definition mpi_file_set_errhandler where
  "mpi_file_set_errhandler E pr file errhandler =
     calls E pr False ''File_set_errhandler''
       [Hdl (of_int_handle E File file), Hdl (of_int_handle E Errhandler errhandler)] []"

definition mpi_file_set_info where
  "mpi_file_set_info E pr fh info =
     calls E pr False ''File_set_info''
       [Hdl (of_int_handle E File fh), Hdl (of_int_handle E Info info)] []"

definition mpi_file_set_size where
  "mpi_file_set_size E pr fh sz =
     calls E pr False ''File_set_size''
       [Hdl (of_int_handle E File fh), Val sz] []"

definition mpi_file_sync where
  "mpi_file_sync E pr fh =
     calls E pr False ''File_sync''
       [Hdl (of_int_handle E File fh)] []"

section \<open>Graph topologies\<close>

definition mpi_graph_create where
  "mpi_graph_create E pr comm_old nnodes idx edges reorder =
     calls E pr False ''Graph_create''
       [Hdl (of_int_handle E Comm comm_old), Val nnodes, Buf idx, Buf edges,
        Val (sint (mpif_logical2bool (logicals E) reorder)), Temp ''comm_graph'' MPI_COMM_NULL]
       [Handle Comm ''comm_graph'']"

definition mpi_graph_get where
  "mpi_graph_get E pr comm maxindex maxedges idx edges =
     calls E pr False ''Graph_get''
       [Hdl (of_int_handle E Comm comm), Val maxindex, Val maxedges, Buf idx, Buf edges] []"

definition mpi_graph_map where
  "mpi_graph_map E pr comm nnodes idx edges newrank =
     calls E pr False ''Graph_map''
       [Hdl (of_int_handle E Comm comm), Val nnodes, Buf idx, Buf edges, Buf newrank] []"

definition mpi_graph_neighbors where
  "mpi_graph_neighbors E pr comm rnk maxneighbors neighbors =
     calls E pr False ''Graph_neighbors''
       [Hdl (of_int_handle E Comm comm), Val rnk, Val maxneighbors, Buf neighbors] []"

definition mpi_graph_neighbors_count where
  "mpi_graph_neighbors_count E pr comm rnk nneighbors =
     calls E pr False ''Graph_neighbors_count''
       [Hdl (of_int_handle E Comm comm), Val rnk, Buf nneighbors] []"

section \<open>Groups\<close>

definition mpi_group_compare where
  "mpi_group_compare E pr group1 group2 res =
     calls E pr False ''Group_compare''
       [Hdl (of_int_handle E Group group1), Hdl (of_int_handle E Group group2), Buf res] []"

definition mpi_group_difference where
  "mpi_group_difference E pr group1 group2 =
     calls E pr False ''Group_difference''
       [Hdl (of_int_handle E Group group1), Hdl (of_int_handle E Group group2),
        Temp ''newgroup'' (null_handle Group)] [Handle Group ''newgroup'']"

definition mpi_group_excl where
  "mpi_group_excl E pr group_p n ranks =
     calls E pr False ''Group_excl''
       [Hdl (of_int_handle E Group group_p), Val n, Buf ranks,
        Temp ''newgroup'' (null_handle Group)] [Handle Group ''newgroup'']"

definition mpi_group_free where
  "mpi_group_free E pr group_p =
     calls E pr False ''Group_free''
       [Temp ''group'' (of_int_handle E Group group_p)] [Handle Group ''group'']"

definition mpi_group_incl where
  "mpi_group_incl E pr group_p n ranks =
     calls E pr False ''Group_incl''
       [Hdl (of_int_handle E Group group_p), Val n, Buf ranks,
        Temp ''newgroup'' (null_handle Group)] [Handle Group ''newgroup'']"

definition mpi_group_intersection where
  "mpi_group_intersection E pr group1 group2 =
     calls E pr False ''Group_intersection''
       [Hdl (of_int_handle E Group group1), Hdl (of_int_handle E Group group2),
        Temp ''newgroup'' (null_handle Group)] [Handle Group ''newgroup'']"

definition mpi_group_range_excl where
  "mpi_group_range_excl E pr group_p n ranges =
     calls E pr False ''Group_range_excl''
       [Hdl (of_int_handle E Group group_p), Val n, Buf ranges,
        Temp ''newgroup'' (null_handle Group)] [Handle Group ''newgroup'']"

definition mpi_group_range_incl where
  "mpi_group_range_incl E pr group_p n ranges =
     calls E pr False ''Group_range_incl''
       [Hdl (of_int_handle E Group group_p), Val n, Buf ranges,
        Temp ''newgroup'' (null_handle Group)] [Handle Group ''newgroup'']"

definition mpi_group_rank where
  "mpi_group_rank E pr group_p rnk =
     calls E pr False ''Group_rank''
       [Hdl (of_int_handle E Group group_p), Buf rnk] []"

definition mpi_group_size where
  "mpi_group_size E pr group_p sz =
     calls E pr False ''Group_size''
       [Hdl (of_int_handle E Group group_p), Buf sz] []"

definition mpi_group_translate_ranks where
  "mpi_group_translate_ranks E pr group1 n ranks1 group2 ranks2 =
     calls E pr False ''Group_translate_ranks''
       [Hdl (of_int_handle E Group group1), Val n, Buf ranks1,
        Hdl (of_int_handle E Group group2), Buf ranks2] []"

definition mpi_group_union where
  "mpi_group_union E pr group1 group2 =
     calls E pr False ''Group_union''
       [Hdl (of_int_handle E Group group1), Hdl (of_int_handle E Group group2),
        Temp ''newgroup'' (null_handle Group)] [Handle Group ''newgroup'']"

section \<open>Info objects\<close>

definition mpi_info_create where
  "mpi_info_create E pr =
     calls E pr False ''Info_create''
       [Temp ''info'' MPI_INFO_NULL] [Handle Info ''info'']"

definition mpi_info_create_env where
  "mpi_info_create_env E pr =
     calls E pr False ''Info_create_env''
       [Val 0, Buf null, Temp ''info'' MPI_INFO_NULL] [Handle Info ''info'']"

definition mpi_info_dup where
  "mpi_info_dup E pr info =
     calls E pr False ''Info_dup''
       [Hdl (of_int_handle E Info info), Temp ''newinfo'' MPI_INFO_NULL] [Handle Info ''newinfo'']"

definition mpi_info_free where
  "mpi_info_free E pr info =
     calls E pr False ''Info_free''
       [Temp ''info'' (of_int_handle E Info info)] [Handle Info ''info'']"

definition mpi_info_get_nkeys where
  "mpi_info_get_nkeys E pr info nkeys =
     calls E pr False ''Info_get_nkeys''
       [Hdl (of_int_handle E Info info), Buf nkeys] []"

section \<open>Operators\<close>

definition mpi_op_commutative where
  "mpi_op_commutative E pr oper =
     calls E pr False ''Op_commutative''
       [Hdl (of_int_handle E Op oper), Flag ''commute'' 0] [Logical ''commute'']"

definition mpi_op_free where
  "mpi_op_free E pr oper =
     calls E pr False ''Op_free''
       [Temp ''op'' (of_int_handle E Op oper)] [Handle Op ''op'']"

section \<open>Requests\<close>

definition mpi_request_free where
  "mpi_request_free E pr request =
     calls E pr False ''Request_free''
       [Temp ''request'' (of_int_handle E Request request)] [Handle Request ''request'']"

definition mpi_request_get_status where
  "mpi_request_get_status E pr request status =
     calls E pr False ''Request_get_status''
       [Hdl (of_int_handle E Request request), Flag ''flag'' 0,
        Buf (mpif_c_status (place E) status)] [Logical ''flag'']"

section \<open>Sessions\<close>

definition mpi_session_call_errhandler where
  "mpi_session_call_errhandler E pr session errorcode =
     calls E pr False ''Session_call_errhandler''
       [Hdl (of_int_handle E Session session), Val errorcode] []"

definition mpi_session_finalize where
  "mpi_session_finalize E pr session =
     calls E pr False ''Session_finalize''
       [Temp ''session'' (of_int_handle E Session session)] [Handle Session ''session'']"

definition mpi_session_flush_buffer where
  "mpi_session_flush_buffer E pr session =
     calls E pr False ''Session_flush_buffer''
       [Hdl (of_int_handle E Session session)] []"

definition mpi_session_get_errhandler where
  "mpi_session_get_errhandler E pr session =
     calls E pr False ''Session_get_errhandler''
       [Hdl (of_int_handle E Session session), Temp ''errhandler'' MPI_ERRHANDLER_NULL]
       [Handle Errhandler ''errhandler'']"

definition mpi_session_get_info where
  "mpi_session_get_info E pr session =
     calls E pr False ''Session_get_info''
       [Hdl (of_int_handle E Session session), Temp ''info_used'' MPI_INFO_NULL]
       [Handle Info ''info_used'']"

definition mpi_session_get_num_psets where
  "mpi_session_get_num_psets E pr session info npset_names =
     calls E pr False ''Session_get_num_psets''
       [Hdl (of_int_handle E Session session), Hdl (of_int_handle E Info info), Buf npset_names] []"

definition mpi_session_iflush_buffer where
  "mpi_session_iflush_buffer E pr session =
     calls E pr False ''Session_iflush_buffer''
       [Hdl (of_int_handle E Session session), Temp ''request'' MPI_REQUEST_NULL]
       [Handle Request ''request'']"

definition mpi_session_init where
  "mpi_session_init E pr info errhandler =
     calls E pr False ''Session_init''
       [Hdl (of_int_handle E Info info), Hdl (of_int_handle E Errhandler errhandler),
        Temp ''session'' (null_handle Session)] [Handle Session ''session'']"

definition mpi_session_set_errhandler where
  "mpi_session_set_errhandler E pr session errhandler =
     calls E pr False ''Session_set_errhandler''
       [Hdl (of_int_handle E Session session), Hdl (of_int_handle E Errhandler errhandler)] []"

section \<open>Statuses\<close>

definition mpi_status_get_error where
  "mpi_status_get_error E pr status err =
     calls E pr False ''Status_get_error''
       [Buf (mpif_c_cstatus (place E) status), Buf err] []"

definition mpi_status_get_source where
  "mpi_status_get_source E pr status source =
     calls E pr False ''Status_get_source''
       [Buf (mpif_c_cstatus (place E) status), Buf source] []"

definition mpi_status_get_tag where
  "mpi_status_get_tag E pr status tag =
     calls E pr False ''Status_get_tag''
       [Buf (mpif_c_cstatus (place E) status), Buf tag] []"

definition mpi_status_set_cancelled where
  "mpi_status_set_cancelled E pr status flag_v =
     calls E pr False ''Status_set_cancelled''
       [Buf (mpif_c_status (place E) status),
        Val (sint (mpif_logical2bool (logicals E) flag_v))] []"

definition mpi_status_set_elements where
  "mpi_status_set_elements E pr large status datatype cnt =
     calls E pr large ''Status_set_elements''
       [Buf (mpif_c_status (place E) status), Hdl (of_int_handle E Type datatype), Val cnt] []"

definition mpi_status_set_elements_x where
  "mpi_status_set_elements_x E pr status datatype cnt =
     calls E pr False ''Status_set_elements_x''
       [Buf (mpif_c_status (place E) status), Hdl (of_int_handle E Type datatype), Val cnt] []"

definition mpi_status_set_error where
  "mpi_status_set_error E pr status err =
     calls E pr False ''Status_set_error''
       [Buf (mpif_c_status (place E) status), Val err] []"

definition mpi_status_set_source where
  "mpi_status_set_source E pr status source =
     calls E pr False ''Status_set_source''
       [Buf (mpif_c_status (place E) status), Val source] []"

definition mpi_status_set_tag where
  "mpi_status_set_tag E pr status tag =
     calls E pr False ''Status_set_tag''
       [Buf (mpif_c_status (place E) status), Val tag] []"

section \<open>Topology test\<close>

definition mpi_topo_test where
  "mpi_topo_test E pr comm status =
     calls E pr False ''Topo_test''
       [Hdl (of_int_handle E Comm comm), Buf status] []"

section \<open>Datatypes\<close>

definition mpi_type_commit where
  "mpi_type_commit E pr datatype =
     calls E pr False ''Type_commit''
       [Temp ''datatype'' (of_int_handle E Type datatype)] [Handle Type ''datatype'']"

definition mpi_type_contiguous where
  "mpi_type_contiguous E pr large cnt oldtype =
     calls E pr large ''Type_contiguous''
       [Val cnt, Hdl (of_int_handle E Type oldtype), Temp ''newtype'' MPI_DATATYPE_NULL]
       [Handle Type ''newtype'']"

definition mpi_type_create_darray where
  "mpi_type_create_darray E pr large sz rnk ndims array_of_gsizes array_of_distribs
    array_of_dargs array_of_psizes order oldtype =
     calls E pr large ''Type_create_darray''
       [Val sz, Val rnk, Val ndims, Buf array_of_gsizes, Buf array_of_distribs,
        Buf array_of_dargs, Buf array_of_psizes, Val order, Hdl (of_int_handle E Type oldtype),
        Temp ''newtype'' MPI_DATATYPE_NULL] [Handle Type ''newtype'']"

definition mpi_type_create_f90_complex where
  "mpi_type_create_f90_complex E pr p r =
     calls E pr False ''Type_create_f90_complex''
       [Val p, Val r, Temp ''newtype'' MPI_DATATYPE_NULL] [Handle Type ''newtype'']"

definition mpi_type_create_f90_integer where
  "mpi_type_create_f90_integer E pr r =
     calls E pr False ''Type_create_f90_integer''
       [Val r, Temp ''newtype'' MPI_DATATYPE_NULL] [Handle Type ''newtype'']"

definition mpi_type_create_f90_real where
  "mpi_type_create_f90_real E pr p r =
     calls E pr False ''Type_create_f90_real''
       [Val p, Val r, Temp ''newtype'' MPI_DATATYPE_NULL] [Handle Type ''newtype'']"

definition mpi_type_create_hindexed where
  "mpi_type_create_hindexed E pr large cnt array_of_blocklengths array_of_displacements oldtype =
     calls E pr large ''Type_create_hindexed''
       [Val cnt, Buf array_of_blocklengths, Buf array_of_displacements,
        Hdl (of_int_handle E Type oldtype), Temp ''newtype'' MPI_DATATYPE_NULL]
       [Handle Type ''newtype'']"

definition mpi_type_create_hindexed_block where
  "mpi_type_create_hindexed_block E pr large cnt blocklength array_of_displacements oldtype =
     calls E pr large ''Type_create_hindexed_block''
       [Val cnt, Val blocklength, Buf array_of_displacements,
        Hdl (of_int_handle E Type oldtype), Temp ''newtype'' MPI_DATATYPE_NULL]
       [Handle Type ''newtype'']"

definition mpi_type_create_hvector where
  "mpi_type_create_hvector E pr large cnt blocklength stride oldtype =
     calls E pr large ''Type_create_hvector''
       [Val cnt, Val blocklength, Val stride, Hdl (of_int_handle E Type oldtype),
        Temp ''newtype'' MPI_DATATYPE_NULL] [Handle Type ''newtype'']"

definition mpi_type_create_indexed_block where
  "mpi_type_create_indexed_block E pr large cnt blocklength array_of_displacements oldtype =
     calls E pr large ''Type_create_indexed_block''
       [Val cnt, Val blocklength, Buf array_of_displacements,
        Hdl (of_int_handle E Type oldtype), Temp ''newtype'' MPI_DATATYPE_NULL]
       [Handle Type ''newtype'']"

definition mpi_type_create_resized where
  "mpi_type_create_resized E pr large oldtype lb extent =
     calls E pr large ''Type_create_resized''
       [Hdl (of_int_handle E Type oldtype), Val lb, Val extent,
        Temp ''newtype'' MPI_DATATYPE_NULL] [Handle Type ''newtype'']"

definition mpi_type_create_subarray where
  "mpi_type_create_subarray E pr large ndims array_of_sizes array_of_subsizes array_of_starts
    order oldtype =
     calls E pr large ''Type_create_subarray''
       [Val ndims, Buf array_of_sizes, Buf array_of_subsizes, Buf array_of_starts, Val order,
        Hdl (of_int_handle E Type oldtype), Temp ''newtype'' MPI_DATATYPE_NULL]
       [Handle Type ''newtype'']"

definition mpi_type_delete_attr where
  "mpi_type_delete_attr E pr datatype type_keyval =
     calls E pr False ''Type_delete_attr''
       [Hdl (of_int_handle E Type datatype), Val type_keyval] []"

definition mpi_type_dup where
  "mpi_type_dup E pr oldtype =
     calls E pr False ''Type_dup''
       [Hdl (of_int_handle E Type oldtype), Temp ''newtype'' MPI_DATATYPE_NULL]
       [Handle Type ''newtype'']"

definition mpi_type_free where
  "mpi_type_free E pr datatype =
     calls E pr False ''Type_free''
       [Temp ''datatype'' (of_int_handle E Type datatype)] [Handle Type ''datatype'']"

definition mpi_type_free_keyval where
  "mpi_type_free_keyval E pr type_keyval =
     calls E pr False ''Type_free_keyval''
       [Buf type_keyval] []"

definition mpi_type_get_extent where
  "mpi_type_get_extent E pr large datatype lb extent =
     calls E pr large ''Type_get_extent''
       [Hdl (of_int_handle E Type datatype), Buf lb, Buf extent] []"

definition mpi_type_get_extent_x where
  "mpi_type_get_extent_x E pr datatype lb extent =
     calls E pr False ''Type_get_extent_x''
       [Hdl (of_int_handle E Type datatype), Buf lb, Buf extent] []"

definition mpi_type_get_true_extent where
  "mpi_type_get_true_extent E pr large datatype true_lb true_extent =
     calls E pr large ''Type_get_true_extent''
       [Hdl (of_int_handle E Type datatype), Buf true_lb, Buf true_extent] []"

definition mpi_type_get_true_extent_x where
  "mpi_type_get_true_extent_x E pr datatype true_lb true_extent =
     calls E pr False ''Type_get_true_extent_x''
       [Hdl (of_int_handle E Type datatype), Buf true_lb, Buf true_extent] []"

definition mpi_type_get_value_index where
  "mpi_type_get_value_index E pr value_type index_type =
     calls E pr False ''Type_get_value_index''
       [Hdl (of_int_handle E Type value_type), Hdl (of_int_handle E Type index_type),
        Temp ''pair_type'' MPI_DATATYPE_NULL] [Handle Type ''pair_type'']"

definition mpi_type_indexed where
  "mpi_type_indexed E pr large cnt array_of_blocklengths array_of_displacements oldtype =
     calls E pr large ''Type_indexed''
       [Val cnt, Buf array_of_blocklengths, Buf array_of_displacements,
        Hdl (of_int_handle E Type oldtype), Temp ''newtype'' MPI_DATATYPE_NULL]
       [Handle Type ''newtype'']"

definition mpi_type_match_size where
  "mpi_type_match_size E pr typeclass sz =
     calls E pr False ''Type_match_size''
       [Val typeclass, Val sz, Temp ''datatype'' MPI_DATATYPE_NULL] [Handle Type ''datatype'']"

definition mpi_type_set_attr where
  "mpi_type_set_attr E pr datatype type_keyval attribute_val =
     calls E pr False ''Type_set_attr''
       [Hdl (of_int_handle E Type datatype), Val type_keyval, Buf attribute_val] []"

definition mpi_type_size where
  "mpi_type_size E pr large datatype sz =
     calls E pr large ''Type_size''
       [Hdl (of_int_handle E Type datatype), Buf sz] []"

definition mpi_type_size_x where
  "mpi_type_size_x E pr datatype sz =
     calls E pr False ''Type_size_x''
       [Hdl (of_int_handle E Type datatype), Buf sz] []"

definition mpi_type_vector where
  "mpi_type_vector E pr large cnt blocklength stride oldtype =
     calls E pr large ''Type_vector''
       [Val cnt, Val blocklength, Val stride, Hdl (of_int_handle E Type oldtype),
        Temp ''newtype'' MPI_DATATYPE_NULL] [Handle Type ''newtype'']"

section \<open>Windows\<close>

definition mpi_win_allocate where
  "mpi_win_allocate E pr large sz disp_unit info comm baseptr =
     calls E pr large ''Win_allocate''
       [Val sz, Val disp_unit, Hdl (of_int_handle E Info info), Hdl (of_int_handle E Comm comm),
        Buf baseptr, Temp ''win'' (null_handle Win)] [Handle Win ''win'']"

definition mpi_win_allocate_shared where
  "mpi_win_allocate_shared E pr large sz disp_unit info comm baseptr =
     calls E pr large ''Win_allocate_shared''
       [Val sz, Val disp_unit, Hdl (of_int_handle E Info info), Hdl (of_int_handle E Comm comm),
        Buf baseptr, Temp ''win'' (null_handle Win)] [Handle Win ''win'']"

definition mpi_win_call_errhandler where
  "mpi_win_call_errhandler E pr win errorcode =
     calls E pr False ''Win_call_errhandler''
       [Hdl (of_int_handle E Win win), Val errorcode] []"

definition mpi_win_complete where
  "mpi_win_complete E pr win =
     calls E pr False ''Win_complete''
       [Hdl (of_int_handle E Win win)] []"

definition mpi_win_create_dynamic where
  "mpi_win_create_dynamic E pr info comm =
     calls E pr False ''Win_create_dynamic''
       [Hdl (of_int_handle E Info info), Hdl (of_int_handle E Comm comm),
        Temp ''win'' (null_handle Win)] [Handle Win ''win'']"

definition mpi_win_delete_attr where
  "mpi_win_delete_attr E pr win win_keyval =
     calls E pr False ''Win_delete_attr''
       [Hdl (of_int_handle E Win win), Val win_keyval] []"

definition mpi_win_fence where
  "mpi_win_fence E pr assert win =
     calls E pr False ''Win_fence''
       [Val assert, Hdl (of_int_handle E Win win)] []"

definition mpi_win_flush where
  "mpi_win_flush E pr rnk win =
     calls E pr False ''Win_flush''
       [Val rnk, Hdl (of_int_handle E Win win)] []"

definition mpi_win_flush_all where
  "mpi_win_flush_all E pr win =
     calls E pr False ''Win_flush_all''
       [Hdl (of_int_handle E Win win)] []"

definition mpi_win_flush_local where
  "mpi_win_flush_local E pr rnk win =
     calls E pr False ''Win_flush_local''
       [Val rnk, Hdl (of_int_handle E Win win)] []"

definition mpi_win_flush_local_all where
  "mpi_win_flush_local_all E pr win =
     calls E pr False ''Win_flush_local_all''
       [Hdl (of_int_handle E Win win)] []"

definition mpi_win_free where
  "mpi_win_free E pr win =
     calls E pr False ''Win_free''
       [Temp ''win'' (of_int_handle E Win win)] [Handle Win ''win'']"

definition mpi_win_free_keyval where
  "mpi_win_free_keyval E pr win_keyval =
     calls E pr False ''Win_free_keyval''
       [Buf win_keyval] []"

definition mpi_win_get_errhandler where
  "mpi_win_get_errhandler E pr win =
     calls E pr False ''Win_get_errhandler''
       [Hdl (of_int_handle E Win win), Temp ''errhandler'' MPI_ERRHANDLER_NULL]
       [Handle Errhandler ''errhandler'']"

definition mpi_win_get_group where
  "mpi_win_get_group E pr win =
     calls E pr False ''Win_get_group''
       [Hdl (of_int_handle E Win win), Temp ''group'' (null_handle Group)] [Handle Group ''group'']"

definition mpi_win_get_info where
  "mpi_win_get_info E pr win =
     calls E pr False ''Win_get_info''
       [Hdl (of_int_handle E Win win), Temp ''info_used'' MPI_INFO_NULL] [Handle Info ''info_used'']"

definition mpi_win_lock where
  "mpi_win_lock E pr lock_type rnk assert win =
     calls E pr False ''Win_lock''
       [Val lock_type, Val rnk, Val assert, Hdl (of_int_handle E Win win)] []"

definition mpi_win_lock_all where
  "mpi_win_lock_all E pr assert win =
     calls E pr False ''Win_lock_all''
       [Val assert, Hdl (of_int_handle E Win win)] []"

definition mpi_win_post where
  "mpi_win_post E pr group_p assert win =
     calls E pr False ''Win_post''
       [Hdl (of_int_handle E Group group_p), Val assert, Hdl (of_int_handle E Win win)] []"

definition mpi_win_set_attr where
  "mpi_win_set_attr E pr win win_keyval attribute_val =
     calls E pr False ''Win_set_attr''
       [Hdl (of_int_handle E Win win), Val win_keyval, Buf attribute_val] []"

definition mpi_win_set_errhandler where
  "mpi_win_set_errhandler E pr win errhandler =
     calls E pr False ''Win_set_errhandler''
       [Hdl (of_int_handle E Win win), Hdl (of_int_handle E Errhandler errhandler)] []"

definition mpi_win_set_info where
  "mpi_win_set_info E pr win info =
     calls E pr False ''Win_set_info''
       [Hdl (of_int_handle E Win win), Hdl (of_int_handle E Info info)] []"

definition mpi_win_shared_query where
  "mpi_win_shared_query E pr large win rnk sz disp_unit baseptr =
     calls E pr large ''Win_shared_query''
       [Hdl (of_int_handle E Win win), Val rnk, Buf sz, Buf disp_unit, Buf baseptr] []"

definition mpi_win_start where
  "mpi_win_start E pr group_p assert win =
     calls E pr False ''Win_start''
       [Hdl (of_int_handle E Group group_p), Val assert, Hdl (of_int_handle E Win win)] []"

definition mpi_win_sync where
  "mpi_win_sync E pr win =
     calls E pr False ''Win_sync''
       [Hdl (of_int_handle E Win win)] []"

definition mpi_win_test where
  "mpi_win_test E pr win =
     calls E pr False ''Win_test''
       [Hdl (of_int_handle E Win win), Flag ''flag'' 0] [Logical ''flag'']"

definition mpi_win_unlock where
  "mpi_win_unlock E pr rnk win =
     calls E pr False ''Win_unlock''
       [Val rnk, Hdl (of_int_handle E Win win)] []"

definition mpi_win_unlock_all where
  "mpi_win_unlock_all E pr win =
     calls E pr False ''Win_unlock_all''
       [Hdl (of_int_handle E Win win)] []"

definition mpi_win_wait where
  "mpi_win_wait E pr win =
     calls E pr False ''Win_wait''
       [Hdl (of_int_handle E Win win)] []"

end
