(* ===== verification/Wrappers_Attrs.thy ===== *)
theory Wrappers_Attrs
  imports Wrappers_Plain Attr_Registry Attr_Values
begin

text \<open>
  The wrappers of \<open>gen/mpif_functions.c\<close> that create keyvals and read attributes: they join the
  registry of callbacks and the dereferencing of predefined attributes to MPI's calls.
\<close>

section \<open>Creating a keyval\<close>

text \<open>
  What MPI gets for a procedure: the sentinel of a predefined one, or the trampoline. MPI stores the
  new keyval in the caller's variable; it is given with the error code.
\<close>

datatype attr_fn = Abi_attr_fn addr | Trampoline attr_trampoline

type_synonym 'w create_keyval =
  "profile \<Rightarrow> string \<Rightarrow> attr_fn \<Rightarrow> attr_fn \<Rightarrow> addr \<Rightarrow> 'w \<Rightarrow> (fint \<times> fint) \<times> 'w"

definition attr_fn :: "linkage \<Rightarrow> conversion_sentinels \<Rightarrow> addr \<Rightarrow> attr_callback_kind \<Rightarrow> attr_fn" where
  "attr_fn L C callback kind =
     (case mpif_predefined_callback L C callback of
        Some v \<Rightarrow> Abi_attr_fn v
      | None \<Rightarrow> Trampoline (mpif_attr_trampoline kind))"

definition create_keyval_body ::
    "'w create_keyval \<Rightarrow> linkage \<Rightarrow> conversion_sentinels \<Rightarrow> profile \<Rightarrow> string \<Rightarrow>
     attr_callback_kind \<Rightarrow> attr_callback_kind \<Rightarrow> addr \<Rightarrow> addr \<Rightarrow> addr \<Rightarrow> attr_table \<times> 'w \<Rightarrow>
     (fint \<times> fint) \<times> attr_table \<times> 'w" where
  "create_keyval_body M L C pr name kc kd copy del extra = (\<lambda>(es, w).
     (let c_copy_fn = attr_fn L C copy kc;
          c_delete_fn = attr_fn L C del kd;
          ((ierror, kv), w) = M pr name c_copy_fn c_delete_fn extra w;
          (ierror, es) = (if ierror = MPI_SUCCESS then mpif_register_attr_callback L C kv kc copy es
                          else (ierror, es));
          (ierror, es) = (if ierror = MPI_SUCCESS then mpif_register_attr_callback L C kv kd del es
                          else (ierror, es))
      in ((ierror, kv), es, w)))"

definition mpi_comm_create_keyval where
  "mpi_comm_create_keyval M L C pr comm_copy_attr_fn comm_delete_attr_fn extra_state =
     create_keyval_body M L C pr ''Comm_create_keyval'' MPIF_ATTR_COMM_COPY MPIF_ATTR_COMM_DELETE
       comm_copy_attr_fn comm_delete_attr_fn extra_state"

definition mpi_type_create_keyval where
  "mpi_type_create_keyval M L C pr type_copy_attr_fn type_delete_attr_fn extra_state =
     create_keyval_body M L C pr ''Type_create_keyval'' MPIF_ATTR_TYPE_COPY MPIF_ATTR_TYPE_DELETE
       type_copy_attr_fn type_delete_attr_fn extra_state"

definition mpi_win_create_keyval where
  "mpi_win_create_keyval M L C pr win_copy_attr_fn win_delete_attr_fn extra_state =
     create_keyval_body M L C pr ''Win_create_keyval'' MPIF_ATTR_WIN_COPY MPIF_ATTR_WIN_DELETE
       win_copy_attr_fn win_delete_attr_fn extra_state"

text \<open>The MPI-1 routine takes a default integer as its extra state.\<close>

definition mpi_keyval_create where
  "mpi_keyval_create M L C pr copy_p delete_p extra_state =
     create_keyval_body M L C pr ''Comm_create_keyval'' MPIF_ATTR_COMM_COPY_10 MPIF_ATTR_COMM_DELETE_10
       copy_p delete_p (to_aint extra_state)"

section \<open>Reading an attribute\<close>

text \<open>
  \<open>M\<close> is the memory MPI's pointers lead into. The local that receives the pointer has no
  initial value, \<open>junk\<close>; it is used only if MPI has set it.
\<close>

record attr_outcome = outcome +
  attribute_val :: aint

definition attr_back ::
    "('w, 'z) mpi_lib_scheme \<Rightarrow> ('w \<Rightarrow> c_memory) \<Rightarrow> fint \<Rightarrow> (aint \<Rightarrow> aint) \<Rightarrow> reply \<Rightarrow> 'w \<Rightarrow>
     fault + attr_outcome" where
  "attr_back E M kv cast r w =
     bindE (if rc r \<noteq> MPI_SUCCESS \<or> flag r ''flag'' = 0 then Inr 0
            else mpif_attr_value (M w) kv (temp r ''attribute_val'')) (\<lambda>v.
       Inr \<lparr>ierror = rc r, out = [mpif_bool2logical (logicals E) (flag r ''flag'')],
            attribute_val = cast v\<rparr>)"

definition get_attr_body ::
    "('w, 'z) mpi_lib_scheme \<Rightarrow> ('w \<Rightarrow> c_memory) \<Rightarrow> profile \<Rightarrow> string \<Rightarrow> handle \<Rightarrow> fint \<Rightarrow> addr \<Rightarrow>
     (aint \<Rightarrow> aint) \<Rightarrow> 'w \<Rightarrow> fault + attr_outcome \<times> 'w" where
  "get_attr_body E M pr name c kv junk cast w =
     (let (r, w) = mpi E pr False name
            [Hdl c, Val (sint kv), Temp ''attribute_val'' junk, Flag ''flag'' 0] w
      in bindE (attr_back E M kv cast r w) (\<lambda>res. Inr (res, w)))"

definition mpi_comm_get_attr where
  "mpi_comm_get_attr E M pr comm comm_keyval junk =
     get_attr_body E M pr ''Comm_get_attr'' (of_int_handle E Comm comm) comm_keyval junk (\<lambda>v. v)"

definition mpi_type_get_attr where
  "mpi_type_get_attr E M pr datatype type_keyval junk =
     get_attr_body E M pr ''Type_get_attr'' (of_int_handle E Type datatype) type_keyval junk (\<lambda>v. v)"

definition mpi_win_get_attr where
  "mpi_win_get_attr E M pr win win_keyval junk =
     get_attr_body E M pr ''Win_get_attr'' (of_int_handle E Win win) win_keyval junk (\<lambda>v. v)"

text \<open>The MPI-1 routine hands back a default integer: \<open>(MPI_Fint)\<close> of the value, shown at full width.\<close>

definition mpi_attr_get where
  "mpi_attr_get E M pr comm kv junk =
     get_attr_body E M pr ''Comm_get_attr'' (of_int_handle E Comm comm) kv junk (\<lambda>v. to_aint (to_fint v))"

section \<open>Created keyvals\<close>

fun create_keyval where
  "create_keyval Comm_attr = mpi_comm_create_keyval"
| "create_keyval Type_attr = mpi_type_create_keyval"
| "create_keyval Win_attr = mpi_win_create_keyval"

fun create_name :: "attr_class \<Rightarrow> string" where
  "create_name Comm_attr = ''Comm_create_keyval''"
| "create_name Type_attr = ''Type_create_keyval''"
| "create_name Win_attr = ''Win_create_keyval''"

lemma create_keyval_eq:
  "create_keyval k M L C pr c d x =
     create_keyval_body M L C pr (create_name k) (copy_kind k) (delete_kind k) c d x"
  by (cases k) (simp_all add: mpi_comm_create_keyval_def mpi_type_create_keyval_def mpi_win_create_keyval_def)

lemma attr_fn_user: "user_callback L c \<Longrightarrow> attr_fn L C c kind = Trampoline (mpif_attr_trampoline kind)"
  by (simp add: attr_fn_def user_callback_not_predefined)

text \<open>
  C1. A created keyval runs its own procedures. When a keyval for communicators, datatypes or windows
  is created with a user's copy and delete procedure and the wrapper returns success, MPI was given
  two trampolines and the extra state; and whatever is registered under other keyvals later,
  entering the first calls exactly the copy procedure, with the converted handle, the
  keyval and both pointers as address-sized integers, and MPI gets back its error code, its
  attribute value and its flag as a C truth value; and correspondingly for the second and the
  delete procedure. A keyval MPI reuses runs the new procedures.
\<close>

theorem created_keyvals_run_their_procedures:
  assumes "attr_inv es" and "user_callback L c" and "user_callback L d" and "valid_keyval kv"
    and "create_keyval k M L C pr c d x (es, w) = ((MPI_SUCCESS, kv), es', w')"
    and "\<forall>r \<in> set rs. valid_keyval (fst r) \<and> user_callback L (snd (snd r)) \<and> fst r \<noteq> kv"
    and "toint H (class_hkind k) h = Some f"
  shows "\<exists>copy del. M pr (create_name k) (Trampoline copy) (Trampoline del) x w = ((MPI_SUCCESS, kv), w') \<and>
    enter_copy F B H (register_all L C rs es') copy h kv x v =
      (let (val, flag, ierror) = run_copy F c f kv x v 0 0 MPI_SUCCESS
       in Inr (ierror, Some (val, mpif_logical2bool B flag))) \<and>
    enter_delete F H (register_all L C rs es') del h kv v x =
      Inr (run_delete F d f kv v x MPI_SUCCESS)"
proof -
  from assms(5) obtain es1 where
    m: "M pr (create_name k) (attr_fn L C c (copy_kind k)) (attr_fn L C d (delete_kind k)) x w =
      ((MPI_SUCCESS, kv), w')" and
    reg: "mpif_register_attr_callback L C kv (copy_kind k) c es = (MPI_SUCCESS, es1)"
      "mpif_register_attr_callback L C kv (delete_kind k) d es1 = (MPI_SUCCESS, es')"
    by (auto simp: create_keyval_eq create_keyval_body_def split: prod.splits if_splits)
  from registered_pair_runs [OF assms(1,4,2,3) reg assms(6,7)] m show ?thesis
    by (intro exI [of _ "mpif_attr_trampoline (copy_kind k)"] exI [of _ "mpif_attr_trampoline (delete_kind k)"])
      (simp add: attr_fn_user assms(2,3))
qed

text \<open>An MPI that gives out the keyval 7.\<close>

definition keyval_lib :: "unit create_keyval" where
  "keyval_lib pr name c d x w = ((MPI_SUCCESS, 7), w)"

theorem created_keyvals_run_their_procedures_witness:
  "\<exists>copy. enter_copy demo_attr intel_logical identity_handles
     (demo_table MPIF_ATTR_COMM_COPY MPIF_ATTR_COMM_DELETE) copy 0x101 7 5 40 =
   Inr (MPI_SUCCESS, Some (45, 1))"
proof -
  note r = demo_registrations [where kc = MPIF_ATTR_COMM_COPY and kd = MPIF_ATTR_COMM_DELETE,
      of demo_sentinels]
  have v: "valid_keyval 7" and h: "toint identity_handles (class_hkind Comm_attr) 0x101 = Some 0x101"
    by (simp_all add: valid_keyval_def identity_handles_def to_fint_def)
  have c: "create_keyval Comm_attr keyval_lib packed_linkage demo_sentinels MPI 0x1001 0x1003 5
      (attr_entries_init, ()) =
      ((MPI_SUCCESS, 7), demo_table MPIF_ATTR_COMM_COPY MPIF_ATTR_COMM_DELETE, ())"
    using r by (simp add: mpi_comm_create_keyval_def create_keyval_body_def keyval_lib_def)
  show ?thesis
    using created_keyvals_run_their_procedures [OF attr_inv_init _ _ v c _ h, where rs = "[]" and
        F = demo_attr and B = intel_logical and v = "40"]
    by (auto simp: user_callback_packed demo_attr_def mpif_logical2bool_def intel_logical_def)
qed

text \<open>
  When the table is full, a keyval MPI has created is reported as an error and not freed: MPI keeps it,
  with trampolines that find no procedure.
\<close>

lemma create_keyval_table_full:
  assumes "attr_full es" and "attr_lookup es kv = None" and "user_callback L c"
    and "M pr (create_name k) (attr_fn L C c (copy_kind k)) (attr_fn L C d (delete_kind k)) x w =
      ((MPI_SUCCESS, kv), w')"
  shows "create_keyval k M L C pr c d x (es, w) = ((MPI_ERR_OTHER, kv), es, w')"
proof -
  have "find_attr_entry es kv = None" using assms(2) by (simp add: attr_lookup_def)
  moreover have "claim_entry es kv = None"
    using assms(1) by (simp add: claim_entry_eq index_where_None attr_full_def)
  ultimately show ?thesis
    using assms(3,4)
    by (simp add: create_keyval_eq create_keyval_body_def mpif_register_attr_callback_def
        user_callback_not_predefined)
qed

section \<open>Stored attributes\<close>

text \<open>
  What the standard says of attributes (MPI-5.0 section 7.7), for a function that tells what is stored in MPI
  under a communicator and a keyval: setting stores the pointer, deleting removes it, and reading gives it
  with a true flag, or a false flag, and changes nothing.
\<close>

type_synonym attributes = "handle \<times> int \<Rightarrow> addr option"

definition set_attr_law :: "('w, 'z) mpi_lib_scheme \<Rightarrow> profile \<Rightarrow> ('w \<Rightarrow> attributes) \<Rightarrow> bool" where
  "set_attr_law E pr stored \<longleftrightarrow>
     (\<forall>c kv p w. let (r, w') = mpi E pr False ''Comm_set_attr'' [Hdl c, Val kv, Buf p] w
        in rc r = MPI_SUCCESS \<longrightarrow> stored w' = (stored w)((c, kv) \<mapsto> p))"

definition delete_attr_law :: "('w, 'z) mpi_lib_scheme \<Rightarrow> profile \<Rightarrow> ('w \<Rightarrow> attributes) \<Rightarrow> bool" where
  "delete_attr_law E pr stored \<longleftrightarrow>
     (\<forall>c kv w. let (r, w') = mpi E pr False ''Comm_delete_attr'' [Hdl c, Val kv] w
        in rc r = MPI_SUCCESS \<longrightarrow> stored w' = (stored w)((c, kv) := None))"

definition get_attr_law :: "('w, 'z) mpi_lib_scheme \<Rightarrow> profile \<Rightarrow> ('w \<Rightarrow> attributes) \<Rightarrow> bool" where
  "get_attr_law E pr stored \<longleftrightarrow>
     (\<forall>c kv junk w. let (r, w') = mpi E pr False ''Comm_get_attr''
            [Hdl c, Val kv, Temp ''attribute_val'' junk, Flag ''flag'' 0] w
        in rc r = MPI_SUCCESS \<and> stored w' = stored w \<and>
           (case stored w (c, kv) of
              None \<Rightarrow> flag r ''flag'' = 0
            | Some p \<Rightarrow> flag r ''flag'' = 1 \<and> temp r ''attribute_val'' = p))"

definition attr_laws :: "('w, 'z) mpi_lib_scheme \<Rightarrow> profile \<Rightarrow> ('w \<Rightarrow> attributes) \<Rightarrow> bool" where
  "attr_laws E pr stored \<longleftrightarrow>
     set_attr_law E pr stored \<and> delete_attr_law E pr stored \<and> get_attr_law E pr stored"

text \<open>What a wrapper's call stores, removes and reads.\<close>

lemma set_attr_stores:
  assumes "attr_laws E pr stored"
    and "calls E pr False ''Comm_set_attr'' [Hdl c, Val kv, Buf p] [] w = Inr (r, w')" and "ierror r = MPI_SUCCESS"
  shows "stored w' = (stored w)((c, kv) \<mapsto> p)"
  using assms unfolding attr_laws_def set_attr_law_def by (fastforce simp: Let_def split: prod.splits)

lemma delete_attr_removes:
  assumes "attr_laws E pr stored"
    and "calls E pr False ''Comm_delete_attr'' [Hdl c, Val kv] [] w = Inr (r, w')" and "ierror r = MPI_SUCCESS"
  shows "stored w' = (stored w)((c, kv) := None)"
  using assms unfolding attr_laws_def delete_attr_law_def by (fastforce simp: Let_def split: prod.splits)

lemma get_attr_reads:
  assumes "attr_laws E pr stored"
  shows "\<exists>w'. stored w' = stored w \<and>
    get_attr_body E M pr ''Comm_get_attr'' c kv junk cast w =
      (case stored w (c, sint kv) of
         None \<Rightarrow> Inr (\<lparr>ierror = MPI_SUCCESS, out = [logical_false (logicals E)], attribute_val = cast 0\<rparr>, w')
       | Some p \<Rightarrow> bindE (mpif_attr_value (M w') kv p) (\<lambda>v.
           Inr (\<lparr>ierror = MPI_SUCCESS, out = [logical_true (logicals E)], attribute_val = cast v\<rparr>, w')))"
proof -
  let ?args = "[Hdl c, Val (sint kv), Temp ''attribute_val'' junk, Flag ''flag'' 0]"
  obtain r w' where m: "mpi E pr False ''Comm_get_attr'' ?args w = (r, w')" by (metis surj_pair)
  have "get_attr_law E pr stored"
    using assms by (simp add: attr_laws_def)
  from this [unfolded get_attr_law_def, rule_format, of c "sint kv" junk w]
  have "rc r = MPI_SUCCESS" "stored w' = stored w"
    "case stored w (c, sint kv) of None \<Rightarrow> flag r ''flag'' = 0
     | Some p \<Rightarrow> flag r ''flag'' = 1 \<and> temp r ''attribute_val'' = p"
    by (simp_all add: m)
  then show ?thesis
    by (intro exI [of _ w'])
      (auto simp: get_attr_body_def m attr_back_def outcome_simps mpif_bool2logical_def split: option.splits)
qed

lemmas attr_wrappers = mpi_comm_set_attr_def mpi_attr_put_def mpi_comm_delete_attr_def mpi_attr_delete_def
  mpi_comm_get_attr_def mpi_attr_get_def

text \<open>The two reading routines, on an attribute of the user that is there.\<close>

lemma user_attr_reads:
  assumes "attr_laws E pr stored" and "kv \<notin> predefined_keyvals"
    and "stored w (of_int_handle E Comm comm, sint kv) = Some p"
  shows "(\<exists>w'. mpi_comm_get_attr E M pr comm kv junk w =
      Inr (\<lparr>ierror = MPI_SUCCESS, out = [logical_true (logicals E)], attribute_val = p\<rparr>, w')) \<and>
    (\<exists>w'. mpi_attr_get E M pr comm kv junk w =
      Inr (\<lparr>ierror = MPI_SUCCESS, out = [logical_true (logicals E)], attribute_val = to_aint (to_fint p)\<rparr>, w'))"
  using get_attr_reads [OF assms(1), of w M "of_int_handle E Comm comm" kv junk "\<lambda>v. v"]
    get_attr_reads [OF assms(1), of w M "of_int_handle E Comm comm" kv junk "\<lambda>v. to_aint (to_fint v)"]
    assms(2,3)
  by (auto simp: attr_wrappers attr_value_verbatim)

lemma missing_attr_reads:
  assumes "attr_laws E pr stored" and "stored w (of_int_handle E Comm comm, sint kv) = None"
  shows "(\<exists>w'. mpi_comm_get_attr E M pr comm kv junk w =
      Inr (\<lparr>ierror = MPI_SUCCESS, out = [logical_false (logicals E)], attribute_val = 0\<rparr>, w')) \<and>
    (\<exists>w'. mpi_attr_get E M pr comm kv junk w =
      Inr (\<lparr>ierror = MPI_SUCCESS, out = [logical_false (logicals E)], attribute_val = 0\<rparr>, w'))"
  using get_attr_reads [OF assms(1), of w M "of_int_handle E Comm comm" kv junk "\<lambda>v. v"]
    get_attr_reads [OF assms(1), of w M "of_int_handle E Comm comm" kv junk "\<lambda>v. to_aint (to_fint v)"]
    assms(2)
  by (auto simp: attr_wrappers to_fint_def to_aint_def)

text \<open>
  C36. An attribute is read back as it was stored, through either interface. After \<open>MPI_Comm_set_attr\<close> of an
  address-sized integer under a user's keyval, and anything that leaves this attribute alone,
  \<open>MPI_Comm_get_attr\<close> gives that integer and \<open>MPI_Attr_get\<close> its low half as a default integer; after \<open>MPI_Attr_put\<close>
  of a default integer both give it, negative ones with their sign; after a deletion through either interface
  both say there is none, and 0. Under an integer-valued predefined key, where MPI stores an address, both give the
  integer at that address.
\<close>

theorem attributes_read_back:
  assumes "attr_laws E pr stored" and "c = (of_int_handle E Comm comm, sint kv)"
  shows "(kv \<notin> predefined_keyvals \<and> stored w2 c = stored w1 c \<longrightarrow>
      (mpi_comm_set_attr E pr comm (sint kv) a w = Inr (r, w1) \<and> ierror r = MPI_SUCCESS \<longrightarrow>
        (\<exists>w'. mpi_comm_get_attr E M pr comm kv junk w2 =
          Inr (\<lparr>ierror = MPI_SUCCESS, out = [logical_true (logicals E)], attribute_val = a\<rparr>, w')) \<and>
        (\<exists>w'. mpi_attr_get E M pr comm kv junk w2 =
          Inr (\<lparr>ierror = MPI_SUCCESS, out = [logical_true (logicals E)], attribute_val = to_aint (to_fint a)\<rparr>, w'))) \<and>
      (mpi_attr_put E pr comm (sint kv) i w = Inr (r, w1) \<and> ierror r = MPI_SUCCESS \<longrightarrow>
        (\<exists>w'. mpi_comm_get_attr E M pr comm kv junk w2 =
          Inr (\<lparr>ierror = MPI_SUCCESS, out = [logical_true (logicals E)], attribute_val = to_aint i\<rparr>, w')) \<and>
        (\<exists>w'. mpi_attr_get E M pr comm kv junk w2 =
          Inr (\<lparr>ierror = MPI_SUCCESS, out = [logical_true (logicals E)], attribute_val = to_aint i\<rparr>, w')) \<and>
        sint (to_aint i) = sint i) \<and>
      (Inr (r, w1) \<in> {mpi_comm_delete_attr E pr comm (sint kv) w, mpi_attr_delete E pr comm (sint kv) w} \<and>
          ierror r = MPI_SUCCESS \<longrightarrow>
        (\<exists>w'. mpi_comm_get_attr E M pr comm kv junk w2 =
          Inr (\<lparr>ierror = MPI_SUCCESS, out = [logical_false (logicals E)], attribute_val = 0\<rparr>, w')) \<and>
        (\<exists>w'. mpi_attr_get E M pr comm kv junk w2 =
          Inr (\<lparr>ierror = MPI_SUCCESS, out = [logical_false (logicals E)], attribute_val = 0\<rparr>, w')))) \<and>
    (kv \<in> int_keyvals \<and> stored w2 c = Some p \<and> p \<noteq> null \<and> (\<forall>w. int_at (M w) p = Some i) \<longrightarrow>
      (\<exists>w'. mpi_comm_get_attr E M pr comm kv junk w2 =
        Inr (\<lparr>ierror = MPI_SUCCESS, out = [logical_true (logicals E)], attribute_val = to_aint i\<rparr>, w')) \<and>
      (\<exists>w'. mpi_attr_get E M pr comm kv junk w2 =
        Inr (\<lparr>ierror = MPI_SUCCESS, out = [logical_true (logicals E)], attribute_val = to_aint i\<rparr>, w')))"
proof -
  let ?h = "of_int_handle E Comm comm"
  have set: "stored w1 c = Some v"
    if "calls E pr False ''Comm_set_attr'' [Hdl ?h, Val (sint kv), Buf v] [] w = Inr (r, w1)" "ierror r = MPI_SUCCESS" for v
    using set_attr_stores [OF assms(1) that] assms(2) by simp
  have del: "stored w1 c = None"
    if "calls E pr False ''Comm_delete_attr'' [Hdl ?h, Val (sint kv)] [] w = Inr (r, w1)" "ierror r = MPI_SUCCESS"
    using delete_attr_removes [OF assms(1) that] assms(2) by simp
  note user = user_attr_reads [OF assms(1), of kv w2 comm _ M junk, folded assms(2)]
  note missing = missing_attr_reads [OF assms(1), of w2 comm kv M junk, folded assms(2)]
  note reads = get_attr_reads [OF assms(1), of w2 M ?h kv junk, folded assms(2)]
  have predefined: "(\<exists>w'. mpi_comm_get_attr E M pr comm kv junk w2 =
        Inr (\<lparr>ierror = MPI_SUCCESS, out = [logical_true (logicals E)], attribute_val = to_aint i\<rparr>, w')) \<and>
      (\<exists>w'. mpi_attr_get E M pr comm kv junk w2 =
        Inr (\<lparr>ierror = MPI_SUCCESS, out = [logical_true (logicals E)], attribute_val = to_aint i\<rparr>, w'))"
    if "kv \<in> int_keyvals" "stored w2 c = Some p" "p \<noteq> null" "\<forall>w. int_at (M w) p = Some i"
    using reads [of "\<lambda>v. v"] reads [of "\<lambda>v. to_aint (to_fint v)"] that
    by (auto simp: mpi_comm_get_attr_def mpi_attr_get_def attr_value_int)
  show ?thesis
    using user [of a] user [of "to_aint i"] missing predefined set del sint_to_aint
    unfolding mpi_comm_set_attr_def mpi_attr_put_def mpi_comm_delete_attr_def mpi_attr_delete_def
    by auto
qed

text \<open>An MPI whose world is the attributes.\<close>

abbreviation minus_ones :: c_memory where
  "minus_ones \<equiv> \<lparr>int_at = (\<lambda>_. Some (- 1)), aint_at = (\<lambda>_. None)\<rparr>"

fun key_of :: "arg list \<Rightarrow> handle \<times> int" where
  "key_of (Hdl c # Val kv # args) = (c, kv)"
| "key_of args = (0, 0)"

fun pointer_of :: "arg \<Rightarrow> addr" where
  "pointer_of (Buf p) = p"
| "pointer_of a = 0"

definition attr_mpi :: "string \<Rightarrow> arg list \<Rightarrow> attributes \<Rightarrow> reply \<times> attributes" where
  "attr_mpi name args w =
     (let r = short_reply MPI_SUCCESS (\<lambda>_. 0); key = key_of args
      in if name = ''Comm_set_attr'' then (r, w(key \<mapsto> pointer_of (last args)))
         else if name = ''Comm_delete_attr'' then (r, w(key := None))
         else if name = ''Comm_get_attr''
         then (case w key of None \<Rightarrow> r | Some p \<Rightarrow> r\<lparr>flag := (\<lambda>_. 1), temp := (\<lambda>_. p)\<rparr>, w)
         else (r, w))"

definition attr_lib :: "attributes mpi_lib" where
  "attr_lib =
     \<lparr>place = packed, handles = identity_handles, logicals = \<lparr>logical_true = 1, logical_false = 0\<rparr>,
      PMPI_Comm_test_inter = (\<lambda>_ _. (MPI_SUCCESS, False)), PMPI_Comm_rank = (\<lambda>_ _. (MPI_SUCCESS, 0)),
      PMPI_Comm_size = (\<lambda>_ _. (MPI_SUCCESS, 1)), PMPI_Comm_remote_size = (\<lambda>_ _. (MPI_SUCCESS, 1)),
      PMPI_Topo_test = (\<lambda>_ _. (MPI_SUCCESS, MPI_CART)), PMPI_Cartdim_get = (\<lambda>_ _. (MPI_SUCCESS, 2)),
      PMPI_Graph_neighbors_count = (\<lambda>_ _ _. (MPI_SUCCESS, 2)),
      PMPI_Dist_graph_neighbors_count = (\<lambda>_ _. (MPI_SUCCESS, 2, 2)),
      mpi = (\<lambda>pr large name args w. attr_mpi name args w)\<rparr>"

lemma attr_lib_laws: "attr_laws attr_lib MPI (\<lambda>w. w)"
  by (simp add: attr_laws_def set_attr_law_def delete_attr_law_def get_attr_law_def attr_lib_def
      attr_mpi_def Let_def split: option.split)

lemma attr_lib_simps [simp]:
  "mpi attr_lib pr large name args w = attr_mpi name args w" "handles attr_lib = identity_handles"
  "logicals attr_lib = \<lparr>logical_true = 1, logical_false = 0\<rparr>"
  by (simp_all add: attr_lib_def)

theorem attributes_read_back_witness:
  "\<exists>w1 w2 w3. mpi_attr_put attr_lib MPI 0x101 7 (- 5) Map.empty = Inr (\<lparr>ierror = MPI_SUCCESS, out = []\<rparr>, w1) \<and>
     mpi_comm_get_attr attr_lib (\<lambda>_. minus_ones) MPI 0x101 7 0 w1 =
       Inr (\<lparr>ierror = MPI_SUCCESS, out = [1], attribute_val = - 5\<rparr>, w2) \<and>
     mpi_attr_get attr_lib (\<lambda>_. minus_ones) MPI 0x101 MPI_APPNUM 0 [(0x101, 505) \<mapsto> 4096] =
       Inr (\<lparr>ierror = MPI_SUCCESS, out = [1], attribute_val = - 1\<rparr>, w3)"
proof -
  have key: "(0x101, sint kv) = (of_int_handle attr_lib Comm 0x101, sint kv)" for kv :: fint
    by (simp add: identity_handles_def to_aint_def)
  have put: "mpi_attr_put attr_lib MPI 0x101 (sint (7 :: fint)) (- 5) Map.empty =
      Inr (\<lparr>ierror = MPI_SUCCESS, out = []\<rparr>, [(0x101, 7) \<mapsto> to_aint (- 5)])"
    by (simp add: mpi_attr_put_def identity_handles_def to_aint_def attr_mpi_def)
  have casts: "to_aint (- 5) = - 5" "to_aint (- 1) = - 1"
    by (simp_all add: to_aint_def)
  note user = attributes_read_back [OF attr_lib_laws key, where kv = 7 and i = "- 5" and M = "\<lambda>_. minus_ones" and junk = 0]
  note predefined = attributes_read_back [OF attr_lib_laws key, where kv = "505" and i = "- 1" and p = 4096
      and M = "\<lambda>_. minus_ones" and junk = 0 and ?w2.0 = "[(0x101, 505) \<mapsto> 4096]"]
  obtain w2 where "mpi_comm_get_attr attr_lib (\<lambda>_. minus_ones) MPI 0x101 7 0 [(0x101, 7) \<mapsto> to_aint (- 5)] =
      Inr (\<lparr>ierror = MPI_SUCCESS, out = [1], attribute_val = - 5\<rparr>, w2)"
    using user put by (fastforce simp: predefined_keyvals_def casts)
  moreover obtain w3 where "mpi_attr_get attr_lib (\<lambda>_. minus_ones) MPI 0x101 MPI_APPNUM 0 [(0x101, 505) \<mapsto> 4096] =
      Inr (\<lparr>ierror = MPI_SUCCESS, out = [1], attribute_val = - 1\<rparr>, w3)"
    using predefined by (fastforce simp: int_keyvals_def casts)
  ultimately show ?thesis
    using put by (intro exI conjI) simp_all
qed

end
