(* ===== verification/Callback_Boxes.thy ===== *)
theory Callback_Boxes
  imports Predefined_Callbacks Logicals Fortran_Strings
begin

text \<open>
  The callbacks of generalized requests and of data representations (\<open>src/mpif_callbacks.c\<close>).
  These get an \<open>extra_state\<close> that is mpif's to choose, so there is no table and no pool: MPI gets
  the address of a heap block holding the three Fortran procedures and a copy of the caller's
  extra state. The block of a request is freed by its free callback, the block of a data
  representation never. The generated wrappers that start requests and register
  representations are here too.
\<close>

section \<open>Boxes\<close>

record grequest_box =
  query_fn :: addr
  free_fn :: addr
  cancel_fn :: addr
  gr_extra_state :: aint

record datarep_box =
  read_fn :: addr
  write_fn :: addr
  extent_fn :: addr
  dr_extra_state :: aint

datatype box = Grequest_box grequest_box | Datarep_box datarep_box

text \<open>Reading a box through the \<open>void *\<close> MPI hands back; the wrong type is undefined.\<close>

definition load_grequest :: "ptr \<Rightarrow> box heap \<Rightarrow> fault + grequest_box" where
  "load_grequest p h =
     bindE (load_obj p h) (\<lambda>b. case b of Grequest_box g \<Rightarrow> Inr g | _ \<Rightarrow> Inl Bad_read)"

definition load_datarep :: "ptr \<Rightarrow> box heap \<Rightarrow> fault + datarep_box" where
  "load_datarep p h =
     bindE (load_obj p h) (\<lambda>b. case b of Datarep_box d \<Rightarrow> Inr d | _ \<Rightarrow> Inl Bad_read)"

section \<open>Generalized requests\<close>

text \<open>
  The Fortran procedures are parameters: given their address, the extra state and the value
  \<open>ierror\<close> comes in with, they leave an error code, an extra state and a memory. They may change
  the box's copy of the extra state, which they get by reference.
\<close>

record 'm fortran_grequest =
  run_query :: "addr \<Rightarrow> aint \<Rightarrow> addr \<Rightarrow> fint \<Rightarrow> 'm \<Rightarrow> fint \<times> aint \<times> 'm"
  run_free :: "addr \<Rightarrow> aint \<Rightarrow> fint \<Rightarrow> 'm \<Rightarrow> fint \<times> aint \<times> 'm"
  run_cancel :: "addr \<Rightarrow> aint \<Rightarrow> fint \<Rightarrow> fint \<Rightarrow> 'm \<Rightarrow> fint \<times> aint \<times> 'm"

definition mpif_grequest_reserve ::
    "addr \<Rightarrow> addr \<Rightarrow> addr \<Rightarrow> aint \<Rightarrow> box heap \<Rightarrow> ptr option \<times> box heap" where
  "mpif_grequest_reserve query free cancel extra_state h =
     alloc_block (Obj (Grequest_box \<lparr>query_fn = query, free_fn = free, cancel_fn = cancel,
                                     gr_extra_state = extra_state\<rparr>)) h"

definition mpif_grequest_cancel :: "ptr option \<Rightarrow> box heap \<Rightarrow> fault + box heap" where
  "mpif_grequest_cancel b h = free_block b h"

definition mpif_grequest_query_trampoline ::
    "'m fortran_grequest \<Rightarrow> ptr \<Rightarrow> addr \<Rightarrow> box heap \<times> 'm \<Rightarrow> fault + fint \<times> box heap \<times> 'm" where
  "mpif_grequest_query_trampoline F b status = (\<lambda>(h, m).
     bindE (load_grequest b h) (\<lambda>g.
       (let (ierror, x, m) = run_query F (query_fn g) (gr_extra_state g) status MPI_SUCCESS m
        in bindE (store_obj b (Grequest_box (g\<lparr>gr_extra_state := x\<rparr>)) h) (\<lambda>h. Inr (ierror, h, m)))))"

definition mpif_grequest_free_trampoline ::
    "'m fortran_grequest \<Rightarrow> ptr \<Rightarrow> box heap \<times> 'm \<Rightarrow> fault + fint \<times> box heap \<times> 'm" where
  "mpif_grequest_free_trampoline F b = (\<lambda>(h, m).
     bindE (load_grequest b h) (\<lambda>g.
       (let (ierror, x, m) = run_free F (free_fn g) (gr_extra_state g) MPI_SUCCESS m
        in bindE (store_obj b (Grequest_box (g\<lparr>gr_extra_state := x\<rparr>)) h) (\<lambda>h.
             bindE (free_block (Some b) h) (\<lambda>h. Inr (ierror, h, m))))))"

definition mpif_grequest_cancel_trampoline ::
    "'m fortran_grequest \<Rightarrow> logical_repr \<Rightarrow> ptr \<Rightarrow> fint \<Rightarrow> box heap \<times> 'm \<Rightarrow>
     fault + fint \<times> box heap \<times> 'm" where
  "mpif_grequest_cancel_trampoline F B b complete = (\<lambda>(h, m).
     bindE (load_grequest b h) (\<lambda>g.
       (let (ierror, x, m) =
              run_cancel F (cancel_fn g) (gr_extra_state g) (mpif_bool2logical B complete) MPI_SUCCESS m
        in bindE (store_obj b (Grequest_box (g\<lparr>gr_extra_state := x\<rparr>)) h) (\<lambda>h. Inr (ierror, h, m)))))"

text \<open>
  The starting wrapper. \<open>MPI_Grequest_start\<close> is a parameter: the box it is given and
  \<open>MPI_REQUEST_NULL\<close>, to the error code and the request.
\<close>

type_synonym 'w grequest_start = "profile \<Rightarrow> ptr \<Rightarrow> handle \<Rightarrow> 'w \<Rightarrow> fint \<times> handle \<times> 'w"

record start_result =
  gr_request :: "fint option"
  gr_ierror :: fint
  gr_box :: "ptr option"

definition mpi_grequest_start ::
    "'w grequest_start \<Rightarrow> handle_api \<Rightarrow> profile \<Rightarrow> addr \<Rightarrow> addr \<Rightarrow> addr \<Rightarrow> aint \<Rightarrow> box heap \<times> 'w \<Rightarrow>
     fault + start_result \<times> box heap \<times> 'w" where
  "mpi_grequest_start start H pr query free cancel extra_state = (\<lambda>(h, w).
     (case mpif_grequest_reserve query free cancel extra_state h of
        (None, h) \<Rightarrow> Inr (\<lparr>gr_request = None, gr_ierror = MPI_ERR_OTHER, gr_box = None\<rparr>, h, w)
      | (Some b, h) \<Rightarrow>
          (let (ierror, c_request, w) = start pr b MPI_REQUEST_NULL w
           in bindE (if ierror \<noteq> MPI_SUCCESS then mpif_grequest_cancel (Some b) h else Inr h) (\<lambda>h.
                bindE (toint_checked H Request c_request) (\<lambda>request.
                  Inr (\<lparr>gr_request = Some request, gr_ierror = ierror, gr_box = Some b\<rparr>, h, w))))))"

section \<open>What generalized requests are, without the heap\<close>

text \<open>
  The requests in existence, and what MPI does with them: query and cancel a request any number
  of times, in any order between requests, and free it once.
\<close>

datatype grequest_event =
    Query ptr addr
  | Cancel ptr fint
  | Free ptr

definition grequests :: "box heap \<Rightarrow> ptr \<Rightarrow> grequest_box option" where
  "grequests h p = (case live h p of Some (Obj (Grequest_box g)) \<Rightarrow> Some g | _ \<Rightarrow> None)"

fun serve :: "'m fortran_grequest \<Rightarrow> logical_repr \<Rightarrow> grequest_event \<Rightarrow> box heap \<times> 'm \<Rightarrow>
    fault + fint \<times> box heap \<times> 'm" where
  "serve F B (Query p status) s = mpif_grequest_query_trampoline F p status s"
| "serve F B (Cancel p complete) s = mpif_grequest_cancel_trampoline F B p complete s"
| "serve F B (Free p) s = mpif_grequest_free_trampoline F p s"

primrec serve_all :: "'m fortran_grequest \<Rightarrow> logical_repr \<Rightarrow> grequest_event list \<Rightarrow> box heap \<times> 'm \<Rightarrow>
    fault + fint list \<times> box heap \<times> 'm" where
  "serve_all F B [] s = Inr ([], s)"
| "serve_all F B (e # es) s =
     bindE (serve F B e s) (\<lambda>(c, s). bindE (serve_all F B es s) (\<lambda>(cs, s). Inr (c # cs, s)))"

text \<open>The specification: a map from requests to their procedures and extra state.\<close>

type_synonym requests = "ptr \<Rightarrow> grequest_box option"

fun spec_step :: "'m fortran_grequest \<Rightarrow> logical_repr \<Rightarrow> grequest_event \<Rightarrow> requests \<times> 'm \<Rightarrow>
    (fint \<times> requests \<times> 'm) option" where
  "spec_step F B (Query p status) (R, m) =
     (case R p of None \<Rightarrow> None
      | Some g \<Rightarrow> (let (c, x, m) = run_query F (query_fn g) (gr_extra_state g) status MPI_SUCCESS m
                   in Some (c, R(p \<mapsto> g\<lparr>gr_extra_state := x\<rparr>), m)))"
| "spec_step F B (Cancel p complete) (R, m) =
     (case R p of None \<Rightarrow> None
      | Some g \<Rightarrow> (let (c, x, m) = run_cancel F (cancel_fn g) (gr_extra_state g)
                        (if complete = 0 then logical_false B else logical_true B) MPI_SUCCESS m
                   in Some (c, R(p \<mapsto> g\<lparr>gr_extra_state := x\<rparr>), m)))"
| "spec_step F B (Free p) (R, m) =
     (case R p of None \<Rightarrow> None
      | Some g \<Rightarrow> (let (c, x, m) = run_free F (free_fn g) (gr_extra_state g) MPI_SUCCESS m
                   in Some (c, R(p := None), m)))"

primrec spec_all :: "'m fortran_grequest \<Rightarrow> logical_repr \<Rightarrow> grequest_event list \<Rightarrow> requests \<times> 'm \<Rightarrow>
    (fint list \<times> requests \<times> 'm) option" where
  "spec_all F B [] s = Some ([], s)"
| "spec_all F B (e # es) s =
     (case spec_step F B e s of
        None \<Rightarrow> None
      | Some (c, s) \<Rightarrow> (case spec_all F B es s of None \<Rightarrow> None | Some (cs, s) \<Rightarrow> Some (c # cs, s)))"

lemma load_grequest_Inr: "load_grequest p h = Inr g \<longleftrightarrow> grequests h p = Some g"
  by (auto simp: load_grequest_def load_obj_def grequests_def split: option.splits block.splits box.splits)

lemma load_grequest_Inl: "(\<exists>e. load_grequest p h = Inl e) \<longleftrightarrow> grequests h p = None"
  by (auto simp: load_grequest_def load_obj_def grequests_def split: option.splits block.splits box.splits)

lemma grequests_live: "grequests h p = Some g \<Longrightarrow> live h p = Some (Obj (Grequest_box g))"
  by (auto simp: grequests_def split: option.splits block.splits box.splits)

lemma store_grequest:
  assumes "grequests h p = Some g"
  shows "store_obj p (Grequest_box g') h = Inr (h\<lparr>live := (live h)(p \<mapsto> Obj (Grequest_box g'))\<rparr>)"
  using grequests_live [OF assms] by (simp add: store_obj_def)

lemma grequests_update [simp]:
  "grequests (h\<lparr>live := (live h)(p \<mapsto> Obj (Grequest_box g))\<rparr>) = (grequests h)(p \<mapsto> g)"
  "grequests (h\<lparr>live := (live h)(p := None)\<rparr>) = (grequests h)(p := None)"
  by (auto simp: grequests_def fun_eq_iff)

lemma serve_refines:
  "case serve F B e (h, m) of
     Inl _ \<Rightarrow> spec_step F B e (grequests h, m) = None
   | Inr (c, h', m') \<Rightarrow>
       spec_step F B e (grequests h, m) = Some (c, grequests h', m') \<and>
       (\<forall>q. grequests h q = None \<longrightarrow> live h' q = live h q)"
proof -
  let ?p = "case e of Query p _ \<Rightarrow> p | Cancel p _ \<Rightarrow> p | Free p \<Rightarrow> p"
  show ?thesis
  proof (cases "grequests h ?p")
    case None
    then obtain f where "load_grequest ?p h = Inl f" using load_grequest_Inl by blast
    with None show ?thesis
      by (cases e) (simp_all add: mpif_grequest_query_trampoline_def
          mpif_grequest_cancel_trampoline_def mpif_grequest_free_trampoline_def)
  next
    case (Some g)
    then have l: "load_grequest ?p h = Inr g" by (simp add: load_grequest_Inr)
    show ?thesis
      using Some l store_grequest [OF Some]
      by (cases e) (auto simp: mpif_grequest_query_trampoline_def mpif_grequest_cancel_trampoline_def
          mpif_grequest_free_trampoline_def free_block_def mpif_bool2logical_def fun_upd_upd
          split: prod.split)
  qed
qed

lemma serve_all_refines:
  "case serve_all F B es (h, m) of
     Inl _ \<Rightarrow> spec_all F B es (grequests h, m) = None
   | Inr (cs, h', m') \<Rightarrow>
       spec_all F B es (grequests h, m) = Some (cs, grequests h', m') \<and>
       (\<forall>q. grequests h q = None \<longrightarrow> live h' q = live h q)"
proof (induction es arbitrary: h m)
  case Nil
  then show ?case by simp
next
  case (Cons e es)
  show ?case
  proof (cases "serve F B e (h, m)")
    case (Inl f)
    with serve_refines [of F B e h m] show ?thesis by simp
  next
    case (Inr r)
    obtain c h1 m1 where r: "r = (c, h1, m1)" by (cases r) auto
    with Inr serve_refines [of F B e h m]
    have spec: "spec_step F B e (grequests h, m) = Some (c, grequests h1, m1)"
      and frame: "\<forall>q. grequests h q = None \<longrightarrow> live h1 q = live h q" by simp_all
    have dead: "grequests h1 q = None" if "grequests h q = None" for q
      using that frame by (simp add: grequests_def)
    show ?thesis
    proof (cases "serve_all F B es (h1, m1)")
      case (Inl f)
      with Inr r spec Cons.IH [of h1 m1] show ?thesis by simp
    next
      case (Inr r2)
      obtain cs h2 m2 where "r2 = (cs, h2, m2)" by (cases r2) auto
      with Inr \<open>serve F B e (h, m) = Inr r\<close> r spec Cons.IH [of h1 m1] frame dead show ?thesis by simp
    qed
  qed
qed

text \<open>
  C38. Generalized requests behave as if each kept its own procedures and extra state. For every
  sequence of query, cancel and free calls MPI makes on any number of requests, in any order, the
  trampolines and their heap blocks give the error codes, the memory and the remaining requests
  of a map from requests to (procedures, extra state), with a cancel's flag as a LOGICAL; they fault exactly
  when that map has no such request, that is when MPI uses a request it has freed; and no heap
  block that is not a request's is touched.
\<close>

theorem grequests_refine_map:
  "case serve_all F B es (h, m) of
     Inl _ \<Rightarrow> spec_all F B es (grequests h, m) = None
   | Inr (cs, h', m') \<Rightarrow>
       spec_all F B es (grequests h, m) = Some (cs, grequests h', m') \<and>
       live h' |` (- dom (grequests h)) = live h |` (- dom (grequests h))"
  using serve_all_refines [of F B es h m]
  by (auto simp: restrict_map_def dom_def fun_eq_iff split: sum.splits)

text \<open>
  C39. A generalized request costs one heap block from start to free. A start that MPI accepts
  leaves exactly one new block, holding the three procedures and the value of the extra state; a start that MPI
  refuses, or that finds no memory (when it returns \<open>MPI_ERR_OTHER\<close> without calling MPI), leaves
  the heap's blocks as they were; and the free callback runs the free procedure on the copied
  state and gives the block back.
\<close>

theorem grequest_lifetime:
  assumes "heap_wf h" and "mpi_grequest_start start H pr query free cancel x (h, w) = Inr (r, h', w')"
  shows "case gr_box r of
      None \<Rightarrow> oom h (nallocs h) \<and> gr_ierror r = MPI_ERR_OTHER \<and> live h' = live h \<and> w' = w
    | Some b \<Rightarrow>
        \<not> oom h (nallocs h) \<and> live h b = None \<and>
        (if gr_ierror r = MPI_SUCCESS
         then live h' = (live h)(b \<mapsto> Obj (Grequest_box \<lparr>query_fn = query, free_fn = free,
                                      cancel_fn = cancel, gr_extra_state = x\<rparr>)) \<and>
           (case mpif_grequest_free_trampoline F b (h', m) of
              Inl _ \<Rightarrow> False
            | Inr (ierror, h'', m') \<Rightarrow>
                live h'' = live h \<and> (ierror, m') = (let (c, _, m') = run_free F free x MPI_SUCCESS m in (c, m')))
         else live h' = live h)"
proof (cases "oom h (nallocs h)")
  case True
  with assms show ?thesis
    by (auto simp: mpi_grequest_start_def mpif_grequest_reserve_def alloc_block_def)
next
  case False
  let ?g = "\<lparr>query_fn = query, free_fn = free, cancel_fn = cancel, gr_extra_state = x\<rparr>"
  let ?h = "h\<lparr>live := (live h)(nallocs h \<mapsto> Obj (Grequest_box ?g)), nallocs := Suc (nallocs h)\<rparr>"
  have fresh: "live h (nallocs h) = None" by (rule heap_wf_fresh [OF assms(1)])
  have same: "(live h)(nallocs h := None) = live h" using fresh by (auto simp: fun_eq_iff)
  obtain ierror c_request w1 where st: "start pr (nallocs h) MPI_REQUEST_NULL w = (ierror, c_request, w1)"
    by (cases "start pr (nallocs h) MPI_REQUEST_NULL w") auto
  have r: "gr_box r = Some (nallocs h)" "gr_ierror r = ierror"
    "h' = (if ierror = MPI_SUCCESS then ?h else ?h\<lparr>live := (live ?h)(nallocs h := None)\<rparr>)"
    using assms(2) False st
    by (auto simp: mpi_grequest_start_def mpif_grequest_reserve_def alloc_block_def
        mpif_grequest_cancel_def free_block_def outcome_simps split: if_splits)
  have load: "grequests ?h (nallocs h) = Some ?g" by (simp add: grequests_def)
  show ?thesis
    using r False fresh same load_grequest_Inr [THEN iffD2, OF load] store_grequest [OF load]
    by (simp add: mpif_grequest_free_trampoline_def free_block_def split: prod.split)
qed

definition demo_grequest :: "int fortran_grequest" where
  "demo_grequest =
     \<lparr>run_query = (\<lambda>p x st e m. (e, x + 1, m + 1)),
      run_free = (\<lambda>p x e m. (e, x, m + sint x)),
      run_cancel = (\<lambda>p x c e m. (e, x, m))\<rparr>"

definition demo_box_heap :: "box heap" where
  "demo_box_heap =
     empty_heap\<lparr>live := [0 \<mapsto> Obj (Grequest_box \<lparr>query_fn = 8, free_fn = 16, cancel_fn = 24,
                                                   gr_extra_state = 5\<rparr>)], nallocs := 1\<rparr>"

lemma demo_start:
  "mpi_grequest_start (\<lambda>pr b h w. (MPI_SUCCESS, 0x999, w)) identity_handles MPI 8 16 24 5
     (empty_heap, 0 :: nat) =
   Inr (\<lparr>gr_request = Some 0x999, gr_ierror = MPI_SUCCESS, gr_box = Some 0\<rparr>, demo_box_heap, 0)"
  by (simp add: mpi_grequest_start_def mpif_grequest_reserve_def alloc_block_def empty_heap_def
      toint_checked_def identity_handles_def to_fint_def demo_box_heap_def)

theorem grequest_lifetime_witness:
  "case mpif_grequest_free_trampoline demo_grequest 0 (demo_box_heap, 1) of
     Inl _ \<Rightarrow> False
   | Inr (ierror, h, m) \<Rightarrow> live h = Map.empty \<and> ierror = MPI_SUCCESS \<and> m = 6"
proof -
  have "sint (5 :: aint) = 5" by simp
  then show ?thesis
    using grequest_lifetime [OF heap_wf_empty demo_start, of demo_grequest 1]
    by (simp add: empty_heap_def demo_grequest_def split: sum.splits prod.splits)
qed

section \<open>Data representations\<close>

text \<open>
  The conversion procedures get the two buffers as addresses, everything else by reference. The
  values left in the referenced locals are not read again, except the extra state, which lives
  in the box.
\<close>

record 'm fortran_datarep =
  run_conversion :: "addr \<Rightarrow> addr \<Rightarrow> fint \<Rightarrow> fint \<Rightarrow> addr \<Rightarrow> count \<Rightarrow> aint \<Rightarrow> fint \<Rightarrow> 'm \<Rightarrow> fint \<times> aint \<times> 'm"
  run_conversion_c :: "addr \<Rightarrow> addr \<Rightarrow> fint \<Rightarrow> count \<Rightarrow> addr \<Rightarrow> count \<Rightarrow> aint \<Rightarrow> fint \<Rightarrow> 'm \<Rightarrow> fint \<times> aint \<times> 'm"
  run_extent :: "addr \<Rightarrow> fint \<Rightarrow> aint \<Rightarrow> aint \<Rightarrow> fint \<Rightarrow> 'm \<Rightarrow> fint \<times> aint \<times> aint \<times> 'm"

definition mpif_datarep_reserve ::
    "addr \<Rightarrow> addr \<Rightarrow> addr \<Rightarrow> aint \<Rightarrow> box heap \<Rightarrow> ptr option \<times> box heap" where
  "mpif_datarep_reserve read w extent extra_state h =
     alloc_block (Obj (Datarep_box \<lparr>read_fn = read, write_fn = w, extent_fn = extent,
                                    dr_extra_state = extra_state\<rparr>)) h"

definition mpif_datarep_cancel :: "ptr option \<Rightarrow> box heap \<Rightarrow> fault + box heap" where
  "mpif_datarep_cancel b h = free_block b h"

definition call_datarep_conversion ::
    "'m fortran_datarep \<Rightarrow> handle_api \<Rightarrow> addr \<Rightarrow> ptr \<Rightarrow> addr \<Rightarrow> handle \<Rightarrow> fint \<Rightarrow> addr \<Rightarrow> count \<Rightarrow>
     box heap \<times> 'm \<Rightarrow> fault + fint \<times> box heap \<times> 'm" where
  "call_datarep_conversion F H fn b userbuf datatype n filebuf position = (\<lambda>(h, m).
     bindE (toint_checked H Type datatype) (\<lambda>f_datatype.
       bindE (load_datarep b h) (\<lambda>d.
         (let (ierror, x, m) = run_conversion F fn userbuf f_datatype n filebuf position
                                 (dr_extra_state d) MPI_SUCCESS m
          in bindE (store_obj b (Datarep_box (d\<lparr>dr_extra_state := x\<rparr>)) h) (\<lambda>h. Inr (ierror, h, m))))))"

definition call_datarep_conversion_c ::
    "'m fortran_datarep \<Rightarrow> handle_api \<Rightarrow> addr \<Rightarrow> ptr \<Rightarrow> addr \<Rightarrow> handle \<Rightarrow> count \<Rightarrow> addr \<Rightarrow> count \<Rightarrow>
     box heap \<times> 'm \<Rightarrow> fault + fint \<times> box heap \<times> 'm" where
  "call_datarep_conversion_c F H fn b userbuf datatype n filebuf position = (\<lambda>(h, m).
     bindE (toint_checked H Type datatype) (\<lambda>f_datatype.
       bindE (load_datarep b h) (\<lambda>d.
         (let (ierror, x, m) = run_conversion_c F fn userbuf f_datatype n filebuf position
                                 (dr_extra_state d) MPI_SUCCESS m
          in bindE (store_obj b (Datarep_box (d\<lparr>dr_extra_state := x\<rparr>)) h) (\<lambda>h. Inr (ierror, h, m))))))"

definition mpif_datarep_read_trampoline where
  "mpif_datarep_read_trampoline F H b userbuf datatype n filebuf position = (\<lambda>(h, m).
     bindE (load_datarep b h) (\<lambda>d.
       call_datarep_conversion F H (read_fn d) b userbuf datatype n filebuf position (h, m)))"

definition mpif_datarep_write_trampoline where
  "mpif_datarep_write_trampoline F H b userbuf datatype n filebuf position = (\<lambda>(h, m).
     bindE (load_datarep b h) (\<lambda>d.
       call_datarep_conversion F H (write_fn d) b userbuf datatype n filebuf position (h, m)))"

definition mpif_datarep_read_trampoline_c where
  "mpif_datarep_read_trampoline_c F H b userbuf datatype n filebuf position = (\<lambda>(h, m).
     bindE (load_datarep b h) (\<lambda>d.
       call_datarep_conversion_c F H (read_fn d) b userbuf datatype n filebuf position (h, m)))"

definition mpif_datarep_write_trampoline_c where
  "mpif_datarep_write_trampoline_c F H b userbuf datatype n filebuf position = (\<lambda>(h, m).
     bindE (load_datarep b h) (\<lambda>d.
       call_datarep_conversion_c F H (write_fn d) b userbuf datatype n filebuf position (h, m)))"

text \<open>The extent comes back only with success; otherwise \<open>*extent\<close> is left alone.\<close>

definition mpif_datarep_extent_trampoline ::
    "'m fortran_datarep \<Rightarrow> handle_api \<Rightarrow> ptr \<Rightarrow> handle \<Rightarrow> box heap \<times> 'm \<Rightarrow>
     fault + (fint \<times> aint option) \<times> box heap \<times> 'm" where
  "mpif_datarep_extent_trampoline F H b datatype = (\<lambda>(h, m).
     bindE (toint_checked H Type datatype) (\<lambda>f_datatype.
       bindE (load_datarep b h) (\<lambda>d.
         (let (ierror, f_extent, x, m) =
                run_extent F (extent_fn d) f_datatype 0 (dr_extra_state d) MPI_SUCCESS m
          in bindE (store_obj b (Datarep_box (d\<lparr>dr_extra_state := x\<rparr>)) h) (\<lambda>h.
               Inr ((ierror, if ierror = MPI_SUCCESS then Some f_extent else None), h, m))))))"

text \<open>
  Registering. What MPI gets for a conversion function is the ABI's sentinel when the procedure is
  a predefined one, else the trampoline of the call's size. \<open>MPI_Register_datarep\<close> reads the name
  while it runs.
\<close>

datatype datarep_code =
    Abi_sentinel addr
  | datarep_read_trampoline | datarep_write_trampoline
  | datarep_read_trampoline_c | datarep_write_trampoline_c
  | datarep_extent_trampoline

type_synonym 'w register_datarep =
  "profile \<Rightarrow> fint \<Rightarrow> byte list \<Rightarrow> datarep_code \<Rightarrow> datarep_code \<Rightarrow> datarep_code \<Rightarrow> ptr \<Rightarrow> 'w \<Rightarrow> fint \<times> 'w"

definition datarep_callback ::
    "linkage \<Rightarrow> conversion_sentinels \<Rightarrow> addr \<Rightarrow> datarep_code \<Rightarrow> datarep_code" where
  "datarep_callback L C callback trampoline =
     (case mpif_predefined_callback L C callback of Some v \<Rightarrow> Abi_sentinel v | None \<Rightarrow> trampoline)"

text \<open>\<open>large\<close> is 1 in the wrappers of the \<open>_c\<close> routine and 0 in the others.\<close>

definition mpi_register_datarep ::
    "'w register_datarep \<Rightarrow> linkage \<Rightarrow> conversion_sentinels \<Rightarrow> profile \<Rightarrow> fint \<Rightarrow>
     region \<Rightarrow> nat \<Rightarrow> addr \<Rightarrow> addr \<Rightarrow> addr \<Rightarrow> aint \<Rightarrow> box heap \<times> 'w \<Rightarrow>
     fault + (fint \<times> ptr option) \<times> box heap \<times> 'w" where
  "mpi_register_datarep M L C pr large datarep len read w_fn extent x = (\<lambda>(h, w).
     bindE (mpif_strdup_f2c datarep 0 len h) (\<lambda>(c_datarep, h).
       (case mpif_datarep_reserve read w_fn extent x h of
          (None, h) \<Rightarrow> Inr ((MPI_ERR_OTHER, None), h, w)
        | (Some b, h) \<Rightarrow>
            (let c_read = datarep_callback L C read
                   (if large = 0 then datarep_read_trampoline else datarep_read_trampoline_c);
                 c_write = datarep_callback L C w_fn
                   (if large = 0 then datarep_write_trampoline else datarep_write_trampoline_c);
                 c_extent = datarep_callback L C extent datarep_extent_trampoline
             in bindE (load_cstring c_datarep h) (\<lambda>name.
                  (let (ierror, w) = M pr large name c_read c_write c_extent b w
                   in bindE (free_block (Some c_datarep) h) (\<lambda>h.
                        bindE (if ierror \<noteq> MPI_SUCCESS then mpif_datarep_cancel (Some b) h else Inr h)
                          (\<lambda>h. Inr ((ierror, Some b), h, w)))))))))"

text \<open>
  Registering a data representation: with memory for both allocations MPI gets the name
  without its trailing blanks, for each procedure the sentinel or the trampoline of the call's size,
  and a box with the procedures and the extra state; afterwards the name's copy is gone and the
  box is there exactly if MPI accepted. Without memory for the box the wrapper returns
  \<open>MPI_ERR_OTHER\<close> without calling MPI, and the copy of the name is still allocated: no pointer to
  it is left, so it is lost.
\<close>

theorem register_datarep_outcome:
  assumes "heap_wf h" and "len \<le> length datarep" and "0 \<notin> set (take len datarep)"
    and "\<not> oom h (nallocs h)"
    and "mpi_register_datarep M L C pr large datarep len read w_fn extent x (h, w) =
      Inr ((ierror, b), h', w')"
  shows "if oom h (Suc (nallocs h))
    then b = None \<and> ierror = MPI_ERR_OTHER \<and> w' = w \<and> live h (nallocs h) = None \<and>
      live h' = (live h)(nallocs h \<mapsto> Bytes (map Some (rtrim (take len datarep)) @ [Some 0]))
    else
      b = Some (Suc (nallocs h)) \<and>
      (ierror, w') = M pr large (rtrim (take len datarep))
        (datarep_callback L C read (if large = 0 then datarep_read_trampoline else datarep_read_trampoline_c))
        (datarep_callback L C w_fn (if large = 0 then datarep_write_trampoline else datarep_write_trampoline_c))
        (datarep_callback L C extent datarep_extent_trampoline) (Suc (nallocs h)) w \<and>
      live h' = (if ierror = MPI_SUCCESS
        then (live h)(Suc (nallocs h) \<mapsto> Obj (Datarep_box \<lparr>read_fn = read, write_fn = w_fn,
               extent_fn = extent, dr_extra_state = x\<rparr>))
        else live h)"
proof -
  let ?s = "rtrim (take len datarep)"
  let ?n = "nallocs h"
  have fresh: "live h ?n = None" "live h (Suc ?n) = None"
    using assms(1) by (auto simp: heap_wf_def dom_def)
  have dup: "mpif_strdup_f2c datarep 0 len h = Inr (?n, with_cstring ?s h)"
    using assms(2,4) by (simp add: strdup_f2c_spec dup_result_def)
  have nul: "cstring_of (map Some ?s @ [Some 0]) = Inr ?s"
    using assms(3) set_rtrim [of "take len datarep"] by (intro cstring_of_terminated) auto
  have clear: "(live h)(?n := None) = live h" "(live h)(Suc ?n := None) = live h"
    using fresh by (auto simp: fun_eq_iff)
  show ?thesis
  proof (cases "oom h (Suc ?n)")
    case True
    have res: "mpif_datarep_reserve read w_fn extent x (with_cstring ?s h) =
        (None, (with_cstring ?s h)\<lparr>nallocs := Suc (Suc ?n)\<rparr>)"
      using True by (simp add: mpif_datarep_reserve_def alloc_block_def with_cstring_def)
    have "(MPI_ERR_OTHER, None) = (ierror, b) \<and>
        h' = (with_cstring ?s h)\<lparr>nallocs := Suc (Suc ?n)\<rparr> \<and> w' = w"
      using assms(5) unfolding mpi_register_datarep_def by (simp add: dup res)
    with True fresh show ?thesis by (simp add: with_cstring_def)
  next
    case False
    let ?c = "\<lambda>f t. datarep_callback L C f t"
    obtain e w1 where M: "M pr large ?s
        (?c read (if large = 0 then datarep_read_trampoline else datarep_read_trampoline_c))
        (?c w_fn (if large = 0 then datarep_write_trampoline else datarep_write_trampoline_c))
        (?c extent datarep_extent_trampoline) (Suc ?n) w = (e, w1)"
      by (meson surj_pair)
    let ?d = "Obj (Datarep_box \<lparr>read_fn = read, write_fn = w_fn, extent_fn = extent,
                                 dr_extra_state = x\<rparr>)"
    let ?h = "(with_cstring ?s h)\<lparr>live := (live (with_cstring ?s h))(Suc ?n \<mapsto> ?d),
                                  nallocs := Suc (Suc ?n)\<rparr>"
    have res: "mpif_datarep_reserve read w_fn extent x (with_cstring ?s h) = (Some (Suc ?n), ?h)"
      using False by (simp add: mpif_datarep_reserve_def alloc_block_def with_cstring_def)
    have load: "load_cstring ?n ?h = Inr ?s"
      by (simp add: load_cstring_def with_cstring_def nul)
    have freed: "free_block (Some ?n) ?h = Inr (?h\<lparr>live := (live h)(Suc ?n \<mapsto> ?d)\<rparr>)"
    proof -
      have "(live h)(Suc ?n \<mapsto> ?d, ?n := None) = (live h)(Suc ?n \<mapsto> ?d)"
        using fresh by (auto simp: fun_eq_iff)
      then show ?thesis
        by (simp add: free_block_def with_cstring_def fun_upd_twist [of ?n])
    qed
    have cancelled: "mpif_datarep_cancel (Some (Suc ?n))
        ((with_cstring ?s h)\<lparr>nallocs := Suc (Suc ?n), live := (live h)(Suc ?n \<mapsto> ?d)\<rparr>) =
        Inr (?h\<lparr>live := live h\<rparr>)"
      using clear(2) by (simp add: mpif_datarep_cancel_def free_block_def)
    have "ierror = e \<and> b = Some (Suc ?n) \<and> w' = w1 \<and>
        live h' = (if e = MPI_SUCCESS then (live h)(Suc ?n \<mapsto> ?d) else live h)"
      using assms(5) unfolding mpi_register_datarep_def
      by (cases "e = MPI_SUCCESS") (auto simp: dup res load M freed cancelled Let_def)
    with False M show ?thesis by simp
  qed
qed

text \<open>A heap whose second allocation fails.\<close>

definition tight_heap :: "box heap" where
  "tight_heap = \<lparr>live = Map.empty, nallocs = 0, oom = (\<lambda>n. n = 1)\<rparr>"

lemma demo_register:
  "mpi_register_datarep (\<lambda>pr large name r w e b st. (MPI_SUCCESS, st)) packed_linkage
     \<lparr>MPI_CONVERSION_FN_NULL = 0, MPI_CONVERSION_FN_NULL_C = 0\<rparr> MPI 0 [0x41, 0x20] 2 8 16 24 5
     (tight_heap, 0 :: nat) =
   Inr ((MPI_ERR_OTHER, None),
        \<lparr>live = [0 \<mapsto> Bytes [Some 0x41, Some 0]], nallocs = 2, oom = (\<lambda>n. n = 1)\<rparr>, 0)"
proof -
  have dup: "mpif_strdup_f2c [0x41, 0x20] 0 2 tight_heap =
      Inr (0, \<lparr>live = [0 \<mapsto> Bytes [Some 0x41, Some 0]], nallocs = 1, oom = (\<lambda>n. n = 1)\<rparr>)"
    by (simp add: strdup_f2c_spec dup_result_def tight_heap_def with_cstring_def rtrim_def blank_def)
  show ?thesis
    by (simp add: mpi_register_datarep_def dup mpif_datarep_reserve_def alloc_block_def)
qed

theorem register_datarep_outcome_witness:
  "live (\<lparr>live = [0 \<mapsto> Bytes [Some 0x41, Some 0]], nallocs = 2, oom = (\<lambda>n. n = 1)\<rparr> :: box heap) \<noteq>
   live tight_heap"
  using register_datarep_outcome [OF _ _ _ _ demo_register]
  by (auto simp: tight_heap_def heap_wf_def rtrim_def blank_def)

end
