(* ===== verification/Callback_Process.thy ===== *)
theory Callback_Process
  imports Wrappers_Attrs Slot_Pools Callback_Boxes
begin

text \<open>
  All of \<open>src/mpif_callbacks.c\<close> in one process: the attribute table, the two pools and the heap of boxes, as
  the wrappers that create callbacks use them and as MPI calls into them, in any order. The other theories
  treat each part alone; here a program mixes them, and everything it has created must stay in force.
\<close>

section \<open>What stays in force\<close>

text \<open>
  Operations that answer and change a state, and commitments an answer makes. Nothing but the events that
  end a commitment may break it.
\<close>

locale committed =
  fixes inv :: "'s \<Rightarrow> bool"
    and exec :: "'c \<Rightarrow> 's \<Rightarrow> 'e + 'a \<times> 's"
    and holds :: "'m \<Rightarrow> 's \<Rightarrow> bool"
    and ends :: "'m \<Rightarrow> 'c \<Rightarrow> 'a \<Rightarrow> bool"
  assumes exec_inv: "inv s \<Longrightarrow> exec c s = Inr (a, s') \<Longrightarrow> inv s'"
    and exec_holds: "inv s \<Longrightarrow> exec c s = Inr (a, s') \<Longrightarrow> holds m s \<Longrightarrow> \<not> ends m c a \<Longrightarrow> holds m s'"
begin

primrec run :: "'c list \<Rightarrow> 's \<Rightarrow> 'e + 'a list \<times> 's" where
  "run [] s = Inr ([], s)"
| "run (c # cs) s = bindE (exec c s) (\<lambda>(a, s). bindE (run cs s) (\<lambda>(as, s). Inr (a # as, s)))"

lemma run_inv: "inv s \<Longrightarrow> run cs s = Inr (as, s') \<Longrightarrow> inv s'"
  by (induction cs arbitrary: s as) (auto simp: outcome_simps intro: exec_inv)

lemma run_holds:
  "inv s \<Longrightarrow> run cs s = Inr (as, s') \<Longrightarrow> holds m s \<Longrightarrow> \<forall>(c, a) \<in> set (zip cs as). \<not> ends m c a \<Longrightarrow> holds m s'"
proof (induction cs arbitrary: s as)
  case (Cons c cs)
  then obtain a s1 as1 where "exec c s = Inr (a, s1)" "run cs s1 = Inr (as1, s')" "as = a # as1"
    by (auto simp: outcome_simps)
  with Cons show ?case
    using exec_inv [of s c a s1] exec_holds [of s c a s1 m] by auto
qed simp

end

section \<open>A process\<close>

text \<open>What the process cannot choose: MPI's functions, the linker, the ABI library, the user's procedures.\<close>

record 'w process_env =
  keyval_api :: "'w create_keyval"
  op_fns :: "'w op_api"
  errhandler_fns :: "'w errhandler_api"
  grequest_api :: "'w grequest_start"
  datarep_api :: "'w register_datarep"
  linked_at :: linkage
  abi_sentinels :: conversion_sentinels
  truth :: logical_repr
  conversion :: handle_api
  attr_procs :: fortran_attr
  op_procs :: "'w fortran_op"
  handler_procs :: "'w fortran_errhandler"
  request_procs :: "'w fortran_grequest"
  datarep_procs :: "'w fortran_datarep"

text \<open>The static variables of the file, the heap, and everything else (\<open>'w\<close>): MPI's state and the user's memory.\<close>

record 'w process =
  attr_table :: attr_table
  op_pool :: pool
  handler_pool :: pool
  boxes :: "box heap"
  rest :: 'w


text \<open>MPI calling a data representation's procedures.\<close>

datatype datarep_event =
    Read_data ptr addr handle fint addr count
  | Write_data ptr addr handle fint addr count
  | Read_data_c ptr addr handle count addr count
  | Write_data_c ptr addr handle count addr count
  | Extent_of ptr handle

fun serve_datarep ::
    "'w fortran_datarep \<Rightarrow> handle_api \<Rightarrow> datarep_event \<Rightarrow> box heap \<times> 'w \<Rightarrow> fault + fint \<times> box heap \<times> 'w" where
  "serve_datarep F H (Read_data b u t n f p) s = mpif_datarep_read_trampoline F H b u t n f p s"
| "serve_datarep F H (Write_data b u t n f p) s = mpif_datarep_write_trampoline F H b u t n f p s"
| "serve_datarep F H (Read_data_c b u t n f p) s = mpif_datarep_read_trampoline_c F H b u t n f p s"
| "serve_datarep F H (Write_data_c b u t n f p) s = mpif_datarep_write_trampoline_c F H b u t n f p s"
| "serve_datarep F H (Extent_of b t) s =
     bindE (mpif_datarep_extent_trampoline F H b t s) (\<lambda>((e, _), s). Inr (e, s))"

text \<open>
  The calls of the program that create callbacks, and the callbacks that change the process. Attribute, operator
  and error handler callbacks only read the tables.
\<close>

datatype process_call =
    Create_keyval attr_class profile addr addr addr
  | Comm_create_keyval profile addr addr fint
  | Op_create op_call
  | Create_errhandler errhandler_call
  | Grequest_start profile addr addr addr aint
  | Register_datarep profile fint region nat addr addr addr aint
  | On_request grequest_event
  | On_datarep datarep_event

datatype answer =
    Keyval fint fint
  | Operator "op_code creation"
  | Handler "errhandler_code creation"
  | Request_started start_result
  | Representation fint "ptr option"
  | Returned fint

fun process_exec :: "'w process_env \<Rightarrow> process_call \<Rightarrow> 'w process \<Rightarrow> fault + answer \<times> 'w process" where
  "process_exec E (Create_keyval k pr c d x) s =
     (let ((e, kv), es, w) = create_keyval k (keyval_api E) (linked_at E) (abi_sentinels E) pr c d x
                               (attr_table s, rest s)
      in Inr (Keyval e kv, s\<lparr>attr_table := es, rest := w\<rparr>))"
| "process_exec E (Comm_create_keyval pr c d x) s =
     (let ((e, kv), es, w) = mpi_keyval_create (keyval_api E) (linked_at E) (abi_sentinels E) pr c d x
                               (attr_table s, rest s)
      in Inr (Keyval e kv, s\<lparr>attr_table := es, rest := w\<rparr>))"
| "process_exec E (Op_create c) s =
     bindE (mpi_op_create (op_fns E) (truth E) (conversion E) (call_profile c) (call_large c) (call_user c)
              (call_commute c) (op_pool s, rest s))
       (\<lambda>(r, ss, w). Inr (Operator r, s\<lparr>op_pool := ss, rest := w\<rparr>))"
| "process_exec E (Create_errhandler c) s =
     bindE (create_errhandler (errhandler_fns E) (eh_class c) (conversion E) (eh_profile c) (eh_user c)
              (handler_pool s, rest s))
       (\<lambda>(r, ss, w). Inr (Handler r, s\<lparr>handler_pool := ss, rest := w\<rparr>))"
| "process_exec E (Grequest_start pr q f c x) s =
     bindE (mpi_grequest_start (grequest_api E) (conversion E) pr q f c x (boxes s, rest s))
       (\<lambda>(r, h, w). Inr (Request_started r, s\<lparr>boxes := h, rest := w\<rparr>))"
| "process_exec E (Register_datarep pr large name len r w e x) s =
     bindE (mpi_register_datarep (datarep_api E) (linked_at E) (abi_sentinels E) pr large name len r w e x
              (boxes s, rest s))
       (\<lambda>((c, b), h, w). Inr (Representation c b, s\<lparr>boxes := h, rest := w\<rparr>))"
| "process_exec E (On_request e) s =
     bindE (serve (request_procs E) (truth E) e (boxes s, rest s))
       (\<lambda>(c, h, w). Inr (Returned c, s\<lparr>boxes := h, rest := w\<rparr>))"
| "process_exec E (On_datarep e) s =
     bindE (serve_datarep (datarep_procs E) (conversion E) e (boxes s, rest s))
       (\<lambda>(c, h, w). Inr (Returned c, s\<lparr>boxes := h, rest := w\<rparr>))"

section \<open>Commitments\<close>

datatype commitment =
    Copy_runs attr_class fint addr
  | Delete_runs attr_class fint addr
  | Copy_10_runs fint addr
  | Delete_10_runs fint addr
  | Op_runs op_code addr
  | Handler_runs errhandler_class errhandler_code addr
  | Request_runs ptr addr addr addr
  | Datarep_runs ptr addr addr addr

text \<open>
  What an answer commits the process to: each trampoline MPI got must run the procedure given for it. A
  keyval's two procedures are committed to one by one, as each of them may be predefined instead; MPI then
  gets its own sentinel for it and enters no trampoline.
\<close>

definition for_user :: "linkage \<Rightarrow> addr \<Rightarrow> commitment \<Rightarrow> commitment set" where
  "for_user L p m = (if user_callback L p then {m} else {})"

fun commits :: "linkage \<Rightarrow> process_call \<Rightarrow> answer \<Rightarrow> commitment set" where
  "commits L (Create_keyval k pr c d x) (Keyval e kv) =
     (if e = MPI_SUCCESS then for_user L c (Copy_runs k kv c) \<union> for_user L d (Delete_runs k kv d) else {})"
| "commits L (Comm_create_keyval pr c d x) (Keyval e kv) =
     (if e = MPI_SUCCESS then for_user L c (Copy_10_runs kv c) \<union> for_user L d (Delete_10_runs kv d) else {})"
| "commits L (Op_create c) (Operator r) =
     (if out_ierror r = MPI_SUCCESS \<and> call_user c \<noteq> null
      then {Op_runs code (call_user c) | code. handed r = Some code} else {})"
| "commits L (Create_errhandler c) (Handler r) =
     (if out_ierror r = MPI_SUCCESS \<and> eh_user c \<noteq> null
      then {Handler_runs (eh_class c) code (eh_user c) | code. handed r = Some code} else {})"
| "commits L (Grequest_start pr q f c x) (Request_started r) =
     (if gr_ierror r = MPI_SUCCESS then {Request_runs b q f c | b. gr_box r = Some b} else {})"
| "commits L (Register_datarep pr large name len r w e x) (Representation c b) =
     (if c = MPI_SUCCESS then {Datarep_runs d r w e | d. b = Some d} else {})"
| "commits L _ _ = {}"

text \<open>A keyval's ends when MPI gives the keyval out again, a request's when MPI frees it; no other ever ends.\<close>

fun ends_commitment :: "commitment \<Rightarrow> process_call \<Rightarrow> answer \<Rightarrow> bool" where
  "ends_commitment (Copy_runs k kv c) call (Keyval e kv') = (kv' = kv)"
| "ends_commitment (Delete_runs k kv d) call (Keyval e kv') = (kv' = kv)"
| "ends_commitment (Copy_10_runs kv c) call (Keyval e kv') = (kv' = kv)"
| "ends_commitment (Delete_10_runs kv d) call (Keyval e kv') = (kv' = kv)"
| "ends_commitment (Request_runs b q f c) call a = (call = On_request (Free b))"
| "ends_commitment m call a = False"


text \<open>The same, as what the process has recorded.\<close>

definition datareps :: "box heap \<Rightarrow> ptr \<Rightarrow> datarep_box option" where
  "datareps h p = (case live h p of Some (Obj (Datarep_box d)) \<Rightarrow> Some d | _ \<Rightarrow> None)"

definition copies :: "attr_table \<Rightarrow> fint \<Rightarrow> addr \<Rightarrow> bool" where
  "copies es kv c \<longleftrightarrow> valid_keyval kv \<and> c \<noteq> null \<and> (\<exists>e. attr_lookup es kv = Some e \<and> copy_fn e = c)"

definition deletes :: "attr_table \<Rightarrow> fint \<Rightarrow> addr \<Rightarrow> bool" where
  "deletes es kv d \<longleftrightarrow> valid_keyval kv \<and> d \<noteq> null \<and> (\<exists>e. attr_lookup es kv = Some e \<and> delete_fn e = d)"

fun kept_by_process :: "commitment \<Rightarrow> 'w process \<Rightarrow> bool" where
  "kept_by_process (Copy_runs k kv c) s = copies (attr_table s) kv c"
| "kept_by_process (Delete_runs k kv d) s = deletes (attr_table s) kv d"
| "kept_by_process (Copy_10_runs kv c) s = copies (attr_table s) kv c"
| "kept_by_process (Delete_10_runs kv d) s = deletes (attr_table s) kv d"
| "kept_by_process (Op_runs code u) s \<longleftrightarrow> u \<noteq> null \<and> pool_target (op_pool s) (op_slot_of code) = Some u"
| "kept_by_process (Handler_runs k code u) s \<longleftrightarrow>
     u \<noteq> null \<and> code = handler_code k (handler_slot_of code) \<and>
     pool_target (handler_pool s) (handler_slot_of code) = Some u"
| "kept_by_process (Request_runs b q f c) s \<longleftrightarrow>
     (\<exists>x. grequests (boxes s) b = Some \<lparr>query_fn = q, free_fn = f, cancel_fn = c, gr_extra_state = x\<rparr>)"
| "kept_by_process (Datarep_runs b r w e) s \<longleftrightarrow>
     (\<exists>x. datareps (boxes s) b = Some \<lparr>read_fn = r, write_fn = w, extent_fn = e, dr_extra_state = x\<rparr>)"

section \<open>What is recorded is in force\<close>

lemma load_datarep_Inr: "load_datarep p h = Inr d \<longleftrightarrow> datareps h p = Some d"
  by (auto simp: load_datarep_def load_obj_def datareps_def split: option.splits block.splits box.splits)

lemma store_datarep:
  assumes "datareps h p = Some d"
  shows "store_obj p (Datarep_box d') h = Inr (h\<lparr>live := (live h)(p \<mapsto> Obj (Datarep_box d'))\<rparr>)"
  using assms by (auto simp: datareps_def store_obj_def split: option.splits block.splits box.splits)








section \<open>What the calls do\<close>

text \<open>The attribute table: a registration touches its own keyval only, whatever the callback.\<close>

lemma register_keeps:
  assumes "attr_inv es" and "valid_keyval kv" and "mpif_register_attr_callback L C kv kind callback es = (code, es')"
  shows "attr_inv es'" and "valid_keyval j \<Longrightarrow> j \<noteq> kv \<Longrightarrow> attr_lookup es' j = attr_lookup es j"
proof -
  let ?new = "\<lambda>i e. i < length es \<and> keyval e = kv \<and> es' = es[i := e] \<and>
      (keyval (es ! i) = kv \<or> keyval (es ! i) = MPI_KEYVAL_INVALID \<and> attr_lookup es kv = None)"
  have "es' = es \<or> (\<exists>i e. ?new i e)"
  proof (cases "mpif_predefined_callback L C callback")
    case Some
    with assms(3) show ?thesis by (simp add: mpif_register_attr_callback_def)
  next
    case user: None
    show ?thesis
    proof (cases "find_attr_entry es kv")
      case (Some i)
      then have "i < length es" "keyval (es ! i) = kv"
        using assms(1,2) by (simp_all add: find_attr_entry_Some)
      moreover have "es' = es[i := set_payload kind callback (es ! i)]"
        using assms(3) by (simp add: mpif_register_attr_callback_def user Some)
      ultimately show ?thesis by (metis keyval_set_payload)
    next
      case absent: None
      show ?thesis
      proof (cases "index_where (\<lambda>e. keyval e = MPI_KEYVAL_INVALID) es")
        case None
        with assms(3) show ?thesis
          by (simp add: mpif_register_attr_callback_def user absent claim_entry_eq)
      next
        case (Some i)
        let ?e = "\<lparr>keyval = kv, copy_fn = null, delete_fn = null\<rparr>"
        have i: "i < length es" "keyval (es ! i) = MPI_KEYVAL_INVALID"
          using Some by (simp_all add: index_where_Some)
        then have "es' = es[i := set_payload kind callback ?e]"
          using assms(3) by (simp add: mpif_register_attr_callback_def user absent claim_entry_eq Some)
        moreover have "keyval (set_payload kind callback ?e) = kv" "attr_lookup es kv = None"
          using absent by (simp_all add: attr_lookup_def)
        ultimately show ?thesis using i by blast
      qed
    qed
  qed
  then consider "es' = es" | i e where "?new i e"
    by blast
  then have "attr_inv es' \<and> (valid_keyval j \<longrightarrow> j \<noteq> kv \<longrightarrow> attr_lookup es' j = attr_lookup es j)"
  proof cases
    case 1
    with assms(1) show ?thesis by simp
  next
    case (2 i e)
    then have e: "i < length es" "keyval e = kv" "es' = es[i := e]"
      "keyval (es ! i) = kv \<or> keyval (es ! i) = MPI_KEYVAL_INVALID \<and> attr_lookup es kv = None"
      by blast+
    from attr_slot_update [OF assms(1) e(1) assms(2) e(2,4)] e(3) show ?thesis by simp
  qed
  then show "attr_inv es'" and "valid_keyval j \<Longrightarrow> j \<noteq> kv \<Longrightarrow> attr_lookup es' j = attr_lookup es j"
    by blast+
qed

definition valid_keyvals :: "'w create_keyval \<Rightarrow> bool" where
  "valid_keyvals M \<longleftrightarrow> (\<forall>pr name c d x w kv w'. M pr name c d x w = ((MPI_SUCCESS, kv), w') \<longrightarrow> valid_keyval kv)"

lemma create_keyval_keeps:
  assumes "attr_inv es" and "valid_keyvals M"
    and "create_keyval_body M L C pr name kc kd c d x (es, w) = ((e, kv), es', w')"
  shows "attr_inv es'" and "valid_keyval j \<Longrightarrow> j \<noteq> kv \<Longrightarrow> attr_lookup es' j = attr_lookup es j"
proof -
  obtain e0 kv1 w1 where m: "M pr name (attr_fn L C c kc) (attr_fn L C d kd) x w = ((e0, kv1), w1)"
    by (metis surj_pair)
  have "attr_inv es' \<and> (valid_keyval j \<longrightarrow> j \<noteq> kv \<longrightarrow> attr_lookup es' j = attr_lookup es j)"
  proof (cases "e0 = MPI_SUCCESS")
    case False
    with assms(1,3) m show ?thesis
      by (auto simp: create_keyval_body_def)
  next
    case True
    with m assms(2) have v: "valid_keyval kv1"
      unfolding valid_keyvals_def by blast
    obtain e1 es1 where r1: "mpif_register_attr_callback L C kv1 kc c es = (e1, es1)"
      by (metis surj_pair)
    obtain e2 es2 where r2: "mpif_register_attr_callback L C kv1 kd d es1 = (e2, es2)"
      by (metis surj_pair)
    have "kv = kv1" "es' = es1 \<or> es' = es2"
      using assms(3) m True r1 r2 by (auto simp: create_keyval_body_def split: if_splits)
    with register_keeps [OF assms(1) v r1] register_keeps [OF _ v r2] show ?thesis
      by metis
  qed
  then show "attr_inv es'" and "valid_keyval j \<Longrightarrow> j \<noteq> kv \<Longrightarrow> attr_lookup es' j = attr_lookup es j"
    by blast+
qed

text \<open>A successful creation records the procedures of the user, each whatever the other one is.\<close>

lemma recorded_kinds:
  assumes "kd \<in> {MPIF_ATTR_COMM_DELETE, MPIF_ATTR_TYPE_DELETE, MPIF_ATTR_WIN_DELETE, MPIF_ATTR_COMM_DELETE_10}"
    and "kc \<in> copy_kinds"
  shows "copy_fn (recorded kv (kc, c) old) = c" and "copy_fn (recorded kv (kd, d) (Some e)) = copy_fn e"
    and "delete_fn (recorded kv (kd, d) old) = d"
  using assms by (auto simp: recorded_def copy_kinds_def Let_def)

lemma create_keyval_registers:
  assumes "attr_inv es" and "valid_keyvals M"
    and "create_keyval_body M L C pr name kc kd c d x (es, w) = ((MPI_SUCCESS, kv), es', w')"
    and "kc \<in> copy_kinds"
    and "kd \<in> {MPIF_ATTR_COMM_DELETE, MPIF_ATTR_TYPE_DELETE, MPIF_ATTR_WIN_DELETE, MPIF_ATTR_COMM_DELETE_10}"
  shows "user_callback L c \<Longrightarrow> copies es' kv c" and "user_callback L d \<Longrightarrow> deletes es' kv d"
proof -
  obtain es1 where m: "M pr name (attr_fn L C c kc) (attr_fn L C d kd) x w = ((MPI_SUCCESS, kv), w')"
    and reg: "mpif_register_attr_callback L C kv kc c es = (MPI_SUCCESS, es1)"
      "mpif_register_attr_callback L C kv kd d es1 = (MPI_SUCCESS, es')"
    using assms(3) by (auto simp: create_keyval_body_def split: prod.splits if_splits)
  from m assms(2) have v: "valid_keyval kv"
    unfolding valid_keyvals_def by blast
  note first = register_lookup [OF assms(1) v reg(1)]
  note lookups = first(2) register_lookup(2) [OF first(1) v reg(2)] recorded_kinds [OF assms(5,4)]
  show "user_callback L c \<Longrightarrow> copies es' kv c" and "user_callback L d \<Longrightarrow> deletes es' kv d"
    using v by (simp_all add: copies_def deletes_def user_callback_def lookups)
qed

text \<open>The pools: a creation keeps the slots in use, and fills the one it kept.\<close>

lemma op_create_keeps:
  assumes "pool_inv MPIF_OP_SLOTS ss" and "mpi_op_create M B H pr large d commute (ss, w) = Inr (r, ss', w')"
  shows "pool_inv MPIF_OP_SLOTS ss'"
    and "pool_target ss i = Some u \<Longrightarrow> pool_target ss' i = Some u"
    and "out_ierror r = MPI_SUCCESS \<Longrightarrow> handed r = Some code \<Longrightarrow> pool_target ss' (op_slot_of code) = Some d"
proof -
  note step = op_create_step(1) [OF assms, where cs = "[]"] op_create_step(2-) [OF assms]
  show "pool_inv MPIF_OP_SLOTS ss'" by (rule step(2))
  show "pool_target ss i = Some u \<Longrightarrow> pool_target ss' i = Some u"
    using ops.create_keeps [OF assms(1), of i u "[(d, accepted r)]"] step(1) by simp
  show "out_ierror r = MPI_SUCCESS \<Longrightarrow> handed r = Some code \<Longrightarrow> pool_target ss' (op_slot_of code) = Some d"
    using ops.create_target [OF assms(1), of 0 "[(d, accepted r)]" "op_slot_of code"] step(1)
    by (simp add: kept_def)
qed

lemma errhandler_create_keeps:
  assumes "pool_inv MPIF_ERRHANDLER_SLOTS ss" and "create_errhandler M k H pr d (ss, w) = Inr (r, ss', w')"
  shows "pool_inv MPIF_ERRHANDLER_SLOTS ss'"
    and "pool_target ss i = Some u \<Longrightarrow> pool_target ss' i = Some u"
    and "out_ierror r = MPI_SUCCESS \<Longrightarrow> handed r = Some code \<Longrightarrow>
      code = handler_code k (handler_slot_of code) \<and> pool_target ss' (handler_slot_of code) = Some d"
proof -
  note step = create_errhandler_step(1) [OF assms, where cs = "[]"] create_errhandler_step(2-) [OF assms]
  show "pool_inv MPIF_ERRHANDLER_SLOTS ss'" by (rule step(2))
  show "pool_target ss i = Some u \<Longrightarrow> pool_target ss' i = Some u"
    using errhandlers.create_keeps [OF assms(1), of i u "[(d, accepted r)]"] step(1) by simp
  show "code = handler_code k (handler_slot_of code) \<and> pool_target ss' (handler_slot_of code) = Some d"
    if "out_ierror r = MPI_SUCCESS" "handed r = Some code"
    using errhandlers.create_target [OF assms(1), of 0 "[(d, accepted r)]" "handler_slot_of code"]
      step(1) step(3) [OF that(2)] that by (simp add: kept_def)
qed

text \<open>The heap of boxes: blocks there before stay, but for the extra state of the box a callback ran on.\<close>

lemma live_boxes:
  assumes "live h' p = live h p"
  shows "grequests h' p = grequests h p" and "datareps h' p = datareps h p"
  using assms by (simp_all add: grequests_def datareps_def)

lemma datareps_live: "datareps h p = Some d \<Longrightarrow> live h p = Some (Obj (Datarep_box d))"
  by (auto simp: datareps_def split: option.splits block.splits box.splits)

lemma grequest_start_keeps:
  assumes wf: "heap_wf h" and start: "mpi_grequest_start M H pr q f c x (h, w) = Inr (r, h', w')"
  shows "heap_wf h'" and "live h p \<noteq> None \<Longrightarrow> live h' p = live h p"
    and "gr_ierror r = MPI_SUCCESS \<Longrightarrow> gr_box r = Some b \<Longrightarrow>
      grequests h' b = Some \<lparr>query_fn = q, free_fn = f, cancel_fn = c, gr_extra_state = x\<rparr>"
proof -
  let ?g = "Obj (Grequest_box \<lparr>query_fn = q, free_fn = f, cancel_fn = c, gr_extra_state = x\<rparr>)"
  let ?n = "nallocs h"
  have fresh: "live h ?n = None" using wf by (rule heap_wf_fresh)
  have "h' = h\<lparr>nallocs := Suc ?n\<rparr> \<and> (gr_box r = None \<or> gr_ierror r \<noteq> MPI_SUCCESS) \<or>
      h' = h\<lparr>live := (live h)(?n \<mapsto> ?g), nallocs := Suc ?n\<rparr> \<and> gr_box r = Some ?n"
  proof (cases "oom h ?n")
    case True
    with start show ?thesis
      by (auto simp: mpi_grequest_start_def mpif_grequest_reserve_def alloc_block_def)
  next
    case False
    have undo: "(live h)(?n := None) = live h" using fresh by auto
    from False start show ?thesis
      by (auto simp: mpi_grequest_start_def mpif_grequest_reserve_def alloc_block_def Let_def outcome_simps
          mpif_grequest_cancel_def free_block_def undo split: prod.splits if_splits)
  qed
  then show "heap_wf h'" and "live h p \<noteq> None \<Longrightarrow> live h' p = live h p"
    and "gr_ierror r = MPI_SUCCESS \<Longrightarrow> gr_box r = Some b \<Longrightarrow>
      grequests h' b = Some \<lparr>query_fn = q, free_fn = f, cancel_fn = c, gr_extra_state = x\<rparr>"
    using wf fresh by (auto simp: heap_wf_def less_Suc_eq grequests_def split: if_splits)
qed

lemma strdup_block:
  assumes "mpif_strdup_f2c r off n h = Inr (p, h')"
  shows "\<exists>bs. p = nallocs h \<and> live h' = (live h)(p \<mapsto> Bytes bs) \<and> nallocs h' = Suc p \<and> oom h' = oom h"
  using assms
  by (auto simp: mpif_strdup_f2c_def dup_bytes_def malloc_bytes_def alloc_block_def store_bytes_def
      outcome_simps split: option.splits if_splits) (rule exI, rule refl)

lemma register_datarep_keeps:
  assumes wf: "heap_wf h" and reg: "mpi_register_datarep M L C pr large name len rd wr ex x (h, w) = Inr ((e, b), h', w')"
  shows "heap_wf h'" and "live h p \<noteq> None \<Longrightarrow> live h' p = live h p"
    and "e = MPI_SUCCESS \<Longrightarrow> b = Some d \<Longrightarrow>
      datareps h' d = Some \<lparr>read_fn = rd, write_fn = wr, extent_fn = ex, dr_extra_state = x\<rparr>"
proof -
  let ?d = "Obj (Datarep_box \<lparr>read_fn = rd, write_fn = wr, extent_fn = ex, dr_extra_state = x\<rparr>)"
  let ?n = "nallocs h"
  obtain q h1 where dup: "mpif_strdup_f2c name 0 len h = Inr (q, h1)"
    using reg by (auto simp: mpi_register_datarep_def outcome_simps)
  then obtain bs where q: "q = ?n" "live h1 = (live h)(?n \<mapsto> Bytes bs)" "nallocs h1 = Suc ?n" "oom h1 = oom h"
    using strdup_block by blast
  have fresh: "live h ?n = None" "live h (Suc ?n) = None"
    using wf by (auto simp: heap_wf_def dom_def)
  have "nallocs h' = Suc (Suc ?n) \<and>
      (b = None \<and> live h' = (live h)(?n \<mapsto> Bytes bs) \<or> e \<noteq> MPI_SUCCESS \<and> live h' = live h \<or>
       b = Some (Suc ?n) \<and> live h' = (live h)(Suc ?n \<mapsto> ?d))"
  proof (cases "oom h (Suc ?n)")
    case True
    with reg dup q show ?thesis
      by (auto simp: mpi_register_datarep_def mpif_datarep_reserve_def alloc_block_def)
  next
    case False
    let ?h2 = "h1\<lparr>live := (live h1)(Suc ?n \<mapsto> ?d), nallocs := Suc (Suc ?n)\<rparr>"
    let ?h3 = "h1\<lparr>nallocs := Suc (Suc ?n), live := (live h)(Suc ?n \<mapsto> ?d)\<rparr>"
    have res: "mpif_datarep_reserve rd wr ex x h1 = (Some (Suc ?n), ?h2)"
      using False by (simp add: mpif_datarep_reserve_def alloc_block_def q)
    have "(live h)(?n \<mapsto> Bytes bs, Suc ?n \<mapsto> ?d, ?n := None) = (live h)(Suc ?n \<mapsto> ?d)"
      using fresh by (auto simp: fun_eq_iff)
    then have free: "free_block (Some ?n) ?h2 = Inr ?h3"
      by (simp add: free_block_def q)
    have "(live h)(Suc ?n := None) = live h"
      using fresh by auto
    then have cancel: "mpif_datarep_cancel (Some (Suc ?n)) ?h3 = Inr (?h3\<lparr>live := live h\<rparr>)"
      by (simp add: mpif_datarep_cancel_def free_block_def)
    note body = reg [unfolded mpi_register_datarep_def prod.case dup bindE_Inr res option.case q(1) Let_def]
    obtain nm where nm: "load_cstring ?n ?h2 = Inr nm"
      using body by (cases "load_cstring ?n ?h2") simp_all
    show ?thesis
      using body unfolding nm bindE_Inr free
      by (auto simp: cancel split: prod.splits if_splits)
  qed
  then show "heap_wf h'" and "live h p \<noteq> None \<Longrightarrow> live h' p = live h p"
    and "e = MPI_SUCCESS \<Longrightarrow> b = Some d \<Longrightarrow>
      datareps h' d = Some \<lparr>read_fn = rd, write_fn = wr, extent_fn = ex, dr_extra_state = x\<rparr>"
    using wf fresh by (auto simp: heap_wf_def less_Suc_eq datareps_def split: if_splits)
qed

lemma grequest_state: "\<exists>x. g = g\<lparr>gr_extra_state := x\<rparr>" "\<exists>y. g\<lparr>gr_extra_state := x\<rparr> = g\<lparr>gr_extra_state := y\<rparr>"
  by (rule exI [of _ "gr_extra_state g"], simp) (rule exI, rule refl)

lemma datarep_state: "\<exists>x. d = d\<lparr>dr_extra_state := x\<rparr>" "\<exists>y. d\<lparr>dr_extra_state := x\<rparr> = d\<lparr>dr_extra_state := y\<rparr>"
  by (rule exI [of _ "dr_extra_state d"], simp) (rule exI, rule refl)

lemma serve_keeps:
  assumes wf: "heap_wf h" and serve: "serve F B e (h, m) = Inr (c, h', m')"
  shows "heap_wf h'" and "datareps h' = datareps h"
    and "e \<noteq> Free p \<Longrightarrow> grequests h p = Some g \<Longrightarrow> \<exists>x. grequests h' p = Some (g\<lparr>gr_extra_state := x\<rparr>)"
proof -
  let ?q = "case e of Query q _ \<Rightarrow> q | Cancel q _ \<Rightarrow> q | Free q \<Rightarrow> q"
  obtain g0 where l: "load_grequest ?q h = Inr g0"
    using serve by (cases e; cases "load_grequest ?q h") (auto simp: mpif_grequest_query_trampoline_def
        mpif_grequest_cancel_trampoline_def mpif_grequest_free_trampoline_def)
  then have g0: "grequests h ?q = Some g0" by (simp add: load_grequest_Inr)
  note live = grequests_live [OF g0]
  have "(\<exists>x. h' = h\<lparr>live := (live h)(?q \<mapsto> Obj (Grequest_box (g0\<lparr>gr_extra_state := x\<rparr>)))\<rparr>) \<or>
      e = Free ?q \<and> h' = h\<lparr>live := (live h)(?q := None)\<rparr>"
    using serve l store_grequest [OF g0]
    by (cases e) (auto simp: mpif_grequest_query_trampoline_def mpif_grequest_cancel_trampoline_def
        mpif_grequest_free_trampoline_def free_block_def split: prod.split_asm)
  moreover have "?q < nallocs h" using wf live by (auto simp: heap_wf_def)
  ultimately show "heap_wf h'" and "datareps h' = datareps h"
    and "e \<noteq> Free p \<Longrightarrow> grequests h p = Some g \<Longrightarrow> \<exists>x. grequests h' p = Some (g\<lparr>gr_extra_state := x\<rparr>)"
    using wf live g0 grequest_state(1) [of g]
    by (auto simp: grequest_state(2) heap_wf_def datareps_def fun_eq_iff)
qed

lemma serve_datarep_keeps:
  assumes wf: "heap_wf h" and serve: "serve_datarep F H e (h, m) = Inr (c, h', m')"
  shows "heap_wf h'" and "grequests h' = grequests h"
    and "datareps h p = Some d \<Longrightarrow> \<exists>x. datareps h' p = Some (d\<lparr>dr_extra_state := x\<rparr>)"
proof -
  let ?q = "case e of Read_data q _ _ _ _ _ \<Rightarrow> q | Write_data q _ _ _ _ _ \<Rightarrow> q | Read_data_c q _ _ _ _ _ \<Rightarrow> q
    | Write_data_c q _ _ _ _ _ \<Rightarrow> q | Extent_of q _ \<Rightarrow> q"
  note tramps = mpif_datarep_read_trampoline_def mpif_datarep_write_trampoline_def
    mpif_datarep_read_trampoline_c_def mpif_datarep_write_trampoline_c_def mpif_datarep_extent_trampoline_def
    call_datarep_conversion_def call_datarep_conversion_c_def
  obtain d0 where l: "load_datarep ?q h = Inr d0"
    using serve by (cases e; cases "load_datarep ?q h") (auto simp: tramps outcome_simps)
  then have d0: "datareps h ?q = Some d0" by (simp add: load_datarep_Inr)
  note live = datareps_live [OF d0]
  have "\<exists>x. h' = h\<lparr>live := (live h)(?q \<mapsto> Obj (Datarep_box (d0\<lparr>dr_extra_state := x\<rparr>)))\<rparr>"
    using serve l store_datarep [OF d0]
    by (cases e) (auto simp: tramps bindE_def split: sum.split_asm prod.split_asm)
  moreover have "?q < nallocs h" using wf live by (auto simp: heap_wf_def)
  ultimately show "heap_wf h'" and "grequests h' = grequests h"
    and "datareps h p = Some d \<Longrightarrow> \<exists>x. datareps h' p = Some (d\<lparr>dr_extra_state := x\<rparr>)"
    using wf live d0 datarep_state(1) [of d]
    by (auto simp: datarep_state(2) heap_wf_def grequests_def datareps_def fun_eq_iff)
qed

section \<open>The process keeps its commitments\<close>

definition process_ok :: "'w process \<Rightarrow> bool" where
  "process_ok s \<longleftrightarrow> attr_inv (attr_table s) \<and> pool_inv MPIF_OP_SLOTS (op_pool s) \<and>
     pool_inv MPIF_ERRHANDLER_SLOTS (handler_pool s) \<and> heap_wf (boxes s)"


text \<open>A call changes one part of the process only.\<close>

lemma exec_keyval:
  assumes "c = Create_keyval k pr cp d x \<or> c = Comm_create_keyval pr cp d y" and "process_exec E c s = Inr (a, s')"
  shows "\<exists>name kc kd z e kv es w. a = Keyval e kv \<and> s' = s\<lparr>attr_table := es, rest := w\<rparr> \<and>
    create_keyval_body (keyval_api E) (linked_at E) (abi_sentinels E) pr name kc kd cp d z (attr_table s, rest s) =
      ((e, kv), es, w) \<and>
    kc \<in> copy_kinds \<and>
    kd \<in> {MPIF_ATTR_COMM_DELETE, MPIF_ATTR_TYPE_DELETE, MPIF_ATTR_WIN_DELETE, MPIF_ATTR_COMM_DELETE_10}"
  using assms(1)
proof
  assume c: "c = Create_keyval k pr cp d x"
  have "copy_kind k \<in> copy_kinds"
    "delete_kind k \<in> {MPIF_ATTR_COMM_DELETE, MPIF_ATTR_TYPE_DELETE, MPIF_ATTR_WIN_DELETE, MPIF_ATTR_COMM_DELETE_10}"
    by (cases k; simp add: copy_kinds_def)+
  moreover obtain e kv es w where "create_keyval_body (keyval_api E) (linked_at E) (abi_sentinels E) pr
      (create_name k) (copy_kind k) (delete_kind k) cp d x (attr_table s, rest s) = ((e, kv), es, w)"
    by (metis surj_pair)
  moreover from this have "a = Keyval e kv" "s' = s\<lparr>attr_table := es, rest := w\<rparr>"
    using assms(2) c by (simp_all add: create_keyval_eq)
  ultimately show ?thesis by blast
next
  assume c: "c = Comm_create_keyval pr cp d y"
  obtain e kv es w where "create_keyval_body (keyval_api E) (linked_at E) (abi_sentinels E) pr ''Comm_create_keyval''
      MPIF_ATTR_COMM_COPY_10 MPIF_ATTR_COMM_DELETE_10 cp d (to_aint y) (attr_table s, rest s) = ((e, kv), es, w)"
    by (metis surj_pair)
  moreover from this have "a = Keyval e kv" "s' = s\<lparr>attr_table := es, rest := w\<rparr>"
    using assms(2) c by (simp_all add: mpi_keyval_create_def)
  moreover have "MPIF_ATTR_COMM_COPY_10 \<in> copy_kinds" by (simp add: copy_kinds_def)
  ultimately show ?thesis by blast
qed

lemma exec_keyval_keeps:
  assumes "valid_keyvals (keyval_api E)" and "process_ok s"
    and "c = Create_keyval k pr cp d x \<or> c = Comm_create_keyval pr cp d y" and "process_exec E c s = Inr (a, s')"
  shows "process_ok s' \<and> (kept_by_process m s \<longrightarrow> \<not> ends_commitment m c a \<longrightarrow> kept_by_process m s') \<and>
    (\<forall>e kv. a = Keyval e kv \<longrightarrow> e = MPI_SUCCESS \<longrightarrow>
       (user_callback (linked_at E) cp \<longrightarrow> copies (attr_table s') kv cp) \<and>
       (user_callback (linked_at E) d \<longrightarrow> deletes (attr_table s') kv d))"
proof -
  obtain name kc kd z e kv es w where a: "a = Keyval e kv" and s': "s' = s\<lparr>attr_table := es, rest := w\<rparr>"
    and body: "create_keyval_body (keyval_api E) (linked_at E) (abi_sentinels E) pr name kc kd cp d z
      (attr_table s, rest s) = ((e, kv), es, w)"
    and kinds: "kc \<in> copy_kinds"
      "kd \<in> {MPIF_ATTR_COMM_DELETE, MPIF_ATTR_TYPE_DELETE, MPIF_ATTR_WIN_DELETE, MPIF_ATTR_COMM_DELETE_10}"
    using exec_keyval [OF assms(3,4)] by blast
  have inv: "attr_inv (attr_table s)" using assms(2) by (simp add: process_ok_def)
  note keeps = create_keyval_keeps [OF inv assms(1) body]
  have "process_ok s'"
    using assms(2) keeps(1) by (simp add: process_ok_def s')
  moreover have "kept_by_process m s'" if "kept_by_process m s" "\<not> ends_commitment m c a"
    using that keeps(2) by (cases m) (auto simp: s' a copies_def deletes_def)
  moreover have "(user_callback (linked_at E) cp \<longrightarrow> copies es kv cp) \<and>
      (user_callback (linked_at E) d \<longrightarrow> deletes es kv d)" if "e = MPI_SUCCESS"
    using create_keyval_registers [OF inv assms(1) body [unfolded that] kinds] by blast
  ultimately show ?thesis
    by (simp add: a s')
qed

text \<open>Everything about one call: the invariant, the commitments there were, and the one it makes.\<close>

lemma process_exec_keeps:
  assumes "valid_keyvals (keyval_api E)" and "process_ok s" and "process_exec E c s = Inr (a, s')"
  shows "process_ok s' \<and> (kept_by_process m s \<longrightarrow> \<not> ends_commitment m c a \<longrightarrow> kept_by_process m s') \<and>
    (m \<in> commits (linked_at E) c a \<longrightarrow> kept_by_process m s')"
proof (cases c)
  case (Create_keyval k pr cp d x)
  with exec_keyval_keeps [OF assms(1,2) _ assms(3), of k pr cp d x] show ?thesis
    by (cases a) (auto simp: for_user_def split: if_splits)
next
  case (Comm_create_keyval pr cp d x)
  with exec_keyval_keeps [OF assms(1,2) _ assms(3), of _ pr cp d _ x] show ?thesis
    by (cases a) (auto simp: for_user_def split: if_splits)
next
  case (Op_create oc)
  then obtain r ss w where call: "mpi_op_create (op_fns E) (truth E) (conversion E) (call_profile oc) (call_large oc)
      (call_user oc) (call_commute oc) (op_pool s, rest s) = Inr (r, ss, w)"
    and r: "a = Operator r" "s' = s\<lparr>op_pool := ss, rest := w\<rparr>"
    using assms(3) by (auto simp: outcome_simps)
  have "pool_inv MPIF_OP_SLOTS (op_pool s)" using assms(2) by (simp add: process_ok_def)
  note keeps = op_create_keeps [OF this call]
  show ?thesis
    using assms(2) keeps by (cases m) (auto simp: process_ok_def r Op_create split: if_splits)
next
  case (Create_errhandler ec)
  then obtain r ss w where call: "create_errhandler (errhandler_fns E) (eh_class ec) (conversion E) (eh_profile ec)
      (eh_user ec) (handler_pool s, rest s) = Inr (r, ss, w)"
    and r: "a = Handler r" "s' = s\<lparr>handler_pool := ss, rest := w\<rparr>"
    using assms(3) by (auto simp: outcome_simps)
  have "pool_inv MPIF_ERRHANDLER_SLOTS (handler_pool s)" using assms(2) by (simp add: process_ok_def)
  note keeps = errhandler_create_keeps [OF this call]
  show ?thesis
    using assms(2) keeps by (cases m) (auto simp: process_ok_def r Create_errhandler split: if_splits)
next
  case (Grequest_start pr q f cn x)
  then obtain r h w where call: "mpi_grequest_start (grequest_api E) (conversion E) pr q f cn x (boxes s, rest s) =
      Inr (r, h, w)" and r: "a = Request_started r" "s' = s\<lparr>boxes := h, rest := w\<rparr>"
    using assms(3) by (auto simp: outcome_simps)
  have "heap_wf (boxes s)" using assms(2) by (simp add: process_ok_def)
  note keeps = grequest_start_keeps [OF this call]
  have "grequests (boxes s) p = Some g \<Longrightarrow> grequests h p = Some g"
    "datareps (boxes s) p = Some d \<Longrightarrow> datareps h p = Some d" for p g d
    using keeps(2) [of p] live_boxes [of h p "boxes s"] grequests_live datareps_live by fastforce+
  with assms(2) keeps(1,3) show ?thesis
    by (cases m) (auto simp: process_ok_def r Grequest_start split: if_splits)
next
  case (Register_datarep pr large name len rd wr ex x)
  then obtain e b h w where call: "mpi_register_datarep (datarep_api E) (linked_at E) (abi_sentinels E) pr large name
      len rd wr ex x (boxes s, rest s) = Inr ((e, b), h, w)"
    and r: "a = Representation e b" "s' = s\<lparr>boxes := h, rest := w\<rparr>"
    using assms(3) by (auto simp: outcome_simps)
  have "heap_wf (boxes s)" using assms(2) by (simp add: process_ok_def)
  note keeps = register_datarep_keeps [OF this call]
  have "grequests (boxes s) p = Some g \<Longrightarrow> grequests h p = Some g"
    "datareps (boxes s) p = Some d \<Longrightarrow> datareps h p = Some d" for p g d
    using keeps(2) [of p] live_boxes [of h p "boxes s"] grequests_live datareps_live by fastforce+
  with assms(2) keeps(1,3) show ?thesis
    by (cases m) (auto simp: process_ok_def r Register_datarep split: if_splits)
next
  case (On_request e)
  then obtain cd h w where call: "serve (request_procs E) (truth E) e (boxes s, rest s) = Inr (cd, h, w)"
    and r: "a = Returned cd" "s' = s\<lparr>boxes := h, rest := w\<rparr>"
    using assms(3) by (auto simp: outcome_simps)
  have "heap_wf (boxes s)" using assms(2) by (simp add: process_ok_def)
  note keeps = serve_keeps [OF this call]
  show ?thesis
    using assms(2) keeps(1,2) by (cases m) (auto simp: process_ok_def r On_request dest!: keeps(3))
next
  case (On_datarep e)
  then obtain cd h w where call: "serve_datarep (datarep_procs E) (conversion E) e (boxes s, rest s) = Inr (cd, h, w)"
    and r: "a = Returned cd" "s' = s\<lparr>boxes := h, rest := w\<rparr>"
    using assms(3) by (auto simp: outcome_simps)
  have "heap_wf (boxes s)" using assms(2) by (simp add: process_ok_def)
  note keeps = serve_datarep_keeps [OF this call]
  show ?thesis
    using assms(2) keeps(1,2) by (cases m) (auto simp: process_ok_def r On_datarep dest!: keeps(3))
qed

interpretation process: committed "\<lambda>s. valid_keyvals (keyval_api E) \<and> process_ok s" "process_exec E"
    kept_by_process ends_commitment for E
  by unfold_locales (use process_exec_keeps in blast)+











end
