(* ===== verification/Cdesc_Walk.thy ===== *)
theory Cdesc_Walk
  imports Abi "HOL-Library.Signed_Division"
begin

text \<open>
  \<open>src/mpif_cdesc.c\<close>: from a Fortran array descriptor, a count and a datatype, one derived datatype
  that describes where the first \<open>count\<close> elements of a non-contiguous array are. The MPI calls
  that build, measure and free datatypes are parameters with the laws of MPI's typemaps; the
  main result is that the typemap built is that of the elements in Fortran array element order.
\<close>

section \<open>Descriptors and counts\<close>

text \<open>
  A descriptor's dimensions are (extent, byte stride) pairs, the fastest varying first; its lower
  bounds are not used. Counts are signed 64-bit integers: a product out of range is undefined, so it
  is a fault, and so is a division by zero.
\<close>

record cdesc =
  base_addr :: addr
  elem_len :: int
  dims :: "(int \<times> int) list"

definition mul_count :: "int \<Rightarrow> int \<Rightarrow> fault + int" where
  "mul_count a b = (if - (2 ^ 63) \<le> a * b \<and> a * b < 2 ^ 63 then Inr (a * b) else Inl Overflow)"

definition div_count :: "int \<Rightarrow> int \<Rightarrow> fault + int" where
  "div_count a b = (if b = 0 then Inl Division_by_zero else Inr (a sdiv b))"

definition rem_count :: "int \<Rightarrow> int \<Rightarrow> fault + int" where
  "rem_count a b = (if b = 0 then Inl Division_by_zero else Inr (a smod b))"

lemma div_count_pos: "0 \<le> a \<Longrightarrow> 0 < b \<Longrightarrow> div_count a b = Inr (a div b)"
  by (cases "a = 0") (simp_all add: div_count_def signed_divide_int_def sgn_if)

lemma rem_count_pos: "0 \<le> a \<Longrightarrow> 0 < b \<Longrightarrow> rem_count a b = Inr (a mod b)"
  by (cases "a = 0") (simp_all add: rem_count_def signed_modulo_int_def sgn_if)

section \<open>The MPI calls\<close>

text \<open>Each returns an error code, what it stores through its output arguments, and MPI's state.\<close>

record 'w type_api =
  PMPI_Type_size_c :: "handle \<Rightarrow> 'w \<Rightarrow> fint \<times> int"
  PMPI_Type_get_extent_c :: "handle \<Rightarrow> 'w \<Rightarrow> fint \<times> int \<times> int"
  PMPI_Type_contiguous_c :: "int \<Rightarrow> handle \<Rightarrow> 'w \<Rightarrow> fint \<times> handle \<times> 'w"
  PMPI_Type_create_hvector_c :: "int \<Rightarrow> int \<Rightarrow> int \<Rightarrow> handle \<Rightarrow> 'w \<Rightarrow> fint \<times> handle \<times> 'w"
  PMPI_Type_commit :: "handle \<Rightarrow> 'w \<Rightarrow> fint \<times> handle \<times> 'w"
  PMPI_Type_free :: "handle \<Rightarrow> 'w \<Rightarrow> fint \<times> 'w"

section \<open>The walk\<close>

text \<open>Where a run of the loop ends: at the label \<open>fail\<close>, or behind the loop.\<close>

datatype 'w walked =
    Fail fint handle bool 'w
  | Walked bool handle bool 'w

text \<open>\<open>if (owned) PMPI_Type_free(&cur)\<close>\<close>

definition free_owned :: "'w type_api \<Rightarrow> bool \<Rightarrow> handle \<Rightarrow> 'w \<Rightarrow> 'w" where
  "free_owned T owned cur w = (if owned then snd (PMPI_Type_free T cur w) else w)"

fun walk_dims ::
    "'w type_api \<Rightarrow> int \<Rightarrow> (int \<times> int) list \<Rightarrow> handle \<Rightarrow> bool \<Rightarrow> int \<Rightarrow> int \<Rightarrow> bool \<Rightarrow> 'w \<Rightarrow>
     fault + 'w walked" where
  "walk_dims T count [] cur owned elems_per_cur bytes_per_cur dense w = Inr (Walked False cur owned w)"
| "walk_dims T count ((dim_extent, sm) # ds) cur owned elems_per_cur bytes_per_cur dense w =
     bindE (rem_count count elems_per_cur) (\<lambda>r.
       if r \<noteq> 0 then Inr (Fail MPI_ERR_ARG cur owned w)
       else bindE (div_count count elems_per_cur) (\<lambda>e.
         (let (extent, done) = (if e > dim_extent then (dim_extent, False) else (e, True));
              ((err, nxt, w), dense) =
                (if dense \<and> sm = bytes_per_cur
                 then (PMPI_Type_contiguous_c T extent cur w, dense)
                 else (PMPI_Type_create_hvector_c T extent 1 sm cur w, False))
          in if err \<noteq> MPI_SUCCESS then Inr (Fail err cur owned w)
             else
               (let w = free_owned T owned cur w
                in bindE (mul_count elems_per_cur dim_extent) (\<lambda>elems_per_cur.
                     bindE (mul_count sm dim_extent) (\<lambda>bytes_per_cur.
                       if done then Inr (Walked True nxt True w)
                       else walk_dims T count ds nxt True elems_per_cur bytes_per_cur dense w))))))"

text \<open>The result: the error code, and \<open>*newtype\<close> when it is written.\<close>

definition mpif_cdesc_create_datatype ::
    "'w type_api \<Rightarrow> cdesc \<Rightarrow> int \<Rightarrow> handle \<Rightarrow> 'w \<Rightarrow> fault + fint \<times> handle option \<times> 'w" where
  "mpif_cdesc_create_datatype T cdesc oldcount oldtype w =
     (let (err, sz) = PMPI_Type_size_c T oldtype w
      in if err \<noteq> MPI_SUCCESS then Inr (err, None, w)
         else if sz \<le> 0 \<or> elem_len cdesc smod sz \<noteq> 0 then Inr (MPI_ERR_ARG, None, w)
         else
           (let factor = elem_len cdesc sdiv sz
            in if factor > 1 \<and> oldcount smod factor \<noteq> 0 then Inr (MPI_ERR_ARG, None, w)
               else
                 (let count = (if factor > 1 then oldcount sdiv factor else oldcount);
                      (err, cur, owned, w) =
                        (if factor > 1
                         then (let (err, cur, w) = PMPI_Type_contiguous_c T factor oldtype w
                               in (err, cur, True, w))
                         else (MPI_SUCCESS, oldtype, False, w))
                  in if err \<noteq> MPI_SUCCESS then Inr (err, None, w)
                     else
                       bindE
                         (let (err, cur_lb, cur_extent) = PMPI_Type_get_extent_c T cur w
                          in if err \<noteq> MPI_SUCCESS then Inr (Fail err cur owned w)
                             else walk_dims T count (dims cdesc) cur owned 1 (elem_len cdesc)
                                    (cur_lb = 0 \<and> cur_extent = elem_len cdesc) w)
                         (\<lambda>r. case r of
                            Fail err cur owned w \<Rightarrow> Inr (err, None, free_owned T owned cur w)
                          | Walked done cur owned w \<Rightarrow>
                              if \<not> done then Inr (MPI_ERR_ARG, None, free_owned T owned cur w)
                              else (let (err, cur, w) = PMPI_Type_commit T cur w
                                    in if err \<noteq> MPI_SUCCESS
                                       then Inr (err, None, free_owned T owned cur w)
                                       else Inr (MPI_SUCCESS, Some cur, w))))))"

section \<open>Typemaps\<close>

text \<open>
  What a datatype describes: where its basic elements are, in order, and its lower bound and extent.
\<close>

record typemap =
  places :: "int list"
  tm_lb :: int
  tm_extent :: int

definition shift :: "int \<Rightarrow> int list \<Rightarrow> int list" where
  "shift d ps = map (\<lambda>p. p + d) ps"

definition copies :: "nat \<Rightarrow> int \<Rightarrow> int list \<Rightarrow> int list" where
  "copies n stride ps = concat (map (\<lambda>j. shift (int j * stride) ps) [0..<n])"

text \<open>
  What the code relies on of MPI's datatype calls (MPI-5.0 sections 5.1.2 and 5.1.7), for a function
  that tells the typemaps of the datatypes in existence. A constructor that succeeds adds one new
  datatype: \<open>MPI_Type_contiguous\<close> puts its copies at multiples of the old extent, and
  \<open>MPI_Type_create_hvector\<close> of blocks of one at multiples of the byte stride; one that fails adds
  nothing. Contiguous copies of a type that starts at 0 and is not empty start at 0 and end after
  as many extents. Commit leaves the type where it is; free removes it.
\<close>

definition extent_law :: "'w type_api \<Rightarrow> ('w \<Rightarrow> handle \<Rightarrow> typemap option) \<Rightarrow> bool" where
  "extent_law T tm \<longleftrightarrow>
     (\<forall>h w t lb extent. tm w h = Some t \<longrightarrow>
        PMPI_Type_get_extent_c T h w = (MPI_SUCCESS, lb, extent) \<longrightarrow> lb = tm_lb t \<and> extent = tm_extent t)"

definition contiguous_law :: "'w type_api \<Rightarrow> ('w \<Rightarrow> handle \<Rightarrow> typemap option) \<Rightarrow> bool" where
  "contiguous_law T tm \<longleftrightarrow>
     (\<forall>n h w t err h' w'. tm w h = Some t \<longrightarrow> PMPI_Type_contiguous_c T n h w = (err, h', w') \<longrightarrow>
        (if err = MPI_SUCCESS
         then 0 \<le> n \<and> tm w h' = None \<and>
           (\<exists>t'. tm w' = (tm w)(h' \<mapsto> t') \<and> places t' = copies (nat n) (tm_extent t) (places t) \<and>
              (tm_lb t = 0 \<and> 0 < n \<and> 0 \<le> tm_extent t \<longrightarrow> tm_lb t' = 0 \<and> tm_extent t' = n * tm_extent t))
         else tm w' = tm w))"

definition hvector_law :: "'w type_api \<Rightarrow> ('w \<Rightarrow> handle \<Rightarrow> typemap option) \<Rightarrow> bool" where
  "hvector_law T tm \<longleftrightarrow>
     (\<forall>n s h w t err h' w'. tm w h = Some t \<longrightarrow> PMPI_Type_create_hvector_c T n 1 s h w = (err, h', w') \<longrightarrow>
        (if err = MPI_SUCCESS
         then 0 \<le> n \<and> tm w h' = None \<and>
           (\<exists>t'. tm w' = (tm w)(h' \<mapsto> t') \<and> places t' = copies (nat n) s (places t))
         else tm w' = tm w))"

definition commit_law :: "'w type_api \<Rightarrow> ('w \<Rightarrow> handle \<Rightarrow> typemap option) \<Rightarrow> bool" where
  "commit_law T tm \<longleftrightarrow>
     (\<forall>h w t err h' w'. tm w h = Some t \<longrightarrow> PMPI_Type_commit T h w = (err, h', w') \<longrightarrow>
        h' = h \<and> tm w' = tm w)"

definition free_law :: "'w type_api \<Rightarrow> ('w \<Rightarrow> handle \<Rightarrow> typemap option) \<Rightarrow> bool" where
  "free_law T tm \<longleftrightarrow>
     (\<forall>h w t. tm w h = Some t \<longrightarrow> tm (snd (PMPI_Type_free T h w)) = (tm w)(h := None))"

definition type_laws :: "'w type_api \<Rightarrow> ('w \<Rightarrow> handle \<Rightarrow> typemap option) \<Rightarrow> bool" where
  "type_laws T tm \<longleftrightarrow>
     extent_law T tm \<and> contiguous_law T tm \<and> hvector_law T tm \<and> commit_law T tm \<and> free_law T tm"

lemma type_lawsD:
  assumes "type_laws T tm" and "tm w h = Some t"
  shows extent_lawD: "PMPI_Type_get_extent_c T h w = (MPI_SUCCESS, lb, extent) \<Longrightarrow>
      lb = tm_lb t \<and> extent = tm_extent t"
    and contiguous_lawD: "PMPI_Type_contiguous_c T n h w = (MPI_SUCCESS, h', w') \<Longrightarrow>
      0 \<le> n \<and> tm w h' = None \<and>
      (\<exists>t'. tm w' = (tm w)(h' \<mapsto> t') \<and> places t' = copies (nat n) (tm_extent t) (places t) \<and>
         (tm_lb t = 0 \<and> 0 < n \<and> 0 \<le> tm_extent t \<longrightarrow> tm_lb t' = 0 \<and> tm_extent t' = n * tm_extent t))"
    and contiguous_failD: "PMPI_Type_contiguous_c T n h w = (err, h', w') \<Longrightarrow> err \<noteq> MPI_SUCCESS \<Longrightarrow>
      tm w' = tm w"
    and hvector_lawD: "PMPI_Type_create_hvector_c T n 1 s h w = (MPI_SUCCESS, h', w') \<Longrightarrow>
      0 \<le> n \<and> tm w h' = None \<and>
      (\<exists>t'. tm w' = (tm w)(h' \<mapsto> t') \<and> places t' = copies (nat n) s (places t))"
    and hvector_failD: "PMPI_Type_create_hvector_c T n 1 s h w = (err, h', w') \<Longrightarrow> err \<noteq> MPI_SUCCESS \<Longrightarrow>
      tm w' = tm w"
    and commit_lawD: "PMPI_Type_commit T h w = (err, h', w') \<Longrightarrow> h' = h \<and> tm w' = tm w"
    and free_lawD: "tm (snd (PMPI_Type_free T h w)) = (tm w)(h := None)"
proof -
  from assms(1) have laws: "extent_law T tm" "contiguous_law T tm" "hvector_law T tm"
    "commit_law T tm" "free_law T tm" by (simp_all add: type_laws_def)
  show "PMPI_Type_get_extent_c T h w = (MPI_SUCCESS, lb, extent) \<Longrightarrow>
      lb = tm_lb t \<and> extent = tm_extent t"
    using laws(1) assms(2) unfolding extent_law_def by blast
  show "PMPI_Type_contiguous_c T n h w = (MPI_SUCCESS, h', w') \<Longrightarrow>
      0 \<le> n \<and> tm w h' = None \<and>
      (\<exists>t'. tm w' = (tm w)(h' \<mapsto> t') \<and> places t' = copies (nat n) (tm_extent t) (places t) \<and>
         (tm_lb t = 0 \<and> 0 < n \<and> 0 \<le> tm_extent t \<longrightarrow> tm_lb t' = 0 \<and> tm_extent t' = n * tm_extent t))"
    using laws(2) assms(2) unfolding contiguous_law_def by metis
  show "PMPI_Type_contiguous_c T n h w = (err, h', w') \<Longrightarrow> err \<noteq> MPI_SUCCESS \<Longrightarrow> tm w' = tm w"
    using laws(2) assms(2) unfolding contiguous_law_def by metis
  show "PMPI_Type_create_hvector_c T n 1 s h w = (MPI_SUCCESS, h', w') \<Longrightarrow>
      0 \<le> n \<and> tm w h' = None \<and>
      (\<exists>t'. tm w' = (tm w)(h' \<mapsto> t') \<and> places t' = copies (nat n) s (places t))"
    using laws(3) assms(2) unfolding hvector_law_def by metis
  show "PMPI_Type_create_hvector_c T n 1 s h w = (err, h', w') \<Longrightarrow> err \<noteq> MPI_SUCCESS \<Longrightarrow> tm w' = tm w"
    using laws(3) assms(2) unfolding hvector_law_def by metis
  show "PMPI_Type_commit T h w = (err, h', w') \<Longrightarrow> h' = h \<and> tm w' = tm w"
    using laws(4) assms(2) unfolding commit_law_def by metis
  show "tm (snd (PMPI_Type_free T h w)) = (tm w)(h := None)"
    using laws(5) assms(2) unfolding free_law_def by metis
qed

section \<open>Array element order\<close>

text \<open>Where the \<open>k\<close>-th element of the array is, from its first; the first subscript varies fastest.\<close>

fun element_offset :: "(int \<times> int) list \<Rightarrow> nat \<Rightarrow> int" where
  "element_offset [] k = 0"
| "element_offset ((extent, sm) # ds) k =
     int (k mod nat extent) * sm + element_offset ds (k div nat extent)"

fun elements :: "(int \<times> int) list \<Rightarrow> nat" where
  "elements [] = 1"
| "elements ((extent, sm) # ds) = nat extent * elements ds"

text \<open>The places of \<open>count\<close> elements whose basic elements are at \<open>ps\<close> within each.\<close>

definition section_places :: "(int \<times> int) list \<Rightarrow> nat \<Rightarrow> int list \<Rightarrow> int list" where
  "section_places ds count ps = concat (map (\<lambda>k. shift (element_offset ds k) ps) [0..<count])"

lemma shift_shift [simp]: "shift a (shift b ps) = shift (a + b) ps"
  by (simp add: shift_def algebra_simps)

lemma shift_0 [simp]: "shift 0 ps = ps"
  by (simp add: shift_def)

lemma shift_concat: "shift d (concat (map f ks)) = concat (map (\<lambda>k. shift d (f k)) ks)"
  by (simp add: shift_def map_concat o_def)

lemma upt_mult: "[0..<n * m] = concat (map (\<lambda>j. map (\<lambda>k. j * m + k) [0..<m]) [0..<n])"
proof (induction n)
  case 0
  then show ?case by simp
next
  case (Suc n)
  have "[0..<Suc n * m] = [0..<n * m] @ [n * m..<n * m + m]"
    using upt_add_eq_append [of 0 "n * m" m] by (simp add: add.commute)
  moreover have "[n * m..<n * m + m] = map (\<lambda>k. n * m + k) [0..<m]"
    by (rule nth_equalityI) simp_all
  ultimately show ?case using Suc by simp
qed

lemma offset_append:
  "element_offset (pre @ ds) k = element_offset pre k + element_offset ds (k div elements pre)"
  by (induction pre arbitrary: k) (auto simp: div_mult2_eq)

lemma offset_period: "element_offset pre (j * elements pre + k) = element_offset pre k"
proof (induction pre arbitrary: j k)
  case Nil
  then show ?case by simp
next
  case (Cons d pre)
  obtain e s where d: "d = (e, s)" by (cases d)
  show ?case
  proof (cases "nat e = 0")
    case True
    then show ?thesis by (simp add: d)
  next
    case False
    have eq: "j * (nat e * elements pre) + k = k + j * elements pre * nat e" by simp
    have "(j * (nat e * elements pre) + k) mod nat e = k mod nat e"
      unfolding eq by (rule mod_mult_self1)
    moreover have "(j * (nat e * elements pre) + k) div nat e = j * elements pre + k div nat e"
      unfolding eq using False by (rule div_mult_self1)
    ultimately show ?thesis by (simp only: d elements.simps element_offset.simps Cons.IH)
  qed
qed

lemma elements_append: "elements (pre @ ds) = elements pre * elements ds"
  by (induction pre) auto

lemma elements_pos: "\<forall>d \<in> set ds. 0 < fst d \<Longrightarrow> 0 < elements ds"
  by (induction ds) auto

lemma offset_0 [simp]: "element_offset ds 0 = 0"
  by (induction ds) auto

text \<open>One level of the walk: copies of the levels below are the next dimension's elements.\<close>

lemma copies_section:
  assumes "n \<le> nat extent"
  shows "copies n sm (section_places pre (elements pre) ps) =
    section_places (pre @ [(extent, sm)]) (n * elements pre) ps"
proof -
  let ?E = "elements pre"
  have off: "int j * sm + element_offset pre k = element_offset (pre @ [(extent, sm)]) (j * ?E + k)"
    if "j < n" "k < ?E" for j k
    using that assms by (simp add: offset_append offset_period)
  have "copies n sm (section_places pre ?E ps) =
      concat (map (\<lambda>j. concat (map (\<lambda>k. shift (int j * sm + element_offset pre k) ps) [0..<?E])) [0..<n])"
    by (simp add: copies_def section_places_def shift_concat)
  also have "\<dots> = concat (map (\<lambda>j. concat (map (\<lambda>k.
      shift (element_offset (pre @ [(extent, sm)]) (j * ?E + k)) ps) [0..<?E])) [0..<n])"
    by (intro arg_cong [where f = concat] map_cong refl) (simp only: off set_upt atLeastLessThan_iff)
  also have "\<dots> = section_places (pre @ [(extent, sm)]) (n * ?E) ps"
    by (simp add: section_places_def upt_mult concat_map_concat o_def)
  finally show ?thesis .
qed

text \<open>Elements within the first dimensions do not see the others.\<close>

lemma section_places_append:
  assumes "count \<le> elements pre"
  shows "section_places (pre @ ds) count ps = section_places pre count ps"
proof -
  have "element_offset (pre @ ds) k = element_offset pre k" if "k < count" for k
    using that assms by (simp add: offset_append)
  then show ?thesis
    unfolding section_places_def by (intro arg_cong [where f = concat] map_cong refl) simp
qed

section \<open>What the walk holds on to\<close>

text \<open>
  \<open>M\<close> are the datatypes that exist besides the walk's own: \<open>cur\<close> is one of them, or it is the one
  further datatype and not one of them.
\<close>

definition holding ::
    "('w \<Rightarrow> handle \<Rightarrow> typemap option) \<Rightarrow> (handle \<Rightarrow> typemap option) \<Rightarrow> handle \<Rightarrow> bool \<Rightarrow> typemap \<Rightarrow> 'w \<Rightarrow> bool" where
  "holding tm M cur owned t w \<longleftrightarrow>
     (if owned then M cur = None \<and> tm w = M(cur \<mapsto> t) else M cur = Some t \<and> tm w = M)"

lemma holding_cur: "holding tm M cur owned t w \<Longrightarrow> tm w cur = Some t"
  by (auto simp: holding_def split: if_splits)

lemma holding_free:
  assumes "type_laws T tm" and "holding tm M cur owned t w"
  shows "tm (free_owned T owned cur w) = M"
proof (cases owned)
  case True
  with free_lawD [OF assms(1) holding_cur [OF assms(2)]] assms(2) show ?thesis
    by (auto simp: free_owned_def holding_def fun_eq_iff)
next
  case False
  with assms(2) show ?thesis by (simp add: free_owned_def holding_def)
qed

text \<open>A constructor that succeeds, followed by freeing what it was built from.\<close>

lemma holding_next:
  assumes "type_laws T tm" and "holding tm M cur owned t w"
    and "tm w1 = (tm w)(nxt \<mapsto> t')" and "tm w nxt = None"
  shows "holding tm M nxt True t' (free_owned T owned cur w1)"
proof (cases owned)
  case True
  with assms(2-4) have ne: "nxt \<noteq> cur" and tm1: "tm w1 cur = Some t" and M: "M nxt = None" "M cur = None"
    by (auto simp: holding_def split: if_splits)
  have "tm (snd (PMPI_Type_free T cur w1)) = (tm w1)(cur := None)"
    by (rule free_lawD [OF assms(1) tm1])
  with True assms(2,3) ne M show ?thesis
    by (auto simp: holding_def free_owned_def fun_eq_iff)
next
  case False
  with assms(2-4) show ?thesis by (simp add: holding_def free_owned_def)
qed

text \<open>One level: which constructor is called, and what it leaves.\<close>

definition level ::
    "'w type_api \<Rightarrow> int \<Rightarrow> int \<Rightarrow> int \<Rightarrow> bool \<Rightarrow> handle \<Rightarrow> 'w \<Rightarrow> (fint \<times> handle \<times> 'w) \<times> bool" where
  "level T n sm bytes dense cur w =
     (if dense \<and> sm = bytes then (PMPI_Type_contiguous_c T n cur w, dense)
      else (PMPI_Type_create_hvector_c T n 1 sm cur w, False))"

lemma level_holding:
  assumes "type_laws T tm" and hold: "holding tm M cur owned t w"
    and "level T n sm bytes dense cur w = ((err, nxt, w1), dense')"
  shows "err \<noteq> MPI_SUCCESS \<Longrightarrow> holding tm M cur owned t w1"
    and "err = MPI_SUCCESS \<Longrightarrow> \<exists>t'. holding tm M nxt True t' (free_owned T owned cur w1) \<and> 0 \<le> n \<and>
      ((dense \<longrightarrow> tm_lb t = 0 \<and> tm_extent t = bytes \<and> 0 \<le> bytes) \<longrightarrow>
         places t' = copies (nat n) sm (places t) \<and>
         (dense' \<and> 0 < n \<longrightarrow> tm_lb t' = 0 \<and> tm_extent t' = n * sm \<and> 0 \<le> n * sm))"
proof -
  note cur = holding_cur [OF hold]
  show "holding tm M cur owned t w1" if "err \<noteq> MPI_SUCCESS"
  proof -
    have "tm w1 = tm w"
      using assms(3) that contiguous_failD [OF assms(1) cur, of n err nxt w1]
        hvector_failD [OF assms(1) cur, of n sm err nxt w1]
      by (auto simp: level_def split: if_splits)
    with hold show ?thesis by (simp add: holding_def)
  qed
  show "\<exists>t'. holding tm M nxt True t' (free_owned T owned cur w1) \<and> 0 \<le> n \<and>
      ((dense \<longrightarrow> tm_lb t = 0 \<and> tm_extent t = bytes \<and> 0 \<le> bytes) \<longrightarrow>
         places t' = copies (nat n) sm (places t) \<and>
         (dense' \<and> 0 < n \<longrightarrow> tm_lb t' = 0 \<and> tm_extent t' = n * sm \<and> 0 \<le> n * sm))"
    if "err = MPI_SUCCESS"
  proof (cases "dense \<and> sm = bytes")
    case True
    with assms(3) that have c: "PMPI_Type_contiguous_c T n cur w = (MPI_SUCCESS, nxt, w1)"
      and d: "dense' = dense"
      by (simp_all add: level_def)
    from contiguous_lawD [OF assms(1) cur c] obtain t' where
      n: "0 \<le> n" "tm w nxt = None" "tm w1 = (tm w)(nxt \<mapsto> t')"
      and t': "places t' = copies (nat n) (tm_extent t) (places t)"
        "tm_lb t = 0 \<and> 0 < n \<and> 0 \<le> tm_extent t \<longrightarrow> tm_lb t' = 0 \<and> tm_extent t' = n * tm_extent t"
      by blast
    have "holding tm M nxt True t' (free_owned T owned cur w1)"
      by (rule holding_next [OF assms(1) hold n(3,2)])
    with n(1) t' True d show ?thesis by (intro exI [of _ t']) auto
  next
    case False
    with assms(3) that have c: "PMPI_Type_create_hvector_c T n 1 sm cur w = (MPI_SUCCESS, nxt, w1)"
      and d: "\<not> dense'"
      by (auto simp: level_def)
    from hvector_lawD [OF assms(1) cur c] obtain t' where
      n: "0 \<le> n" "tm w nxt = None" "tm w1 = (tm w)(nxt \<mapsto> t')"
      and t': "places t' = copies (nat n) sm (places t)"
      by blast
    have "holding tm M nxt True t' (free_owned T owned cur w1)"
      by (rule holding_next [OF assms(1) hold n(3,2)])
    with n(1) t' d show ?thesis by (intro exI [of _ t']) auto
  qed
qed

lemma walk_dims_Cons:
  "walk_dims T count ((dim_extent, sm) # ds) cur owned E bytes dense w =
     bindE (rem_count count E) (\<lambda>r.
       if r \<noteq> 0 then Inr (Fail MPI_ERR_ARG cur owned w)
       else bindE (div_count count E) (\<lambda>e.
         (let n = (if e > dim_extent then dim_extent else e);
              ((err, nxt, w1), dense') = level T n sm bytes dense cur w
          in if err \<noteq> MPI_SUCCESS then Inr (Fail err cur owned w1)
             else bindE (mul_count E dim_extent) (\<lambda>E'. bindE (mul_count sm dim_extent) (\<lambda>bytes'.
                    if e \<le> dim_extent then Inr (Walked True nxt True (free_owned T owned cur w1))
                    else walk_dims T count ds nxt True E' bytes' dense' (free_owned T owned cur w1))))))"
  by (auto simp: level_def Let_def not_less intro!: arg_cong2 [where f = bindE] ext split: prod.split)

declare walk_dims.simps(2) [simp del]

lemma walk_holding:
  assumes "type_laws T tm"
  shows "holding tm M cur owned t w \<Longrightarrow> walk_dims T count ds cur owned E bytes dense w = Inr r \<Longrightarrow>
    case r of
      Fail err cur' owned' w' \<Rightarrow> err \<noteq> MPI_SUCCESS \<and> (\<exists>t'. holding tm M cur' owned' t' w')
    | Walked done cur' owned' w' \<Rightarrow> (\<exists>t'. holding tm M cur' owned' t' w') \<and> (done \<longrightarrow> owned')"
proof (induction ds arbitrary: cur owned t E bytes dense w)
  case Nil
  then show ?case by auto
next
  case (Cons d ds)
  obtain x sm where d: "d = (x, sm)" by (cases d)
  obtain rr where rr: "rem_count count E = Inr rr"
    using Cons.prems(2) by (auto simp: d walk_dims_Cons outcome_simps)
  show ?case
  proof (cases "rr = 0")
    case False
    with rr Cons.prems show ?thesis by (auto simp: d walk_dims_Cons)
  next
    case True
    with rr Cons.prems(2) obtain e where e: "div_count count E = Inr e"
      by (auto simp: d walk_dims_Cons outcome_simps)
    let ?n = "if e > x then x else e"
    obtain err nxt w1 dense' where l: "level T ?n sm bytes dense cur w = ((err, nxt, w1), dense')"
      by (cases "level T ?n sm bytes dense cur w") auto
    note lv = level_holding [OF assms Cons.prems(1) l]
    show ?thesis
    proof (cases "err = MPI_SUCCESS")
      case False
      with Cons.prems(2) rr True e l lv(1) show ?thesis by (auto simp: d walk_dims_Cons Let_def)
    next
      case ok: True
      with lv(2) obtain t' where h: "holding tm M nxt True t' (free_owned T owned cur w1)" by blast
      from Cons.prems(2) rr True e l ok obtain E' bytes' where
        "if e \<le> x then r = Walked True nxt True (free_owned T owned cur w1)
         else walk_dims T count ds nxt True E' bytes' dense' (free_owned T owned cur w1) = Inr r"
        by (auto simp: d walk_dims_Cons Let_def outcome_simps split: if_splits)
      with h Cons.IH [OF h] show ?thesis by (auto split: if_splits)
    qed
  qed
qed

lemma walk_places:
  assumes "type_laws T tm" and "0 \<le> count"
  shows "holding tm M cur owned t w \<Longrightarrow>
    walk_dims T count ds cur owned (int (elements pre)) bytes dense w = Inr (Walked True cur' owned' w') \<Longrightarrow>
    \<forall>d \<in> set (pre @ ds). 0 < fst d \<Longrightarrow>
    dense \<longrightarrow> tm_lb t = 0 \<and> tm_extent t = bytes \<and> 0 \<le> bytes \<Longrightarrow>
    places t = section_places pre (elements pre) ps \<Longrightarrow>
    \<exists>t'. holding tm M cur' owned' t' w' \<and> places t' = section_places (pre @ ds) (nat count) ps"
proof (induction ds arbitrary: pre cur owned t bytes dense w)
  case Nil
  then show ?case by simp
next
  case (Cons d ds)
  obtain x sm where d: "d = (x, sm)" by (cases d)
  let ?E = "elements pre"
  have Epos: "0 < ?E" using Cons.prems(3) by (intro elements_pos) simp
  have x: "0 < x" using Cons.prems(3) by (simp add: d)
  let ?e = "count div int ?E"
  let ?n = "if ?e > x then x else ?e"
  have rem: "rem_count count (int ?E) = Inr (count mod int ?E)" and
    div: "div_count count (int ?E) = Inr ?e"
    using assms(2) Epos by (simp_all add: rem_count_pos div_count_pos)
  obtain err nxt w1 dense' where l: "level T ?n sm bytes dense cur w = ((err, nxt, w1), dense')"
    by (cases "level T ?n sm bytes dense cur w") auto
  from Cons.prems(2) rem div l have r0: "count mod int ?E = 0" and ok: "err = MPI_SUCCESS"
    by (auto simp: d walk_dims_Cons Let_def split: if_splits)
  from level_holding(2) [OF assms(1) Cons.prems(1) l ok] Cons.prems(4) obtain t' where
    h: "holding tm M nxt True t' (free_owned T owned cur w1)" and n: "0 \<le> ?n"
    and t': "places t' = copies (nat ?n) sm (places t)"
      "dense' \<and> 0 < ?n \<longrightarrow> tm_lb t' = 0 \<and> tm_extent t' = ?n * sm \<and> 0 \<le> ?n * sm"
    by blast
  have places': "places t' = section_places (pre @ [(x, sm)]) (nat ?n * ?E) ps"
    using t'(1) Cons.prems(5) by (simp add: copies_section)
  show ?case
  proof (cases "?e \<le> x")
    case True
    with Cons.prems(2) rem div l r0 ok have r: "cur' = nxt" "owned' = True" "w' = free_owned T owned cur w1"
      by (auto simp: d walk_dims_Cons Let_def outcome_simps)
    have "?e * int ?E = count" using div_mult_mod_eq [of count "int ?E"] r0 by simp
    moreover have "nat (?e * int ?E) = nat ?e * ?E"
      using n True by (simp add: nat_mult_distrib)
    ultimately have "nat count = nat ?e * ?E" by simp
    moreover have "nat ?e * ?E \<le> elements (pre @ [(x, sm)])"
      using True x by (simp add: elements_append nat_mono)
    ultimately have "places t' = section_places (pre @ d # ds) (nat count) ps"
      using places' True section_places_append [of "nat count" "pre @ [(x, sm)]" ds ps] by (simp add: d)
    with h r show ?thesis by blast
  next
    case False
    with Cons.prems(2) rem div l r0 ok have
      "walk_dims T count ds nxt True (int ?E * x) (sm * x) dense' (free_owned T owned cur w1) =
        Inr (Walked True cur' owned' w')"
      by (auto simp: d walk_dims_Cons Let_def outcome_simps mul_count_def split: if_splits)
    moreover have "int ?E * x = int (elements (pre @ [(x, sm)]))"
      using x by (simp add: elements_append)
    ultimately have w: "walk_dims T count ds nxt True (int (elements (pre @ [(x, sm)]))) (sm * x) dense'
        (free_owned T owned cur w1) = Inr (Walked True cur' owned' w')" by simp
    have "places t' = section_places (pre @ [(x, sm)]) (elements (pre @ [(x, sm)])) ps"
      using places' False x by (simp add: elements_append mult.commute)
    moreover have "dense' \<longrightarrow> tm_lb t' = 0 \<and> tm_extent t' = sm * x \<and> 0 \<le> sm * x"
      using t'(2) False x by (simp add: mult.commute)
    ultimately show ?thesis
      using Cons.IH [OF h w] Cons.prems(3) by (simp add: d)
  qed
qed

section \<open>The whole function\<close>

text \<open>The base type, one per element of the descriptor, and how many elements are asked for.\<close>

definition cdesc_factor :: "cdesc \<Rightarrow> int \<Rightarrow> int" where
  "cdesc_factor cdesc sz = elem_len cdesc div sz"

definition cdesc_count :: "int \<Rightarrow> int \<Rightarrow> int" where
  "cdesc_count factor oldcount = (if factor > 1 then oldcount div factor else oldcount)"

definition base_places :: "int \<Rightarrow> typemap \<Rightarrow> int list" where
  "base_places factor t = (if factor > 1 then copies (nat factor) (tm_extent t) (places t) else places t)"

lemma smod_pos: "0 \<le> a \<Longrightarrow> 0 < b \<Longrightarrow> a smod b = (a mod b :: int)"
  using rem_count_pos [of a b] by (simp add: rem_count_def)

lemma sdiv_pos: "0 \<le> a \<Longrightarrow> 0 < b \<Longrightarrow> a sdiv b = (a div b :: int)"
  using div_count_pos [of a b] by (simp add: div_count_def)

text \<open>The base type: the datatype itself, or as many copies as make up one element.\<close>

definition base_type ::
    "'w type_api \<Rightarrow> int \<Rightarrow> handle \<Rightarrow> 'w \<Rightarrow> fint \<times> handle \<times> bool \<times> 'w" where
  "base_type T factor oldtype w =
     (if factor > 1
      then (let (err, cur, w) = PMPI_Type_contiguous_c T factor oldtype w in (err, cur, True, w))
      else (MPI_SUCCESS, oldtype, False, w))"

definition seeded_walk ::
    "'w type_api \<Rightarrow> cdesc \<Rightarrow> int \<Rightarrow> handle \<Rightarrow> bool \<Rightarrow> 'w \<Rightarrow> fault + 'w walked" where
  "seeded_walk T cdesc count cur owned w =
     (let (err, cur_lb, cur_extent) = PMPI_Type_get_extent_c T cur w
      in if err \<noteq> MPI_SUCCESS then Inr (Fail err cur owned w)
         else walk_dims T count (dims cdesc) cur owned 1 (elem_len cdesc)
                (cur_lb = 0 \<and> cur_extent = elem_len cdesc) w)"

definition finish_walk ::
    "'w type_api \<Rightarrow> 'w walked \<Rightarrow> fault + fint \<times> handle option \<times> 'w" where
  "finish_walk T r =
     (case r of
        Fail err cur owned w \<Rightarrow> Inr (err, None, free_owned T owned cur w)
      | Walked done cur owned w \<Rightarrow>
          if \<not> done then Inr (MPI_ERR_ARG, None, free_owned T owned cur w)
          else (let (err, cur, w) = PMPI_Type_commit T cur w
                in if err \<noteq> MPI_SUCCESS then Inr (err, None, free_owned T owned cur w)
                   else Inr (MPI_SUCCESS, Some cur, w)))"

text \<open>The code, once its arguments have been checked.\<close>

lemma create_datatype_eq:
  assumes "PMPI_Type_size_c T oldtype w = (MPI_SUCCESS, sz)"
    and "0 < sz" and "0 \<le> elem_len cdesc" and "elem_len cdesc mod sz = 0" and "0 \<le> oldcount"
  shows "mpif_cdesc_create_datatype T cdesc oldcount oldtype w =
    (let factor = cdesc_factor cdesc sz
     in if factor > 1 \<and> oldcount mod factor \<noteq> 0 then Inr (MPI_ERR_ARG, None, w)
        else (let (err, cur, owned, w) = base_type T factor oldtype w
              in if err \<noteq> MPI_SUCCESS then Inr (err, None, w)
                 else bindE (seeded_walk T cdesc (cdesc_count factor oldcount) cur owned w) (finish_walk T)))"
proof -
  have "elem_len cdesc smod sz = 0" "elem_len cdesc sdiv sz = cdesc_factor cdesc sz"
    using assms by (simp_all add: smod_pos sdiv_pos cdesc_factor_def)
  moreover have "1 < f \<Longrightarrow> oldcount smod f = oldcount mod f" "1 < f \<Longrightarrow> oldcount sdiv f = oldcount div f" for f
    using assms(5) by (simp_all add: smod_pos sdiv_pos)
  ultimately show ?thesis
    using assms(1,2)
    by (auto simp: mpif_cdesc_create_datatype_def base_type_def seeded_walk_def finish_walk_def [abs_def]
        cdesc_count_def Let_def split: prod.split)
qed

lemma create_datatype_reject:
  assumes "PMPI_Type_size_c T oldtype w = (err, sz)"
    and "err \<noteq> MPI_SUCCESS \<or> sz \<le> 0 \<or> elem_len cdesc smod sz \<noteq> 0"
  shows "mpif_cdesc_create_datatype T cdesc oldcount oldtype w =
    Inr (if err \<noteq> MPI_SUCCESS then err else MPI_ERR_ARG, None, w)"
  using assms by (auto simp: mpif_cdesc_create_datatype_def)

lemma base_type_holding:
  assumes "type_laws T tm" and "tm w oldtype = Some t0" and "base_type T factor oldtype w = (err, cur, owned, w1)"
  shows "err \<noteq> MPI_SUCCESS \<Longrightarrow> tm w1 = tm w"
    and "err = MPI_SUCCESS \<Longrightarrow> \<exists>t. holding tm (tm w) cur owned t w1 \<and> places t = base_places factor t0"
proof -
  show "tm w1 = tm w" if "err \<noteq> MPI_SUCCESS"
    using assms(3) that contiguous_failD [OF assms(1,2), of factor err cur w1]
    by (auto simp: base_type_def split: if_splits prod.splits)
  show "\<exists>t. holding tm (tm w) cur owned t w1 \<and> places t = base_places factor t0" if "err = MPI_SUCCESS"
  proof (cases "factor > 1")
    case True
    with assms(3) that have "PMPI_Type_contiguous_c T factor oldtype w = (MPI_SUCCESS, cur, w1)" "owned"
      by (auto simp: base_type_def split: prod.splits)
    with contiguous_lawD [OF assms(1,2) this(1)] True show ?thesis
      by (auto simp: holding_def base_places_def)
  next
    case False
    with assms(2,3) show ?thesis by (auto simp: base_type_def holding_def base_places_def)
  qed
qed

lemma finish_walk_holding:
  assumes "type_laws T tm" and "finish_walk T r = Inr (err, new, w')"
    and "case r of
      Fail e cur' owned' w1 \<Rightarrow> e \<noteq> MPI_SUCCESS \<and> (\<exists>t'. holding tm M cur' owned' t' w1)
    | Walked done cur' owned' w1 \<Rightarrow> (\<exists>t'. holding tm M cur' owned' t' w1) \<and> (done \<longrightarrow> owned')"
  shows "case new of
      None \<Rightarrow> err \<noteq> MPI_SUCCESS \<and> tm w' = M
    | Some h \<Rightarrow> err = MPI_SUCCESS \<and>
        (\<exists>w1 t. r = Walked True h True w1 \<and> holding tm M h True t w1 \<and>
          M h = None \<and> tm w' = M(h \<mapsto> t))"
proof (cases r)
  case (Fail e cur owned w1)
  with assms show ?thesis by (auto simp: finish_walk_def holding_free)
next
  case (Walked fin cur owned w1)
  with assms(3) obtain t where h: "holding tm M cur owned t w1" and o: "fin \<longrightarrow> owned" by auto
  show ?thesis
  proof (cases fin)
    case False
    with assms(2) Walked h show ?thesis by (auto simp: finish_walk_def holding_free [OF assms(1)])
  next
    case True
    obtain e cur1 w2 where c: "PMPI_Type_commit T cur w1 = (e, cur1, w2)"
      by (cases "PMPI_Type_commit T cur w1") auto
    with commit_lawD [OF assms(1) holding_cur [OF h]] have same: "cur1 = cur" "tm w2 = tm w1" by auto
    from True o have owned: "owned = True" by simp
    with h same have h2: "holding tm M cur True t w2" by (simp add: holding_def)
    note freed = holding_free [OF assms(1) h2]
    from h2 have M: "M cur = None" "tm w2 = M(cur \<mapsto> t)" by (simp_all add: holding_def)
    show ?thesis
    proof (cases "e = MPI_SUCCESS")
      case ok: True
      with True assms(2) Walked c same owned have "new = Some cur" "err = MPI_SUCCESS" "w' = w2"
        by (auto simp: finish_walk_def)
      with True Walked owned h M show ?thesis by auto
    next
      case False
      with True assms(2) Walked c same owned freed show ?thesis by (auto simp: finish_walk_def)
    qed
  qed
qed

lemma seeded_walk_holding:
  assumes "type_laws T tm" and "holding tm M cur owned t w" and "seeded_walk T cdesc count cur owned w = Inr r"
  shows "case r of
      Fail e cur' owned' w1 \<Rightarrow> e \<noteq> MPI_SUCCESS \<and> (\<exists>t'. holding tm M cur' owned' t' w1)
    | Walked done cur' owned' w1 \<Rightarrow> (\<exists>t'. holding tm M cur' owned' t' w1) \<and> (done \<longrightarrow> owned')"
  using assms(2,3) walk_holding [OF assms(1,2)]
  by (auto simp: seeded_walk_def split: prod.splits if_splits)

text \<open>Every path through the function, with what it leaves of MPI's datatypes.\<close>

lemma create_datatype_holding:
  assumes "type_laws T tm" and "tm w oldtype = Some t0"
    and "mpif_cdesc_create_datatype T cdesc oldcount oldtype w = Inr (err, new, w')"
  shows "case new of
      None \<Rightarrow> err \<noteq> MPI_SUCCESS \<and> tm w' = tm w
    | Some h \<Rightarrow> err = MPI_SUCCESS \<and> tm w h = None \<and> (\<exists>t. tm w' = (tm w)(h \<mapsto> t))"
proof -
  obtain e sz where sz: "PMPI_Type_size_c T oldtype w = (e, sz)" by (cases "PMPI_Type_size_c T oldtype w")
  show ?thesis
  proof (cases "e \<noteq> MPI_SUCCESS \<or> sz \<le> 0 \<or> elem_len cdesc smod sz \<noteq> 0")
    case True
    with create_datatype_reject [OF sz True] assms(3) show ?thesis by (auto split: if_splits)
  next
    case False
    let ?f = "elem_len cdesc sdiv sz"
    define count where "count = (if ?f > 1 then oldcount sdiv ?f else oldcount)"
    obtain e1 cur owned w1 where b: "base_type T ?f oldtype w = (e1, cur, owned, w1)"
      by (cases "base_type T ?f oldtype w") auto
    note bh = base_type_holding [OF assms(1,2) b]
    have eq: "mpif_cdesc_create_datatype T cdesc oldcount oldtype w =
        (if ?f > 1 \<and> oldcount smod ?f \<noteq> 0 then Inr (MPI_ERR_ARG, None, w)
         else if e1 \<noteq> MPI_SUCCESS then Inr (e1, None, w1)
         else bindE (seeded_walk T cdesc count cur owned w1) (finish_walk T))"
      using False sz b
      by (auto simp: mpif_cdesc_create_datatype_def base_type_def seeded_walk_def
          finish_walk_def [abs_def] Let_def count_def split: prod.splits if_splits)
    show ?thesis
    proof (cases "?f > 1 \<and> oldcount smod ?f \<noteq> 0")
      case True
      with assms(3) eq show ?thesis by auto
    next
      case nofrac: False
      show ?thesis
      proof (cases "e1 = MPI_SUCCESS")
        case False
        with assms(3) eq nofrac bh(1) show ?thesis by auto
      next
        case True
        with assms(3) eq nofrac have
          "bindE (seeded_walk T cdesc count cur owned w1) (finish_walk T) = Inr (err, new, w')"
          by (simp split: if_splits)
        then obtain r where r: "seeded_walk T cdesc count cur owned w1 = Inr r"
          "finish_walk T r = Inr (err, new, w')" by (auto simp: bindE_eq_Inr)
        from bh(2) [OF True] obtain t where h: "holding tm (tm w) cur owned t w1" by blast
        from finish_walk_holding [OF assms(1) r(2) seeded_walk_holding [OF assms(1) h r(1)]]
        show ?thesis by (auto split: option.splits)
      qed
    qed
  qed
qed

lemma create_datatype_places:
  assumes "type_laws T tm" and "tm w oldtype = Some t0"
    and sz: "PMPI_Type_size_c T oldtype w = (MPI_SUCCESS, sz)"
    and ds: "\<forall>d \<in> set (dims cdesc). 0 < fst d" and "0 \<le> elem_len cdesc" and "0 \<le> oldcount"
    and res: "mpif_cdesc_create_datatype T cdesc oldcount oldtype w = Inr (err, Some h, w')"
  shows "\<exists>t. tm w' = (tm w)(h \<mapsto> t) \<and>
    places t = section_places (dims cdesc) (nat (cdesc_count (cdesc_factor cdesc sz) oldcount))
      (base_places (cdesc_factor cdesc sz) t0)"
proof -
  let ?f = "cdesc_factor cdesc sz"
  have szp: "0 < sz" and "elem_len cdesc smod sz = 0"
    using res create_datatype_reject [OF sz, of cdesc oldcount] by (auto simp: not_le [symmetric])
  then have mod: "elem_len cdesc mod sz = 0" using assms(5) by (simp add: smod_pos)
  note eq = create_datatype_eq [OF sz szp assms(5) mod assms(6), unfolded Let_def]
  obtain e1 cur owned w1 where b: "base_type T ?f oldtype w = (e1, cur, owned, w1)"
    by (cases "base_type T ?f oldtype w") auto
  from res have ok: "e1 = MPI_SUCCESS" and
    "bindE (seeded_walk T cdesc (cdesc_count ?f oldcount) cur owned w1) (finish_walk T) = Inr (err, Some h, w')"
    unfolding eq b by (auto split: if_splits)
  then obtain r where r: "seeded_walk T cdesc (cdesc_count ?f oldcount) cur owned w1 = Inr r"
    "finish_walk T r = Inr (err, Some h, w')" by (auto simp: bindE_eq_Inr)
  from base_type_holding(2) [OF assms(1,2) b ok] obtain t where
    hold: "holding tm (tm w) cur owned t w1" and base: "places t = base_places ?f t0" by blast
  from finish_walk_holding [OF assms(1) r(2) seeded_walk_holding [OF assms(1) hold r(1)]]
  obtain w2 t2 where fin: "r = Walked True h True w2" "holding tm (tm w) h True t2 w2"
    "tm w' = (tm w)(h \<mapsto> t2)" by auto
  obtain e lb x where ex: "PMPI_Type_get_extent_c T cur w1 = (e, lb, x)"
    by (cases "PMPI_Type_get_extent_c T cur w1") auto
  from r(1) fin(1) ex have e: "e = MPI_SUCCESS" and
    walk: "walk_dims T (cdesc_count ?f oldcount) (dims cdesc) cur owned (int (elements [])) (elem_len cdesc)
      (lb = 0 \<and> x = elem_len cdesc) w1 = Inr (Walked True h True w2)"
    by (auto simp: seeded_walk_def split: if_splits)
  from extent_lawD [OF assms(1) holding_cur [OF hold]] ex e
  have dense: "(lb = 0 \<and> x = elem_len cdesc) \<longrightarrow>
      tm_lb t = 0 \<and> tm_extent t = elem_len cdesc \<and> 0 \<le> elem_len cdesc"
    using assms(5) by auto
  have count: "0 \<le> cdesc_count ?f oldcount"
    using assms(6) by (auto simp: cdesc_count_def pos_imp_zdiv_nonneg_iff)
  have "places t = section_places [] (elements []) (base_places ?f t0)"
    by (simp add: base section_places_def)
  from walk_places [OF assms(1) count hold walk _ dense this] ds
  obtain t3 where "holding tm (tm w) h True t3 w2"
    "places t3 = section_places (dims cdesc) (nat (cdesc_count ?f oldcount)) (base_places ?f t0)"
    by auto
  moreover from this(1) fin(2) have "t3 = t2" by (metis holding_cur option.inject)
  ultimately show ?thesis using fin(3) by blast
qed

section \<open>When it succeeds\<close>

text \<open>Whether the first \<open>count\<close> elements make up whole rows of all dimensions but the last used.\<close>

fun describable :: "(int \<times> int) list \<Rightarrow> int \<Rightarrow> bool" where
  "describable [] count = False"
| "describable ((extent, sm) # ds) count \<longleftrightarrow>
     count \<le> extent \<or> count mod extent = 0 \<and> describable ds (count div extent)"

text \<open>Array sizes and strides within an \<open>MPI_Count\<close>.\<close>

definition fits :: "(int \<times> int) list \<Rightarrow> bool" where
  "fits ds \<longleftrightarrow> int (elements ds) < 2 ^ 63 \<and> (\<forall>(extent, sm) \<in> set ds. \<bar>sm * extent\<bar> < 2 ^ 63)"

text \<open>An MPI whose datatype calls succeed.\<close>

definition reliable :: "'w type_api \<Rightarrow> bool" where
  "reliable T \<longleftrightarrow>
     (\<forall>n h w. 0 \<le> n \<longrightarrow> fst (PMPI_Type_contiguous_c T n h w) = MPI_SUCCESS) \<and>
     (\<forall>n s h w. 0 \<le> n \<longrightarrow> fst (PMPI_Type_create_hvector_c T n 1 s h w) = MPI_SUCCESS) \<and>
     (\<forall>h w. fst (PMPI_Type_get_extent_c T h w) = MPI_SUCCESS) \<and>
     (\<forall>h w. fst (PMPI_Type_commit T h w) = MPI_SUCCESS)"

lemma reliable_level:
  "reliable T \<Longrightarrow> 0 \<le> n \<Longrightarrow> \<exists>nxt w1 dense'. level T n sm bytes dense cur w = ((MPI_SUCCESS, nxt, w1), dense')"
  unfolding reliable_def level_def by (metis (no_types, lifting) prod.collapse)

lemma walk_complete:
  assumes "reliable T" and "0 \<le> count"
  shows "\<forall>d \<in> set (pre @ ds). 0 < fst d \<Longrightarrow> fits (pre @ ds) \<Longrightarrow>
    \<exists>r. walk_dims T count ds cur owned (int (elements pre)) bytes dense w = Inr r \<and>
      (case r of
         Fail e _ _ _ \<Rightarrow> e = MPI_ERR_ARG \<and>
           \<not> (count mod int (elements pre) = 0 \<and> describable ds (count div int (elements pre)))
       | Walked d _ _ _ \<Rightarrow>
           d = (count mod int (elements pre) = 0 \<and> describable ds (count div int (elements pre))))"
proof (induction ds arbitrary: pre cur owned bytes dense w)
  case Nil
  then show ?case by simp
next
  case (Cons d ds)
  obtain x sm where d: "d = (x, sm)" by (cases d)
  let ?E = "int (elements pre)"
  have E: "0 < ?E" using Cons.prems(1) elements_pos [of pre] by simp
  have x: "0 < x" using Cons.prems(1) by (simp add: d)
  let ?e = "count div ?E"
  have e0: "0 \<le> ?e" using assms(2) E by (simp add: pos_imp_zdiv_nonneg_iff)
  have rem: "rem_count count ?E = Inr (count mod ?E)" and div: "div_count count ?E = Inr ?e"
    using assms(2) E by (simp_all add: rem_count_pos div_count_pos)
  let ?n = "if ?e > x then x else ?e"
  have n: "0 \<le> ?n" using e0 x by simp
  obtain nxt w1 dense' where l: "level T ?n sm bytes dense cur w = ((MPI_SUCCESS, nxt, w1), dense')"
    using reliable_level [OF assms(1) n, of sm bytes dense cur w] by metis
  have "0 < elements ds" using Cons.prems(1) by (intro elements_pos) simp
  then have "?E * x \<le> int (elements (pre @ d # ds))"
    using x E by (simp add: d elements_append mult_le_cancel_left1)
  moreover have "int (elements (pre @ d # ds)) < 2 ^ 63"
    using Cons.prems(2) unfolding fits_def by blast
  ultimately have "?E * x < 2 ^ 63" by (rule le_less_trans)
  moreover have "0 \<le> ?E * x" using E x by simp
  ultimately have mulE: "mul_count ?E x = Inr (?E * x)"
    unfolding mul_count_def by (intro if_P conjI) linarith+
  have "\<bar>sm * x\<bar> < 2 ^ 63" using Cons.prems(2) by (simp add: fits_def d)
  then have mulsm: "mul_count sm x = Inr (sm * x)" by (simp add: mul_count_def abs_less_iff)
  show ?case
  proof (cases "count mod ?E = 0")
    case False
    then show ?thesis by (simp add: d walk_dims_Cons rem)
  next
    case True
    show ?thesis
    proof (cases "?e \<le> x")
      case le: True
      with True l show ?thesis by (simp add: d walk_dims_Cons rem div Let_def mulE mulsm)
    next
      case False
      have E': "int (elements (pre @ [(x, sm)])) = ?E * x" using x by (simp add: elements_append)
      have "count mod (?E * x) = ?E * (?e mod x)" "count div (?E * x) = ?e div x"
        using True E x by (simp_all add: zmod_zmult2_eq zdiv_zmult2_eq)
      with E E' have next_iff: "(count mod int (elements (pre @ [(x, sm)])) = 0 \<and>
          describable ds (count div int (elements (pre @ [(x, sm)])))) =
          (?e mod x = 0 \<and> describable ds (?e div x))" by simp
      have P: "(count mod ?E = 0 \<and> describable (d # ds) ?e) =
          (count mod int (elements (pre @ [(x, sm)])) = 0 \<and>
           describable ds (count div int (elements (pre @ [(x, sm)]))))"
        unfolding next_iff using True False by (simp add: d)
      have W: "walk_dims T count (d # ds) cur owned ?E bytes dense w =
          walk_dims T count ds nxt True (int (elements (pre @ [(x, sm)]))) (sm * x) dense'
            (free_owned T owned cur w1)"
        using True False l by (simp add: d walk_dims_Cons rem div Let_def mulE mulsm E')
      show ?thesis
        unfolding P W by (rule Cons.IH) (use Cons.prems in \<open>simp_all add: d\<close>)
    qed
  qed
qed

section \<open>Properties\<close>

text \<open>
  C16. The datatype for a non-contiguous array describes the array. When the walk succeeds, the
  one new datatype has the basic elements of the first \<open>count\<close> array elements, in Fortran array
  element order, each at the byte offset its subscripts give with the descriptor's strides
  (positive, negative or zero), whatever mixture of contiguous and strided levels was built;
  \<open>count\<close> is in units of array elements, which may be several units of the datatype passed.
\<close>

theorem cdesc_datatype_describes_section:
  assumes "type_laws T tm" and "tm w oldtype = Some t0"
    and "PMPI_Type_size_c T oldtype w = (MPI_SUCCESS, sz)"
    and "\<forall>d \<in> set (dims cdesc). 0 < fst d" and "0 \<le> elem_len cdesc" and "0 \<le> oldcount"
    and "mpif_cdesc_create_datatype T cdesc oldcount oldtype w = Inr (err, Some h, w')"
  shows "\<exists>t. tm w' = (tm w)(h \<mapsto> t) \<and>
    places t = section_places (dims cdesc) (nat (cdesc_count (cdesc_factor cdesc sz) oldcount))
      (base_places (cdesc_factor cdesc sz) t0)"
  by (rule create_datatype_places [OF assms])

text \<open>
  C17. The walk loses no datatype. Whatever fails on the way, in MPI or in the arguments, an error
  leaves \<open>*newtype\<close> unwritten and exactly the datatypes that existed before, and success exactly
  one more; the datatype passed in is never freed.
\<close>

theorem cdesc_leaks_no_datatype:
  assumes "type_laws T tm" and "tm w oldtype = Some t0"
    and "mpif_cdesc_create_datatype T cdesc oldcount oldtype w = Inr (err, new, w')"
  shows "case new of
      None \<Rightarrow> err \<noteq> MPI_SUCCESS \<and> tm w' = tm w
    | Some h \<Rightarrow> err = MPI_SUCCESS \<and> tm w h = None \<and> (\<exists>t. tm w' = (tm w)(h \<mapsto> t))"
  by (rule create_datatype_holding [OF assms])

text \<open>
  C18. Which calls succeed, if MPI's own calls do. For an array none of whose extents is zero or negative, with
  fewer than 2^63 elements and each stride times its extent within 63 bits and a sign, a nonnegative element
  length and count, and a datatype of positive size: exactly the calls succeed whose element length is a multiple
  of the datatype's size and whose count is whole elements and either at most the first extent
  or whole rows of the dimensions below the one it ends in, within the array; all others are
  refused with \<open>MPI_ERR_ARG\<close>, and no product the walk computes overflows. (Empty extents are the next property.)
\<close>

theorem cdesc_accepts_describable:
  assumes "reliable T" and "PMPI_Type_size_c T oldtype w = (MPI_SUCCESS, sz)"
    and "0 < sz" and "0 \<le> elem_len cdesc" and "0 \<le> oldcount"
    and "\<forall>d \<in> set (dims cdesc). 0 < fst d" and "fits (dims cdesc)"
  shows "\<exists>new w'. mpif_cdesc_create_datatype T cdesc oldcount oldtype w =
    Inr (if elem_len cdesc mod sz = 0 \<and>
            (cdesc_factor cdesc sz > 1 \<longrightarrow> oldcount mod cdesc_factor cdesc sz = 0) \<and>
            describable (dims cdesc) (cdesc_count (cdesc_factor cdesc sz) oldcount)
         then MPI_SUCCESS else MPI_ERR_ARG, new, w')"
proof (cases "elem_len cdesc mod sz = 0")
  case False
  with assms create_datatype_reject [OF assms(2), of cdesc oldcount] show ?thesis
    by (simp add: smod_pos)
next
  case mod: True
  let ?f = "cdesc_factor cdesc sz"
  let ?c = "cdesc_count ?f oldcount"
  note eq = create_datatype_eq [OF assms(2-4) mod assms(5), unfolded Let_def]
  show ?thesis
  proof (cases "?f > 1 \<and> oldcount mod ?f \<noteq> 0")
    case True
    then show ?thesis unfolding eq by auto
  next
    case False
    obtain cur owned w1 where b: "base_type T ?f oldtype w = (MPI_SUCCESS, cur, owned, w1)"
    proof (cases "?f > 1")
      case True
      with assms(1) have "fst (PMPI_Type_contiguous_c T ?f oldtype w) = MPI_SUCCESS"
        by (simp add: reliable_def)
      then obtain cur w1 where "PMPI_Type_contiguous_c T ?f oldtype w = (MPI_SUCCESS, cur, w1)"
        by (metis prod.collapse)
      with True that [of cur True w1] show ?thesis by (simp add: base_type_def)
    next
      case False
      with that show ?thesis by (simp add: base_type_def)
    qed
    obtain lb x where ex: "PMPI_Type_get_extent_c T cur w1 = (MPI_SUCCESS, lb, x)"
      using assms(1) unfolding reliable_def by (metis prod.collapse)
    have c0: "0 \<le> ?c" using assms(5) by (auto simp: cdesc_count_def pos_imp_zdiv_nonneg_iff)
    obtain r where r: "walk_dims T ?c (dims cdesc) cur owned 1 (elem_len cdesc)
        (lb = 0 \<and> x = elem_len cdesc) w1 = Inr r"
      "case r of Fail e _ _ _ \<Rightarrow> e = MPI_ERR_ARG \<and> \<not> describable (dims cdesc) ?c
       | Walked d _ _ _ \<Rightarrow> d = describable (dims cdesc) ?c"
      using walk_complete [OF assms(1) c0, of "[]" "dims cdesc" cur owned "elem_len cdesc"
          "lb = 0 \<and> x = elem_len cdesc" w1, unfolded elements.simps of_nat_1 mod_by_1 div_by_1
          append_Nil simp_thms] assms(6,7) by blast
    have "fst (PMPI_Type_commit T h w2) = MPI_SUCCESS" for h w2
      using assms(1) by (simp add: reliable_def)
    then have "\<exists>new w'. finish_walk T r =
        Inr (if describable (dims cdesc) ?c then MPI_SUCCESS else MPI_ERR_ARG, new, w')"
      using r(2) by (auto simp: finish_walk_def split: walked.splits prod.splits)
        (metis fst_conv)+
    with False mod show ?thesis unfolding eq b by (auto simp: seeded_walk_def ex r(1))
  qed
qed

text \<open>
  C19. An empty dimension is not handled: if the first extent is zero, the array has further
  dimensions and the count is positive, the function divides by zero where a count beyond the
  array is meant to be refused with \<open>MPI_ERR_ARG\<close>. An array section such as \<open>a(1:0, 1:5)\<close> is not
  contiguous to its descriptor, so this is reached.
\<close>

theorem cdesc_empty_dimension_divides_by_zero:
  assumes "reliable T" and "PMPI_Type_size_c T oldtype w = (MPI_SUCCESS, sz)" and "0 < sz"
    and "elem_len cdesc = sz" and "dims cdesc = (0, sm) # d # ds" and "0 < oldcount"
  shows "mpif_cdesc_create_datatype T cdesc oldcount oldtype w = Inl Division_by_zero"
proof -
  have f: "cdesc_factor cdesc sz = 1" using assms(3,4) by (simp add: cdesc_factor_def)
  obtain lb x where ex: "PMPI_Type_get_extent_c T oldtype w = (MPI_SUCCESS, lb, x)"
    using assms(1) unfolding reliable_def by (metis prod.collapse)
  obtain nxt w1 dense' where l: "level T 0 sm sz (lb = 0 \<and> x = sz) oldtype w = ((MPI_SUCCESS, nxt, w1), dense')"
    using reliable_level [OF assms(1), of 0 sm sz "lb = 0 \<and> x = sz" oldtype w] by auto
  obtain y s where d: "d = (y, s)" by (cases d)
  have counts: "rem_count oldcount 1 = Inr 0" "div_count oldcount 1 = Inr oldcount"
    using assms(6) by (simp_all add: rem_count_pos div_count_pos)
  have zero: "rem_count oldcount 0 = Inl Division_by_zero" by (simp add: rem_count_def)
  have "seeded_walk T cdesc oldcount oldtype False w = Inl Division_by_zero"
    using assms(3-6) ex l
    by (simp add: seeded_walk_def walk_dims_Cons d counts zero Let_def mul_count_def)
  with assms create_datatype_eq [OF assms(2,3), of cdesc oldcount] f show ?thesis
    by (simp add: base_type_def cdesc_count_def)
qed

section \<open>An MPI to evaluate with\<close>

text \<open>Datatypes of bytes; the state is the typemaps and the next handle, and a full table fails.\<close>

type_synonym type_world = "(handle \<Rightarrow> typemap option) \<times> nat"

definition new_type :: "typemap \<Rightarrow> handle \<Rightarrow> type_world \<Rightarrow> fint \<times> handle \<times> type_world" where
  "new_type t h w =
     (if fst w (of_nat (snd w)) = None
      then (MPI_SUCCESS, of_nat (snd w), ((fst w)(of_nat (snd w) \<mapsto> t), Suc (snd w)))
      else (MPI_ERR_OTHER, h, w))"

definition byte_types :: "type_world type_api" where
  "byte_types =
     \<lparr>PMPI_Type_size_c = (\<lambda>h w. case fst w h of None \<Rightarrow> (MPI_ERR_ARG, 0)
                                | Some t \<Rightarrow> (MPI_SUCCESS, int (length (places t)))),
      PMPI_Type_get_extent_c = (\<lambda>h w. case fst w h of None \<Rightarrow> (MPI_ERR_ARG, 0, 0)
                                | Some t \<Rightarrow> (MPI_SUCCESS, tm_lb t, tm_extent t)),
      PMPI_Type_contiguous_c = (\<lambda>n h w. case fst w h of None \<Rightarrow> (MPI_ERR_ARG, h, w)
                                | Some t \<Rightarrow> if n < 0 then (MPI_ERR_ARG, h, w)
                                    else new_type \<lparr>places = copies (nat n) (tm_extent t) (places t),
                                                   tm_lb = tm_lb t, tm_extent = n * tm_extent t\<rparr> h w),
      PMPI_Type_create_hvector_c = (\<lambda>n b s h w. case fst w h of None \<Rightarrow> (MPI_ERR_ARG, h, w)
                                | Some t \<Rightarrow> if n < 0 then (MPI_ERR_ARG, h, w)
                                    else new_type \<lparr>places = copies (nat n) s (places t), tm_lb = tm_lb t,
                                                   tm_extent = s * (n - 1) + tm_extent t\<rparr> h w),
      PMPI_Type_commit = (\<lambda>h w. (MPI_SUCCESS, h, w)),
      PMPI_Type_free = (\<lambda>h w. (MPI_SUCCESS, ((fst w)(h := None), snd w)))\<rparr>"

lemma byte_types_laws: "type_laws byte_types fst"
  by (auto simp: type_laws_def extent_law_def contiguous_law_def hvector_law_def commit_law_def
      free_law_def byte_types_def new_type_def split: if_splits option.splits)

text \<open>Two columns of two bytes out of a matrix with rows of four.\<close>

definition demo_world :: type_world where
  "demo_world = ([0x21d \<mapsto> \<lparr>places = [0], tm_lb = 0, tm_extent = 1\<rparr>], 1)"

definition demo_cdesc :: cdesc where
  "demo_cdesc = \<lparr>base_addr = 4096, elem_len = 1, dims = [(2, 1), (2, 4)]\<rparr>"

lemma demo_cdesc_datatype:
  "mpif_cdesc_create_datatype byte_types demo_cdesc 4 0x21d demo_world =
     Inr (MPI_SUCCESS, Some 2,
          ([0x21d \<mapsto> \<lparr>places = [0], tm_lb = 0, tm_extent = 1\<rparr>,
            2 \<mapsto> \<lparr>places = [0, 1, 4, 5], tm_lb = 0, tm_extent = 6\<rparr>], 3))"
proof -
  have map: "([(0x21d :: handle) \<mapsto> t, 1 \<mapsto> u, 2 \<mapsto> v])(1 := None) = [0x21d \<mapsto> t, 2 \<mapsto> v]"
    for t u v :: typemap
    by (auto simp: fun_eq_iff)
  have upt: "[0..<2] = [0, 1 :: nat]" by (simp add: upt_rec)
  show ?thesis
    by (simp add: mpif_cdesc_create_datatype_def byte_types_def demo_cdesc_def demo_world_def
        walk_dims.simps rem_count_def div_count_def mul_count_def new_type_def free_owned_def Let_def
        copies_def shift_def upt map signed_modulo_int_def signed_divide_int_def)
qed

theorem cdesc_datatype_describes_section_witness:
  "section_places [(2, 1), (2, 4)] 4 [0] = [0, 1, 4, 5]"
proof -
  have "PMPI_Type_size_c byte_types 0x21d demo_world = (MPI_SUCCESS, 1)"
    "fst demo_world 0x21d = Some \<lparr>places = [0], tm_lb = 0, tm_extent = 1\<rparr>"
    by (simp_all add: byte_types_def demo_world_def)
  from cdesc_datatype_describes_section [OF byte_types_laws this(2,1) _ _ _ demo_cdesc_datatype]
  have "\<exists>t. places t = section_places [(2, 1), (2, 4)] 4 [0] \<and>
      [0x21d \<mapsto> \<lparr>places = [0], tm_lb = 0, tm_extent = 1\<rparr>,
        2 \<mapsto> \<lparr>places = [0, 1, 4, 5], tm_lb = 0, tm_extent = 6\<rparr>] (2 :: handle) = Some t"
    by (fastforce simp: demo_cdesc_def cdesc_count_def cdesc_factor_def base_places_def)
  then show ?thesis by auto
qed

theorem cdesc_leaks_no_datatype_witness:
  "fst demo_world 2 = None"
proof -
  have "fst demo_world 0x21d = Some \<lparr>places = [0], tm_lb = 0, tm_extent = 1\<rparr>"
    by (simp add: demo_world_def)
  from cdesc_leaks_no_datatype [OF byte_types_laws this demo_cdesc_datatype] show ?thesis by simp
qed

definition agreeable_types :: "unit type_api" where
  "agreeable_types =
     \<lparr>PMPI_Type_size_c = (\<lambda>h w. (MPI_SUCCESS, 1)),
      PMPI_Type_get_extent_c = (\<lambda>h w. (MPI_SUCCESS, 0, 1)),
      PMPI_Type_contiguous_c = (\<lambda>n h w. (MPI_SUCCESS, h, w)),
      PMPI_Type_create_hvector_c = (\<lambda>n b s h w. (MPI_SUCCESS, h, w)),
      PMPI_Type_commit = (\<lambda>h w. (MPI_SUCCESS, h, w)),
      PMPI_Type_free = (\<lambda>h w. (MPI_SUCCESS, w))\<rparr>"

lemma agreeable_types_reliable: "reliable agreeable_types"
  by (simp add: reliable_def agreeable_types_def)

theorem cdesc_accepts_describable_witness:
  "\<exists>new w'. mpif_cdesc_create_datatype agreeable_types demo_cdesc 3 0x21d () = Inr (MPI_ERR_ARG, new, w')"
  using cdesc_accepts_describable [OF agreeable_types_reliable, of "0x21d" "()" 1 demo_cdesc 3]
  by (simp add: agreeable_types_def demo_cdesc_def cdesc_factor_def cdesc_count_def fits_def)

theorem cdesc_empty_dimension_divides_by_zero_witness:
  "mpif_cdesc_create_datatype agreeable_types \<lparr>base_addr = 4096, elem_len = 1, dims = [(0, 1), (5, 10)]\<rparr>
     3 0x21d () = Inl Division_by_zero"
  using cdesc_empty_dimension_divides_by_zero [OF agreeable_types_reliable, of "0x21d" "()" 1
      "\<lparr>base_addr = 4096, elem_len = 1, dims = [(0, 1), (5, 10)]\<rparr>" 1 "(5, 10)" "[]" 3]
  by (simp add: agreeable_types_def)

end
