(* ===== verification/Cdesc_Checks.thy ===== *)
theory Cdesc_Checks
  imports Mpi_Calls Cdesc_Walk
begin

text \<open>
  What every entry point of \<open>gen/mpif_f08_cdesc.c\<close> does with its choice buffers before it calls MPI,
  and gives back afterwards. A buffer arrives as a Fortran descriptor. A contiguous one is passed
  by its base address; any other is replaced by one element of a datatype that describes it, or
  refused where no count and datatype belong to it.
\<close>

section \<open>Buffers\<close>

text \<open>
  \<open>CFI_is_contiguous\<close> belongs to the Fortran compiler's runtime library; it and MPI's datatype calls
  are parameters. A descriptor of rank 0 is one without dimensions.
\<close>

record 'w cdesc_lib = "'w mpi_lib" +
  types :: "'w type_api"
  CFI_is_contiguous :: "cdesc \<Rightarrow> bool"

text \<open>
  How an entry treats a buffer: with the count and datatype that go with it, or as one that must be
  contiguous; in either case only if a guard holds (\<open>q_at_root\<close>, or always).
\<close>

datatype buffer =
    Walk bool int handle
  | Contig bool

record hoisted =
  q_addr :: addr
  q_count :: int
  q_type :: handle
  q_owned :: bool

fun hoist :: "('w, 'z) cdesc_lib_scheme \<Rightarrow> buffer \<Rightarrow> cdesc \<Rightarrow> hoisted" where
  "hoist E (Walk guard cnt datatype) d =
     \<lparr>q_addr = mpif_c_buffer (place E) (base_addr d), q_count = cnt, q_type = datatype, q_owned = False\<rparr>"
| "hoist E (Contig guard) d =
     \<lparr>q_addr = mpif_c_buffer (place E) (base_addr d), q_count = 0, q_type = MPI_DATATYPE_NULL,
      q_owned = False\<rparr>"

definition strided :: "('w, 'z) cdesc_lib_scheme \<Rightarrow> addr \<Rightarrow> cdesc \<Rightarrow> bool" where
  "strided E q d \<longleftrightarrow> \<not> mpif_cdesc_is_sentinel q \<and> length (dims d) \<noteq> 0 \<and> \<not> CFI_is_contiguous E d"

fun check_buffer ::
    "('w, 'z) cdesc_lib_scheme \<Rightarrow> buffer \<Rightarrow> cdesc \<Rightarrow> fint \<Rightarrow> 'w \<Rightarrow> fault + fint \<times> hoisted \<times> 'w" where
  "check_buffer E (Walk guard cnt datatype) d err w =
     (let q = hoist E (Walk guard cnt datatype) d
      in if err = MPI_SUCCESS \<and> guard \<and> strided E (q_addr q) d
         then bindE (mpif_cdesc_create_datatype (types E) d (q_count q) (q_type q) w) (\<lambda>(err, newtype, w).
                (let q = q\<lparr>q_type := (case newtype of None \<Rightarrow> q_type q | Some t \<Rightarrow> t)\<rparr>;
                     q = (if err = MPI_SUCCESS then q\<lparr>q_count := 1, q_owned := True\<rparr> else q)
                 in Inr (err, q, w)))
         else Inr (err, q, w))"
| "check_buffer E (Contig guard) d err w =
     (let q = hoist E (Contig guard) d
      in Inr (if guard \<and> strided E (q_addr q) d then MPI_ERR_BUFFER else err, q, w))"

fun check_buffers ::
    "('w, 'z) cdesc_lib_scheme \<Rightarrow> (buffer \<times> cdesc) list \<Rightarrow> fint \<Rightarrow> 'w \<Rightarrow>
     fault + fint \<times> hoisted list \<times> 'w" where
  "check_buffers E [] err w = Inr (err, [], w)"
| "check_buffers E ((b, d) # bs) err w =
     bindE (check_buffer E b d err w) (\<lambda>(err, q, w).
       bindE (check_buffers E bs err w) (\<lambda>(err, qs, w). Inr (err, q # qs, w)))"

fun free_types :: "('w, 'z) cdesc_lib_scheme \<Rightarrow> hoisted list \<Rightarrow> 'w \<Rightarrow> 'w" where
  "free_types E [] w = w"
| "free_types E (q # qs) w = free_types E qs (free_owned (types E) (q_owned q) (q_type q) w)"

text \<open>
  An entry: the checks in the order of the parameters, the error return, the call of MPI with what
  it converts back, and freeing the datatypes the checks made.
\<close>

definition entry ::
    "('w, 'z) cdesc_lib_scheme \<Rightarrow> (buffer \<times> cdesc) list \<Rightarrow>
     (hoisted list \<Rightarrow> 'w \<Rightarrow> fault + outcome \<times> 'w) \<Rightarrow> 'w \<Rightarrow> fault + outcome \<times> 'w" where
  "entry E bs call w =
     bindE (check_buffers E bs MPI_SUCCESS w) (\<lambda>(err, qs, w).
       if err \<noteq> MPI_SUCCESS then returns err (free_types E qs w)
       else bindE (call qs w) (\<lambda>(r, w). Inr (r, free_types E qs w)))"

definition entry1 ::
    "('w, 'z) cdesc_lib_scheme \<Rightarrow> buffer \<Rightarrow> cdesc \<Rightarrow> (hoisted \<Rightarrow> 'w \<Rightarrow> fault + outcome \<times> 'w) \<Rightarrow>
     'w \<Rightarrow> fault + outcome \<times> 'w" where
  "entry1 E b d call = entry E [(b, d)] (\<lambda>qs. call (qs ! 0))"

definition entry2 ::
    "('w, 'z) cdesc_lib_scheme \<Rightarrow> buffer \<Rightarrow> cdesc \<Rightarrow> buffer \<Rightarrow> cdesc \<Rightarrow>
     (hoisted \<Rightarrow> hoisted \<Rightarrow> 'w \<Rightarrow> fault + outcome \<times> 'w) \<Rightarrow> 'w \<Rightarrow> fault + outcome \<times> 'w" where
  "entry2 E b1 d1 b2 d2 call = entry E [(b1, d1), (b2, d2)] (\<lambda>qs. call (qs ! 0) (qs ! 1))"

text \<open>The count argument: cast to \<open>int\<close> except in the large-count versions.\<close>

definition count_arg :: "bool \<Rightarrow> hoisted \<Rightarrow> arg" where
  "count_arg large q = Val (if large then q_count q else sint (word_of_int (q_count q) :: fint))"

lemma count_arg_small:
  "- (2 ^ 31) \<le> q_count q \<Longrightarrow> q_count q < 2 ^ 31 \<Longrightarrow> count_arg large q = Val (q_count q)"
  by (simp add: count_arg_def sint_sbintrunc' signed_take_bit_int_eq_self)

section \<open>No datatype is lost\<close>

text \<open>\<open>N\<close> are the datatypes \<open>M\<close> and, besides them, those the buffers own.\<close>

fun holding_all :: "(handle \<Rightarrow> typemap option) \<Rightarrow> hoisted list \<Rightarrow> (handle \<Rightarrow> typemap option) \<Rightarrow> bool" where
  "holding_all M [] N \<longleftrightarrow> N = M"
| "holding_all M (q # qs) N \<longleftrightarrow>
     (if q_owned q then M (q_type q) = None \<and> (\<exists>t. holding_all (M(q_type q \<mapsto> t)) qs N)
      else holding_all M qs N)"

lemma holding_all_drop:
  "holding_all (M(x \<mapsto> t)) qs N \<Longrightarrow> M x = None \<Longrightarrow> N x = Some t \<and> holding_all M qs (N(x := None))"
proof (induction qs arbitrary: M)
  case Nil
  then show ?case by (auto simp: fun_eq_iff)
next
  case (Cons q qs)
  show ?case
  proof (cases "q_owned q")
    case True
    with Cons.prems(1) obtain u where a: "(M(x \<mapsto> t)) (q_type q) = None"
      and "holding_all (M(x \<mapsto> t, q_type q \<mapsto> u)) qs N"
      by (auto simp del: fun_upd_apply)
    moreover from a have "M (q_type q) = None" "x \<noteq> q_type q" by (auto split: if_splits)
    ultimately have u: "M (q_type q) = None" "x \<noteq> q_type q"
      "holding_all (M(x \<mapsto> t, q_type q \<mapsto> u)) qs N" by blast+
    then have "holding_all (M(q_type q \<mapsto> u, x \<mapsto> t)) qs N" by (simp add: fun_upd_twist)
    moreover from u(2) Cons.prems(2) have "(M(q_type q \<mapsto> u)) x = None" by simp
    ultimately have "N x = Some t \<and> holding_all (M(q_type q \<mapsto> u)) qs (N(x := None))"
      by (rule Cons.IH)
    with True u(1) show ?thesis by (auto simp del: fun_upd_apply)
  next
    case False
    with Cons show ?thesis by simp
  qed
qed

lemma holding_all_frame:
  "holding_all M qs N \<Longrightarrow> M h = Some t \<Longrightarrow> N h = Some t"
proof (induction qs arbitrary: M)
  case (Cons q qs)
  show ?case
  proof (cases "q_owned q")
    case True
    with Cons.prems obtain u where u: "M (q_type q) = None" "holding_all (M(q_type q \<mapsto> u)) qs N"
      by auto
    with Cons.prems(2) have "(M(q_type q \<mapsto> u)) h = Some t" by auto
    with u(2) show ?thesis by (rule Cons.IH)
  next
    case False
    with Cons show ?thesis by simp
  qed
qed simp

lemma free_types_all:
  assumes "type_laws (types E) tm"
  shows "holding_all M qs (tm w) \<Longrightarrow> tm (free_types E qs w) = M"
proof (induction qs arbitrary: w)
  case (Cons q qs)
  show ?case
  proof (cases "q_owned q")
    case True
    with Cons.prems obtain t where "M (q_type q) = None" "holding_all (M(q_type q \<mapsto> t)) qs (tm w)"
      by auto
    with holding_all_drop have t: "tm w (q_type q) = Some t" "holding_all M qs ((tm w)(q_type q := None))"
      by blast+
    from t(2) have "holding_all M qs (tm (free_owned (types E) (q_owned q) (q_type q) w))"
      by (simp add: free_owned_def True free_lawD [OF assms t(1)])
    then show ?thesis by (simp add: Cons.IH)
  next
    case False
    with Cons show ?thesis by (simp add: free_owned_def)
  qed
qed simp

text \<open>The datatypes of the buffers that will be walked exist.\<close>

fun known :: "('w, 'z) cdesc_lib_scheme \<Rightarrow> (handle \<Rightarrow> typemap option) \<Rightarrow> buffer \<times> cdesc \<Rightarrow> bool" where
  "known E M (Walk guard cnt ty, d) \<longleftrightarrow>
     guard \<and> strided E (mpif_c_buffer (place E) (base_addr d)) d \<longrightarrow> M ty \<noteq> None"
| "known E M (Contig guard, d) \<longleftrightarrow> True"

lemma check_buffer_holding:
  assumes "type_laws (types E) tm" and "known E (tm w) (b, d)" and "check_buffer E b d err w = Inr (err', q, w')"
  shows "holding_all (tm w) [q] (tm w') \<and> (q_owned q \<longrightarrow> err' = MPI_SUCCESS)"
proof (cases b)
  case (Contig g)
  with assms(3) show ?thesis by (auto simp: Let_def)
next
  case (Walk guard cnt ty)
  show ?thesis
  proof (cases "err = MPI_SUCCESS \<and> guard \<and> strided E (mpif_c_buffer (place E) (base_addr d)) d")
    case True
    with assms(2) Walk obtain t0 where t0: "tm w ty = Some t0" by auto
    from True Walk assms(3) obtain e new w1 where
      c: "mpif_cdesc_create_datatype (types E) d cnt ty w = Inr (e, new, w1)"
      by (auto simp: Let_def bindE_eq_Inr)
    from create_datatype_holding [OF assms(1) t0 c] True Walk assms(3) c show ?thesis
      by (auto simp: Let_def split: option.splits)
  next
    case False
    with Walk assms(3) show ?thesis by (auto simp: Let_def)
  qed
qed

lemma known_mono: "known E M bd \<Longrightarrow> (\<And>h t. M h = Some t \<Longrightarrow> N h = Some t) \<Longrightarrow> known E N bd"
  by (cases "(E, M, bd)" rule: known.cases) force+

lemma holding_all_append:
  "holding_all M [q] N \<Longrightarrow> holding_all N qs K \<Longrightarrow> holding_all M (q # qs) K"
  by (auto split: if_splits)

lemma check_buffers_holding:
  assumes "type_laws (types E) tm"
  shows "\<forall>bd \<in> set bs. known E (tm w) bd \<Longrightarrow> check_buffers E bs err w = Inr (err', qs, w') \<Longrightarrow>
    holding_all (tm w) qs (tm w')"
proof (induction bs arbitrary: err w qs)
  case (Cons bd bs)
  obtain b d where bd: "bd = (b, d)" by (cases bd)
  from Cons.prems(2) obtain e1 q w1 qs1 where
    c1: "check_buffer E b d err w = Inr (e1, q, w1)" and
    c2: "check_buffers E bs e1 w1 = Inr (err', qs1, w')" and qs: "qs = q # qs1"
    by (auto simp: bd bindE_eq_Inr)
  from check_buffer_holding [OF assms _ c1] Cons.prems(1) bd
  have h: "holding_all (tm w) [q] (tm w1)" by auto
  have "\<forall>bd \<in> set bs. known E (tm w1) bd"
  proof
    fix bd' assume "bd' \<in> set bs"
    with Cons.prems(1) have "known E (tm w) bd'" by simp
    then show "known E (tm w1) bd'" by (rule known_mono) (rule holding_all_frame [OF h])
  qed
  from Cons.IH [OF this c2] h show ?case unfolding qs by (rule holding_all_append [rotated])
qed simp

lemma entry_keeps_types:
  assumes "type_laws (types E) tm" and "\<forall>bd \<in> set bs. known E (tm w) bd"
    and "\<And>qs w r w'. call qs w = Inr (r, w') \<Longrightarrow> tm w' = tm w"
    and "entry E bs call w = Inr (r, w')"
  shows "tm w' = tm w"
proof -
  from assms(4) obtain err qs w1 where c: "check_buffers E bs MPI_SUCCESS w = Inr (err, qs, w1)"
    by (auto simp: entry_def bindE_eq_Inr)
  note hold = check_buffers_holding [OF assms(1,2) c]
  show ?thesis
  proof (cases "err = MPI_SUCCESS")
    case True
    with assms(4) c obtain r2 w2 where k: "call qs w1 = Inr (r2, w2)" and w': "w' = free_types E qs w2"
      by (auto simp: entry_def bindE_eq_Inr)
    from assms(3) [OF k] hold have "holding_all (tm w) qs (tm w2)" by simp
    then show ?thesis unfolding w' by (rule free_types_all [OF assms(1)])
  next
    case False
    with assms(4) c free_types_all [OF assms(1) hold] show ?thesis by (auto simp: entry_def)
  qed
qed

section \<open>What MPI is told about a buffer\<close>

text \<open>
  The places MPI accesses for a (count, datatype) pair, from the base address: copies of the type's
  places at multiples of its extent (MPI-5.0 section 3.2.2).
\<close>

definition message_places :: "('w \<Rightarrow> handle \<Rightarrow> typemap option) \<Rightarrow> 'w \<Rightarrow> hoisted \<Rightarrow> int list option" where
  "message_places tm w q =
     map_option (\<lambda>t. copies (nat (q_count q)) (tm_extent t) (places t)) (tm w (q_type q))"

text \<open>
  What the code relies on of \<open>CFI_is_contiguous\<close>: the elements of an array it accepts follow each
  other in array element order.
\<close>

definition contiguity_law :: "('w, 'z) cdesc_lib_scheme \<Rightarrow> bool" where
  "contiguity_law E \<longleftrightarrow>
     (\<forall>d. CFI_is_contiguous E d \<longrightarrow>
        (\<forall>k < elements (dims d). element_offset (dims d) k = int k * elem_len d))"

text \<open>
  A buffer of a count of a datatype whose size is its extent: whole elements of the array, none
  beyond its end.
\<close>

definition within :: "cdesc \<Rightarrow> int \<Rightarrow> typemap \<Rightarrow> int \<Rightarrow> bool" where
  "within d cnt t sz \<longleftrightarrow>
     0 < sz \<and> tm_extent t = sz \<and> 0 < elem_len d \<and> elem_len d mod sz = 0 \<and>
     (\<forall>x \<in> set (dims d). 0 < fst x) \<and> 0 \<le> cnt \<and> cnt mod cdesc_factor d sz = 0 \<and>
     cdesc_count (cdesc_factor d sz) cnt \<le> int (elements (dims d))"

text \<open>The places of the array elements that make up the buffer.\<close>

definition buffer_places :: "cdesc \<Rightarrow> int \<Rightarrow> typemap \<Rightarrow> int \<Rightarrow> int list" where
  "buffer_places d cnt t sz =
     section_places (dims d) (nat (cdesc_count (cdesc_factor d sz) cnt)) (base_places (cdesc_factor d sz) t)"

lemma copies_1 [simp]: "copies (Suc 0) e ps = ps"
  by (simp add: copies_def)

lemma copies_copies: "copies n (int m * e) (copies m e ps) = copies (n * m) e ps"
proof -
  have "copies n (int m * e) (copies m e ps) =
      concat (map (\<lambda>j. concat (map (\<lambda>k. shift (int (j * m + k) * e) ps) [0..<m])) [0..<n])"
    by (simp add: copies_def shift_concat algebra_simps)
  also have "\<dots> = copies (n * m) e ps"
    by (simp add: copies_def upt_mult concat_map_concat o_def)
  finally show ?thesis .
qed

lemma dense_places:
  assumes "\<forall>k < elements ds. element_offset ds k = int k * e" and "n \<le> elements ds"
  shows "section_places ds n ps = copies n e ps"
  using assms unfolding section_places_def copies_def
  by (intro arg_cong [where f = concat] map_cong refl) simp

lemma within_count:
  assumes "within d cnt t sz"
  shows "nat cnt = nat (cdesc_count (cdesc_factor d sz) cnt) * nat (cdesc_factor d sz)"
    and "elem_len d = int (nat (cdesc_factor d sz)) * sz" and "0 < cdesc_factor d sz"
proof -
  let ?f = "cdesc_factor d sz"
  from assms have sz: "0 < sz" "0 < elem_len d" "elem_len d mod sz = 0" "0 \<le> cnt" "cnt mod ?f = 0"
    by (simp_all add: within_def)
  then have eq: "elem_len d = ?f * sz" by (simp add: cdesc_factor_def) (metis dvd_div_mult_self dvd_eq_mod_eq_0)
  with sz show f: "0 < ?f" by (metis zero_less_mult_pos2)
  with eq show "elem_len d = int (nat ?f) * sz" by simp
  have "cnt = cdesc_count ?f cnt * ?f"
    using f sz(5) by (auto simp: cdesc_count_def)
  moreover have "0 \<le> cdesc_count ?f cnt"
    using sz(4) f by (auto simp: cdesc_count_def pos_imp_zdiv_nonneg_iff)
  ultimately show "nat cnt = nat (cdesc_count ?f cnt) * nat ?f"
    using f by (metis nat_mult_distrib)
qed

lemma contiguous_buffer_places:
  assumes "within d cnt t sz"
    and "\<forall>k < elements (dims d). element_offset (dims d) k = int k * elem_len d"
  shows "buffer_places d cnt t sz = copies (nat cnt) (tm_extent t) (places t)"
proof -
  let ?f = "cdesc_factor d sz"
  note c = within_count [OF assms(1)]
  have x: "tm_extent t = sz" and n: "nat (cdesc_count ?f cnt) \<le> elements (dims d)"
    using assms(1) by (auto simp: within_def)
  have base: "base_places ?f t = copies (nat ?f) sz (places t)"
  proof (cases "?f > 1")
    case False
    with c(3) have "?f = 1" by simp
    then show ?thesis by (simp add: base_places_def)
  qed (simp add: base_places_def x)
  have "buffer_places d cnt t sz = copies (nat (cdesc_count ?f cnt)) (elem_len d) (base_places ?f t)"
    unfolding buffer_places_def by (rule dense_places [OF assms(2) n])
  also have "\<dots> = copies (nat cnt) sz (places t)"
    by (simp only: base c(2) copies_copies c(1) [symmetric])
  finally show ?thesis by (simp add: x)
qed

text \<open>Whichever way a buffer takes, what is passed describes its elements.\<close>

lemma walk_describes:
  assumes "type_laws (types E) tm" and "contiguity_law E"
    and "tm w ty = Some t" and "PMPI_Type_size_c (types E) ty w = (MPI_SUCCESS, sz)"
    and "within d cnt t sz" and "\<not> mpif_cdesc_is_sentinel (mpif_c_buffer (place E) (base_addr d))"
    and "check_buffer E (Walk True cnt ty) d MPI_SUCCESS w = Inr (MPI_SUCCESS, q, w')"
  shows "q_addr q = mpif_c_buffer (place E) (base_addr d) \<and>
    message_places tm w' q = Some (buffer_places d cnt t sz)"
proof (cases "strided E (mpif_c_buffer (place E) (base_addr d)) d")
  case True
  with assms(7) obtain new where
    c: "mpif_cdesc_create_datatype (types E) d cnt ty w = Inr (MPI_SUCCESS, new, w')" and
    q: "q = \<lparr>q_addr = mpif_c_buffer (place E) (base_addr d), q_count = 1,
             q_type = (case new of None \<Rightarrow> ty | Some t \<Rightarrow> t), q_owned = True\<rparr>"
    by (auto simp: Let_def bindE_eq_Inr cong: option.case_cong split: if_splits)
  from create_datatype_holding [OF assms(1,3) c] obtain h where new: "new = Some h"
    by (cases new) auto
  from assms(5) have "\<forall>d \<in> set (dims d). 0 < fst d" "0 \<le> elem_len d" "0 \<le> cnt"
    by (auto simp: within_def)
  from create_datatype_places [OF assms(1,3,4) this c [unfolded new]] new show ?thesis
    by (auto simp: q message_places_def buffer_places_def)
next
  case False
  with assms(7) have q: "q = \<lparr>q_addr = mpif_c_buffer (place E) (base_addr d), q_count = cnt,
      q_type = ty, q_owned = False\<rparr>" "w' = w"
    by (auto simp: Let_def)
  have "\<forall>k < elements (dims d). element_offset (dims d) k = int k * elem_len d"
  proof (cases "dims d")
    case Nil
    then show ?thesis by simp
  next
    case Cons
    with False assms(6) have "CFI_is_contiguous E d" by (simp add: strided_def)
    with assms(2) show ?thesis by (simp add: contiguity_law_def)
  qed
  with contiguous_buffer_places [OF assms(5)] show ?thesis
    by (simp add: q message_places_def assms(3))
qed

text \<open>
  The two ways from the world \<open>w\<close> through a call, made in \<open>w1\<close> and leaving \<open>w2\<close>, to the end: a strided array goes
  as one element of one new datatype, which is freed after the call; any other with the caller's count
  and datatype, and the call is all that happens.
\<close>

definition passed_as ::
    "('w, 'z) cdesc_lib_scheme \<Rightarrow> ('w \<Rightarrow> handle \<Rightarrow> typemap option) \<Rightarrow> cdesc \<Rightarrow> int \<Rightarrow> handle \<Rightarrow>
     'w \<Rightarrow> hoisted \<Rightarrow> 'w \<Rightarrow> 'w \<Rightarrow> 'w \<Rightarrow> bool" where
  "passed_as E tm d cnt ty w q w1 w2 w' \<longleftrightarrow>
     (if strided E (mpif_c_buffer (place E) (base_addr d)) d
      then q_count q = 1 \<and> tm w (q_type q) = None \<and> (\<exists>u. tm w1 = (tm w)(q_type q \<mapsto> u)) \<and>
        w' = snd (PMPI_Type_free (types E) (q_type q) w2)
      else q_count q = cnt \<and> q_type q = ty \<and> w1 = w \<and> w' = w2)"

lemma walk_passed_as:
  assumes "type_laws (types E) tm" and "tm w ty = Some t"
    and "check_buffer E (Walk True cnt ty) d MPI_SUCCESS w = Inr (MPI_SUCCESS, q, w1)"
  shows "passed_as E tm d cnt ty w q w1 w2 (free_owned (types E) (q_owned q) (q_type q) w2)"
proof (cases "strided E (mpif_c_buffer (place E) (base_addr d)) d")
  case True
  with assms(3) obtain new where
    c: "mpif_cdesc_create_datatype (types E) d cnt ty w = Inr (MPI_SUCCESS, new, w1)" and
    q: "q = \<lparr>q_addr = mpif_c_buffer (place E) (base_addr d), q_count = 1,
             q_type = (case new of None \<Rightarrow> ty | Some t \<Rightarrow> t), q_owned = True\<rparr>"
    by (auto simp: Let_def bindE_eq_Inr cong: option.case_cong split: if_splits)
  from create_datatype_holding [OF assms(1,2) c] True show ?thesis
    by (cases new) (auto simp: q passed_as_def free_owned_def)
next
  case False
  with assms(3) show ?thesis by (auto simp: Let_def passed_as_def free_owned_def)
qed

lemma walk_refused:
  assumes "type_laws (types E) tm" and "tm w ty = Some t" and "err \<noteq> MPI_SUCCESS"
    and "check_buffer E (Walk True cnt ty) d MPI_SUCCESS w = Inr (err, q, w1)"
  shows "strided E (mpif_c_buffer (place E) (base_addr d)) d \<and>
    mpif_cdesc_create_datatype (types E) d cnt ty w = Inr (err, None, w1) \<and> \<not> q_owned q"
proof -
  have s: "strided E (mpif_c_buffer (place E) (base_addr d)) d"
    using assms(3,4) by (auto simp: Let_def split: if_splits)
  then obtain new where c: "mpif_cdesc_create_datatype (types E) d cnt ty w = Inr (err, new, w1)"
    and q: "\<not> q_owned q"
    using assms(3,4) by (auto simp: Let_def bindE_eq_Inr)
  from create_datatype_holding [OF assms(1,2) c] assms(3) have "new = None" by (cases new) auto
  with s c q show ?thesis by simp
qed

text \<open>An entry with one such buffer.\<close>

lemma entry1_describes:
  assumes "type_laws (types E) tm" and "contiguity_law E"
    and "tm w ty = Some t" and "PMPI_Type_size_c (types E) ty w = (MPI_SUCCESS, sz)"
    and "within d cnt t sz" and "\<not> mpif_cdesc_is_sentinel (mpif_c_buffer (place E) (base_addr d))"
    and "entry1 E (Walk True cnt ty) d call w = Inr (r, w')"
  shows "(\<exists>err. err \<noteq> MPI_SUCCESS \<and> r = \<lparr>ierror = err, out = []\<rparr> \<and> tm w' = tm w \<and>
       strided E (mpif_c_buffer (place E) (base_addr d)) d \<and>
       mpif_cdesc_create_datatype (types E) d cnt ty w = Inr (err, None, w')) \<or>
    (\<exists>q w1 w2. call q w1 = Inr (r, w2) \<and> q_addr q = mpif_c_buffer (place E) (base_addr d) \<and>
       message_places tm w1 q = Some (buffer_places d cnt t sz) \<and>
       passed_as E tm d cnt ty w q w1 w2 w')"
proof -
  from assms(7) obtain err q w1 where
    c: "check_buffer E (Walk True cnt ty) d MPI_SUCCESS w = Inr (err, q, w1)"
    by (auto simp: entry1_def entry_def bindE_eq_Inr simp del: check_buffer.simps)
  show ?thesis
  proof (cases "err = MPI_SUCCESS")
    case True
    with assms(7) c obtain r2 w2 where "call q w1 = Inr (r, w2)"
      "w' = free_owned (types E) (q_owned q) (q_type q) w2"
      by (auto simp: entry1_def entry_def bindE_eq_Inr simp del: check_buffer.simps)
    with walk_describes [OF assms(1-6) c [unfolded True]] walk_passed_as [OF assms(1,3) c [unfolded True]]
    show ?thesis by blast
  next
    case False
    with assms(7) c have r: "r = \<lparr>ierror = err, out = []\<rparr>" "w' = free_types E [q] w1"
      by (auto simp: entry1_def entry_def bindE_eq_Inr simp del: check_buffer.simps)
    have "known E (tm w) (Walk True cnt ty, d)" using assms(3) by simp
    from check_buffer_holding [OF assms(1) this c] have "tm w' = tm w"
      unfolding r by (intro free_types_all [OF assms(1)]) blast
    moreover from walk_refused [OF assms(1,3) False c] have "w' = w1"
      by (simp add: r free_owned_def)
    ultimately show ?thesis
      using r(1) False walk_refused [OF assms(1,3) False c] by blast
  qed
qed

end
