(* ===== verification/Cdesc_Single.thy ===== *)
theory Cdesc_Single
  imports Cdesc_Checks "HOL-Library.Sublist"
begin

text \<open>
  The entry points of \<open>gen/mpif_f08_cdesc.c\<close> with one choice buffer that has a count and a datatype:
  point-to-point communication, broadcast, one-sided communication and file input and output. One
  definition per routine stands for its four C functions, under the names \<open>MPI_\<close> and \<open>PMPI_\<close> (\<open>pr\<close>)
  and with ordinary or large counts (\<open>large\<close>). The order of the arguments is that of the C
  functions; integers come by value, arrays and statuses by address.
\<close>

section \<open>The entries\<close>

definition mpi_accumulate_cdesc where
  "mpi_accumulate_cdesc E pr large origin_addr origin_count origin_datatype target_rank
    target_disp target_count target_datatype oper win =
     entry1 E (Walk True origin_count (of_int_handle E Type origin_datatype))
       origin_addr (\<lambda>q_origin_addr.
       calls E pr large ''Accumulate''
         [Buf (q_addr q_origin_addr), count_arg large q_origin_addr, Hdl (q_type q_origin_addr),
          Val target_rank, Val target_disp, Val target_count,
          Hdl (of_int_handle E Type target_datatype), Hdl (of_int_handle E Op oper),
          Hdl (of_int_handle E Win win)] [])"

definition mpi_bcast_cdesc where
  "mpi_bcast_cdesc E pr large buffer cnt datatype root comm =
     entry1 E (Walk True cnt (of_int_handle E Type datatype)) buffer (\<lambda>q_buffer.
       calls E pr large ''Bcast''
         [Buf (q_addr q_buffer), count_arg large q_buffer, Hdl (q_type q_buffer), Val root,
          Hdl (of_int_handle E Comm comm)] [])"

definition mpi_bcast_init_cdesc where
  "mpi_bcast_init_cdesc E pr large buffer cnt datatype root comm info =
     entry1 E (Walk True cnt (of_int_handle E Type datatype)) buffer (\<lambda>q_buffer.
       calls E pr large ''Bcast_init''
         [Buf (q_addr q_buffer), count_arg large q_buffer, Hdl (q_type q_buffer), Val root,
          Hdl (of_int_handle E Comm comm), Hdl (of_int_handle E Info info),
          Temp ''request'' MPI_REQUEST_NULL] [Handle Request ''request''])"

definition mpi_bsend_cdesc where
  "mpi_bsend_cdesc E pr large buf cnt datatype dest tag comm =
     entry1 E (Walk True cnt (of_int_handle E Type datatype)) buf (\<lambda>q_buf.
       calls E pr large ''Bsend''
         [Buf (q_addr q_buf), count_arg large q_buf, Hdl (q_type q_buf), Val dest, Val tag,
          Hdl (of_int_handle E Comm comm)] [])"

definition mpi_bsend_init_cdesc where
  "mpi_bsend_init_cdesc E pr large buf cnt datatype dest tag comm =
     entry1 E (Walk True cnt (of_int_handle E Type datatype)) buf (\<lambda>q_buf.
       calls E pr large ''Bsend_init''
         [Buf (q_addr q_buf), count_arg large q_buf, Hdl (q_type q_buf), Val dest, Val tag,
          Hdl (of_int_handle E Comm comm), Temp ''request'' MPI_REQUEST_NULL] [Handle Request ''request''])"

definition mpi_file_iread_cdesc where
  "mpi_file_iread_cdesc E pr large fh buf cnt datatype =
     entry1 E (Walk True cnt (of_int_handle E Type datatype)) buf (\<lambda>q_buf.
       calls E pr large ''File_iread''
         [Hdl (of_int_handle E File fh), Buf (q_addr q_buf), count_arg large q_buf,
          Hdl (q_type q_buf), Temp ''request'' MPI_REQUEST_NULL] [Handle Request ''request''])"

definition mpi_file_iread_all_cdesc where
  "mpi_file_iread_all_cdesc E pr large fh buf cnt datatype =
     entry1 E (Walk True cnt (of_int_handle E Type datatype)) buf (\<lambda>q_buf.
       calls E pr large ''File_iread_all''
         [Hdl (of_int_handle E File fh), Buf (q_addr q_buf), count_arg large q_buf,
          Hdl (q_type q_buf), Temp ''request'' MPI_REQUEST_NULL] [Handle Request ''request''])"

definition mpi_file_iread_at_cdesc where
  "mpi_file_iread_at_cdesc E pr large fh offset buf cnt datatype =
     entry1 E (Walk True cnt (of_int_handle E Type datatype)) buf (\<lambda>q_buf.
       calls E pr large ''File_iread_at''
         [Hdl (of_int_handle E File fh), Val offset, Buf (q_addr q_buf), count_arg large q_buf,
          Hdl (q_type q_buf), Temp ''request'' MPI_REQUEST_NULL] [Handle Request ''request''])"

definition mpi_file_iread_at_all_cdesc where
  "mpi_file_iread_at_all_cdesc E pr large fh offset buf cnt datatype =
     entry1 E (Walk True cnt (of_int_handle E Type datatype)) buf (\<lambda>q_buf.
       calls E pr large ''File_iread_at_all''
         [Hdl (of_int_handle E File fh), Val offset, Buf (q_addr q_buf), count_arg large q_buf,
          Hdl (q_type q_buf), Temp ''request'' MPI_REQUEST_NULL] [Handle Request ''request''])"

definition mpi_file_iread_shared_cdesc where
  "mpi_file_iread_shared_cdesc E pr large fh buf cnt datatype =
     entry1 E (Walk True cnt (of_int_handle E Type datatype)) buf (\<lambda>q_buf.
       calls E pr large ''File_iread_shared''
         [Hdl (of_int_handle E File fh), Buf (q_addr q_buf), count_arg large q_buf,
          Hdl (q_type q_buf), Temp ''request'' MPI_REQUEST_NULL] [Handle Request ''request''])"

definition mpi_file_iwrite_cdesc where
  "mpi_file_iwrite_cdesc E pr large fh buf cnt datatype =
     entry1 E (Walk True cnt (of_int_handle E Type datatype)) buf (\<lambda>q_buf.
       calls E pr large ''File_iwrite''
         [Hdl (of_int_handle E File fh), Buf (q_addr q_buf), count_arg large q_buf,
          Hdl (q_type q_buf), Temp ''request'' MPI_REQUEST_NULL] [Handle Request ''request''])"

definition mpi_file_iwrite_all_cdesc where
  "mpi_file_iwrite_all_cdesc E pr large fh buf cnt datatype =
     entry1 E (Walk True cnt (of_int_handle E Type datatype)) buf (\<lambda>q_buf.
       calls E pr large ''File_iwrite_all''
         [Hdl (of_int_handle E File fh), Buf (q_addr q_buf), count_arg large q_buf,
          Hdl (q_type q_buf), Temp ''request'' MPI_REQUEST_NULL] [Handle Request ''request''])"

definition mpi_file_iwrite_at_cdesc where
  "mpi_file_iwrite_at_cdesc E pr large fh offset buf cnt datatype =
     entry1 E (Walk True cnt (of_int_handle E Type datatype)) buf (\<lambda>q_buf.
       calls E pr large ''File_iwrite_at''
         [Hdl (of_int_handle E File fh), Val offset, Buf (q_addr q_buf), count_arg large q_buf,
          Hdl (q_type q_buf), Temp ''request'' MPI_REQUEST_NULL] [Handle Request ''request''])"

definition mpi_file_iwrite_at_all_cdesc where
  "mpi_file_iwrite_at_all_cdesc E pr large fh offset buf cnt datatype =
     entry1 E (Walk True cnt (of_int_handle E Type datatype)) buf (\<lambda>q_buf.
       calls E pr large ''File_iwrite_at_all''
         [Hdl (of_int_handle E File fh), Val offset, Buf (q_addr q_buf), count_arg large q_buf,
          Hdl (q_type q_buf), Temp ''request'' MPI_REQUEST_NULL] [Handle Request ''request''])"

definition mpi_file_iwrite_shared_cdesc where
  "mpi_file_iwrite_shared_cdesc E pr large fh buf cnt datatype =
     entry1 E (Walk True cnt (of_int_handle E Type datatype)) buf (\<lambda>q_buf.
       calls E pr large ''File_iwrite_shared''
         [Hdl (of_int_handle E File fh), Buf (q_addr q_buf), count_arg large q_buf,
          Hdl (q_type q_buf), Temp ''request'' MPI_REQUEST_NULL] [Handle Request ''request''])"

definition mpi_file_read_cdesc where
  "mpi_file_read_cdesc E pr large fh buf cnt datatype status =
     entry1 E (Walk True cnt (of_int_handle E Type datatype)) buf (\<lambda>q_buf.
       calls E pr large ''File_read''
         [Hdl (of_int_handle E File fh), Buf (q_addr q_buf), count_arg large q_buf,
          Hdl (q_type q_buf), Buf (mpif_c_status (place E) status)] [])"

definition mpi_file_read_all_cdesc where
  "mpi_file_read_all_cdesc E pr large fh buf cnt datatype status =
     entry1 E (Walk True cnt (of_int_handle E Type datatype)) buf (\<lambda>q_buf.
       calls E pr large ''File_read_all''
         [Hdl (of_int_handle E File fh), Buf (q_addr q_buf), count_arg large q_buf,
          Hdl (q_type q_buf), Buf (mpif_c_status (place E) status)] [])"

definition mpi_file_read_all_begin_cdesc where
  "mpi_file_read_all_begin_cdesc E pr large fh buf cnt datatype =
     entry1 E (Walk True cnt (of_int_handle E Type datatype)) buf (\<lambda>q_buf.
       calls E pr large ''File_read_all_begin''
         [Hdl (of_int_handle E File fh), Buf (q_addr q_buf), count_arg large q_buf,
          Hdl (q_type q_buf)] [])"

definition mpi_file_read_at_cdesc where
  "mpi_file_read_at_cdesc E pr large fh offset buf cnt datatype status =
     entry1 E (Walk True cnt (of_int_handle E Type datatype)) buf (\<lambda>q_buf.
       calls E pr large ''File_read_at''
         [Hdl (of_int_handle E File fh), Val offset, Buf (q_addr q_buf), count_arg large q_buf,
          Hdl (q_type q_buf), Buf (mpif_c_status (place E) status)] [])"

definition mpi_file_read_at_all_cdesc where
  "mpi_file_read_at_all_cdesc E pr large fh offset buf cnt datatype status =
     entry1 E (Walk True cnt (of_int_handle E Type datatype)) buf (\<lambda>q_buf.
       calls E pr large ''File_read_at_all''
         [Hdl (of_int_handle E File fh), Val offset, Buf (q_addr q_buf), count_arg large q_buf,
          Hdl (q_type q_buf), Buf (mpif_c_status (place E) status)] [])"

definition mpi_file_read_at_all_begin_cdesc where
  "mpi_file_read_at_all_begin_cdesc E pr large fh offset buf cnt datatype =
     entry1 E (Walk True cnt (of_int_handle E Type datatype)) buf (\<lambda>q_buf.
       calls E pr large ''File_read_at_all_begin''
         [Hdl (of_int_handle E File fh), Val offset, Buf (q_addr q_buf), count_arg large q_buf,
          Hdl (q_type q_buf)] [])"

definition mpi_file_read_ordered_cdesc where
  "mpi_file_read_ordered_cdesc E pr large fh buf cnt datatype status =
     entry1 E (Walk True cnt (of_int_handle E Type datatype)) buf (\<lambda>q_buf.
       calls E pr large ''File_read_ordered''
         [Hdl (of_int_handle E File fh), Buf (q_addr q_buf), count_arg large q_buf,
          Hdl (q_type q_buf), Buf (mpif_c_status (place E) status)] [])"

definition mpi_file_read_ordered_begin_cdesc where
  "mpi_file_read_ordered_begin_cdesc E pr large fh buf cnt datatype =
     entry1 E (Walk True cnt (of_int_handle E Type datatype)) buf (\<lambda>q_buf.
       calls E pr large ''File_read_ordered_begin''
         [Hdl (of_int_handle E File fh), Buf (q_addr q_buf), count_arg large q_buf,
          Hdl (q_type q_buf)] [])"

definition mpi_file_read_shared_cdesc where
  "mpi_file_read_shared_cdesc E pr large fh buf cnt datatype status =
     entry1 E (Walk True cnt (of_int_handle E Type datatype)) buf (\<lambda>q_buf.
       calls E pr large ''File_read_shared''
         [Hdl (of_int_handle E File fh), Buf (q_addr q_buf), count_arg large q_buf,
          Hdl (q_type q_buf), Buf (mpif_c_status (place E) status)] [])"

definition mpi_file_write_cdesc where
  "mpi_file_write_cdesc E pr large fh buf cnt datatype status =
     entry1 E (Walk True cnt (of_int_handle E Type datatype)) buf (\<lambda>q_buf.
       calls E pr large ''File_write''
         [Hdl (of_int_handle E File fh), Buf (q_addr q_buf), count_arg large q_buf,
          Hdl (q_type q_buf), Buf (mpif_c_status (place E) status)] [])"

definition mpi_file_write_all_cdesc where
  "mpi_file_write_all_cdesc E pr large fh buf cnt datatype status =
     entry1 E (Walk True cnt (of_int_handle E Type datatype)) buf (\<lambda>q_buf.
       calls E pr large ''File_write_all''
         [Hdl (of_int_handle E File fh), Buf (q_addr q_buf), count_arg large q_buf,
          Hdl (q_type q_buf), Buf (mpif_c_status (place E) status)] [])"

definition mpi_file_write_all_begin_cdesc where
  "mpi_file_write_all_begin_cdesc E pr large fh buf cnt datatype =
     entry1 E (Walk True cnt (of_int_handle E Type datatype)) buf (\<lambda>q_buf.
       calls E pr large ''File_write_all_begin''
         [Hdl (of_int_handle E File fh), Buf (q_addr q_buf), count_arg large q_buf,
          Hdl (q_type q_buf)] [])"

definition mpi_file_write_at_cdesc where
  "mpi_file_write_at_cdesc E pr large fh offset buf cnt datatype status =
     entry1 E (Walk True cnt (of_int_handle E Type datatype)) buf (\<lambda>q_buf.
       calls E pr large ''File_write_at''
         [Hdl (of_int_handle E File fh), Val offset, Buf (q_addr q_buf), count_arg large q_buf,
          Hdl (q_type q_buf), Buf (mpif_c_status (place E) status)] [])"

definition mpi_file_write_at_all_cdesc where
  "mpi_file_write_at_all_cdesc E pr large fh offset buf cnt datatype status =
     entry1 E (Walk True cnt (of_int_handle E Type datatype)) buf (\<lambda>q_buf.
       calls E pr large ''File_write_at_all''
         [Hdl (of_int_handle E File fh), Val offset, Buf (q_addr q_buf), count_arg large q_buf,
          Hdl (q_type q_buf), Buf (mpif_c_status (place E) status)] [])"

definition mpi_file_write_at_all_begin_cdesc where
  "mpi_file_write_at_all_begin_cdesc E pr large fh offset buf cnt datatype =
     entry1 E (Walk True cnt (of_int_handle E Type datatype)) buf (\<lambda>q_buf.
       calls E pr large ''File_write_at_all_begin''
         [Hdl (of_int_handle E File fh), Val offset, Buf (q_addr q_buf), count_arg large q_buf,
          Hdl (q_type q_buf)] [])"

definition mpi_file_write_ordered_cdesc where
  "mpi_file_write_ordered_cdesc E pr large fh buf cnt datatype status =
     entry1 E (Walk True cnt (of_int_handle E Type datatype)) buf (\<lambda>q_buf.
       calls E pr large ''File_write_ordered''
         [Hdl (of_int_handle E File fh), Buf (q_addr q_buf), count_arg large q_buf,
          Hdl (q_type q_buf), Buf (mpif_c_status (place E) status)] [])"

definition mpi_file_write_ordered_begin_cdesc where
  "mpi_file_write_ordered_begin_cdesc E pr large fh buf cnt datatype =
     entry1 E (Walk True cnt (of_int_handle E Type datatype)) buf (\<lambda>q_buf.
       calls E pr large ''File_write_ordered_begin''
         [Hdl (of_int_handle E File fh), Buf (q_addr q_buf), count_arg large q_buf,
          Hdl (q_type q_buf)] [])"

definition mpi_file_write_shared_cdesc where
  "mpi_file_write_shared_cdesc E pr large fh buf cnt datatype status =
     entry1 E (Walk True cnt (of_int_handle E Type datatype)) buf (\<lambda>q_buf.
       calls E pr large ''File_write_shared''
         [Hdl (of_int_handle E File fh), Buf (q_addr q_buf), count_arg large q_buf,
          Hdl (q_type q_buf), Buf (mpif_c_status (place E) status)] [])"

definition mpi_get_cdesc where
  "mpi_get_cdesc E pr large origin_addr origin_count origin_datatype target_rank target_disp
    target_count target_datatype win =
     entry1 E (Walk True origin_count (of_int_handle E Type origin_datatype))
       origin_addr (\<lambda>q_origin_addr.
       calls E pr large ''Get''
         [Buf (q_addr q_origin_addr), count_arg large q_origin_addr, Hdl (q_type q_origin_addr),
          Val target_rank, Val target_disp, Val target_count,
          Hdl (of_int_handle E Type target_datatype), Hdl (of_int_handle E Win win)] [])"

definition mpi_ibcast_cdesc where
  "mpi_ibcast_cdesc E pr large buffer cnt datatype root comm =
     entry1 E (Walk True cnt (of_int_handle E Type datatype)) buffer (\<lambda>q_buffer.
       calls E pr large ''Ibcast''
         [Buf (q_addr q_buffer), count_arg large q_buffer, Hdl (q_type q_buffer), Val root,
          Hdl (of_int_handle E Comm comm), Temp ''request'' MPI_REQUEST_NULL] [Handle Request ''request''])"

definition mpi_ibsend_cdesc where
  "mpi_ibsend_cdesc E pr large buf cnt datatype dest tag comm =
     entry1 E (Walk True cnt (of_int_handle E Type datatype)) buf (\<lambda>q_buf.
       calls E pr large ''Ibsend''
         [Buf (q_addr q_buf), count_arg large q_buf, Hdl (q_type q_buf), Val dest, Val tag,
          Hdl (of_int_handle E Comm comm), Temp ''request'' MPI_REQUEST_NULL] [Handle Request ''request''])"

definition mpi_imrecv_cdesc where
  "mpi_imrecv_cdesc E pr large buf cnt datatype message =
     entry1 E (Walk True cnt (of_int_handle E Type datatype)) buf (\<lambda>q_buf.
       calls E pr large ''Imrecv''
         [Buf (q_addr q_buf), count_arg large q_buf, Hdl (q_type q_buf),
          Temp ''message'' (of_int_handle E Message message), Temp ''request'' MPI_REQUEST_NULL] [Handle Message ''message'', Handle Request ''request''])"

definition mpi_irecv_cdesc where
  "mpi_irecv_cdesc E pr large buf cnt datatype source tag comm =
     entry1 E (Walk True cnt (of_int_handle E Type datatype)) buf (\<lambda>q_buf.
       calls E pr large ''Irecv''
         [Buf (q_addr q_buf), count_arg large q_buf, Hdl (q_type q_buf), Val source, Val tag,
          Hdl (of_int_handle E Comm comm), Temp ''request'' MPI_REQUEST_NULL] [Handle Request ''request''])"

definition mpi_irsend_cdesc where
  "mpi_irsend_cdesc E pr large buf cnt datatype dest tag comm =
     entry1 E (Walk True cnt (of_int_handle E Type datatype)) buf (\<lambda>q_buf.
       calls E pr large ''Irsend''
         [Buf (q_addr q_buf), count_arg large q_buf, Hdl (q_type q_buf), Val dest, Val tag,
          Hdl (of_int_handle E Comm comm), Temp ''request'' MPI_REQUEST_NULL] [Handle Request ''request''])"

definition mpi_isend_cdesc where
  "mpi_isend_cdesc E pr large buf cnt datatype dest tag comm =
     entry1 E (Walk True cnt (of_int_handle E Type datatype)) buf (\<lambda>q_buf.
       calls E pr large ''Isend''
         [Buf (q_addr q_buf), count_arg large q_buf, Hdl (q_type q_buf), Val dest, Val tag,
          Hdl (of_int_handle E Comm comm), Temp ''request'' MPI_REQUEST_NULL] [Handle Request ''request''])"

definition mpi_isendrecv_replace_cdesc where
  "mpi_isendrecv_replace_cdesc E pr large buf cnt datatype dest sendtag source recvtag comm =
     entry1 E (Walk True cnt (of_int_handle E Type datatype)) buf (\<lambda>q_buf.
       calls E pr large ''Isendrecv_replace''
         [Buf (q_addr q_buf), count_arg large q_buf, Hdl (q_type q_buf), Val dest, Val sendtag,
          Val source, Val recvtag, Hdl (of_int_handle E Comm comm),
          Temp ''request'' MPI_REQUEST_NULL] [Handle Request ''request''])"

definition mpi_issend_cdesc where
  "mpi_issend_cdesc E pr large buf cnt datatype dest tag comm =
     entry1 E (Walk True cnt (of_int_handle E Type datatype)) buf (\<lambda>q_buf.
       calls E pr large ''Issend''
         [Buf (q_addr q_buf), count_arg large q_buf, Hdl (q_type q_buf), Val dest, Val tag,
          Hdl (of_int_handle E Comm comm), Temp ''request'' MPI_REQUEST_NULL] [Handle Request ''request''])"

definition mpi_mrecv_cdesc where
  "mpi_mrecv_cdesc E pr large buf cnt datatype message status =
     entry1 E (Walk True cnt (of_int_handle E Type datatype)) buf (\<lambda>q_buf.
       calls E pr large ''Mrecv''
         [Buf (q_addr q_buf), count_arg large q_buf, Hdl (q_type q_buf),
          Temp ''message'' (of_int_handle E Message message),
          Buf (mpif_c_status (place E) status)] [Handle Message ''message''])"

definition mpi_put_cdesc where
  "mpi_put_cdesc E pr large origin_addr origin_count origin_datatype target_rank target_disp
    target_count target_datatype win =
     entry1 E (Walk True origin_count (of_int_handle E Type origin_datatype))
       origin_addr (\<lambda>q_origin_addr.
       calls E pr large ''Put''
         [Buf (q_addr q_origin_addr), count_arg large q_origin_addr, Hdl (q_type q_origin_addr),
          Val target_rank, Val target_disp, Val target_count,
          Hdl (of_int_handle E Type target_datatype), Hdl (of_int_handle E Win win)] [])"

definition mpi_raccumulate_cdesc where
  "mpi_raccumulate_cdesc E pr large origin_addr origin_count origin_datatype target_rank
    target_disp target_count target_datatype oper win =
     entry1 E (Walk True origin_count (of_int_handle E Type origin_datatype))
       origin_addr (\<lambda>q_origin_addr.
       calls E pr large ''Raccumulate''
         [Buf (q_addr q_origin_addr), count_arg large q_origin_addr, Hdl (q_type q_origin_addr),
          Val target_rank, Val target_disp, Val target_count,
          Hdl (of_int_handle E Type target_datatype), Hdl (of_int_handle E Op oper),
          Hdl (of_int_handle E Win win), Temp ''request'' MPI_REQUEST_NULL] [Handle Request ''request''])"

definition mpi_recv_cdesc where
  "mpi_recv_cdesc E pr large buf cnt datatype source tag comm status =
     entry1 E (Walk True cnt (of_int_handle E Type datatype)) buf (\<lambda>q_buf.
       calls E pr large ''Recv''
         [Buf (q_addr q_buf), count_arg large q_buf, Hdl (q_type q_buf), Val source, Val tag,
          Hdl (of_int_handle E Comm comm), Buf (mpif_c_status (place E) status)] [])"

definition mpi_recv_init_cdesc where
  "mpi_recv_init_cdesc E pr large buf cnt datatype source tag comm =
     entry1 E (Walk True cnt (of_int_handle E Type datatype)) buf (\<lambda>q_buf.
       calls E pr large ''Recv_init''
         [Buf (q_addr q_buf), count_arg large q_buf, Hdl (q_type q_buf), Val source, Val tag,
          Hdl (of_int_handle E Comm comm), Temp ''request'' MPI_REQUEST_NULL] [Handle Request ''request''])"

definition mpi_rget_cdesc where
  "mpi_rget_cdesc E pr large origin_addr origin_count origin_datatype target_rank target_disp
    target_count target_datatype win =
     entry1 E (Walk True origin_count (of_int_handle E Type origin_datatype))
       origin_addr (\<lambda>q_origin_addr.
       calls E pr large ''Rget''
         [Buf (q_addr q_origin_addr), count_arg large q_origin_addr, Hdl (q_type q_origin_addr),
          Val target_rank, Val target_disp, Val target_count,
          Hdl (of_int_handle E Type target_datatype), Hdl (of_int_handle E Win win),
          Temp ''request'' MPI_REQUEST_NULL] [Handle Request ''request''])"

definition mpi_rput_cdesc where
  "mpi_rput_cdesc E pr large origin_addr origin_count origin_datatype target_rank target_disp
    target_count target_datatype win =
     entry1 E (Walk True origin_count (of_int_handle E Type origin_datatype))
       origin_addr (\<lambda>q_origin_addr.
       calls E pr large ''Rput''
         [Buf (q_addr q_origin_addr), count_arg large q_origin_addr, Hdl (q_type q_origin_addr),
          Val target_rank, Val target_disp, Val target_count,
          Hdl (of_int_handle E Type target_datatype), Hdl (of_int_handle E Win win),
          Temp ''request'' MPI_REQUEST_NULL] [Handle Request ''request''])"

definition mpi_rsend_cdesc where
  "mpi_rsend_cdesc E pr large buf cnt datatype dest tag comm =
     entry1 E (Walk True cnt (of_int_handle E Type datatype)) buf (\<lambda>q_buf.
       calls E pr large ''Rsend''
         [Buf (q_addr q_buf), count_arg large q_buf, Hdl (q_type q_buf), Val dest, Val tag,
          Hdl (of_int_handle E Comm comm)] [])"

definition mpi_rsend_init_cdesc where
  "mpi_rsend_init_cdesc E pr large buf cnt datatype dest tag comm =
     entry1 E (Walk True cnt (of_int_handle E Type datatype)) buf (\<lambda>q_buf.
       calls E pr large ''Rsend_init''
         [Buf (q_addr q_buf), count_arg large q_buf, Hdl (q_type q_buf), Val dest, Val tag,
          Hdl (of_int_handle E Comm comm), Temp ''request'' MPI_REQUEST_NULL] [Handle Request ''request''])"

definition mpi_send_cdesc where
  "mpi_send_cdesc E pr large buf cnt datatype dest tag comm =
     entry1 E (Walk True cnt (of_int_handle E Type datatype)) buf (\<lambda>q_buf.
       calls E pr large ''Send''
         [Buf (q_addr q_buf), count_arg large q_buf, Hdl (q_type q_buf), Val dest, Val tag,
          Hdl (of_int_handle E Comm comm)] [])"

definition mpi_send_init_cdesc where
  "mpi_send_init_cdesc E pr large buf cnt datatype dest tag comm =
     entry1 E (Walk True cnt (of_int_handle E Type datatype)) buf (\<lambda>q_buf.
       calls E pr large ''Send_init''
         [Buf (q_addr q_buf), count_arg large q_buf, Hdl (q_type q_buf), Val dest, Val tag,
          Hdl (of_int_handle E Comm comm), Temp ''request'' MPI_REQUEST_NULL] [Handle Request ''request''])"

definition mpi_sendrecv_replace_cdesc where
  "mpi_sendrecv_replace_cdesc E pr large buf cnt datatype dest sendtag source recvtag comm status
    =
     entry1 E (Walk True cnt (of_int_handle E Type datatype)) buf (\<lambda>q_buf.
       calls E pr large ''Sendrecv_replace''
         [Buf (q_addr q_buf), count_arg large q_buf, Hdl (q_type q_buf), Val dest, Val sendtag,
          Val source, Val recvtag, Hdl (of_int_handle E Comm comm),
          Buf (mpif_c_status (place E) status)] [])"

definition mpi_ssend_cdesc where
  "mpi_ssend_cdesc E pr large buf cnt datatype dest tag comm =
     entry1 E (Walk True cnt (of_int_handle E Type datatype)) buf (\<lambda>q_buf.
       calls E pr large ''Ssend''
         [Buf (q_addr q_buf), count_arg large q_buf, Hdl (q_type q_buf), Val dest, Val tag,
          Hdl (of_int_handle E Comm comm)] [])"

definition mpi_ssend_init_cdesc where
  "mpi_ssend_init_cdesc E pr large buf cnt datatype dest tag comm =
     entry1 E (Walk True cnt (of_int_handle E Type datatype)) buf (\<lambda>q_buf.
       calls E pr large ''Ssend_init''
         [Buf (q_addr q_buf), count_arg large q_buf, Hdl (q_type q_buf), Val dest, Val tag,
          Hdl (of_int_handle E Comm comm), Temp ''request'' MPI_REQUEST_NULL] [Handle Request ''request''])"

text \<open>
  All of them, as functions of the descriptor, the count and the datatype; the other arguments are
  looked up by name among integers, handles and addresses.
\<close>

definition single_buffer_entries where
  "single_buffer_entries E pr large i h a =
     [
      (''Accumulate'', \<lambda>d n t.
          mpi_accumulate_cdesc E pr large d n t (i ''target_rank'') (i ''target_disp'') (i
           ''target_count'') (h ''target_datatype'') (h ''oper'') (h ''win'')),
      (''Bcast'', \<lambda>d n t. mpi_bcast_cdesc E pr large d n t (i ''root'') (h ''comm'')),
      (''Bcast_init'', \<lambda>d n t.
          mpi_bcast_init_cdesc E pr large d n t (i ''root'') (h ''comm'') (h ''info'')),
      (''Bsend'', \<lambda>d n t.
          mpi_bsend_cdesc E pr large d n t (i ''dest'') (i ''tag'') (h ''comm'')),
      (''Bsend_init'', \<lambda>d n t.
          mpi_bsend_init_cdesc E pr large d n t (i ''dest'') (i ''tag'') (h ''comm'')),
      (''File_iread'', \<lambda>d n t. mpi_file_iread_cdesc E pr large (h ''fh'') d n t),
      (''File_iread_all'', \<lambda>d n t. mpi_file_iread_all_cdesc E pr large (h ''fh'') d n t),
      (''File_iread_at'', \<lambda>d n t.
          mpi_file_iread_at_cdesc E pr large (h ''fh'') (i ''offset'') d n t),
      (''File_iread_at_all'', \<lambda>d n t.
          mpi_file_iread_at_all_cdesc E pr large (h ''fh'') (i ''offset'') d n t),
      (''File_iread_shared'', \<lambda>d n t.
          mpi_file_iread_shared_cdesc E pr large (h ''fh'') d n t),
      (''File_iwrite'', \<lambda>d n t. mpi_file_iwrite_cdesc E pr large (h ''fh'') d n t),
      (''File_iwrite_all'', \<lambda>d n t.
          mpi_file_iwrite_all_cdesc E pr large (h ''fh'') d n t),
      (''File_iwrite_at'', \<lambda>d n t.
          mpi_file_iwrite_at_cdesc E pr large (h ''fh'') (i ''offset'') d n t),
      (''File_iwrite_at_all'', \<lambda>d n t.
          mpi_file_iwrite_at_all_cdesc E pr large (h ''fh'') (i ''offset'') d n t),
      (''File_iwrite_shared'', \<lambda>d n t.
          mpi_file_iwrite_shared_cdesc E pr large (h ''fh'') d n t),
      (''File_read'', \<lambda>d n t.
          mpi_file_read_cdesc E pr large (h ''fh'') d n t (a ''status'')),
      (''File_read_all'', \<lambda>d n t.
          mpi_file_read_all_cdesc E pr large (h ''fh'') d n t (a ''status'')),
      (''File_read_all_begin'', \<lambda>d n t.
          mpi_file_read_all_begin_cdesc E pr large (h ''fh'') d n t),
      (''File_read_at'', \<lambda>d n t.
          mpi_file_read_at_cdesc E pr large (h ''fh'') (i ''offset'') d n t (a ''status'')),
      (''File_read_at_all'', \<lambda>d n t.
          mpi_file_read_at_all_cdesc E pr large (h ''fh'') (i ''offset'') d n t (a ''status'')),
      (''File_read_at_all_begin'', \<lambda>d n t.
          mpi_file_read_at_all_begin_cdesc E pr large (h ''fh'') (i ''offset'') d n t),
      (''File_read_ordered'', \<lambda>d n t.
          mpi_file_read_ordered_cdesc E pr large (h ''fh'') d n t (a ''status'')),
      (''File_read_ordered_begin'', \<lambda>d n t.
          mpi_file_read_ordered_begin_cdesc E pr large (h ''fh'') d n t),
      (''File_read_shared'', \<lambda>d n t.
          mpi_file_read_shared_cdesc E pr large (h ''fh'') d n t (a ''status'')),
      (''File_write'', \<lambda>d n t.
          mpi_file_write_cdesc E pr large (h ''fh'') d n t (a ''status'')),
      (''File_write_all'', \<lambda>d n t.
          mpi_file_write_all_cdesc E pr large (h ''fh'') d n t (a ''status'')),
      (''File_write_all_begin'', \<lambda>d n t.
          mpi_file_write_all_begin_cdesc E pr large (h ''fh'') d n t),
      (''File_write_at'', \<lambda>d n t.
          mpi_file_write_at_cdesc E pr large (h ''fh'') (i ''offset'') d n t (a ''status'')),
      (''File_write_at_all'', \<lambda>d n t.
          mpi_file_write_at_all_cdesc E pr large (h ''fh'') (i ''offset'') d n t (a ''status'')),
      (''File_write_at_all_begin'', \<lambda>d n t.
          mpi_file_write_at_all_begin_cdesc E pr large (h ''fh'') (i ''offset'') d n t),
      (''File_write_ordered'', \<lambda>d n t.
          mpi_file_write_ordered_cdesc E pr large (h ''fh'') d n t (a ''status'')),
      (''File_write_ordered_begin'', \<lambda>d n t.
          mpi_file_write_ordered_begin_cdesc E pr large (h ''fh'') d n t),
      (''File_write_shared'', \<lambda>d n t.
          mpi_file_write_shared_cdesc E pr large (h ''fh'') d n t (a ''status'')),
      (''Get'', \<lambda>d n t.
          mpi_get_cdesc E pr large d n t (i ''target_rank'') (i ''target_disp'') (i
           ''target_count'') (h ''target_datatype'') (h ''win'')),
      (''Ibcast'', \<lambda>d n t. mpi_ibcast_cdesc E pr large d n t (i ''root'') (h ''comm'')),
      (''Ibsend'', \<lambda>d n t.
          mpi_ibsend_cdesc E pr large d n t (i ''dest'') (i ''tag'') (h ''comm'')),
      (''Imrecv'', \<lambda>d n t. mpi_imrecv_cdesc E pr large d n t (h ''message'')),
      (''Irecv'', \<lambda>d n t.
          mpi_irecv_cdesc E pr large d n t (i ''source'') (i ''tag'') (h ''comm'')),
      (''Irsend'', \<lambda>d n t.
          mpi_irsend_cdesc E pr large d n t (i ''dest'') (i ''tag'') (h ''comm'')),
      (''Isend'', \<lambda>d n t.
          mpi_isend_cdesc E pr large d n t (i ''dest'') (i ''tag'') (h ''comm'')),
      (''Isendrecv_replace'', \<lambda>d n t.
          mpi_isendrecv_replace_cdesc E pr large d n t (i ''dest'') (i ''sendtag'') (i
           ''source'') (i ''recvtag'') (h ''comm'')),
      (''Issend'', \<lambda>d n t.
          mpi_issend_cdesc E pr large d n t (i ''dest'') (i ''tag'') (h ''comm'')),
      (''Mrecv'', \<lambda>d n t.
          mpi_mrecv_cdesc E pr large d n t (h ''message'') (a ''status'')),
      (''Put'', \<lambda>d n t.
          mpi_put_cdesc E pr large d n t (i ''target_rank'') (i ''target_disp'') (i
           ''target_count'') (h ''target_datatype'') (h ''win'')),
      (''Raccumulate'', \<lambda>d n t.
          mpi_raccumulate_cdesc E pr large d n t (i ''target_rank'') (i ''target_disp'') (i
           ''target_count'') (h ''target_datatype'') (h ''oper'') (h ''win'')),
      (''Recv'', \<lambda>d n t.
          mpi_recv_cdesc E pr large d n t (i ''source'') (i ''tag'') (h ''comm'') (a
           ''status'')),
      (''Recv_init'', \<lambda>d n t.
          mpi_recv_init_cdesc E pr large d n t (i ''source'') (i ''tag'') (h ''comm'')),
      (''Rget'', \<lambda>d n t.
          mpi_rget_cdesc E pr large d n t (i ''target_rank'') (i ''target_disp'') (i
           ''target_count'') (h ''target_datatype'') (h ''win'')),
      (''Rput'', \<lambda>d n t.
          mpi_rput_cdesc E pr large d n t (i ''target_rank'') (i ''target_disp'') (i
           ''target_count'') (h ''target_datatype'') (h ''win'')),
      (''Rsend'', \<lambda>d n t.
          mpi_rsend_cdesc E pr large d n t (i ''dest'') (i ''tag'') (h ''comm'')),
      (''Rsend_init'', \<lambda>d n t.
          mpi_rsend_init_cdesc E pr large d n t (i ''dest'') (i ''tag'') (h ''comm'')),
      (''Send'', \<lambda>d n t.
          mpi_send_cdesc E pr large d n t (i ''dest'') (i ''tag'') (h ''comm'')),
      (''Send_init'', \<lambda>d n t.
          mpi_send_init_cdesc E pr large d n t (i ''dest'') (i ''tag'') (h ''comm'')),
      (''Sendrecv_replace'', \<lambda>d n t.
          mpi_sendrecv_replace_cdesc E pr large d n t (i ''dest'') (i ''sendtag'') (i
           ''source'') (i ''recvtag'') (h ''comm'') (a ''status'')),
      (''Ssend'', \<lambda>d n t.
          mpi_ssend_cdesc E pr large d n t (i ''dest'') (i ''tag'') (h ''comm'')),
      (''Ssend_init'', \<lambda>d n t.
          mpi_ssend_init_cdesc E pr large d n t (i ''dest'') (i ''tag'') (h ''comm''))]"

lemmas single_defs =
  mpi_accumulate_cdesc_def
  mpi_bcast_cdesc_def
  mpi_bcast_init_cdesc_def
  mpi_bsend_cdesc_def
  mpi_bsend_init_cdesc_def
  mpi_file_iread_cdesc_def
  mpi_file_iread_all_cdesc_def
  mpi_file_iread_at_cdesc_def
  mpi_file_iread_at_all_cdesc_def
  mpi_file_iread_shared_cdesc_def
  mpi_file_iwrite_cdesc_def
  mpi_file_iwrite_all_cdesc_def
  mpi_file_iwrite_at_cdesc_def
  mpi_file_iwrite_at_all_cdesc_def
  mpi_file_iwrite_shared_cdesc_def
  mpi_file_read_cdesc_def
  mpi_file_read_all_cdesc_def
  mpi_file_read_all_begin_cdesc_def
  mpi_file_read_at_cdesc_def
  mpi_file_read_at_all_cdesc_def
  mpi_file_read_at_all_begin_cdesc_def
  mpi_file_read_ordered_cdesc_def
  mpi_file_read_ordered_begin_cdesc_def
  mpi_file_read_shared_cdesc_def
  mpi_file_write_cdesc_def
  mpi_file_write_all_cdesc_def
  mpi_file_write_all_begin_cdesc_def
  mpi_file_write_at_cdesc_def
  mpi_file_write_at_all_cdesc_def
  mpi_file_write_at_all_begin_cdesc_def
  mpi_file_write_ordered_cdesc_def
  mpi_file_write_ordered_begin_cdesc_def
  mpi_file_write_shared_cdesc_def
  mpi_get_cdesc_def
  mpi_ibcast_cdesc_def
  mpi_ibsend_cdesc_def
  mpi_imrecv_cdesc_def
  mpi_irecv_cdesc_def
  mpi_irsend_cdesc_def
  mpi_isend_cdesc_def
  mpi_isendrecv_replace_cdesc_def
  mpi_issend_cdesc_def
  mpi_mrecv_cdesc_def
  mpi_put_cdesc_def
  mpi_raccumulate_cdesc_def
  mpi_recv_cdesc_def
  mpi_recv_init_cdesc_def
  mpi_rget_cdesc_def
  mpi_rput_cdesc_def
  mpi_rsend_cdesc_def
  mpi_rsend_init_cdesc_def
  mpi_send_cdesc_def
  mpi_send_init_cdesc_def
  mpi_sendrecv_replace_cdesc_def
  mpi_ssend_cdesc_def
  mpi_ssend_init_cdesc_def

section \<open>What they all do\<close>

text \<open>
  Each passes its buffer as three consecutive arguments: the address, the count and the datatype
  that the checks leave.
\<close>

definition single_buffer_entry ::
    "('w, 'z) cdesc_lib_scheme \<Rightarrow> profile \<Rightarrow> bool \<Rightarrow> string \<Rightarrow>
     (cdesc \<Rightarrow> int \<Rightarrow> fint \<Rightarrow> 'w \<Rightarrow> fault + outcome \<times> 'w) \<Rightarrow> bool" where
  "single_buffer_entry E pr large name f \<longleftrightarrow>
     (\<exists>args ks. (\<forall>d n t. f d n t =
         entry1 E (Walk True n (of_int_handle E Type t)) d (\<lambda>q. calls E pr large name (args q) ks)) \<and>
       (\<forall>q. sublist [Buf (q_addr q), count_arg large q, Hdl (q_type q)] (args q)))"

lemma single_buffer_entryI:
  assumes "\<And>d n t. f d n t =
      entry1 E (Walk True n (of_int_handle E Type t)) d (\<lambda>q. calls E pr large name (args q) ks)"
    and "\<And>q. sublist [Buf (q_addr q), count_arg large q, Hdl (q_type q)] (args q)"
  shows "single_buffer_entry E pr large name f"
  unfolding single_buffer_entry_def using assms by blast

lemma single_buffer_entries_are:
  assumes "(name, f) \<in> set (single_buffer_entries E pr large i h a)"
  shows "single_buffer_entry E pr large name f"
proof -
  have "list_all (\<lambda>(name, f). single_buffer_entry E pr large name f) (single_buffer_entries E pr large i h a)"
    unfolding single_buffer_entries_def list.pred_inject prod.case
    by (intro conjI; ((rule single_buffer_entryI, rule single_defs, simp add: sublist_code) | simp))
  with assms show ?thesis by (auto simp: list_all_iff)
qed


section \<open>The property\<close>

text \<open>
  C20. A choice buffer is communicated as the array it is, by all 56 routines with one such buffer,
  their four versions each. For a count of whole array elements of a datatype whose size is its extent, an entry that
  gets as far as MPI passes it, as consecutive arguments, the buffer's base address with a count
  and a datatype that make MPI access exactly the first elements of the array in array element
  order, wherever the descriptor's strides put them: the caller's own pair for a contiguous array, one
  derived datatype otherwise, which is freed after the call. Only describing a strided array can fail: then
  the error is returned, nothing is done after the attempt, so MPI is not called, and no datatype is left.
\<close>

theorem single_buffer_calls_describe_section:
  assumes "type_laws (types E) tm" and "contiguity_law E"
    and "(name, f) \<in> set (single_buffer_entries E pr large i h a)"
    and "tm w (of_int_handle E Type ty) = Some t"
    and "PMPI_Type_size_c (types E) (of_int_handle E Type ty) w = (MPI_SUCCESS, sz)"
    and "within d n t sz" and "\<not> mpif_cdesc_is_sentinel (mpif_c_buffer (place E) (base_addr d))"
    and "f d n ty w = Inr (r, w')"
  shows "(\<exists>err. err \<noteq> MPI_SUCCESS \<and> r = \<lparr>ierror = err, out = []\<rparr> \<and> tm w' = tm w \<and>
       strided E (mpif_c_buffer (place E) (base_addr d)) d \<and>
       mpif_cdesc_create_datatype (types E) d n (of_int_handle E Type ty) w = Inr (err, None, w')) \<or>
    (\<exists>q args ks w1 w2. calls E pr large name args ks w1 = Inr (r, w2) \<and>
       sublist [Buf (mpif_c_buffer (place E) (base_addr d)), count_arg large q, Hdl (q_type q)] args \<and>
       message_places tm w1 q = Some (buffer_places d n t sz) \<and>
       (if strided E (mpif_c_buffer (place E) (base_addr d)) d
        then q_count q = 1 \<and> tm w (q_type q) = None \<and> (\<exists>u. tm w1 = (tm w)(q_type q \<mapsto> u)) \<and>
          w' = snd (PMPI_Type_free (types E) (q_type q) w2)
        else q_count q = n \<and> q_type q = of_int_handle E Type ty \<and> w1 = w \<and> w' = w2))"
proof -
  from single_buffer_entries_are [OF assms(3)] obtain args ks where
    f: "f d n ty = entry1 E (Walk True n (of_int_handle E Type ty)) d (\<lambda>q. calls E pr large name (args q) ks)"
    and args: "\<And>q. sublist [Buf (q_addr q), count_arg large q, Hdl (q_type q)] (args q)"
    unfolding single_buffer_entry_def by blast
  from entry1_describes [OF assms(1,2,4-7) assms(8) [unfolded f], unfolded passed_as_def]
  show ?thesis
  proof (elim disjE exE conjE)
    fix q w1 w2
    assume q: "calls E pr large name (args q) ks w1 = Inr (r, w2)" "q_addr q = mpif_c_buffer (place E) (base_addr d)"
      "message_places tm w1 q = Some (buffer_places d n t sz)"
      "if strided E (mpif_c_buffer (place E) (base_addr d)) d
        then q_count q = 1 \<and> tm w (q_type q) = None \<and> (\<exists>u. tm w1 = (tm w)(q_type q \<mapsto> u)) \<and>
          w' = snd (PMPI_Type_free (types E) (q_type q) w2)
        else q_count q = n \<and> q_type q = of_int_handle E Type ty \<and> w1 = w \<and> w' = w2"
    then show ?thesis
      using args [of q] by (intro disjI2 exI [of _ q] exI [of _ "args q"] exI conjI) simp_all
  qed blast
qed

section \<open>A library to evaluate with\<close>

text \<open>A test of contiguity that satisfies the law: each stride is what the dimensions below cover.\<close>

fun dense_dims :: "int \<Rightarrow> (int \<times> int) list \<Rightarrow> bool" where
  "dense_dims e [] \<longleftrightarrow> True"
| "dense_dims e ((x, sm) # ds) \<longleftrightarrow> sm = e \<and> dense_dims (x * e) ds"

lemma dense_dims_offset: "dense_dims e ds \<Longrightarrow> k < elements ds \<Longrightarrow> element_offset ds k = int k * e"
proof (induction ds arbitrary: e k)
  case (Cons d ds)
  obtain x sm where d: "d = (x, sm)" by (cases d)
  with Cons.prems(2) have x: "0 < x" "k < nat x * elements ds" by (auto intro: ccontr)
  then have "k div nat x < elements ds" by (simp add: less_mult_imp_div_less mult.commute)
  with Cons.IH [of "x * e" "k div nat x"] Cons.prems(1) d
  have "element_offset ds (k div nat x) = int (k div nat x) * (x * e)" by simp
  moreover have "int k = int (k mod nat x) + int (k div nat x) * x"
    using x(1) by (metis mod_div_mult_eq of_nat_add of_nat_mult int_nat_eq order_less_imp_le)
  moreover have "sm = e" using Cons.prems(1) d by simp
  ultimately show ?case by (simp add: d algebra_simps)
qed simp

definition demo_lib :: "type_world cdesc_lib" where
  "demo_lib =
     \<lparr>place = packed, handles = identity_handles, logicals = \<lparr>logical_true = 1, logical_false = 0\<rparr>,
      PMPI_Comm_test_inter = (\<lambda>_ _. (MPI_SUCCESS, False)), PMPI_Comm_rank = (\<lambda>_ _. (MPI_SUCCESS, 1)),
      PMPI_Comm_size = (\<lambda>_ _. (MPI_SUCCESS, 3)), PMPI_Comm_remote_size = (\<lambda>_ _. (MPI_SUCCESS, 3)),
      PMPI_Topo_test = (\<lambda>_ _. (MPI_SUCCESS, MPI_CART)), PMPI_Cartdim_get = (\<lambda>_ _. (MPI_SUCCESS, 1)),
      PMPI_Graph_neighbors_count = (\<lambda>_ _ _. (MPI_SUCCESS, 2)),
      PMPI_Dist_graph_neighbors_count = (\<lambda>_ _. (MPI_SUCCESS, 2, 2)),
      mpi = (\<lambda>pr large name args w. (short_reply MPI_SUCCESS (\<lambda>_. MPI_REQUEST_NULL), w)),
      types = byte_types, CFI_is_contiguous = (\<lambda>d. dense_dims (elem_len d) (dims d))\<rparr>"

lemma demo_lib_laws: "type_laws (types demo_lib) fst" "contiguity_law demo_lib"
  by (simp_all add: demo_lib_def byte_types_laws contiguity_law_def dense_dims_offset)

lemma demo_lib_handles: "of_int_handle demo_lib Type 0x21d = 0x21d"
  by (simp add: demo_lib_def identity_handles_def to_aint_def)

lemma demo_cdesc_addr: "mpif_c_buffer packed 4096 = 4096"
  by (simp add: mpif_c_buffer_def cell_addr_packed packed_cell_def)

lemma demo_send:
  "mpi_send_cdesc demo_lib MPI False demo_cdesc 4 0x21d 1 7 0x101 demo_world =
     Inr (\<lparr>ierror = MPI_SUCCESS, out = []\<rparr>, ([0x21d \<mapsto> \<lparr>places = [0], tm_lb = 0, tm_extent = 1\<rparr>], 3))"
proof -
  have st: "strided demo_lib 4096 demo_cdesc"
    by (simp add: strided_def demo_cdesc_def demo_lib_def mpif_cdesc_is_sentinel_def)
  have lib: "place demo_lib = packed" "types demo_lib = byte_types" "base_addr demo_cdesc = 4096"
    "mpi demo_lib pr large name args w = (short_reply MPI_SUCCESS (\<lambda>_. MPI_REQUEST_NULL), w)" for pr large name args w
    by (simp_all add: demo_lib_def demo_cdesc_def)
  have free: "free_owned byte_types True 2 ([0x21d \<mapsto> t, 2 \<mapsto> u], 3) = ([0x21d \<mapsto> t], 3)" for t u
    by (auto simp: free_owned_def byte_types_def fun_eq_iff)
  show ?thesis
    by (simp add: mpi_send_cdesc_def entry1_def entry_def demo_lib_handles lib demo_cdesc_addr st
        demo_cdesc_datatype free)
qed

theorem single_buffer_calls_describe_section_witness:
  "\<exists>q args ks w1 w2. calls demo_lib MPI False ''Send'' args ks w1 =
       Inr (\<lparr>ierror = MPI_SUCCESS, out = []\<rparr>, w2) \<and>
     sublist [Buf 4096, count_arg False q, Hdl (q_type q)] args \<and>
     message_places fst w1 q = Some [0, 1, 4, 5] \<and> q_count q = 1 \<and>
     snd (PMPI_Type_free byte_types (q_type q) w2) = ([0x21d \<mapsto> \<lparr>places = [0], tm_lb = 0, tm_extent = 1\<rparr>], 3)"
proof -
  let ?t = "\<lparr>places = [0], tm_lb = 0, tm_extent = 1\<rparr>"
  have mem: "(''Send'', \<lambda>d n t. mpi_send_cdesc demo_lib MPI False d n t 1 7 0x101)
      \<in> set (single_buffer_entries demo_lib MPI False (\<lambda>s. if s = ''tag'' then 7 else 1) (\<lambda>_. 0x101) a)" for a
    by (simp add: single_buffer_entries_def)
  have t: "fst demo_world (of_int_handle demo_lib Type 0x21d) = Some ?t"
    "PMPI_Type_size_c (types demo_lib) (of_int_handle demo_lib Type 0x21d) demo_world = (MPI_SUCCESS, 1)"
    unfolding demo_lib_handles by (simp_all add: demo_world_def demo_lib_def byte_types_def)
  have w: "within demo_cdesc 4 ?t 1"
    by (simp add: within_def demo_cdesc_def cdesc_factor_def cdesc_count_def)
  have places: "buffer_places demo_cdesc 4 ?t 1 = [0, 1, 4, 5]"
    by (simp add: buffer_places_def demo_cdesc_def cdesc_factor_def cdesc_count_def base_places_def
        section_places_def shift_def upt_rec)
  have a: "mpif_c_buffer (place demo_lib) (base_addr demo_cdesc) = 4096"
    by (simp add: demo_lib_def demo_cdesc_def demo_cdesc_addr)
  have ns: "\<not> mpif_cdesc_is_sentinel (mpif_c_buffer (place demo_lib) (base_addr demo_cdesc))"
    unfolding a by (simp add: mpif_cdesc_is_sentinel_def)
  have st: "strided demo_lib 4096 demo_cdesc" and types: "types demo_lib = byte_types"
    by (simp_all add: strided_def demo_cdesc_def demo_lib_def mpif_cdesc_is_sentinel_def)
  note call = single_buffer_calls_describe_section [OF demo_lib_laws mem t w ns demo_send,
      unfolded a if_P [OF st] places types]
  show ?thesis
    using call by (elim disjE exE conjE) (simp, intro exI conjI, assumption+, rule sym, assumption)
qed

end
