(* ===== verification/Cdesc_Pairs.thy ===== *)
theory Cdesc_Pairs
  imports Cdesc_Single
begin

text \<open>
  The remaining entry points of \<open>gen/mpif_f08_cdesc.c\<close>: those with two choice buffers, those that
  ask for the root or for the number of ranks first, and those that only need an address. As
  before, one definition stands for a routine's four C functions; a routine without large-count
  version has two.
\<close>

section \<open>Two buffers with a count and a datatype each\<close>

text \<open>
  Both are described if need be; when the second fails, the datatype of the first is freed.
\<close>

definition mpi_allgather_cdesc where
  "mpi_allgather_cdesc E pr large sendbuf sendcount sendtype recvbuf recvcount recvtype comm =
     entry2 E (Walk True sendcount (of_int_handle E Type sendtype)) sendbuf
       (Walk True recvcount (of_int_handle E Type recvtype))
       recvbuf (\<lambda>q_sendbuf q_recvbuf.
       calls E pr large ''Allgather''
         [Buf (q_addr q_sendbuf), count_arg large q_sendbuf, Hdl (q_type q_sendbuf),
          Buf (q_addr q_recvbuf), count_arg large q_recvbuf, Hdl (q_type q_recvbuf),
          Hdl (of_int_handle E Comm comm)] [])"

definition mpi_allgather_init_cdesc where
  "mpi_allgather_init_cdesc E pr large sendbuf sendcount sendtype recvbuf recvcount recvtype comm
    info =
     entry2 E (Walk True sendcount (of_int_handle E Type sendtype)) sendbuf
       (Walk True recvcount (of_int_handle E Type recvtype))
       recvbuf (\<lambda>q_sendbuf q_recvbuf.
       calls E pr large ''Allgather_init''
         [Buf (q_addr q_sendbuf), count_arg large q_sendbuf, Hdl (q_type q_sendbuf),
          Buf (q_addr q_recvbuf), count_arg large q_recvbuf, Hdl (q_type q_recvbuf),
          Hdl (of_int_handle E Comm comm), Hdl (of_int_handle E Info info),
          Temp ''request'' MPI_REQUEST_NULL] [Handle Request ''request''])"

definition mpi_alltoall_cdesc where
  "mpi_alltoall_cdesc E pr large sendbuf sendcount sendtype recvbuf recvcount recvtype comm =
     entry2 E (Walk True sendcount (of_int_handle E Type sendtype)) sendbuf
       (Walk True recvcount (of_int_handle E Type recvtype))
       recvbuf (\<lambda>q_sendbuf q_recvbuf.
       calls E pr large ''Alltoall''
         [Buf (q_addr q_sendbuf), count_arg large q_sendbuf, Hdl (q_type q_sendbuf),
          Buf (q_addr q_recvbuf), count_arg large q_recvbuf, Hdl (q_type q_recvbuf),
          Hdl (of_int_handle E Comm comm)] [])"

definition mpi_alltoall_init_cdesc where
  "mpi_alltoall_init_cdesc E pr large sendbuf sendcount sendtype recvbuf recvcount recvtype comm
    info =
     entry2 E (Walk True sendcount (of_int_handle E Type sendtype)) sendbuf
       (Walk True recvcount (of_int_handle E Type recvtype))
       recvbuf (\<lambda>q_sendbuf q_recvbuf.
       calls E pr large ''Alltoall_init''
         [Buf (q_addr q_sendbuf), count_arg large q_sendbuf, Hdl (q_type q_sendbuf),
          Buf (q_addr q_recvbuf), count_arg large q_recvbuf, Hdl (q_type q_recvbuf),
          Hdl (of_int_handle E Comm comm), Hdl (of_int_handle E Info info),
          Temp ''request'' MPI_REQUEST_NULL] [Handle Request ''request''])"

definition mpi_get_accumulate_cdesc where
  "mpi_get_accumulate_cdesc E pr large origin_addr origin_count origin_datatype result_addr
    result_count result_datatype target_rank target_disp target_count target_datatype oper win =
     entry2 E (Walk True origin_count (of_int_handle E Type origin_datatype)) origin_addr
       (Walk True result_count (of_int_handle E Type result_datatype))
       result_addr (\<lambda>q_origin_addr q_result_addr.
       calls E pr large ''Get_accumulate''
         [Buf (q_addr q_origin_addr), count_arg large q_origin_addr, Hdl (q_type q_origin_addr),
          Buf (q_addr q_result_addr), count_arg large q_result_addr, Hdl (q_type q_result_addr),
          Val target_rank, Val target_disp, Val target_count,
          Hdl (of_int_handle E Type target_datatype), Hdl (of_int_handle E Op oper),
          Hdl (of_int_handle E Win win)] [])"

definition mpi_iallgather_cdesc where
  "mpi_iallgather_cdesc E pr large sendbuf sendcount sendtype recvbuf recvcount recvtype comm =
     entry2 E (Walk True sendcount (of_int_handle E Type sendtype)) sendbuf
       (Walk True recvcount (of_int_handle E Type recvtype))
       recvbuf (\<lambda>q_sendbuf q_recvbuf.
       calls E pr large ''Iallgather''
         [Buf (q_addr q_sendbuf), count_arg large q_sendbuf, Hdl (q_type q_sendbuf),
          Buf (q_addr q_recvbuf), count_arg large q_recvbuf, Hdl (q_type q_recvbuf),
          Hdl (of_int_handle E Comm comm), Temp ''request'' MPI_REQUEST_NULL] [Handle Request ''request''])"

definition mpi_ialltoall_cdesc where
  "mpi_ialltoall_cdesc E pr large sendbuf sendcount sendtype recvbuf recvcount recvtype comm =
     entry2 E (Walk True sendcount (of_int_handle E Type sendtype)) sendbuf
       (Walk True recvcount (of_int_handle E Type recvtype))
       recvbuf (\<lambda>q_sendbuf q_recvbuf.
       calls E pr large ''Ialltoall''
         [Buf (q_addr q_sendbuf), count_arg large q_sendbuf, Hdl (q_type q_sendbuf),
          Buf (q_addr q_recvbuf), count_arg large q_recvbuf, Hdl (q_type q_recvbuf),
          Hdl (of_int_handle E Comm comm), Temp ''request'' MPI_REQUEST_NULL] [Handle Request ''request''])"

definition mpi_ineighbor_allgather_cdesc where
  "mpi_ineighbor_allgather_cdesc E pr large sendbuf sendcount sendtype recvbuf recvcount recvtype
    comm =
     entry2 E (Walk True sendcount (of_int_handle E Type sendtype)) sendbuf
       (Walk True recvcount (of_int_handle E Type recvtype))
       recvbuf (\<lambda>q_sendbuf q_recvbuf.
       calls E pr large ''Ineighbor_allgather''
         [Buf (q_addr q_sendbuf), count_arg large q_sendbuf, Hdl (q_type q_sendbuf),
          Buf (q_addr q_recvbuf), count_arg large q_recvbuf, Hdl (q_type q_recvbuf),
          Hdl (of_int_handle E Comm comm), Temp ''request'' MPI_REQUEST_NULL] [Handle Request ''request''])"

definition mpi_ineighbor_alltoall_cdesc where
  "mpi_ineighbor_alltoall_cdesc E pr large sendbuf sendcount sendtype recvbuf recvcount recvtype
    comm =
     entry2 E (Walk True sendcount (of_int_handle E Type sendtype)) sendbuf
       (Walk True recvcount (of_int_handle E Type recvtype))
       recvbuf (\<lambda>q_sendbuf q_recvbuf.
       calls E pr large ''Ineighbor_alltoall''
         [Buf (q_addr q_sendbuf), count_arg large q_sendbuf, Hdl (q_type q_sendbuf),
          Buf (q_addr q_recvbuf), count_arg large q_recvbuf, Hdl (q_type q_recvbuf),
          Hdl (of_int_handle E Comm comm), Temp ''request'' MPI_REQUEST_NULL] [Handle Request ''request''])"

definition mpi_isendrecv_cdesc where
  "mpi_isendrecv_cdesc E pr large sendbuf sendcount sendtype dest sendtag recvbuf recvcount
    recvtype source recvtag comm =
     entry2 E (Walk True sendcount (of_int_handle E Type sendtype)) sendbuf
       (Walk True recvcount (of_int_handle E Type recvtype))
       recvbuf (\<lambda>q_sendbuf q_recvbuf.
       calls E pr large ''Isendrecv''
         [Buf (q_addr q_sendbuf), count_arg large q_sendbuf, Hdl (q_type q_sendbuf), Val dest,
          Val sendtag, Buf (q_addr q_recvbuf), count_arg large q_recvbuf,
          Hdl (q_type q_recvbuf), Val source, Val recvtag, Hdl (of_int_handle E Comm comm),
          Temp ''request'' MPI_REQUEST_NULL] [Handle Request ''request''])"

definition mpi_neighbor_allgather_cdesc where
  "mpi_neighbor_allgather_cdesc E pr large sendbuf sendcount sendtype recvbuf recvcount recvtype
    comm =
     entry2 E (Walk True sendcount (of_int_handle E Type sendtype)) sendbuf
       (Walk True recvcount (of_int_handle E Type recvtype))
       recvbuf (\<lambda>q_sendbuf q_recvbuf.
       calls E pr large ''Neighbor_allgather''
         [Buf (q_addr q_sendbuf), count_arg large q_sendbuf, Hdl (q_type q_sendbuf),
          Buf (q_addr q_recvbuf), count_arg large q_recvbuf, Hdl (q_type q_recvbuf),
          Hdl (of_int_handle E Comm comm)] [])"

definition mpi_neighbor_allgather_init_cdesc where
  "mpi_neighbor_allgather_init_cdesc E pr large sendbuf sendcount sendtype recvbuf recvcount
    recvtype comm info =
     entry2 E (Walk True sendcount (of_int_handle E Type sendtype)) sendbuf
       (Walk True recvcount (of_int_handle E Type recvtype))
       recvbuf (\<lambda>q_sendbuf q_recvbuf.
       calls E pr large ''Neighbor_allgather_init''
         [Buf (q_addr q_sendbuf), count_arg large q_sendbuf, Hdl (q_type q_sendbuf),
          Buf (q_addr q_recvbuf), count_arg large q_recvbuf, Hdl (q_type q_recvbuf),
          Hdl (of_int_handle E Comm comm), Hdl (of_int_handle E Info info),
          Temp ''request'' MPI_REQUEST_NULL] [Handle Request ''request''])"

definition mpi_neighbor_alltoall_cdesc where
  "mpi_neighbor_alltoall_cdesc E pr large sendbuf sendcount sendtype recvbuf recvcount recvtype
    comm =
     entry2 E (Walk True sendcount (of_int_handle E Type sendtype)) sendbuf
       (Walk True recvcount (of_int_handle E Type recvtype))
       recvbuf (\<lambda>q_sendbuf q_recvbuf.
       calls E pr large ''Neighbor_alltoall''
         [Buf (q_addr q_sendbuf), count_arg large q_sendbuf, Hdl (q_type q_sendbuf),
          Buf (q_addr q_recvbuf), count_arg large q_recvbuf, Hdl (q_type q_recvbuf),
          Hdl (of_int_handle E Comm comm)] [])"

definition mpi_neighbor_alltoall_init_cdesc where
  "mpi_neighbor_alltoall_init_cdesc E pr large sendbuf sendcount sendtype recvbuf recvcount
    recvtype comm info =
     entry2 E (Walk True sendcount (of_int_handle E Type sendtype)) sendbuf
       (Walk True recvcount (of_int_handle E Type recvtype))
       recvbuf (\<lambda>q_sendbuf q_recvbuf.
       calls E pr large ''Neighbor_alltoall_init''
         [Buf (q_addr q_sendbuf), count_arg large q_sendbuf, Hdl (q_type q_sendbuf),
          Buf (q_addr q_recvbuf), count_arg large q_recvbuf, Hdl (q_type q_recvbuf),
          Hdl (of_int_handle E Comm comm), Hdl (of_int_handle E Info info),
          Temp ''request'' MPI_REQUEST_NULL] [Handle Request ''request''])"

definition mpi_rget_accumulate_cdesc where
  "mpi_rget_accumulate_cdesc E pr large origin_addr origin_count origin_datatype result_addr
    result_count result_datatype target_rank target_disp target_count target_datatype oper win =
     entry2 E (Walk True origin_count (of_int_handle E Type origin_datatype)) origin_addr
       (Walk True result_count (of_int_handle E Type result_datatype))
       result_addr (\<lambda>q_origin_addr q_result_addr.
       calls E pr large ''Rget_accumulate''
         [Buf (q_addr q_origin_addr), count_arg large q_origin_addr, Hdl (q_type q_origin_addr),
          Buf (q_addr q_result_addr), count_arg large q_result_addr, Hdl (q_type q_result_addr),
          Val target_rank, Val target_disp, Val target_count,
          Hdl (of_int_handle E Type target_datatype), Hdl (of_int_handle E Op oper),
          Hdl (of_int_handle E Win win), Temp ''request'' MPI_REQUEST_NULL] [Handle Request ''request''])"

definition mpi_sendrecv_cdesc where
  "mpi_sendrecv_cdesc E pr large sendbuf sendcount sendtype dest sendtag recvbuf recvcount
    recvtype source recvtag comm status =
     entry2 E (Walk True sendcount (of_int_handle E Type sendtype)) sendbuf
       (Walk True recvcount (of_int_handle E Type recvtype))
       recvbuf (\<lambda>q_sendbuf q_recvbuf.
       calls E pr large ''Sendrecv''
         [Buf (q_addr q_sendbuf), count_arg large q_sendbuf, Hdl (q_type q_sendbuf), Val dest,
          Val sendtag, Buf (q_addr q_recvbuf), count_arg large q_recvbuf,
          Hdl (q_type q_recvbuf), Val source, Val recvtag, Hdl (of_int_handle E Comm comm),
          Buf (mpif_c_status (place E) status)] [])"

section \<open>Buffers that must be contiguous\<close>

text \<open>
  The reductions, whose operators are not defined on derived datatypes, the exchanges with a count per
  rank, and partitioned communication.
\<close>

definition mpi_allreduce_cdesc where
  "mpi_allreduce_cdesc E pr large sendbuf recvbuf cnt datatype oper comm =
     entry2 E (Contig True) sendbuf
       (Contig True)
       recvbuf (\<lambda>q_sendbuf q_recvbuf.
       calls E pr large ''Allreduce''
         [Buf (q_addr q_sendbuf), Buf (q_addr q_recvbuf), Val cnt,
          Hdl (of_int_handle E Type datatype), Hdl (of_int_handle E Op oper),
          Hdl (of_int_handle E Comm comm)] [])"

definition mpi_allreduce_init_cdesc where
  "mpi_allreduce_init_cdesc E pr large sendbuf recvbuf cnt datatype oper comm info =
     entry2 E (Contig True) sendbuf
       (Contig True)
       recvbuf (\<lambda>q_sendbuf q_recvbuf.
       calls E pr large ''Allreduce_init''
         [Buf (q_addr q_sendbuf), Buf (q_addr q_recvbuf), Val cnt,
          Hdl (of_int_handle E Type datatype), Hdl (of_int_handle E Op oper),
          Hdl (of_int_handle E Comm comm), Hdl (of_int_handle E Info info),
          Temp ''request'' MPI_REQUEST_NULL] [Handle Request ''request''])"

definition mpi_alltoallv_cdesc where
  "mpi_alltoallv_cdesc E pr large sendbuf sendcounts sdispls sendtype recvbuf recvcounts rdispls
    recvtype comm =
     entry2 E (Contig True) sendbuf
       (Contig True)
       recvbuf (\<lambda>q_sendbuf q_recvbuf.
       calls E pr large ''Alltoallv''
         [Buf (q_addr q_sendbuf), Buf sendcounts, Buf sdispls,
          Hdl (of_int_handle E Type sendtype), Buf (q_addr q_recvbuf), Buf recvcounts,
          Buf rdispls, Hdl (of_int_handle E Type recvtype), Hdl (of_int_handle E Comm comm)] [])"

definition mpi_alltoallv_init_cdesc where
  "mpi_alltoallv_init_cdesc E pr large sendbuf sendcounts sdispls sendtype recvbuf recvcounts
    rdispls recvtype comm info =
     entry2 E (Contig True) sendbuf
       (Contig True)
       recvbuf (\<lambda>q_sendbuf q_recvbuf.
       calls E pr large ''Alltoallv_init''
         [Buf (q_addr q_sendbuf), Buf sendcounts, Buf sdispls,
          Hdl (of_int_handle E Type sendtype), Buf (q_addr q_recvbuf), Buf recvcounts,
          Buf rdispls, Hdl (of_int_handle E Type recvtype), Hdl (of_int_handle E Comm comm),
          Hdl (of_int_handle E Info info), Temp ''request'' MPI_REQUEST_NULL] [Handle Request ''request''])"

definition mpi_exscan_cdesc where
  "mpi_exscan_cdesc E pr large sendbuf recvbuf cnt datatype oper comm =
     entry2 E (Contig True) sendbuf
       (Contig True)
       recvbuf (\<lambda>q_sendbuf q_recvbuf.
       calls E pr large ''Exscan''
         [Buf (q_addr q_sendbuf), Buf (q_addr q_recvbuf), Val cnt,
          Hdl (of_int_handle E Type datatype), Hdl (of_int_handle E Op oper),
          Hdl (of_int_handle E Comm comm)] [])"

definition mpi_exscan_init_cdesc where
  "mpi_exscan_init_cdesc E pr large sendbuf recvbuf cnt datatype oper comm info =
     entry2 E (Contig True) sendbuf
       (Contig True)
       recvbuf (\<lambda>q_sendbuf q_recvbuf.
       calls E pr large ''Exscan_init''
         [Buf (q_addr q_sendbuf), Buf (q_addr q_recvbuf), Val cnt,
          Hdl (of_int_handle E Type datatype), Hdl (of_int_handle E Op oper),
          Hdl (of_int_handle E Comm comm), Hdl (of_int_handle E Info info),
          Temp ''request'' MPI_REQUEST_NULL] [Handle Request ''request''])"

definition mpi_iallreduce_cdesc where
  "mpi_iallreduce_cdesc E pr large sendbuf recvbuf cnt datatype oper comm =
     entry2 E (Contig True) sendbuf
       (Contig True)
       recvbuf (\<lambda>q_sendbuf q_recvbuf.
       calls E pr large ''Iallreduce''
         [Buf (q_addr q_sendbuf), Buf (q_addr q_recvbuf), Val cnt,
          Hdl (of_int_handle E Type datatype), Hdl (of_int_handle E Op oper),
          Hdl (of_int_handle E Comm comm), Temp ''request'' MPI_REQUEST_NULL] [Handle Request ''request''])"

definition mpi_ialltoallv_cdesc where
  "mpi_ialltoallv_cdesc E pr large sendbuf sendcounts sdispls sendtype recvbuf recvcounts rdispls
    recvtype comm =
     entry2 E (Contig True) sendbuf
       (Contig True)
       recvbuf (\<lambda>q_sendbuf q_recvbuf.
       calls E pr large ''Ialltoallv''
         [Buf (q_addr q_sendbuf), Buf sendcounts, Buf sdispls,
          Hdl (of_int_handle E Type sendtype), Buf (q_addr q_recvbuf), Buf recvcounts,
          Buf rdispls, Hdl (of_int_handle E Type recvtype), Hdl (of_int_handle E Comm comm),
          Temp ''request'' MPI_REQUEST_NULL] [Handle Request ''request''])"

definition mpi_iexscan_cdesc where
  "mpi_iexscan_cdesc E pr large sendbuf recvbuf cnt datatype oper comm =
     entry2 E (Contig True) sendbuf
       (Contig True)
       recvbuf (\<lambda>q_sendbuf q_recvbuf.
       calls E pr large ''Iexscan''
         [Buf (q_addr q_sendbuf), Buf (q_addr q_recvbuf), Val cnt,
          Hdl (of_int_handle E Type datatype), Hdl (of_int_handle E Op oper),
          Hdl (of_int_handle E Comm comm), Temp ''request'' MPI_REQUEST_NULL] [Handle Request ''request''])"

definition mpi_ineighbor_alltoallv_cdesc where
  "mpi_ineighbor_alltoallv_cdesc E pr large sendbuf sendcounts sdispls sendtype recvbuf recvcounts
    rdispls recvtype comm =
     entry2 E (Contig True) sendbuf
       (Contig True)
       recvbuf (\<lambda>q_sendbuf q_recvbuf.
       calls E pr large ''Ineighbor_alltoallv''
         [Buf (q_addr q_sendbuf), Buf sendcounts, Buf sdispls,
          Hdl (of_int_handle E Type sendtype), Buf (q_addr q_recvbuf), Buf recvcounts,
          Buf rdispls, Hdl (of_int_handle E Type recvtype), Hdl (of_int_handle E Comm comm),
          Temp ''request'' MPI_REQUEST_NULL] [Handle Request ''request''])"

definition mpi_ireduce_scatter_cdesc where
  "mpi_ireduce_scatter_cdesc E pr large sendbuf recvbuf recvcounts datatype oper comm =
     entry2 E (Contig True) sendbuf
       (Contig True)
       recvbuf (\<lambda>q_sendbuf q_recvbuf.
       calls E pr large ''Ireduce_scatter''
         [Buf (q_addr q_sendbuf), Buf (q_addr q_recvbuf), Buf recvcounts,
          Hdl (of_int_handle E Type datatype), Hdl (of_int_handle E Op oper),
          Hdl (of_int_handle E Comm comm), Temp ''request'' MPI_REQUEST_NULL] [Handle Request ''request''])"

definition mpi_ireduce_scatter_block_cdesc where
  "mpi_ireduce_scatter_block_cdesc E pr large sendbuf recvbuf recvcount datatype oper comm =
     entry2 E (Contig True) sendbuf
       (Contig True)
       recvbuf (\<lambda>q_sendbuf q_recvbuf.
       calls E pr large ''Ireduce_scatter_block''
         [Buf (q_addr q_sendbuf), Buf (q_addr q_recvbuf), Val recvcount,
          Hdl (of_int_handle E Type datatype), Hdl (of_int_handle E Op oper),
          Hdl (of_int_handle E Comm comm), Temp ''request'' MPI_REQUEST_NULL] [Handle Request ''request''])"

definition mpi_iscan_cdesc where
  "mpi_iscan_cdesc E pr large sendbuf recvbuf cnt datatype oper comm =
     entry2 E (Contig True) sendbuf
       (Contig True)
       recvbuf (\<lambda>q_sendbuf q_recvbuf.
       calls E pr large ''Iscan''
         [Buf (q_addr q_sendbuf), Buf (q_addr q_recvbuf), Val cnt,
          Hdl (of_int_handle E Type datatype), Hdl (of_int_handle E Op oper),
          Hdl (of_int_handle E Comm comm), Temp ''request'' MPI_REQUEST_NULL] [Handle Request ''request''])"

definition mpi_neighbor_alltoallv_cdesc where
  "mpi_neighbor_alltoallv_cdesc E pr large sendbuf sendcounts sdispls sendtype recvbuf recvcounts
    rdispls recvtype comm =
     entry2 E (Contig True) sendbuf
       (Contig True)
       recvbuf (\<lambda>q_sendbuf q_recvbuf.
       calls E pr large ''Neighbor_alltoallv''
         [Buf (q_addr q_sendbuf), Buf sendcounts, Buf sdispls,
          Hdl (of_int_handle E Type sendtype), Buf (q_addr q_recvbuf), Buf recvcounts,
          Buf rdispls, Hdl (of_int_handle E Type recvtype), Hdl (of_int_handle E Comm comm)] [])"

definition mpi_neighbor_alltoallv_init_cdesc where
  "mpi_neighbor_alltoallv_init_cdesc E pr large sendbuf sendcounts sdispls sendtype recvbuf
    recvcounts rdispls recvtype comm info =
     entry2 E (Contig True) sendbuf
       (Contig True)
       recvbuf (\<lambda>q_sendbuf q_recvbuf.
       calls E pr large ''Neighbor_alltoallv_init''
         [Buf (q_addr q_sendbuf), Buf sendcounts, Buf sdispls,
          Hdl (of_int_handle E Type sendtype), Buf (q_addr q_recvbuf), Buf recvcounts,
          Buf rdispls, Hdl (of_int_handle E Type recvtype), Hdl (of_int_handle E Comm comm),
          Hdl (of_int_handle E Info info), Temp ''request'' MPI_REQUEST_NULL] [Handle Request ''request''])"

definition mpi_precv_init_cdesc where
  "mpi_precv_init_cdesc E pr buf partitions cnt datatype source tag comm info =
     entry1 E (Contig True) buf (\<lambda>q_buf.
       calls E pr False ''Precv_init''
         [Buf (q_addr q_buf), Val partitions, Val cnt, Hdl (of_int_handle E Type datatype),
          Val source, Val tag, Hdl (of_int_handle E Comm comm), Hdl (of_int_handle E Info info),
          Temp ''request'' MPI_REQUEST_NULL] [Handle Request ''request''])"

definition mpi_psend_init_cdesc where
  "mpi_psend_init_cdesc E pr buf partitions cnt datatype dest tag comm info =
     entry1 E (Contig True) buf (\<lambda>q_buf.
       calls E pr False ''Psend_init''
         [Buf (q_addr q_buf), Val partitions, Val cnt, Hdl (of_int_handle E Type datatype),
          Val dest, Val tag, Hdl (of_int_handle E Comm comm), Hdl (of_int_handle E Info info),
          Temp ''request'' MPI_REQUEST_NULL] [Handle Request ''request''])"

definition mpi_reduce_local_cdesc where
  "mpi_reduce_local_cdesc E pr large inbuf inoutbuf cnt datatype oper =
     entry2 E (Contig True) inbuf
       (Contig True)
       inoutbuf (\<lambda>q_inbuf q_inoutbuf.
       calls E pr large ''Reduce_local''
         [Buf (q_addr q_inbuf), Buf (q_addr q_inoutbuf), Val cnt,
          Hdl (of_int_handle E Type datatype), Hdl (of_int_handle E Op oper)] [])"

definition mpi_reduce_scatter_cdesc where
  "mpi_reduce_scatter_cdesc E pr large sendbuf recvbuf recvcounts datatype oper comm =
     entry2 E (Contig True) sendbuf
       (Contig True)
       recvbuf (\<lambda>q_sendbuf q_recvbuf.
       calls E pr large ''Reduce_scatter''
         [Buf (q_addr q_sendbuf), Buf (q_addr q_recvbuf), Buf recvcounts,
          Hdl (of_int_handle E Type datatype), Hdl (of_int_handle E Op oper),
          Hdl (of_int_handle E Comm comm)] [])"

definition mpi_reduce_scatter_block_cdesc where
  "mpi_reduce_scatter_block_cdesc E pr large sendbuf recvbuf recvcount datatype oper comm =
     entry2 E (Contig True) sendbuf
       (Contig True)
       recvbuf (\<lambda>q_sendbuf q_recvbuf.
       calls E pr large ''Reduce_scatter_block''
         [Buf (q_addr q_sendbuf), Buf (q_addr q_recvbuf), Val recvcount,
          Hdl (of_int_handle E Type datatype), Hdl (of_int_handle E Op oper),
          Hdl (of_int_handle E Comm comm)] [])"

definition mpi_reduce_scatter_block_init_cdesc where
  "mpi_reduce_scatter_block_init_cdesc E pr large sendbuf recvbuf recvcount datatype oper comm
    info =
     entry2 E (Contig True) sendbuf
       (Contig True)
       recvbuf (\<lambda>q_sendbuf q_recvbuf.
       calls E pr large ''Reduce_scatter_block_init''
         [Buf (q_addr q_sendbuf), Buf (q_addr q_recvbuf), Val recvcount,
          Hdl (of_int_handle E Type datatype), Hdl (of_int_handle E Op oper),
          Hdl (of_int_handle E Comm comm), Hdl (of_int_handle E Info info),
          Temp ''request'' MPI_REQUEST_NULL] [Handle Request ''request''])"

definition mpi_reduce_scatter_init_cdesc where
  "mpi_reduce_scatter_init_cdesc E pr large sendbuf recvbuf recvcounts datatype oper comm info =
     entry2 E (Contig True) sendbuf
       (Contig True)
       recvbuf (\<lambda>q_sendbuf q_recvbuf.
       calls E pr large ''Reduce_scatter_init''
         [Buf (q_addr q_sendbuf), Buf (q_addr q_recvbuf), Buf recvcounts,
          Hdl (of_int_handle E Type datatype), Hdl (of_int_handle E Op oper),
          Hdl (of_int_handle E Comm comm), Hdl (of_int_handle E Info info),
          Temp ''request'' MPI_REQUEST_NULL] [Handle Request ''request''])"

definition mpi_scan_cdesc where
  "mpi_scan_cdesc E pr large sendbuf recvbuf cnt datatype oper comm =
     entry2 E (Contig True) sendbuf
       (Contig True)
       recvbuf (\<lambda>q_sendbuf q_recvbuf.
       calls E pr large ''Scan''
         [Buf (q_addr q_sendbuf), Buf (q_addr q_recvbuf), Val cnt,
          Hdl (of_int_handle E Type datatype), Hdl (of_int_handle E Op oper),
          Hdl (of_int_handle E Comm comm)] [])"

definition mpi_scan_init_cdesc where
  "mpi_scan_init_cdesc E pr large sendbuf recvbuf cnt datatype oper comm info =
     entry2 E (Contig True) sendbuf
       (Contig True)
       recvbuf (\<lambda>q_sendbuf q_recvbuf.
       calls E pr large ''Scan_init''
         [Buf (q_addr q_sendbuf), Buf (q_addr q_recvbuf), Val cnt,
          Hdl (of_int_handle E Type datatype), Hdl (of_int_handle E Op oper),
          Hdl (of_int_handle E Comm comm), Hdl (of_int_handle E Info info),
          Temp ''request'' MPI_REQUEST_NULL] [Handle Request ''request''])"

section \<open>One buffer of each sort\<close>

text \<open>
  Gathers with a count per rank into a contiguous buffer, and packing into one.
\<close>

definition mpi_allgatherv_cdesc where
  "mpi_allgatherv_cdesc E pr large sendbuf sendcount sendtype recvbuf recvcounts displs recvtype
    comm =
     entry2 E (Walk True sendcount (of_int_handle E Type sendtype)) sendbuf
       (Contig True)
       recvbuf (\<lambda>q_sendbuf q_recvbuf.
       calls E pr large ''Allgatherv''
         [Buf (q_addr q_sendbuf), count_arg large q_sendbuf, Hdl (q_type q_sendbuf),
          Buf (q_addr q_recvbuf), Buf recvcounts, Buf displs,
          Hdl (of_int_handle E Type recvtype), Hdl (of_int_handle E Comm comm)] [])"

definition mpi_allgatherv_init_cdesc where
  "mpi_allgatherv_init_cdesc E pr large sendbuf sendcount sendtype recvbuf recvcounts displs
    recvtype comm info =
     entry2 E (Walk True sendcount (of_int_handle E Type sendtype)) sendbuf
       (Contig True)
       recvbuf (\<lambda>q_sendbuf q_recvbuf.
       calls E pr large ''Allgatherv_init''
         [Buf (q_addr q_sendbuf), count_arg large q_sendbuf, Hdl (q_type q_sendbuf),
          Buf (q_addr q_recvbuf), Buf recvcounts, Buf displs,
          Hdl (of_int_handle E Type recvtype), Hdl (of_int_handle E Comm comm),
          Hdl (of_int_handle E Info info), Temp ''request'' MPI_REQUEST_NULL] [Handle Request ''request''])"

definition mpi_iallgatherv_cdesc where
  "mpi_iallgatherv_cdesc E pr large sendbuf sendcount sendtype recvbuf recvcounts displs recvtype
    comm =
     entry2 E (Walk True sendcount (of_int_handle E Type sendtype)) sendbuf
       (Contig True)
       recvbuf (\<lambda>q_sendbuf q_recvbuf.
       calls E pr large ''Iallgatherv''
         [Buf (q_addr q_sendbuf), count_arg large q_sendbuf, Hdl (q_type q_sendbuf),
          Buf (q_addr q_recvbuf), Buf recvcounts, Buf displs,
          Hdl (of_int_handle E Type recvtype), Hdl (of_int_handle E Comm comm),
          Temp ''request'' MPI_REQUEST_NULL] [Handle Request ''request''])"

definition mpi_ineighbor_allgatherv_cdesc where
  "mpi_ineighbor_allgatherv_cdesc E pr large sendbuf sendcount sendtype recvbuf recvcounts displs
    recvtype comm =
     entry2 E (Walk True sendcount (of_int_handle E Type sendtype)) sendbuf
       (Contig True)
       recvbuf (\<lambda>q_sendbuf q_recvbuf.
       calls E pr large ''Ineighbor_allgatherv''
         [Buf (q_addr q_sendbuf), count_arg large q_sendbuf, Hdl (q_type q_sendbuf),
          Buf (q_addr q_recvbuf), Buf recvcounts, Buf displs,
          Hdl (of_int_handle E Type recvtype), Hdl (of_int_handle E Comm comm),
          Temp ''request'' MPI_REQUEST_NULL] [Handle Request ''request''])"

definition mpi_neighbor_allgatherv_cdesc where
  "mpi_neighbor_allgatherv_cdesc E pr large sendbuf sendcount sendtype recvbuf recvcounts displs
    recvtype comm =
     entry2 E (Walk True sendcount (of_int_handle E Type sendtype)) sendbuf
       (Contig True)
       recvbuf (\<lambda>q_sendbuf q_recvbuf.
       calls E pr large ''Neighbor_allgatherv''
         [Buf (q_addr q_sendbuf), count_arg large q_sendbuf, Hdl (q_type q_sendbuf),
          Buf (q_addr q_recvbuf), Buf recvcounts, Buf displs,
          Hdl (of_int_handle E Type recvtype), Hdl (of_int_handle E Comm comm)] [])"

definition mpi_neighbor_allgatherv_init_cdesc where
  "mpi_neighbor_allgatherv_init_cdesc E pr large sendbuf sendcount sendtype recvbuf recvcounts
    displs recvtype comm info =
     entry2 E (Walk True sendcount (of_int_handle E Type sendtype)) sendbuf
       (Contig True)
       recvbuf (\<lambda>q_sendbuf q_recvbuf.
       calls E pr large ''Neighbor_allgatherv_init''
         [Buf (q_addr q_sendbuf), count_arg large q_sendbuf, Hdl (q_type q_sendbuf),
          Buf (q_addr q_recvbuf), Buf recvcounts, Buf displs,
          Hdl (of_int_handle E Type recvtype), Hdl (of_int_handle E Comm comm),
          Hdl (of_int_handle E Info info), Temp ''request'' MPI_REQUEST_NULL] [Handle Request ''request''])"

definition mpi_pack_cdesc where
  "mpi_pack_cdesc E pr large inbuf incount datatype outbuf outsize position comm =
     entry2 E (Walk True incount (of_int_handle E Type datatype)) inbuf
       (Contig True)
       outbuf (\<lambda>q_inbuf q_outbuf.
       calls E pr large ''Pack''
         [Buf (q_addr q_inbuf), count_arg large q_inbuf, Hdl (q_type q_inbuf),
          Buf (q_addr q_outbuf), Val outsize, Buf position, Hdl (of_int_handle E Comm comm)] [])"

definition mpi_unpack_cdesc where
  "mpi_unpack_cdesc E pr large inbuf insize position outbuf outcount datatype comm =
     entry2 E (Contig True) inbuf
       (Walk True outcount (of_int_handle E Type datatype))
       outbuf (\<lambda>q_inbuf q_outbuf.
       calls E pr large ''Unpack''
         [Buf (q_addr q_inbuf), Val insize, Buf position, Buf (q_addr q_outbuf),
          count_arg large q_outbuf, Hdl (q_type q_outbuf), Hdl (of_int_handle E Comm comm)] [])"

section \<open>Rooted collectives\<close>

text \<open>
  Whether this process is the root is asked first: the root's buffer is looked at, and its datatype
  converted, only there.
\<close>

definition mpi_gather_cdesc where
  "mpi_gather_cdesc E pr large sendbuf sendcount sendtype recvbuf recvcount recvtype root comm =
     probing (at_root E (of_int_handle E Comm comm) root) (\<lambda>q_at_root.
       entry2 E (Walk True sendcount (of_int_handle E Type sendtype)) sendbuf
         (Walk q_at_root recvcount (if q_at_root then of_int_handle E Type recvtype else MPI_DATATYPE_NULL))
         recvbuf (\<lambda>q_sendbuf q_recvbuf.
         calls E pr large ''Gather''
           [Buf (q_addr q_sendbuf), count_arg large q_sendbuf, Hdl (q_type q_sendbuf),
            Buf (q_addr q_recvbuf), count_arg large q_recvbuf, Hdl (q_type q_recvbuf),
            Val (sint root), Hdl (of_int_handle E Comm comm)] []))"

definition mpi_gather_init_cdesc where
  "mpi_gather_init_cdesc E pr large sendbuf sendcount sendtype recvbuf recvcount recvtype root
    comm info =
     probing (at_root E (of_int_handle E Comm comm) root) (\<lambda>q_at_root.
       entry2 E (Walk True sendcount (of_int_handle E Type sendtype)) sendbuf
         (Walk q_at_root recvcount (if q_at_root then of_int_handle E Type recvtype else MPI_DATATYPE_NULL))
         recvbuf (\<lambda>q_sendbuf q_recvbuf.
         calls E pr large ''Gather_init''
           [Buf (q_addr q_sendbuf), count_arg large q_sendbuf, Hdl (q_type q_sendbuf),
            Buf (q_addr q_recvbuf), count_arg large q_recvbuf, Hdl (q_type q_recvbuf),
            Val (sint root), Hdl (of_int_handle E Comm comm), Hdl (of_int_handle E Info info),
            Temp ''request'' MPI_REQUEST_NULL] [Handle Request ''request'']))"

definition mpi_gatherv_cdesc where
  "mpi_gatherv_cdesc E pr large sendbuf sendcount sendtype recvbuf recvcounts displs recvtype root
    comm =
     probing (at_root E (of_int_handle E Comm comm) root) (\<lambda>q_at_root.
       entry2 E (Walk True sendcount (of_int_handle E Type sendtype)) sendbuf
         (Contig q_at_root)
         recvbuf (\<lambda>q_sendbuf q_recvbuf.
         calls E pr large ''Gatherv''
           [Buf (q_addr q_sendbuf), count_arg large q_sendbuf, Hdl (q_type q_sendbuf),
            Buf (q_addr q_recvbuf), Buf recvcounts, Buf displs,
            Hdl (if q_at_root then of_int_handle E Type recvtype else MPI_DATATYPE_NULL),
            Val (sint root), Hdl (of_int_handle E Comm comm)] []))"

definition mpi_gatherv_init_cdesc where
  "mpi_gatherv_init_cdesc E pr large sendbuf sendcount sendtype recvbuf recvcounts displs recvtype
    root comm info =
     probing (at_root E (of_int_handle E Comm comm) root) (\<lambda>q_at_root.
       entry2 E (Walk True sendcount (of_int_handle E Type sendtype)) sendbuf
         (Contig q_at_root)
         recvbuf (\<lambda>q_sendbuf q_recvbuf.
         calls E pr large ''Gatherv_init''
           [Buf (q_addr q_sendbuf), count_arg large q_sendbuf, Hdl (q_type q_sendbuf),
            Buf (q_addr q_recvbuf), Buf recvcounts, Buf displs,
            Hdl (if q_at_root then of_int_handle E Type recvtype else MPI_DATATYPE_NULL),
            Val (sint root), Hdl (of_int_handle E Comm comm), Hdl (of_int_handle E Info info),
            Temp ''request'' MPI_REQUEST_NULL] [Handle Request ''request'']))"

definition mpi_igather_cdesc where
  "mpi_igather_cdesc E pr large sendbuf sendcount sendtype recvbuf recvcount recvtype root comm =
     probing (at_root E (of_int_handle E Comm comm) root) (\<lambda>q_at_root.
       entry2 E (Walk True sendcount (of_int_handle E Type sendtype)) sendbuf
         (Walk q_at_root recvcount (if q_at_root then of_int_handle E Type recvtype else MPI_DATATYPE_NULL))
         recvbuf (\<lambda>q_sendbuf q_recvbuf.
         calls E pr large ''Igather''
           [Buf (q_addr q_sendbuf), count_arg large q_sendbuf, Hdl (q_type q_sendbuf),
            Buf (q_addr q_recvbuf), count_arg large q_recvbuf, Hdl (q_type q_recvbuf),
            Val (sint root), Hdl (of_int_handle E Comm comm), Temp ''request'' MPI_REQUEST_NULL] [Handle Request ''request'']))"

definition mpi_igatherv_cdesc where
  "mpi_igatherv_cdesc E pr large sendbuf sendcount sendtype recvbuf recvcounts displs recvtype
    root comm =
     probing (at_root E (of_int_handle E Comm comm) root) (\<lambda>q_at_root.
       entry2 E (Walk True sendcount (of_int_handle E Type sendtype)) sendbuf
         (Contig q_at_root)
         recvbuf (\<lambda>q_sendbuf q_recvbuf.
         calls E pr large ''Igatherv''
           [Buf (q_addr q_sendbuf), count_arg large q_sendbuf, Hdl (q_type q_sendbuf),
            Buf (q_addr q_recvbuf), Buf recvcounts, Buf displs,
            Hdl (if q_at_root then of_int_handle E Type recvtype else MPI_DATATYPE_NULL),
            Val (sint root), Hdl (of_int_handle E Comm comm), Temp ''request'' MPI_REQUEST_NULL] [Handle Request ''request'']))"

definition mpi_ireduce_cdesc where
  "mpi_ireduce_cdesc E pr large sendbuf recvbuf cnt datatype oper root comm =
     probing (at_root E (of_int_handle E Comm comm) root) (\<lambda>q_at_root.
       entry2 E (Contig True) sendbuf
         (Contig q_at_root)
         recvbuf (\<lambda>q_sendbuf q_recvbuf.
         calls E pr large ''Ireduce''
           [Buf (q_addr q_sendbuf), Buf (q_addr q_recvbuf), Val cnt,
            Hdl (of_int_handle E Type datatype), Hdl (of_int_handle E Op oper), Val (sint root),
            Hdl (of_int_handle E Comm comm), Temp ''request'' MPI_REQUEST_NULL] [Handle Request ''request'']))"

definition mpi_iscatter_cdesc where
  "mpi_iscatter_cdesc E pr large sendbuf sendcount sendtype recvbuf recvcount recvtype root comm =
     probing (at_root E (of_int_handle E Comm comm) root) (\<lambda>q_at_root.
       entry2 E (Walk q_at_root sendcount (if q_at_root then of_int_handle E Type sendtype else MPI_DATATYPE_NULL)) sendbuf
         (Walk True recvcount (of_int_handle E Type recvtype))
         recvbuf (\<lambda>q_sendbuf q_recvbuf.
         calls E pr large ''Iscatter''
           [Buf (q_addr q_sendbuf), count_arg large q_sendbuf, Hdl (q_type q_sendbuf),
            Buf (q_addr q_recvbuf), count_arg large q_recvbuf, Hdl (q_type q_recvbuf),
            Val (sint root), Hdl (of_int_handle E Comm comm), Temp ''request'' MPI_REQUEST_NULL] [Handle Request ''request'']))"

definition mpi_iscatterv_cdesc where
  "mpi_iscatterv_cdesc E pr large sendbuf sendcounts displs sendtype recvbuf recvcount recvtype
    root comm =
     probing (at_root E (of_int_handle E Comm comm) root) (\<lambda>q_at_root.
       entry2 E (Contig q_at_root) sendbuf
         (Walk True recvcount (of_int_handle E Type recvtype))
         recvbuf (\<lambda>q_sendbuf q_recvbuf.
         calls E pr large ''Iscatterv''
           [Buf (q_addr q_sendbuf), Buf sendcounts, Buf displs,
            Hdl (if q_at_root then of_int_handle E Type sendtype else MPI_DATATYPE_NULL),
            Buf (q_addr q_recvbuf), count_arg large q_recvbuf, Hdl (q_type q_recvbuf),
            Val (sint root), Hdl (of_int_handle E Comm comm), Temp ''request'' MPI_REQUEST_NULL] [Handle Request ''request'']))"

definition mpi_reduce_cdesc where
  "mpi_reduce_cdesc E pr large sendbuf recvbuf cnt datatype oper root comm =
     probing (at_root E (of_int_handle E Comm comm) root) (\<lambda>q_at_root.
       entry2 E (Contig True) sendbuf
         (Contig q_at_root)
         recvbuf (\<lambda>q_sendbuf q_recvbuf.
         calls E pr large ''Reduce''
           [Buf (q_addr q_sendbuf), Buf (q_addr q_recvbuf), Val cnt,
            Hdl (of_int_handle E Type datatype), Hdl (of_int_handle E Op oper), Val (sint root),
            Hdl (of_int_handle E Comm comm)] []))"

definition mpi_reduce_init_cdesc where
  "mpi_reduce_init_cdesc E pr large sendbuf recvbuf cnt datatype oper root comm info =
     probing (at_root E (of_int_handle E Comm comm) root) (\<lambda>q_at_root.
       entry2 E (Contig True) sendbuf
         (Contig q_at_root)
         recvbuf (\<lambda>q_sendbuf q_recvbuf.
         calls E pr large ''Reduce_init''
           [Buf (q_addr q_sendbuf), Buf (q_addr q_recvbuf), Val cnt,
            Hdl (of_int_handle E Type datatype), Hdl (of_int_handle E Op oper), Val (sint root),
            Hdl (of_int_handle E Comm comm), Hdl (of_int_handle E Info info),
            Temp ''request'' MPI_REQUEST_NULL] [Handle Request ''request'']))"

definition mpi_scatter_cdesc where
  "mpi_scatter_cdesc E pr large sendbuf sendcount sendtype recvbuf recvcount recvtype root comm =
     probing (at_root E (of_int_handle E Comm comm) root) (\<lambda>q_at_root.
       entry2 E (Walk q_at_root sendcount (if q_at_root then of_int_handle E Type sendtype else MPI_DATATYPE_NULL)) sendbuf
         (Walk True recvcount (of_int_handle E Type recvtype))
         recvbuf (\<lambda>q_sendbuf q_recvbuf.
         calls E pr large ''Scatter''
           [Buf (q_addr q_sendbuf), count_arg large q_sendbuf, Hdl (q_type q_sendbuf),
            Buf (q_addr q_recvbuf), count_arg large q_recvbuf, Hdl (q_type q_recvbuf),
            Val (sint root), Hdl (of_int_handle E Comm comm)] []))"

definition mpi_scatter_init_cdesc where
  "mpi_scatter_init_cdesc E pr large sendbuf sendcount sendtype recvbuf recvcount recvtype root
    comm info =
     probing (at_root E (of_int_handle E Comm comm) root) (\<lambda>q_at_root.
       entry2 E (Walk q_at_root sendcount (if q_at_root then of_int_handle E Type sendtype else MPI_DATATYPE_NULL)) sendbuf
         (Walk True recvcount (of_int_handle E Type recvtype))
         recvbuf (\<lambda>q_sendbuf q_recvbuf.
         calls E pr large ''Scatter_init''
           [Buf (q_addr q_sendbuf), count_arg large q_sendbuf, Hdl (q_type q_sendbuf),
            Buf (q_addr q_recvbuf), count_arg large q_recvbuf, Hdl (q_type q_recvbuf),
            Val (sint root), Hdl (of_int_handle E Comm comm), Hdl (of_int_handle E Info info),
            Temp ''request'' MPI_REQUEST_NULL] [Handle Request ''request'']))"

definition mpi_scatterv_cdesc where
  "mpi_scatterv_cdesc E pr large sendbuf sendcounts displs sendtype recvbuf recvcount recvtype
    root comm =
     probing (at_root E (of_int_handle E Comm comm) root) (\<lambda>q_at_root.
       entry2 E (Contig q_at_root) sendbuf
         (Walk True recvcount (of_int_handle E Type recvtype))
         recvbuf (\<lambda>q_sendbuf q_recvbuf.
         calls E pr large ''Scatterv''
           [Buf (q_addr q_sendbuf), Buf sendcounts, Buf displs,
            Hdl (if q_at_root then of_int_handle E Type sendtype else MPI_DATATYPE_NULL),
            Buf (q_addr q_recvbuf), count_arg large q_recvbuf, Hdl (q_type q_recvbuf),
            Val (sint root), Hdl (of_int_handle E Comm comm)] []))"

definition mpi_scatterv_init_cdesc where
  "mpi_scatterv_init_cdesc E pr large sendbuf sendcounts displs sendtype recvbuf recvcount
    recvtype root comm info =
     probing (at_root E (of_int_handle E Comm comm) root) (\<lambda>q_at_root.
       entry2 E (Contig q_at_root) sendbuf
         (Walk q_at_root recvcount (of_int_handle E Type recvtype))
         recvbuf (\<lambda>q_sendbuf q_recvbuf.
         calls E pr large ''Scatterv_init''
           [Buf (q_addr q_sendbuf), Buf sendcounts, Buf displs,
            Hdl (if q_at_root then of_int_handle E Type sendtype else MPI_DATATYPE_NULL),
            Buf (q_addr q_recvbuf), count_arg large q_recvbuf, Hdl (q_type q_recvbuf),
            Val (sint root), Hdl (of_int_handle E Comm comm), Hdl (of_int_handle E Info info),
            Temp ''request'' MPI_REQUEST_NULL] [Handle Request ''request'']))"

section \<open>A datatype per rank\<close>

text \<open>
  The number of datatypes comes from the communicator. With \<open>MPI_IN_PLACE\<close> as send buffer the send
  datatypes are not significant and are not read.
\<close>

definition send_types ::
    "('w, 'z) mpi_lib_scheme \<Rightarrow> addr \<Rightarrow> fint list \<Rightarrow> fint \<Rightarrow> fault + handle list" where
  "send_types E q_sendbuf sendtypes n =
     (if q_sendbuf \<noteq> MPI_IN_PLACE then from_array (handles E) Type sendtypes n
      else Inr (replicate (nat (sint n)) MPI_DATATYPE_NULL))"

definition mpi_alltoallw_cdesc where
  "mpi_alltoallw_cdesc E pr large sendbuf sendcounts sdispls sendtypes recvbuf recvcounts rdispls
    recvtypes comm =
     probing (group_size E (of_int_handle E Comm comm)) (\<lambda>n w.
       bindE (send_types E (mpif_c_buffer (place E) (base_addr sendbuf)) sendtypes n) (\<lambda>c_sendtypes.
       bindE (from_array (handles E) Type recvtypes n) (\<lambda>c_recvtypes.
         entry2 E (Contig True) sendbuf
           (Contig True)
           recvbuf (\<lambda>q_sendbuf q_recvbuf.
           calls E pr large ''Alltoallw''
             [Buf (q_addr q_sendbuf), Buf sendcounts, Buf sdispls, Handles c_sendtypes,
              Buf (q_addr q_recvbuf), Buf recvcounts, Buf rdispls, Handles c_recvtypes,
              Hdl (of_int_handle E Comm comm)] []) w)))"

definition mpi_alltoallw_init_cdesc where
  "mpi_alltoallw_init_cdesc E pr large sendbuf sendcounts sdispls sendtypes recvbuf recvcounts
    rdispls recvtypes comm info =
     probing (group_size E (of_int_handle E Comm comm)) (\<lambda>n w.
       bindE (send_types E (mpif_c_buffer (place E) (base_addr sendbuf)) sendtypes n) (\<lambda>c_sendtypes.
       bindE (from_array (handles E) Type recvtypes n) (\<lambda>c_recvtypes.
         entry2 E (Contig True) sendbuf
           (Contig True)
           recvbuf (\<lambda>q_sendbuf q_recvbuf.
           calls E pr large ''Alltoallw_init''
             [Buf (q_addr q_sendbuf), Buf sendcounts, Buf sdispls, Handles c_sendtypes,
              Buf (q_addr q_recvbuf), Buf recvcounts, Buf rdispls, Handles c_recvtypes,
              Hdl (of_int_handle E Comm comm), Hdl (of_int_handle E Info info),
              Temp ''request'' MPI_REQUEST_NULL] [Handle Request ''request'']) w)))"

definition mpi_ialltoallw_cdesc where
  "mpi_ialltoallw_cdesc E pr large sendbuf sendcounts sdispls sendtypes recvbuf recvcounts rdispls
    recvtypes comm =
     probing (group_size E (of_int_handle E Comm comm)) (\<lambda>n w.
       bindE (send_types E (mpif_c_buffer (place E) (base_addr sendbuf)) sendtypes n) (\<lambda>c_sendtypes.
       bindE (from_array (handles E) Type recvtypes n) (\<lambda>c_recvtypes.
         entry2 E (Contig True) sendbuf
           (Contig True)
           recvbuf (\<lambda>q_sendbuf q_recvbuf.
           calls E pr large ''Ialltoallw''
             [Buf (q_addr q_sendbuf), Buf sendcounts, Buf sdispls, Handles c_sendtypes,
              Buf (q_addr q_recvbuf), Buf recvcounts, Buf rdispls, Handles c_recvtypes,
              Hdl (of_int_handle E Comm comm), Temp ''request'' MPI_REQUEST_NULL] [Handle Request ''request'']) w)))"

definition mpi_ineighbor_alltoallw_cdesc where
  "mpi_ineighbor_alltoallw_cdesc E pr large sendbuf sendcounts sdispls sendtypes recvbuf
    recvcounts rdispls recvtypes comm =
     probing (neighbour_counts E (of_int_handle E Comm comm)) (\<lambda>(indegree, outdegree) w.
       bindE (send_types E (mpif_c_buffer (place E) (base_addr sendbuf)) sendtypes outdegree) (\<lambda>c_sendtypes.
       bindE (from_array (handles E) Type recvtypes indegree) (\<lambda>c_recvtypes.
         entry2 E (Contig True) sendbuf
           (Contig True)
           recvbuf (\<lambda>q_sendbuf q_recvbuf.
           calls E pr large ''Ineighbor_alltoallw''
             [Buf (q_addr q_sendbuf), Buf sendcounts, Buf sdispls, Handles c_sendtypes,
              Buf (q_addr q_recvbuf), Buf recvcounts, Buf rdispls, Handles c_recvtypes,
              Hdl (of_int_handle E Comm comm), Temp ''request'' MPI_REQUEST_NULL] [Handle Request ''request'']) w)))"

definition mpi_neighbor_alltoallw_cdesc where
  "mpi_neighbor_alltoallw_cdesc E pr large sendbuf sendcounts sdispls sendtypes recvbuf recvcounts
    rdispls recvtypes comm =
     probing (neighbour_counts E (of_int_handle E Comm comm)) (\<lambda>(indegree, outdegree) w.
       bindE (send_types E (mpif_c_buffer (place E) (base_addr sendbuf)) sendtypes outdegree) (\<lambda>c_sendtypes.
       bindE (from_array (handles E) Type recvtypes indegree) (\<lambda>c_recvtypes.
         entry2 E (Contig True) sendbuf
           (Contig True)
           recvbuf (\<lambda>q_sendbuf q_recvbuf.
           calls E pr large ''Neighbor_alltoallw''
             [Buf (q_addr q_sendbuf), Buf sendcounts, Buf sdispls, Handles c_sendtypes,
              Buf (q_addr q_recvbuf), Buf recvcounts, Buf rdispls, Handles c_recvtypes,
              Hdl (of_int_handle E Comm comm)] []) w)))"

definition mpi_neighbor_alltoallw_init_cdesc where
  "mpi_neighbor_alltoallw_init_cdesc E pr large sendbuf sendcounts sdispls sendtypes recvbuf
    recvcounts rdispls recvtypes comm info =
     probing (neighbour_counts E (of_int_handle E Comm comm)) (\<lambda>(indegree, outdegree) w.
       bindE (send_types E (mpif_c_buffer (place E) (base_addr sendbuf)) sendtypes outdegree) (\<lambda>c_sendtypes.
       bindE (from_array (handles E) Type recvtypes indegree) (\<lambda>c_recvtypes.
         entry2 E (Contig True) sendbuf
           (Contig True)
           recvbuf (\<lambda>q_sendbuf q_recvbuf.
           calls E pr large ''Neighbor_alltoallw_init''
             [Buf (q_addr q_sendbuf), Buf sendcounts, Buf sdispls, Handles c_sendtypes,
              Buf (q_addr q_recvbuf), Buf recvcounts, Buf rdispls, Handles c_recvtypes,
              Hdl (of_int_handle E Comm comm), Hdl (of_int_handle E Info info),
              Temp ''request'' MPI_REQUEST_NULL] [Handle Request ''request'']) w)))"

section \<open>Buffers that are addresses\<close>

text \<open>
  No layout matters here: attaching, detaching, windows, single elements, and the second halves of
  split file operations.
\<close>

definition mpi_buffer_attach_cdesc where
  "mpi_buffer_attach_cdesc E pr large buffer sz =
     calls E pr large ''Buffer_attach''
       [Buf (mpif_c_buffer (place E) (base_addr buffer)), Val sz] []"

definition mpi_comm_attach_buffer_cdesc where
  "mpi_comm_attach_buffer_cdesc E pr large comm buffer sz =
     calls E pr large ''Comm_attach_buffer''
       [Hdl (of_int_handle E Comm comm), Buf (mpif_c_buffer (place E) (base_addr buffer)),
        Val sz] []"

definition mpi_compare_and_swap_cdesc where
  "mpi_compare_and_swap_cdesc E pr origin_addr compare_addr result_addr datatype target_rank
    target_disp win =
     calls E pr False ''Compare_and_swap''
       [Buf (mpif_c_buffer (place E) (base_addr origin_addr)),
        Buf (mpif_c_buffer (place E) (base_addr compare_addr)),
        Buf (mpif_c_buffer (place E) (base_addr result_addr)),
        Hdl (of_int_handle E Type datatype), Val target_rank, Val target_disp,
        Hdl (of_int_handle E Win win)] []"

definition mpi_fetch_and_op_cdesc where
  "mpi_fetch_and_op_cdesc E pr origin_addr result_addr datatype target_rank target_disp oper win =
     calls E pr False ''Fetch_and_op''
       [Buf (mpif_c_buffer (place E) (base_addr origin_addr)),
        Buf (mpif_c_buffer (place E) (base_addr result_addr)),
        Hdl (of_int_handle E Type datatype), Val target_rank, Val target_disp,
        Hdl (of_int_handle E Op oper), Hdl (of_int_handle E Win win)] []"

definition mpi_file_read_all_end_cdesc where
  "mpi_file_read_all_end_cdesc E pr fh buf status =
     calls E pr False ''File_read_all_end''
       [Hdl (of_int_handle E File fh), Buf (mpif_c_buffer (place E) (base_addr buf)),
        Buf (mpif_c_status (place E) status)] []"

definition mpi_file_read_at_all_end_cdesc where
  "mpi_file_read_at_all_end_cdesc E pr fh buf status =
     calls E pr False ''File_read_at_all_end''
       [Hdl (of_int_handle E File fh), Buf (mpif_c_buffer (place E) (base_addr buf)),
        Buf (mpif_c_status (place E) status)] []"

definition mpi_file_read_ordered_end_cdesc where
  "mpi_file_read_ordered_end_cdesc E pr fh buf status =
     calls E pr False ''File_read_ordered_end''
       [Hdl (of_int_handle E File fh), Buf (mpif_c_buffer (place E) (base_addr buf)),
        Buf (mpif_c_status (place E) status)] []"

definition mpi_file_write_all_end_cdesc where
  "mpi_file_write_all_end_cdesc E pr fh buf status =
     calls E pr False ''File_write_all_end''
       [Hdl (of_int_handle E File fh), Buf (mpif_c_buffer (place E) (base_addr buf)),
        Buf (mpif_c_status (place E) status)] []"

definition mpi_file_write_at_all_end_cdesc where
  "mpi_file_write_at_all_end_cdesc E pr fh buf status =
     calls E pr False ''File_write_at_all_end''
       [Hdl (of_int_handle E File fh), Buf (mpif_c_buffer (place E) (base_addr buf)),
        Buf (mpif_c_status (place E) status)] []"

definition mpi_file_write_ordered_end_cdesc where
  "mpi_file_write_ordered_end_cdesc E pr fh buf status =
     calls E pr False ''File_write_ordered_end''
       [Hdl (of_int_handle E File fh), Buf (mpif_c_buffer (place E) (base_addr buf)),
        Buf (mpif_c_status (place E) status)] []"

definition mpi_free_mem_cdesc where
  "mpi_free_mem_cdesc E pr base =
     calls E pr False ''Free_mem''
       [Buf (mpif_c_buffer (place E) (base_addr base))] []"

definition mpi_get_address_cdesc where
  "mpi_get_address_cdesc E pr location address =
     calls E pr False ''Get_address''
       [Buf (mpif_c_buffer (place E) (base_addr location)), Buf address] []"

definition mpi_session_attach_buffer_cdesc where
  "mpi_session_attach_buffer_cdesc E pr large session buffer sz =
     calls E pr large ''Session_attach_buffer''
       [Hdl (of_int_handle E Session session), Buf (mpif_c_buffer (place E) (base_addr buffer)),
        Val sz] []"

definition mpi_win_attach_cdesc where
  "mpi_win_attach_cdesc E pr win base sz =
     calls E pr False ''Win_attach''
       [Hdl (of_int_handle E Win win), Buf (mpif_c_buffer (place E) (base_addr base)), Val sz] []"

definition mpi_win_create_cdesc where
  "mpi_win_create_cdesc E pr large base sz disp_unit info comm =
     calls E pr large ''Win_create''
       [Buf (mpif_c_buffer (place E) (base_addr base)), Val sz, Val disp_unit,
        Hdl (of_int_handle E Info info), Hdl (of_int_handle E Comm comm),
        Temp ''win'' (null_handle Win)] [Handle Win ''win'']"

definition mpi_win_detach_cdesc where
  "mpi_win_detach_cdesc E pr win base =
     calls E pr False ''Win_detach''
       [Hdl (of_int_handle E Win win), Buf (mpif_c_buffer (place E) (base_addr base))] []"

section \<open>Families\<close>

text \<open>The entries with two described buffers, as functions of those buffers.\<close>

definition two_buffer_entries where
  "two_buffer_entries E pr large i h a =
     [
      (''Allgather'', \<lambda>d1 n1 t1 d2 n2 t2.
          mpi_allgather_cdesc E pr large d1 n1 t1 d2 n2 t2 (h ''comm'')),
      (''Allgather_init'', \<lambda>d1 n1 t1 d2 n2 t2.
          mpi_allgather_init_cdesc E pr large d1 n1 t1 d2 n2 t2 (h ''comm'') (h ''info'')),
      (''Alltoall'', \<lambda>d1 n1 t1 d2 n2 t2.
          mpi_alltoall_cdesc E pr large d1 n1 t1 d2 n2 t2 (h ''comm'')),
      (''Alltoall_init'', \<lambda>d1 n1 t1 d2 n2 t2.
          mpi_alltoall_init_cdesc E pr large d1 n1 t1 d2 n2 t2 (h ''comm'') (h ''info'')),
      (''Get_accumulate'', \<lambda>d1 n1 t1 d2 n2 t2.
          mpi_get_accumulate_cdesc E pr large d1 n1 t1 d2 n2 t2 (i ''target_rank'') (i
           ''target_disp'') (i ''target_count'') (h ''target_datatype'') (h ''oper'') (h
           ''win'')),
      (''Iallgather'', \<lambda>d1 n1 t1 d2 n2 t2.
          mpi_iallgather_cdesc E pr large d1 n1 t1 d2 n2 t2 (h ''comm'')),
      (''Ialltoall'', \<lambda>d1 n1 t1 d2 n2 t2.
          mpi_ialltoall_cdesc E pr large d1 n1 t1 d2 n2 t2 (h ''comm'')),
      (''Ineighbor_allgather'', \<lambda>d1 n1 t1 d2 n2 t2.
          mpi_ineighbor_allgather_cdesc E pr large d1 n1 t1 d2 n2 t2 (h ''comm'')),
      (''Ineighbor_alltoall'', \<lambda>d1 n1 t1 d2 n2 t2.
          mpi_ineighbor_alltoall_cdesc E pr large d1 n1 t1 d2 n2 t2 (h ''comm'')),
      (''Isendrecv'', \<lambda>d1 n1 t1 d2 n2 t2.
          mpi_isendrecv_cdesc E pr large d1 n1 t1 (i ''dest'') (i ''sendtag'') d2 n2 t2 (i
           ''source'') (i ''recvtag'') (h ''comm'')),
      (''Neighbor_allgather'', \<lambda>d1 n1 t1 d2 n2 t2.
          mpi_neighbor_allgather_cdesc E pr large d1 n1 t1 d2 n2 t2 (h ''comm'')),
      (''Neighbor_allgather_init'', \<lambda>d1 n1 t1 d2 n2 t2.
          mpi_neighbor_allgather_init_cdesc E pr large d1 n1 t1 d2 n2 t2 (h ''comm'') (h
           ''info'')),
      (''Neighbor_alltoall'', \<lambda>d1 n1 t1 d2 n2 t2.
          mpi_neighbor_alltoall_cdesc E pr large d1 n1 t1 d2 n2 t2 (h ''comm'')),
      (''Neighbor_alltoall_init'', \<lambda>d1 n1 t1 d2 n2 t2.
          mpi_neighbor_alltoall_init_cdesc E pr large d1 n1 t1 d2 n2 t2 (h ''comm'') (h
           ''info'')),
      (''Rget_accumulate'', \<lambda>d1 n1 t1 d2 n2 t2.
          mpi_rget_accumulate_cdesc E pr large d1 n1 t1 d2 n2 t2 (i ''target_rank'') (i
           ''target_disp'') (i ''target_count'') (h ''target_datatype'') (h ''oper'') (h
           ''win'')),
      (''Sendrecv'', \<lambda>d1 n1 t1 d2 n2 t2.
          mpi_sendrecv_cdesc E pr large d1 n1 t1 (i ''dest'') (i ''sendtag'') d2 n2 t2 (i
           ''source'') (i ''recvtag'') (h ''comm'') (a ''status''))]"

text \<open>The entries with two buffers that must be contiguous.\<close>

definition contiguous_entries where
  "contiguous_entries E pr large i h a =
     [
      (''Allreduce'', \<lambda>d1 d2.
          mpi_allreduce_cdesc E pr large d1 d2 (i ''cnt'') (h ''datatype'') (h ''oper'') (h
           ''comm'')),
      (''Allreduce_init'', \<lambda>d1 d2.
          mpi_allreduce_init_cdesc E pr large d1 d2 (i ''cnt'') (h ''datatype'') (h ''oper'') (h
           ''comm'') (h ''info'')),
      (''Alltoallv'', \<lambda>d1 d2.
          mpi_alltoallv_cdesc E pr large d1 (a ''sendcounts'') (a ''sdispls'') (h ''sendtype'')
           d2 (a ''recvcounts'') (a ''rdispls'') (h ''recvtype'') (h ''comm'')),
      (''Alltoallv_init'', \<lambda>d1 d2.
          mpi_alltoallv_init_cdesc E pr large d1 (a ''sendcounts'') (a ''sdispls'') (h
           ''sendtype'') d2 (a ''recvcounts'') (a ''rdispls'') (h ''recvtype'') (h ''comm'') (h
           ''info'')),
      (''Exscan'', \<lambda>d1 d2.
          mpi_exscan_cdesc E pr large d1 d2 (i ''cnt'') (h ''datatype'') (h ''oper'') (h
           ''comm'')),
      (''Exscan_init'', \<lambda>d1 d2.
          mpi_exscan_init_cdesc E pr large d1 d2 (i ''cnt'') (h ''datatype'') (h ''oper'') (h
           ''comm'') (h ''info'')),
      (''Iallreduce'', \<lambda>d1 d2.
          mpi_iallreduce_cdesc E pr large d1 d2 (i ''cnt'') (h ''datatype'') (h ''oper'') (h
           ''comm'')),
      (''Ialltoallv'', \<lambda>d1 d2.
          mpi_ialltoallv_cdesc E pr large d1 (a ''sendcounts'') (a ''sdispls'') (h ''sendtype'')
           d2 (a ''recvcounts'') (a ''rdispls'') (h ''recvtype'') (h ''comm'')),
      (''Iexscan'', \<lambda>d1 d2.
          mpi_iexscan_cdesc E pr large d1 d2 (i ''cnt'') (h ''datatype'') (h ''oper'') (h
           ''comm'')),
      (''Ineighbor_alltoallv'', \<lambda>d1 d2.
          mpi_ineighbor_alltoallv_cdesc E pr large d1 (a ''sendcounts'') (a ''sdispls'') (h
           ''sendtype'') d2 (a ''recvcounts'') (a ''rdispls'') (h ''recvtype'') (h ''comm'')),
      (''Ireduce_scatter'', \<lambda>d1 d2.
          mpi_ireduce_scatter_cdesc E pr large d1 d2 (a ''recvcounts'') (h ''datatype'') (h
           ''oper'') (h ''comm'')),
      (''Ireduce_scatter_block'', \<lambda>d1 d2.
          mpi_ireduce_scatter_block_cdesc E pr large d1 d2 (i ''recvcount'') (h ''datatype'') (h
           ''oper'') (h ''comm'')),
      (''Iscan'', \<lambda>d1 d2.
          mpi_iscan_cdesc E pr large d1 d2 (i ''cnt'') (h ''datatype'') (h ''oper'') (h
           ''comm'')),
      (''Neighbor_alltoallv'', \<lambda>d1 d2.
          mpi_neighbor_alltoallv_cdesc E pr large d1 (a ''sendcounts'') (a ''sdispls'') (h
           ''sendtype'') d2 (a ''recvcounts'') (a ''rdispls'') (h ''recvtype'') (h ''comm'')),
      (''Neighbor_alltoallv_init'', \<lambda>d1 d2.
          mpi_neighbor_alltoallv_init_cdesc E pr large d1 (a ''sendcounts'') (a ''sdispls'') (h
           ''sendtype'') d2 (a ''recvcounts'') (a ''rdispls'') (h ''recvtype'') (h ''comm'') (h
           ''info'')),
      (''Reduce_local'', \<lambda>d1 d2.
          mpi_reduce_local_cdesc E pr large d1 d2 (i ''cnt'') (h ''datatype'') (h ''oper'')),
      (''Reduce_scatter'', \<lambda>d1 d2.
          mpi_reduce_scatter_cdesc E pr large d1 d2 (a ''recvcounts'') (h ''datatype'') (h
           ''oper'') (h ''comm'')),
      (''Reduce_scatter_block'', \<lambda>d1 d2.
          mpi_reduce_scatter_block_cdesc E pr large d1 d2 (i ''recvcount'') (h ''datatype'') (h
           ''oper'') (h ''comm'')),
      (''Reduce_scatter_block_init'', \<lambda>d1 d2.
          mpi_reduce_scatter_block_init_cdesc E pr large d1 d2 (i ''recvcount'') (h
           ''datatype'') (h ''oper'') (h ''comm'') (h ''info'')),
      (''Reduce_scatter_init'', \<lambda>d1 d2.
          mpi_reduce_scatter_init_cdesc E pr large d1 d2 (a ''recvcounts'') (h ''datatype'') (h
           ''oper'') (h ''comm'') (h ''info'')),
      (''Scan'', \<lambda>d1 d2.
          mpi_scan_cdesc E pr large d1 d2 (i ''cnt'') (h ''datatype'') (h ''oper'') (h
           ''comm'')),
      (''Scan_init'', \<lambda>d1 d2.
          mpi_scan_init_cdesc E pr large d1 d2 (i ''cnt'') (h ''datatype'') (h ''oper'') (h
           ''comm'') (h ''info''))]"

lemmas two_buffer_defs =
  mpi_allgather_cdesc_def
  mpi_allgather_init_cdesc_def
  mpi_alltoall_cdesc_def
  mpi_alltoall_init_cdesc_def
  mpi_get_accumulate_cdesc_def
  mpi_iallgather_cdesc_def
  mpi_ialltoall_cdesc_def
  mpi_ineighbor_allgather_cdesc_def
  mpi_ineighbor_alltoall_cdesc_def
  mpi_isendrecv_cdesc_def
  mpi_neighbor_allgather_cdesc_def
  mpi_neighbor_allgather_init_cdesc_def
  mpi_neighbor_alltoall_cdesc_def
  mpi_neighbor_alltoall_init_cdesc_def
  mpi_rget_accumulate_cdesc_def
  mpi_sendrecv_cdesc_def

lemmas contiguous_defs =
  mpi_allreduce_cdesc_def
  mpi_allreduce_init_cdesc_def
  mpi_alltoallv_cdesc_def
  mpi_alltoallv_init_cdesc_def
  mpi_exscan_cdesc_def
  mpi_exscan_init_cdesc_def
  mpi_iallreduce_cdesc_def
  mpi_ialltoallv_cdesc_def
  mpi_iexscan_cdesc_def
  mpi_ineighbor_alltoallv_cdesc_def
  mpi_ireduce_scatter_cdesc_def
  mpi_ireduce_scatter_block_cdesc_def
  mpi_iscan_cdesc_def
  mpi_neighbor_alltoallv_cdesc_def
  mpi_neighbor_alltoallv_init_cdesc_def
  mpi_precv_init_cdesc_def
  mpi_psend_init_cdesc_def
  mpi_reduce_local_cdesc_def
  mpi_reduce_scatter_cdesc_def
  mpi_reduce_scatter_block_cdesc_def
  mpi_reduce_scatter_block_init_cdesc_def
  mpi_reduce_scatter_init_cdesc_def
  mpi_scan_cdesc_def
  mpi_scan_init_cdesc_def

section \<open>Two described buffers\<close>

text \<open>The other datatypes stay as they are while a buffer is checked.\<close>

lemma check_buffer_frame:
  assumes "type_laws (types E) tm" and "known E (tm w) (b, d)"
    and "check_buffer E b d err w = Inr (err', q, w')" and "tm w h = Some t"
  shows "tm w' h = Some t"
  using holding_all_frame check_buffer_holding [OF assms(1-3)] assms(4) by blast

lemma walk_keeps_error:
  "err \<noteq> MPI_SUCCESS \<Longrightarrow> check_buffer E (Walk guard n ty) d err w = Inr (err', q, w') \<Longrightarrow> err' = err"
  by (auto simp: Let_def)

text \<open>The size MPI reports for a datatype does not change while it exists.\<close>

definition sized :: "('w, 'z) cdesc_lib_scheme \<Rightarrow> ('w \<Rightarrow> handle \<Rightarrow> typemap option) \<Rightarrow> handle \<Rightarrow> typemap \<Rightarrow> int \<Rightarrow> bool" where
  "sized E tm ty t sz \<longleftrightarrow>
     (\<forall>v. tm v ty = Some t \<longrightarrow> PMPI_Type_size_c (types E) ty v = (MPI_SUCCESS, sz))"

lemma entry2_describes:
  assumes laws: "type_laws (types E) tm" "contiguity_law E"
    and t1: "tm w ty1 = Some t1" "sized E tm ty1 t1 sz1" "within d1 n1 t1 sz1"
      "\<not> mpif_cdesc_is_sentinel (mpif_c_buffer (place E) (base_addr d1))"
    and t2: "tm w ty2 = Some t2"
      "sized E tm ty2 t2 sz2" "within d2 n2 t2 sz2"
      "\<not> mpif_cdesc_is_sentinel (mpif_c_buffer (place E) (base_addr d2))"
    and call: "\<And>q1 q2 v r v'. call q1 q2 v = Inr (r, v') \<Longrightarrow> tm v' = tm v"
    and res: "entry2 E (Walk True n1 ty1) d1 (Walk True n2 ty2) d2 call w = Inr (r, w')"
  shows "tm w' = tm w \<and>
    ((\<exists>err. err \<noteq> MPI_SUCCESS \<and> r = \<lparr>ierror = err, out = []\<rparr>) \<or>
     (\<exists>q1 q2 v v'. call q1 q2 v = Inr (r, v') \<and>
        q_addr q1 = mpif_c_buffer (place E) (base_addr d1) \<and>
        q_addr q2 = mpif_c_buffer (place E) (base_addr d2) \<and>
        message_places tm v q1 = Some (buffer_places d1 n1 t1 sz1) \<and>
        message_places tm v q2 = Some (buffer_places d2 n2 t2 sz2)))"
proof
  let ?bs = "[(Walk True n1 ty1, d1), (Walk True n2 ty2, d2)]"
  have known: "\<forall>bd \<in> set ?bs. known E (tm w) bd" by (simp add: t1 t2)
  have size1: "PMPI_Type_size_c (types E) ty1 w = (MPI_SUCCESS, sz1)"
    using t1(1,2) by (simp add: sized_def)
  have size2: "PMPI_Type_size_c (types E) ty2 v = (MPI_SUCCESS, sz2)" if "tm v ty2 = Some t2" for v
    using that t2(2) by (simp add: sized_def)
  show "tm w' = tm w"
    by (rule entry_keeps_types [OF laws(1) known _ res [unfolded entry2_def]]) (rule call)
  from res obtain e1 q1 w1 e2 q2 w2 where
    c1: "check_buffer E (Walk True n1 ty1) d1 MPI_SUCCESS w = Inr (e1, q1, w1)" and
    c2: "check_buffer E (Walk True n2 ty2) d2 e1 w1 = Inr (e2, q2, w2)" and
    k: "if e2 \<noteq> MPI_SUCCESS then r = \<lparr>ierror = e2, out = []\<rparr>
        else \<exists>v'. call q1 q2 w2 = Inr (r, v')"
    by (auto simp: entry2_def entry_def bindE_eq_Inr simp del: check_buffer.simps split: if_splits)
  show "(\<exists>err. err \<noteq> MPI_SUCCESS \<and> r = \<lparr>ierror = err, out = []\<rparr>) \<or>
     (\<exists>q1 q2 v v'. call q1 q2 v = Inr (r, v') \<and>
        q_addr q1 = mpif_c_buffer (place E) (base_addr d1) \<and>
        q_addr q2 = mpif_c_buffer (place E) (base_addr d2) \<and>
        message_places tm v q1 = Some (buffer_places d1 n1 t1 sz1) \<and>
        message_places tm v q2 = Some (buffer_places d2 n2 t2 sz2))"
  proof (cases "e2 = MPI_SUCCESS")
    case True
    with walk_keeps_error [OF _ c2] have e1: "e1 = MPI_SUCCESS" by blast
    note d1 = walk_describes [OF laws t1(1) size1 t1(3,4) c1 [unfolded e1]]
    have "known E (tm w) (Walk True n1 ty1, d1)" by (simp add: t1)
    note h2 = check_buffer_frame [OF laws(1) this c1 t2(1)]
    note d2 = walk_describes [OF laws h2 size2 [OF h2] t2(3,4) c2 [unfolded e1 True]]
    have k2: "known E (tm w1) (Walk True n2 ty2, d2)" by (simp add: h2)
    from d1 obtain u where u: "tm w1 (q_type q1) = Some u" by (auto simp: message_places_def)
    have "message_places tm w2 q1 = message_places tm w1 q1"
      using check_buffer_frame [OF laws(1) k2 c2 u] u by (simp add: message_places_def)
    moreover from k True obtain v' where "call q1 q2 w2 = Inr (r, v')" by auto
    ultimately show ?thesis using d1 d2 by metis
  next
    case False
    with k show ?thesis by auto
  qed
qed

definition two_buffer_entry ::
    "('w, 'z) cdesc_lib_scheme \<Rightarrow> profile \<Rightarrow> bool \<Rightarrow> string \<Rightarrow>
     (cdesc \<Rightarrow> int \<Rightarrow> fint \<Rightarrow> cdesc \<Rightarrow> int \<Rightarrow> fint \<Rightarrow> 'w \<Rightarrow> fault + outcome \<times> 'w) \<Rightarrow> bool" where
  "two_buffer_entry E pr large name f \<longleftrightarrow>
     (\<exists>args ks. (\<forall>d1 n1 t1 d2 n2 t2. f d1 n1 t1 d2 n2 t2 =
         entry2 E (Walk True n1 (of_int_handle E Type t1)) d1 (Walk True n2 (of_int_handle E Type t2)) d2
           (\<lambda>q1 q2. calls E pr large name (args q1 q2) ks)) \<and>
       (\<forall>q1 q2. sublist [Buf (q_addr q1), count_arg large q1, Hdl (q_type q1)] (args q1 q2) \<and>
                sublist [Buf (q_addr q2), count_arg large q2, Hdl (q_type q2)] (args q1 q2)))"

lemma two_buffer_entryI:
  assumes "\<And>d1 n1 t1 d2 n2 t2. f d1 n1 t1 d2 n2 t2 =
      entry2 E (Walk True n1 (of_int_handle E Type t1)) d1 (Walk True n2 (of_int_handle E Type t2)) d2
        (\<lambda>q1 q2. calls E pr large name (args q1 q2) ks)"
    and "\<And>q1 q2. sublist [Buf (q_addr q1), count_arg large q1, Hdl (q_type q1)] (args q1 q2)"
    and "\<And>q1 q2. sublist [Buf (q_addr q2), count_arg large q2, Hdl (q_type q2)] (args q1 q2)"
  shows "two_buffer_entry E pr large name f"
  unfolding two_buffer_entry_def using assms by blast

lemma two_buffer_entries_are:
  assumes "(name, f) \<in> set (two_buffer_entries E pr large i h a)"
  shows "two_buffer_entry E pr large name f"
proof -
  have "list_all (\<lambda>(name, f). two_buffer_entry E pr large name f) (two_buffer_entries E pr large i h a)"
    unfolding two_buffer_entries_def list.pred_inject prod.case
    by (intro conjI; ((rule two_buffer_entryI, rule two_buffer_defs, simp_all add: sublist_code) | simp))
  with assms show ?thesis by (auto simp: list_all_iff)
qed

text \<open>
  C21. Two choice buffers are handled together correctly, by all 16 routines with two: whatever fails,
  in describing either buffer, the datatypes that existed before are those that exist after; and
  when MPI is reached, each of the two (address, count, datatype) triples it gets describes the
  elements of its buffer. (That a routine sends several such blocks is a different matter, below.)
\<close>

theorem two_buffer_calls_describe_sections:
  assumes "type_laws (types E) tm" and "contiguity_law E"
    and "(name, f) \<in> set (two_buffer_entries E pr large i h a)"
    and "\<forall>args v. tm (snd (mpi E pr large name args v)) = tm v"
    and "sized E tm (of_int_handle E Type ty1) t1 sz1" and "sized E tm (of_int_handle E Type ty2) t2 sz2"
    and "tm w (of_int_handle E Type ty1) = Some t1" and "tm w (of_int_handle E Type ty2) = Some t2"
    and "within d1 n1 t1 sz1" and "\<not> mpif_cdesc_is_sentinel (mpif_c_buffer (place E) (base_addr d1))"
    and "within d2 n2 t2 sz2" and "\<not> mpif_cdesc_is_sentinel (mpif_c_buffer (place E) (base_addr d2))"
    and "f d1 n1 ty1 d2 n2 ty2 w = Inr (r, w')"
  shows "tm w' = tm w \<and>
    ((\<exists>err. err \<noteq> MPI_SUCCESS \<and> r = \<lparr>ierror = err, out = []\<rparr>) \<or>
     (\<exists>q1 q2 args ks v v'. calls E pr large name args ks v = Inr (r, v') \<and>
        sublist [Buf (mpif_c_buffer (place E) (base_addr d1)), count_arg large q1, Hdl (q_type q1)] args \<and>
        sublist [Buf (mpif_c_buffer (place E) (base_addr d2)), count_arg large q2, Hdl (q_type q2)] args \<and>
        message_places tm v q1 = Some (buffer_places d1 n1 t1 sz1) \<and>
        message_places tm v q2 = Some (buffer_places d2 n2 t2 sz2)))"
proof -
  from two_buffer_entries_are [OF assms(3)] obtain args ks where
    f: "f d1 n1 ty1 d2 n2 ty2 = entry2 E (Walk True n1 (of_int_handle E Type ty1)) d1
          (Walk True n2 (of_int_handle E Type ty2)) d2 (\<lambda>q1 q2. calls E pr large name (args q1 q2) ks)"
    and args: "\<And>q1 q2. sublist [Buf (q_addr q1), count_arg large q1, Hdl (q_type q1)] (args q1 q2)"
      "\<And>q1 q2. sublist [Buf (q_addr q2), count_arg large q2, Hdl (q_type q2)] (args q1 q2)"
    unfolding two_buffer_entry_def by blast
  have call: "tm v' = tm v" if "calls E pr large name (args q1 q2) ks v = Inr (r, v')" for q1 q2 v r v'
  proof -
    obtain x y where "mpi E pr large name (args q1 q2) v = (x, y)" by (cases "mpi E pr large name (args q1 q2) v")
    with that assms(4) [rule_format, of "args q1 q2" v] show ?thesis by (auto simp: calls_def bindE_eq_Inr)
  qed
  have "tm w' = tm w \<and>
    ((\<exists>err. err \<noteq> MPI_SUCCESS \<and> r = \<lparr>ierror = err, out = []\<rparr>) \<or>
     (\<exists>q1 q2 v v'. calls E pr large name (args q1 q2) ks v = Inr (r, v') \<and>
        q_addr q1 = mpif_c_buffer (place E) (base_addr d1) \<and>
        q_addr q2 = mpif_c_buffer (place E) (base_addr d2) \<and>
        message_places tm v q1 = Some (buffer_places d1 n1 t1 sz1) \<and>
        message_places tm v q2 = Some (buffer_places d2 n2 t2 sz2)))"
    by (rule entry2_describes [OF assms(1,2,7,5,9,10,8,6,11,12) _ assms(13) [unfolded f]]) (rule call)
  with args show ?thesis by metis
qed

text \<open>A contiguous buffer sent and a strided one received.\<close>

definition dense_cdesc :: cdesc where
  "dense_cdesc = \<lparr>base_addr = 8192, elem_len = 1, dims = [(4, 1)]\<rparr>"

lemma demo_addrs:
  "mpif_c_buffer (place demo_lib) (base_addr dense_cdesc) = 8192"
  "mpif_c_buffer (place demo_lib) (base_addr demo_cdesc) = 4096"
  by (simp_all add: demo_lib_def dense_cdesc_def demo_cdesc_def mpif_c_buffer_def cell_addr_packed packed_cell_def)

lemma demo_sendrecv:
  "mpi_sendrecv_cdesc demo_lib MPI False dense_cdesc 4 0x21d 1 7 demo_cdesc 4 0x21d 2 7 0x101 0 demo_world =
     Inr (\<lparr>ierror = MPI_SUCCESS, out = []\<rparr>, ([0x21d \<mapsto> \<lparr>places = [0], tm_lb = 0, tm_extent = 1\<rparr>], 3))"
proof -
  have s1: "\<not> strided demo_lib 8192 dense_cdesc"
    by (simp add: strided_def dense_cdesc_def demo_lib_def)
  have s2: "strided demo_lib 4096 demo_cdesc"
    by (simp add: strided_def demo_cdesc_def demo_lib_def mpif_cdesc_is_sentinel_def)
  have lib: "types demo_lib = byte_types"
    "mpi demo_lib pr large name args w = (short_reply MPI_SUCCESS (\<lambda>_. MPI_REQUEST_NULL), w)" for pr large name args w
    by (simp_all add: demo_lib_def)
  have free: "free_owned byte_types True 2 ([0x21d \<mapsto> t, 2 \<mapsto> u], 3) = ([0x21d \<mapsto> t], 3)"
    "free_owned byte_types False h v = v" for t u h v
    by (auto simp: free_owned_def byte_types_def fun_eq_iff)
  show ?thesis
    by (simp add: mpi_sendrecv_cdesc_def entry2_def entry_def demo_lib_handles demo_addrs lib s1 s2
        demo_cdesc_datatype free)
qed

theorem two_buffer_calls_describe_sections_witness:
  "fst demo_world = [0x21d \<mapsto> \<lparr>places = [0], tm_lb = 0, tm_extent = 1\<rparr>]"
proof -
  let ?t = "\<lparr>places = [0], tm_lb = 0, tm_extent = 1\<rparr>"
  let ?ty = "of_int_handle demo_lib Type 0x21d"
  have mem: "(''Sendrecv'', \<lambda>d1 n1 t1 d2 n2 t2.
        mpi_sendrecv_cdesc demo_lib MPI False d1 n1 t1 1 7 d2 n2 t2 2 7 0x101 0)
      \<in> set (two_buffer_entries demo_lib MPI False
          (\<lambda>s. if s = ''dest'' then 1 else if s = ''source'' then 2 else 7) (\<lambda>_. 0x101) (\<lambda>_. 0))"
    by (simp add: two_buffer_entries_def)
  have keep: "\<forall>args v. fst (snd (mpi demo_lib MPI False ''Sendrecv'' args v)) = fst v"
    by (simp add: demo_lib_def)
  have sized: "sized demo_lib fst ?ty ?t 1"
    by (simp add: sized_def demo_lib_def byte_types_def)
  have t: "fst demo_world ?ty = Some ?t"
    unfolding demo_lib_handles by (simp add: demo_world_def)
  have w: "within dense_cdesc 4 ?t 1" "within demo_cdesc 4 ?t 1"
    by (simp_all add: within_def dense_cdesc_def demo_cdesc_def cdesc_factor_def cdesc_count_def)
  have ns: "\<not> mpif_cdesc_is_sentinel (mpif_c_buffer (place demo_lib) (base_addr dense_cdesc))"
    "\<not> mpif_cdesc_is_sentinel (mpif_c_buffer (place demo_lib) (base_addr demo_cdesc))"
    unfolding demo_addrs by (simp_all add: mpif_cdesc_is_sentinel_def)
  from conjunct1 [OF two_buffer_calls_describe_sections [OF demo_lib_laws mem keep sized sized t t w(1) ns(1)
      w(2) ns(2) demo_sendrecv]]
  show ?thesis by (simp only: fst_conv)
qed

section \<open>Buffers that must be contiguous\<close>

definition contiguous_entry ::
    "('w, 'z) cdesc_lib_scheme \<Rightarrow> profile \<Rightarrow> string \<Rightarrow>
     (cdesc \<Rightarrow> cdesc \<Rightarrow> 'w \<Rightarrow> fault + outcome \<times> 'w) \<Rightarrow> bool" where
  "contiguous_entry E pr name f \<longleftrightarrow>
     (\<exists>args ks lg. (\<forall>d1 d2. f d1 d2 =
         entry2 E (Contig True) d1 (Contig True) d2 (\<lambda>q1 q2. calls E pr lg name (args q1 q2) ks)) \<and>
       (\<forall>q1 q2. Buf (q_addr q1) \<in> set (args q1 q2) \<and> Buf (q_addr q2) \<in> set (args q1 q2)))"

lemma contiguous_entryI:
  assumes "\<And>d1 d2. f d1 d2 =
      entry2 E (Contig True) d1 (Contig True) d2 (\<lambda>q1 q2. calls E pr lg name (args q1 q2) ks)"
    and "\<And>q1 q2. Buf (q_addr q1) \<in> set (args q1 q2) \<and> Buf (q_addr q2) \<in> set (args q1 q2)"
  shows "contiguous_entry E pr name f"
  unfolding contiguous_entry_def using assms by blast

lemma contiguous_entries_are:
  assumes "(name, f) \<in> set (contiguous_entries E pr large i h a)"
  shows "contiguous_entry E pr name f"
proof -
  have "list_all (\<lambda>(name, f). contiguous_entry E pr name f) (contiguous_entries E pr large i h a)"
    unfolding contiguous_entries_def list.pred_inject prod.case
    by (intro conjI; ((rule contiguous_entryI, rule contiguous_defs, simp) | simp))
  with assms show ?thesis by (auto simp: list_all_iff)
qed

lemma entry2_contig:
  "entry2 E (Contig True) d1 (Contig g) d2 call w =
     (if strided E (mpif_c_buffer (place E) (base_addr d1)) d1 \<or>
         g \<and> strided E (mpif_c_buffer (place E) (base_addr d2)) d2
      then Inr (\<lparr>ierror = MPI_ERR_BUFFER, out = []\<rparr>, w)
      else call (hoist E (Contig True) d1) (hoist E (Contig g) d2) w)"
proof -
  have "bindE m (\<lambda>(r, w). Inr (r, w)) = m" for m :: "fault + outcome \<times> 'a"
    by (cases m) auto
  then show ?thesis
    by (auto simp: entry2_def entry_def free_owned_def Let_def)
qed

lemma entry1_contig:
  "entry1 E (Contig True) d call w =
     (if strided E (mpif_c_buffer (place E) (base_addr d)) d
      then Inr (\<lparr>ierror = MPI_ERR_BUFFER, out = []\<rparr>, w)
      else call (hoist E (Contig True) d) w)"
proof -
  have "bindE m (\<lambda>(r, w). Inr (r, w)) = m" for m :: "fault + outcome \<times> 'a"
    by (cases m) auto
  then show ?thesis
    by (auto simp: entry1_def entry_def free_owned_def Let_def)
qed

text \<open>
  An entry with the buffers \<open>ds\<close>, of which \<open>cs\<close> must be contiguous: if one of these is not, it is refused
  and nothing is called; otherwise MPI is called and gets the base addresses of all.
\<close>

definition refuses ::
    "('w, 'z) cdesc_lib_scheme \<Rightarrow> profile \<Rightarrow> string \<Rightarrow> cdesc list \<Rightarrow> cdesc list \<Rightarrow>
     ('w \<Rightarrow> fault + outcome \<times> 'w) \<Rightarrow> 'w \<Rightarrow> bool" where
  "refuses E pr name ds cs f w \<longleftrightarrow>
     (\<exists>args ks lg. (\<forall>d \<in> set ds. Buf (mpif_c_buffer (place E) (base_addr d)) \<in> set args) \<and>
        f w = (if \<exists>d \<in> set cs. strided E (mpif_c_buffer (place E) (base_addr d)) d
               then Inr (\<lparr>ierror = MPI_ERR_BUFFER, out = []\<rparr>, w)
               else calls E pr lg name args ks w))"

lemma refusesI:
  assumes "f w = (if \<exists>d \<in> set cs. strided E (mpif_c_buffer (place E) (base_addr d)) d
               then Inr (\<lparr>ierror = MPI_ERR_BUFFER, out = []\<rparr>, w)
               else calls E pr lg name args ks w)"
    and "\<forall>d \<in> set ds. Buf (mpif_c_buffer (place E) (base_addr d)) \<in> set args"
  shows "refuses E pr name ds cs f w"
  using assms unfolding refuses_def by blast

text \<open>The rooted reductions, the all-to-alls with a datatype per rank, and partitioned communication.\<close>

definition rooted_reductions where
  "rooted_reductions E pr large i h root comm info =
     [(''Reduce'', \<lambda>d1 d2. mpi_reduce_cdesc E pr large d1 d2 (i ''cnt'') (h ''datatype'') (h ''oper'') root comm),
      (''Ireduce'', \<lambda>d1 d2. mpi_ireduce_cdesc E pr large d1 d2 (i ''cnt'') (h ''datatype'') (h ''oper'') root comm),
      (''Reduce_init'', \<lambda>d1 d2.
         mpi_reduce_init_cdesc E pr large d1 d2 (i ''cnt'') (h ''datatype'') (h ''oper'') root comm info)]"

definition alltoallw_entries where
  "alltoallw_entries E pr large a sts rts comm info =
     [(''Alltoallw'', \<lambda>d1 d2. mpi_alltoallw_cdesc E pr large d1 (a ''sendcounts'') (a ''sdispls'') sts
         d2 (a ''recvcounts'') (a ''rdispls'') rts comm),
      (''Ialltoallw'', \<lambda>d1 d2. mpi_ialltoallw_cdesc E pr large d1 (a ''sendcounts'') (a ''sdispls'') sts
         d2 (a ''recvcounts'') (a ''rdispls'') rts comm),
      (''Alltoallw_init'', \<lambda>d1 d2. mpi_alltoallw_init_cdesc E pr large d1 (a ''sendcounts'') (a ''sdispls'') sts
         d2 (a ''recvcounts'') (a ''rdispls'') rts comm info)]"

definition neighbor_alltoallw_entries where
  "neighbor_alltoallw_entries E pr large a sts rts comm info =
     [(''Neighbor_alltoallw'', \<lambda>d1 d2.
         mpi_neighbor_alltoallw_cdesc E pr large d1 (a ''sendcounts'') (a ''sdispls'') sts
           d2 (a ''recvcounts'') (a ''rdispls'') rts comm),
      (''Ineighbor_alltoallw'', \<lambda>d1 d2.
         mpi_ineighbor_alltoallw_cdesc E pr large d1 (a ''sendcounts'') (a ''sdispls'') sts
           d2 (a ''recvcounts'') (a ''rdispls'') rts comm),
      (''Neighbor_alltoallw_init'', \<lambda>d1 d2.
         mpi_neighbor_alltoallw_init_cdesc E pr large d1 (a ''sendcounts'') (a ''sdispls'') sts
           d2 (a ''recvcounts'') (a ''rdispls'') rts comm info)]"

definition partitioned_entries where
  "partitioned_entries E pr i h =
     [(''Psend_init'', \<lambda>d. mpi_psend_init_cdesc E pr d (i ''partitions'') (i ''cnt'') (h ''datatype'') (i ''dest'')
         (i ''tag'') (h ''comm'') (h ''info'')),
      (''Precv_init'', \<lambda>d. mpi_precv_init_cdesc E pr d (i ''partitions'') (i ''cnt'') (h ''datatype'') (i ''source'')
         (i ''tag'') (h ''comm'') (h ''info''))]"

lemma entry2_refuses:
  assumes "f w = entry2 E (Contig True) d1 (Contig g) d2 (\<lambda>q1 q2. calls E pr lg name (args q1 q2) ks) w"
    and "\<And>q1 q2. Buf (q_addr q1) \<in> set (args q1 q2) \<and> Buf (q_addr q2) \<in> set (args q1 q2)"
  shows "refuses E pr name [d1, d2] (if g then [d1, d2] else [d1]) f w"
  using assms(2) [of "hoist E (Contig True) d1" "hoist E (Contig g) d2"]
  by (intro refusesI [where lg = lg and ks = ks and args = "args (hoist E (Contig True) d1) (hoist E (Contig g) d2)"])
    (simp_all add: assms(1) entry2_contig)

lemmas entry2_refuses_both = entry2_refuses [where g = True, simplified]

lemma contiguous_refuses:
  assumes "(name, f) \<in> set (contiguous_entries E pr large i h a)"
  shows "refuses E pr name [d1, d2] [d1, d2] (f d1 d2) w"
proof -
  from contiguous_entries_are [OF assms] obtain args ks lg where
    f: "f d1 d2 = entry2 E (Contig True) d1 (Contig True) d2 (\<lambda>q1 q2. calls E pr lg name (args q1 q2) ks)"
    and args: "\<And>q1 q2. Buf (q_addr q1) \<in> set (args q1 q2) \<and> Buf (q_addr q2) \<in> set (args q1 q2)"
    unfolding contiguous_entry_def by blast
  show ?thesis
    by (rule entry2_refuses_both [where args = args]) (simp_all only: f args)
qed

lemma reductions_refuse:
  assumes "(name, f) \<in> set (rooted_reductions E pr large i h root comm info)"
    and "at_root E (of_int_handle E Comm comm) root w = Inr q"
  shows "refuses E pr name [d1, d2] (if q then [d1, d2] else [d1]) (f d1 d2) w"
proof -
  have "list_all (\<lambda>(name, f). refuses E pr name [d1, d2] (if q then [d1, d2] else [d1]) (f d1 d2) w)
      (rooted_reductions E pr large i h root comm info)"
    unfolding rooted_reductions_def list.pred_inject prod.case mpi_reduce_cdesc_def mpi_ireduce_cdesc_def
      mpi_reduce_init_cdesc_def
    by (intro conjI; ((rule entry2_refuses, simp add: probing_def assms(2) del: calls_nothing, simp) | simp))
  with assms(1) show ?thesis by (auto simp: list_all_iff)
qed

lemma send_types_Inr:
  assumes "nat (sint n) \<le> length sts"
  obtains ss where "send_types E b sts n = Inr ss"
  using assms by (cases "b = MPI_IN_PLACE") (auto simp: send_types_def from_array_spec)

lemma alltoallw_refuses:
  assumes "(name, f) \<in> set (alltoallw_entries E pr large a sts rts comm info)"
    and "group_size E (of_int_handle E Comm comm) w = Inr n"
    and "nat (sint n) \<le> length sts" and "nat (sint n) \<le> length rts"
  shows "refuses E pr name [d1, d2] [d1, d2] (f d1 d2) w"
proof -
  obtain ss where "send_types E (mpif_c_buffer (place E) (base_addr d1)) sts n = Inr ss"
    using send_types_Inr [OF assms(3)] by blast
  note answers = assms(2) this from_array_spec [OF assms(4)]
  have "list_all (\<lambda>(name, f). refuses E pr name [d1, d2] [d1, d2] (f d1 d2) w)
      (alltoallw_entries E pr large a sts rts comm info)"
    unfolding alltoallw_entries_def list.pred_inject prod.case mpi_alltoallw_cdesc_def mpi_ialltoallw_cdesc_def
      mpi_alltoallw_init_cdesc_def
    by (intro conjI; ((rule entry2_refuses_both, simp add: probing_def answers del: calls_nothing, simp) | simp))
  with assms(1) show ?thesis by (auto simp: list_all_iff)
qed

lemma neighbor_alltoallw_refuses:
  assumes "(name, f) \<in> set (neighbor_alltoallw_entries E pr large a sts rts comm info)"
    and "neighbour_counts E (of_int_handle E Comm comm) w = Inr (m, n)"
    and "nat (sint n) \<le> length sts" and "nat (sint m) \<le> length rts"
  shows "refuses E pr name [d1, d2] [d1, d2] (f d1 d2) w"
proof -
  obtain ss where "send_types E (mpif_c_buffer (place E) (base_addr d1)) sts n = Inr ss"
    using send_types_Inr [OF assms(3)] by blast
  note answers = assms(2) this from_array_spec [OF assms(4)]
  have "list_all (\<lambda>(name, f). refuses E pr name [d1, d2] [d1, d2] (f d1 d2) w)
      (neighbor_alltoallw_entries E pr large a sts rts comm info)"
    unfolding neighbor_alltoallw_entries_def list.pred_inject prod.case mpi_neighbor_alltoallw_cdesc_def
      mpi_ineighbor_alltoallw_cdesc_def mpi_neighbor_alltoallw_init_cdesc_def
    by (intro conjI; ((rule entry2_refuses_both, simp add: probing_def answers del: calls_nothing, simp) | simp))
  with assms(1) show ?thesis by (auto simp: list_all_iff)
qed

lemma entry1_refuses:
  assumes "f w = entry1 E (Contig True) d (\<lambda>q. calls E pr lg name (args q) ks) w"
    and "\<And>q. Buf (q_addr q) \<in> set (args q)"
  shows "refuses E pr name [d] [d] f w"
  using assms(2) [of "hoist E (Contig True) d"]
  by (intro refusesI [where lg = lg and ks = ks and args = "args (hoist E (Contig True) d)"])
    (simp_all add: assms(1) entry1_contig)

lemma partitioned_refuse:
  assumes "(name, g) \<in> set (partitioned_entries E pr i h)"
  shows "refuses E pr name [d] [d] (g d) w"
proof -
  have "list_all (\<lambda>(name, g). refuses E pr name [d] [d] (g d) w) (partitioned_entries E pr i h)"
    unfolding partitioned_entries_def list.pred_inject prod.case mpi_psend_init_cdesc_def mpi_precv_init_cdesc_def
    by (intro conjI; ((rule entry1_refuses, rule refl, simp) | simp))
  with assms show ?thesis by (auto simp: list_all_iff)
qed

text \<open>
  C22. Where no (count, datatype) pair belongs to a buffer, strided arrays are refused and no wrong bytes are
  communicated, by 33 routines in their four versions: 22 reductions without a root and all-to-alls with a count per
  rank, \<open>MPI_Reduce\<close> in its three forms, \<open>MPI_Alltoallw\<close> in its six, and the two partitioned initialisations. If
  a buffer that matters (the receive buffer of \<open>MPI_Reduce\<close> does only at the root) is an array that is
  not contiguous, the entry returns \<open>MPI_ERR_BUFFER\<close> without calling MPI; otherwise MPI gets the base addresses.
  For \<open>MPI_Reduce\<close> and \<open>MPI_Alltoallw\<close> this is after the questions about the communicator were answered, and with
  arrays of datatypes as long as the group.
\<close>

theorem strided_reductions_are_refused:
  "((name, f) \<in> set (contiguous_entries E pr large i h a) \<longrightarrow>
      refuses E pr name [d1, d2] [d1, d2] (f d1 d2) w) \<and>
   ((name, f) \<in> set (rooted_reductions E pr large i h root comm info) \<and>
      at_root E (of_int_handle E Comm comm) root w = Inr q \<longrightarrow>
      refuses E pr name [d1, d2] (if q then [d1, d2] else [d1]) (f d1 d2) w) \<and>
   ((name, f) \<in> set (alltoallw_entries E pr large a sts rts comm info) \<and>
      group_size E (of_int_handle E Comm comm) w = Inr n \<and>
      nat (sint n) \<le> length sts \<and> nat (sint n) \<le> length rts \<longrightarrow>
      refuses E pr name [d1, d2] [d1, d2] (f d1 d2) w) \<and>
   ((name, f) \<in> set (neighbor_alltoallw_entries E pr large a sts rts comm info) \<and>
      neighbour_counts E (of_int_handle E Comm comm) w = Inr (m, n) \<and>
      nat (sint n) \<le> length sts \<and> nat (sint m) \<le> length rts \<longrightarrow>
      refuses E pr name [d1, d2] [d1, d2] (f d1 d2) w) \<and>
   ((name, g) \<in> set (partitioned_entries E pr i h) \<longrightarrow> refuses E pr name [d1] [d1] (g d1) w)"
  using contiguous_refuses [of name f E pr large i h a] reductions_refuse [of name f E pr large i h root comm info]
    alltoallw_refuses [of name f E pr large a sts rts comm info]
    neighbor_alltoallw_refuses [of name f E pr large a sts rts comm info] partitioned_refuse [of name g E pr i h]
  by blast

theorem strided_reductions_are_refused_witness:
  "mpi_allreduce_cdesc demo_lib MPI False dense_cdesc demo_cdesc 4 0x21d 0x2a 0x101 demo_world =
     Inr (\<lparr>ierror = MPI_ERR_BUFFER, out = []\<rparr>, demo_world) \<and>
   mpi_reduce_cdesc demo_lib MPI False demo_cdesc dense_cdesc 4 0x21d 0x2a 0 0x101 demo_world =
     Inr (\<lparr>ierror = MPI_ERR_BUFFER, out = []\<rparr>, demo_world)"
proof -
  let ?h = "\<lambda>s. if s = ''datatype'' then 0x21d else if s = ''oper'' then 0x2a else 0x101"
  have mem: "(''Allreduce'', \<lambda>d1 d2. mpi_allreduce_cdesc demo_lib MPI False d1 d2 4 0x21d 0x2a 0x101)
      \<in> set (contiguous_entries demo_lib MPI False (\<lambda>_. 4) ?h a)" for a
    by (simp add: contiguous_entries_def)
  have mem2: "(''Reduce'', \<lambda>d1 d2. mpi_reduce_cdesc demo_lib MPI False d1 d2 4 0x21d 0x2a 0 0x101)
      \<in> set (rooted_reductions demo_lib MPI False (\<lambda>_. 4) ?h 0 0x101 0)"
    by (simp add: rooted_reductions_def)
  have root: "at_root demo_lib (of_int_handle demo_lib Comm 0x101) 0 demo_world = Inr False"
    by (simp add: at_root_def demo_lib_def)
  have st: "strided demo_lib (mpif_c_buffer (place demo_lib) (base_addr demo_cdesc)) demo_cdesc"
    unfolding demo_addrs by (simp add: strided_def demo_cdesc_def demo_lib_def mpif_cdesc_is_sentinel_def)
  show ?thesis
    using strided_reductions_are_refused [THEN conjunct1, rule_format, OF mem, of dense_cdesc demo_cdesc demo_world]
      strided_reductions_are_refused [THEN conjunct2, THEN conjunct1, rule_format, OF conjI [OF mem2 root],
        of demo_cdesc dense_cdesc] st
    by (auto simp: refuses_def)
qed

section \<open>Rooted collectives away from the root\<close>

lemma unguarded_right:
  assumes "base_addr d = base_addr d'"
  shows "entry2 E b1 d1 (Walk False n ty) d call w = entry2 E b1 d1 (Walk False n ty) d' call w"
    and "entry2 E b1 d1 (Contig False) d call w = entry2 E b1 d1 (Contig False) d' call w"
  using assms by (simp_all add: entry2_def entry_def fun_eq_iff Let_def)

lemma unguarded_left:
  assumes "base_addr d = base_addr d'"
  shows "entry2 E (Walk False n ty) d b2 d2 call w = entry2 E (Walk False n ty) d' b2 d2 call w"
    and "entry2 E (Contig False) d b2 d2 call w = entry2 E (Contig False) d' b2 d2 call w"
  using assms by (simp_all add: entry2_def entry_def fun_eq_iff Let_def)

text \<open>
  C23. Away from the root nothing depends on what the standard calls significant only at the root: with
  another datatype argument, and a descriptor of another rank, extents and strides with the same
  base address, a gather, scatter or reduction (blocking, nonblocking or persistent, with one count
  or with a count per rank) does exactly the same. In particular no such datatype is converted
  and no such array is walked or refused.
\<close>

theorem nonroot_arguments_are_insignificant:
  assumes "at_root E (of_int_handle E Comm comm) root w = Inr False" and "base_addr b = base_addr b'"
  shows "mpi_gather_cdesc E pr large s sn st b n ty root comm w =
      mpi_gather_cdesc E pr large s sn st b' n ty' root comm w \<and>
    mpi_gather_init_cdesc E pr large s sn st b n ty root comm info w =
      mpi_gather_init_cdesc E pr large s sn st b' n ty' root comm info w \<and>
    mpi_igather_cdesc E pr large s sn st b n ty root comm w =
      mpi_igather_cdesc E pr large s sn st b' n ty' root comm w \<and>
    mpi_gatherv_cdesc E pr large s sn st b ns displs ty root comm w =
      mpi_gatherv_cdesc E pr large s sn st b' ns displs ty' root comm w \<and>
    mpi_igatherv_cdesc E pr large s sn st b ns displs ty root comm w =
      mpi_igatherv_cdesc E pr large s sn st b' ns displs ty' root comm w \<and>
    mpi_scatter_cdesc E pr large b n ty s sn st root comm w =
      mpi_scatter_cdesc E pr large b' n ty' s sn st root comm w \<and>
    mpi_scatter_init_cdesc E pr large b n ty s sn st root comm info w =
      mpi_scatter_init_cdesc E pr large b' n ty' s sn st root comm info w \<and>
    mpi_iscatter_cdesc E pr large b n ty s sn st root comm w =
      mpi_iscatter_cdesc E pr large b' n ty' s sn st root comm w \<and>
    mpi_scatterv_cdesc E pr large b ns displs ty s sn st root comm w =
      mpi_scatterv_cdesc E pr large b' ns displs ty' s sn st root comm w \<and>
    mpi_iscatterv_cdesc E pr large b ns displs ty s sn st root comm w =
      mpi_iscatterv_cdesc E pr large b' ns displs ty' s sn st root comm w \<and>
    mpi_gatherv_init_cdesc E pr large s sn st b ns displs ty root comm info w =
      mpi_gatherv_init_cdesc E pr large s sn st b' ns displs ty' root comm info w \<and>
    mpi_scatterv_init_cdesc E pr large b ns displs ty s sn st root comm info w =
      mpi_scatterv_init_cdesc E pr large b' ns displs ty' s sn st root comm info w \<and>
    mpi_reduce_init_cdesc E pr large s b m ty'' oper root comm info w =
      mpi_reduce_init_cdesc E pr large s b' m ty'' oper root comm info w \<and>
    mpi_reduce_cdesc E pr large s b m ty'' oper root comm w =
      mpi_reduce_cdesc E pr large s b' m ty'' oper root comm w \<and>
    mpi_ireduce_cdesc E pr large s b m ty'' oper root comm w =
      mpi_ireduce_cdesc E pr large s b' m ty'' oper root comm w"
  unfolding mpi_gather_cdesc_def mpi_gather_init_cdesc_def mpi_igather_cdesc_def mpi_gatherv_cdesc_def
    mpi_igatherv_cdesc_def mpi_scatter_cdesc_def mpi_scatter_init_cdesc_def mpi_iscatter_cdesc_def
    mpi_scatterv_cdesc_def mpi_iscatterv_cdesc_def mpi_reduce_cdesc_def mpi_ireduce_cdesc_def
    mpi_gatherv_init_cdesc_def mpi_scatterv_init_cdesc_def mpi_reduce_init_cdesc_def probing_def assms(1) sum.case if_False
  by (intro conjI; (rule unguarded_left unguarded_right, rule assms(2)))

theorem nonroot_arguments_are_insignificant_witness:
  "mpi_gather_cdesc demo_lib MPI False dense_cdesc 1 0x21d demo_cdesc 4 0x21d 0 0x101 demo_world =
   mpi_gather_cdesc demo_lib MPI False dense_cdesc 1 0x21d \<lparr>base_addr = 4096, elem_len = 0, dims = []\<rparr> 4 0 0 0x101 demo_world"
proof -
  have a: "at_root demo_lib (of_int_handle demo_lib Comm 0x101) 0 demo_world = Inr False"
    by (simp add: at_root_def demo_lib_def)
  have b: "base_addr demo_cdesc = base_addr \<lparr>base_addr = 4096, elem_len = 0, dims = []\<rparr>"
    by (simp add: demo_cdesc_def)
  show ?thesis by (rule conjunct1 [OF nonroot_arguments_are_insignificant [OF a b]])
qed

section \<open>In place\<close>

text \<open>
  C24. With \<open>MPI_IN_PLACE\<close> as send buffer no \<open>MPI_Alltoallw\<close> entry reads the array of send datatypes:
  whatever the array holds and however short it is, even absent, the entry does the same.
\<close>

theorem alltoallw_in_place_reads_no_send_types:
  assumes "base_addr d = cell_addr (place E) mpif_in_place"
  shows "mpi_alltoallw_cdesc E pr large d sn sd ts b rn rd rts comm w =
      mpi_alltoallw_cdesc E pr large d sn sd ts' b rn rd rts comm w \<and>
    mpi_alltoallw_init_cdesc E pr large d sn sd ts b rn rd rts comm info w =
      mpi_alltoallw_init_cdesc E pr large d sn sd ts' b rn rd rts comm info w \<and>
    mpi_ialltoallw_cdesc E pr large d sn sd ts b rn rd rts comm w =
      mpi_ialltoallw_cdesc E pr large d sn sd ts' b rn rd rts comm w"
proof -
  from assms have "mpif_c_buffer (place E) (base_addr d) = MPI_IN_PLACE"
    by (simp add: mpif_c_buffer_def)
  then have st: "send_types E (mpif_c_buffer (place E) (base_addr d)) xs k =
      Inr (replicate (nat (sint k)) MPI_DATATYPE_NULL)" for xs k
    by (simp add: send_types_def)
  show ?thesis
    unfolding mpi_alltoallw_cdesc_def mpi_alltoallw_init_cdesc_def mpi_ialltoallw_cdesc_def probing_def st
    by (intro conjI refl)
qed

theorem alltoallw_in_place_reads_no_send_types_witness:
  "mpi_alltoallw_cdesc demo_lib MPI False
     \<lparr>base_addr = cell_addr packed mpif_in_place, elem_len = 4, dims = [(1, 4)]\<rparr> 0 0 [] dense_cdesc 8 16 [1, 2, 3] 0x101 demo_world =
   mpi_alltoallw_cdesc demo_lib MPI False
     \<lparr>base_addr = cell_addr packed mpif_in_place, elem_len = 4, dims = [(1, 4)]\<rparr> 0 0 [1, 2, 3] dense_cdesc 8 16 [1, 2, 3] 0x101 demo_world"
proof -
  have "base_addr \<lparr>base_addr = cell_addr packed mpif_in_place, elem_len = 4, dims = [(1, 4)]\<rparr> =
      cell_addr (place demo_lib) mpif_in_place"
    by (simp add: demo_lib_def)
  from conjunct1 [OF alltoallw_in_place_reads_no_send_types [OF this]] show ?thesis .
qed

end
