(* ===== verification/Cdesc_Blocks.thy ===== *)
theory Cdesc_Blocks
  imports Cdesc_Pairs
begin

text \<open>
  Two consequences of how \<open>gen/mpif_f08_cdesc.c\<close> treats strided arrays that the entries do not
  intend: where the blocks of an all-gather into a strided array go, and what a persistent
  scatter does with a strided receive buffer away from the root.
\<close>

section \<open>Blocks of a collective\<close>

text \<open>
  A gather, an all-gather and an all-to-all access the block of rank \<open>j\<close> at \<open>j * count * extent\<close> bytes
  from the buffer (MPI-5.0 sections 6.5 to 6.8). In the array that block is the elements from the
  \<open>j * count\<close>-th on.
\<close>

definition block_places :: "('w \<Rightarrow> handle \<Rightarrow> typemap option) \<Rightarrow> 'w \<Rightarrow> hoisted \<Rightarrow> nat \<Rightarrow> int list option" where
  "block_places tm w q j =
     map_option (\<lambda>t. shift (int j * (q_count q * tm_extent t))
       (copies (nat (q_count q)) (tm_extent t) (places t))) (tm w (q_type q))"

definition array_block :: "cdesc \<Rightarrow> nat \<Rightarrow> int list \<Rightarrow> nat \<Rightarrow> int list" where
  "array_block d c ps j = concat (map (\<lambda>k. shift (element_offset (dims d) k) ps) [j * c..<(j + 1) * c])"

text \<open>
  The extent of an hvector: of \<open>n\<close> copies \<open>s\<close> bytes apart of a datatype that starts at 0, for a stride
  that is a multiple of the old extent (so that no alignment is added; MPI-5.0 section 5.1.7).
\<close>

definition hvector_extent_law :: "'w type_api \<Rightarrow> ('w \<Rightarrow> handle \<Rightarrow> typemap option) \<Rightarrow> bool" where
  "hvector_extent_law T tm \<longleftrightarrow>
     (\<forall>n s h w t h' w' t'. tm w h = Some t \<longrightarrow> PMPI_Type_create_hvector_c T n 1 s h w = (MPI_SUCCESS, h', w') \<longrightarrow>
        tm w' h' = Some t' \<longrightarrow> tm_lb t = 0 \<and> 0 < tm_extent t \<and> tm_extent t dvd s \<and> 0 \<le> s \<and> 0 < n \<longrightarrow>
        tm_extent t' = s * (n - 1) + tm_extent t)"

lemma shift_eq_iff: "ps \<noteq> [] \<Longrightarrow> shift a ps = shift b ps \<longleftrightarrow> a = b"
  by (cases ps) (auto simp: shift_def)

lemma array_block_1d:
  assumes "dims d = [(x, sm)]" and "int ((j + 1) * c) \<le> x"
  shows "array_block d c ps j = shift (int (j * c) * sm) (copies c sm ps)"
proof -
  have "array_block d c ps j = concat (map (\<lambda>k. shift (int k * sm) ps) [j * c..<(j + 1) * c])"
    unfolding array_block_def
  proof (intro arg_cong [where f = concat] map_cong refl)
    fix k assume "k \<in> set [j * c..<(j + 1) * c]"
    then have "int k < int ((j + 1) * c)" by (simp only: set_upt atLeastLessThan_iff of_nat_less_iff)
    with assms(2) have "k < nat x" by linarith
    with assms(1) show "shift (element_offset (dims d) k) ps = shift (int k * sm) ps" by simp
  qed
  also have "[j * c..<(j + 1) * c] = map (\<lambda>k. j * c + k) [0..<c]"
    by (rule nth_equalityI) simp_all
  finally show ?thesis
    by (simp add: copies_def shift_concat o_def algebra_simps)
qed

text \<open>The datatype for a one-dimensional array whose stride is a larger multiple of its element length.\<close>

lemma create_datatype_1d:
  assumes laws: "type_laws T tm" "hvector_extent_law T tm"
    and t: "tm w ty = Some t" "PMPI_Type_size_c T ty w = (MPI_SUCCESS, sz)" "tm_lb t = 0" "tm_extent t = sz"
    and d: "dims d = [(x, sm)]" "elem_len d = sz" "0 < sz" "sz dvd sm" "sz < sm" "0 < n" "n \<le> x"
    and res: "mpif_cdesc_create_datatype T d n ty w = Inr (MPI_SUCCESS, Some h, w')"
  shows "\<exists>t'. tm w' h = Some t' \<and> places t' = copies (nat n) sm (places t) \<and> tm_extent t' = sm * (n - 1) + sz"
proof -
  obtain e lb ext where ex: "PMPI_Type_get_extent_c T ty w = (e, lb, ext)" by (metis prod_cases3)
  obtain e2 nxt w2 where hv: "PMPI_Type_create_hvector_c T n 1 sm ty w = (e2, nxt, w2)" by (metis prod_cases3)
  obtain e3 cur w3 where co: "PMPI_Type_commit T nxt w2 = (e3, cur, w3)" by (metis prod_cases3)
  have f: "elem_len d smod sz = 0" "elem_len d sdiv sz = 1" using d(2,3) by (simp_all add: smod_pos sdiv_pos)
  have c: "rem_count n 1 = Inr 0" "div_count n 1 = Inr n" using d(6) by (simp_all add: rem_count_pos div_count_pos)
  have walk: "walk_dims T n [(x, sm)] ty False 1 sz b w =
      (if e2 \<noteq> MPI_SUCCESS then Inr (Fail e2 ty False w2)
       else bindE (mul_count 1 x) (\<lambda>_. bindE (mul_count sm x) (\<lambda>_. Inr (Walked True nxt True w2))))" for b
    using d by (simp add: walk_dims.simps c hv free_owned_def)
  have "e = MPI_SUCCESS \<and> e2 = MPI_SUCCESS"
    using res d ex f t(2)
    by (auto simp: mpif_cdesc_create_datatype_def Let_def free_owned_def walk split: if_splits)
  then have "e3 = MPI_SUCCESS \<and> h = cur \<and> w' = w3"
    using res d co ex f t(2)
    by (auto simp: mpif_cdesc_create_datatype_def Let_def free_owned_def walk bindE_eq_Inr split: if_splits)
  with \<open>e = MPI_SUCCESS \<and> e2 = MPI_SUCCESS\<close> have "e2 = MPI_SUCCESS \<and> e3 = MPI_SUCCESS \<and> h = cur \<and> w' = w3"
    by blast
  with hv co have hv: "PMPI_Type_create_hvector_c T n 1 sm ty w = (MPI_SUCCESS, nxt, w2)"
    and co: "PMPI_Type_commit T nxt w2 = (MPI_SUCCESS, h, w')" by simp_all
  from hvector_lawD [OF laws(1) t(1) hv] obtain t' where
    t': "tm w2 = (tm w)(nxt \<mapsto> t')" "places t' = copies (nat n) sm (places t)" by blast
  then have "tm w2 nxt = Some t'" by simp
  with commit_lawD [OF laws(1) this co] have "tm w' h = Some t'" by simp
  moreover have "tm_extent t' = sm * (n - 1) + sz"
    using laws(2) t(1) hv \<open>tm w2 nxt = Some t'\<close> t(3,4) d unfolding hvector_extent_law_def by fastforce
  ultimately show ?thesis using t'(2) by blast
qed

text \<open>An entry whose first buffer is \<open>MPI_IN_PLACE\<close> and whose second is strided.\<close>

lemma entry2_in_place:
  assumes "base_addr s = cell_addr (place E) mpif_in_place"
    and "strided E (mpif_c_buffer (place E) (base_addr d)) d"
    and "type_laws (types E) tm" and "tm w ty = Some t"
    and "entry2 E (Walk True sn st) s (Walk True n ty) d call w = Inr (r, w')"
  shows "(\<exists>err. err \<noteq> MPI_SUCCESS \<and> r = \<lparr>ierror = err, out = []\<rparr>) \<or>
    (\<exists>h v v'. mpif_cdesc_create_datatype (types E) d n ty w = Inr (MPI_SUCCESS, Some h, v) \<and>
       call (hoist E (Walk True sn st) s)
         \<lparr>q_addr = mpif_c_buffer (place E) (base_addr d), q_count = 1, q_type = h, q_owned = True\<rparr> v = Inr (r, v'))"
proof -
  have ip: "mpif_c_buffer (place E) (base_addr s) = MPI_IN_PLACE"
    using assms(1) by (simp add: mpif_c_buffer_def)
  then have "\<not> strided E (mpif_c_buffer (place E) (base_addr s)) s"
    by (simp add: strided_def mpif_cdesc_is_sentinel_def)
  then have c1: "check_buffer E (Walk True sn st) s MPI_SUCCESS w =
      Inr (MPI_SUCCESS, hoist E (Walk True sn st) s, w)"
    by simp
  from assms(5) obtain e q v where c2: "check_buffer E (Walk True n ty) d MPI_SUCCESS w = Inr (e, q, v)"
    and k: "if e \<noteq> MPI_SUCCESS then r = \<lparr>ierror = e, out = []\<rparr>
        else \<exists>v'. call (hoist E (Walk True sn st) s) q v = Inr (r, v')"
    by (auto simp: entry2_def entry_def bindE_eq_Inr c1 simp del: check_buffer.simps hoist.simps split: if_splits)
  show ?thesis
  proof (cases "e = MPI_SUCCESS")
    case True
    with c2 assms(2) obtain new where c:
      "mpif_cdesc_create_datatype (types E) d n ty w = Inr (MPI_SUCCESS, new, v)"
      "q = \<lparr>q_addr = mpif_c_buffer (place E) (base_addr d), q_count = 1,
            q_type = (case new of None \<Rightarrow> ty | Some t \<Rightarrow> t), q_owned = True\<rparr>"
      by (auto simp: Let_def bindE_eq_Inr cong: option.case_cong split: if_splits)
    from create_datatype_holding [OF assms(3,4) c(1)] obtain h where "new = Some h" by (cases new) auto
    with c k True show ?thesis by auto
  next
    case False
    with k show ?thesis by auto
  qed
qed

lemma array_blocks_1d:
  assumes "dims d = [(x, sm)]" and "0 < n" and "int (Suc j) * n \<le> x"
  shows "array_block d (nat n) ps j = shift (int j * (sm * n)) (array_block d (nat n) ps 0)"
proof -
  have "n \<le> int (Suc j) * n"
    using assms(2) by (simp add: mult_le_cancel_right1)
  with assms(3) have "n \<le> x" by simp
  with assms(2,3) have "int ((j + 1) * nat n) \<le> x" "int ((0 + 1) * nat n) \<le> x"
    by (simp_all add: algebra_simps)
  from this [THEN array_block_1d [OF assms(1)], of ps] show ?thesis
    using assms(2) by (simp add: algebra_simps)
qed

text \<open>
  C26. An in-place all-gather into a strided array puts all blocks but the first in the wrong place.
  For a one-dimensional array whose stride is a larger multiple of its element length, the entry
  describes one block of \<open>recvcount\<close> elements correctly and passes a count of 1, but the datatype's extent
  ends with the last element of the block: MPI places the block of rank \<open>j\<close> at \<open>j * (stride * (count - 1) +
  size)\<close> bytes, where the array has it at \<open>j * stride * count\<close> bytes. Of the ranks whose blocks the array has
  room for only rank 0 gets its own, and no error is reported.
\<close>

theorem allgather_misplaces_strided_blocks:
  assumes "type_laws (types E) tm" and "hvector_extent_law (types E) tm"
    and "tm w (of_int_handle E Type ty) = Some t"
    and "PMPI_Type_size_c (types E) (of_int_handle E Type ty) w = (MPI_SUCCESS, sz)"
    and "tm_lb t = 0" and "tm_extent t = sz" and "places t \<noteq> []"
    and "dims d = [(x, m * sz)]" and "elem_len d = sz" and "0 < sz" and "1 < m" and "0 < n" and "n \<le> x"
    and "base_addr s = cell_addr (place E) mpif_in_place"
    and "strided E (mpif_c_buffer (place E) (base_addr d)) d"
    and "mpi_allgather_cdesc E pr large s sn st d n ty comm w = Inr (r, w')"
  shows "(\<exists>err. err \<noteq> MPI_SUCCESS \<and> r = \<lparr>ierror = err, out = []\<rparr>) \<or>
    (\<exists>sendcount sendtype recvtype v v'. calls E pr large ''Allgather''
         [Buf MPI_IN_PLACE, sendcount, Hdl sendtype,
          Buf (mpif_c_buffer (place E) (base_addr d)), Val 1, Hdl recvtype,
          Hdl (of_int_handle E Comm comm)] [] v = Inr (r, v') \<and>
       (\<forall>j q. int (Suc j) * n \<le> x \<and> q_count q = 1 \<and> q_type q = recvtype \<longrightarrow>
          block_places tm v q j =
            Some (shift (int j * (m * sz * (n - 1) + sz)) (array_block d (nat n) (places t) 0)) \<and>
          array_block d (nat n) (places t) j =
            shift (int j * (m * sz * n)) (array_block d (nat n) (places t) 0) \<and>
          (block_places tm v q j = Some (array_block d (nat n) (places t) j) \<longleftrightarrow> j = 0)))"
proof -
  have ip: "mpif_c_buffer (place E) (base_addr s) = MPI_IN_PLACE"
    using assms(14) by (simp add: mpif_c_buffer_def)
  from entry2_in_place [OF assms(14,15,1,3) assms(16) [unfolded mpi_allgather_cdesc_def]]
  consider "\<exists>err. err \<noteq> MPI_SUCCESS \<and> r = \<lparr>ierror = err, out = []\<rparr>"
    | h v v' where "mpif_cdesc_create_datatype (types E) d n (of_int_handle E Type ty) w = Inr (MPI_SUCCESS, Some h, v)"
      "calls E pr large ''Allgather''
         [Buf MPI_IN_PLACE, count_arg large (hoist E (Walk True sn (of_int_handle E Type st)) s),
          Hdl (q_type (hoist E (Walk True sn (of_int_handle E Type st)) s)),
          Buf (mpif_c_buffer (place E) (base_addr d)), Val 1, Hdl h,
          Hdl (of_int_handle E Comm comm)] [] v = Inr (r, v')"
    using ip by (fastforce simp: count_arg_small)
  then show ?thesis
  proof cases
    case 1
    then show ?thesis by blast
  next
    case (2 h v v')
    have "sz < m * sz" using assms(10,11) by simp
    with create_datatype_1d [OF assms(1-6,8,9,10) _ _ assms(12,13) 2(1)]
    obtain t' where t': "tm v h = Some t'" "places t' = copies (nat n) (m * sz) (places t)"
      "tm_extent t' = m * sz * (n - 1) + sz" by auto
    let ?first = "array_block d (nat n) (places t) 0"
    have first: "?first = copies (nat n) (m * sz) (places t)"
      using array_block_1d [OF assms(8), of 0 "nat n" "places t"] assms(12,13) by simp
    have "?first \<noteq> []"
      using assms(7,12) by (auto simp: first copies_def shift_def intro!: exI [of _ 0])
    have mpi: "block_places tm v q j = Some (shift (int j * (m * sz * (n - 1) + sz)) ?first)"
      if "q_count q = 1" "q_type q = h" for j q
      using that by (simp add: block_places_def t' first)
    have array: "array_block d (nat n) (places t) j = shift (int j * (m * sz * n)) ?first"
      if "int (Suc j) * n \<le> x" for j
      using array_blocks_1d [OF assms(8,12) that] by simp
    have "m * sz * (n - 1) + sz \<noteq> m * sz * n"
      using assms(10,11) by (simp add: algebra_simps)
    then have "shift (int j * (m * sz * (n - 1) + sz)) ?first = shift (int j * (m * sz * n)) ?first \<longleftrightarrow> j = 0" for j
      unfolding shift_eq_iff [OF \<open>?first \<noteq> []\<close>] by simp
    with mpi array 2(2) show ?thesis
      by (intro disjI2 exI conjI) (assumption, simp)
  qed
qed

text \<open>Four bytes, two apart.\<close>

definition spaced_cdesc :: cdesc where
  "spaced_cdesc = \<lparr>base_addr = 4096, elem_len = 1, dims = [(4, 2)]\<rparr>"

definition in_place_cdesc :: cdesc where
  "in_place_cdesc = \<lparr>base_addr = cell_addr packed mpif_in_place, elem_len = 4, dims = [(1, 4)]\<rparr>"

lemma demo_lib_simps:
  "place demo_lib = packed" "types demo_lib = byte_types"
  "mpi demo_lib pr large name args w = (short_reply MPI_SUCCESS (\<lambda>_. MPI_REQUEST_NULL), w)"
  by (simp_all add: demo_lib_def)

lemma spaced_cdesc_strided: "strided demo_lib (mpif_c_buffer (place demo_lib) (base_addr spaced_cdesc)) spaced_cdesc"
  by (simp add: demo_lib_simps spaced_cdesc_def demo_cdesc_addr strided_def mpif_cdesc_is_sentinel_def)
    (simp add: demo_lib_def)

lemma spaced_cdesc_datatype:
  "mpif_cdesc_create_datatype byte_types spaced_cdesc 2 0x21d demo_world =
     Inr (MPI_SUCCESS, Some 1, ([0x21d \<mapsto> \<lparr>places = [0], tm_lb = 0, tm_extent = 1\<rparr>,
       1 \<mapsto> \<lparr>places = [0, 2], tm_lb = 0, tm_extent = 3\<rparr>], 2))"
proof -
  have upt: "[0..<2] = [0, 1 :: nat]" by (simp add: upt_rec)
  show ?thesis
    by (simp add: mpif_cdesc_create_datatype_def byte_types_def spaced_cdesc_def demo_world_def
        walk_dims.simps rem_count_def div_count_def mul_count_def new_type_def free_owned_def Let_def
        copies_def shift_def upt signed_modulo_int_def signed_divide_int_def)
qed

lemma byte_types_hvector: "hvector_extent_law byte_types fst"
  by (auto simp: hvector_extent_law_def byte_types_def new_type_def split: if_splits option.splits)

lemma demo_allgather:
  "mpi_allgather_cdesc demo_lib MPI False in_place_cdesc 0 0x21d spaced_cdesc 2 0x21d 0x101 demo_world =
     Inr (\<lparr>ierror = MPI_SUCCESS, out = []\<rparr>, ([0x21d \<mapsto> \<lparr>places = [0], tm_lb = 0, tm_extent = 1\<rparr>], 2))"
proof -
  have "mpif_c_buffer packed (cell_addr packed mpif_in_place) = MPI_IN_PLACE"
    by (simp add: mpif_c_buffer_def)
  then have s1: "\<not> strided demo_lib (mpif_c_buffer packed (base_addr in_place_cdesc)) in_place_cdesc"
    by (simp add: in_place_cdesc_def strided_def mpif_cdesc_is_sentinel_def)
  have s2: "strided demo_lib (mpif_c_buffer packed (base_addr spaced_cdesc)) spaced_cdesc"
    using spaced_cdesc_strided by (simp add: demo_lib_simps)
  have free: "free_owned byte_types True 1 ([0x21d \<mapsto> t, 1 \<mapsto> u], 2) = ([0x21d \<mapsto> t], 2)"
    "free_owned byte_types False h v = v" for t u h v
    by (auto simp: free_owned_def byte_types_def fun_eq_iff)
  show ?thesis
    by (simp add: mpi_allgather_cdesc_def entry2_def entry_def demo_lib_handles demo_lib_simps
        s1 s2 spaced_cdesc_datatype free)
qed

theorem allgather_misplaces_strided_blocks_witness:
  "\<exists>q (v :: type_world). q_count q = 1 \<and> block_places fst v q 0 = Some [0, 2] \<and> block_places fst v q 1 = Some [3, 5] \<and>
     array_block spaced_cdesc 2 [0] 1 = [4, 6]"
proof -
  let ?t = "\<lparr>places = [0], tm_lb = 0, tm_extent = 1\<rparr>"
  have "fst demo_world (of_int_handle demo_lib Type 0x21d) = Some ?t"
    "PMPI_Type_size_c (types demo_lib) (of_int_handle demo_lib Type 0x21d) demo_world = (MPI_SUCCESS, 1)"
    unfolding demo_lib_handles by (simp_all add: demo_world_def demo_lib_simps byte_types_def)
  note t = this
  have hv: "hvector_extent_law (types demo_lib) fst" by (simp add: demo_lib_simps byte_types_hvector)
  have d: "dims spaced_cdesc = [(4, 2 * 1)]" "elem_len spaced_cdesc = 1"
    "base_addr in_place_cdesc = cell_addr (place demo_lib) mpif_in_place"
    by (simp_all add: spaced_cdesc_def in_place_cdesc_def demo_lib_simps)
  have blocks: "array_block spaced_cdesc (nat 2) [0] 0 = [0, 2]" "array_block spaced_cdesc 2 [0] 1 = [4, 6]"
    by (simp_all add: array_block_def spaced_cdesc_def shift_def upt_rec)
  obtain h :: handle and v :: type_world where
    "\<forall>j q. int (Suc j) * 2 \<le> 4 \<and> q_count q = 1 \<and> q_type q = h \<longrightarrow>
      block_places fst v q j = Some (shift (int j * (2 * 1 * (2 - 1) + 1)) [0, 2])"
    using allgather_misplaces_strided_blocks [OF demo_lib_laws(1) hv t _ _ _ d(1,2) _ _ _ _ d(3)
        spaced_cdesc_strided demo_allgather, unfolded typemap.simps blocks(1)]
    by (simp del: split_paired_Ex) blast
  note b = this [rule_format, of _ "\<lparr>q_addr = 0, q_count = 1, q_type = h, q_owned = True\<rparr>"]
  show ?thesis
    using b [of 0] b [of 1] blocks(2)
    by (intro exI [of _ "\<lparr>q_addr = 0, q_count = 1, q_type = h, q_owned = True\<rparr>"] exI [of _ v])
      (simp add: shift_def)
qed

section \<open>Persistent scatter with a count per rank\<close>

lemma strided_places:
  assumes "dims d = [(x, sm)]" and "elem_len d = sz" and "0 < sz" and "sm \<noteq> sz" and "2 \<le> n" and "n \<le> x"
    and "tm_extent t = sz" and "places t \<noteq> []"
  shows "buffer_places d n t sz = copies (nat n) sm (places t)"
    and "copies (nat n) sz (places t) \<noteq> copies (nat n) sm (places t)"
proof -
  have f: "cdesc_factor d sz = 1" using assms(2,3) by (simp add: cdesc_factor_def)
  have split: "copies (nat n) s (places t) = places t @ shift s (places t) @
      concat (map (\<lambda>j. shift (int j * s) (places t)) [2..<nat n])" for s
  proof -
    have "[0..<nat n] = [0, 1] @ [2..<nat n]" using assms(5) by (simp add: upt_rec numeral_2_eq_2)
    then show ?thesis by (simp add: copies_def)
  qed
  show "buffer_places d n t sz = copies (nat n) sm (places t)"
    using assms(1,5,6) array_block_1d [OF assms(1), of 0 "nat n" "places t"]
    by (simp add: buffer_places_def f cdesc_count_def base_places_def section_places_def array_block_def)
  show "copies (nat n) sz (places t) \<noteq> copies (nat n) sm (places t)"
  proof
    assume "copies (nat n) sz (places t) = copies (nat n) sm (places t)"
    then have "shift sz (places t) = shift sm (places t)"
      unfolding split by (simp add: shift_def append_eq_append_conv)
    with assms(4,8) show False by (simp add: shift_eq_iff)
  qed
qed

text \<open>
  C25. A persistent scatter with a count per rank (\<open>MPI_Scatterv_init\<close>) receives into the wrong bytes
  away from the root. The check that describes a strided receive buffer is made only at the root,
  unlike in \<open>MPI_Scatterv\<close> and \<open>MPI_Iscatterv\<close>: every other process passes the base address with
  the caller's count and datatype, so for a one-dimensional array with gaps, of elements of that datatype, MPI
  writes the received elements one after the other, into the gaps, where the array's elements are a stride
  apart. No error is reported.
\<close>

theorem scatterv_init_ignores_strides_off_root:
  assumes "at_root E (of_int_handle E Comm comm) root w = Inr False"
    and "tm w (of_int_handle E Type ty) = Some t" and "tm_extent t = sz" and "places t \<noteq> []"
    and "dims d = [(x, sm)]" and "elem_len d = sz" and "0 < sz" and "sm \<noteq> sz" and "2 \<le> n" and "n \<le> x"
    and "large \<or> n < 2 ^ 31" and "q_count q = n" and "q_type q = of_int_handle E Type ty"
  shows "mpi_scatterv_init_cdesc E pr large s ns displs st d n ty root comm info w =
      calls E pr large ''Scatterv_init''
        [Buf (mpif_c_buffer (place E) (base_addr s)), Buf ns, Buf displs, Hdl MPI_DATATYPE_NULL,
         Buf (mpif_c_buffer (place E) (base_addr d)), Val n, Hdl (of_int_handle E Type ty),
         Val (sint root), Hdl (of_int_handle E Comm comm), Hdl (of_int_handle E Info info),
         Temp ''request'' MPI_REQUEST_NULL] [Handle Request ''request''] w \<and>
    message_places tm w q = Some (copies (nat n) sz (places t)) \<and>
    buffer_places d n t sz = copies (nat n) sm (places t) \<and>
    message_places tm w q \<noteq> Some (buffer_places d n t sz)"
proof -
  have "count_arg large (hoist E (Walk False n (of_int_handle E Type ty)) d) = Val n"
    using assms(9,11) by (auto simp: count_arg_small) (simp add: count_arg_def)
  moreover have "bindE m (\<lambda>(r, w). Inr (r, w)) = m" for m :: "fault + outcome \<times> 'a"
    by (cases m) auto
  ultimately have "mpi_scatterv_init_cdesc E pr large s ns displs st d n ty root comm info w =
      calls E pr large ''Scatterv_init''
        [Buf (mpif_c_buffer (place E) (base_addr s)), Buf ns, Buf displs, Hdl MPI_DATATYPE_NULL,
         Buf (mpif_c_buffer (place E) (base_addr d)), Val n, Hdl (of_int_handle E Type ty),
         Val (sint root), Hdl (of_int_handle E Comm comm), Hdl (of_int_handle E Info info),
         Temp ''request'' MPI_REQUEST_NULL] [Handle Request ''request''] w"
    by (simp add: mpi_scatterv_init_cdesc_def probing_def assms(1) entry2_def entry_def free_owned_def
        Let_def)
  moreover have "message_places tm w q = Some (copies (nat n) sz (places t))"
    by (simp add: message_places_def assms)
  ultimately show ?thesis
    using strided_places [OF assms(5-10,3,4)] by simp
qed

theorem scatterv_init_ignores_strides_off_root_witness:
  "mpi_scatterv_init_cdesc demo_lib MPI False in_place_cdesc 8 16 0 spaced_cdesc 2 0x21d 0 0x101 0 demo_world =
      calls demo_lib MPI False ''Scatterv_init''
        [Buf MPI_IN_PLACE, Buf 8, Buf 16, Hdl MPI_DATATYPE_NULL, Buf 4096, Val 2, Hdl 0x21d, Val 0, Hdl 0x101, Hdl 0,
         Temp ''request'' MPI_REQUEST_NULL] [Handle Request ''request''] demo_world \<and>
    message_places fst demo_world \<lparr>q_addr = 4096, q_count = 2, q_type = 0x21d, q_owned = False\<rparr> = Some [0, 1] \<and>
    buffer_places spaced_cdesc 2 \<lparr>places = [0], tm_lb = 0, tm_extent = 1\<rparr> 1 = [0, 2]"
proof -
  let ?t = "\<lparr>places = [0], tm_lb = 0, tm_extent = 1\<rparr>"
  have root: "at_root demo_lib (of_int_handle demo_lib Comm 0x101) 0 demo_world = Inr False"
    by (simp add: at_root_def demo_lib_def)
  have t: "fst demo_world (of_int_handle demo_lib Type 0x21d) = Some ?t"
    unfolding demo_lib_handles by (simp add: demo_world_def)
  have d: "dims spaced_cdesc = [(4, 2)]" "elem_len spaced_cdesc = 1" by (simp_all add: spaced_cdesc_def)
  have args: "mpif_c_buffer (place demo_lib) (base_addr in_place_cdesc) = MPI_IN_PLACE"
    "mpif_c_buffer (place demo_lib) (base_addr spaced_cdesc) = 4096"
    "of_int_handle demo_lib Comm 0x101 = 0x101"
    "of_int_handle demo_lib Info 0 = 0"
    by (simp add: demo_lib_simps in_place_cdesc_def mpif_c_buffer_def,
        simp add: demo_lib_simps spaced_cdesc_def demo_cdesc_addr,
        simp_all add: demo_lib_def identity_handles_def to_aint_def)
  have "copies (nat 2) s [0] = [0, s]" for s
    by (simp add: copies_def shift_def upt_rec)
  with scatterv_init_ignores_strides_off_root [where tm = fst and t = ?t and d = spaced_cdesc and x = 4 and
      sm = 2 and sz = 1, OF root t _ _ d, where large = False and n = 2 and pr = MPI
      and s = in_place_cdesc and ns = 8 and displs = 16 and st = 0 and info = 0
      and q = "\<lparr>q_addr = 4096, q_count = 2, q_type = 0x21d, q_owned = False\<rparr>"]
  show ?thesis
    by (simp add: demo_lib_handles args)
qed

end
