(* ===== verification/Wrappers_Buffers.thy ===== *)
theory Wrappers_Buffers
  imports Cdesc_Pairs
begin

text \<open>
  The wrappers of \<open>gen/mpif_functions.c\<close> that take choice buffers by address: what \<open>mpif.h\<close> and the
  \<open>mpi\<close> module call, and \<open>mpi_f08\<close> where the compiler has no descriptors. One definition stands for
  a routine's four C functions (two where there is no large-count version). Integers come by
  value, arrays, statuses and variables MPI writes itself by address.
\<close>

section \<open>The wrappers\<close>

definition mpi_accumulate where
  "mpi_accumulate E pr large origin_addr origin_count origin_datatype target_rank target_disp
    target_count target_datatype oper win =
     calls E pr large ''Accumulate''
       [Buf (mpif_c_cbuffer (place E) origin_addr), Val origin_count,
        Hdl (of_int_handle E Type origin_datatype), Val target_rank, Val target_disp,
        Val target_count, Hdl (of_int_handle E Type target_datatype),
        Hdl (of_int_handle E Op oper), Hdl (of_int_handle E Win win)] []"

definition mpi_allgather where
  "mpi_allgather E pr large sendbuf sendcount sendtype recvbuf recvcount recvtype comm =
     calls E pr large ''Allgather''
       [Buf (mpif_c_cbuffer (place E) sendbuf), Val sendcount,
        Hdl (of_int_handle E Type sendtype), Buf (mpif_c_buffer (place E) recvbuf),
        Val recvcount, Hdl (of_int_handle E Type recvtype), Hdl (of_int_handle E Comm comm)] []"

definition mpi_allgather_init where
  "mpi_allgather_init E pr large sendbuf sendcount sendtype recvbuf recvcount recvtype comm info =
     calls E pr large ''Allgather_init''
       [Buf (mpif_c_cbuffer (place E) sendbuf), Val sendcount,
        Hdl (of_int_handle E Type sendtype), Buf (mpif_c_buffer (place E) recvbuf),
        Val recvcount, Hdl (of_int_handle E Type recvtype), Hdl (of_int_handle E Comm comm),
        Hdl (of_int_handle E Info info), Temp ''request'' MPI_REQUEST_NULL]
       [Handle Request ''request'']"

definition mpi_allgatherv where
  "mpi_allgatherv E pr large sendbuf sendcount sendtype recvbuf recvcounts displs recvtype comm =
     calls E pr large ''Allgatherv''
       [Buf (mpif_c_cbuffer (place E) sendbuf), Val sendcount,
        Hdl (of_int_handle E Type sendtype), Buf (mpif_c_buffer (place E) recvbuf),
        Buf recvcounts, Buf displs, Hdl (of_int_handle E Type recvtype),
        Hdl (of_int_handle E Comm comm)] []"

definition mpi_allgatherv_init where
  "mpi_allgatherv_init E pr large sendbuf sendcount sendtype recvbuf recvcounts displs recvtype
    comm info =
     calls E pr large ''Allgatherv_init''
       [Buf (mpif_c_cbuffer (place E) sendbuf), Val sendcount,
        Hdl (of_int_handle E Type sendtype), Buf (mpif_c_buffer (place E) recvbuf),
        Buf recvcounts, Buf displs, Hdl (of_int_handle E Type recvtype),
        Hdl (of_int_handle E Comm comm), Hdl (of_int_handle E Info info),
        Temp ''request'' MPI_REQUEST_NULL] [Handle Request ''request'']"

definition mpi_allreduce where
  "mpi_allreduce E pr large sendbuf recvbuf cnt datatype oper comm =
     calls E pr large ''Allreduce''
       [Buf (mpif_c_cbuffer (place E) sendbuf), Buf (mpif_c_buffer (place E) recvbuf), Val cnt,
        Hdl (of_int_handle E Type datatype), Hdl (of_int_handle E Op oper),
        Hdl (of_int_handle E Comm comm)] []"

definition mpi_allreduce_init where
  "mpi_allreduce_init E pr large sendbuf recvbuf cnt datatype oper comm info =
     calls E pr large ''Allreduce_init''
       [Buf (mpif_c_cbuffer (place E) sendbuf), Buf (mpif_c_buffer (place E) recvbuf), Val cnt,
        Hdl (of_int_handle E Type datatype), Hdl (of_int_handle E Op oper),
        Hdl (of_int_handle E Comm comm), Hdl (of_int_handle E Info info),
        Temp ''request'' MPI_REQUEST_NULL] [Handle Request ''request'']"

definition mpi_alltoall where
  "mpi_alltoall E pr large sendbuf sendcount sendtype recvbuf recvcount recvtype comm =
     calls E pr large ''Alltoall''
       [Buf (mpif_c_cbuffer (place E) sendbuf), Val sendcount,
        Hdl (of_int_handle E Type sendtype), Buf (mpif_c_buffer (place E) recvbuf),
        Val recvcount, Hdl (of_int_handle E Type recvtype), Hdl (of_int_handle E Comm comm)] []"

definition mpi_alltoall_init where
  "mpi_alltoall_init E pr large sendbuf sendcount sendtype recvbuf recvcount recvtype comm info =
     calls E pr large ''Alltoall_init''
       [Buf (mpif_c_cbuffer (place E) sendbuf), Val sendcount,
        Hdl (of_int_handle E Type sendtype), Buf (mpif_c_buffer (place E) recvbuf),
        Val recvcount, Hdl (of_int_handle E Type recvtype), Hdl (of_int_handle E Comm comm),
        Hdl (of_int_handle E Info info), Temp ''request'' MPI_REQUEST_NULL]
       [Handle Request ''request'']"

definition mpi_alltoallv where
  "mpi_alltoallv E pr large sendbuf sendcounts sdispls sendtype recvbuf recvcounts rdispls
    recvtype comm =
     calls E pr large ''Alltoallv''
       [Buf (mpif_c_cbuffer (place E) sendbuf), Buf sendcounts, Buf sdispls,
        Hdl (of_int_handle E Type sendtype), Buf (mpif_c_buffer (place E) recvbuf),
        Buf recvcounts, Buf rdispls, Hdl (of_int_handle E Type recvtype),
        Hdl (of_int_handle E Comm comm)] []"

definition mpi_alltoallv_init where
  "mpi_alltoallv_init E pr large sendbuf sendcounts sdispls sendtype recvbuf recvcounts rdispls
    recvtype comm info =
     calls E pr large ''Alltoallv_init''
       [Buf (mpif_c_cbuffer (place E) sendbuf), Buf sendcounts, Buf sdispls,
        Hdl (of_int_handle E Type sendtype), Buf (mpif_c_buffer (place E) recvbuf),
        Buf recvcounts, Buf rdispls, Hdl (of_int_handle E Type recvtype),
        Hdl (of_int_handle E Comm comm), Hdl (of_int_handle E Info info),
        Temp ''request'' MPI_REQUEST_NULL] [Handle Request ''request'']"

definition mpi_alltoallw where
  "mpi_alltoallw E pr large sendbuf sendcounts sdispls sendtypes recvbuf recvcounts rdispls
    recvtypes comm =
     probing (group_size E (of_int_handle E Comm comm)) (\<lambda>n w.
       bindE (send_types E (mpif_c_cbuffer (place E) sendbuf) sendtypes n) (\<lambda>c_sendtypes.
       bindE (from_array (handles E) Type recvtypes n) (\<lambda>c_recvtypes.
         calls E pr large ''Alltoallw''
           [Buf (mpif_c_cbuffer (place E) sendbuf), Buf sendcounts, Buf sdispls,
            Handles c_sendtypes, Buf (mpif_c_buffer (place E) recvbuf), Buf recvcounts,
            Buf rdispls, Handles c_recvtypes, Hdl (of_int_handle E Comm comm)] [] w)))"

definition mpi_alltoallw_init where
  "mpi_alltoallw_init E pr large sendbuf sendcounts sdispls sendtypes recvbuf recvcounts rdispls
    recvtypes comm info =
     probing (group_size E (of_int_handle E Comm comm)) (\<lambda>n w.
       bindE (send_types E (mpif_c_cbuffer (place E) sendbuf) sendtypes n) (\<lambda>c_sendtypes.
       bindE (from_array (handles E) Type recvtypes n) (\<lambda>c_recvtypes.
         calls E pr large ''Alltoallw_init''
           [Buf (mpif_c_cbuffer (place E) sendbuf), Buf sendcounts, Buf sdispls,
            Handles c_sendtypes, Buf (mpif_c_buffer (place E) recvbuf), Buf recvcounts,
            Buf rdispls, Handles c_recvtypes, Hdl (of_int_handle E Comm comm),
            Hdl (of_int_handle E Info info), Temp ''request'' MPI_REQUEST_NULL]
           [Handle Request ''request''] w)))"

definition mpi_bcast where
  "mpi_bcast E pr large buffer cnt datatype root comm =
     calls E pr large ''Bcast''
       [Buf (mpif_c_buffer (place E) buffer), Val cnt, Hdl (of_int_handle E Type datatype),
        Val root, Hdl (of_int_handle E Comm comm)] []"

definition mpi_bcast_init where
  "mpi_bcast_init E pr large buffer cnt datatype root comm info =
     calls E pr large ''Bcast_init''
       [Buf (mpif_c_buffer (place E) buffer), Val cnt, Hdl (of_int_handle E Type datatype),
        Val root, Hdl (of_int_handle E Comm comm), Hdl (of_int_handle E Info info),
        Temp ''request'' MPI_REQUEST_NULL] [Handle Request ''request'']"

definition mpi_bsend where
  "mpi_bsend E pr large buf cnt datatype dest tag comm =
     calls E pr large ''Bsend''
       [Buf (mpif_c_cbuffer (place E) buf), Val cnt, Hdl (of_int_handle E Type datatype),
        Val dest, Val tag, Hdl (of_int_handle E Comm comm)] []"

definition mpi_bsend_init where
  "mpi_bsend_init E pr large buf cnt datatype dest tag comm =
     calls E pr large ''Bsend_init''
       [Buf (mpif_c_cbuffer (place E) buf), Val cnt, Hdl (of_int_handle E Type datatype),
        Val dest, Val tag, Hdl (of_int_handle E Comm comm), Temp ''request'' MPI_REQUEST_NULL]
       [Handle Request ''request'']"

definition mpi_buffer_attach where
  "mpi_buffer_attach E pr large buffer sz =
     calls E pr large ''Buffer_attach''
       [Buf (mpif_c_buffer (place E) buffer), Val sz] []"

definition mpi_comm_attach_buffer where
  "mpi_comm_attach_buffer E pr large comm buffer sz =
     calls E pr large ''Comm_attach_buffer''
       [Hdl (of_int_handle E Comm comm), Buf (mpif_c_buffer (place E) buffer), Val sz] []"

definition mpi_compare_and_swap where
  "mpi_compare_and_swap E pr origin_addr compare_addr result_addr datatype target_rank
    target_disp win =
     calls E pr False ''Compare_and_swap''
       [Buf (mpif_c_cbuffer (place E) origin_addr), Buf (mpif_c_cbuffer (place E) compare_addr),
        Buf (mpif_c_buffer (place E) result_addr), Hdl (of_int_handle E Type datatype),
        Val target_rank, Val target_disp, Hdl (of_int_handle E Win win)] []"

definition mpi_exscan where
  "mpi_exscan E pr large sendbuf recvbuf cnt datatype oper comm =
     calls E pr large ''Exscan''
       [Buf (mpif_c_cbuffer (place E) sendbuf), Buf (mpif_c_buffer (place E) recvbuf), Val cnt,
        Hdl (of_int_handle E Type datatype), Hdl (of_int_handle E Op oper),
        Hdl (of_int_handle E Comm comm)] []"

definition mpi_exscan_init where
  "mpi_exscan_init E pr large sendbuf recvbuf cnt datatype oper comm info =
     calls E pr large ''Exscan_init''
       [Buf (mpif_c_cbuffer (place E) sendbuf), Buf (mpif_c_buffer (place E) recvbuf), Val cnt,
        Hdl (of_int_handle E Type datatype), Hdl (of_int_handle E Op oper),
        Hdl (of_int_handle E Comm comm), Hdl (of_int_handle E Info info),
        Temp ''request'' MPI_REQUEST_NULL] [Handle Request ''request'']"

definition mpi_fetch_and_op where
  "mpi_fetch_and_op E pr origin_addr result_addr datatype target_rank target_disp oper win =
     calls E pr False ''Fetch_and_op''
       [Buf (mpif_c_cbuffer (place E) origin_addr), Buf (mpif_c_buffer (place E) result_addr),
        Hdl (of_int_handle E Type datatype), Val target_rank, Val target_disp,
        Hdl (of_int_handle E Op oper), Hdl (of_int_handle E Win win)] []"

definition mpi_file_iread where
  "mpi_file_iread E pr large fh buf cnt datatype =
     calls E pr large ''File_iread''
       [Hdl (of_int_handle E File fh), Buf (mpif_c_buffer (place E) buf), Val cnt,
        Hdl (of_int_handle E Type datatype), Temp ''request'' MPI_REQUEST_NULL]
       [Handle Request ''request'']"

definition mpi_file_iread_all where
  "mpi_file_iread_all E pr large fh buf cnt datatype =
     calls E pr large ''File_iread_all''
       [Hdl (of_int_handle E File fh), Buf (mpif_c_buffer (place E) buf), Val cnt,
        Hdl (of_int_handle E Type datatype), Temp ''request'' MPI_REQUEST_NULL]
       [Handle Request ''request'']"

definition mpi_file_iread_at where
  "mpi_file_iread_at E pr large fh offset buf cnt datatype =
     calls E pr large ''File_iread_at''
       [Hdl (of_int_handle E File fh), Val offset, Buf (mpif_c_buffer (place E) buf), Val cnt,
        Hdl (of_int_handle E Type datatype), Temp ''request'' MPI_REQUEST_NULL]
       [Handle Request ''request'']"

definition mpi_file_iread_at_all where
  "mpi_file_iread_at_all E pr large fh offset buf cnt datatype =
     calls E pr large ''File_iread_at_all''
       [Hdl (of_int_handle E File fh), Val offset, Buf (mpif_c_buffer (place E) buf), Val cnt,
        Hdl (of_int_handle E Type datatype), Temp ''request'' MPI_REQUEST_NULL]
       [Handle Request ''request'']"

definition mpi_file_iread_shared where
  "mpi_file_iread_shared E pr large fh buf cnt datatype =
     calls E pr large ''File_iread_shared''
       [Hdl (of_int_handle E File fh), Buf (mpif_c_buffer (place E) buf), Val cnt,
        Hdl (of_int_handle E Type datatype), Temp ''request'' MPI_REQUEST_NULL]
       [Handle Request ''request'']"

definition mpi_file_iwrite where
  "mpi_file_iwrite E pr large fh buf cnt datatype =
     calls E pr large ''File_iwrite''
       [Hdl (of_int_handle E File fh), Buf (mpif_c_cbuffer (place E) buf), Val cnt,
        Hdl (of_int_handle E Type datatype), Temp ''request'' MPI_REQUEST_NULL]
       [Handle Request ''request'']"

definition mpi_file_iwrite_all where
  "mpi_file_iwrite_all E pr large fh buf cnt datatype =
     calls E pr large ''File_iwrite_all''
       [Hdl (of_int_handle E File fh), Buf (mpif_c_cbuffer (place E) buf), Val cnt,
        Hdl (of_int_handle E Type datatype), Temp ''request'' MPI_REQUEST_NULL]
       [Handle Request ''request'']"

definition mpi_file_iwrite_at where
  "mpi_file_iwrite_at E pr large fh offset buf cnt datatype =
     calls E pr large ''File_iwrite_at''
       [Hdl (of_int_handle E File fh), Val offset, Buf (mpif_c_cbuffer (place E) buf), Val cnt,
        Hdl (of_int_handle E Type datatype), Temp ''request'' MPI_REQUEST_NULL]
       [Handle Request ''request'']"

definition mpi_file_iwrite_at_all where
  "mpi_file_iwrite_at_all E pr large fh offset buf cnt datatype =
     calls E pr large ''File_iwrite_at_all''
       [Hdl (of_int_handle E File fh), Val offset, Buf (mpif_c_cbuffer (place E) buf), Val cnt,
        Hdl (of_int_handle E Type datatype), Temp ''request'' MPI_REQUEST_NULL]
       [Handle Request ''request'']"

definition mpi_file_iwrite_shared where
  "mpi_file_iwrite_shared E pr large fh buf cnt datatype =
     calls E pr large ''File_iwrite_shared''
       [Hdl (of_int_handle E File fh), Buf (mpif_c_cbuffer (place E) buf), Val cnt,
        Hdl (of_int_handle E Type datatype), Temp ''request'' MPI_REQUEST_NULL]
       [Handle Request ''request'']"

definition mpi_file_read where
  "mpi_file_read E pr large fh buf cnt datatype status =
     calls E pr large ''File_read''
       [Hdl (of_int_handle E File fh), Buf (mpif_c_buffer (place E) buf), Val cnt,
        Hdl (of_int_handle E Type datatype), Buf (mpif_c_status (place E) status)] []"

definition mpi_file_read_all where
  "mpi_file_read_all E pr large fh buf cnt datatype status =
     calls E pr large ''File_read_all''
       [Hdl (of_int_handle E File fh), Buf (mpif_c_buffer (place E) buf), Val cnt,
        Hdl (of_int_handle E Type datatype), Buf (mpif_c_status (place E) status)] []"

definition mpi_file_read_all_begin where
  "mpi_file_read_all_begin E pr large fh buf cnt datatype =
     calls E pr large ''File_read_all_begin''
       [Hdl (of_int_handle E File fh), Buf (mpif_c_buffer (place E) buf), Val cnt,
        Hdl (of_int_handle E Type datatype)] []"

definition mpi_file_read_all_end where
  "mpi_file_read_all_end E pr fh buf status =
     calls E pr False ''File_read_all_end''
       [Hdl (of_int_handle E File fh), Buf (mpif_c_buffer (place E) buf),
        Buf (mpif_c_status (place E) status)] []"

definition mpi_file_read_at where
  "mpi_file_read_at E pr large fh offset buf cnt datatype status =
     calls E pr large ''File_read_at''
       [Hdl (of_int_handle E File fh), Val offset, Buf (mpif_c_buffer (place E) buf), Val cnt,
        Hdl (of_int_handle E Type datatype), Buf (mpif_c_status (place E) status)] []"

definition mpi_file_read_at_all where
  "mpi_file_read_at_all E pr large fh offset buf cnt datatype status =
     calls E pr large ''File_read_at_all''
       [Hdl (of_int_handle E File fh), Val offset, Buf (mpif_c_buffer (place E) buf), Val cnt,
        Hdl (of_int_handle E Type datatype), Buf (mpif_c_status (place E) status)] []"

definition mpi_file_read_at_all_begin where
  "mpi_file_read_at_all_begin E pr large fh offset buf cnt datatype =
     calls E pr large ''File_read_at_all_begin''
       [Hdl (of_int_handle E File fh), Val offset, Buf (mpif_c_buffer (place E) buf), Val cnt,
        Hdl (of_int_handle E Type datatype)] []"

definition mpi_file_read_at_all_end where
  "mpi_file_read_at_all_end E pr fh buf status =
     calls E pr False ''File_read_at_all_end''
       [Hdl (of_int_handle E File fh), Buf (mpif_c_buffer (place E) buf),
        Buf (mpif_c_status (place E) status)] []"

definition mpi_file_read_ordered where
  "mpi_file_read_ordered E pr large fh buf cnt datatype status =
     calls E pr large ''File_read_ordered''
       [Hdl (of_int_handle E File fh), Buf (mpif_c_buffer (place E) buf), Val cnt,
        Hdl (of_int_handle E Type datatype), Buf (mpif_c_status (place E) status)] []"

definition mpi_file_read_ordered_begin where
  "mpi_file_read_ordered_begin E pr large fh buf cnt datatype =
     calls E pr large ''File_read_ordered_begin''
       [Hdl (of_int_handle E File fh), Buf (mpif_c_buffer (place E) buf), Val cnt,
        Hdl (of_int_handle E Type datatype)] []"

definition mpi_file_read_ordered_end where
  "mpi_file_read_ordered_end E pr fh buf status =
     calls E pr False ''File_read_ordered_end''
       [Hdl (of_int_handle E File fh), Buf (mpif_c_buffer (place E) buf),
        Buf (mpif_c_status (place E) status)] []"

definition mpi_file_read_shared where
  "mpi_file_read_shared E pr large fh buf cnt datatype status =
     calls E pr large ''File_read_shared''
       [Hdl (of_int_handle E File fh), Buf (mpif_c_buffer (place E) buf), Val cnt,
        Hdl (of_int_handle E Type datatype), Buf (mpif_c_status (place E) status)] []"

definition mpi_file_write where
  "mpi_file_write E pr large fh buf cnt datatype status =
     calls E pr large ''File_write''
       [Hdl (of_int_handle E File fh), Buf (mpif_c_cbuffer (place E) buf), Val cnt,
        Hdl (of_int_handle E Type datatype), Buf (mpif_c_status (place E) status)] []"

definition mpi_file_write_all where
  "mpi_file_write_all E pr large fh buf cnt datatype status =
     calls E pr large ''File_write_all''
       [Hdl (of_int_handle E File fh), Buf (mpif_c_cbuffer (place E) buf), Val cnt,
        Hdl (of_int_handle E Type datatype), Buf (mpif_c_status (place E) status)] []"

definition mpi_file_write_all_begin where
  "mpi_file_write_all_begin E pr large fh buf cnt datatype =
     calls E pr large ''File_write_all_begin''
       [Hdl (of_int_handle E File fh), Buf (mpif_c_cbuffer (place E) buf), Val cnt,
        Hdl (of_int_handle E Type datatype)] []"

definition mpi_file_write_all_end where
  "mpi_file_write_all_end E pr fh buf status =
     calls E pr False ''File_write_all_end''
       [Hdl (of_int_handle E File fh), Buf (mpif_c_cbuffer (place E) buf),
        Buf (mpif_c_status (place E) status)] []"

definition mpi_file_write_at where
  "mpi_file_write_at E pr large fh offset buf cnt datatype status =
     calls E pr large ''File_write_at''
       [Hdl (of_int_handle E File fh), Val offset, Buf (mpif_c_cbuffer (place E) buf), Val cnt,
        Hdl (of_int_handle E Type datatype), Buf (mpif_c_status (place E) status)] []"

definition mpi_file_write_at_all where
  "mpi_file_write_at_all E pr large fh offset buf cnt datatype status =
     calls E pr large ''File_write_at_all''
       [Hdl (of_int_handle E File fh), Val offset, Buf (mpif_c_cbuffer (place E) buf), Val cnt,
        Hdl (of_int_handle E Type datatype), Buf (mpif_c_status (place E) status)] []"

definition mpi_file_write_at_all_begin where
  "mpi_file_write_at_all_begin E pr large fh offset buf cnt datatype =
     calls E pr large ''File_write_at_all_begin''
       [Hdl (of_int_handle E File fh), Val offset, Buf (mpif_c_cbuffer (place E) buf), Val cnt,
        Hdl (of_int_handle E Type datatype)] []"

definition mpi_file_write_at_all_end where
  "mpi_file_write_at_all_end E pr fh buf status =
     calls E pr False ''File_write_at_all_end''
       [Hdl (of_int_handle E File fh), Buf (mpif_c_cbuffer (place E) buf),
        Buf (mpif_c_status (place E) status)] []"

definition mpi_file_write_ordered where
  "mpi_file_write_ordered E pr large fh buf cnt datatype status =
     calls E pr large ''File_write_ordered''
       [Hdl (of_int_handle E File fh), Buf (mpif_c_cbuffer (place E) buf), Val cnt,
        Hdl (of_int_handle E Type datatype), Buf (mpif_c_status (place E) status)] []"

definition mpi_file_write_ordered_begin where
  "mpi_file_write_ordered_begin E pr large fh buf cnt datatype =
     calls E pr large ''File_write_ordered_begin''
       [Hdl (of_int_handle E File fh), Buf (mpif_c_cbuffer (place E) buf), Val cnt,
        Hdl (of_int_handle E Type datatype)] []"

definition mpi_file_write_ordered_end where
  "mpi_file_write_ordered_end E pr fh buf status =
     calls E pr False ''File_write_ordered_end''
       [Hdl (of_int_handle E File fh), Buf (mpif_c_cbuffer (place E) buf),
        Buf (mpif_c_status (place E) status)] []"

definition mpi_file_write_shared where
  "mpi_file_write_shared E pr large fh buf cnt datatype status =
     calls E pr large ''File_write_shared''
       [Hdl (of_int_handle E File fh), Buf (mpif_c_cbuffer (place E) buf), Val cnt,
        Hdl (of_int_handle E Type datatype), Buf (mpif_c_status (place E) status)] []"

definition mpi_free_mem where
  "mpi_free_mem E pr base =
     calls E pr False ''Free_mem''
       [Buf (mpif_c_buffer (place E) base)] []"

definition mpi_gather where
  "mpi_gather E pr large sendbuf sendcount sendtype recvbuf recvcount recvtype root comm =
     probing (at_root E (of_int_handle E Comm comm) root) (\<lambda>q_at_root.
       calls E pr large ''Gather''
         [Buf (mpif_c_cbuffer (place E) sendbuf), Val sendcount,
          Hdl (of_int_handle E Type sendtype), Buf (mpif_c_buffer (place E) recvbuf),
          Val recvcount,
          Hdl (if q_at_root then of_int_handle E Type recvtype else MPI_DATATYPE_NULL),
          Val (sint root), Hdl (of_int_handle E Comm comm)] [])"

definition mpi_gather_init where
  "mpi_gather_init E pr large sendbuf sendcount sendtype recvbuf recvcount recvtype root comm
    info =
     probing (at_root E (of_int_handle E Comm comm) root) (\<lambda>q_at_root.
       calls E pr large ''Gather_init''
         [Buf (mpif_c_cbuffer (place E) sendbuf), Val sendcount,
          Hdl (of_int_handle E Type sendtype), Buf (mpif_c_buffer (place E) recvbuf),
          Val recvcount,
          Hdl (if q_at_root then of_int_handle E Type recvtype else MPI_DATATYPE_NULL),
          Val (sint root), Hdl (of_int_handle E Comm comm), Hdl (of_int_handle E Info info),
          Temp ''request'' MPI_REQUEST_NULL] [Handle Request ''request''])"

definition mpi_gatherv where
  "mpi_gatherv E pr large sendbuf sendcount sendtype recvbuf recvcounts displs recvtype root
    comm =
     probing (at_root E (of_int_handle E Comm comm) root) (\<lambda>q_at_root.
       calls E pr large ''Gatherv''
         [Buf (mpif_c_cbuffer (place E) sendbuf), Val sendcount,
          Hdl (of_int_handle E Type sendtype), Buf (mpif_c_buffer (place E) recvbuf),
          Buf recvcounts, Buf displs,
          Hdl (if q_at_root then of_int_handle E Type recvtype else MPI_DATATYPE_NULL),
          Val (sint root), Hdl (of_int_handle E Comm comm)] [])"

definition mpi_gatherv_init where
  "mpi_gatherv_init E pr large sendbuf sendcount sendtype recvbuf recvcounts displs recvtype
    root comm info =
     probing (at_root E (of_int_handle E Comm comm) root) (\<lambda>q_at_root.
       calls E pr large ''Gatherv_init''
         [Buf (mpif_c_cbuffer (place E) sendbuf), Val sendcount,
          Hdl (of_int_handle E Type sendtype), Buf (mpif_c_buffer (place E) recvbuf),
          Buf recvcounts, Buf displs,
          Hdl (if q_at_root then of_int_handle E Type recvtype else MPI_DATATYPE_NULL),
          Val (sint root), Hdl (of_int_handle E Comm comm), Hdl (of_int_handle E Info info),
          Temp ''request'' MPI_REQUEST_NULL] [Handle Request ''request''])"

definition mpi_get where
  "mpi_get E pr large origin_addr origin_count origin_datatype target_rank target_disp
    target_count target_datatype win =
     calls E pr large ''Get''
       [Buf (mpif_c_buffer (place E) origin_addr), Val origin_count,
        Hdl (of_int_handle E Type origin_datatype), Val target_rank, Val target_disp,
        Val target_count, Hdl (of_int_handle E Type target_datatype),
        Hdl (of_int_handle E Win win)] []"

definition mpi_get_accumulate where
  "mpi_get_accumulate E pr large origin_addr origin_count origin_datatype result_addr
    result_count result_datatype target_rank target_disp target_count target_datatype oper win
    =
     calls E pr large ''Get_accumulate''
       [Buf (mpif_c_cbuffer (place E) origin_addr), Val origin_count,
        Hdl (of_int_handle E Type origin_datatype), Buf (mpif_c_buffer (place E) result_addr),
        Val result_count, Hdl (of_int_handle E Type result_datatype), Val target_rank,
        Val target_disp, Val target_count, Hdl (of_int_handle E Type target_datatype),
        Hdl (of_int_handle E Op oper), Hdl (of_int_handle E Win win)] []"

definition mpi_get_address where
  "mpi_get_address E pr location address =
     calls E pr False ''Get_address''
       [Buf (mpif_c_cbuffer (place E) location), Buf address] []"

definition mpi_iallgather where
  "mpi_iallgather E pr large sendbuf sendcount sendtype recvbuf recvcount recvtype comm =
     calls E pr large ''Iallgather''
       [Buf (mpif_c_cbuffer (place E) sendbuf), Val sendcount,
        Hdl (of_int_handle E Type sendtype), Buf (mpif_c_buffer (place E) recvbuf),
        Val recvcount, Hdl (of_int_handle E Type recvtype), Hdl (of_int_handle E Comm comm),
        Temp ''request'' MPI_REQUEST_NULL] [Handle Request ''request'']"

definition mpi_iallgatherv where
  "mpi_iallgatherv E pr large sendbuf sendcount sendtype recvbuf recvcounts displs recvtype comm =
     calls E pr large ''Iallgatherv''
       [Buf (mpif_c_cbuffer (place E) sendbuf), Val sendcount,
        Hdl (of_int_handle E Type sendtype), Buf (mpif_c_buffer (place E) recvbuf),
        Buf recvcounts, Buf displs, Hdl (of_int_handle E Type recvtype),
        Hdl (of_int_handle E Comm comm), Temp ''request'' MPI_REQUEST_NULL]
       [Handle Request ''request'']"

definition mpi_iallreduce where
  "mpi_iallreduce E pr large sendbuf recvbuf cnt datatype oper comm =
     calls E pr large ''Iallreduce''
       [Buf (mpif_c_cbuffer (place E) sendbuf), Buf (mpif_c_buffer (place E) recvbuf), Val cnt,
        Hdl (of_int_handle E Type datatype), Hdl (of_int_handle E Op oper),
        Hdl (of_int_handle E Comm comm), Temp ''request'' MPI_REQUEST_NULL]
       [Handle Request ''request'']"

definition mpi_ialltoall where
  "mpi_ialltoall E pr large sendbuf sendcount sendtype recvbuf recvcount recvtype comm =
     calls E pr large ''Ialltoall''
       [Buf (mpif_c_cbuffer (place E) sendbuf), Val sendcount,
        Hdl (of_int_handle E Type sendtype), Buf (mpif_c_buffer (place E) recvbuf),
        Val recvcount, Hdl (of_int_handle E Type recvtype), Hdl (of_int_handle E Comm comm),
        Temp ''request'' MPI_REQUEST_NULL] [Handle Request ''request'']"

definition mpi_ialltoallv where
  "mpi_ialltoallv E pr large sendbuf sendcounts sdispls sendtype recvbuf recvcounts rdispls
    recvtype comm =
     calls E pr large ''Ialltoallv''
       [Buf (mpif_c_cbuffer (place E) sendbuf), Buf sendcounts, Buf sdispls,
        Hdl (of_int_handle E Type sendtype), Buf (mpif_c_buffer (place E) recvbuf),
        Buf recvcounts, Buf rdispls, Hdl (of_int_handle E Type recvtype),
        Hdl (of_int_handle E Comm comm), Temp ''request'' MPI_REQUEST_NULL]
       [Handle Request ''request'']"

definition mpi_ialltoallw where
  "mpi_ialltoallw E pr large sendbuf sendcounts sdispls sendtypes recvbuf recvcounts rdispls
    recvtypes comm =
     probing (group_size E (of_int_handle E Comm comm)) (\<lambda>n w.
       bindE (send_types E (mpif_c_cbuffer (place E) sendbuf) sendtypes n) (\<lambda>c_sendtypes.
       bindE (from_array (handles E) Type recvtypes n) (\<lambda>c_recvtypes.
         calls E pr large ''Ialltoallw''
           [Buf (mpif_c_cbuffer (place E) sendbuf), Buf sendcounts, Buf sdispls,
            Handles c_sendtypes, Buf (mpif_c_buffer (place E) recvbuf), Buf recvcounts,
            Buf rdispls, Handles c_recvtypes, Hdl (of_int_handle E Comm comm),
            Temp ''request'' MPI_REQUEST_NULL] [Handle Request ''request''] w)))"

definition mpi_ibcast where
  "mpi_ibcast E pr large buffer cnt datatype root comm =
     calls E pr large ''Ibcast''
       [Buf (mpif_c_buffer (place E) buffer), Val cnt, Hdl (of_int_handle E Type datatype),
        Val root, Hdl (of_int_handle E Comm comm), Temp ''request'' MPI_REQUEST_NULL]
       [Handle Request ''request'']"

definition mpi_ibsend where
  "mpi_ibsend E pr large buf cnt datatype dest tag comm =
     calls E pr large ''Ibsend''
       [Buf (mpif_c_cbuffer (place E) buf), Val cnt, Hdl (of_int_handle E Type datatype),
        Val dest, Val tag, Hdl (of_int_handle E Comm comm), Temp ''request'' MPI_REQUEST_NULL]
       [Handle Request ''request'']"

definition mpi_iexscan where
  "mpi_iexscan E pr large sendbuf recvbuf cnt datatype oper comm =
     calls E pr large ''Iexscan''
       [Buf (mpif_c_cbuffer (place E) sendbuf), Buf (mpif_c_buffer (place E) recvbuf), Val cnt,
        Hdl (of_int_handle E Type datatype), Hdl (of_int_handle E Op oper),
        Hdl (of_int_handle E Comm comm), Temp ''request'' MPI_REQUEST_NULL]
       [Handle Request ''request'']"

definition mpi_igather where
  "mpi_igather E pr large sendbuf sendcount sendtype recvbuf recvcount recvtype root comm =
     probing (at_root E (of_int_handle E Comm comm) root) (\<lambda>q_at_root.
       calls E pr large ''Igather''
         [Buf (mpif_c_cbuffer (place E) sendbuf), Val sendcount,
          Hdl (of_int_handle E Type sendtype), Buf (mpif_c_buffer (place E) recvbuf),
          Val recvcount,
          Hdl (if q_at_root then of_int_handle E Type recvtype else MPI_DATATYPE_NULL),
          Val (sint root), Hdl (of_int_handle E Comm comm), Temp ''request'' MPI_REQUEST_NULL]
         [Handle Request ''request''])"

definition mpi_igatherv where
  "mpi_igatherv E pr large sendbuf sendcount sendtype recvbuf recvcounts displs recvtype root
    comm =
     probing (at_root E (of_int_handle E Comm comm) root) (\<lambda>q_at_root.
       calls E pr large ''Igatherv''
         [Buf (mpif_c_cbuffer (place E) sendbuf), Val sendcount,
          Hdl (of_int_handle E Type sendtype), Buf (mpif_c_buffer (place E) recvbuf),
          Buf recvcounts, Buf displs,
          Hdl (if q_at_root then of_int_handle E Type recvtype else MPI_DATATYPE_NULL),
          Val (sint root), Hdl (of_int_handle E Comm comm), Temp ''request'' MPI_REQUEST_NULL]
         [Handle Request ''request''])"

definition mpi_imrecv where
  "mpi_imrecv E pr large buf cnt datatype message =
     calls E pr large ''Imrecv''
       [Buf (mpif_c_buffer (place E) buf), Val cnt, Hdl (of_int_handle E Type datatype),
        Temp ''message'' (of_int_handle E Message message), Temp ''request'' MPI_REQUEST_NULL]
       [Handle Message ''message'', Handle Request ''request'']"

definition mpi_ineighbor_allgather where
  "mpi_ineighbor_allgather E pr large sendbuf sendcount sendtype recvbuf recvcount recvtype comm =
     calls E pr large ''Ineighbor_allgather''
       [Buf (mpif_c_cbuffer (place E) sendbuf), Val sendcount,
        Hdl (of_int_handle E Type sendtype), Buf (mpif_c_buffer (place E) recvbuf),
        Val recvcount, Hdl (of_int_handle E Type recvtype), Hdl (of_int_handle E Comm comm),
        Temp ''request'' MPI_REQUEST_NULL] [Handle Request ''request'']"

definition mpi_ineighbor_allgatherv where
  "mpi_ineighbor_allgatherv E pr large sendbuf sendcount sendtype recvbuf recvcounts displs
    recvtype comm =
     calls E pr large ''Ineighbor_allgatherv''
       [Buf (mpif_c_cbuffer (place E) sendbuf), Val sendcount,
        Hdl (of_int_handle E Type sendtype), Buf (mpif_c_buffer (place E) recvbuf),
        Buf recvcounts, Buf displs, Hdl (of_int_handle E Type recvtype),
        Hdl (of_int_handle E Comm comm), Temp ''request'' MPI_REQUEST_NULL]
       [Handle Request ''request'']"

definition mpi_ineighbor_alltoall where
  "mpi_ineighbor_alltoall E pr large sendbuf sendcount sendtype recvbuf recvcount recvtype comm =
     calls E pr large ''Ineighbor_alltoall''
       [Buf (mpif_c_cbuffer (place E) sendbuf), Val sendcount,
        Hdl (of_int_handle E Type sendtype), Buf (mpif_c_buffer (place E) recvbuf),
        Val recvcount, Hdl (of_int_handle E Type recvtype), Hdl (of_int_handle E Comm comm),
        Temp ''request'' MPI_REQUEST_NULL] [Handle Request ''request'']"

definition mpi_ineighbor_alltoallv where
  "mpi_ineighbor_alltoallv E pr large sendbuf sendcounts sdispls sendtype recvbuf recvcounts
    rdispls recvtype comm =
     calls E pr large ''Ineighbor_alltoallv''
       [Buf (mpif_c_cbuffer (place E) sendbuf), Buf sendcounts, Buf sdispls,
        Hdl (of_int_handle E Type sendtype), Buf (mpif_c_buffer (place E) recvbuf),
        Buf recvcounts, Buf rdispls, Hdl (of_int_handle E Type recvtype),
        Hdl (of_int_handle E Comm comm), Temp ''request'' MPI_REQUEST_NULL]
       [Handle Request ''request'']"

definition mpi_ineighbor_alltoallw where
  "mpi_ineighbor_alltoallw E pr large sendbuf sendcounts sdispls sendtypes recvbuf recvcounts
    rdispls recvtypes comm =
     probing (neighbour_counts E (of_int_handle E Comm comm)) (\<lambda>(indegree, outdegree) w.
       bindE (send_types E (mpif_c_cbuffer (place E) sendbuf) sendtypes outdegree) (\<lambda>c_sendtypes.
       bindE (from_array (handles E) Type recvtypes indegree) (\<lambda>c_recvtypes.
         calls E pr large ''Ineighbor_alltoallw''
           [Buf (mpif_c_cbuffer (place E) sendbuf), Buf sendcounts, Buf sdispls,
            Handles c_sendtypes, Buf (mpif_c_buffer (place E) recvbuf), Buf recvcounts,
            Buf rdispls, Handles c_recvtypes, Hdl (of_int_handle E Comm comm),
            Temp ''request'' MPI_REQUEST_NULL] [Handle Request ''request''] w)))"

definition mpi_irecv where
  "mpi_irecv E pr large buf cnt datatype source tag comm =
     calls E pr large ''Irecv''
       [Buf (mpif_c_buffer (place E) buf), Val cnt, Hdl (of_int_handle E Type datatype),
        Val source, Val tag, Hdl (of_int_handle E Comm comm), Temp ''request'' MPI_REQUEST_NULL]
       [Handle Request ''request'']"

definition mpi_ireduce where
  "mpi_ireduce E pr large sendbuf recvbuf cnt datatype oper root comm =
     calls E pr large ''Ireduce''
       [Buf (mpif_c_cbuffer (place E) sendbuf), Buf (mpif_c_buffer (place E) recvbuf), Val cnt,
        Hdl (of_int_handle E Type datatype), Hdl (of_int_handle E Op oper), Val root,
        Hdl (of_int_handle E Comm comm), Temp ''request'' MPI_REQUEST_NULL]
       [Handle Request ''request'']"

definition mpi_ireduce_scatter where
  "mpi_ireduce_scatter E pr large sendbuf recvbuf recvcounts datatype oper comm =
     calls E pr large ''Ireduce_scatter''
       [Buf (mpif_c_cbuffer (place E) sendbuf), Buf (mpif_c_buffer (place E) recvbuf),
        Buf recvcounts, Hdl (of_int_handle E Type datatype), Hdl (of_int_handle E Op oper),
        Hdl (of_int_handle E Comm comm), Temp ''request'' MPI_REQUEST_NULL]
       [Handle Request ''request'']"

definition mpi_ireduce_scatter_block where
  "mpi_ireduce_scatter_block E pr large sendbuf recvbuf recvcount datatype oper comm =
     calls E pr large ''Ireduce_scatter_block''
       [Buf (mpif_c_cbuffer (place E) sendbuf), Buf (mpif_c_buffer (place E) recvbuf),
        Val recvcount, Hdl (of_int_handle E Type datatype), Hdl (of_int_handle E Op oper),
        Hdl (of_int_handle E Comm comm), Temp ''request'' MPI_REQUEST_NULL]
       [Handle Request ''request'']"

definition mpi_irsend where
  "mpi_irsend E pr large buf cnt datatype dest tag comm =
     calls E pr large ''Irsend''
       [Buf (mpif_c_cbuffer (place E) buf), Val cnt, Hdl (of_int_handle E Type datatype),
        Val dest, Val tag, Hdl (of_int_handle E Comm comm), Temp ''request'' MPI_REQUEST_NULL]
       [Handle Request ''request'']"

definition mpi_iscan where
  "mpi_iscan E pr large sendbuf recvbuf cnt datatype oper comm =
     calls E pr large ''Iscan''
       [Buf (mpif_c_cbuffer (place E) sendbuf), Buf (mpif_c_buffer (place E) recvbuf), Val cnt,
        Hdl (of_int_handle E Type datatype), Hdl (of_int_handle E Op oper),
        Hdl (of_int_handle E Comm comm), Temp ''request'' MPI_REQUEST_NULL]
       [Handle Request ''request'']"

definition mpi_iscatter where
  "mpi_iscatter E pr large sendbuf sendcount sendtype recvbuf recvcount recvtype root comm =
     probing (at_root E (of_int_handle E Comm comm) root) (\<lambda>q_at_root.
       calls E pr large ''Iscatter''
         [Buf (mpif_c_cbuffer (place E) sendbuf), Val sendcount,
          Hdl (if q_at_root then of_int_handle E Type sendtype else MPI_DATATYPE_NULL),
          Buf (mpif_c_buffer (place E) recvbuf), Val recvcount,
          Hdl (of_int_handle E Type recvtype), Val (sint root), Hdl (of_int_handle E Comm comm),
          Temp ''request'' MPI_REQUEST_NULL] [Handle Request ''request''])"

definition mpi_iscatterv where
  "mpi_iscatterv E pr large sendbuf sendcounts displs sendtype recvbuf recvcount recvtype root
    comm =
     probing (at_root E (of_int_handle E Comm comm) root) (\<lambda>q_at_root.
       calls E pr large ''Iscatterv''
         [Buf (mpif_c_cbuffer (place E) sendbuf), Buf sendcounts, Buf displs,
          Hdl (if q_at_root then of_int_handle E Type sendtype else MPI_DATATYPE_NULL),
          Buf (mpif_c_buffer (place E) recvbuf), Val recvcount,
          Hdl (of_int_handle E Type recvtype), Val (sint root), Hdl (of_int_handle E Comm comm),
          Temp ''request'' MPI_REQUEST_NULL] [Handle Request ''request''])"

definition mpi_isend where
  "mpi_isend E pr large buf cnt datatype dest tag comm =
     calls E pr large ''Isend''
       [Buf (mpif_c_cbuffer (place E) buf), Val cnt, Hdl (of_int_handle E Type datatype),
        Val dest, Val tag, Hdl (of_int_handle E Comm comm), Temp ''request'' MPI_REQUEST_NULL]
       [Handle Request ''request'']"

definition mpi_isendrecv where
  "mpi_isendrecv E pr large sendbuf sendcount sendtype dest sendtag recvbuf recvcount recvtype
    source recvtag comm =
     calls E pr large ''Isendrecv''
       [Buf (mpif_c_cbuffer (place E) sendbuf), Val sendcount,
        Hdl (of_int_handle E Type sendtype), Val dest, Val sendtag,
        Buf (mpif_c_buffer (place E) recvbuf), Val recvcount,
        Hdl (of_int_handle E Type recvtype), Val source, Val recvtag,
        Hdl (of_int_handle E Comm comm), Temp ''request'' MPI_REQUEST_NULL]
       [Handle Request ''request'']"

definition mpi_isendrecv_replace where
  "mpi_isendrecv_replace E pr large buf cnt datatype dest sendtag source recvtag comm =
     calls E pr large ''Isendrecv_replace''
       [Buf (mpif_c_buffer (place E) buf), Val cnt, Hdl (of_int_handle E Type datatype),
        Val dest, Val sendtag, Val source, Val recvtag, Hdl (of_int_handle E Comm comm),
        Temp ''request'' MPI_REQUEST_NULL] [Handle Request ''request'']"

definition mpi_issend where
  "mpi_issend E pr large buf cnt datatype dest tag comm =
     calls E pr large ''Issend''
       [Buf (mpif_c_cbuffer (place E) buf), Val cnt, Hdl (of_int_handle E Type datatype),
        Val dest, Val tag, Hdl (of_int_handle E Comm comm), Temp ''request'' MPI_REQUEST_NULL]
       [Handle Request ''request'']"

definition mpi_mrecv where
  "mpi_mrecv E pr large buf cnt datatype message status =
     calls E pr large ''Mrecv''
       [Buf (mpif_c_buffer (place E) buf), Val cnt, Hdl (of_int_handle E Type datatype),
        Temp ''message'' (of_int_handle E Message message),
        Buf (mpif_c_status (place E) status)] [Handle Message ''message'']"

definition mpi_neighbor_allgather where
  "mpi_neighbor_allgather E pr large sendbuf sendcount sendtype recvbuf recvcount recvtype comm =
     calls E pr large ''Neighbor_allgather''
       [Buf (mpif_c_cbuffer (place E) sendbuf), Val sendcount,
        Hdl (of_int_handle E Type sendtype), Buf (mpif_c_buffer (place E) recvbuf),
        Val recvcount, Hdl (of_int_handle E Type recvtype), Hdl (of_int_handle E Comm comm)] []"

definition mpi_neighbor_allgather_init where
  "mpi_neighbor_allgather_init E pr large sendbuf sendcount sendtype recvbuf recvcount recvtype
    comm info =
     calls E pr large ''Neighbor_allgather_init''
       [Buf (mpif_c_cbuffer (place E) sendbuf), Val sendcount,
        Hdl (of_int_handle E Type sendtype), Buf (mpif_c_buffer (place E) recvbuf),
        Val recvcount, Hdl (of_int_handle E Type recvtype), Hdl (of_int_handle E Comm comm),
        Hdl (of_int_handle E Info info), Temp ''request'' MPI_REQUEST_NULL]
       [Handle Request ''request'']"

definition mpi_neighbor_allgatherv where
  "mpi_neighbor_allgatherv E pr large sendbuf sendcount sendtype recvbuf recvcounts displs
    recvtype comm =
     calls E pr large ''Neighbor_allgatherv''
       [Buf (mpif_c_cbuffer (place E) sendbuf), Val sendcount,
        Hdl (of_int_handle E Type sendtype), Buf (mpif_c_buffer (place E) recvbuf),
        Buf recvcounts, Buf displs, Hdl (of_int_handle E Type recvtype),
        Hdl (of_int_handle E Comm comm)] []"

definition mpi_neighbor_allgatherv_init where
  "mpi_neighbor_allgatherv_init E pr large sendbuf sendcount sendtype recvbuf recvcounts displs
    recvtype comm info =
     calls E pr large ''Neighbor_allgatherv_init''
       [Buf (mpif_c_cbuffer (place E) sendbuf), Val sendcount,
        Hdl (of_int_handle E Type sendtype), Buf (mpif_c_buffer (place E) recvbuf),
        Buf recvcounts, Buf displs, Hdl (of_int_handle E Type recvtype),
        Hdl (of_int_handle E Comm comm), Hdl (of_int_handle E Info info),
        Temp ''request'' MPI_REQUEST_NULL] [Handle Request ''request'']"

definition mpi_neighbor_alltoall where
  "mpi_neighbor_alltoall E pr large sendbuf sendcount sendtype recvbuf recvcount recvtype comm =
     calls E pr large ''Neighbor_alltoall''
       [Buf (mpif_c_cbuffer (place E) sendbuf), Val sendcount,
        Hdl (of_int_handle E Type sendtype), Buf (mpif_c_buffer (place E) recvbuf),
        Val recvcount, Hdl (of_int_handle E Type recvtype), Hdl (of_int_handle E Comm comm)] []"

definition mpi_neighbor_alltoall_init where
  "mpi_neighbor_alltoall_init E pr large sendbuf sendcount sendtype recvbuf recvcount recvtype
    comm info =
     calls E pr large ''Neighbor_alltoall_init''
       [Buf (mpif_c_cbuffer (place E) sendbuf), Val sendcount,
        Hdl (of_int_handle E Type sendtype), Buf (mpif_c_buffer (place E) recvbuf),
        Val recvcount, Hdl (of_int_handle E Type recvtype), Hdl (of_int_handle E Comm comm),
        Hdl (of_int_handle E Info info), Temp ''request'' MPI_REQUEST_NULL]
       [Handle Request ''request'']"

definition mpi_neighbor_alltoallv where
  "mpi_neighbor_alltoallv E pr large sendbuf sendcounts sdispls sendtype recvbuf recvcounts
    rdispls recvtype comm =
     calls E pr large ''Neighbor_alltoallv''
       [Buf (mpif_c_cbuffer (place E) sendbuf), Buf sendcounts, Buf sdispls,
        Hdl (of_int_handle E Type sendtype), Buf (mpif_c_buffer (place E) recvbuf),
        Buf recvcounts, Buf rdispls, Hdl (of_int_handle E Type recvtype),
        Hdl (of_int_handle E Comm comm)] []"

definition mpi_neighbor_alltoallv_init where
  "mpi_neighbor_alltoallv_init E pr large sendbuf sendcounts sdispls sendtype recvbuf recvcounts
    rdispls recvtype comm info =
     calls E pr large ''Neighbor_alltoallv_init''
       [Buf (mpif_c_cbuffer (place E) sendbuf), Buf sendcounts, Buf sdispls,
        Hdl (of_int_handle E Type sendtype), Buf (mpif_c_buffer (place E) recvbuf),
        Buf recvcounts, Buf rdispls, Hdl (of_int_handle E Type recvtype),
        Hdl (of_int_handle E Comm comm), Hdl (of_int_handle E Info info),
        Temp ''request'' MPI_REQUEST_NULL] [Handle Request ''request'']"

definition mpi_neighbor_alltoallw where
  "mpi_neighbor_alltoallw E pr large sendbuf sendcounts sdispls sendtypes recvbuf recvcounts
    rdispls recvtypes comm =
     probing (neighbour_counts E (of_int_handle E Comm comm)) (\<lambda>(indegree, outdegree) w.
       bindE (send_types E (mpif_c_cbuffer (place E) sendbuf) sendtypes outdegree) (\<lambda>c_sendtypes.
       bindE (from_array (handles E) Type recvtypes indegree) (\<lambda>c_recvtypes.
         calls E pr large ''Neighbor_alltoallw''
           [Buf (mpif_c_cbuffer (place E) sendbuf), Buf sendcounts, Buf sdispls,
            Handles c_sendtypes, Buf (mpif_c_buffer (place E) recvbuf), Buf recvcounts,
            Buf rdispls, Handles c_recvtypes, Hdl (of_int_handle E Comm comm)] [] w)))"

definition mpi_neighbor_alltoallw_init where
  "mpi_neighbor_alltoallw_init E pr large sendbuf sendcounts sdispls sendtypes recvbuf
    recvcounts rdispls recvtypes comm info =
     probing (neighbour_counts E (of_int_handle E Comm comm)) (\<lambda>(indegree, outdegree) w.
       bindE (send_types E (mpif_c_cbuffer (place E) sendbuf) sendtypes outdegree) (\<lambda>c_sendtypes.
       bindE (from_array (handles E) Type recvtypes indegree) (\<lambda>c_recvtypes.
         calls E pr large ''Neighbor_alltoallw_init''
           [Buf (mpif_c_cbuffer (place E) sendbuf), Buf sendcounts, Buf sdispls,
            Handles c_sendtypes, Buf (mpif_c_buffer (place E) recvbuf), Buf recvcounts,
            Buf rdispls, Handles c_recvtypes, Hdl (of_int_handle E Comm comm),
            Hdl (of_int_handle E Info info), Temp ''request'' MPI_REQUEST_NULL]
           [Handle Request ''request''] w)))"

definition mpi_pack where
  "mpi_pack E pr large inbuf incount datatype outbuf outsize position comm =
     calls E pr large ''Pack''
       [Buf (mpif_c_cbuffer (place E) inbuf), Val incount, Hdl (of_int_handle E Type datatype),
        Buf (mpif_c_buffer (place E) outbuf), Val outsize, Buf position,
        Hdl (of_int_handle E Comm comm)] []"

definition mpi_precv_init where
  "mpi_precv_init E pr buf partitions cnt datatype source tag comm info =
     calls E pr False ''Precv_init''
       [Buf (mpif_c_buffer (place E) buf), Val partitions, Val cnt,
        Hdl (of_int_handle E Type datatype), Val source, Val tag,
        Hdl (of_int_handle E Comm comm), Hdl (of_int_handle E Info info),
        Temp ''request'' MPI_REQUEST_NULL] [Handle Request ''request'']"

definition mpi_psend_init where
  "mpi_psend_init E pr buf partitions cnt datatype dest tag comm info =
     calls E pr False ''Psend_init''
       [Buf (mpif_c_cbuffer (place E) buf), Val partitions, Val cnt,
        Hdl (of_int_handle E Type datatype), Val dest, Val tag, Hdl (of_int_handle E Comm comm),
        Hdl (of_int_handle E Info info), Temp ''request'' MPI_REQUEST_NULL]
       [Handle Request ''request'']"

definition mpi_put where
  "mpi_put E pr large origin_addr origin_count origin_datatype target_rank target_disp
    target_count target_datatype win =
     calls E pr large ''Put''
       [Buf (mpif_c_cbuffer (place E) origin_addr), Val origin_count,
        Hdl (of_int_handle E Type origin_datatype), Val target_rank, Val target_disp,
        Val target_count, Hdl (of_int_handle E Type target_datatype),
        Hdl (of_int_handle E Win win)] []"

definition mpi_raccumulate where
  "mpi_raccumulate E pr large origin_addr origin_count origin_datatype target_rank target_disp
    target_count target_datatype oper win =
     calls E pr large ''Raccumulate''
       [Buf (mpif_c_cbuffer (place E) origin_addr), Val origin_count,
        Hdl (of_int_handle E Type origin_datatype), Val target_rank, Val target_disp,
        Val target_count, Hdl (of_int_handle E Type target_datatype),
        Hdl (of_int_handle E Op oper), Hdl (of_int_handle E Win win),
        Temp ''request'' MPI_REQUEST_NULL] [Handle Request ''request'']"

definition mpi_recv where
  "mpi_recv E pr large buf cnt datatype source tag comm status =
     calls E pr large ''Recv''
       [Buf (mpif_c_buffer (place E) buf), Val cnt, Hdl (of_int_handle E Type datatype),
        Val source, Val tag, Hdl (of_int_handle E Comm comm),
        Buf (mpif_c_status (place E) status)] []"

definition mpi_recv_init where
  "mpi_recv_init E pr large buf cnt datatype source tag comm =
     calls E pr large ''Recv_init''
       [Buf (mpif_c_buffer (place E) buf), Val cnt, Hdl (of_int_handle E Type datatype),
        Val source, Val tag, Hdl (of_int_handle E Comm comm), Temp ''request'' MPI_REQUEST_NULL]
       [Handle Request ''request'']"

definition mpi_reduce where
  "mpi_reduce E pr large sendbuf recvbuf cnt datatype oper root comm =
     calls E pr large ''Reduce''
       [Buf (mpif_c_cbuffer (place E) sendbuf), Buf (mpif_c_buffer (place E) recvbuf), Val cnt,
        Hdl (of_int_handle E Type datatype), Hdl (of_int_handle E Op oper), Val root,
        Hdl (of_int_handle E Comm comm)] []"

definition mpi_reduce_init where
  "mpi_reduce_init E pr large sendbuf recvbuf cnt datatype oper root comm info =
     calls E pr large ''Reduce_init''
       [Buf (mpif_c_cbuffer (place E) sendbuf), Buf (mpif_c_buffer (place E) recvbuf), Val cnt,
        Hdl (of_int_handle E Type datatype), Hdl (of_int_handle E Op oper), Val root,
        Hdl (of_int_handle E Comm comm), Hdl (of_int_handle E Info info),
        Temp ''request'' MPI_REQUEST_NULL] [Handle Request ''request'']"

definition mpi_reduce_local where
  "mpi_reduce_local E pr large inbuf inoutbuf cnt datatype oper =
     calls E pr large ''Reduce_local''
       [Buf (mpif_c_cbuffer (place E) inbuf), Buf (mpif_c_buffer (place E) inoutbuf), Val cnt,
        Hdl (of_int_handle E Type datatype), Hdl (of_int_handle E Op oper)] []"

definition mpi_reduce_scatter where
  "mpi_reduce_scatter E pr large sendbuf recvbuf recvcounts datatype oper comm =
     calls E pr large ''Reduce_scatter''
       [Buf (mpif_c_cbuffer (place E) sendbuf), Buf (mpif_c_buffer (place E) recvbuf),
        Buf recvcounts, Hdl (of_int_handle E Type datatype), Hdl (of_int_handle E Op oper),
        Hdl (of_int_handle E Comm comm)] []"

definition mpi_reduce_scatter_block where
  "mpi_reduce_scatter_block E pr large sendbuf recvbuf recvcount datatype oper comm =
     calls E pr large ''Reduce_scatter_block''
       [Buf (mpif_c_cbuffer (place E) sendbuf), Buf (mpif_c_buffer (place E) recvbuf),
        Val recvcount, Hdl (of_int_handle E Type datatype), Hdl (of_int_handle E Op oper),
        Hdl (of_int_handle E Comm comm)] []"

definition mpi_reduce_scatter_block_init where
  "mpi_reduce_scatter_block_init E pr large sendbuf recvbuf recvcount datatype oper comm info =
     calls E pr large ''Reduce_scatter_block_init''
       [Buf (mpif_c_cbuffer (place E) sendbuf), Buf (mpif_c_buffer (place E) recvbuf),
        Val recvcount, Hdl (of_int_handle E Type datatype), Hdl (of_int_handle E Op oper),
        Hdl (of_int_handle E Comm comm), Hdl (of_int_handle E Info info),
        Temp ''request'' MPI_REQUEST_NULL] [Handle Request ''request'']"

definition mpi_reduce_scatter_init where
  "mpi_reduce_scatter_init E pr large sendbuf recvbuf recvcounts datatype oper comm info =
     calls E pr large ''Reduce_scatter_init''
       [Buf (mpif_c_cbuffer (place E) sendbuf), Buf (mpif_c_buffer (place E) recvbuf),
        Buf recvcounts, Hdl (of_int_handle E Type datatype), Hdl (of_int_handle E Op oper),
        Hdl (of_int_handle E Comm comm), Hdl (of_int_handle E Info info),
        Temp ''request'' MPI_REQUEST_NULL] [Handle Request ''request'']"

definition mpi_rget where
  "mpi_rget E pr large origin_addr origin_count origin_datatype target_rank target_disp
    target_count target_datatype win =
     calls E pr large ''Rget''
       [Buf (mpif_c_buffer (place E) origin_addr), Val origin_count,
        Hdl (of_int_handle E Type origin_datatype), Val target_rank, Val target_disp,
        Val target_count, Hdl (of_int_handle E Type target_datatype),
        Hdl (of_int_handle E Win win), Temp ''request'' MPI_REQUEST_NULL]
       [Handle Request ''request'']"

definition mpi_rget_accumulate where
  "mpi_rget_accumulate E pr large origin_addr origin_count origin_datatype result_addr
    result_count result_datatype target_rank target_disp target_count target_datatype oper win
    =
     calls E pr large ''Rget_accumulate''
       [Buf (mpif_c_cbuffer (place E) origin_addr), Val origin_count,
        Hdl (of_int_handle E Type origin_datatype), Buf (mpif_c_buffer (place E) result_addr),
        Val result_count, Hdl (of_int_handle E Type result_datatype), Val target_rank,
        Val target_disp, Val target_count, Hdl (of_int_handle E Type target_datatype),
        Hdl (of_int_handle E Op oper), Hdl (of_int_handle E Win win),
        Temp ''request'' MPI_REQUEST_NULL] [Handle Request ''request'']"

definition mpi_rput where
  "mpi_rput E pr large origin_addr origin_count origin_datatype target_rank target_disp
    target_count target_datatype win =
     calls E pr large ''Rput''
       [Buf (mpif_c_cbuffer (place E) origin_addr), Val origin_count,
        Hdl (of_int_handle E Type origin_datatype), Val target_rank, Val target_disp,
        Val target_count, Hdl (of_int_handle E Type target_datatype),
        Hdl (of_int_handle E Win win), Temp ''request'' MPI_REQUEST_NULL]
       [Handle Request ''request'']"

definition mpi_rsend where
  "mpi_rsend E pr large buf cnt datatype dest tag comm =
     calls E pr large ''Rsend''
       [Buf (mpif_c_cbuffer (place E) buf), Val cnt, Hdl (of_int_handle E Type datatype),
        Val dest, Val tag, Hdl (of_int_handle E Comm comm)] []"

definition mpi_rsend_init where
  "mpi_rsend_init E pr large buf cnt datatype dest tag comm =
     calls E pr large ''Rsend_init''
       [Buf (mpif_c_cbuffer (place E) buf), Val cnt, Hdl (of_int_handle E Type datatype),
        Val dest, Val tag, Hdl (of_int_handle E Comm comm), Temp ''request'' MPI_REQUEST_NULL]
       [Handle Request ''request'']"

definition mpi_scan where
  "mpi_scan E pr large sendbuf recvbuf cnt datatype oper comm =
     calls E pr large ''Scan''
       [Buf (mpif_c_cbuffer (place E) sendbuf), Buf (mpif_c_buffer (place E) recvbuf), Val cnt,
        Hdl (of_int_handle E Type datatype), Hdl (of_int_handle E Op oper),
        Hdl (of_int_handle E Comm comm)] []"

definition mpi_scan_init where
  "mpi_scan_init E pr large sendbuf recvbuf cnt datatype oper comm info =
     calls E pr large ''Scan_init''
       [Buf (mpif_c_cbuffer (place E) sendbuf), Buf (mpif_c_buffer (place E) recvbuf), Val cnt,
        Hdl (of_int_handle E Type datatype), Hdl (of_int_handle E Op oper),
        Hdl (of_int_handle E Comm comm), Hdl (of_int_handle E Info info),
        Temp ''request'' MPI_REQUEST_NULL] [Handle Request ''request'']"

definition mpi_scatter where
  "mpi_scatter E pr large sendbuf sendcount sendtype recvbuf recvcount recvtype root comm =
     probing (at_root E (of_int_handle E Comm comm) root) (\<lambda>q_at_root.
       calls E pr large ''Scatter''
         [Buf (mpif_c_cbuffer (place E) sendbuf), Val sendcount,
          Hdl (if q_at_root then of_int_handle E Type sendtype else MPI_DATATYPE_NULL),
          Buf (mpif_c_buffer (place E) recvbuf), Val recvcount,
          Hdl (of_int_handle E Type recvtype), Val (sint root), Hdl (of_int_handle E Comm comm)] [])"

definition mpi_scatter_init where
  "mpi_scatter_init E pr large sendbuf sendcount sendtype recvbuf recvcount recvtype root comm
    info =
     probing (at_root E (of_int_handle E Comm comm) root) (\<lambda>q_at_root.
       calls E pr large ''Scatter_init''
         [Buf (mpif_c_cbuffer (place E) sendbuf), Val sendcount,
          Hdl (if q_at_root then of_int_handle E Type sendtype else MPI_DATATYPE_NULL),
          Buf (mpif_c_buffer (place E) recvbuf), Val recvcount,
          Hdl (of_int_handle E Type recvtype), Val (sint root), Hdl (of_int_handle E Comm comm),
          Hdl (of_int_handle E Info info), Temp ''request'' MPI_REQUEST_NULL]
         [Handle Request ''request''])"

definition mpi_scatterv where
  "mpi_scatterv E pr large sendbuf sendcounts displs sendtype recvbuf recvcount recvtype root
    comm =
     probing (at_root E (of_int_handle E Comm comm) root) (\<lambda>q_at_root.
       calls E pr large ''Scatterv''
         [Buf (mpif_c_cbuffer (place E) sendbuf), Buf sendcounts, Buf displs,
          Hdl (if q_at_root then of_int_handle E Type sendtype else MPI_DATATYPE_NULL),
          Buf (mpif_c_buffer (place E) recvbuf), Val recvcount,
          Hdl (of_int_handle E Type recvtype), Val (sint root), Hdl (of_int_handle E Comm comm)] [])"

definition mpi_scatterv_init where
  "mpi_scatterv_init E pr large sendbuf sendcounts displs sendtype recvbuf recvcount recvtype
    root comm info =
     probing (at_root E (of_int_handle E Comm comm) root) (\<lambda>q_at_root.
       calls E pr large ''Scatterv_init''
         [Buf (mpif_c_cbuffer (place E) sendbuf), Buf sendcounts, Buf displs,
          Hdl (if q_at_root then of_int_handle E Type sendtype else MPI_DATATYPE_NULL),
          Buf (mpif_c_buffer (place E) recvbuf), Val recvcount,
          Hdl (of_int_handle E Type recvtype), Val (sint root), Hdl (of_int_handle E Comm comm),
          Hdl (of_int_handle E Info info), Temp ''request'' MPI_REQUEST_NULL]
         [Handle Request ''request''])"

definition mpi_send where
  "mpi_send E pr large buf cnt datatype dest tag comm =
     calls E pr large ''Send''
       [Buf (mpif_c_cbuffer (place E) buf), Val cnt, Hdl (of_int_handle E Type datatype),
        Val dest, Val tag, Hdl (of_int_handle E Comm comm)] []"

definition mpi_send_init where
  "mpi_send_init E pr large buf cnt datatype dest tag comm =
     calls E pr large ''Send_init''
       [Buf (mpif_c_cbuffer (place E) buf), Val cnt, Hdl (of_int_handle E Type datatype),
        Val dest, Val tag, Hdl (of_int_handle E Comm comm), Temp ''request'' MPI_REQUEST_NULL]
       [Handle Request ''request'']"

definition mpi_sendrecv where
  "mpi_sendrecv E pr large sendbuf sendcount sendtype dest sendtag recvbuf recvcount recvtype
    source recvtag comm status =
     calls E pr large ''Sendrecv''
       [Buf (mpif_c_cbuffer (place E) sendbuf), Val sendcount,
        Hdl (of_int_handle E Type sendtype), Val dest, Val sendtag,
        Buf (mpif_c_buffer (place E) recvbuf), Val recvcount,
        Hdl (of_int_handle E Type recvtype), Val source, Val recvtag,
        Hdl (of_int_handle E Comm comm), Buf (mpif_c_status (place E) status)] []"

definition mpi_sendrecv_replace where
  "mpi_sendrecv_replace E pr large buf cnt datatype dest sendtag source recvtag comm status =
     calls E pr large ''Sendrecv_replace''
       [Buf (mpif_c_buffer (place E) buf), Val cnt, Hdl (of_int_handle E Type datatype),
        Val dest, Val sendtag, Val source, Val recvtag, Hdl (of_int_handle E Comm comm),
        Buf (mpif_c_status (place E) status)] []"

definition mpi_session_attach_buffer where
  "mpi_session_attach_buffer E pr large session buffer sz =
     calls E pr large ''Session_attach_buffer''
       [Hdl (of_int_handle E Session session), Buf (mpif_c_buffer (place E) buffer), Val sz] []"

definition mpi_ssend where
  "mpi_ssend E pr large buf cnt datatype dest tag comm =
     calls E pr large ''Ssend''
       [Buf (mpif_c_cbuffer (place E) buf), Val cnt, Hdl (of_int_handle E Type datatype),
        Val dest, Val tag, Hdl (of_int_handle E Comm comm)] []"

definition mpi_ssend_init where
  "mpi_ssend_init E pr large buf cnt datatype dest tag comm =
     calls E pr large ''Ssend_init''
       [Buf (mpif_c_cbuffer (place E) buf), Val cnt, Hdl (of_int_handle E Type datatype),
        Val dest, Val tag, Hdl (of_int_handle E Comm comm), Temp ''request'' MPI_REQUEST_NULL]
       [Handle Request ''request'']"

definition mpi_unpack where
  "mpi_unpack E pr large inbuf insize position outbuf outcount datatype comm =
     calls E pr large ''Unpack''
       [Buf (mpif_c_cbuffer (place E) inbuf), Val insize, Buf position,
        Buf (mpif_c_buffer (place E) outbuf), Val outcount, Hdl (of_int_handle E Type datatype),
        Hdl (of_int_handle E Comm comm)] []"

definition mpi_win_attach where
  "mpi_win_attach E pr win base sz =
     calls E pr False ''Win_attach''
       [Hdl (of_int_handle E Win win), Buf (mpif_c_buffer (place E) base), Val sz] []"

definition mpi_win_create where
  "mpi_win_create E pr large base sz disp_unit info comm =
     calls E pr large ''Win_create''
       [Buf (mpif_c_buffer (place E) base), Val sz, Val disp_unit,
        Hdl (of_int_handle E Info info), Hdl (of_int_handle E Comm comm),
        Temp ''win'' (null_handle Win)] [Handle Win ''win'']"

definition mpi_win_detach where
  "mpi_win_detach E pr win base =
     calls E pr False ''Win_detach''
       [Hdl (of_int_handle E Win win), Buf (mpif_c_cbuffer (place E) base)] []"

section \<open>Families\<close>

text \<open>The wrappers in the order of the descriptor entries, with the address in place of the descriptor.\<close>

definition single_buffer_wrappers where
  "single_buffer_wrappers E pr large i h a =
     [
      (''Accumulate'', \<lambda>d n t.
          mpi_accumulate E pr large d n t (i ''target_rank'') (i ''target_disp'') (i
           ''target_count'') (h ''target_datatype'') (h ''oper'') (h ''win'')),
      (''Bcast'', \<lambda>d n t. mpi_bcast E pr large d n t (i ''root'') (h ''comm'')),
      (''Bcast_init'', \<lambda>d n t.
          mpi_bcast_init E pr large d n t (i ''root'') (h ''comm'') (h ''info'')),
      (''Bsend'', \<lambda>d n t.
          mpi_bsend E pr large d n t (i ''dest'') (i ''tag'') (h ''comm'')),
      (''Bsend_init'', \<lambda>d n t.
          mpi_bsend_init E pr large d n t (i ''dest'') (i ''tag'') (h ''comm'')),
      (''File_iread'', \<lambda>d n t. mpi_file_iread E pr large (h ''fh'') d n t),
      (''File_iread_all'', \<lambda>d n t. mpi_file_iread_all E pr large (h ''fh'') d n t),
      (''File_iread_at'', \<lambda>d n t.
          mpi_file_iread_at E pr large (h ''fh'') (i ''offset'') d n t),
      (''File_iread_at_all'', \<lambda>d n t.
          mpi_file_iread_at_all E pr large (h ''fh'') (i ''offset'') d n t),
      (''File_iread_shared'', \<lambda>d n t. mpi_file_iread_shared E pr large (h ''fh'') d n t),
      (''File_iwrite'', \<lambda>d n t. mpi_file_iwrite E pr large (h ''fh'') d n t),
      (''File_iwrite_all'', \<lambda>d n t. mpi_file_iwrite_all E pr large (h ''fh'') d n t),
      (''File_iwrite_at'', \<lambda>d n t.
          mpi_file_iwrite_at E pr large (h ''fh'') (i ''offset'') d n t),
      (''File_iwrite_at_all'', \<lambda>d n t.
          mpi_file_iwrite_at_all E pr large (h ''fh'') (i ''offset'') d n t),
      (''File_iwrite_shared'', \<lambda>d n t.
          mpi_file_iwrite_shared E pr large (h ''fh'') d n t),
      (''File_read'', \<lambda>d n t. mpi_file_read E pr large (h ''fh'') d n t (a ''status'')),
      (''File_read_all'', \<lambda>d n t.
          mpi_file_read_all E pr large (h ''fh'') d n t (a ''status'')),
      (''File_read_all_begin'', \<lambda>d n t.
          mpi_file_read_all_begin E pr large (h ''fh'') d n t),
      (''File_read_at'', \<lambda>d n t.
          mpi_file_read_at E pr large (h ''fh'') (i ''offset'') d n t (a ''status'')),
      (''File_read_at_all'', \<lambda>d n t.
          mpi_file_read_at_all E pr large (h ''fh'') (i ''offset'') d n t (a ''status'')),
      (''File_read_at_all_begin'', \<lambda>d n t.
          mpi_file_read_at_all_begin E pr large (h ''fh'') (i ''offset'') d n t),
      (''File_read_ordered'', \<lambda>d n t.
          mpi_file_read_ordered E pr large (h ''fh'') d n t (a ''status'')),
      (''File_read_ordered_begin'', \<lambda>d n t.
          mpi_file_read_ordered_begin E pr large (h ''fh'') d n t),
      (''File_read_shared'', \<lambda>d n t.
          mpi_file_read_shared E pr large (h ''fh'') d n t (a ''status'')),
      (''File_write'', \<lambda>d n t. mpi_file_write E pr large (h ''fh'') d n t (a ''status'')),
      (''File_write_all'', \<lambda>d n t.
          mpi_file_write_all E pr large (h ''fh'') d n t (a ''status'')),
      (''File_write_all_begin'', \<lambda>d n t.
          mpi_file_write_all_begin E pr large (h ''fh'') d n t),
      (''File_write_at'', \<lambda>d n t.
          mpi_file_write_at E pr large (h ''fh'') (i ''offset'') d n t (a ''status'')),
      (''File_write_at_all'', \<lambda>d n t.
          mpi_file_write_at_all E pr large (h ''fh'') (i ''offset'') d n t (a ''status'')),
      (''File_write_at_all_begin'', \<lambda>d n t.
          mpi_file_write_at_all_begin E pr large (h ''fh'') (i ''offset'') d n t),
      (''File_write_ordered'', \<lambda>d n t.
          mpi_file_write_ordered E pr large (h ''fh'') d n t (a ''status'')),
      (''File_write_ordered_begin'', \<lambda>d n t.
          mpi_file_write_ordered_begin E pr large (h ''fh'') d n t),
      (''File_write_shared'', \<lambda>d n t.
          mpi_file_write_shared E pr large (h ''fh'') d n t (a ''status'')),
      (''Get'', \<lambda>d n t.
          mpi_get E pr large d n t (i ''target_rank'') (i ''target_disp'') (i ''target_count'')
           (h ''target_datatype'') (h ''win'')),
      (''Ibcast'', \<lambda>d n t. mpi_ibcast E pr large d n t (i ''root'') (h ''comm'')),
      (''Ibsend'', \<lambda>d n t.
          mpi_ibsend E pr large d n t (i ''dest'') (i ''tag'') (h ''comm'')),
      (''Imrecv'', \<lambda>d n t. mpi_imrecv E pr large d n t (h ''message'')),
      (''Irecv'', \<lambda>d n t.
          mpi_irecv E pr large d n t (i ''source'') (i ''tag'') (h ''comm'')),
      (''Irsend'', \<lambda>d n t.
          mpi_irsend E pr large d n t (i ''dest'') (i ''tag'') (h ''comm'')),
      (''Isend'', \<lambda>d n t.
          mpi_isend E pr large d n t (i ''dest'') (i ''tag'') (h ''comm'')),
      (''Isendrecv_replace'', \<lambda>d n t.
          mpi_isendrecv_replace E pr large d n t (i ''dest'') (i ''sendtag'') (i ''source'') (i
           ''recvtag'') (h ''comm'')),
      (''Issend'', \<lambda>d n t.
          mpi_issend E pr large d n t (i ''dest'') (i ''tag'') (h ''comm'')),
      (''Mrecv'', \<lambda>d n t. mpi_mrecv E pr large d n t (h ''message'') (a ''status'')),
      (''Put'', \<lambda>d n t.
          mpi_put E pr large d n t (i ''target_rank'') (i ''target_disp'') (i ''target_count'')
           (h ''target_datatype'') (h ''win'')),
      (''Raccumulate'', \<lambda>d n t.
          mpi_raccumulate E pr large d n t (i ''target_rank'') (i ''target_disp'') (i
           ''target_count'') (h ''target_datatype'') (h ''oper'') (h ''win'')),
      (''Recv'', \<lambda>d n t.
          mpi_recv E pr large d n t (i ''source'') (i ''tag'') (h ''comm'') (a ''status'')),
      (''Recv_init'', \<lambda>d n t.
          mpi_recv_init E pr large d n t (i ''source'') (i ''tag'') (h ''comm'')),
      (''Rget'', \<lambda>d n t.
          mpi_rget E pr large d n t (i ''target_rank'') (i ''target_disp'') (i ''target_count'')
           (h ''target_datatype'') (h ''win'')),
      (''Rput'', \<lambda>d n t.
          mpi_rput E pr large d n t (i ''target_rank'') (i ''target_disp'') (i ''target_count'')
           (h ''target_datatype'') (h ''win'')),
      (''Rsend'', \<lambda>d n t.
          mpi_rsend E pr large d n t (i ''dest'') (i ''tag'') (h ''comm'')),
      (''Rsend_init'', \<lambda>d n t.
          mpi_rsend_init E pr large d n t (i ''dest'') (i ''tag'') (h ''comm'')),
      (''Send'', \<lambda>d n t. mpi_send E pr large d n t (i ''dest'') (i ''tag'') (h ''comm'')),
      (''Send_init'', \<lambda>d n t.
          mpi_send_init E pr large d n t (i ''dest'') (i ''tag'') (h ''comm'')),
      (''Sendrecv_replace'', \<lambda>d n t.
          mpi_sendrecv_replace E pr large d n t (i ''dest'') (i ''sendtag'') (i ''source'') (i
           ''recvtag'') (h ''comm'') (a ''status'')),
      (''Ssend'', \<lambda>d n t.
          mpi_ssend E pr large d n t (i ''dest'') (i ''tag'') (h ''comm'')),
      (''Ssend_init'', \<lambda>d n t.
          mpi_ssend_init E pr large d n t (i ''dest'') (i ''tag'') (h ''comm''))]"

definition two_buffer_wrappers where
  "two_buffer_wrappers E pr large i h a =
     [
      (''Allgather'', \<lambda>d1 n1 t1 d2 n2 t2.
          mpi_allgather E pr large d1 n1 t1 d2 n2 t2 (h ''comm'')),
      (''Allgather_init'', \<lambda>d1 n1 t1 d2 n2 t2.
          mpi_allgather_init E pr large d1 n1 t1 d2 n2 t2 (h ''comm'') (h ''info'')),
      (''Alltoall'', \<lambda>d1 n1 t1 d2 n2 t2.
          mpi_alltoall E pr large d1 n1 t1 d2 n2 t2 (h ''comm'')),
      (''Alltoall_init'', \<lambda>d1 n1 t1 d2 n2 t2.
          mpi_alltoall_init E pr large d1 n1 t1 d2 n2 t2 (h ''comm'') (h ''info'')),
      (''Get_accumulate'', \<lambda>d1 n1 t1 d2 n2 t2.
          mpi_get_accumulate E pr large d1 n1 t1 d2 n2 t2 (i ''target_rank'') (i
           ''target_disp'') (i ''target_count'') (h ''target_datatype'') (h ''oper'') (h
           ''win'')),
      (''Iallgather'', \<lambda>d1 n1 t1 d2 n2 t2.
          mpi_iallgather E pr large d1 n1 t1 d2 n2 t2 (h ''comm'')),
      (''Ialltoall'', \<lambda>d1 n1 t1 d2 n2 t2.
          mpi_ialltoall E pr large d1 n1 t1 d2 n2 t2 (h ''comm'')),
      (''Ineighbor_allgather'', \<lambda>d1 n1 t1 d2 n2 t2.
          mpi_ineighbor_allgather E pr large d1 n1 t1 d2 n2 t2 (h ''comm'')),
      (''Ineighbor_alltoall'', \<lambda>d1 n1 t1 d2 n2 t2.
          mpi_ineighbor_alltoall E pr large d1 n1 t1 d2 n2 t2 (h ''comm'')),
      (''Isendrecv'', \<lambda>d1 n1 t1 d2 n2 t2.
          mpi_isendrecv E pr large d1 n1 t1 (i ''dest'') (i ''sendtag'') d2 n2 t2 (i ''source'')
           (i ''recvtag'') (h ''comm'')),
      (''Neighbor_allgather'', \<lambda>d1 n1 t1 d2 n2 t2.
          mpi_neighbor_allgather E pr large d1 n1 t1 d2 n2 t2 (h ''comm'')),
      (''Neighbor_allgather_init'', \<lambda>d1 n1 t1 d2 n2 t2.
          mpi_neighbor_allgather_init E pr large d1 n1 t1 d2 n2 t2 (h ''comm'') (h ''info'')),
      (''Neighbor_alltoall'', \<lambda>d1 n1 t1 d2 n2 t2.
          mpi_neighbor_alltoall E pr large d1 n1 t1 d2 n2 t2 (h ''comm'')),
      (''Neighbor_alltoall_init'', \<lambda>d1 n1 t1 d2 n2 t2.
          mpi_neighbor_alltoall_init E pr large d1 n1 t1 d2 n2 t2 (h ''comm'') (h ''info'')),
      (''Rget_accumulate'', \<lambda>d1 n1 t1 d2 n2 t2.
          mpi_rget_accumulate E pr large d1 n1 t1 d2 n2 t2 (i ''target_rank'') (i
           ''target_disp'') (i ''target_count'') (h ''target_datatype'') (h ''oper'') (h
           ''win'')),
      (''Sendrecv'', \<lambda>d1 n1 t1 d2 n2 t2.
          mpi_sendrecv E pr large d1 n1 t1 (i ''dest'') (i ''sendtag'') d2 n2 t2 (i ''source'')
           (i ''recvtag'') (h ''comm'') (a ''status''))]"

definition contiguous_wrappers where
  "contiguous_wrappers E pr large i h a =
     [
      (''Allreduce'', \<lambda>d1 d2.
          mpi_allreduce E pr large d1 d2 (i ''cnt'') (h ''datatype'') (h ''oper'') (h ''comm'')),
      (''Allreduce_init'', \<lambda>d1 d2.
          mpi_allreduce_init E pr large d1 d2 (i ''cnt'') (h ''datatype'') (h ''oper'') (h
           ''comm'') (h ''info'')),
      (''Alltoallv'', \<lambda>d1 d2.
          mpi_alltoallv E pr large d1 (a ''sendcounts'') (a ''sdispls'') (h ''sendtype'') d2 (a
           ''recvcounts'') (a ''rdispls'') (h ''recvtype'') (h ''comm'')),
      (''Alltoallv_init'', \<lambda>d1 d2.
          mpi_alltoallv_init E pr large d1 (a ''sendcounts'') (a ''sdispls'') (h ''sendtype'')
           d2 (a ''recvcounts'') (a ''rdispls'') (h ''recvtype'') (h ''comm'') (h ''info'')),
      (''Exscan'', \<lambda>d1 d2.
          mpi_exscan E pr large d1 d2 (i ''cnt'') (h ''datatype'') (h ''oper'') (h ''comm'')),
      (''Exscan_init'', \<lambda>d1 d2.
          mpi_exscan_init E pr large d1 d2 (i ''cnt'') (h ''datatype'') (h ''oper'') (h
           ''comm'') (h ''info'')),
      (''Iallreduce'', \<lambda>d1 d2.
          mpi_iallreduce E pr large d1 d2 (i ''cnt'') (h ''datatype'') (h ''oper'') (h
           ''comm'')),
      (''Ialltoallv'', \<lambda>d1 d2.
          mpi_ialltoallv E pr large d1 (a ''sendcounts'') (a ''sdispls'') (h ''sendtype'') d2 (a
           ''recvcounts'') (a ''rdispls'') (h ''recvtype'') (h ''comm'')),
      (''Iexscan'', \<lambda>d1 d2.
          mpi_iexscan E pr large d1 d2 (i ''cnt'') (h ''datatype'') (h ''oper'') (h ''comm'')),
      (''Ineighbor_alltoallv'', \<lambda>d1 d2.
          mpi_ineighbor_alltoallv E pr large d1 (a ''sendcounts'') (a ''sdispls'') (h
           ''sendtype'') d2 (a ''recvcounts'') (a ''rdispls'') (h ''recvtype'') (h ''comm'')),
      (''Ireduce_scatter'', \<lambda>d1 d2.
          mpi_ireduce_scatter E pr large d1 d2 (a ''recvcounts'') (h ''datatype'') (h ''oper'')
           (h ''comm'')),
      (''Ireduce_scatter_block'', \<lambda>d1 d2.
          mpi_ireduce_scatter_block E pr large d1 d2 (i ''recvcount'') (h ''datatype'') (h
           ''oper'') (h ''comm'')),
      (''Iscan'', \<lambda>d1 d2.
          mpi_iscan E pr large d1 d2 (i ''cnt'') (h ''datatype'') (h ''oper'') (h ''comm'')),
      (''Neighbor_alltoallv'', \<lambda>d1 d2.
          mpi_neighbor_alltoallv E pr large d1 (a ''sendcounts'') (a ''sdispls'') (h
           ''sendtype'') d2 (a ''recvcounts'') (a ''rdispls'') (h ''recvtype'') (h ''comm'')),
      (''Neighbor_alltoallv_init'', \<lambda>d1 d2.
          mpi_neighbor_alltoallv_init E pr large d1 (a ''sendcounts'') (a ''sdispls'') (h
           ''sendtype'') d2 (a ''recvcounts'') (a ''rdispls'') (h ''recvtype'') (h ''comm'') (h
           ''info'')),
      (''Reduce_local'', \<lambda>d1 d2.
          mpi_reduce_local E pr large d1 d2 (i ''cnt'') (h ''datatype'') (h ''oper'')),
      (''Reduce_scatter'', \<lambda>d1 d2.
          mpi_reduce_scatter E pr large d1 d2 (a ''recvcounts'') (h ''datatype'') (h ''oper'')
           (h ''comm'')),
      (''Reduce_scatter_block'', \<lambda>d1 d2.
          mpi_reduce_scatter_block E pr large d1 d2 (i ''recvcount'') (h ''datatype'') (h
           ''oper'') (h ''comm'')),
      (''Reduce_scatter_block_init'', \<lambda>d1 d2.
          mpi_reduce_scatter_block_init E pr large d1 d2 (i ''recvcount'') (h ''datatype'') (h
           ''oper'') (h ''comm'') (h ''info'')),
      (''Reduce_scatter_init'', \<lambda>d1 d2.
          mpi_reduce_scatter_init E pr large d1 d2 (a ''recvcounts'') (h ''datatype'') (h
           ''oper'') (h ''comm'') (h ''info'')),
      (''Scan'', \<lambda>d1 d2.
          mpi_scan E pr large d1 d2 (i ''cnt'') (h ''datatype'') (h ''oper'') (h ''comm'')),
      (''Scan_init'', \<lambda>d1 d2.
          mpi_scan_init E pr large d1 d2 (i ''cnt'') (h ''datatype'') (h ''oper'') (h ''comm'')
           (h ''info''))]"

lemmas single_wrapper_defs =
  mpi_accumulate_def
  mpi_bcast_def
  mpi_bcast_init_def
  mpi_bsend_def
  mpi_bsend_init_def
  mpi_file_iread_def
  mpi_file_iread_all_def
  mpi_file_iread_at_def
  mpi_file_iread_at_all_def
  mpi_file_iread_shared_def
  mpi_file_iwrite_def
  mpi_file_iwrite_all_def
  mpi_file_iwrite_at_def
  mpi_file_iwrite_at_all_def
  mpi_file_iwrite_shared_def
  mpi_file_read_def
  mpi_file_read_all_def
  mpi_file_read_all_begin_def
  mpi_file_read_at_def
  mpi_file_read_at_all_def
  mpi_file_read_at_all_begin_def
  mpi_file_read_ordered_def
  mpi_file_read_ordered_begin_def
  mpi_file_read_shared_def
  mpi_file_write_def
  mpi_file_write_all_def
  mpi_file_write_all_begin_def
  mpi_file_write_at_def
  mpi_file_write_at_all_def
  mpi_file_write_at_all_begin_def
  mpi_file_write_ordered_def
  mpi_file_write_ordered_begin_def
  mpi_file_write_shared_def
  mpi_get_def
  mpi_ibcast_def
  mpi_ibsend_def
  mpi_imrecv_def
  mpi_irecv_def
  mpi_irsend_def
  mpi_isend_def
  mpi_isendrecv_replace_def
  mpi_issend_def
  mpi_mrecv_def
  mpi_put_def
  mpi_raccumulate_def
  mpi_recv_def
  mpi_recv_init_def
  mpi_rget_def
  mpi_rput_def
  mpi_rsend_def
  mpi_rsend_init_def
  mpi_send_def
  mpi_send_init_def
  mpi_sendrecv_replace_def
  mpi_ssend_def
  mpi_ssend_init_def

lemmas two_wrapper_defs =
  mpi_allgather_def
  mpi_allgather_init_def
  mpi_alltoall_def
  mpi_alltoall_init_def
  mpi_get_accumulate_def
  mpi_iallgather_def
  mpi_ialltoall_def
  mpi_ineighbor_allgather_def
  mpi_ineighbor_alltoall_def
  mpi_isendrecv_def
  mpi_neighbor_allgather_def
  mpi_neighbor_allgather_init_def
  mpi_neighbor_alltoall_def
  mpi_neighbor_alltoall_init_def
  mpi_rget_accumulate_def
  mpi_sendrecv_def

lemmas contiguous_wrapper_defs =
  mpi_allreduce_def
  mpi_allreduce_init_def
  mpi_alltoallv_def
  mpi_alltoallv_init_def
  mpi_exscan_def
  mpi_exscan_init_def
  mpi_iallreduce_def
  mpi_ialltoallv_def
  mpi_iexscan_def
  mpi_ineighbor_alltoallv_def
  mpi_ireduce_scatter_def
  mpi_ireduce_scatter_block_def
  mpi_iscan_def
  mpi_neighbor_alltoallv_def
  mpi_neighbor_alltoallv_init_def
  mpi_reduce_local_def
  mpi_reduce_scatter_def
  mpi_reduce_scatter_block_def
  mpi_reduce_scatter_block_init_def
  mpi_reduce_scatter_init_def
  mpi_scan_def
  mpi_scan_init_def

section \<open>Descriptors and addresses\<close>

lemma cbuffer_is_buffer: "mpif_c_cbuffer P p = mpif_c_buffer P p"
  by (simp add: mpif_c_cbuffer_def mpif_c_buffer_def)

lemma bindE_keep: "bindE m Inr = m"
  by (cases m) auto

text \<open>An array that is not strided takes no detour through a datatype.\<close>

lemma entry1_plain:
  assumes "\<not> strided E (mpif_c_buffer (place E) (base_addr d)) d"
  shows "entry1 E (Walk True n ty) d call w =
    call \<lparr>q_addr = mpif_c_buffer (place E) (base_addr d), q_count = n, q_type = ty, q_owned = False\<rparr> w"
  using assms by (simp add: entry1_def entry_def free_owned_def bindE_keep)

lemma entry2_plain:
  assumes "\<not> strided E (mpif_c_buffer (place E) (base_addr d1)) d1"
    and "\<not> strided E (mpif_c_buffer (place E) (base_addr d2)) d2"
  shows "entry2 E (Walk True n1 ty1) d1 (Walk True n2 ty2) d2 call w =
    call \<lparr>q_addr = mpif_c_buffer (place E) (base_addr d1), q_count = n1, q_type = ty1, q_owned = False\<rparr>
      \<lparr>q_addr = mpif_c_buffer (place E) (base_addr d2), q_count = n2, q_type = ty2, q_owned = False\<rparr> w"
    and "entry2 E (Contig True) d1 (Contig True) d2 call w =
      call (hoist E (Contig True) d1) (hoist E (Contig True) d2) w"
  using assms by (simp_all add: entry2_def entry_def free_owned_def bindE_keep Let_def)

text \<open>Counts as the two interfaces have them: 32 bits in the ordinary versions.\<close>

definition count_ok :: "bool \<Rightarrow> int \<Rightarrow> bool" where
  "count_ok large n \<longleftrightarrow> large \<or> - (2 ^ 31) \<le> n \<and> n < 2 ^ 31"

lemma count_arg_ok: "count_ok large (q_count q) \<Longrightarrow> count_arg large q = Val (q_count q)"
  using count_arg_small [of q large] by (auto simp: count_ok_def count_arg_def)

lemma single_buffer_agree:
  assumes "\<not> strided E (mpif_c_buffer (place E) (base_addr d)) d" and "count_ok large n"
  shows "list_all2 (\<lambda>(name, f) (name', g). name = name' \<and> f d n t w = g (base_addr d) n t w)
    (single_buffer_entries E pr large i h a) (single_buffer_wrappers E pr large i h a)"
  unfolding single_buffer_entries_def single_buffer_wrappers_def list.rel_inject prod.case
    single_defs single_wrapper_defs entry1_plain [OF assms(1)]
  using assms(2) by (simp add: count_arg_ok cbuffer_is_buffer)

lemma two_buffer_agree:
  assumes "\<not> strided E (mpif_c_buffer (place E) (base_addr d1)) d1" and "count_ok large n1"
    and "\<not> strided E (mpif_c_buffer (place E) (base_addr d2)) d2" and "count_ok large n2"
  shows "list_all2 (\<lambda>(name, f) (name', g). name = name' \<and>
      f d1 n1 t1 d2 n2 t2 w = g (base_addr d1) n1 t1 (base_addr d2) n2 t2 w)
    (two_buffer_entries E pr large i h a) (two_buffer_wrappers E pr large i h a)"
  unfolding two_buffer_entries_def two_buffer_wrappers_def list.rel_inject prod.case
    two_buffer_defs two_wrapper_defs entry2_plain [OF assms(1,3)]
  using assms(2,4) by (simp add: count_arg_ok cbuffer_is_buffer)

lemma contiguous_agree:
  assumes "\<not> strided E (mpif_c_buffer (place E) (base_addr d1)) d1"
    and "\<not> strided E (mpif_c_buffer (place E) (base_addr d2)) d2"
  shows "list_all2 (\<lambda>(name, f) (name', g). name = name' \<and> f d1 d2 w = g (base_addr d1) (base_addr d2) w)
    (contiguous_entries E pr large i h a) (contiguous_wrappers E pr large i h a)"
  unfolding contiguous_entries_def contiguous_wrappers_def list.rel_inject prod.case
    contiguous_defs contiguous_wrapper_defs entry2_plain [OF assms]
  by (simp add: cbuffer_is_buffer)

text \<open>
  C27. The two ways into MPI agree: for arrays without gaps, scalars and sentinels, each of the 94
  descriptor entries listed does exactly what the wrapper of the same routine does with the
  descriptor's base address: the same call with the same arguments, the same error code and
  outputs, in all versions. The 56 entries with one described buffer, the 16 with two and the 22 with two buffers that
  must be contiguous are listed in the same order as the wrappers.
\<close>

theorem contiguous_descriptors_act_as_addresses:
  assumes "\<not> strided E (mpif_c_buffer (place E) (base_addr d1)) d1" and "count_ok large n1"
    and "\<not> strided E (mpif_c_buffer (place E) (base_addr d2)) d2" and "count_ok large n2"
  shows
    "list_all2 (\<lambda>(name, f) (name', g). name = name' \<and> f d1 n1 t1 w = g (base_addr d1) n1 t1 w)
       (single_buffer_entries E pr large i h a) (single_buffer_wrappers E pr large i h a) \<and>
     list_all2 (\<lambda>(name, f) (name', g). name = name' \<and>
         f d1 n1 t1 d2 n2 t2 w = g (base_addr d1) n1 t1 (base_addr d2) n2 t2 w)
       (two_buffer_entries E pr large i h a) (two_buffer_wrappers E pr large i h a) \<and>
     list_all2 (\<lambda>(name, f) (name', g). name = name' \<and> f d1 d2 w = g (base_addr d1) (base_addr d2) w)
       (contiguous_entries E pr large i h a) (contiguous_wrappers E pr large i h a)"
  by (intro conjI single_buffer_agree two_buffer_agree contiguous_agree assms)

theorem contiguous_descriptors_act_as_addresses_witness:
  "list_all2 (\<lambda>(name, f) (name', g). name = name' \<and> f dense_cdesc 4 0x21d demo_world = g 8192 4 0x21d demo_world)
     (single_buffer_entries demo_lib MPI False (\<lambda>_. 1) (\<lambda>_. 0x101) (\<lambda>_. 0))
     (single_buffer_wrappers demo_lib MPI False (\<lambda>_. 1) (\<lambda>_. 0x101) (\<lambda>_. 0))"
proof -
  have s: "\<not> strided demo_lib (mpif_c_buffer (place demo_lib) (base_addr dense_cdesc)) dense_cdesc"
    by (simp add: strided_def dense_cdesc_def demo_lib_def)
  have b: "base_addr dense_cdesc = 8192" by (simp add: dense_cdesc_def)
  have c: "count_ok False 4" by (simp add: count_ok_def)
  show ?thesis
    using conjunct1 [OF contiguous_descriptors_act_as_addresses [OF s c s c]] by (simp only: b)
qed

end
