(* ===== verification/Wrappers_Handles.thy ===== *)
theory Wrappers_Handles
  imports Wrappers_Buffers Wrappers_Plain
begin

text \<open>
  The wrappers that create an object and hand its handle back: datatypes, communicators, groups,
  infos, windows, sessions, and the requests of nonblocking and persistent operations.
\<close>

section \<open>The wrappers that create\<close>

definition creating_wrappers where
  "creating_wrappers E pr large i h a =
     [
      (''Abi_get_fortran_info'', [Info], mpi_abi_get_fortran_info E pr),
      (''Abi_get_info'', [Info], mpi_abi_get_info E pr),
      (''Allgather_init'', [Request],
          mpi_allgather_init E pr large (a ''sendbuf'') (i ''sendcount'') (h ''sendtype'') (a
           ''recvbuf'') (i ''recvcount'') (h ''recvtype'') (h ''comm'') (h ''info'')),
      (''Allgatherv_init'', [Request],
          mpi_allgatherv_init E pr large (a ''sendbuf'') (i ''sendcount'') (h ''sendtype'') (a
           ''recvbuf'') (a ''recvcounts'') (a ''displs'') (h ''recvtype'') (h ''comm'') (h
           ''info'')),
      (''Allreduce_init'', [Request],
          mpi_allreduce_init E pr large (a ''sendbuf'') (a ''recvbuf'') (i ''cnt'') (h
           ''datatype'') (h ''oper'') (h ''comm'') (h ''info'')),
      (''Alltoall_init'', [Request],
          mpi_alltoall_init E pr large (a ''sendbuf'') (i ''sendcount'') (h ''sendtype'') (a
           ''recvbuf'') (i ''recvcount'') (h ''recvtype'') (h ''comm'') (h ''info'')),
      (''Alltoallv_init'', [Request],
          mpi_alltoallv_init E pr large (a ''sendbuf'') (a ''sendcounts'') (a ''sdispls'') (h
           ''sendtype'') (a ''recvbuf'') (a ''recvcounts'') (a ''rdispls'') (h ''recvtype'') (h
           ''comm'') (h ''info'')),
      (''Barrier_init'', [Request], mpi_barrier_init E pr (h ''comm'') (h ''info'')),
      (''Bcast_init'', [Request],
          mpi_bcast_init E pr large (a ''buffer'') (i ''cnt'') (h ''datatype'') (i ''root'') (h
           ''comm'') (h ''info'')),
      (''Bsend_init'', [Request],
          mpi_bsend_init E pr large (a ''buf'') (i ''cnt'') (h ''datatype'') (i ''dest'') (i
           ''tag'') (h ''comm'')),
      (''Buffer_iflush'', [Request], mpi_buffer_iflush E pr),
      (''Comm_create'', [Comm], mpi_comm_create E pr (h ''comm'') (h ''group_p'')),
      (''Comm_create_group'', [Comm],
          mpi_comm_create_group E pr (h ''comm'') (h ''group_p'') (i ''tag'')),
      (''Comm_dup'', [Comm], mpi_comm_dup E pr (h ''comm'')),
      (''Comm_dup_with_info'', [Comm], mpi_comm_dup_with_info E pr (h ''comm'') (h ''info'')),
      (''Comm_get_errhandler'', [Errhandler], mpi_comm_get_errhandler E pr (h ''comm'')),
      (''Comm_get_info'', [Info], mpi_comm_get_info E pr (h ''comm'')),
      (''Comm_get_parent'', [Comm], mpi_comm_get_parent E pr),
      (''Comm_group'', [Group], mpi_comm_group E pr (h ''comm'')),
      (''Comm_idup'', [Comm, Request], mpi_comm_idup E pr (h ''comm'')),
      (''Comm_idup_with_info'', [Comm, Request],
          mpi_comm_idup_with_info E pr (h ''comm'') (h ''info'')),
      (''Comm_iflush_buffer'', [Request], mpi_comm_iflush_buffer E pr (h ''comm'')),
      (''Comm_join'', [Comm], mpi_comm_join E pr (i ''fd'')),
      (''Comm_remote_group'', [Group], mpi_comm_remote_group E pr (h ''comm'')),
      (''Comm_split'', [Comm], mpi_comm_split E pr (h ''comm'') (i ''color'') (i ''key'')),
      (''Comm_split_type'', [Comm],
          mpi_comm_split_type E pr (h ''comm'') (i ''split_type'') (i ''key'') (h ''info'')),
      (''Dist_graph_create'', [Comm],
          mpi_dist_graph_create E pr (h ''comm_old'') (i ''n'') (a ''sources'') (a ''degrees'')
           (a ''destinations'') (a ''weights'') (h ''info'') (h ''reorder'')),
      (''Dist_graph_create_adjacent'', [Comm],
          mpi_dist_graph_create_adjacent E pr (h ''comm_old'') (i ''indegree'') (a ''sources'')
           (a ''sourceweights'') (i ''outdegree'') (a ''destinations'') (a ''destweights'') (h
           ''info'') (h ''reorder'')),
      (''Exscan_init'', [Request],
          mpi_exscan_init E pr large (a ''sendbuf'') (a ''recvbuf'') (i ''cnt'') (h
           ''datatype'') (h ''oper'') (h ''comm'') (h ''info'')),
      (''File_get_errhandler'', [Errhandler], mpi_file_get_errhandler E pr (h ''file'')),
      (''File_get_group'', [Group], mpi_file_get_group E pr (h ''fh'')),
      (''File_get_info'', [Info], mpi_file_get_info E pr (h ''fh'')),
      (''File_iread'', [Request],
          mpi_file_iread E pr large (h ''fh'') (a ''buf'') (i ''cnt'') (h ''datatype'')),
      (''File_iread_all'', [Request],
          mpi_file_iread_all E pr large (h ''fh'') (a ''buf'') (i ''cnt'') (h ''datatype'')),
      (''File_iread_at'', [Request],
          mpi_file_iread_at E pr large (h ''fh'') (i ''offset'') (a ''buf'') (i ''cnt'') (h
           ''datatype'')),
      (''File_iread_at_all'', [Request],
          mpi_file_iread_at_all E pr large (h ''fh'') (i ''offset'') (a ''buf'') (i ''cnt'') (h
           ''datatype'')),
      (''File_iread_shared'', [Request],
          mpi_file_iread_shared E pr large (h ''fh'') (a ''buf'') (i ''cnt'') (h ''datatype'')),
      (''File_iwrite'', [Request],
          mpi_file_iwrite E pr large (h ''fh'') (a ''buf'') (i ''cnt'') (h ''datatype'')),
      (''File_iwrite_all'', [Request],
          mpi_file_iwrite_all E pr large (h ''fh'') (a ''buf'') (i ''cnt'') (h ''datatype'')),
      (''File_iwrite_at'', [Request],
          mpi_file_iwrite_at E pr large (h ''fh'') (i ''offset'') (a ''buf'') (i ''cnt'') (h
           ''datatype'')),
      (''File_iwrite_at_all'', [Request],
          mpi_file_iwrite_at_all E pr large (h ''fh'') (i ''offset'') (a ''buf'') (i ''cnt'') (h
           ''datatype'')),
      (''File_iwrite_shared'', [Request],
          mpi_file_iwrite_shared E pr large (h ''fh'') (a ''buf'') (i ''cnt'') (h ''datatype'')),
      (''Get_hw_resource_info'', [Info], mpi_get_hw_resource_info E pr),
      (''Graph_create'', [Comm],
          mpi_graph_create E pr (h ''comm_old'') (i ''nnodes'') (a ''idx'') (a ''edges'') (h
           ''reorder'')),
      (''Group_difference'', [Group], mpi_group_difference E pr (h ''group1'') (h ''group2'')),
      (''Group_excl'', [Group], mpi_group_excl E pr (h ''group_p'') (i ''n'') (a ''ranks'')),
      (''Group_incl'', [Group], mpi_group_incl E pr (h ''group_p'') (i ''n'') (a ''ranks'')),
      (''Group_intersection'', [Group],
          mpi_group_intersection E pr (h ''group1'') (h ''group2'')),
      (''Group_range_excl'', [Group],
          mpi_group_range_excl E pr (h ''group_p'') (i ''n'') (a ''ranges'')),
      (''Group_range_incl'', [Group],
          mpi_group_range_incl E pr (h ''group_p'') (i ''n'') (a ''ranges'')),
      (''Group_union'', [Group], mpi_group_union E pr (h ''group1'') (h ''group2'')),
      (''Iallgather'', [Request],
          mpi_iallgather E pr large (a ''sendbuf'') (i ''sendcount'') (h ''sendtype'') (a
           ''recvbuf'') (i ''recvcount'') (h ''recvtype'') (h ''comm'')),
      (''Iallgatherv'', [Request],
          mpi_iallgatherv E pr large (a ''sendbuf'') (i ''sendcount'') (h ''sendtype'') (a
           ''recvbuf'') (a ''recvcounts'') (a ''displs'') (h ''recvtype'') (h ''comm'')),
      (''Iallreduce'', [Request],
          mpi_iallreduce E pr large (a ''sendbuf'') (a ''recvbuf'') (i ''cnt'') (h ''datatype'')
           (h ''oper'') (h ''comm'')),
      (''Ialltoall'', [Request],
          mpi_ialltoall E pr large (a ''sendbuf'') (i ''sendcount'') (h ''sendtype'') (a
           ''recvbuf'') (i ''recvcount'') (h ''recvtype'') (h ''comm'')),
      (''Ialltoallv'', [Request],
          mpi_ialltoallv E pr large (a ''sendbuf'') (a ''sendcounts'') (a ''sdispls'') (h
           ''sendtype'') (a ''recvbuf'') (a ''recvcounts'') (a ''rdispls'') (h ''recvtype'') (h
           ''comm'')),
      (''Ibarrier'', [Request], mpi_ibarrier E pr (h ''comm'')),
      (''Ibcast'', [Request],
          mpi_ibcast E pr large (a ''buffer'') (i ''cnt'') (h ''datatype'') (i ''root'') (h
           ''comm'')),
      (''Ibsend'', [Request],
          mpi_ibsend E pr large (a ''buf'') (i ''cnt'') (h ''datatype'') (i ''dest'') (i
           ''tag'') (h ''comm'')),
      (''Iexscan'', [Request],
          mpi_iexscan E pr large (a ''sendbuf'') (a ''recvbuf'') (i ''cnt'') (h ''datatype'') (h
           ''oper'') (h ''comm'')),
      (''Ineighbor_allgather'', [Request],
          mpi_ineighbor_allgather E pr large (a ''sendbuf'') (i ''sendcount'') (h ''sendtype'')
           (a ''recvbuf'') (i ''recvcount'') (h ''recvtype'') (h ''comm'')),
      (''Ineighbor_allgatherv'', [Request],
          mpi_ineighbor_allgatherv E pr large (a ''sendbuf'') (i ''sendcount'') (h ''sendtype'')
           (a ''recvbuf'') (a ''recvcounts'') (a ''displs'') (h ''recvtype'') (h ''comm'')),
      (''Ineighbor_alltoall'', [Request],
          mpi_ineighbor_alltoall E pr large (a ''sendbuf'') (i ''sendcount'') (h ''sendtype'')
           (a ''recvbuf'') (i ''recvcount'') (h ''recvtype'') (h ''comm'')),
      (''Ineighbor_alltoallv'', [Request],
          mpi_ineighbor_alltoallv E pr large (a ''sendbuf'') (a ''sendcounts'') (a ''sdispls'')
           (h ''sendtype'') (a ''recvbuf'') (a ''recvcounts'') (a ''rdispls'') (h ''recvtype'')
           (h ''comm'')),
      (''Info_create'', [Info], mpi_info_create E pr),
      (''Info_create_env'', [Info], mpi_info_create_env E pr),
      (''Info_dup'', [Info], mpi_info_dup E pr (h ''info'')),
      (''Intercomm_create'', [Comm],
          mpi_intercomm_create E pr (h ''local_comm'') (i ''local_leader'') (h ''peer_comm'') (i
           ''remote_leader'') (i ''tag'')),
      (''Intercomm_merge'', [Comm], mpi_intercomm_merge E pr (h ''intercomm'') (h ''high'')),
      (''Irecv'', [Request],
          mpi_irecv E pr large (a ''buf'') (i ''cnt'') (h ''datatype'') (i ''source'') (i
           ''tag'') (h ''comm'')),
      (''Ireduce'', [Request],
          mpi_ireduce E pr large (a ''sendbuf'') (a ''recvbuf'') (i ''cnt'') (h ''datatype'') (h
           ''oper'') (i ''root'') (h ''comm'')),
      (''Ireduce_scatter'', [Request],
          mpi_ireduce_scatter E pr large (a ''sendbuf'') (a ''recvbuf'') (a ''recvcounts'') (h
           ''datatype'') (h ''oper'') (h ''comm'')),
      (''Ireduce_scatter_block'', [Request],
          mpi_ireduce_scatter_block E pr large (a ''sendbuf'') (a ''recvbuf'') (i ''recvcount'')
           (h ''datatype'') (h ''oper'') (h ''comm'')),
      (''Irsend'', [Request],
          mpi_irsend E pr large (a ''buf'') (i ''cnt'') (h ''datatype'') (i ''dest'') (i
           ''tag'') (h ''comm'')),
      (''Iscan'', [Request],
          mpi_iscan E pr large (a ''sendbuf'') (a ''recvbuf'') (i ''cnt'') (h ''datatype'') (h
           ''oper'') (h ''comm'')),
      (''Isend'', [Request],
          mpi_isend E pr large (a ''buf'') (i ''cnt'') (h ''datatype'') (i ''dest'') (i ''tag'')
           (h ''comm'')),
      (''Isendrecv'', [Request],
          mpi_isendrecv E pr large (a ''sendbuf'') (i ''sendcount'') (h ''sendtype'') (i
           ''dest'') (i ''sendtag'') (a ''recvbuf'') (i ''recvcount'') (h ''recvtype'') (i
           ''source'') (i ''recvtag'') (h ''comm'')),
      (''Isendrecv_replace'', [Request],
          mpi_isendrecv_replace E pr large (a ''buf'') (i ''cnt'') (h ''datatype'') (i ''dest'')
           (i ''sendtag'') (i ''source'') (i ''recvtag'') (h ''comm'')),
      (''Issend'', [Request],
          mpi_issend E pr large (a ''buf'') (i ''cnt'') (h ''datatype'') (i ''dest'') (i
           ''tag'') (h ''comm'')),
      (''Mprobe'', [Message],
          mpi_mprobe E pr (i ''source'') (i ''tag'') (h ''comm'') (a ''status'')),
      (''Neighbor_allgather_init'', [Request],
          mpi_neighbor_allgather_init E pr large (a ''sendbuf'') (i ''sendcount'') (h
           ''sendtype'') (a ''recvbuf'') (i ''recvcount'') (h ''recvtype'') (h ''comm'') (h
           ''info'')),
      (''Neighbor_allgatherv_init'', [Request],
          mpi_neighbor_allgatherv_init E pr large (a ''sendbuf'') (i ''sendcount'') (h
           ''sendtype'') (a ''recvbuf'') (a ''recvcounts'') (a ''displs'') (h ''recvtype'') (h
           ''comm'') (h ''info'')),
      (''Neighbor_alltoall_init'', [Request],
          mpi_neighbor_alltoall_init E pr large (a ''sendbuf'') (i ''sendcount'') (h
           ''sendtype'') (a ''recvbuf'') (i ''recvcount'') (h ''recvtype'') (h ''comm'') (h
           ''info'')),
      (''Neighbor_alltoallv_init'', [Request],
          mpi_neighbor_alltoallv_init E pr large (a ''sendbuf'') (a ''sendcounts'') (a
           ''sdispls'') (h ''sendtype'') (a ''recvbuf'') (a ''recvcounts'') (a ''rdispls'') (h
           ''recvtype'') (h ''comm'') (h ''info'')),
      (''Precv_init'', [Request],
          mpi_precv_init E pr (a ''buf'') (i ''partitions'') (i ''cnt'') (h ''datatype'') (i
           ''source'') (i ''tag'') (h ''comm'') (h ''info'')),
      (''Psend_init'', [Request],
          mpi_psend_init E pr (a ''buf'') (i ''partitions'') (i ''cnt'') (h ''datatype'') (i
           ''dest'') (i ''tag'') (h ''comm'') (h ''info'')),
      (''Raccumulate'', [Request],
          mpi_raccumulate E pr large (a ''origin_addr'') (i ''origin_count'') (h
           ''origin_datatype'') (i ''target_rank'') (i ''target_disp'') (i ''target_count'') (h
           ''target_datatype'') (h ''oper'') (h ''win'')),
      (''Recv_init'', [Request],
          mpi_recv_init E pr large (a ''buf'') (i ''cnt'') (h ''datatype'') (i ''source'') (i
           ''tag'') (h ''comm'')),
      (''Reduce_init'', [Request],
          mpi_reduce_init E pr large (a ''sendbuf'') (a ''recvbuf'') (i ''cnt'') (h
           ''datatype'') (h ''oper'') (i ''root'') (h ''comm'') (h ''info'')),
      (''Reduce_scatter_block_init'', [Request],
          mpi_reduce_scatter_block_init E pr large (a ''sendbuf'') (a ''recvbuf'') (i
           ''recvcount'') (h ''datatype'') (h ''oper'') (h ''comm'') (h ''info'')),
      (''Reduce_scatter_init'', [Request],
          mpi_reduce_scatter_init E pr large (a ''sendbuf'') (a ''recvbuf'') (a ''recvcounts'')
           (h ''datatype'') (h ''oper'') (h ''comm'') (h ''info'')),
      (''Rget'', [Request],
          mpi_rget E pr large (a ''origin_addr'') (i ''origin_count'') (h ''origin_datatype'')
           (i ''target_rank'') (i ''target_disp'') (i ''target_count'') (h ''target_datatype'')
           (h ''win'')),
      (''Rget_accumulate'', [Request],
          mpi_rget_accumulate E pr large (a ''origin_addr'') (i ''origin_count'') (h
           ''origin_datatype'') (a ''result_addr'') (i ''result_count'') (h ''result_datatype'')
           (i ''target_rank'') (i ''target_disp'') (i ''target_count'') (h ''target_datatype'')
           (h ''oper'') (h ''win'')),
      (''Rput'', [Request],
          mpi_rput E pr large (a ''origin_addr'') (i ''origin_count'') (h ''origin_datatype'')
           (i ''target_rank'') (i ''target_disp'') (i ''target_count'') (h ''target_datatype'')
           (h ''win'')),
      (''Rsend_init'', [Request],
          mpi_rsend_init E pr large (a ''buf'') (i ''cnt'') (h ''datatype'') (i ''dest'') (i
           ''tag'') (h ''comm'')),
      (''Scan_init'', [Request],
          mpi_scan_init E pr large (a ''sendbuf'') (a ''recvbuf'') (i ''cnt'') (h ''datatype'')
           (h ''oper'') (h ''comm'') (h ''info'')),
      (''Send_init'', [Request],
          mpi_send_init E pr large (a ''buf'') (i ''cnt'') (h ''datatype'') (i ''dest'') (i
           ''tag'') (h ''comm'')),
      (''Session_get_errhandler'', [Errhandler], mpi_session_get_errhandler E pr (h ''session'')),
      (''Session_get_info'', [Info], mpi_session_get_info E pr (h ''session'')),
      (''Session_iflush_buffer'', [Request], mpi_session_iflush_buffer E pr (h ''session'')),
      (''Session_init'', [Session], mpi_session_init E pr (h ''info'') (h ''errhandler'')),
      (''Ssend_init'', [Request],
          mpi_ssend_init E pr large (a ''buf'') (i ''cnt'') (h ''datatype'') (i ''dest'') (i
           ''tag'') (h ''comm'')),
      (''Type_contiguous'', [Type], mpi_type_contiguous E pr large (i ''cnt'') (h ''oldtype'')),
      (''Type_create_darray'', [Type],
          mpi_type_create_darray E pr large (i ''sz'') (i ''rnk'') (i ''ndims'') (a
           ''array_of_gsizes'') (a ''array_of_distribs'') (a ''array_of_dargs'') (a
           ''array_of_psizes'') (i ''order'') (h ''oldtype'')),
      (''Type_create_f90_complex'', [Type], mpi_type_create_f90_complex E pr (i ''p'') (i ''r'')),
      (''Type_create_f90_integer'', [Type], mpi_type_create_f90_integer E pr (i ''r'')),
      (''Type_create_f90_real'', [Type], mpi_type_create_f90_real E pr (i ''p'') (i ''r'')),
      (''Type_create_hindexed'', [Type],
          mpi_type_create_hindexed E pr large (i ''cnt'') (a ''array_of_blocklengths'') (a
           ''array_of_displacements'') (h ''oldtype'')),
      (''Type_create_hindexed_block'', [Type],
          mpi_type_create_hindexed_block E pr large (i ''cnt'') (i ''blocklength'') (a
           ''array_of_displacements'') (h ''oldtype'')),
      (''Type_create_hvector'', [Type],
          mpi_type_create_hvector E pr large (i ''cnt'') (i ''blocklength'') (i ''stride'') (h
           ''oldtype'')),
      (''Type_create_indexed_block'', [Type],
          mpi_type_create_indexed_block E pr large (i ''cnt'') (i ''blocklength'') (a
           ''array_of_displacements'') (h ''oldtype'')),
      (''Type_create_resized'', [Type],
          mpi_type_create_resized E pr large (h ''oldtype'') (i ''lb'') (i ''extent'')),
      (''Type_create_subarray'', [Type],
          mpi_type_create_subarray E pr large (i ''ndims'') (a ''array_of_sizes'') (a
           ''array_of_subsizes'') (a ''array_of_starts'') (i ''order'') (h ''oldtype'')),
      (''Type_dup'', [Type], mpi_type_dup E pr (h ''oldtype'')),
      (''Type_get_value_index'', [Type],
          mpi_type_get_value_index E pr (h ''value_type'') (h ''index_type'')),
      (''Type_indexed'', [Type],
          mpi_type_indexed E pr large (i ''cnt'') (a ''array_of_blocklengths'') (a
           ''array_of_displacements'') (h ''oldtype'')),
      (''Type_match_size'', [Type], mpi_type_match_size E pr (i ''typeclass'') (i ''sz'')),
      (''Type_vector'', [Type],
          mpi_type_vector E pr large (i ''cnt'') (i ''blocklength'') (i ''stride'') (h
           ''oldtype'')),
      (''Win_allocate'', [Win],
          mpi_win_allocate E pr large (i ''sz'') (i ''disp_unit'') (h ''info'') (h ''comm'') (a
           ''baseptr'')),
      (''Win_allocate_shared'', [Win],
          mpi_win_allocate_shared E pr large (i ''sz'') (i ''disp_unit'') (h ''info'') (h
           ''comm'') (a ''baseptr'')),
      (''Win_create'', [Win],
          mpi_win_create E pr large (a ''base'') (i ''sz'') (i ''disp_unit'') (h ''info'') (h
           ''comm'')),
      (''Win_create_dynamic'', [Win], mpi_win_create_dynamic E pr (h ''info'') (h ''comm'')),
      (''Win_get_errhandler'', [Errhandler], mpi_win_get_errhandler E pr (h ''win'')),
      (''Win_get_group'', [Group], mpi_win_get_group E pr (h ''win'')),
      (''Win_get_info'', [Info], mpi_win_get_info E pr (h ''win''))]"

lemmas creating_defs =
  mpi_abi_get_fortran_info_def
  mpi_abi_get_info_def
  mpi_allgather_init_def
  mpi_allgatherv_init_def
  mpi_allreduce_init_def
  mpi_alltoall_init_def
  mpi_alltoallv_init_def
  mpi_barrier_init_def
  mpi_bcast_init_def
  mpi_bsend_init_def
  mpi_buffer_iflush_def
  mpi_comm_create_def
  mpi_comm_create_group_def
  mpi_comm_dup_def
  mpi_comm_dup_with_info_def
  mpi_comm_get_errhandler_def
  mpi_comm_get_info_def
  mpi_comm_get_parent_def
  mpi_comm_group_def
  mpi_comm_idup_def
  mpi_comm_idup_with_info_def
  mpi_comm_iflush_buffer_def
  mpi_comm_join_def
  mpi_comm_remote_group_def
  mpi_comm_split_def
  mpi_comm_split_type_def
  mpi_dist_graph_create_def
  mpi_dist_graph_create_adjacent_def
  mpi_exscan_init_def
  mpi_file_get_errhandler_def
  mpi_file_get_group_def
  mpi_file_get_info_def
  mpi_file_iread_def
  mpi_file_iread_all_def
  mpi_file_iread_at_def
  mpi_file_iread_at_all_def
  mpi_file_iread_shared_def
  mpi_file_iwrite_def
  mpi_file_iwrite_all_def
  mpi_file_iwrite_at_def
  mpi_file_iwrite_at_all_def
  mpi_file_iwrite_shared_def
  mpi_get_hw_resource_info_def
  mpi_graph_create_def
  mpi_group_difference_def
  mpi_group_excl_def
  mpi_group_incl_def
  mpi_group_intersection_def
  mpi_group_range_excl_def
  mpi_group_range_incl_def
  mpi_group_union_def
  mpi_iallgather_def
  mpi_iallgatherv_def
  mpi_iallreduce_def
  mpi_ialltoall_def
  mpi_ialltoallv_def
  mpi_ibarrier_def
  mpi_ibcast_def
  mpi_ibsend_def
  mpi_iexscan_def
  mpi_ineighbor_allgather_def
  mpi_ineighbor_allgatherv_def
  mpi_ineighbor_alltoall_def
  mpi_ineighbor_alltoallv_def
  mpi_info_create_def
  mpi_info_create_env_def
  mpi_info_dup_def
  mpi_intercomm_create_def
  mpi_intercomm_merge_def
  mpi_irecv_def
  mpi_ireduce_def
  mpi_ireduce_scatter_def
  mpi_ireduce_scatter_block_def
  mpi_irsend_def
  mpi_iscan_def
  mpi_isend_def
  mpi_isendrecv_def
  mpi_isendrecv_replace_def
  mpi_issend_def
  mpi_mprobe_def
  mpi_neighbor_allgather_init_def
  mpi_neighbor_allgatherv_init_def
  mpi_neighbor_alltoall_init_def
  mpi_neighbor_alltoallv_init_def
  mpi_precv_init_def
  mpi_psend_init_def
  mpi_raccumulate_def
  mpi_recv_init_def
  mpi_reduce_init_def
  mpi_reduce_scatter_block_init_def
  mpi_reduce_scatter_init_def
  mpi_rget_def
  mpi_rget_accumulate_def
  mpi_rput_def
  mpi_rsend_init_def
  mpi_scan_init_def
  mpi_send_init_def
  mpi_session_get_errhandler_def
  mpi_session_get_info_def
  mpi_session_iflush_buffer_def
  mpi_session_init_def
  mpi_ssend_init_def
  mpi_type_contiguous_def
  mpi_type_create_darray_def
  mpi_type_create_f90_complex_def
  mpi_type_create_f90_integer_def
  mpi_type_create_f90_real_def
  mpi_type_create_hindexed_def
  mpi_type_create_hindexed_block_def
  mpi_type_create_hvector_def
  mpi_type_create_indexed_block_def
  mpi_type_create_resized_def
  mpi_type_create_subarray_def
  mpi_type_dup_def
  mpi_type_get_value_index_def
  mpi_type_indexed_def
  mpi_type_match_size_def
  mpi_type_vector_def
  mpi_win_allocate_def
  mpi_win_allocate_shared_def
  mpi_win_create_def
  mpi_win_create_dynamic_def
  mpi_win_get_errhandler_def
  mpi_win_get_group_def
  mpi_win_get_info_def

text \<open>Each hands back only locals that start out as null handles.\<close>

definition creating ::
    "('w, 'z) mpi_lib_scheme \<Rightarrow> profile \<Rightarrow> string \<Rightarrow> hkind list \<Rightarrow> ('w \<Rightarrow> fault + outcome \<times> 'w) \<Rightarrow> bool" where
  "creating E pr name ks f \<longleftrightarrow>
     (\<exists>lg args xs. length xs = length ks \<and>
        f = calls E pr lg name args (map (\<lambda>(k, x). Handle k x) (zip ks xs)) \<and>
        (\<forall>(k, x) \<in> set (zip ks xs). initial args x = null_handle k))"

lemma creatingI:
  assumes "length xs = length ks"
    and "f = calls E pr lg name args (map (\<lambda>(k, x). Handle k x) (zip ks xs))"
    and "\<forall>(k, x) \<in> set (zip ks xs). initial args x = null_handle k"
  shows "creating E pr name ks f"
  unfolding creating_def using assms by blast

lemma creating1:
  assumes "f = calls E pr lg name args [Handle k x]" and "initial args x = null_handle k"
  shows "creating E pr name [k] f"
  using assms by (auto intro: creatingI [where xs = "[x]"])

lemma creating2:
  assumes "f = calls E pr lg name args [Handle k x, Handle k' x']"
    and "initial args x = null_handle k \<and> initial args x' = null_handle k'"
  shows "creating E pr name [k, k'] f"
  using assms by (auto intro: creatingI [where xs = "[x, x']"])

lemma creating_wrappers_are:
  assumes "(name, ks, f) \<in> set (creating_wrappers E pr large i h a)"
  shows "creating E pr name ks f"
proof -
  have "list_all (\<lambda>(name, ks, f). creating E pr name ks f) (creating_wrappers E pr large i h a)"
    unfolding creating_wrappers_def list.pred_inject prod.case creating_defs
    by (intro conjI; ((rule creating1, rule refl, simp) | (rule creating2, rule refl, simp) | simp))
  with assms show ?thesis by (auto simp: list_all_iff)
qed

lemma convert_back_nulls:
  assumes "handle_api_ok (handles E)" and "length xs = length ks"
    and "\<forall>(k, x) \<in> set (zip ks xs). temp r x = null_handle k"
  shows "convert_back E r (map (\<lambda>(k, x). Handle k x) (zip ks xs)) = Inr (map (\<lambda>k. to_fint (null_handle k)) ks)"
  using assms(2,3) by (induction xs ks rule: list_induct2) (auto simp: assms(1))

text \<open>
  C28. A failed call gives null handles. If MPI leaves the variables it should have stored the new
  handles in as they were, as it may when it fails, none of these 125 wrappers converts garbage: it
  returns MPI's error code, and the caller's integers become the null handles of the kinds the
  table gives, which the ABI library's conversions accept.
\<close>

theorem failed_creation_gives_null_handles:
  assumes "handle_api_ok (handles E)"
    and "(name, ks, f) \<in> set (creating_wrappers E pr large i h a)"
    and "\<And>lg args x. temp (fst (mpi E pr lg name args w)) x = initial args x"
  shows "\<exists>lg args r w'. mpi E pr lg name args w = (r, w') \<and>
    f w = Inr (\<lparr>ierror = rc r, out = map (\<lambda>k. to_fint (null_handle k)) ks\<rparr>, w')"
proof -
  from creating_wrappers_are [OF assms(2)] obtain lg args xs where
    len: "length xs = length ks" and
    f: "f = calls E pr lg name args (map (\<lambda>(k, x). Handle k x) (zip ks xs))" and
    nulls: "\<forall>(k, x) \<in> set (zip ks xs). initial args x = null_handle k"
    unfolding creating_def by blast
  obtain r w' where m: "mpi E pr lg name args w = (r, w')" by (metis surj_pair)
  from nulls assms(3) have "\<forall>(k, x) \<in> set (zip ks xs). temp (fst (mpi E pr lg name args w)) x = null_handle k"
    by simp
  with m have "\<forall>(k, x) \<in> set (zip ks xs). temp r x = null_handle k" by simp
  with convert_back_nulls [OF assms(1) len this] m show ?thesis
    by (auto simp: f calls_def)
qed

text \<open>A library whose calls fail and store nothing.\<close>

definition failing_lib :: "type_world cdesc_lib" where
  "failing_lib = demo_lib
     \<lparr>mpi := (\<lambda>pr large name args w. (short_reply 5 (initial args), w))\<rparr>"

theorem failed_creation_gives_null_handles_witness:
  "\<exists>w'. mpi_comm_dup failing_lib MPI 0x101 demo_world =
     Inr (\<lparr>ierror = 5, out = [to_fint MPI_COMM_NULL]\<rparr>, w')"
proof -
  have ok: "handle_api_ok (handles failing_lib)" by (simp add: failing_lib_def demo_lib_def)
  have mem: "(''Comm_dup'', [Comm], mpi_comm_dup failing_lib MPI 0x101)
      \<in> set (creating_wrappers failing_lib MPI False (\<lambda>_. 0) (\<lambda>_. 0x101) a)" for a
    by (simp add: creating_wrappers_def)
  have mpi: "mpi failing_lib pr lg name args w = (short_reply 5 (initial args), w)"
    for pr lg name args w by (simp add: failing_lib_def)
  show ?thesis
    using failed_creation_gives_null_handles [OF ok mem, of demo_world] by (auto simp: mpi)
qed

end
