(* ===== verification/Handle_Types.thy ===== *)
theory Handle_Types
  imports Wrappers_Handles
begin

text \<open>
  The types of handles across the two languages. In \<open>mpi_f08\<close> a handle has the type of its object; on its way to
  C it is a plain integer, by reference, and each wrapper of \<open>gen/mpif_functions.c\<close> gives it a type again by the
  conversion it uses. No compiler compares the two. The table \<open>f08_handles\<close> has, for each routine, the handle
  arguments its interface in \<open>gen/mpif_f08_functions.F90\<close> declares; here they are compared with what the
  wrappers hand to MPI.
\<close>

section \<open>Types of handles\<close>

text \<open>The handles of a call, in the order of its arguments; a variable counts with what it holds.\<close>

fun arg_handles :: "arg list \<Rightarrow> handle list" where
  "arg_handles [] = []"
| "arg_handles (Hdl h # as) = h # arg_handles as"
| "arg_handles (Temp x h # as) = h # arg_handles as"
| "arg_handles (Handles hs # as) = hs @ arg_handles as"
| "arg_handles (Temps x hs # as) = hs @ arg_handles as"
| "arg_handles (_ # as) = arg_handles as"

definition typed_args :: "(handle \<Rightarrow> hkind) \<Rightarrow> hkind list \<Rightarrow> arg list \<Rightarrow> bool" where
  "typed_args tag ks args \<longleftrightarrow> map tag (arg_handles args) = ks"

text \<open>
  A library that can tell from a handle what it is a handle of: a conversion from an integer makes a handle of
  its kind, the null handles have theirs, and a handle of the right kind converts back.
\<close>

definition typed_handles :: "(handle \<Rightarrow> hkind) \<Rightarrow> handle_api \<Rightarrow> bool" where
  "typed_handles tag H \<longleftrightarrow>
     (\<forall>k i. tag (fromint H k i) = k) \<and> (\<forall>k. tag (null_handle k) = k) \<and>
     (\<forall>h. toint H (tag h) h \<noteq> None)"

text \<open>
  Two libraries that cannot be told apart by well-typed calls of one routine; on any other call they may do
  what they like.
\<close>

definition agree_on_typed ::
    "(handle \<Rightarrow> hkind) \<Rightarrow> string \<Rightarrow> hkind list \<Rightarrow> ('w, 'z) mpi_lib_scheme \<Rightarrow> ('w, 'z) mpi_lib_scheme \<Rightarrow> bool" where
  "agree_on_typed tag name ks E E' \<longleftrightarrow>
     place E' = place E \<and> handles E' = handles E \<and> logicals E' = logicals E \<and>
     (\<forall>c w. tag c = Comm \<longrightarrow> PMPI_Comm_test_inter E' c w = PMPI_Comm_test_inter E c w \<and>
        PMPI_Comm_rank E' c w = PMPI_Comm_rank E c w) \<and>
     (\<forall>pr lg args w. typed_args tag ks args \<longrightarrow> mpi E' pr lg name args w = mpi E pr lg name args w)"

text \<open>What MPI leaves in a variable is a handle of the kind of what it held.\<close>

definition keeps_types ::
    "(handle \<Rightarrow> hkind) \<Rightarrow> string \<Rightarrow> hkind list \<Rightarrow> ('w, 'z) mpi_lib_scheme \<Rightarrow> bool" where
  "keeps_types tag name ks E \<longleftrightarrow>
     (\<forall>pr lg args w x h. typed_args tag ks args \<longrightarrow> Temp x h \<in> set args \<longrightarrow>
        tag (temp (fst (mpi E pr lg name args w)) x) = tag (initial args x))"

text \<open>
  A wrapper of the routine \<open>name\<close> with the handles \<open>ks\<close>: it makes no call the two libraries could differ
  on, and if MPI keeps the types it returns.
\<close>

definition typed_wrapper ::
    "(handle \<Rightarrow> hkind) \<Rightarrow> handle_api \<Rightarrow> string \<Rightarrow> hkind list \<Rightarrow>
     (('w, 'z) mpi_lib_scheme \<Rightarrow> 'w \<Rightarrow> fault + outcome \<times> 'w) \<Rightarrow> bool" where
  "typed_wrapper tag H name ks f \<longleftrightarrow>
     (\<forall>E E' w. handles E = H \<longrightarrow> agree_on_typed tag name ks E E' \<longrightarrow>
        f E' w = f E w \<and> (keeps_types tag name ks E \<longrightarrow> (\<exists>r. f E w = Inr r)))"

section \<open>The two shapes of a wrapper\<close>

text \<open>The handles a wrapper converts back are variables of the call, by their kind.\<close>

definition typed_exports :: "(handle \<Rightarrow> hkind) \<Rightarrow> arg list \<Rightarrow> exported list \<Rightarrow> bool" where
  "typed_exports tag args bs \<longleftrightarrow>
     list_all (\<lambda>b. case b of Handle k x \<Rightarrow> (\<exists>h. Temp x h \<in> set args) \<and> tag (initial args x) = k
                             | Logical x \<Rightarrow> True) bs"

lemma typed_exports_simps [simp]:
  "typed_exports tag args []"
  "typed_exports tag args (Logical x # bs) = typed_exports tag args bs"
  "typed_exports tag args (Handle k x # bs) \<longleftrightarrow>
     (\<exists>h. Temp x h \<in> set args) \<and> tag (initial args x) = k \<and> typed_exports tag args bs"
  by (simp_all add: typed_exports_def)

lemma convert_back_typed:
  assumes "\<forall>h. toint (handles E) (tag h) h \<noteq> None" and "typed_exports tag args bs"
    and "\<forall>x h. Temp x h \<in> set args \<longrightarrow> tag (temp r x) = tag (initial args x)"
  shows "\<exists>os. convert_back E r bs = Inr os"
  using assms(2)
proof (induction bs)
  case (Cons b bs)
  then obtain os where os: "convert_back E r bs = Inr os"
    by (cases b) auto
  show ?case
  proof (cases b)
    case (Handle k x)
    with Cons.prems assms(3) have "tag (temp r x) = k" by auto
    with assms(1) have "toint (handles E) k (temp r x) \<noteq> None" by blast
    with Handle os show ?thesis by (auto simp: toint_checked_def)
  qed (use os in simp)
qed simp

lemma calls_typed:
  assumes "typed_handles tag (handles E)" and "agree_on_typed tag name ks E E'"
    and "typed_args tag ks args" and "typed_exports tag args bs"
  shows "calls E' pr lg name args bs w = calls E pr lg name args bs w \<and>
    (keeps_types tag name ks E \<longrightarrow> (\<exists>r. calls E pr lg name args bs w = Inr r))"
proof -
  obtain r w' where m: "mpi E pr lg name args w = (r, w')" by (metis surj_pair)
  then have m': "mpi E' pr lg name args w = (r, w')"
    using assms(2,3) by (simp add: agree_on_typed_def)
  have "convert_one E' r b = convert_one E r b" for b
    using assms(2) by (cases b) (simp_all add: agree_on_typed_def)
  then have "convert_back E' r bs = convert_back E r bs"
    by (induction bs) simp_all
  moreover have "\<exists>os. convert_back E r bs = Inr os" if "keeps_types tag name ks E"
  proof (rule convert_back_typed [OF _ assms(4)])
    show "\<forall>h. toint (handles E) (tag h) h \<noteq> None"
      using assms(1) by (simp add: typed_handles_def)
    show "\<forall>x h. Temp x h \<in> set args \<longrightarrow> tag (temp r x) = tag (initial args x)"
      using that assms(3) m unfolding keeps_types_def by (metis fst_conv)
  qed
  ultimately show ?thesis
    using m m' by (auto simp: calls_def)
qed

text \<open>\<open>args E\<close> depends on the library's placement, conversions and logical values only.\<close>

definition same_setting :: "('w, 'z) mpi_lib_scheme \<Rightarrow> ('w, 'z) mpi_lib_scheme \<Rightarrow> bool" where
  "same_setting E E' \<longleftrightarrow> place E' = place E \<and> handles E' = handles E \<and> logicals E' = logicals E"

lemma agree_same_setting: "agree_on_typed tag name ks E E' \<Longrightarrow> same_setting E E'"
  by (simp add: agree_on_typed_def same_setting_def)

lemma typed_direct:
  fixes args :: "('w, 'z) mpi_lib_scheme \<Rightarrow> arg list"
  assumes H: "typed_handles tag H" and name: "name = callee"
    and set: "\<And>E E'. same_setting E E' \<Longrightarrow> args E' = args E"
    and args: "\<And>E. handles E = H \<Longrightarrow> typed_args tag ks (args E)"
    and bs: "\<And>E. handles E = H \<Longrightarrow> typed_exports tag (args E) bs"
  shows "typed_wrapper tag H name ks (\<lambda>E. calls E pr lg callee (args E) bs)"
  unfolding typed_wrapper_def name [symmetric]
proof (intro allI impI)
  fix E E' :: "('w, 'z) mpi_lib_scheme" and w :: 'w
  assume E: "handles E = H" and agree: "agree_on_typed tag name ks E E'"
  then show "calls E' pr lg name (args E') bs w = calls E pr lg name (args E) bs w \<and>
      (keeps_types tag name ks E \<longrightarrow> (\<exists>r. calls E pr lg name (args E) bs w = Inr r))"
    using calls_typed [OF _ agree args [OF E] bs [OF E], of pr lg w] H
      set [OF agree_same_setting [OF agree]] by simp
qed

lemma typed_rooted:
  fixes args :: "('w, 'z) mpi_lib_scheme \<Rightarrow> bool \<Rightarrow> arg list"
  assumes H: "typed_handles tag H" and name: "name = callee"
    and set: "\<And>E E' q. same_setting E E' \<Longrightarrow> args E' q = args E q"
    and args: "\<And>E q. handles E = H \<Longrightarrow> typed_args tag ks (args E q)"
    and bs: "\<And>E q. handles E = H \<Longrightarrow> typed_exports tag (args E q) bs"
  shows "typed_wrapper tag H name ks
    (\<lambda>E. probing (at_root E (fromint (handles E) Comm comm) root) (\<lambda>q. calls E pr lg callee (args E q) bs))"
  unfolding typed_wrapper_def name [symmetric]
proof (intro allI impI)
  fix E E' :: "('w, 'z) mpi_lib_scheme" and w :: 'w
  assume E: "handles E = H" and agree: "agree_on_typed tag name ks E E'"
  let ?c = "fromint (handles E) Comm comm"
  have "tag ?c = Comm"
    using H E by (simp add: typed_handles_def)
  then have same: "handles E' = handles E" "at_root E' ?c root w = at_root E ?c root w"
    using agree by (simp_all add: agree_on_typed_def at_root_def cong: if_cong)
  show "probing (at_root E' (fromint (handles E') Comm comm) root) (\<lambda>q. calls E' pr lg name (args E' q) bs) w =
      probing (at_root E ?c root) (\<lambda>q. calls E pr lg name (args E q) bs) w \<and>
      (keeps_types tag name ks E \<longrightarrow>
        (\<exists>r. probing (at_root E ?c root) (\<lambda>q. calls E pr lg name (args E q) bs) w = Inr r))"
    unfolding probing_def same
    using calls_typed [OF _ agree args [OF E] bs [OF E], of pr lg] H E
      set [OF agree_same_setting [OF agree]] by (simp add: returns_def split: sum.split)
qed

section \<open>The tables\<close>

text \<open>
  The handle arguments of the interfaces of \<open>mpi_f08\<close>, as \<open>type(MPI_Comm)\<close> and its kin declare them, in the order
  of the arguments; results count as arguments. A routine's versions (with descriptors or without, large or
  not, \<open>PMPI_\<close>) declare the same ones.
\<close>

definition f08_handles :: "(string \<times> hkind list) list" where
  "f08_handles =
     [
      (''Abi_get_fortran_info'', [Info]),
      (''Abi_get_info'', [Info]),
      (''Abi_set_fortran_info'', [Info]),
      (''Abort'', [Comm]),
      (''Accumulate'', [Type, Type, Op, Win]),
      (''Allgather'', [Type, Type, Comm]),
      (''Allgather_init'', [Type, Type, Comm, Info, Request]),
      (''Allgatherv'', [Type, Type, Comm]),
      (''Allgatherv_init'', [Type, Type, Comm, Info, Request]),
      (''Alloc_mem'', [Info]),
      (''Allreduce'', [Type, Op, Comm]),
      (''Allreduce_init'', [Type, Op, Comm, Info, Request]),
      (''Alltoall'', [Type, Type, Comm]),
      (''Alltoall_init'', [Type, Type, Comm, Info, Request]),
      (''Alltoallv'', [Type, Type, Comm]),
      (''Alltoallv_init'', [Type, Type, Comm, Info, Request]),
      (''Attr_delete'', [Comm]),
      (''Attr_put'', [Comm]),
      (''Barrier'', [Comm]),
      (''Barrier_init'', [Comm, Info, Request]),
      (''Bcast'', [Type, Comm]),
      (''Bcast_init'', [Type, Comm, Info, Request]),
      (''Bsend'', [Type, Comm]),
      (''Bsend_init'', [Type, Comm, Request]),
      (''Buffer_iflush'', [Request]),
      (''Cancel'', [Request]),
      (''Cart_coords'', [Comm]),
      (''Cart_rank'', [Comm]),
      (''Cart_shift'', [Comm]),
      (''Cartdim_get'', [Comm]),
      (''Comm_attach_buffer'', [Comm]),
      (''Comm_call_errhandler'', [Comm]),
      (''Comm_compare'', [Comm, Comm]),
      (''Comm_create'', [Comm, Group, Comm]),
      (''Comm_create_group'', [Comm, Group, Comm]),
      (''Comm_delete_attr'', [Comm]),
      (''Comm_disconnect'', [Comm]),
      (''Comm_dup'', [Comm, Comm]),
      (''Comm_dup_with_info'', [Comm, Info, Comm]),
      (''Comm_flush_buffer'', [Comm]),
      (''Comm_free'', [Comm]),
      (''Comm_get_errhandler'', [Comm, Errhandler]),
      (''Comm_get_info'', [Comm, Info]),
      (''Comm_get_parent'', [Comm]),
      (''Comm_group'', [Comm, Group]),
      (''Comm_idup'', [Comm, Comm, Request]),
      (''Comm_idup_with_info'', [Comm, Info, Comm, Request]),
      (''Comm_iflush_buffer'', [Comm, Request]),
      (''Comm_join'', [Comm]),
      (''Comm_rank'', [Comm]),
      (''Comm_remote_group'', [Comm, Group]),
      (''Comm_remote_size'', [Comm]),
      (''Comm_set_attr'', [Comm]),
      (''Comm_set_errhandler'', [Comm, Errhandler]),
      (''Comm_set_info'', [Comm, Info]),
      (''Comm_size'', [Comm]),
      (''Comm_split'', [Comm, Comm]),
      (''Comm_split_type'', [Comm, Info, Comm]),
      (''Comm_test_inter'', [Comm]),
      (''Compare_and_swap'', [Type, Win]),
      (''Dist_graph_create'', [Comm, Info, Comm]),
      (''Dist_graph_create_adjacent'', [Comm, Info, Comm]),
      (''Dist_graph_neighbors'', [Comm]),
      (''Dist_graph_neighbors_count'', [Comm]),
      (''Errhandler_free'', [Errhandler]),
      (''Exscan'', [Type, Op, Comm]),
      (''Exscan_init'', [Type, Op, Comm, Info, Request]),
      (''Fetch_and_op'', [Type, Op, Win]),
      (''File_call_errhandler'', [File]),
      (''File_close'', [File]),
      (''File_get_amode'', [File]),
      (''File_get_atomicity'', [File]),
      (''File_get_byte_offset'', [File]),
      (''File_get_errhandler'', [File, Errhandler]),
      (''File_get_group'', [File, Group]),
      (''File_get_info'', [File, Info]),
      (''File_get_position'', [File]),
      (''File_get_position_shared'', [File]),
      (''File_get_size'', [File]),
      (''File_get_type_extent'', [File, Type]),
      (''File_iread'', [File, Type, Request]),
      (''File_iread_all'', [File, Type, Request]),
      (''File_iread_at'', [File, Type, Request]),
      (''File_iread_at_all'', [File, Type, Request]),
      (''File_iread_shared'', [File, Type, Request]),
      (''File_iwrite'', [File, Type, Request]),
      (''File_iwrite_all'', [File, Type, Request]),
      (''File_iwrite_at'', [File, Type, Request]),
      (''File_iwrite_at_all'', [File, Type, Request]),
      (''File_iwrite_shared'', [File, Type, Request]),
      (''File_preallocate'', [File]),
      (''File_read'', [File, Type]),
      (''File_read_all'', [File, Type]),
      (''File_read_all_begin'', [File, Type]),
      (''File_read_all_end'', [File]),
      (''File_read_at'', [File, Type]),
      (''File_read_at_all'', [File, Type]),
      (''File_read_at_all_begin'', [File, Type]),
      (''File_read_at_all_end'', [File]),
      (''File_read_ordered'', [File, Type]),
      (''File_read_ordered_begin'', [File, Type]),
      (''File_read_ordered_end'', [File]),
      (''File_read_shared'', [File, Type]),
      (''File_seek'', [File]),
      (''File_seek_shared'', [File]),
      (''File_set_atomicity'', [File]),
      (''File_set_errhandler'', [File, Errhandler]),
      (''File_set_info'', [File, Info]),
      (''File_set_size'', [File]),
      (''File_sync'', [File]),
      (''File_write'', [File, Type]),
      (''File_write_all'', [File, Type]),
      (''File_write_all_begin'', [File, Type]),
      (''File_write_all_end'', [File]),
      (''File_write_at'', [File, Type]),
      (''File_write_at_all'', [File, Type]),
      (''File_write_at_all_begin'', [File, Type]),
      (''File_write_at_all_end'', [File]),
      (''File_write_ordered'', [File, Type]),
      (''File_write_ordered_begin'', [File, Type]),
      (''File_write_ordered_end'', [File]),
      (''File_write_shared'', [File, Type]),
      (''Gather'', [Type, Type, Comm]),
      (''Gather_init'', [Type, Type, Comm, Info, Request]),
      (''Gatherv'', [Type, Type, Comm]),
      (''Gatherv_init'', [Type, Type, Comm, Info, Request]),
      (''Get'', [Type, Type, Win]),
      (''Get_accumulate'', [Type, Type, Type, Op, Win]),
      (''Get_count'', [Type]),
      (''Get_elements'', [Type]),
      (''Get_elements_x'', [Type]),
      (''Get_hw_resource_info'', [Info]),
      (''Graph_create'', [Comm, Comm]),
      (''Graph_get'', [Comm]),
      (''Graph_map'', [Comm]),
      (''Graph_neighbors'', [Comm]),
      (''Graph_neighbors_count'', [Comm]),
      (''Graphdims_get'', [Comm]),
      (''Grequest_complete'', [Request]),
      (''Group_compare'', [Group, Group]),
      (''Group_difference'', [Group, Group, Group]),
      (''Group_excl'', [Group, Group]),
      (''Group_free'', [Group]),
      (''Group_incl'', [Group, Group]),
      (''Group_intersection'', [Group, Group, Group]),
      (''Group_range_excl'', [Group, Group]),
      (''Group_range_incl'', [Group, Group]),
      (''Group_rank'', [Group]),
      (''Group_size'', [Group]),
      (''Group_translate_ranks'', [Group, Group]),
      (''Group_union'', [Group, Group, Group]),
      (''Iallgather'', [Type, Type, Comm, Request]),
      (''Iallgatherv'', [Type, Type, Comm, Request]),
      (''Iallreduce'', [Type, Op, Comm, Request]),
      (''Ialltoall'', [Type, Type, Comm, Request]),
      (''Ialltoallv'', [Type, Type, Comm, Request]),
      (''Ibarrier'', [Comm, Request]),
      (''Ibcast'', [Type, Comm, Request]),
      (''Ibsend'', [Type, Comm, Request]),
      (''Iexscan'', [Type, Op, Comm, Request]),
      (''Igather'', [Type, Type, Comm, Request]),
      (''Igatherv'', [Type, Type, Comm, Request]),
      (''Improbe'', [Comm, Message]),
      (''Imrecv'', [Type, Message, Request]),
      (''Ineighbor_allgather'', [Type, Type, Comm, Request]),
      (''Ineighbor_allgatherv'', [Type, Type, Comm, Request]),
      (''Ineighbor_alltoall'', [Type, Type, Comm, Request]),
      (''Ineighbor_alltoallv'', [Type, Type, Comm, Request]),
      (''Info_create'', [Info]),
      (''Info_create_env'', [Info]),
      (''Info_dup'', [Info, Info]),
      (''Info_free'', [Info]),
      (''Info_get_nkeys'', [Info]),
      (''Intercomm_create'', [Comm, Comm, Comm]),
      (''Intercomm_merge'', [Comm, Comm]),
      (''Iprobe'', [Comm]),
      (''Irecv'', [Type, Comm, Request]),
      (''Ireduce'', [Type, Op, Comm, Request]),
      (''Ireduce_scatter'', [Type, Op, Comm, Request]),
      (''Ireduce_scatter_block'', [Type, Op, Comm, Request]),
      (''Irsend'', [Type, Comm, Request]),
      (''Iscan'', [Type, Op, Comm, Request]),
      (''Iscatter'', [Type, Type, Comm, Request]),
      (''Iscatterv'', [Type, Type, Comm, Request]),
      (''Isend'', [Type, Comm, Request]),
      (''Isendrecv'', [Type, Type, Comm, Request]),
      (''Isendrecv_replace'', [Type, Comm, Request]),
      (''Issend'', [Type, Comm, Request]),
      (''Mprobe'', [Comm, Message]),
      (''Mrecv'', [Type, Message]),
      (''Neighbor_allgather'', [Type, Type, Comm]),
      (''Neighbor_allgather_init'', [Type, Type, Comm, Info, Request]),
      (''Neighbor_allgatherv'', [Type, Type, Comm]),
      (''Neighbor_allgatherv_init'', [Type, Type, Comm, Info, Request]),
      (''Neighbor_alltoall'', [Type, Type, Comm]),
      (''Neighbor_alltoall_init'', [Type, Type, Comm, Info, Request]),
      (''Neighbor_alltoallv'', [Type, Type, Comm]),
      (''Neighbor_alltoallv_init'', [Type, Type, Comm, Info, Request]),
      (''Op_commutative'', [Op]),
      (''Op_free'', [Op]),
      (''Pack'', [Type, Comm]),
      (''Pack_size'', [Type, Comm]),
      (''Parrived'', [Request]),
      (''Pready'', [Request]),
      (''Pready_list'', [Request]),
      (''Pready_range'', [Request]),
      (''Precv_init'', [Type, Comm, Info, Request]),
      (''Probe'', [Comm]),
      (''Psend_init'', [Type, Comm, Info, Request]),
      (''Put'', [Type, Type, Win]),
      (''Raccumulate'', [Type, Type, Op, Win, Request]),
      (''Recv'', [Type, Comm]),
      (''Recv_init'', [Type, Comm, Request]),
      (''Reduce'', [Type, Op, Comm]),
      (''Reduce_init'', [Type, Op, Comm, Info, Request]),
      (''Reduce_local'', [Type, Op]),
      (''Reduce_scatter'', [Type, Op, Comm]),
      (''Reduce_scatter_block'', [Type, Op, Comm]),
      (''Reduce_scatter_block_init'', [Type, Op, Comm, Info, Request]),
      (''Reduce_scatter_init'', [Type, Op, Comm, Info, Request]),
      (''Request_free'', [Request]),
      (''Request_get_status'', [Request]),
      (''Rget'', [Type, Type, Win, Request]),
      (''Rget_accumulate'', [Type, Type, Type, Op, Win, Request]),
      (''Rput'', [Type, Type, Win, Request]),
      (''Rsend'', [Type, Comm]),
      (''Rsend_init'', [Type, Comm, Request]),
      (''Scan'', [Type, Op, Comm]),
      (''Scan_init'', [Type, Op, Comm, Info, Request]),
      (''Scatter'', [Type, Type, Comm]),
      (''Scatter_init'', [Type, Type, Comm, Info, Request]),
      (''Scatterv'', [Type, Type, Comm]),
      (''Scatterv_init'', [Type, Type, Comm, Info, Request]),
      (''Send'', [Type, Comm]),
      (''Send_init'', [Type, Comm, Request]),
      (''Sendrecv'', [Type, Type, Comm]),
      (''Sendrecv_replace'', [Type, Comm]),
      (''Session_attach_buffer'', [Session]),
      (''Session_call_errhandler'', [Session]),
      (''Session_finalize'', [Session]),
      (''Session_flush_buffer'', [Session]),
      (''Session_get_errhandler'', [Session, Errhandler]),
      (''Session_get_info'', [Session, Info]),
      (''Session_get_num_psets'', [Session, Info]),
      (''Session_iflush_buffer'', [Session, Request]),
      (''Session_init'', [Info, Errhandler, Session]),
      (''Session_set_errhandler'', [Session, Errhandler]),
      (''Ssend'', [Type, Comm]),
      (''Ssend_init'', [Type, Comm, Request]),
      (''Start'', [Request]),
      (''Status_set_elements'', [Type]),
      (''Status_set_elements_x'', [Type]),
      (''Test'', [Request]),
      (''Topo_test'', [Comm]),
      (''Type_commit'', [Type]),
      (''Type_contiguous'', [Type, Type]),
      (''Type_create_darray'', [Type, Type]),
      (''Type_create_f90_complex'', [Type]),
      (''Type_create_f90_integer'', [Type]),
      (''Type_create_f90_real'', [Type]),
      (''Type_create_hindexed'', [Type, Type]),
      (''Type_create_hindexed_block'', [Type, Type]),
      (''Type_create_hvector'', [Type, Type]),
      (''Type_create_indexed_block'', [Type, Type]),
      (''Type_create_resized'', [Type, Type]),
      (''Type_create_subarray'', [Type, Type]),
      (''Type_delete_attr'', [Type]),
      (''Type_dup'', [Type, Type]),
      (''Type_free'', [Type]),
      (''Type_get_extent'', [Type]),
      (''Type_get_extent_x'', [Type]),
      (''Type_get_true_extent'', [Type]),
      (''Type_get_true_extent_x'', [Type]),
      (''Type_get_value_index'', [Type, Type, Type]),
      (''Type_indexed'', [Type, Type]),
      (''Type_match_size'', [Type]),
      (''Type_set_attr'', [Type]),
      (''Type_size'', [Type]),
      (''Type_size_x'', [Type]),
      (''Type_vector'', [Type, Type]),
      (''Unpack'', [Type, Comm]),
      (''Wait'', [Request]),
      (''Win_allocate'', [Info, Comm, Win]),
      (''Win_allocate_shared'', [Info, Comm, Win]),
      (''Win_attach'', [Win]),
      (''Win_call_errhandler'', [Win]),
      (''Win_complete'', [Win]),
      (''Win_create'', [Info, Comm, Win]),
      (''Win_create_dynamic'', [Info, Comm, Win]),
      (''Win_delete_attr'', [Win]),
      (''Win_detach'', [Win]),
      (''Win_fence'', [Win]),
      (''Win_flush'', [Win]),
      (''Win_flush_all'', [Win]),
      (''Win_flush_local'', [Win]),
      (''Win_flush_local_all'', [Win]),
      (''Win_free'', [Win]),
      (''Win_get_errhandler'', [Win, Errhandler]),
      (''Win_get_group'', [Win, Group]),
      (''Win_get_info'', [Win, Info]),
      (''Win_lock'', [Win]),
      (''Win_lock_all'', [Win]),
      (''Win_post'', [Group, Win]),
      (''Win_set_attr'', [Win]),
      (''Win_set_errhandler'', [Win, Errhandler]),
      (''Win_set_info'', [Win, Info]),
      (''Win_shared_query'', [Win]),
      (''Win_start'', [Group, Win]),
      (''Win_sync'', [Win]),
      (''Win_test'', [Win]),
      (''Win_unlock'', [Win]),
      (''Win_unlock_all'', [Win]),
      (''Win_wait'', [Win])]"

text \<open>
  The wrappers in the same order, on any arguments: \<open>i\<close> gives integers, \<open>h\<close> handles and the other
  default integers, \<open>a\<close> addresses, by the name of the dummy argument.
\<close>

definition handle_wrappers where
  "handle_wrappers pr large i h a =
     [
      \<lambda>E. mpi_abi_get_fortran_info E pr,
      \<lambda>E. mpi_abi_get_info E pr,
      \<lambda>E. mpi_abi_set_fortran_info E pr (h ''info''),
      \<lambda>E. mpi_abort E pr (h ''comm'') (i ''errorcode''),
      \<lambda>E. mpi_accumulate E pr large (a ''origin_addr'') (i ''origin_count'') (h
         ''origin_datatype'') (i ''target_rank'') (i ''target_disp'') (i ''target_count'') (h
         ''target_datatype'') (h ''oper'') (h ''win''),
      \<lambda>E. mpi_allgather E pr large (a ''sendbuf'') (i ''sendcount'') (h ''sendtype'') (a
         ''recvbuf'') (i ''recvcount'') (h ''recvtype'') (h ''comm''),
      \<lambda>E. mpi_allgather_init E pr large (a ''sendbuf'') (i ''sendcount'') (h
         ''sendtype'') (a ''recvbuf'') (i ''recvcount'') (h ''recvtype'') (h ''comm'') (h
         ''info''),
      \<lambda>E. mpi_allgatherv E pr large (a ''sendbuf'') (i ''sendcount'') (h ''sendtype'')
         (a ''recvbuf'') (a ''recvcounts'') (a ''displs'') (h ''recvtype'') (h ''comm''),
      \<lambda>E. mpi_allgatherv_init E pr large (a ''sendbuf'') (i ''sendcount'') (h
         ''sendtype'') (a ''recvbuf'') (a ''recvcounts'') (a ''displs'') (h ''recvtype'') (h
         ''comm'') (h ''info''),
      \<lambda>E. mpi_alloc_mem E pr (i ''sz'') (h ''info'') (a ''baseptr''),
      \<lambda>E. mpi_allreduce E pr large (a ''sendbuf'') (a ''recvbuf'') (i ''cnt'') (h
         ''datatype'') (h ''oper'') (h ''comm''),
      \<lambda>E. mpi_allreduce_init E pr large (a ''sendbuf'') (a ''recvbuf'') (i ''cnt'') (h
         ''datatype'') (h ''oper'') (h ''comm'') (h ''info''),
      \<lambda>E. mpi_alltoall E pr large (a ''sendbuf'') (i ''sendcount'') (h ''sendtype'') (a
         ''recvbuf'') (i ''recvcount'') (h ''recvtype'') (h ''comm''),
      \<lambda>E. mpi_alltoall_init E pr large (a ''sendbuf'') (i ''sendcount'') (h
         ''sendtype'') (a ''recvbuf'') (i ''recvcount'') (h ''recvtype'') (h ''comm'') (h
         ''info''),
      \<lambda>E. mpi_alltoallv E pr large (a ''sendbuf'') (a ''sendcounts'') (a ''sdispls'') (h
         ''sendtype'') (a ''recvbuf'') (a ''recvcounts'') (a ''rdispls'') (h ''recvtype'') (h
         ''comm''),
      \<lambda>E. mpi_alltoallv_init E pr large (a ''sendbuf'') (a ''sendcounts'') (a
         ''sdispls'') (h ''sendtype'') (a ''recvbuf'') (a ''recvcounts'') (a ''rdispls'') (h
         ''recvtype'') (h ''comm'') (h ''info''),
      \<lambda>E. mpi_attr_delete E pr (h ''comm'') (i ''keyval''),
      \<lambda>E. mpi_attr_put E pr (h ''comm'') (i ''keyval'') (h ''attribute_val''),
      \<lambda>E. mpi_barrier E pr (h ''comm''),
      \<lambda>E. mpi_barrier_init E pr (h ''comm'') (h ''info''),
      \<lambda>E. mpi_bcast E pr large (a ''buffer'') (i ''cnt'') (h ''datatype'') (i ''root'')
         (h ''comm''),
      \<lambda>E. mpi_bcast_init E pr large (a ''buffer'') (i ''cnt'') (h ''datatype'') (i
         ''root'') (h ''comm'') (h ''info''),
      \<lambda>E. mpi_bsend E pr large (a ''buf'') (i ''cnt'') (h ''datatype'') (i ''dest'') (i
         ''tag'') (h ''comm''),
      \<lambda>E. mpi_bsend_init E pr large (a ''buf'') (i ''cnt'') (h ''datatype'') (i
         ''dest'') (i ''tag'') (h ''comm''),
      \<lambda>E. mpi_buffer_iflush E pr,
      \<lambda>E. mpi_cancel E pr (h ''request''),
      \<lambda>E. mpi_cart_coords E pr (h ''comm'') (i ''rnk'') (i ''maxdims'') (a ''coords''),
      \<lambda>E. mpi_cart_rank E pr (h ''comm'') (a ''coords'') (a ''rnk''),
      \<lambda>E. mpi_cart_shift E pr (h ''comm'') (i ''direction'') (i ''disp'') (a
         ''rank_source'') (a ''rank_dest''),
      \<lambda>E. mpi_cartdim_get E pr (h ''comm'') (a ''ndims''),
      \<lambda>E. mpi_comm_attach_buffer E pr large (h ''comm'') (a ''buffer'') (i ''sz''),
      \<lambda>E. mpi_comm_call_errhandler E pr (h ''comm'') (i ''errorcode''),
      \<lambda>E. mpi_comm_compare E pr (h ''comm1'') (h ''comm2'') (a ''res''),
      \<lambda>E. mpi_comm_create E pr (h ''comm'') (h ''group_p''),
      \<lambda>E. mpi_comm_create_group E pr (h ''comm'') (h ''group_p'') (i ''tag''),
      \<lambda>E. mpi_comm_delete_attr E pr (h ''comm'') (i ''comm_keyval''),
      \<lambda>E. mpi_comm_disconnect E pr (h ''comm''),
      \<lambda>E. mpi_comm_dup E pr (h ''comm''),
      \<lambda>E. mpi_comm_dup_with_info E pr (h ''comm'') (h ''info''),
      \<lambda>E. mpi_comm_flush_buffer E pr (h ''comm''),
      \<lambda>E. mpi_comm_free E pr (h ''comm''),
      \<lambda>E. mpi_comm_get_errhandler E pr (h ''comm''),
      \<lambda>E. mpi_comm_get_info E pr (h ''comm''),
      \<lambda>E. mpi_comm_get_parent E pr,
      \<lambda>E. mpi_comm_group E pr (h ''comm''),
      \<lambda>E. mpi_comm_idup E pr (h ''comm''),
      \<lambda>E. mpi_comm_idup_with_info E pr (h ''comm'') (h ''info''),
      \<lambda>E. mpi_comm_iflush_buffer E pr (h ''comm''),
      \<lambda>E. mpi_comm_join E pr (i ''fd''),
      \<lambda>E. mpi_comm_rank E pr (h ''comm'') (a ''rnk''),
      \<lambda>E. mpi_comm_remote_group E pr (h ''comm''),
      \<lambda>E. mpi_comm_remote_size E pr (h ''comm'') (a ''sz''),
      \<lambda>E. mpi_comm_set_attr E pr (h ''comm'') (i ''comm_keyval'') (a ''attribute_val''),
      \<lambda>E. mpi_comm_set_errhandler E pr (h ''comm'') (h ''errhandler''),
      \<lambda>E. mpi_comm_set_info E pr (h ''comm'') (h ''info''),
      \<lambda>E. mpi_comm_size E pr (h ''comm'') (a ''sz''),
      \<lambda>E. mpi_comm_split E pr (h ''comm'') (i ''color'') (i ''key''),
      \<lambda>E. mpi_comm_split_type E pr (h ''comm'') (i ''split_type'') (i ''key'') (h
         ''info''),
      \<lambda>E. mpi_comm_test_inter E pr (h ''comm''),
      \<lambda>E. mpi_compare_and_swap E pr (a ''origin_addr'') (a ''compare_addr'') (a
         ''result_addr'') (h ''datatype'') (i ''target_rank'') (i ''target_disp'') (h ''win''),
      \<lambda>E. mpi_dist_graph_create E pr (h ''comm_old'') (i ''n'') (a ''sources'') (a
         ''degrees'') (a ''destinations'') (a ''weights'') (h ''info'') (h ''reorder''),
      \<lambda>E. mpi_dist_graph_create_adjacent E pr (h ''comm_old'') (i ''indegree'') (a
         ''sources'') (a ''sourceweights'') (i ''outdegree'') (a ''destinations'') (a
         ''destweights'') (h ''info'') (h ''reorder''),
      \<lambda>E. mpi_dist_graph_neighbors E pr (h ''comm'') (i ''maxindegree'') (a ''sources'')
         (a ''sourceweights'') (i ''maxoutdegree'') (a ''destinations'') (a ''destweights''),
      \<lambda>E. mpi_dist_graph_neighbors_count E pr (h ''comm'') (a ''indegree'') (a
         ''outdegree''),
      \<lambda>E. mpi_errhandler_free E pr (h ''errhandler''),
      \<lambda>E. mpi_exscan E pr large (a ''sendbuf'') (a ''recvbuf'') (i ''cnt'') (h
         ''datatype'') (h ''oper'') (h ''comm''),
      \<lambda>E. mpi_exscan_init E pr large (a ''sendbuf'') (a ''recvbuf'') (i ''cnt'') (h
         ''datatype'') (h ''oper'') (h ''comm'') (h ''info''),
      \<lambda>E. mpi_fetch_and_op E pr (a ''origin_addr'') (a ''result_addr'') (h ''datatype'')
         (i ''target_rank'') (i ''target_disp'') (h ''oper'') (h ''win''),
      \<lambda>E. mpi_file_call_errhandler E pr (h ''fh'') (i ''errorcode''),
      \<lambda>E. mpi_file_close E pr (h ''fh''),
      \<lambda>E. mpi_file_get_amode E pr (h ''fh'') (a ''amode''),
      \<lambda>E. mpi_file_get_atomicity E pr (h ''fh''),
      \<lambda>E. mpi_file_get_byte_offset E pr (h ''fh'') (i ''offset'') (a ''disp''),
      \<lambda>E. mpi_file_get_errhandler E pr (h ''file''),
      \<lambda>E. mpi_file_get_group E pr (h ''fh''),
      \<lambda>E. mpi_file_get_info E pr (h ''fh''),
      \<lambda>E. mpi_file_get_position E pr (h ''fh'') (a ''offset''),
      \<lambda>E. mpi_file_get_position_shared E pr (h ''fh'') (a ''offset''),
      \<lambda>E. mpi_file_get_size E pr (h ''fh'') (a ''sz''),
      \<lambda>E. mpi_file_get_type_extent E pr large (h ''fh'') (h ''datatype'') (a ''extent''),
      \<lambda>E. mpi_file_iread E pr large (h ''fh'') (a ''buf'') (i ''cnt'') (h ''datatype''),
      \<lambda>E. mpi_file_iread_all E pr large (h ''fh'') (a ''buf'') (i ''cnt'') (h
         ''datatype''),
      \<lambda>E. mpi_file_iread_at E pr large (h ''fh'') (i ''offset'') (a ''buf'') (i ''cnt'')
         (h ''datatype''),
      \<lambda>E. mpi_file_iread_at_all E pr large (h ''fh'') (i ''offset'') (a ''buf'') (i
         ''cnt'') (h ''datatype''),
      \<lambda>E. mpi_file_iread_shared E pr large (h ''fh'') (a ''buf'') (i ''cnt'') (h
         ''datatype''),
      \<lambda>E. mpi_file_iwrite E pr large (h ''fh'') (a ''buf'') (i ''cnt'') (h ''datatype''),
      \<lambda>E. mpi_file_iwrite_all E pr large (h ''fh'') (a ''buf'') (i ''cnt'') (h
         ''datatype''),
      \<lambda>E. mpi_file_iwrite_at E pr large (h ''fh'') (i ''offset'') (a ''buf'') (i
         ''cnt'') (h ''datatype''),
      \<lambda>E. mpi_file_iwrite_at_all E pr large (h ''fh'') (i ''offset'') (a ''buf'') (i
         ''cnt'') (h ''datatype''),
      \<lambda>E. mpi_file_iwrite_shared E pr large (h ''fh'') (a ''buf'') (i ''cnt'') (h
         ''datatype''),
      \<lambda>E. mpi_file_preallocate E pr (h ''fh'') (i ''sz''),
      \<lambda>E. mpi_file_read E pr large (h ''fh'') (a ''buf'') (i ''cnt'') (h ''datatype'')
         (a ''status''),
      \<lambda>E. mpi_file_read_all E pr large (h ''fh'') (a ''buf'') (i ''cnt'') (h
         ''datatype'') (a ''status''),
      \<lambda>E. mpi_file_read_all_begin E pr large (h ''fh'') (a ''buf'') (i ''cnt'') (h
         ''datatype''),
      \<lambda>E. mpi_file_read_all_end E pr (h ''fh'') (a ''buf'') (a ''status''),
      \<lambda>E. mpi_file_read_at E pr large (h ''fh'') (i ''offset'') (a ''buf'') (i ''cnt'')
         (h ''datatype'') (a ''status''),
      \<lambda>E. mpi_file_read_at_all E pr large (h ''fh'') (i ''offset'') (a ''buf'') (i
         ''cnt'') (h ''datatype'') (a ''status''),
      \<lambda>E. mpi_file_read_at_all_begin E pr large (h ''fh'') (i ''offset'') (a ''buf'') (i
         ''cnt'') (h ''datatype''),
      \<lambda>E. mpi_file_read_at_all_end E pr (h ''fh'') (a ''buf'') (a ''status''),
      \<lambda>E. mpi_file_read_ordered E pr large (h ''fh'') (a ''buf'') (i ''cnt'') (h
         ''datatype'') (a ''status''),
      \<lambda>E. mpi_file_read_ordered_begin E pr large (h ''fh'') (a ''buf'') (i ''cnt'') (h
         ''datatype''),
      \<lambda>E. mpi_file_read_ordered_end E pr (h ''fh'') (a ''buf'') (a ''status''),
      \<lambda>E. mpi_file_read_shared E pr large (h ''fh'') (a ''buf'') (i ''cnt'') (h
         ''datatype'') (a ''status''),
      \<lambda>E. mpi_file_seek E pr (h ''fh'') (i ''offset'') (i ''whence''),
      \<lambda>E. mpi_file_seek_shared E pr (h ''fh'') (i ''offset'') (i ''whence''),
      \<lambda>E. mpi_file_set_atomicity E pr (h ''fh'') (h ''flag_v''),
      \<lambda>E. mpi_file_set_errhandler E pr (h ''file'') (h ''errhandler''),
      \<lambda>E. mpi_file_set_info E pr (h ''fh'') (h ''info''),
      \<lambda>E. mpi_file_set_size E pr (h ''fh'') (i ''sz''),
      \<lambda>E. mpi_file_sync E pr (h ''fh''),
      \<lambda>E. mpi_file_write E pr large (h ''fh'') (a ''buf'') (i ''cnt'') (h ''datatype'')
         (a ''status''),
      \<lambda>E. mpi_file_write_all E pr large (h ''fh'') (a ''buf'') (i ''cnt'') (h
         ''datatype'') (a ''status''),
      \<lambda>E. mpi_file_write_all_begin E pr large (h ''fh'') (a ''buf'') (i ''cnt'') (h
         ''datatype''),
      \<lambda>E. mpi_file_write_all_end E pr (h ''fh'') (a ''buf'') (a ''status''),
      \<lambda>E. mpi_file_write_at E pr large (h ''fh'') (i ''offset'') (a ''buf'') (i ''cnt'')
         (h ''datatype'') (a ''status''),
      \<lambda>E. mpi_file_write_at_all E pr large (h ''fh'') (i ''offset'') (a ''buf'') (i
         ''cnt'') (h ''datatype'') (a ''status''),
      \<lambda>E. mpi_file_write_at_all_begin E pr large (h ''fh'') (i ''offset'') (a ''buf'')
         (i ''cnt'') (h ''datatype''),
      \<lambda>E. mpi_file_write_at_all_end E pr (h ''fh'') (a ''buf'') (a ''status''),
      \<lambda>E. mpi_file_write_ordered E pr large (h ''fh'') (a ''buf'') (i ''cnt'') (h
         ''datatype'') (a ''status''),
      \<lambda>E. mpi_file_write_ordered_begin E pr large (h ''fh'') (a ''buf'') (i ''cnt'') (h
         ''datatype''),
      \<lambda>E. mpi_file_write_ordered_end E pr (h ''fh'') (a ''buf'') (a ''status''),
      \<lambda>E. mpi_file_write_shared E pr large (h ''fh'') (a ''buf'') (i ''cnt'') (h
         ''datatype'') (a ''status''),
      \<lambda>E. mpi_gather E pr large (a ''sendbuf'') (i ''sendcount'') (h ''sendtype'') (a
         ''recvbuf'') (i ''recvcount'') (h ''recvtype'') (h ''root'') (h ''comm''),
      \<lambda>E. mpi_gather_init E pr large (a ''sendbuf'') (i ''sendcount'') (h ''sendtype'')
         (a ''recvbuf'') (i ''recvcount'') (h ''recvtype'') (h ''root'') (h ''comm'') (h
         ''info''),
      \<lambda>E. mpi_gatherv E pr large (a ''sendbuf'') (i ''sendcount'') (h ''sendtype'') (a
         ''recvbuf'') (a ''recvcounts'') (a ''displs'') (h ''recvtype'') (h ''root'') (h
         ''comm''),
      \<lambda>E. mpi_gatherv_init E pr large (a ''sendbuf'') (i ''sendcount'') (h ''sendtype'')
         (a ''recvbuf'') (a ''recvcounts'') (a ''displs'') (h ''recvtype'') (h ''root'') (h
         ''comm'') (h ''info''),
      \<lambda>E. mpi_get E pr large (a ''origin_addr'') (i ''origin_count'') (h
         ''origin_datatype'') (i ''target_rank'') (i ''target_disp'') (i ''target_count'') (h
         ''target_datatype'') (h ''win''),
      \<lambda>E. mpi_get_accumulate E pr large (a ''origin_addr'') (i ''origin_count'') (h
         ''origin_datatype'') (a ''result_addr'') (i ''result_count'') (h ''result_datatype'')
         (i ''target_rank'') (i ''target_disp'') (i ''target_count'') (h ''target_datatype'') (h
         ''oper'') (h ''win''),
      \<lambda>E. mpi_get_count E pr large (a ''status'') (h ''datatype'') (a ''cnt''),
      \<lambda>E. mpi_get_elements E pr large (a ''status'') (h ''datatype'') (a ''cnt''),
      \<lambda>E. mpi_get_elements_x E pr (a ''status'') (h ''datatype'') (a ''cnt''),
      \<lambda>E. mpi_get_hw_resource_info E pr,
      \<lambda>E. mpi_graph_create E pr (h ''comm_old'') (i ''nnodes'') (a ''idx'') (a
         ''edges'') (h ''reorder''),
      \<lambda>E. mpi_graph_get E pr (h ''comm'') (i ''maxindex'') (i ''maxedges'') (a ''idx'')
         (a ''edges''),
      \<lambda>E. mpi_graph_map E pr (h ''comm'') (i ''nnodes'') (a ''idx'') (a ''edges'') (a
         ''newrank''),
      \<lambda>E. mpi_graph_neighbors E pr (h ''comm'') (i ''rnk'') (i ''maxneighbors'') (a
         ''neighbors''),
      \<lambda>E. mpi_graph_neighbors_count E pr (h ''comm'') (i ''rnk'') (a ''nneighbors''),
      \<lambda>E. mpi_graphdims_get E pr (h ''comm'') (a ''nnodes'') (a ''nedges''),
      \<lambda>E. mpi_grequest_complete E pr (h ''request''),
      \<lambda>E. mpi_group_compare E pr (h ''group1'') (h ''group2'') (a ''res''),
      \<lambda>E. mpi_group_difference E pr (h ''group1'') (h ''group2''),
      \<lambda>E. mpi_group_excl E pr (h ''group_p'') (i ''n'') (a ''ranks''),
      \<lambda>E. mpi_group_free E pr (h ''group_p''),
      \<lambda>E. mpi_group_incl E pr (h ''group_p'') (i ''n'') (a ''ranks''),
      \<lambda>E. mpi_group_intersection E pr (h ''group1'') (h ''group2''),
      \<lambda>E. mpi_group_range_excl E pr (h ''group_p'') (i ''n'') (a ''ranges''),
      \<lambda>E. mpi_group_range_incl E pr (h ''group_p'') (i ''n'') (a ''ranges''),
      \<lambda>E. mpi_group_rank E pr (h ''group_p'') (a ''rnk''),
      \<lambda>E. mpi_group_size E pr (h ''group_p'') (a ''sz''),
      \<lambda>E. mpi_group_translate_ranks E pr (h ''group1'') (i ''n'') (a ''ranks1'') (h
         ''group2'') (a ''ranks2''),
      \<lambda>E. mpi_group_union E pr (h ''group1'') (h ''group2''),
      \<lambda>E. mpi_iallgather E pr large (a ''sendbuf'') (i ''sendcount'') (h ''sendtype'')
         (a ''recvbuf'') (i ''recvcount'') (h ''recvtype'') (h ''comm''),
      \<lambda>E. mpi_iallgatherv E pr large (a ''sendbuf'') (i ''sendcount'') (h ''sendtype'')
         (a ''recvbuf'') (a ''recvcounts'') (a ''displs'') (h ''recvtype'') (h ''comm''),
      \<lambda>E. mpi_iallreduce E pr large (a ''sendbuf'') (a ''recvbuf'') (i ''cnt'') (h
         ''datatype'') (h ''oper'') (h ''comm''),
      \<lambda>E. mpi_ialltoall E pr large (a ''sendbuf'') (i ''sendcount'') (h ''sendtype'') (a
         ''recvbuf'') (i ''recvcount'') (h ''recvtype'') (h ''comm''),
      \<lambda>E. mpi_ialltoallv E pr large (a ''sendbuf'') (a ''sendcounts'') (a ''sdispls'')
         (h ''sendtype'') (a ''recvbuf'') (a ''recvcounts'') (a ''rdispls'') (h ''recvtype'') (h
         ''comm''),
      \<lambda>E. mpi_ibarrier E pr (h ''comm''),
      \<lambda>E. mpi_ibcast E pr large (a ''buffer'') (i ''cnt'') (h ''datatype'') (i ''root'')
         (h ''comm''),
      \<lambda>E. mpi_ibsend E pr large (a ''buf'') (i ''cnt'') (h ''datatype'') (i ''dest'') (i
         ''tag'') (h ''comm''),
      \<lambda>E. mpi_iexscan E pr large (a ''sendbuf'') (a ''recvbuf'') (i ''cnt'') (h
         ''datatype'') (h ''oper'') (h ''comm''),
      \<lambda>E. mpi_igather E pr large (a ''sendbuf'') (i ''sendcount'') (h ''sendtype'') (a
         ''recvbuf'') (i ''recvcount'') (h ''recvtype'') (h ''root'') (h ''comm''),
      \<lambda>E. mpi_igatherv E pr large (a ''sendbuf'') (i ''sendcount'') (h ''sendtype'') (a
         ''recvbuf'') (a ''recvcounts'') (a ''displs'') (h ''recvtype'') (h ''root'') (h
         ''comm''),
      \<lambda>E. mpi_improbe E pr (i ''source'') (i ''tag'') (h ''comm'') (a ''status''),
      \<lambda>E. mpi_imrecv E pr large (a ''buf'') (i ''cnt'') (h ''datatype'') (h ''message''),
      \<lambda>E. mpi_ineighbor_allgather E pr large (a ''sendbuf'') (i ''sendcount'') (h
         ''sendtype'') (a ''recvbuf'') (i ''recvcount'') (h ''recvtype'') (h ''comm''),
      \<lambda>E. mpi_ineighbor_allgatherv E pr large (a ''sendbuf'') (i ''sendcount'') (h
         ''sendtype'') (a ''recvbuf'') (a ''recvcounts'') (a ''displs'') (h ''recvtype'') (h
         ''comm''),
      \<lambda>E. mpi_ineighbor_alltoall E pr large (a ''sendbuf'') (i ''sendcount'') (h
         ''sendtype'') (a ''recvbuf'') (i ''recvcount'') (h ''recvtype'') (h ''comm''),
      \<lambda>E. mpi_ineighbor_alltoallv E pr large (a ''sendbuf'') (a ''sendcounts'') (a
         ''sdispls'') (h ''sendtype'') (a ''recvbuf'') (a ''recvcounts'') (a ''rdispls'') (h
         ''recvtype'') (h ''comm''),
      \<lambda>E. mpi_info_create E pr,
      \<lambda>E. mpi_info_create_env E pr,
      \<lambda>E. mpi_info_dup E pr (h ''info''),
      \<lambda>E. mpi_info_free E pr (h ''info''),
      \<lambda>E. mpi_info_get_nkeys E pr (h ''info'') (a ''nkeys''),
      \<lambda>E. mpi_intercomm_create E pr (h ''local_comm'') (i ''local_leader'') (h
         ''peer_comm'') (i ''remote_leader'') (i ''tag''),
      \<lambda>E. mpi_intercomm_merge E pr (h ''intercomm'') (h ''high''),
      \<lambda>E. mpi_iprobe E pr (i ''source'') (i ''tag'') (h ''comm'') (a ''status''),
      \<lambda>E. mpi_irecv E pr large (a ''buf'') (i ''cnt'') (h ''datatype'') (i ''source'')
         (i ''tag'') (h ''comm''),
      \<lambda>E. mpi_ireduce E pr large (a ''sendbuf'') (a ''recvbuf'') (i ''cnt'') (h
         ''datatype'') (h ''oper'') (i ''root'') (h ''comm''),
      \<lambda>E. mpi_ireduce_scatter E pr large (a ''sendbuf'') (a ''recvbuf'') (a
         ''recvcounts'') (h ''datatype'') (h ''oper'') (h ''comm''),
      \<lambda>E. mpi_ireduce_scatter_block E pr large (a ''sendbuf'') (a ''recvbuf'') (i
         ''recvcount'') (h ''datatype'') (h ''oper'') (h ''comm''),
      \<lambda>E. mpi_irsend E pr large (a ''buf'') (i ''cnt'') (h ''datatype'') (i ''dest'') (i
         ''tag'') (h ''comm''),
      \<lambda>E. mpi_iscan E pr large (a ''sendbuf'') (a ''recvbuf'') (i ''cnt'') (h
         ''datatype'') (h ''oper'') (h ''comm''),
      \<lambda>E. mpi_iscatter E pr large (a ''sendbuf'') (i ''sendcount'') (h ''sendtype'') (a
         ''recvbuf'') (i ''recvcount'') (h ''recvtype'') (h ''root'') (h ''comm''),
      \<lambda>E. mpi_iscatterv E pr large (a ''sendbuf'') (a ''sendcounts'') (a ''displs'') (h
         ''sendtype'') (a ''recvbuf'') (i ''recvcount'') (h ''recvtype'') (h ''root'') (h
         ''comm''),
      \<lambda>E. mpi_isend E pr large (a ''buf'') (i ''cnt'') (h ''datatype'') (i ''dest'') (i
         ''tag'') (h ''comm''),
      \<lambda>E. mpi_isendrecv E pr large (a ''sendbuf'') (i ''sendcount'') (h ''sendtype'') (i
         ''dest'') (i ''sendtag'') (a ''recvbuf'') (i ''recvcount'') (h ''recvtype'') (i
         ''source'') (i ''recvtag'') (h ''comm''),
      \<lambda>E. mpi_isendrecv_replace E pr large (a ''buf'') (i ''cnt'') (h ''datatype'') (i
         ''dest'') (i ''sendtag'') (i ''source'') (i ''recvtag'') (h ''comm''),
      \<lambda>E. mpi_issend E pr large (a ''buf'') (i ''cnt'') (h ''datatype'') (i ''dest'') (i
         ''tag'') (h ''comm''),
      \<lambda>E. mpi_mprobe E pr (i ''source'') (i ''tag'') (h ''comm'') (a ''status''),
      \<lambda>E. mpi_mrecv E pr large (a ''buf'') (i ''cnt'') (h ''datatype'') (h ''message'')
         (a ''status''),
      \<lambda>E. mpi_neighbor_allgather E pr large (a ''sendbuf'') (i ''sendcount'') (h
         ''sendtype'') (a ''recvbuf'') (i ''recvcount'') (h ''recvtype'') (h ''comm''),
      \<lambda>E. mpi_neighbor_allgather_init E pr large (a ''sendbuf'') (i ''sendcount'') (h
         ''sendtype'') (a ''recvbuf'') (i ''recvcount'') (h ''recvtype'') (h ''comm'') (h
         ''info''),
      \<lambda>E. mpi_neighbor_allgatherv E pr large (a ''sendbuf'') (i ''sendcount'') (h
         ''sendtype'') (a ''recvbuf'') (a ''recvcounts'') (a ''displs'') (h ''recvtype'') (h
         ''comm''),
      \<lambda>E. mpi_neighbor_allgatherv_init E pr large (a ''sendbuf'') (i ''sendcount'') (h
         ''sendtype'') (a ''recvbuf'') (a ''recvcounts'') (a ''displs'') (h ''recvtype'') (h
         ''comm'') (h ''info''),
      \<lambda>E. mpi_neighbor_alltoall E pr large (a ''sendbuf'') (i ''sendcount'') (h
         ''sendtype'') (a ''recvbuf'') (i ''recvcount'') (h ''recvtype'') (h ''comm''),
      \<lambda>E. mpi_neighbor_alltoall_init E pr large (a ''sendbuf'') (i ''sendcount'') (h
         ''sendtype'') (a ''recvbuf'') (i ''recvcount'') (h ''recvtype'') (h ''comm'') (h
         ''info''),
      \<lambda>E. mpi_neighbor_alltoallv E pr large (a ''sendbuf'') (a ''sendcounts'') (a
         ''sdispls'') (h ''sendtype'') (a ''recvbuf'') (a ''recvcounts'') (a ''rdispls'') (h
         ''recvtype'') (h ''comm''),
      \<lambda>E. mpi_neighbor_alltoallv_init E pr large (a ''sendbuf'') (a ''sendcounts'') (a
         ''sdispls'') (h ''sendtype'') (a ''recvbuf'') (a ''recvcounts'') (a ''rdispls'') (h
         ''recvtype'') (h ''comm'') (h ''info''),
      \<lambda>E. mpi_op_commutative E pr (h ''oper''),
      \<lambda>E. mpi_op_free E pr (h ''oper''),
      \<lambda>E. mpi_pack E pr large (a ''inbuf'') (i ''incount'') (h ''datatype'') (a
         ''outbuf'') (i ''outsize'') (a ''position'') (h ''comm''),
      \<lambda>E. mpi_pack_size E pr large (i ''incount'') (h ''datatype'') (h ''comm'') (a
         ''sz''),
      \<lambda>E. mpi_parrived E pr (h ''request'') (i ''partition_p''),
      \<lambda>E. mpi_pready E pr (i ''partition_p'') (h ''request''),
      \<lambda>E. mpi_pready_list E pr (i ''length_p'') (a ''array_of_partitions'') (h
         ''request''),
      \<lambda>E. mpi_pready_range E pr (i ''partition_low'') (i ''partition_high'') (h
         ''request''),
      \<lambda>E. mpi_precv_init E pr (a ''buf'') (i ''partitions'') (i ''cnt'') (h
         ''datatype'') (i ''source'') (i ''tag'') (h ''comm'') (h ''info''),
      \<lambda>E. mpi_probe E pr (i ''source'') (i ''tag'') (h ''comm'') (a ''status''),
      \<lambda>E. mpi_psend_init E pr (a ''buf'') (i ''partitions'') (i ''cnt'') (h
         ''datatype'') (i ''dest'') (i ''tag'') (h ''comm'') (h ''info''),
      \<lambda>E. mpi_put E pr large (a ''origin_addr'') (i ''origin_count'') (h
         ''origin_datatype'') (i ''target_rank'') (i ''target_disp'') (i ''target_count'') (h
         ''target_datatype'') (h ''win''),
      \<lambda>E. mpi_raccumulate E pr large (a ''origin_addr'') (i ''origin_count'') (h
         ''origin_datatype'') (i ''target_rank'') (i ''target_disp'') (i ''target_count'') (h
         ''target_datatype'') (h ''oper'') (h ''win''),
      \<lambda>E. mpi_recv E pr large (a ''buf'') (i ''cnt'') (h ''datatype'') (i ''source'') (i
         ''tag'') (h ''comm'') (a ''status''),
      \<lambda>E. mpi_recv_init E pr large (a ''buf'') (i ''cnt'') (h ''datatype'') (i
         ''source'') (i ''tag'') (h ''comm''),
      \<lambda>E. mpi_reduce E pr large (a ''sendbuf'') (a ''recvbuf'') (i ''cnt'') (h
         ''datatype'') (h ''oper'') (i ''root'') (h ''comm''),
      \<lambda>E. mpi_reduce_init E pr large (a ''sendbuf'') (a ''recvbuf'') (i ''cnt'') (h
         ''datatype'') (h ''oper'') (i ''root'') (h ''comm'') (h ''info''),
      \<lambda>E. mpi_reduce_local E pr large (a ''inbuf'') (a ''inoutbuf'') (i ''cnt'') (h
         ''datatype'') (h ''oper''),
      \<lambda>E. mpi_reduce_scatter E pr large (a ''sendbuf'') (a ''recvbuf'') (a
         ''recvcounts'') (h ''datatype'') (h ''oper'') (h ''comm''),
      \<lambda>E. mpi_reduce_scatter_block E pr large (a ''sendbuf'') (a ''recvbuf'') (i
         ''recvcount'') (h ''datatype'') (h ''oper'') (h ''comm''),
      \<lambda>E. mpi_reduce_scatter_block_init E pr large (a ''sendbuf'') (a ''recvbuf'') (i
         ''recvcount'') (h ''datatype'') (h ''oper'') (h ''comm'') (h ''info''),
      \<lambda>E. mpi_reduce_scatter_init E pr large (a ''sendbuf'') (a ''recvbuf'') (a
         ''recvcounts'') (h ''datatype'') (h ''oper'') (h ''comm'') (h ''info''),
      \<lambda>E. mpi_request_free E pr (h ''request''),
      \<lambda>E. mpi_request_get_status E pr (h ''request'') (a ''status''),
      \<lambda>E. mpi_rget E pr large (a ''origin_addr'') (i ''origin_count'') (h
         ''origin_datatype'') (i ''target_rank'') (i ''target_disp'') (i ''target_count'') (h
         ''target_datatype'') (h ''win''),
      \<lambda>E. mpi_rget_accumulate E pr large (a ''origin_addr'') (i ''origin_count'') (h
         ''origin_datatype'') (a ''result_addr'') (i ''result_count'') (h ''result_datatype'')
         (i ''target_rank'') (i ''target_disp'') (i ''target_count'') (h ''target_datatype'') (h
         ''oper'') (h ''win''),
      \<lambda>E. mpi_rput E pr large (a ''origin_addr'') (i ''origin_count'') (h
         ''origin_datatype'') (i ''target_rank'') (i ''target_disp'') (i ''target_count'') (h
         ''target_datatype'') (h ''win''),
      \<lambda>E. mpi_rsend E pr large (a ''buf'') (i ''cnt'') (h ''datatype'') (i ''dest'') (i
         ''tag'') (h ''comm''),
      \<lambda>E. mpi_rsend_init E pr large (a ''buf'') (i ''cnt'') (h ''datatype'') (i
         ''dest'') (i ''tag'') (h ''comm''),
      \<lambda>E. mpi_scan E pr large (a ''sendbuf'') (a ''recvbuf'') (i ''cnt'') (h
         ''datatype'') (h ''oper'') (h ''comm''),
      \<lambda>E. mpi_scan_init E pr large (a ''sendbuf'') (a ''recvbuf'') (i ''cnt'') (h
         ''datatype'') (h ''oper'') (h ''comm'') (h ''info''),
      \<lambda>E. mpi_scatter E pr large (a ''sendbuf'') (i ''sendcount'') (h ''sendtype'') (a
         ''recvbuf'') (i ''recvcount'') (h ''recvtype'') (h ''root'') (h ''comm''),
      \<lambda>E. mpi_scatter_init E pr large (a ''sendbuf'') (i ''sendcount'') (h ''sendtype'')
         (a ''recvbuf'') (i ''recvcount'') (h ''recvtype'') (h ''root'') (h ''comm'') (h
         ''info''),
      \<lambda>E. mpi_scatterv E pr large (a ''sendbuf'') (a ''sendcounts'') (a ''displs'') (h
         ''sendtype'') (a ''recvbuf'') (i ''recvcount'') (h ''recvtype'') (h ''root'') (h
         ''comm''),
      \<lambda>E. mpi_scatterv_init E pr large (a ''sendbuf'') (a ''sendcounts'') (a ''displs'')
         (h ''sendtype'') (a ''recvbuf'') (i ''recvcount'') (h ''recvtype'') (h ''root'') (h
         ''comm'') (h ''info''),
      \<lambda>E. mpi_send E pr large (a ''buf'') (i ''cnt'') (h ''datatype'') (i ''dest'') (i
         ''tag'') (h ''comm''),
      \<lambda>E. mpi_send_init E pr large (a ''buf'') (i ''cnt'') (h ''datatype'') (i ''dest'')
         (i ''tag'') (h ''comm''),
      \<lambda>E. mpi_sendrecv E pr large (a ''sendbuf'') (i ''sendcount'') (h ''sendtype'') (i
         ''dest'') (i ''sendtag'') (a ''recvbuf'') (i ''recvcount'') (h ''recvtype'') (i
         ''source'') (i ''recvtag'') (h ''comm'') (a ''status''),
      \<lambda>E. mpi_sendrecv_replace E pr large (a ''buf'') (i ''cnt'') (h ''datatype'') (i
         ''dest'') (i ''sendtag'') (i ''source'') (i ''recvtag'') (h ''comm'') (a ''status''),
      \<lambda>E. mpi_session_attach_buffer E pr large (h ''session'') (a ''buffer'') (i ''sz''),
      \<lambda>E. mpi_session_call_errhandler E pr (h ''session'') (i ''errorcode''),
      \<lambda>E. mpi_session_finalize E pr (h ''session''),
      \<lambda>E. mpi_session_flush_buffer E pr (h ''session''),
      \<lambda>E. mpi_session_get_errhandler E pr (h ''session''),
      \<lambda>E. mpi_session_get_info E pr (h ''session''),
      \<lambda>E. mpi_session_get_num_psets E pr (h ''session'') (h ''info'') (a
         ''npset_names''),
      \<lambda>E. mpi_session_iflush_buffer E pr (h ''session''),
      \<lambda>E. mpi_session_init E pr (h ''info'') (h ''errhandler''),
      \<lambda>E. mpi_session_set_errhandler E pr (h ''session'') (h ''errhandler''),
      \<lambda>E. mpi_ssend E pr large (a ''buf'') (i ''cnt'') (h ''datatype'') (i ''dest'') (i
         ''tag'') (h ''comm''),
      \<lambda>E. mpi_ssend_init E pr large (a ''buf'') (i ''cnt'') (h ''datatype'') (i
         ''dest'') (i ''tag'') (h ''comm''),
      \<lambda>E. mpi_start E pr (h ''request''),
      \<lambda>E. mpi_status_set_elements E pr large (a ''status'') (h ''datatype'') (i ''cnt''),
      \<lambda>E. mpi_status_set_elements_x E pr (a ''status'') (h ''datatype'') (i ''cnt''),
      \<lambda>E. mpi_test E pr (h ''request'') (a ''status''),
      \<lambda>E. mpi_topo_test E pr (h ''comm'') (a ''status''),
      \<lambda>E. mpi_type_commit E pr (h ''datatype''),
      \<lambda>E. mpi_type_contiguous E pr large (i ''cnt'') (h ''oldtype''),
      \<lambda>E. mpi_type_create_darray E pr large (i ''sz'') (i ''rnk'') (i ''ndims'') (a
         ''array_of_gsizes'') (a ''array_of_distribs'') (a ''array_of_dargs'') (a
         ''array_of_psizes'') (i ''order'') (h ''oldtype''),
      \<lambda>E. mpi_type_create_f90_complex E pr (i ''p'') (i ''r''),
      \<lambda>E. mpi_type_create_f90_integer E pr (i ''r''),
      \<lambda>E. mpi_type_create_f90_real E pr (i ''p'') (i ''r''),
      \<lambda>E. mpi_type_create_hindexed E pr large (i ''cnt'') (a ''array_of_blocklengths'')
         (a ''array_of_displacements'') (h ''oldtype''),
      \<lambda>E. mpi_type_create_hindexed_block E pr large (i ''cnt'') (i ''blocklength'') (a
         ''array_of_displacements'') (h ''oldtype''),
      \<lambda>E. mpi_type_create_hvector E pr large (i ''cnt'') (i ''blocklength'') (i
         ''stride'') (h ''oldtype''),
      \<lambda>E. mpi_type_create_indexed_block E pr large (i ''cnt'') (i ''blocklength'') (a
         ''array_of_displacements'') (h ''oldtype''),
      \<lambda>E. mpi_type_create_resized E pr large (h ''oldtype'') (i ''lb'') (i ''extent''),
      \<lambda>E. mpi_type_create_subarray E pr large (i ''ndims'') (a ''array_of_sizes'') (a
         ''array_of_subsizes'') (a ''array_of_starts'') (i ''order'') (h ''oldtype''),
      \<lambda>E. mpi_type_delete_attr E pr (h ''datatype'') (i ''type_keyval''),
      \<lambda>E. mpi_type_dup E pr (h ''oldtype''),
      \<lambda>E. mpi_type_free E pr (h ''datatype''),
      \<lambda>E. mpi_type_get_extent E pr large (h ''datatype'') (a ''lb'') (a ''extent''),
      \<lambda>E. mpi_type_get_extent_x E pr (h ''datatype'') (a ''lb'') (a ''extent''),
      \<lambda>E. mpi_type_get_true_extent E pr large (h ''datatype'') (a ''true_lb'') (a
         ''true_extent''),
      \<lambda>E. mpi_type_get_true_extent_x E pr (h ''datatype'') (a ''true_lb'') (a
         ''true_extent''),
      \<lambda>E. mpi_type_get_value_index E pr (h ''value_type'') (h ''index_type''),
      \<lambda>E. mpi_type_indexed E pr large (i ''cnt'') (a ''array_of_blocklengths'') (a
         ''array_of_displacements'') (h ''oldtype''),
      \<lambda>E. mpi_type_match_size E pr (i ''typeclass'') (i ''sz''),
      \<lambda>E. mpi_type_set_attr E pr (h ''datatype'') (i ''type_keyval'') (a
         ''attribute_val''),
      \<lambda>E. mpi_type_size E pr large (h ''datatype'') (a ''sz''),
      \<lambda>E. mpi_type_size_x E pr (h ''datatype'') (a ''sz''),
      \<lambda>E. mpi_type_vector E pr large (i ''cnt'') (i ''blocklength'') (i ''stride'') (h
         ''oldtype''),
      \<lambda>E. mpi_unpack E pr large (a ''inbuf'') (i ''insize'') (a ''position'') (a
         ''outbuf'') (i ''outcount'') (h ''datatype'') (h ''comm''),
      \<lambda>E. mpi_wait E pr (h ''request'') (a ''status''),
      \<lambda>E. mpi_win_allocate E pr large (i ''sz'') (i ''disp_unit'') (h ''info'') (h
         ''comm'') (a ''baseptr''),
      \<lambda>E. mpi_win_allocate_shared E pr large (i ''sz'') (i ''disp_unit'') (h ''info'')
         (h ''comm'') (a ''baseptr''),
      \<lambda>E. mpi_win_attach E pr (h ''win'') (a ''base'') (i ''sz''),
      \<lambda>E. mpi_win_call_errhandler E pr (h ''win'') (i ''errorcode''),
      \<lambda>E. mpi_win_complete E pr (h ''win''),
      \<lambda>E. mpi_win_create E pr large (a ''base'') (i ''sz'') (i ''disp_unit'') (h
         ''info'') (h ''comm''),
      \<lambda>E. mpi_win_create_dynamic E pr (h ''info'') (h ''comm''),
      \<lambda>E. mpi_win_delete_attr E pr (h ''win'') (i ''win_keyval''),
      \<lambda>E. mpi_win_detach E pr (h ''win'') (a ''base''),
      \<lambda>E. mpi_win_fence E pr (i ''assert'') (h ''win''),
      \<lambda>E. mpi_win_flush E pr (i ''rnk'') (h ''win''),
      \<lambda>E. mpi_win_flush_all E pr (h ''win''),
      \<lambda>E. mpi_win_flush_local E pr (i ''rnk'') (h ''win''),
      \<lambda>E. mpi_win_flush_local_all E pr (h ''win''),
      \<lambda>E. mpi_win_free E pr (h ''win''),
      \<lambda>E. mpi_win_get_errhandler E pr (h ''win''),
      \<lambda>E. mpi_win_get_group E pr (h ''win''),
      \<lambda>E. mpi_win_get_info E pr (h ''win''),
      \<lambda>E. mpi_win_lock E pr (i ''lock_type'') (i ''rnk'') (i ''assert'') (h ''win''),
      \<lambda>E. mpi_win_lock_all E pr (i ''assert'') (h ''win''),
      \<lambda>E. mpi_win_post E pr (h ''group_p'') (i ''assert'') (h ''win''),
      \<lambda>E. mpi_win_set_attr E pr (h ''win'') (i ''win_keyval'') (a ''attribute_val''),
      \<lambda>E. mpi_win_set_errhandler E pr (h ''win'') (h ''errhandler''),
      \<lambda>E. mpi_win_set_info E pr (h ''win'') (h ''info''),
      \<lambda>E. mpi_win_shared_query E pr large (h ''win'') (i ''rnk'') (a ''sz'') (a
         ''disp_unit'') (a ''baseptr''),
      \<lambda>E. mpi_win_start E pr (h ''group_p'') (i ''assert'') (h ''win''),
      \<lambda>E. mpi_win_sync E pr (h ''win''),
      \<lambda>E. mpi_win_test E pr (h ''win''),
      \<lambda>E. mpi_win_unlock E pr (i ''rnk'') (h ''win''),
      \<lambda>E. mpi_win_unlock_all E pr (h ''win''),
      \<lambda>E. mpi_win_wait E pr (h ''win'')]"

lemmas handle_wrapper_defs =
  mpi_abi_get_fortran_info_def mpi_abi_get_info_def mpi_abi_set_fortran_info_def
  mpi_abort_def mpi_accumulate_def mpi_allgather_def
  mpi_allgather_init_def mpi_allgatherv_def mpi_allgatherv_init_def
  mpi_alloc_mem_def mpi_allreduce_def mpi_allreduce_init_def
  mpi_alltoall_def mpi_alltoall_init_def mpi_alltoallv_def
  mpi_alltoallv_init_def mpi_attr_delete_def mpi_attr_put_def
  mpi_barrier_def mpi_barrier_init_def mpi_bcast_def
  mpi_bcast_init_def mpi_bsend_def mpi_bsend_init_def
  mpi_buffer_iflush_def mpi_cancel_def mpi_cart_coords_def
  mpi_cart_rank_def mpi_cart_shift_def mpi_cartdim_get_def
  mpi_comm_attach_buffer_def mpi_comm_call_errhandler_def mpi_comm_compare_def
  mpi_comm_create_def mpi_comm_create_group_def mpi_comm_delete_attr_def
  mpi_comm_disconnect_def mpi_comm_dup_def mpi_comm_dup_with_info_def
  mpi_comm_flush_buffer_def mpi_comm_free_def mpi_comm_get_errhandler_def
  mpi_comm_get_info_def mpi_comm_get_parent_def mpi_comm_group_def
  mpi_comm_idup_def mpi_comm_idup_with_info_def mpi_comm_iflush_buffer_def
  mpi_comm_join_def mpi_comm_rank_def mpi_comm_remote_group_def
  mpi_comm_remote_size_def mpi_comm_set_attr_def mpi_comm_set_errhandler_def
  mpi_comm_set_info_def mpi_comm_size_def mpi_comm_split_def
  mpi_comm_split_type_def mpi_comm_test_inter_def mpi_compare_and_swap_def
  mpi_dist_graph_create_def mpi_dist_graph_create_adjacent_def mpi_dist_graph_neighbors_def
  mpi_dist_graph_neighbors_count_def mpi_errhandler_free_def mpi_exscan_def
  mpi_exscan_init_def mpi_fetch_and_op_def mpi_file_call_errhandler_def
  mpi_file_close_def mpi_file_get_amode_def mpi_file_get_atomicity_def
  mpi_file_get_byte_offset_def mpi_file_get_errhandler_def mpi_file_get_group_def
  mpi_file_get_info_def mpi_file_get_position_def mpi_file_get_position_shared_def
  mpi_file_get_size_def mpi_file_get_type_extent_def mpi_file_iread_def
  mpi_file_iread_all_def mpi_file_iread_at_def mpi_file_iread_at_all_def
  mpi_file_iread_shared_def mpi_file_iwrite_def mpi_file_iwrite_all_def
  mpi_file_iwrite_at_def mpi_file_iwrite_at_all_def mpi_file_iwrite_shared_def
  mpi_file_preallocate_def mpi_file_read_def mpi_file_read_all_def
  mpi_file_read_all_begin_def mpi_file_read_all_end_def mpi_file_read_at_def
  mpi_file_read_at_all_def mpi_file_read_at_all_begin_def mpi_file_read_at_all_end_def
  mpi_file_read_ordered_def mpi_file_read_ordered_begin_def mpi_file_read_ordered_end_def
  mpi_file_read_shared_def mpi_file_seek_def mpi_file_seek_shared_def
  mpi_file_set_atomicity_def mpi_file_set_errhandler_def mpi_file_set_info_def
  mpi_file_set_size_def mpi_file_sync_def mpi_file_write_def
  mpi_file_write_all_def mpi_file_write_all_begin_def mpi_file_write_all_end_def
  mpi_file_write_at_def mpi_file_write_at_all_def mpi_file_write_at_all_begin_def
  mpi_file_write_at_all_end_def mpi_file_write_ordered_def mpi_file_write_ordered_begin_def
  mpi_file_write_ordered_end_def mpi_file_write_shared_def mpi_gather_def
  mpi_gather_init_def mpi_gatherv_def mpi_gatherv_init_def
  mpi_get_def mpi_get_accumulate_def mpi_get_count_def
  mpi_get_elements_def mpi_get_elements_x_def mpi_get_hw_resource_info_def
  mpi_graph_create_def mpi_graph_get_def mpi_graph_map_def
  mpi_graph_neighbors_def mpi_graph_neighbors_count_def mpi_graphdims_get_def
  mpi_grequest_complete_def mpi_group_compare_def mpi_group_difference_def
  mpi_group_excl_def mpi_group_free_def mpi_group_incl_def
  mpi_group_intersection_def mpi_group_range_excl_def mpi_group_range_incl_def
  mpi_group_rank_def mpi_group_size_def mpi_group_translate_ranks_def
  mpi_group_union_def mpi_iallgather_def mpi_iallgatherv_def
  mpi_iallreduce_def mpi_ialltoall_def mpi_ialltoallv_def
  mpi_ibarrier_def mpi_ibcast_def mpi_ibsend_def
  mpi_iexscan_def mpi_igather_def mpi_igatherv_def
  mpi_improbe_def mpi_imrecv_def mpi_ineighbor_allgather_def
  mpi_ineighbor_allgatherv_def mpi_ineighbor_alltoall_def mpi_ineighbor_alltoallv_def
  mpi_info_create_def mpi_info_create_env_def mpi_info_dup_def
  mpi_info_free_def mpi_info_get_nkeys_def mpi_intercomm_create_def
  mpi_intercomm_merge_def mpi_iprobe_def mpi_irecv_def
  mpi_ireduce_def mpi_ireduce_scatter_def mpi_ireduce_scatter_block_def
  mpi_irsend_def mpi_iscan_def mpi_iscatter_def
  mpi_iscatterv_def mpi_isend_def mpi_isendrecv_def
  mpi_isendrecv_replace_def mpi_issend_def mpi_mprobe_def
  mpi_mrecv_def mpi_neighbor_allgather_def mpi_neighbor_allgather_init_def
  mpi_neighbor_allgatherv_def mpi_neighbor_allgatherv_init_def mpi_neighbor_alltoall_def
  mpi_neighbor_alltoall_init_def mpi_neighbor_alltoallv_def mpi_neighbor_alltoallv_init_def
  mpi_op_commutative_def mpi_op_free_def mpi_pack_def
  mpi_pack_size_def mpi_parrived_def mpi_pready_def
  mpi_pready_list_def mpi_pready_range_def mpi_precv_init_def
  mpi_probe_def mpi_psend_init_def mpi_put_def
  mpi_raccumulate_def mpi_recv_def mpi_recv_init_def
  mpi_reduce_def mpi_reduce_init_def mpi_reduce_local_def
  mpi_reduce_scatter_def mpi_reduce_scatter_block_def mpi_reduce_scatter_block_init_def
  mpi_reduce_scatter_init_def mpi_request_free_def mpi_request_get_status_def
  mpi_rget_def mpi_rget_accumulate_def mpi_rput_def
  mpi_rsend_def mpi_rsend_init_def mpi_scan_def
  mpi_scan_init_def mpi_scatter_def mpi_scatter_init_def
  mpi_scatterv_def mpi_scatterv_init_def mpi_send_def
  mpi_send_init_def mpi_sendrecv_def mpi_sendrecv_replace_def
  mpi_session_attach_buffer_def mpi_session_call_errhandler_def mpi_session_finalize_def
  mpi_session_flush_buffer_def mpi_session_get_errhandler_def mpi_session_get_info_def
  mpi_session_get_num_psets_def mpi_session_iflush_buffer_def mpi_session_init_def
  mpi_session_set_errhandler_def mpi_ssend_def mpi_ssend_init_def
  mpi_start_def mpi_status_set_elements_def mpi_status_set_elements_x_def
  mpi_test_def mpi_topo_test_def mpi_type_commit_def
  mpi_type_contiguous_def mpi_type_create_darray_def mpi_type_create_f90_complex_def
  mpi_type_create_f90_integer_def mpi_type_create_f90_real_def mpi_type_create_hindexed_def
  mpi_type_create_hindexed_block_def mpi_type_create_hvector_def
     mpi_type_create_indexed_block_def
  mpi_type_create_resized_def mpi_type_create_subarray_def mpi_type_delete_attr_def
  mpi_type_dup_def mpi_type_free_def mpi_type_get_extent_def
  mpi_type_get_extent_x_def mpi_type_get_true_extent_def mpi_type_get_true_extent_x_def
  mpi_type_get_value_index_def mpi_type_indexed_def mpi_type_match_size_def
  mpi_type_set_attr_def mpi_type_size_def mpi_type_size_x_def
  mpi_type_vector_def mpi_unpack_def mpi_wait_def
  mpi_win_allocate_def mpi_win_allocate_shared_def mpi_win_attach_def
  mpi_win_call_errhandler_def mpi_win_complete_def mpi_win_create_def
  mpi_win_create_dynamic_def mpi_win_delete_attr_def mpi_win_detach_def
  mpi_win_fence_def mpi_win_flush_def mpi_win_flush_all_def
  mpi_win_flush_local_def mpi_win_flush_local_all_def mpi_win_free_def
  mpi_win_get_errhandler_def mpi_win_get_group_def mpi_win_get_info_def
  mpi_win_lock_def mpi_win_lock_all_def mpi_win_post_def
  mpi_win_set_attr_def mpi_win_set_errhandler_def mpi_win_set_info_def
  mpi_win_shared_query_def mpi_win_start_def mpi_win_sync_def
  mpi_win_test_def mpi_win_unlock_def mpi_win_unlock_all_def
  mpi_win_wait_def


lemma typed_null:
  assumes "typed_handles tag H"
  shows "tag (fromint H k i) = k" "tag MPI_OP_NULL = Op" "tag MPI_COMM_NULL = Comm" "tag MPI_INFO_NULL = Info"
    "tag MPI_ERRHANDLER_NULL = Errhandler" "tag MPI_REQUEST_NULL = Request" "tag MPI_DATATYPE_NULL = Type"
    "tag (null_handle k) = k" "tag 0x118 = File" "tag 0x108 = Group" "tag 0x128 = Message" "tag 0x120 = Session" "tag 0x110 = Win"
  using assms null_handle.simps unfolding typed_handles_def by metis+

text \<open>
  The function of MPI a routine calls: its own, but for the MPI-1 attribute routines, which macros at the head of
  \<open>gen/mpif_functions.c\<close> redirect.
\<close>

definition called :: "string \<Rightarrow> string" where
  "called name =
     (if name = ''Attr_delete'' then ''Comm_delete_attr''
      else if name = ''Attr_put'' then ''Comm_set_attr'' else name)"

lemma wrappers_typed:
  assumes H: "typed_handles tag H"
  shows "list_all2 (\<lambda>(name, ks) f. typed_wrapper tag H (called name) ks f) f08_handles (handle_wrappers pr large i h a)"
  unfolding f08_handles_def handle_wrappers_def list_all2_Cons list_all2_Nil prod.case handle_wrapper_defs
  by (intro conjI TrueI)
     ((rule typed_direct [OF H] | rule typed_rooted [OF H]),
       (simp add: called_def same_setting_def typed_args_def typed_null [OF H] cong: if_cong; fail)+)+

section \<open>The property\<close>

text \<open>
  C29. Handles keep their types on the way from \<open>mpi_f08\<close> to MPI. For each of these 313 routines
  the wrapper converts every handle to the type the \<open>mpi_f08\<close> interface declares for that argument, results
  and the nulls it passes at insignificant places included: it behaves the same with any two MPI libraries that
  agree on well-typed calls of this routine, whatever they do on other calls. And if MPI leaves in each variable a
  handle of its type, the wrapper finishes: no handle is converted back as something else.
\<close>

theorem handles_keep_their_types:
  assumes "typed_handles tag (handles E)"
    and "((name, ks), f) \<in> set (zip f08_handles (handle_wrappers pr large i h a))"
    and "agree_on_typed tag (called name) ks E E'"
  shows "length (handle_wrappers pr large i h a) = length f08_handles \<and> f E' w = f E w \<and>
    (keeps_types tag (called name) ks E \<longrightarrow> (\<exists>r. f E w = Inr r))"
proof -
  have all: "list_all2 (\<lambda>(name, ks) f. typed_wrapper tag (handles E) (called name) ks f) f08_handles
      (handle_wrappers pr large i h a)"
    by (rule wrappers_typed [OF assms(1)])
  with assms(2) have "typed_wrapper tag (handles E) (called name) ks f"
    by (auto simp: list_all2_iff)
  with assms(3) list_all2_lengthD [OF all] show ?thesis
    unfolding typed_wrapper_def by metis
qed

text \<open>Handles that carry the number of their kind in the upper half; the null handles of the ABI lie below.\<close>

definition kinds :: "hkind list" where
  "kinds = [Comm, Errhandler, File, Group, Info, Message, Op, Request, Session, Type, Win]"

fun kind_number :: "hkind \<Rightarrow> nat" where
  "kind_number Comm = 1"
| "kind_number Errhandler = 2"
| "kind_number File = 3"
| "kind_number Group = 4"
| "kind_number Info = 5"
| "kind_number Message = 6"
| "kind_number Op = 7"
| "kind_number Request = 8"
| "kind_number Session = 9"
| "kind_number Type = 10"
| "kind_number Win = 11"

definition kind_tag :: "handle \<Rightarrow> hkind" where
  "kind_tag h =
     (let n = unat h div 2 ^ 32
      in hd (filter (\<lambda>k. if n = 0 then null_handle k = h else kind_number k = n) kinds @ [Comm]))"

definition tagged_handles :: handle_api where
  "tagged_handles =
     \<lparr>fromint = (\<lambda>k i. of_nat (kind_number k * 2 ^ 32 + unat i)),
      toint = (\<lambda>k h. if kind_tag h = k then Some (to_fint h) else None)\<rparr>"

lemma unat_of_small: "m < 2 ^ 64 \<Longrightarrow> unat (of_nat m :: handle) = m"
  by (simp add: unsigned_of_nat take_bit_nat_eq_self)

lemma tagged_handles_typed: "typed_handles kind_tag tagged_handles"
proof -
  have "kind_tag (of_nat (kind_number k * 2 ^ 32 + unat (i :: fint))) = k" for k i
  proof -
    have "unat i < 2 ^ 32"
      using unsigned_less [of i] by simp
    moreover have "1 \<le> kind_number k" "kind_number k \<le> 11"
      by (cases k; simp)+
    ultimately have "kind_number k * 2 ^ 32 + unat i < 2 ^ 64"
      by simp
    then have "unat (of_nat (kind_number k * 2 ^ 32 + unat i) :: handle) = kind_number k * 2 ^ 32 + unat i"
      by (rule unat_of_small)
    then have "unat (of_nat (kind_number k * 2 ^ 32 + unat i) :: handle) div 2 ^ 32 = kind_number k"
      using \<open>unat i < 2 ^ 32\<close> by simp
    then show ?thesis
      unfolding kind_tag_def by (cases k) (simp_all add: kinds_def)
  qed
  moreover have "kind_tag (null_handle k) = k" for k
    by (cases k) (simp_all add: kind_tag_def kinds_def)
  ultimately show ?thesis
    by (simp add: typed_handles_def tagged_handles_def)
qed

text \<open>A library that stores nothing, and one that records a complaint when a communicator is created from anything else.\<close>

definition silent_lib :: "(string \<times> arg list) list mpi_lib" where
  "silent_lib = logging_lib \<lparr>handles := tagged_handles,
     mpi := (\<lambda>pr large name args w. (short_reply MPI_SUCCESS (initial args), w @ [(name, args)]))\<rparr>"

definition strict_lib :: "(string \<times> arg list) list mpi_lib" where
  "strict_lib = silent_lib \<lparr>
     mpi := (\<lambda>pr large name args w.
       if typed_args kind_tag [Comm, Group, Comm] args then mpi silent_lib pr large name args w
       else (short_reply MPI_ERR_OTHER (\<lambda>_. 0), w @ [(''ill-typed'', [])]))\<rparr>"

theorem handles_keep_their_types_witness:
  "mpi_comm_create strict_lib MPI 5 6 [] = mpi_comm_create silent_lib MPI 5 6 [] \<and>
   (\<exists>r. mpi_comm_create silent_lib MPI 5 6 [] = Inr r)"
proof -
  have typed: "typed_handles kind_tag (handles silent_lib)"
    by (simp add: silent_lib_def tagged_handles_typed)
  have agree: "agree_on_typed kind_tag (called ''Comm_create'') [Comm, Group, Comm] silent_lib strict_lib"
    by (simp add: called_def agree_on_typed_def strict_lib_def silent_lib_def)
  have keeps: "keeps_types kind_tag (called ''Comm_create'') [Comm, Group, Comm] silent_lib"
    by (simp add: keeps_types_def silent_lib_def)
  have mem: "((''Comm_create'', [Comm, Group, Comm]), \<lambda>E. mpi_comm_create E MPI 5 6)
      \<in> set (zip f08_handles (handle_wrappers MPI False (\<lambda>_. 0) (\<lambda>x. if x = ''comm'' then 5 else 6) (\<lambda>_. 0)))"
    by (simp add: f08_handles_def handle_wrappers_def)
  show ?thesis
    using handles_keep_their_types [OF typed mem agree] keeps by blast
qed

end
