(* ===== verification/Mpi_Strings.thy ===== *)
theory Mpi_Strings
  imports Mpi_Calls
begin

text \<open>
  What the generated wrappers with character arguments share: C copies of Fortran strings on the
  heap, local arrays MPI writes strings into, and the call between the copying and the freeing.
  The state is the heap beside the world of MPI.
\<close>

section \<open>Strings MPI reads\<close>

text \<open>MPI follows the pointers while it runs. An array of strings is an object of the heap.\<close>

fun load_cstrings :: "ptr list \<Rightarrow> 'x heap \<Rightarrow> fault + byte list list" where
  "load_cstrings [] h = Inr []"
| "load_cstrings (p # ps) h =
     bindE (load_cstring p h) (\<lambda>s. bindE (load_cstrings ps h) (\<lambda>ss. Inr (s # ss)))"

text \<open>The pointers of an array before the null pointer that ends it.\<close>

fun until_null :: "ptr option list \<Rightarrow> fault + ptr list" where
  "until_null [] = Inl Bad_read"
| "until_null (None # ps) = Inr []"
| "until_null (Some p # ps) = bindE (until_null ps) (\<lambda>qs. Inr (p # qs))"

lemma until_null_ended [simp]: "until_null (map Some ps @ [None]) = Inr ps"
  by (induction ps) simp_all

definition load_argv :: "ptr \<Rightarrow> ptr option list heap \<Rightarrow> fault + byte list list" where
  "load_argv p h = bindE (load_obj p h) (\<lambda>ps. bindE (until_null ps) (\<lambda>qs. load_cstrings qs h))"

fun load_argvs :: "ptr option list \<Rightarrow> ptr option list heap \<Rightarrow> fault + byte list list option list" where
  "load_argvs [] h = Inr []"
| "load_argvs (None # ps) h = bindE (load_argvs ps h) (\<lambda>ss. Inr (None # ss))"
| "load_argvs (Some p # ps) h =
     bindE (load_argv p h) (\<lambda>s. bindE (load_argvs ps h) (\<lambda>ss. Inr (Some s # ss)))"

fun fetch :: "ptr option list heap \<Rightarrow> arg \<Rightarrow> fault + arg" where
  "fetch h (Ptr None) = Inr (Buf null)"
| "fetch h (Ptr (Some p)) = bindE (load_cstring p h) (\<lambda>s. Inr (Chars s))"
| "fetch h (Ptrs ps) = bindE (until_null ps) (\<lambda>qs. bindE (load_cstrings qs h) (\<lambda>ss. Inr (Argv ss)))"
| "fetch h (Ptrss ps) = bindE (load_argvs ps h) (\<lambda>ss. Inr (Argvs ss))"
| "fetch h a = Inr a"

fun fetch_all :: "ptr option list heap \<Rightarrow> arg list \<Rightarrow> fault + arg list" where
  "fetch_all h [] = Inr []"
| "fetch_all h (a # as) = bindE (fetch h a) (\<lambda>b. bindE (fetch_all h as) (\<lambda>bs. Inr (b # bs)))"

fun free_all :: "ptr option list \<Rightarrow> 'x heap \<Rightarrow> fault + 'x heap" where
  "free_all [] h = Inr h"
| "free_all (p # ps) h = bindE (free_block p h) (free_all ps)"

text \<open>The call, the freeing of the copies in the given order, and what is handed back.\<close>

definition text_call ::
    "('w, 'z) mpi_lib_scheme \<Rightarrow> profile \<Rightarrow> bool \<Rightarrow> string \<Rightarrow> arg list \<Rightarrow> ptr option list \<Rightarrow>
     (reply \<Rightarrow> fault + 'o) \<Rightarrow> ptr option list heap \<times> 'w \<Rightarrow> fault + 'o \<times> ptr option list heap \<times> 'w" where
  "text_call E pr large name args frees back = (\<lambda>(h, w).
     bindE (fetch_all h args) (\<lambda>args.
       (let (r, w) = mpi E pr large name args w
        in bindE (free_all frees h) (\<lambda>h. bindE (back r) (\<lambda>res. Inr (res, h, w))))))"

section \<open>Strings MPI writes\<close>

text \<open>The sizes of \<open>mpi.h\<close>; Fortran's constants of these names are one less.\<close>

abbreviation MPI_MAX_OBJECT_NAME :: nat where "MPI_MAX_OBJECT_NAME \<equiv> 128"
abbreviation MPI_MAX_PORT_NAME :: nat where "MPI_MAX_PORT_NAME \<equiv> 1024"
abbreviation MPI_MAX_ERROR_STRING :: nat where "MPI_MAX_ERROR_STRING \<equiv> 512"
abbreviation MPI_MAX_LIBRARY_VERSION_STRING :: nat where "MPI_MAX_LIBRARY_VERSION_STRING \<equiv> 8192"
abbreviation MPI_MAX_PROCESSOR_NAME :: nat where "MPI_MAX_PROCESSOR_NAME \<equiv> 256"

text \<open>
  \<open>char c_x[buflen_x + 2]; c_x[0] = '\0'; c_x[buflen_x + 1] = '\0';\<close> with the sum in \<open>size_t\<close>.
  No object is larger than half the address space; the first index must be in the array, and
  then the second is, as both sums wrap alike or not at all.
\<close>

definition local_chars :: "64 word \<Rightarrow> fault + byte option list" where
  "local_chars buflen =
     (if 2 ^ 63 \<le> uint (buflen + 2) then Inl Overflow
      else if buflen + 2 = 0 then Inl Bad_write
      else Inr ((replicate (unat (buflen + 2)) None)[0 := Some 0, unat (buflen + 1) := Some 0]))"

text \<open>What MPI leaves in the array: the characters it wrote at its start.\<close>

definition filled :: "byte list \<Rightarrow> byte option list \<Rightarrow> fault + byte option list" where
  "filled bs c = (if length bs \<le> length c then Inr (map Some bs @ drop (length bs) c) else Inl Bad_write)"

text \<open>\<open>mpif_strcpy_c2f(x, c_x, length_x, strlen(c_x));\<close>\<close>

definition copy_out :: "reply \<Rightarrow> string \<Rightarrow> byte option list \<Rightarrow> region \<Rightarrow> nat \<Rightarrow> fault + region" where
  "copy_out r x c_x dest length_x =
     bindE (filled (chars r x) c_x) (\<lambda>c. bindE (cstring_of c) (\<lambda>s.
       mpif_strcpy_c2f dest (s @ [0]) length_x (length s)))"

text \<open>The statements after the call that convert back, in their order.\<close>

record text_outcome = outcome +
  texts :: "region list"

datatype text_export =
    Plain exported
  | Copied string "byte option list" region nat

fun text_back :: "('w, 'z) mpi_lib_scheme \<Rightarrow> text_export list \<Rightarrow> reply \<Rightarrow> fault + text_outcome" where
  "text_back E [] r = Inr \<lparr>ierror = rc r, out = [], texts = []\<rparr>"
| "text_back E (Plain b # bs) r =
     bindE (convert_one E r b) (\<lambda>i. bindE (text_back E bs r) (\<lambda>res. Inr (res\<lparr>out := i # out res\<rparr>)))"
| "text_back E (Copied x c_x dest length_x # bs) r =
     bindE (copy_out r x c_x dest length_x) (\<lambda>t.
       bindE (text_back E bs r) (\<lambda>res. Inr (res\<lparr>texts := t # texts res\<rparr>)))"

section \<open>Copying, calling, freeing\<close>

definition cstr :: "byte list \<Rightarrow> byte list" where
  "cstr s = takeWhile (\<lambda>c. c \<noteq> 0) s"

lemma cstring_of_cstr: "cstring_of (map Some s @ Some 0 # rest) = Inr (cstr s)"
  by (induction s) (auto simp: cstr_def)

text \<open>The strings in the arguments of a call.\<close>

fun strings_of :: "arg \<Rightarrow> byte list list" where
  "strings_of (Chars s) = [s]"
| "strings_of (Argv ss) = ss"
| "strings_of (Argvs rows) = concat (map (\<lambda>r. case r of None \<Rightarrow> [] | Some ss \<Rightarrow> ss) rows)"
| "strings_of _ = []"

definition roomy :: "'x heap \<Rightarrow> bool" where
  "roomy h \<longleftrightarrow> heap_wf h \<and> (\<forall>n. \<not> oom h n)"

text \<open>
  From the world \<open>w\<close>, \<open>f\<close> makes the call \<open>name\<close> with the strings \<open>ss\<close>, returns MPI's error code and
  leaves the heap's blocks as they were. If converting back a handle faults, that is all that can.
\<close>

definition passes_strings ::
    "('w, 'z) mpi_lib_scheme \<Rightarrow> profile \<Rightarrow> string \<Rightarrow> byte list list \<Rightarrow>
     (ptr option list heap \<times> 'w \<Rightarrow> fault + 'y outcome_scheme \<times> ptr option list heap \<times> 'w) \<Rightarrow>
     ptr option list heap \<Rightarrow> 'w \<Rightarrow> bool" where
  "passes_strings E pr name ss f h w \<longleftrightarrow>
     (\<exists>large args r w'. mpi E pr large name args w = (r, w') \<and> concat (map strings_of args) = ss \<and>
        (case f (h, w) of
           Inl e \<Rightarrow> e = Invalid_handle
         | Inr (res, h', w'') \<Rightarrow> live h' = live h \<and> w'' = w' \<and> ierror res = rc r))"

lemma convert_one_faults: "convert_one E r b = Inl e \<Longrightarrow> e = Invalid_handle"
  by (cases b) (auto simp: toint_checked_def split: option.splits)

lemma text_back_plain:
  "case text_back E (map Plain bs) r of Inl e \<Rightarrow> e = Invalid_handle | Inr res \<Rightarrow> ierror res = rc r"
proof (induction bs)
  case Nil
  then show ?case by simp
next
  case (Cons b bs)
  then show ?case
    by (cases "convert_one E r b"; cases "text_back E (map Plain bs) r") (auto dest: convert_one_faults)
qed

lemma passes_one:
  assumes "f = (\<lambda>(h, w). bindE (dup h) (\<lambda>(p, h). text_call E pr large name (args p) [Some p]
      (text_back E (map Plain bs)) (h, w)))"
    and "dup h = dup_result t h" and "roomy h"
    and "\<And>p h. load_cstring p h = Inr (cstr t) \<Longrightarrow>
      \<exists>as. fetch_all h (args p) = Inr as \<and> concat (map strings_of as) = [cstr t]"
  shows "passes_strings E pr name [cstr t] f h w"
proof -
  let ?h = "with_cstring t h"
  have fresh: "live h (nallocs h) = None" and ok: "\<not> oom h (nallocs h)"
    using assms(3) by (simp_all add: roomy_def heap_wf_fresh)
  have "load_cstring (nallocs h) ?h = Inr (cstr t)"
    by (simp add: load_cstring_def with_cstring_def cstring_of_cstr)
  then obtain as where as: "fetch_all ?h (args (nallocs h)) = Inr as" "concat (map strings_of as) = [cstr t]"
    using assms(4) by blast
  obtain r w' where m: "mpi E pr large name as w = (r, w')" by (metis surj_pair)
  have free: "free_all [Some (nallocs h)] ?h = Inr (h\<lparr>nallocs := Suc (nallocs h)\<rparr>)"
    using fresh by (simp add: free_block_def with_cstring_def fun_upd_idem)
  have "f (h, w) = bindE (text_back E (map Plain bs) r)
      (\<lambda>res. Inr (res, h\<lparr>nallocs := Suc (nallocs h)\<rparr>, w'))"
    using ok as(1) m free by (simp add: assms(1,2) dup_result_def text_call_def del: free_all.simps)
  then show ?thesis
    unfolding passes_strings_def using m as(2) text_back_plain [where E = E and bs = bs and r = r]
    by (intro exI [of _ large] exI [of _ as] exI [of _ r] exI [of _ w'])
      (cases "text_back E (map Plain bs) r", simp_all)
qed

lemma passes_two:
  assumes "f = (\<lambda>(h, w). bindE (dup h) (\<lambda>(p, h). bindE (dup' h) (\<lambda>(q, h).
      text_call E pr large name (args p q) [Some p, Some q] (text_back E (map Plain bs)) (h, w))))"
    and "\<And>h. dup h = dup_result t h" and "\<And>h. dup' h = dup_result u h" and "roomy h"
    and "\<And>p q h. load_cstring p h = Inr (cstr t) \<Longrightarrow> load_cstring q h = Inr (cstr u) \<Longrightarrow>
      \<exists>as. fetch_all h (args p q) = Inr as \<and> concat (map strings_of as) = [cstr t, cstr u]"
  shows "passes_strings E pr name [cstr t, cstr u] f h w"
proof -
  let ?h = "with_cstring u (with_cstring t h)" and ?p = "nallocs h" and ?q = "Suc (nallocs h)"
  have ok: "\<not> oom h n" for n using assms(4) by (simp add: roomy_def)
  have "n \<notin> dom (live h)" if "nallocs h \<le> n" for n
    using assms(4) that unfolding roomy_def heap_wf_def by (metis leD)
  then have fresh: "live h ?p = None" "live h ?q = None" by (simp_all add: domIff)
  have "load_cstring ?p ?h = Inr (cstr t)" "load_cstring ?q ?h = Inr (cstr u)"
    by (simp_all add: load_cstring_def with_cstring_def cstring_of_cstr)
  then obtain as where as: "fetch_all ?h (args ?p ?q) = Inr as" "concat (map strings_of as) = [cstr t, cstr u]"
    using assms(5) by blast
  obtain r w' where m: "mpi E pr large name as w = (r, w')" by (metis surj_pair)
  have free: "free_all [Some ?p, Some ?q] ?h = Inr (h\<lparr>nallocs := Suc (Suc (nallocs h))\<rparr>)"
    using fresh by (simp add: free_block_def with_cstring_def fun_upd_idem fun_upd_twist)
  have "dup h = Inr (?p, with_cstring t h)" "dup' (with_cstring t h) = Inr (?q, ?h)"
    using ok by (simp_all add: assms(2,3) dup_result_def) (simp_all add: with_cstring_def)
  then have "f (h, w) = bindE (text_back E (map Plain bs) r)
      (\<lambda>res. Inr (res, h\<lparr>nallocs := Suc (Suc (nallocs h))\<rparr>, w'))"
    using as(1) m free by (simp add: assms(1) text_call_def del: free_all.simps)
  then show ?thesis
    unfolding passes_strings_def using m as(2) text_back_plain [where E = E and bs = bs and r = r]
    by (intro exI [of _ large] exI [of _ as] exI [of _ r] exI [of _ w'])
      (cases "text_back E (map Plain bs) r", simp_all)
qed

lemmas passes_rules =
  passes_one [where bs = "[]", unfolded list.map]
  passes_one [where bs = "[b]" for b, unfolded list.map]
  passes_two [where bs = "[]", unfolded list.map]

section \<open>Arrays for MPI to write into\<close>

lemma local_chars_ok:
  assumes "n + 2 < 2 ^ 63"
  shows "local_chars (of_nat n) = Inr ((replicate (n + 2) None)[0 := Some 0, n + 1 := Some 0])"
proof -
  have sum: "of_nat n + 2 = (of_nat (n + 2) :: 64 word)" "of_nat n + 1 = (of_nat (n + 1) :: 64 word)"
    by simp_all
  have "unat (of_nat (n + 2) :: 64 word) = n + 2" "unat (of_nat (n + 1) :: 64 word) = n + 1"
    using assms by (simp_all only: unat_of_nat) simp_all
  moreover from this(1) have "uint (of_nat (n + 2) :: 64 word) = int (n + 2)" "(of_nat (n + 2) :: 64 word) \<noteq> 0"
    by (metis uint_nat) (metis \<open>unat (of_nat (n + 2)) = n + 2\<close> unat_0 add_is_0 zero_neq_numeral)
  ultimately show ?thesis
    using assms unfolding local_chars_def sum by simp
qed

lemma copy_out_ok:
  assumes "chars r x = s @ [0]" and "0 \<notin> set s" and "length s < length c" and "n \<le> length dest"
  shows "copy_out r x c dest n = Inr (pad n s @ drop n dest)"
proof -
  have "filled (chars r x) c = Inr (map Some s @ Some 0 # drop (Suc (length s)) c)"
    using assms(1,3) by (simp add: filled_def)
  then show ?thesis
    using assms(2,4) by (simp add: copy_out_def cstring_of_terminated strcpy_c2f_spec)
qed

lemma copy_out_overrun:
  assumes "length c < length (chars r x)"
  shows "copy_out r x c dest n = Inl Bad_write"
  using assms by (simp add: copy_out_def filled_def)

end
