(* ===== verification/Wrappers_Strings.thy ===== *)
theory Wrappers_Strings
  imports Mpi_Strings
begin

text \<open>
  The wrappers of \<open>gen/mpif_functions.c\<close> with character arguments: names, keys and values of infos,
  ports and services, files and data representations. A Fortran string is the bytes from its start and
  the hidden length the compiler passes at the end of the argument list.
\<close>

section \<open>The wrappers\<close>

definition mpi_add_error_string where
  "mpi_add_error_string E pr errorcode str length_str = (\<lambda>(h, w).
     bindE (mpif_strdup_f2c str 0 length_str h) (\<lambda>(c_str, h).
       text_call E pr False ''Add_error_string''
         [Val errorcode, Ptr (Some c_str)]
         [Some c_str] (text_back E []) (h, w)))"

definition mpi_close_port where
  "mpi_close_port E pr port_name length_port_name = (\<lambda>(h, w).
     bindE (mpif_strdup_f2c port_name 0 length_port_name h) (\<lambda>(c_port_name, h).
       text_call E pr False ''Close_port''
         [Ptr (Some c_port_name)]
         [Some c_port_name] (text_back E []) (h, w)))"

definition mpi_comm_create_from_group where
  "mpi_comm_create_from_group E pr group_p stringtag info errhandler length_stringtag =
    (\<lambda>(h, w).
     bindE (mpif_strdup_f2c stringtag 0 length_stringtag h) (\<lambda>(c_stringtag, h).
       text_call E pr False ''Comm_create_from_group''
         [Hdl (of_int_handle E Group group_p), Ptr (Some c_stringtag),
          Hdl (of_int_handle E Info info), Hdl (of_int_handle E Errhandler errhandler),
          Temp ''newcomm'' MPI_COMM_NULL]
         [Some c_stringtag] (text_back E [Plain (Handle Comm ''newcomm'')]) (h, w)))"

definition mpi_comm_get_name where
  "mpi_comm_get_name E pr comm comm_name resultlen = (\<lambda>(h, w).
     bindE (local_chars (of_nat MPI_MAX_OBJECT_NAME)) (\<lambda>c_comm_name.
       text_call E pr False ''Comm_get_name''
         [Hdl (of_int_handle E Comm comm), Room ''comm_name'' c_comm_name, Buf resultlen]
         [] (text_back E [Copied ''comm_name'' c_comm_name comm_name (MPI_MAX_OBJECT_NAME - 1)]) (h, w)))"

definition mpi_comm_set_name where
  "mpi_comm_set_name E pr comm comm_name length_comm_name = (\<lambda>(h, w).
     bindE (mpif_strdup_f2c comm_name 0 length_comm_name h) (\<lambda>(c_comm_name, h).
       text_call E pr False ''Comm_set_name''
         [Hdl (of_int_handle E Comm comm), Ptr (Some c_comm_name)]
         [Some c_comm_name] (text_back E []) (h, w)))"

definition mpi_error_string where
  "mpi_error_string E pr errorcode str resultlen = (\<lambda>(h, w).
     bindE (local_chars (of_nat MPI_MAX_ERROR_STRING)) (\<lambda>c_str.
       text_call E pr False ''Error_string''
         [Val errorcode, Room ''string'' c_str, Buf resultlen]
         [] (text_back E [Copied ''string'' c_str str (MPI_MAX_ERROR_STRING - 1)]) (h, w)))"

definition mpi_file_delete where
  "mpi_file_delete E pr filename info length_filename = (\<lambda>(h, w).
     bindE (mpif_strdup_f2c filename 0 length_filename h) (\<lambda>(c_filename, h).
       text_call E pr False ''File_delete''
         [Ptr (Some c_filename), Hdl (of_int_handle E Info info)]
         [Some c_filename] (text_back E []) (h, w)))"

definition mpi_file_get_view where
  "mpi_file_get_view E pr fh disp datarep length_datarep = (\<lambda>(h, w).
     bindE (local_chars (of_nat length_datarep)) (\<lambda>c_datarep.
       text_call E pr False ''File_get_view''
         [Hdl (of_int_handle E File fh), Buf disp, Temp ''etype'' MPI_DATATYPE_NULL,
          Temp ''filetype'' MPI_DATATYPE_NULL, Room ''datarep'' c_datarep]
         []
         (text_back E
           [Plain (Handle Type ''etype''), Plain (Handle Type ''filetype''),
            Copied ''datarep'' c_datarep datarep length_datarep]) (h, w)))"

definition mpi_file_open where
  "mpi_file_open E pr comm filename amode info length_filename = (\<lambda>(h, w).
     bindE (mpif_strdup_f2c filename 0 length_filename h) (\<lambda>(c_filename, h).
       text_call E pr False ''File_open''
         [Hdl (of_int_handle E Comm comm), Ptr (Some c_filename), Val amode,
          Hdl (of_int_handle E Info info), Temp ''fh'' (null_handle File)]
         [Some c_filename] (text_back E [Plain (Handle File ''fh'')]) (h, w)))"

definition mpi_file_set_view where
  "mpi_file_set_view E pr fh disp etype filetype datarep info length_datarep = (\<lambda>(h, w).
     bindE (mpif_strdup_f2c datarep 0 length_datarep h) (\<lambda>(c_datarep, h).
       text_call E pr False ''File_set_view''
         [Hdl (of_int_handle E File fh), Val disp, Hdl (of_int_handle E Type etype),
          Hdl (of_int_handle E Type filetype), Ptr (Some c_datarep),
          Hdl (of_int_handle E Info info)]
         [Some c_datarep] (text_back E []) (h, w)))"

definition mpi_get_library_version where
  "mpi_get_library_version E pr vers resultlen = (\<lambda>(h, w).
     bindE (local_chars (of_nat MPI_MAX_LIBRARY_VERSION_STRING)) (\<lambda>c_vers.
       text_call E pr False ''Get_library_version''
         [Room ''version'' c_vers, Buf resultlen]
         [] (text_back E [Copied ''version'' c_vers vers (MPI_MAX_LIBRARY_VERSION_STRING - 1)]) (h, w)))"

definition mpi_get_processor_name where
  "mpi_get_processor_name E pr nam resultlen = (\<lambda>(h, w).
     bindE (local_chars (of_nat MPI_MAX_PROCESSOR_NAME)) (\<lambda>c_nam.
       text_call E pr False ''Get_processor_name''
         [Room ''name'' c_nam, Buf resultlen]
         [] (text_back E [Copied ''name'' c_nam nam (MPI_MAX_PROCESSOR_NAME - 1)]) (h, w)))"

definition mpi_group_from_session_pset where
  "mpi_group_from_session_pset E pr session pset_name length_pset_name = (\<lambda>(h, w).
     bindE (mpif_strdup_f2c pset_name 0 length_pset_name h) (\<lambda>(c_pset_name, h).
       text_call E pr False ''Group_from_session_pset''
         [Hdl (of_int_handle E Session session), Ptr (Some c_pset_name),
          Temp ''newgroup'' (null_handle Group)]
         [Some c_pset_name] (text_back E [Plain (Handle Group ''newgroup'')]) (h, w)))"

definition mpi_info_delete where
  "mpi_info_delete E pr info key length_key = (\<lambda>(h, w).
     bindE (mpif_strdup_f2c_trim key 0 length_key h) (\<lambda>(c_key, h).
       text_call E pr False ''Info_delete''
         [Hdl (of_int_handle E Info info), Ptr (Some c_key)]
         [Some c_key] (text_back E []) (h, w)))"

definition mpi_info_get_nthkey where
  "mpi_info_get_nthkey E pr info n key length_key = (\<lambda>(h, w).
     bindE (local_chars (of_nat length_key)) (\<lambda>c_key.
       text_call E pr False ''Info_get_nthkey''
         [Hdl (of_int_handle E Info info), Val n, Room ''key'' c_key]
         [] (text_back E [Copied ''key'' c_key key length_key]) (h, w)))"

definition mpi_info_get_valuelen where
  "mpi_info_get_valuelen E pr info key valuelen length_key = (\<lambda>(h, w).
     bindE (mpif_strdup_f2c_trim key 0 length_key h) (\<lambda>(c_key, h).
       text_call E pr False ''Info_get_valuelen''
         [Hdl (of_int_handle E Info info), Ptr (Some c_key), Buf valuelen, Flag ''flag'' 0]
         [Some c_key] (text_back E [Plain (Logical ''flag'')]) (h, w)))"

definition mpi_info_set where
  "mpi_info_set E pr info key val length_key length_val = (\<lambda>(h, w).
     bindE (mpif_strdup_f2c_trim key 0 length_key h) (\<lambda>(c_key, h).
     bindE (mpif_strdup_f2c_trim val 0 length_val h) (\<lambda>(c_val, h).
       text_call E pr False ''Info_set''
         [Hdl (of_int_handle E Info info), Ptr (Some c_key), Ptr (Some c_val)]
         [Some c_key, Some c_val] (text_back E []) (h, w))))"

definition mpi_intercomm_create_from_groups where
  "mpi_intercomm_create_from_groups E pr local_group local_leader remote_group remote_leader
    stringtag info errhandler length_stringtag = (\<lambda>(h, w).
     bindE (mpif_strdup_f2c stringtag 0 length_stringtag h) (\<lambda>(c_stringtag, h).
       text_call E pr False ''Intercomm_create_from_groups''
         [Hdl (of_int_handle E Group local_group), Val local_leader,
          Hdl (of_int_handle E Group remote_group), Val remote_leader, Ptr (Some c_stringtag),
          Hdl (of_int_handle E Info info), Hdl (of_int_handle E Errhandler errhandler),
          Temp ''newintercomm'' MPI_COMM_NULL]
         [Some c_stringtag] (text_back E [Plain (Handle Comm ''newintercomm'')]) (h, w)))"

definition mpi_lookup_name where
  "mpi_lookup_name E pr service_name info port_name length_service_name = (\<lambda>(h, w).
     bindE (mpif_strdup_f2c service_name 0 length_service_name h) (\<lambda>(c_service_name, h).
     bindE (local_chars (of_nat MPI_MAX_PORT_NAME)) (\<lambda>c_port_name.
       text_call E pr False ''Lookup_name''
         [Ptr (Some c_service_name), Hdl (of_int_handle E Info info),
          Room ''port_name'' c_port_name]
         [Some c_service_name]
         (text_back E
           [Copied ''port_name'' c_port_name port_name (MPI_MAX_PORT_NAME - 1)]) (h, w))))"

definition mpi_open_port where
  "mpi_open_port E pr info port_name = (\<lambda>(h, w).
     bindE (local_chars (of_nat MPI_MAX_PORT_NAME)) (\<lambda>c_port_name.
       text_call E pr False ''Open_port''
         [Hdl (of_int_handle E Info info), Room ''port_name'' c_port_name]
         [] (text_back E [Copied ''port_name'' c_port_name port_name (MPI_MAX_PORT_NAME - 1)]) (h, w)))"

definition mpi_pack_external where
  "mpi_pack_external E pr large datarep inbuf incount datatype outbuf outsize position
    length_datarep = (\<lambda>(h, w).
     bindE (mpif_strdup_f2c datarep 0 length_datarep h) (\<lambda>(c_datarep, h).
       text_call E pr large ''Pack_external''
         [Ptr (Some c_datarep), Buf (mpif_c_cbuffer (place E) inbuf), Val incount,
          Hdl (of_int_handle E Type datatype), Buf (mpif_c_buffer (place E) outbuf),
          Val outsize, Buf position]
         [Some c_datarep] (text_back E []) (h, w)))"

definition mpi_pack_external_size where
  "mpi_pack_external_size E pr large datarep incount datatype sz length_datarep =
    (\<lambda>(h, w).
     bindE (mpif_strdup_f2c datarep 0 length_datarep h) (\<lambda>(c_datarep, h).
       text_call E pr large ''Pack_external_size''
         [Ptr (Some c_datarep), Val incount, Hdl (of_int_handle E Type datatype), Buf sz]
         [Some c_datarep] (text_back E []) (h, w)))"

definition mpi_publish_name where
  "mpi_publish_name E pr service_name info port_name length_service_name length_port_name =
    (\<lambda>(h, w).
     bindE (mpif_strdup_f2c service_name 0 length_service_name h) (\<lambda>(c_service_name, h).
     bindE (mpif_strdup_f2c port_name 0 length_port_name h) (\<lambda>(c_port_name, h).
       text_call E pr False ''Publish_name''
         [Ptr (Some c_service_name), Hdl (of_int_handle E Info info), Ptr (Some c_port_name)]
         [Some c_service_name, Some c_port_name] (text_back E []) (h, w))))"

definition mpi_session_get_pset_info where
  "mpi_session_get_pset_info E pr session pset_name length_pset_name = (\<lambda>(h, w).
     bindE (mpif_strdup_f2c pset_name 0 length_pset_name h) (\<lambda>(c_pset_name, h).
       text_call E pr False ''Session_get_pset_info''
         [Hdl (of_int_handle E Session session), Ptr (Some c_pset_name),
          Temp ''info'' MPI_INFO_NULL]
         [Some c_pset_name] (text_back E [Plain (Handle Info ''info'')]) (h, w)))"

definition mpi_type_get_name where
  "mpi_type_get_name E pr datatype type_name resultlen = (\<lambda>(h, w).
     bindE (local_chars (of_nat MPI_MAX_OBJECT_NAME)) (\<lambda>c_type_name.
       text_call E pr False ''Type_get_name''
         [Hdl (of_int_handle E Type datatype), Room ''type_name'' c_type_name, Buf resultlen]
         [] (text_back E [Copied ''type_name'' c_type_name type_name (MPI_MAX_OBJECT_NAME - 1)]) (h, w)))"

definition mpi_type_set_name where
  "mpi_type_set_name E pr datatype type_name length_type_name = (\<lambda>(h, w).
     bindE (mpif_strdup_f2c type_name 0 length_type_name h) (\<lambda>(c_type_name, h).
       text_call E pr False ''Type_set_name''
         [Hdl (of_int_handle E Type datatype), Ptr (Some c_type_name)]
         [Some c_type_name] (text_back E []) (h, w)))"

definition mpi_unpack_external where
  "mpi_unpack_external E pr large datarep inbuf insize position outbuf outcount datatype
    length_datarep = (\<lambda>(h, w).
     bindE (mpif_strdup_f2c datarep 0 length_datarep h) (\<lambda>(c_datarep, h).
       text_call E pr large ''Unpack_external''
         [Ptr (Some c_datarep), Buf (mpif_c_cbuffer (place E) inbuf), Val insize, Buf position,
          Buf (mpif_c_buffer (place E) outbuf), Val outcount,
          Hdl (of_int_handle E Type datatype)]
         [Some c_datarep] (text_back E []) (h, w)))"

definition mpi_unpublish_name where
  "mpi_unpublish_name E pr service_name info port_name length_service_name length_port_name =
    (\<lambda>(h, w).
     bindE (mpif_strdup_f2c service_name 0 length_service_name h) (\<lambda>(c_service_name, h).
     bindE (mpif_strdup_f2c port_name 0 length_port_name h) (\<lambda>(c_port_name, h).
       text_call E pr False ''Unpublish_name''
         [Ptr (Some c_service_name), Hdl (of_int_handle E Info info), Ptr (Some c_port_name)]
         [Some c_service_name, Some c_port_name] (text_back E []) (h, w))))"

definition mpi_win_get_name where
  "mpi_win_get_name E pr win win_name resultlen = (\<lambda>(h, w).
     bindE (local_chars (of_nat MPI_MAX_OBJECT_NAME)) (\<lambda>c_win_name.
       text_call E pr False ''Win_get_name''
         [Hdl (of_int_handle E Win win), Room ''win_name'' c_win_name, Buf resultlen]
         [] (text_back E [Copied ''win_name'' c_win_name win_name (MPI_MAX_OBJECT_NAME - 1)]) (h, w)))"

definition mpi_win_set_name where
  "mpi_win_set_name E pr win win_name length_win_name = (\<lambda>(h, w).
     bindE (mpif_strdup_f2c win_name 0 length_win_name h) (\<lambda>(c_win_name, h).
       text_call E pr False ''Win_set_name''
         [Hdl (of_int_handle E Win win), Ptr (Some c_win_name)]
         [Some c_win_name] (text_back E []) (h, w)))"

section \<open>Lengths that go both ways\<close>

text \<open>
  \<open>MPI_Info_get\<close> takes the length of the value as an argument, and the array is sized by it. The
  caller's variable keeps its contents if there is no such key.
\<close>

definition mpi_info_get where
  "mpi_info_get E pr info key valuelen val length_key = (\<lambda>(h, w).
     bindE (mpif_strdup_f2c_trim key 0 length_key h) (\<lambda>(c_key, h).
     (let buflen_val = to_aint valuelen;
          length_val = unat (to_aint valuelen)
      in bindE (local_chars buflen_val) (\<lambda>c_val.
           text_call E pr False ''Info_get''
             [Hdl (of_int_handle E Info info), Ptr (Some c_key), Val (sint valuelen),
              Room ''value'' c_val, Flag ''flag'' 0]
             [Some c_key]
             (\<lambda>r. bindE (if flag r ''flag'' \<noteq> 0 then copy_out r ''value'' c_val val length_val else Inr val)
               (\<lambda>t. Inr \<lparr>ierror = rc r,
                         out = [mpif_bool2logical (logicals E) (flag r ''flag'')],
                         texts = [t]\<rparr>)) (h, w)))))"

text \<open>
  A length that goes in without and comes back without the terminating null, where MPI counts it: the
  smaller of what the caller asks for and what its variable holds, plus one, and none if it asks
  for nothing.
\<close>

definition room_for :: "fint \<Rightarrow> nat \<Rightarrow> fault + fint" where
  "room_for f len =
     (if sint f > 0
      then (let m = (if unat (to_aint f) \<le> len then f else of_nat len)
            in if sint m = 2 ^ 31 - 1 then Inl Overflow else Inr (m + 1))
      else Inr 0)"

definition without_null :: "fint \<Rightarrow> fint" where
  "without_null c = (if sint c > 0 then c - 1 else 0)"

definition mpi_info_get_string where
  "mpi_info_get_string E pr info key buflen val length_key length_val = (\<lambda>(h, w).
     bindE (mpif_strdup_f2c_trim key 0 length_key h) (\<lambda>(c_key, h).
     bindE (room_for buflen length_val) (\<lambda>c_buflen.
     bindE (local_chars (of_nat length_val)) (\<lambda>c_val.
       text_call E pr False ''Info_get_string''
         [Hdl (of_int_handle E Info info), Ptr (Some c_key), Flag ''buflen'' c_buflen,
          Room ''value'' c_val, Flag ''flag'' 0]
         [Some c_key]
         (\<lambda>r. let f = flag r ''flag'';
                  b = (if f \<noteq> 0 then without_null (flag r ''buflen'') else buflen)
              in bindE (if f \<noteq> 0 \<and> sint buflen > 0 then copy_out r ''value'' c_val val length_val
                        else Inr val)
                   (\<lambda>t. Inr \<lparr>ierror = rc r, out = [b, mpif_bool2logical (logicals E) f],
                             texts = [t]\<rparr>)) (h, w)))))"

definition mpi_session_get_nth_pset where
  "mpi_session_get_nth_pset E pr session info n pset_len pset_name length_pset_name = (\<lambda>(h, w).
     bindE (room_for pset_len length_pset_name) (\<lambda>c_pset_len.
     bindE (local_chars (of_nat length_pset_name)) (\<lambda>c_pset_name.
       text_call E pr False ''Session_get_nth_pset''
         [Hdl (of_int_handle E Session session), Hdl (of_int_handle E Info info), Val n,
          Flag ''pset_len'' c_pset_len, Room ''pset_name'' c_pset_name]
         []
         (\<lambda>r. bindE (if sint pset_len > 0
                     then copy_out r ''pset_name'' c_pset_name pset_name length_pset_name
                     else Inr pset_name)
               (\<lambda>t. Inr \<lparr>ierror = rc r, out = [without_null (flag r ''pset_len'')], texts = [t]\<rparr>))
         (h, w))))"

section \<open>Strings that go in\<close>

abbreviation without_blanks :: "region \<Rightarrow> nat \<Rightarrow> byte list" where
  "without_blanks s n \<equiv> cstr (rtrim (take n s))"

abbreviation trimmed :: "region \<Rightarrow> nat \<Rightarrow> byte list" where
  "trimmed s n \<equiv> cstr (ltrim (rtrim (take n s)))"

definition text_wrappers where
  "text_wrappers E pr large i hdl a s n =
     [
      (''Add_error_string'', [without_blanks (s ''string'') (n ''string'')],
          mpi_add_error_string E pr (i ''errorcode'') (s ''string'') (n ''string'')),
      (''Close_port'', [without_blanks (s ''port_name'') (n ''port_name'')],
          mpi_close_port E pr (s ''port_name'') (n ''port_name'')),
      (''Comm_create_from_group'', [without_blanks (s ''stringtag'') (n ''stringtag'')],
          mpi_comm_create_from_group E pr (hdl ''group'') (s ''stringtag'') (hdl ''info'') (hdl
            ''errhandler'') (n ''stringtag'')),
      (''Comm_set_name'', [without_blanks (s ''comm_name'') (n ''comm_name'')],
          mpi_comm_set_name E pr (hdl ''comm'') (s ''comm_name'') (n ''comm_name'')),
      (''File_delete'', [without_blanks (s ''filename'') (n ''filename'')],
          mpi_file_delete E pr (s ''filename'') (hdl ''info'') (n ''filename'')),
      (''File_open'', [without_blanks (s ''filename'') (n ''filename'')],
          mpi_file_open E pr (hdl ''comm'') (s ''filename'') (i ''amode'') (hdl ''info'') (n
            ''filename'')),
      (''File_set_view'', [without_blanks (s ''datarep'') (n ''datarep'')],
          mpi_file_set_view E pr (hdl ''fh'') (i ''disp'') (hdl ''etype'') (hdl ''filetype'') (s
            ''datarep'') (hdl ''info'') (n ''datarep'')),
      (''Group_from_session_pset'', [without_blanks (s ''pset_name'') (n ''pset_name'')],
          mpi_group_from_session_pset E pr (hdl ''session'') (s ''pset_name'') (n ''pset_name'')),
      (''Info_delete'', [trimmed (s ''key'') (n ''key'')],
          mpi_info_delete E pr (hdl ''info'') (s ''key'') (n ''key'')),
      (''Info_get_valuelen'', [trimmed (s ''key'') (n ''key'')],
          mpi_info_get_valuelen E pr (hdl ''info'') (s ''key'') (a ''valuelen'') (n ''key'')),
      (''Info_set'', [trimmed (s ''key'') (n ''key''), trimmed (s ''value'') (n ''value'')],
          mpi_info_set E pr (hdl ''info'') (s ''key'') (s ''value'') (n ''key'') (n ''value'')),
      (''Intercomm_create_from_groups'', [without_blanks (s ''stringtag'') (n ''stringtag'')],
          mpi_intercomm_create_from_groups E pr (hdl ''local_group'') (i ''local_leader'') (hdl
            ''remote_group'') (i ''remote_leader'') (s ''stringtag'') (hdl ''info'') (hdl
            ''errhandler'') (n ''stringtag'')),
      (''Pack_external'', [without_blanks (s ''datarep'') (n ''datarep'')],
          mpi_pack_external E pr large (s ''datarep'') (a ''inbuf'') (i ''incount'') (hdl
            ''datatype'') (a ''outbuf'') (i ''outsize'') (a ''position'') (n ''datarep'')),
      (''Pack_external_size'', [without_blanks (s ''datarep'') (n ''datarep'')],
          mpi_pack_external_size E pr large (s ''datarep'') (i ''incount'') (hdl ''datatype'')
            (a ''size'') (n ''datarep'')),
      (''Publish_name'', [without_blanks (s ''service_name'') (n ''service_name''), without_blanks (s ''port_name'') (n ''port_name'')],
          mpi_publish_name E pr (s ''service_name'') (hdl ''info'') (s ''port_name'') (n
            ''service_name'') (n ''port_name'')),
      (''Session_get_pset_info'', [without_blanks (s ''pset_name'') (n ''pset_name'')],
          mpi_session_get_pset_info E pr (hdl ''session'') (s ''pset_name'') (n ''pset_name'')),
      (''Type_set_name'', [without_blanks (s ''type_name'') (n ''type_name'')],
          mpi_type_set_name E pr (hdl ''datatype'') (s ''type_name'') (n ''type_name'')),
      (''Unpack_external'', [without_blanks (s ''datarep'') (n ''datarep'')],
          mpi_unpack_external E pr large (s ''datarep'') (a ''inbuf'') (i ''insize'') (a
            ''position'') (a ''outbuf'') (i ''outcount'') (hdl ''datatype'') (n ''datarep'')),
      (''Unpublish_name'', [without_blanks (s ''service_name'') (n ''service_name''), without_blanks (s ''port_name'') (n ''port_name'')],
          mpi_unpublish_name E pr (s ''service_name'') (hdl ''info'') (s ''port_name'') (n
            ''service_name'') (n ''port_name'')),
      (''Win_set_name'', [without_blanks (s ''win_name'') (n ''win_name'')],
          mpi_win_set_name E pr (hdl ''win'') (s ''win_name'') (n ''win_name''))]"

lemmas text_wrapper_defs =
  mpi_add_error_string_def
  mpi_close_port_def
  mpi_comm_create_from_group_def
  mpi_comm_set_name_def
  mpi_file_delete_def
  mpi_file_open_def
  mpi_file_set_view_def
  mpi_group_from_session_pset_def
  mpi_info_delete_def
  mpi_info_get_valuelen_def
  mpi_info_set_def
  mpi_intercomm_create_from_groups_def
  mpi_pack_external_def
  mpi_pack_external_size_def
  mpi_publish_name_def
  mpi_session_get_pset_info_def
  mpi_type_set_name_def
  mpi_unpack_external_def
  mpi_unpublish_name_def
  mpi_win_set_name_def

text \<open>
  C30. Strings reach MPI trimmed and nothing is leaked. Each of these 20 wrappers calls MPI once, with
  every character argument as a C string without its trailing blanks, info keys and values without
  the leading ones too, in the order of the arguments; it returns MPI's error code, and afterwards
  the heap holds exactly the blocks it held before, on success and on failure alike. With memory
  for the copies the only fault left is a handle from MPI that has no integer.
\<close>

theorem strings_reach_mpi_and_are_freed:
  assumes "(name, ss, f) \<in> set (text_wrappers E pr large i hdl a s n)"
    and "roomy h" and "\<And>x. n x \<le> length (s x)"
  shows "passes_strings E pr name ss f h w"
proof -
  note dup = strdup_f2c_spec [where off = 0, simplified, OF assms(3)]
    strdup_f2c_trim_spec [where off = 0, simplified, OF assms(3)]
  have "list_all (\<lambda>(name, ss, f). passes_strings E pr name ss f h w) (text_wrappers E pr large i hdl a s n)"
    unfolding text_wrappers_def list.pred_inject prod.case text_wrapper_defs
    by (intro conjI;
        ((rule passes_rules, rule refl, rule dup, rule assms(2), simp)
         | (rule passes_rules, rule refl, rule dup, rule dup, rule assms(2), simp) | simp))
  with assms(1) show ?thesis by (auto simp: list_all_iff)
qed

theorem strings_reach_mpi_and_are_freed_witness:
  "passes_strings logging_lib MPI ''Info_set'' [[0x6b], [0x76]]
     (mpi_info_set logging_lib MPI 0x130 [blank, 0x6b, blank] [0x76, blank] 3 2) empty_heap []"
proof -
  let ?s = "\<lambda>x. if x = ''key'' then [blank, 0x6b, blank] else [0x76, blank :: byte]"
  let ?n = "\<lambda>x. if x = ''key'' then 3 else 2 :: nat"
  have mem: "(''Info_set'', [[0x6b], [0x76]],
      mpi_info_set logging_lib MPI 0x130 [blank, 0x6b, blank] [0x76, blank] 3 2)
      \<in> set (text_wrappers logging_lib MPI False (\<lambda>_. 0) (\<lambda>_. 0x130) (\<lambda>_. 0) ?s ?n)"
    by (simp add: text_wrappers_def rtrim_def ltrim_def cstr_def blank_def)
  have "roomy (empty_heap :: ptr option list heap)"
    by (simp add: roomy_def) (simp add: empty_heap_def)
  from strings_reach_mpi_and_are_freed [OF mem this] show ?thesis by simp
qed

section \<open>Strings that come out\<close>

lemma name_call:
  assumes "\<And>c. fetch_all h (args c) = Inr (args c)"
    and "m + 2 < 2 ^ 63" and "len \<le> length dest" and "length s \<le> m + 1" and "0 \<notin> set s"
    and "\<And>large as. chars (fst (mpi E pr large name as w)) x = s @ [0]"
  shows "\<exists>lg as r w'. mpi E pr lg name as w = (r, w') \<and>
    bindE (local_chars (of_nat m)) (\<lambda>c.
      text_call E pr large name (args c) [] (text_back E [Copied x c dest len]) (h, w)) =
    Inr (\<lparr>ierror = rc r, out = [], texts = [pad len s @ drop len dest]\<rparr>, h, w')"
proof -
  let ?c = "(replicate (m + 2) None)[0 := Some 0, m + 1 := Some (0 :: byte)]"
  obtain r w' where m: "mpi E pr large name (args ?c) w = (r, w')" by (metis surj_pair)
  then have "chars r x = s @ [0]" using assms(6) by (metis fst_conv)
  then have "copy_out r x ?c dest len = Inr (pad len s @ drop len dest)"
    using assms(3,4,5) by (intro copy_out_ok) (simp_all only: length_list_update length_replicate, simp)
  then have "bindE (local_chars (of_nat m)) (\<lambda>c.
      text_call E pr large name (args c) [] (text_back E [Copied x c dest len]) (h, w)) =
    Inr (\<lparr>ierror = rc r, out = [], texts = [pad len s @ drop len dest]\<rparr>, h, w')"
    by (simp only: local_chars_ok [OF assms(2)] bindE_Inr text_call_def assms(1) prod.case m Let_def
        free_all.simps text_back.simps outcome.simps text_outcome.simps)
  with m show ?thesis by blast
qed

definition name_wrappers where
  "name_wrappers E pr i hdl a n dest =
     [
      (''Comm_get_name'', ''comm_name'', MPI_MAX_OBJECT_NAME - 1,
          mpi_comm_get_name E pr (hdl ''comm'') dest (a ''resultlen'')),
      (''Error_string'', ''string'', MPI_MAX_ERROR_STRING - 1,
          mpi_error_string E pr (i ''errorcode'') dest (a ''resultlen'')),
      (''Get_library_version'', ''version'', MPI_MAX_LIBRARY_VERSION_STRING - 1,
          mpi_get_library_version E pr dest (a ''resultlen'')),
      (''Get_processor_name'', ''name'', MPI_MAX_PROCESSOR_NAME - 1,
          mpi_get_processor_name E pr dest (a ''resultlen'')),
      (''Info_get_nthkey'', ''key'', n ''key'',
          mpi_info_get_nthkey E pr (hdl ''info'') (i ''n'') dest (n ''key'')),
      (''Open_port'', ''port_name'', MPI_MAX_PORT_NAME - 1,
          mpi_open_port E pr (hdl ''info'') dest),
      (''Type_get_name'', ''type_name'', MPI_MAX_OBJECT_NAME - 1,
          mpi_type_get_name E pr (hdl ''datatype'') dest (a ''resultlen'')),
      (''Win_get_name'', ''win_name'', MPI_MAX_OBJECT_NAME - 1,
          mpi_win_get_name E pr (hdl ''win'') dest (a ''resultlen''))]"

lemmas name_wrapper_defs =
  mpi_comm_get_name_def
  mpi_error_string_def
  mpi_get_library_version_def
  mpi_get_processor_name_def
  mpi_info_get_nthkey_def
  mpi_open_port_def
  mpi_type_get_name_def
  mpi_win_get_name_def

text \<open>
  C31. Strings from MPI come back blank-padded: for a variable of the length MPI promises (for info keys
  the caller's), if MPI writes a C string at most one longer than the variable, each of these 8
  wrappers leaves in it that string, cut or padded with blanks to the variable's length, nothing
  beyond, and returns MPI's error code with the heap untouched.
\<close>

theorem strings_come_back_padded:
  assumes "(name, x, len, f) \<in> set (name_wrappers E pr i hdl a n dest)"
    and "len \<le> length dest" and "n ''key'' + 2 < 2 ^ 63"
    and "\<And>large args. chars (fst (mpi E pr large name args w)) x = s @ [0]"
    and "0 \<notin> set s" and "length s \<le> len + 1"
  shows "\<exists>large args r w'. mpi E pr large name args w = (r, w') \<and>
    f (h, w) = Inr (\<lparr>ierror = rc r, out = [], texts = [pad len s @ drop len dest]\<rparr>, h, w')"
proof -
  have "list_all (\<lambda>(name, x, len, f). len \<le> length dest \<longrightarrow> length s \<le> len + 1 \<longrightarrow>
      (\<forall>large args. chars (fst (mpi E pr large name args w)) x = s @ [0]) \<longrightarrow>
      (\<exists>large args r w'. mpi E pr large name args w = (r, w') \<and>
        f (h, w) = Inr (\<lparr>ierror = rc r, out = [], texts = [pad len s @ drop len dest]\<rparr>, h, w')))
     (name_wrappers E pr i hdl a n dest)"
    unfolding name_wrappers_def list.pred_inject prod.case name_wrapper_defs
    by (intro conjI impI;
        ((rule name_call, simp, use assms(3) in simp, assumption, simp, rule assms(5), blast)
         | simp))
  with assms show ?thesis by (auto simp: list_all_iff)
qed

text \<open>A library in which everything has the same name.\<close>

definition naming_lib :: "byte list \<Rightarrow> (string \<times> arg list) list mpi_lib" where
  "naming_lib s = logging_lib
     \<lparr>mpi := (\<lambda>pr large name args w.
        ((short_reply MPI_SUCCESS (\<lambda>_. 0))\<lparr>chars := (\<lambda>_. s @ [0])\<rparr>, w @ [(name, args)]))\<rparr>"

lemma naming_lib_chars: "chars (fst (mpi (naming_lib s) pr large name args w)) x = s @ [0]"
  by (simp add: naming_lib_def)

theorem strings_come_back_padded_witness:
  "\<exists>w'. mpi_comm_get_name (naming_lib [0x61, 0x62]) MPI 0x101 (replicate 130 7) 0 (empty_heap, []) =
     Inr (\<lparr>ierror = MPI_SUCCESS, out = [], texts = [0x61 # 0x62 # replicate 125 blank @ [7, 7, 7]]\<rparr>, empty_heap, w')"
proof -
  have mem: "(''Comm_get_name'', ''comm_name'', MPI_MAX_OBJECT_NAME - 1,
      mpi_comm_get_name (naming_lib [0x61, 0x62]) MPI 0x101 (replicate 130 7) 0)
      \<in> set (name_wrappers (naming_lib [0x61, 0x62]) MPI (\<lambda>_. 0) (\<lambda>_. 0x101) (\<lambda>_. 0) (\<lambda>_. 0) (replicate 130 7))"
    by (simp add: name_wrappers_def)
  have p: "pad 127 [0x61, 0x62] = 0x61 # 0x62 # replicate 125 blank"
    by (simp add: pad_def)
  have d: "drop 127 (replicate 130 (7 :: byte)) = [7, 7, 7]"
    by (simp add: numeral_3_eq_3)
  show ?thesis
    using strings_come_back_padded [OF mem _ _ naming_lib_chars, of "[]" empty_heap]
    by (auto simp: p d naming_lib_def simp del: replicate.simps drop_replicate)
qed

section \<open>Lengths\<close>

lemma local_chars_negative:
  assumes "sint valuelen < - 1"
  shows "local_chars (to_aint valuelen) \<in> {Inl Overflow, Inl Bad_write}"
proof -
  let ?k = "sint valuelen + 2"
  have range: "- (2 ^ 31) \<le> sint valuelen" using sint_ge [of valuelen] by simp
  have "to_aint valuelen + 2 = word_of_int ?k"
    unfolding to_aint_eq by (metis of_int_add of_int_numeral)
  then have u: "uint (to_aint valuelen + 2) = ?k mod 2 ^ 64"
    by (simp only: uint_word_of_int) simp
  have "?k = 0 \<or> 2 ^ 63 \<le> ?k mod 2 ^ 64"
  proof (cases "?k = 0")
    case False
    have "?k mod 2 ^ 64 = (?k + 2 ^ 64) mod 2 ^ 64" by (rule mod_add_self2 [symmetric])
    also have "\<dots> = ?k + 2 ^ 64"
      using False assms range by (intro mod_pos_pos_trivial) simp_all
    finally show ?thesis using range by simp
  qed simp
  then have "uint (to_aint valuelen + 2) = 0 \<or> 2 ^ 63 \<le> uint (to_aint valuelen + 2)"
    unfolding u by auto
  then show ?thesis by (auto simp: local_chars_def uint_0_iff)
qed

text \<open>
  C37. Two wrappers size the array MPI writes into by what the caller passes, not by what MPI may
  write. A key that is longer than the caller's variable by more than one character overruns the array of
  \<open>MPI_Info_get_nthkey\<close>, which the standard allows up to \<open>MPI_MAX_INFO_KEY\<close> characters; and a
  value length below -1 makes the array of \<open>MPI_Info_get\<close> impossible, so that the program
  is undefined where MPI would have returned an error code: MPI is not called.
\<close>

theorem local_arrays_trust_the_caller:
  assumes "length_key \<le> length key" and "roomy h" and "length_key + 2 < 2 ^ 63"
  shows "(length_key + 2 < length (chars (fst (mpi E pr False ''Info_get_nthkey''
        [Hdl (of_int_handle E Info info), Val n,
         Room ''key'' ((replicate (length_key + 2) None)[0 := Some 0, length_key + 1 := Some 0])] w)) ''key'') \<longrightarrow>
      mpi_info_get_nthkey E pr info n key length_key (h, w) = Inl Bad_write) \<and>
    (sint valuelen < - 1 \<longrightarrow>
      mpi_info_get E pr info key valuelen val length_key (h, w) \<in> {Inl Overflow, Inl Bad_write})"
    (is "(?long \<longrightarrow> _) \<and> _")
proof (intro conjI impI)
  assume long: ?long
  let ?c = "(replicate (length_key + 2) None)[0 := Some 0, length_key + 1 := Some (0 :: byte)]"
  obtain r w' where m: "mpi E pr False ''Info_get_nthkey''
      [Hdl (of_int_handle E Info info), Val n, Room ''key'' ?c] w = (r, w')" by (metis surj_pair)
  have "length ?c < length (chars r ''key'')"
    using long unfolding m fst_conv by (simp only: length_list_update length_replicate)
  from copy_out_overrun [OF this] show "mpi_info_get_nthkey E pr info n key length_key (h, w) = Inl Bad_write"
    by (simp only: mpi_info_get_nthkey_def prod.case local_chars_ok [OF assms(3)] bindE_Inr bindE_Inl text_call_def
        fetch_all.simps fetch.simps m Let_def free_all.simps text_back.simps)
next
  assume "sint valuelen < - 1"
  from local_chars_negative [OF this]
  show "mpi_info_get E pr info key valuelen val length_key (h, w) \<in> {Inl Overflow, Inl Bad_write}"
    using assms(1,2) by (auto simp: mpi_info_get_def strdup_f2c_trim_spec dup_result_def roomy_def Let_def)
qed

lemma roomy_empty [simp]: "roomy empty_heap"
  by (simp add: roomy_def) (simp add: empty_heap_def)

theorem local_arrays_trust_the_caller_witness:
  "mpi_info_get_nthkey (naming_lib [0x6b, 0x65, 0x79]) MPI 0x130 0 [7] 1 (empty_heap, []) = Inl Bad_write \<and>
   mpi_info_get logging_lib MPI 0x130 [0x6b] (- 2) [7] 1 (empty_heap, []) \<in> {Inl Overflow, Inl Bad_write}"
  using conjunct1 [OF local_arrays_trust_the_caller [OF _ roomy_empty, where length_key = "1" and key = "[7]" and
      E = "naming_lib [0x6b, 0x65, 0x79]" and pr = MPI and info = "0x130" and n = "0" and w = "[]"]]
    conjunct2 [OF local_arrays_trust_the_caller [OF _ roomy_empty, where length_key = "1" and key = "[0x6b]" and
      valuelen = "- 2" and E = logging_lib and pr = MPI and info = "0x130" and val = "[7]" and w = "[]"]]
  by (simp add: naming_lib_chars)

text \<open>What the standard says of \<open>MPI_Info_get_string\<close> for a key with the value \<open>v\<close>.\<close>

definition has_value :: "('w, 'z) mpi_lib_scheme \<Rightarrow> profile \<Rightarrow> byte list \<Rightarrow> 'w \<Rightarrow> bool" where
  "has_value E pr v w \<longleftrightarrow> (\<forall>large args.
     let r = fst (mpi E pr large ''Info_get_string'' args w); b = sint (incoming args ''buflen'')
     in flag r ''flag'' = 1 \<and> flag r ''buflen'' = of_nat (length v + 1) \<and>
        chars r ''value'' = (if b > 0 then take (nat b - 1) v @ [0] else []))"

lemma room_for_ok:
  assumes "len + 2 < 2 ^ 31"
  shows "\<exists>c. room_for f len = Inr c \<and>
    sint c = (if sint f > 0 then min (sint f) (int len) + 1 else 0)"
proof (cases "sint f > 0")
  case True
  let ?k = "min (sint f) (int len)"
  have "uint (to_aint f) = sint f"
    using True sint_fint_bounds [of f] unfolding to_aint_eq uint_word_of_int
    by (intro mod_pos_pos_trivial) simp_all
  then have "unat (to_aint f) \<le> len \<longleftrightarrow> sint f \<le> int len"
    using True by (simp add: unat_eq_nat_uint nat_le_iff)
  then have m: "(if unat (to_aint f) \<le> len then f else of_nat len) = word_of_int ?k"
    by (simp add: min_def)
  have k: "- (2 ^ 31) \<le> ?k" "?k < 2 ^ 31 - 1" "- (2 ^ 31) \<le> ?k + 1" "?k + 1 < 2 ^ 31"
    using True assms by (simp_all add: min_def)
  have "sint (word_of_int ?k + 1 :: fint) = ?k + 1"
    using sint_of_small [OF k(3,4)] by (simp only: of_int_add of_int_1)
  moreover have "sint (word_of_int ?k :: fint) = ?k"
    using k by (intro sint_of_small) simp_all
  ultimately show ?thesis
    using True k(2) unfolding room_for_def m Let_def by (simp only: if_True) (simp split: if_split)
qed (simp add: room_for_def)

lemma without_null_length: "length v + 1 < 2 ^ 31 \<Longrightarrow> without_null (of_nat (length v + 1)) = of_nat (length v)"
  using sint_of_nat_small [of "length v + 1"] by (simp add: without_null_def del: of_nat_Suc) simp

text \<open>
  Asking for an info value: the caller learns the length of the value, whatever room it asked for,
  and its variable holds as much of the value as both the room asked for and the variable itself allow,
  padded with blanks over its whole length. A caller that asks for no room keeps its variable, so
  that a first call can measure and a second one fetch. The key's copy is freed.
\<close>

theorem info_get_string_measures_and_fetches:
  assumes "has_value E pr v w" and "roomy h" and "length_key \<le> length key"
    and "length_val \<le> length val" and "length_val + 2 < 2 ^ 31" and "0 \<notin> set v" and "length v + 1 < 2 ^ 31"
  shows "\<exists>e h' w'. mpi_info_get_string E pr info key buflen val length_key length_val (h, w) =
      Inr (\<lparr>ierror = e, out = [of_nat (length v), logical_true (logicals E)],
            texts = [if sint buflen > 0
                     then pad length_val (take (min (nat (sint buflen)) length_val) v) @ drop length_val val
                     else val]\<rparr>, h', w') \<and> live h' = live h"
proof -
  let ?n = length_val and ?b = "if sint buflen > 0 then min (sint buflen) (int length_val) + 1 else 0"
  obtain c where room: "room_for buflen ?n = Inr c" and c: "sint c = ?b"
    using room_for_ok [OF assms(5), of buflen] by blast
  let ?v = "(replicate (?n + 2) None)[0 := Some 0, ?n + 1 := Some (0 :: byte)]"
  let ?key = "ltrim (rtrim (take length_key key))"
  let ?h = "with_cstring ?key h"
  let ?args = "[Hdl (of_int_handle E Info info), Chars (cstr ?key), Flag ''buflen'' c,
    Room ''value'' ?v, Flag ''flag'' 0]"
  have small: "?n + 2 < 2 ^ 63" using assms(5) by simp
  have dup: "mpif_strdup_f2c_trim key 0 length_key h = Inr (nallocs h, ?h)"
    using assms(2,3) by (simp add: strdup_f2c_trim_spec dup_result_def roomy_def)
  have fetch: "fetch_all ?h [Hdl (of_int_handle E Info info), Ptr (Some (nallocs h)), Flag ''buflen'' c,
      Room ''value'' ?v, Flag ''flag'' 0] = Inr ?args"
    by (simp add: load_cstring_def with_cstring_def cstring_of_cstr del: replicate.simps list_update.simps)
  have free: "free_all [Some (nallocs h)] ?h = Inr (h\<lparr>nallocs := Suc (nallocs h)\<rparr>)"
    using assms(2) by (simp add: roomy_def free_block_def with_cstring_def fun_upd_idem heap_wf_fresh)
  obtain r w' where m: "mpi E pr False ''Info_get_string'' ?args w = (r, w')" by (metis surj_pair)
  have "incoming ?args ''buflen'' = c" by simp
  then have r: "flag r ''flag'' = 1" "flag r ''buflen'' = of_nat (length v + 1)"
    "chars r ''value'' = (if sint c > 0 then take (nat (sint c) - 1) v @ [0] else [])"
    using assms(1) m unfolding has_value_def Let_def by (metis fst_conv)+
  have key: "bindE (if flag r ''flag'' \<noteq> 0 \<and> sint buflen > 0 then copy_out r ''value'' ?v val ?n else Inr val)
      (\<lambda>t. Inr (g t)) = Inr (g (if sint buflen > 0
        then pad ?n (take (min (nat (sint buflen)) ?n) v) @ drop ?n val else val))" for g :: "region \<Rightarrow> text_outcome"
  proof (cases "sint buflen > 0")
    case True
    let ?t = "take (min (nat (sint buflen)) ?n) v"
    have "nat (sint c) - 1 = min (nat (sint buflen)) ?n" using True c by (simp add: nat_add_distrib)
    then have "chars r ''value'' = ?t @ [0]" using True c r(3) by simp
    moreover have "0 \<notin> set ?t" using assms(6) by (auto dest: in_set_takeD)
    moreover have "length ?t < length ?v" by (simp only: length_list_update length_replicate) simp
    ultimately have "copy_out r ''value'' ?v val ?n = Inr (pad ?n ?t @ drop ?n val)"
      using assms(4) by (intro copy_out_ok)
    with True r(1) show ?thesis by simp
  qed simp
  show ?thesis
    by (intro exI [of _ "rc r"] exI [of _ "h\<lparr>nallocs := Suc (nallocs h)\<rparr>"] exI [of _ w'])
      (simp only: mpi_info_get_string_def prod.case dup bindE_Inr room local_chars_ok [OF small] text_call_def
        fetch m Let_def free key, simp add: r(1,2) without_null_length [OF assms(7), simplified] mpif_bool2logical_def)
qed

definition value_lib :: "byte list \<Rightarrow> (string \<times> arg list) list mpi_lib" where
  "value_lib v = logging_lib
     \<lparr>mpi := (\<lambda>pr large name args w.
        ((short_reply MPI_SUCCESS (\<lambda>_. 0))
          \<lparr>flag := (\<lambda>x. if x = ''flag'' then 1 else of_nat (length v + 1)),
           chars := (\<lambda>_. let b = sint (incoming args ''buflen'') in if b > 0 then take (nat b - 1) v @ [0] else [])\<rparr>,
         w @ [(name, args)]))\<rparr>"

theorem info_get_string_measures_and_fetches_witness:
  "\<exists>e h' w'. mpi_info_get_string (value_lib [0x61, 0x62, 0x63]) MPI 0x130 [0x6b] 2 [7, 7, 7, 7] 1 3 (empty_heap, []) =
     Inr (\<lparr>ierror = e, out = [3, 1], texts = [[0x61, 0x62, blank, 7]]\<rparr>, h', w') \<and> live h' = Map.empty"
proof -
  have v: "has_value (value_lib [0x61, 0x62, 0x63]) MPI [0x61, 0x62, 0x63] []"
    by (simp add: has_value_def value_lib_def Let_def)
  have "logical_true (logicals (value_lib [0x61, 0x62, 0x63])) = 1"
    by (simp add: value_lib_def logging_lib_def)
  moreover have "pad 3 (take (min (nat (sint (2 :: fint))) 3) [0x61, 0x62, 0x63]) @ drop 3 [7, 7, 7, 7] =
      [0x61, 0x62, blank, 7]"
    by (simp add: pad_def numeral_2_eq_2 numeral_3_eq_3)
  moreover have "live (empty_heap :: ptr option list heap) = Map.empty" by (simp add: empty_heap_def)
  ultimately show ?thesis
    using info_get_string_measures_and_fetches [OF v roomy_empty, where length_key = "1" and key = "[0x6b]" and
      length_val = "3" and val = "[7, 7, 7, 7]" and info = "0x130" and buflen = "2"]
    by simp
qed

end
