(* ===== verification/Wrappers_Spawn.thy ===== *)
theory Wrappers_Spawn
  imports Wrappers_Strings
begin

text \<open>
  The wrappers of \<open>gen/mpif_functions.c\<close> that connect processes or start new ones. Their strings mean
  something at the root only, and are not read elsewhere; the argument vectors end at a blank
  string, so their lengths are found by loops that have no bound of their own. \<open>None\<close> is such a
  loop that does not end.
\<close>

section \<open>Strings that matter at the root\<close>

definition if_root :: "bool \<Rightarrow> ('x heap \<Rightarrow> fault + ptr \<times> 'x heap) \<Rightarrow> 'x heap \<Rightarrow> fault + ptr option \<times> 'x heap" where
  "if_root b dup h = (if b then bindE (dup h) (\<lambda>(p, h). Inr (Some p, h)) else Inr (None, h))"

definition plain_back :: "('w, 'z) mpi_lib_scheme \<Rightarrow> exported list \<Rightarrow> reply \<Rightarrow> fault + outcome" where
  "plain_back E bs r = bindE (convert_back E r bs) (\<lambda>os. Inr \<lparr>ierror = rc r, out = os\<rparr>)"

definition mpi_comm_accept where
  "mpi_comm_accept E pr port_name info root comm length_port_name =
     probing (\<lambda>(h, w). at_root E (of_int_handle E Comm comm) root w) (\<lambda>q_at_root (h, w).
       bindE (if_root q_at_root (mpif_strdup_f2c port_name 0 length_port_name) h) (\<lambda>(c_port_name, h).
         text_call E pr False ''Comm_accept''
           [Ptr c_port_name, Hdl (if q_at_root then of_int_handle E Info info else MPI_INFO_NULL),
            Val (sint root), Hdl (of_int_handle E Comm comm), Temp ''newcomm'' MPI_COMM_NULL]
           (if q_at_root then [c_port_name] else [])
           (plain_back E [Handle Comm ''newcomm'']) (h, w)))"

definition mpi_comm_connect where
  "mpi_comm_connect E pr port_name info root comm length_port_name =
     probing (\<lambda>(h, w). at_root E (of_int_handle E Comm comm) root w) (\<lambda>q_at_root (h, w).
       bindE (if_root q_at_root (mpif_strdup_f2c port_name 0 length_port_name) h) (\<lambda>(c_port_name, h).
         text_call E pr False ''Comm_connect''
           [Ptr c_port_name, Hdl (if q_at_root then of_int_handle E Info info else MPI_INFO_NULL),
            Val (sint root), Hdl (of_int_handle E Comm comm), Temp ''newcomm'' MPI_COMM_NULL]
           (if q_at_root then [c_port_name] else [])
           (plain_back E [Handle Comm ''newcomm'']) (h, w)))"

section \<open>Starting processes\<close>

text \<open>\<open>for (n ...) xs[n] = mpif_strdup_f2c_trim(strs + off(n), len);\<close>\<close>

fun dup_each :: "region \<Rightarrow> nat \<Rightarrow> nat list \<Rightarrow> 'x heap \<Rightarrow> fault + ptr list \<times> 'x heap" where
  "dup_each r len [] h = Inr ([], h)"
| "dup_each r len (off # offs) h =
     bindE (mpif_strdup_f2c_trim r off len h) (\<lambda>(p, h).
       bindE (dup_each r len offs h) (\<lambda>(ps, h). Inr (p # ps, h)))"

text \<open>An argument vector is given by its address, which may be the sentinel, and what is there.\<close>

definition mpi_comm_spawn where
  "mpi_comm_spawn E pr command argv_addr argv maxprocs info root comm array_of_errcodes
     length_command length_argv = (\<lambda>(h, w).
     (case at_root E (of_int_handle E Comm comm) root w of
        Inl e \<Rightarrow> Some (returns e (h, w))
      | Inr q_at_root \<Rightarrow>
          (case if_root q_at_root (mpif_strdup_f2c_trim command 0 length_command) h of
             Inl e \<Rightarrow> Some (Inl e)
           | Inr (c_command, h) \<Rightarrow>
               (let null_argv = mpif_is_argv_null (place E) argv_addr
                in case (if q_at_root \<and> \<not> null_argv then mpif_fcount argv length_argv else Some (Inr 0)) of
                     None \<Rightarrow> None
                   | Some n \<Rightarrow> Some (bindE n (\<lambda>count_argv.
                       bindE (dup_each argv length_argv (map (\<lambda>n. n * length_argv) [0..<count_argv]) h)
                         (\<lambda>(argv_argv, h).
                           text_call E pr False ''Comm_spawn''
                             [Ptr c_command, if null_argv then Buf null else Ptrs (map Some argv_argv @ [None]), Val maxprocs,
                              Hdl (if q_at_root then of_int_handle E Info info else MPI_INFO_NULL),
                              Val (sint root), Hdl (of_int_handle E Comm comm),
                              Temp ''intercomm'' MPI_COMM_NULL,
                              Buf (mpif_c_errcodes (place E) array_of_errcodes)]
                             ((if q_at_root then [c_command] else []) @ map Some argv_argv)
                             (plain_back E [Handle Comm ''intercomm'']) (h, w))))))))"

text \<open>
  One row of the two-dimensional argument vector: count it, allocate the array of pointers, fill it and
  end it with a null pointer. The array's elements are stored at once, as nothing reads it in between.
\<close>

definition argv_row ::
    "region \<Rightarrow> nat \<Rightarrow> nat \<Rightarrow> nat \<Rightarrow> ptr option list heap \<Rightarrow>
     (fault + (ptr list \<times> ptr) \<times> ptr option list heap) option" where
  "argv_row argvs q_count len i h =
     (case mpif_fcount2d argvs q_count i len of
        None \<Rightarrow> None
      | Some n \<Rightarrow> Some (bindE n (\<lambda>cnt.
          (case alloc_block (Obj (replicate (cnt + 1) None)) h of
             (None, h) \<Rightarrow> Inl (Out_of_memory ((cnt + 1) * 8))
           | (Some a, h) \<Rightarrow>
               bindE (dup_each argvs len (map (\<lambda>n. i * len + n * q_count * len) [0..<cnt]) h) (\<lambda>(ps, h).
                 bindE (store_obj a (map Some ps @ [None]) h) (\<lambda>h. Inr ((ps, a), h)))))))"

fun argv_rows ::
    "region \<Rightarrow> nat \<Rightarrow> nat \<Rightarrow> nat list \<Rightarrow> ptr option list heap \<Rightarrow>
     (fault + (ptr list \<times> ptr) list \<times> ptr option list heap) option" where
  "argv_rows argvs q_count len [] h = Some (Inr ([], h))"
| "argv_rows argvs q_count len (i # is) h =
     (case argv_row argvs q_count len i h of
        None \<Rightarrow> None
      | Some (Inl e) \<Rightarrow> Some (Inl e)
      | Some (Inr (row, h)) \<Rightarrow>
          map_option (\<lambda>res. bindE res (\<lambda>(rows, h). Inr (row # rows, h))) (argv_rows argvs q_count len is h))"

text \<open>
  The pointers to the commands need an array of \<open>(size_t)count + 1\<close> elements; unlike the others its
  size has no floor, so a negative count gives one that cannot be. The rows exist only if the vector is
  not the sentinel; the rest of the array, or all of it, is null pointers, and it has one element
  at least.
\<close>

definition command_array :: "64 word \<Rightarrow> fault + nat" where
  "command_array n =
     (if n + 1 = 0 \<or> 2 ^ 60 \<le> uint (n + 1) then Inl Overflow else Inr (unat n))"

definition mpi_comm_spawn_multiple where
  "mpi_comm_spawn_multiple E pr cnt array_of_commands argvs_addr argvs array_of_maxprocs
     array_of_info root comm array_of_errcodes length_array_of_commands length_array_of_argv = (\<lambda>(h, w).
     (case at_root E (of_int_handle E Comm comm) root w of
        Inl e \<Rightarrow> Some (returns e (h, w))
      | Inr q_at_root \<Rightarrow>
          (case bindE (command_array (if q_at_root then to_aint cnt else 0)) (\<lambda>n.
                  dup_each array_of_commands length_array_of_commands
                    (map (\<lambda>n. n * length_array_of_commands) [0..<n]) h) of
             Inl e \<Rightarrow> Some (Inl e)
           | Inr (commands, h) \<Rightarrow>
               (let null_array_of_argv = mpif_is_argvs_null (place E) argvs_addr;
                    q_count = (if q_at_root then cnt else 0);
                    n = nat (sint q_count)
                in map_option (\<lambda>res. bindE res (\<lambda>(rows, h).
                     bindE (from_array (handles E) Info array_of_info q_count) (\<lambda>infos.
                       text_call E pr False ''Comm_spawn_multiple''
                         [Val (sint cnt), Ptrs (map Some commands @ [None]),
                          if null_array_of_argv then Buf null
                          else Ptrss (if n > 0 then map (\<lambda>(ps, a). Some a) rows else [None]),
                          Buf array_of_maxprocs, Handles (if n > 0 then infos else [MPI_INFO_NULL]),
                          Val (sint root), Hdl (of_int_handle E Comm comm),
                          Temp ''intercomm'' MPI_COMM_NULL,
                          Buf (mpif_c_errcodes (place E) array_of_errcodes)]
                         (map Some commands @ concat (map (\<lambda>(ps, a). map Some ps @ [Some a]) rows))
                         (plain_back E [Handle Comm ''intercomm'']) (h, w))))
                   (if null_array_of_argv then Some (Inr ([], h))
                    else argv_rows argvs n length_array_of_argv [0..<n] h)))))"

section \<open>Many copies\<close>

text \<open>The heap with copies of the given strings, one after the other.\<close>

abbreviation with_cstrings :: "byte list list \<Rightarrow> 'x heap \<Rightarrow> 'x heap" where
  "with_cstrings ss h \<equiv> fold with_cstring ss h"

lemma with_cstrings_nallocs [simp]: "nallocs (with_cstrings ss h) = nallocs h + length ss"
  by (induction ss arbitrary: h) (simp_all add: with_cstring_def)

lemma with_cstrings_oom [simp]: "oom (with_cstrings ss h) = oom h"
  by (induction ss arbitrary: h) (simp_all add: with_cstring_def)

lemma with_cstrings_old: "p < nallocs h \<Longrightarrow> live (with_cstrings ss h) p = live h p"
  by (induction ss arbitrary: h) (simp_all add: with_cstring_def)

lemma with_cstrings_new:
  "j < length ss \<Longrightarrow> live (with_cstrings ss h) (nallocs h + j) = Some (Bytes (map Some (ss ! j) @ [Some 0]))"
proof (induction ss arbitrary: h j)
  case (Cons s ss)
  show ?case
  proof (cases j)
    case 0
    have "nallocs h < nallocs (with_cstring s h)" by (simp add: with_cstring_def)
    with 0 show ?thesis by (simp add: with_cstrings_old) (simp add: with_cstring_def)
  next
    case (Suc i)
    with Cons show ?thesis using Cons.IH [of i "with_cstring s h"] by (simp add: with_cstring_def)
  qed
qed simp

lemma with_cstrings_beyond:
  "heap_wf h \<Longrightarrow> nallocs h + length ss \<le> p \<Longrightarrow> live (with_cstrings ss h) p = None"
proof (induction ss arbitrary: h)
  case Nil
  then show ?case unfolding heap_wf_def by (metis add_0_right domIff fold_simps(1) leD list.size(3) id_apply)
next
  case (Cons s ss)
  moreover have "heap_wf (with_cstring s h)"
    using Cons.prems(1) by (auto simp: heap_wf_def with_cstring_def less_Suc_eq)
  ultimately show ?case by (simp add: with_cstring_def)
qed

text \<open>The copies are freed as one.\<close>

lemma free_all_live:
  assumes "distinct ps" and "set ps \<subseteq> dom (live h)"
  shows "free_all (map Some ps) h = Inr (h\<lparr>live := live h |` (- set ps)\<rparr>)"
  using assms
proof (induction ps arbitrary: h)
  case Nil
  then show ?case by (simp add: restrict_map_def)
next
  case (Cons p ps)
  let ?h = "h\<lparr>live := (live h)(p := None)\<rparr>"
  from Cons.prems obtain b where "live h p = Some b" by auto
  then have "free_block (Some p) h = Inr ?h" by (simp add: free_block_def)
  moreover have "free_all (map Some ps) ?h = Inr (?h\<lparr>live := live ?h |` (- set ps)\<rparr>)"
    using Cons.prems by (intro Cons.IH) auto
  moreover have "live ?h |` (- set ps) = live h |` (- set (p # ps))"
    by (auto simp: restrict_map_def)
  ultimately show ?case by simp
qed

lemma free_copies:
  assumes "heap_wf h"
  shows "\<exists>h'. free_all (map Some [nallocs h..<nallocs h + length ss]) (with_cstrings ss h) = Inr h' \<and>
    live h' = live h"
proof -
  let ?ps = "[nallocs h..<nallocs h + length ss]" and ?h = "with_cstrings ss h"
  have "p \<in> dom (live ?h)" if "p \<in> set ?ps" for p
    using that with_cstrings_new [of "p - nallocs h" ss h] by auto
  then have f: "free_all (map Some ?ps) ?h = Inr (?h\<lparr>live := live ?h |` (- set ?ps)\<rparr>)"
    by (intro free_all_live subsetI distinct_upt)
  have "(live ?h |` (- set ?ps)) p = live h p" for p
  proof (cases "p < nallocs h")
    case False
    with assms have "live h p = None" unfolding heap_wf_def by blast
    with False assms show ?thesis
      using with_cstrings_beyond [of h ss p] by (auto simp: restrict_map_def)
  qed (simp add: with_cstrings_old)
  with f show ?thesis by fastforce
qed

lemma load_copies:
  "load_cstrings (map (\<lambda>j. nallocs h + j) js) (with_cstrings ss h) = Inr (map (\<lambda>j. cstr (ss ! j)) js)"
  if "\<forall>j \<in> set js. j < length ss"
  using that by (induction js) (simp_all add: load_cstring_def with_cstrings_new cstring_of_cstr)

lemma dup_each_spec:
  assumes "\<And>n. \<not> oom h n" and "\<forall>off \<in> set offs. off + len \<le> length r"
  shows "dup_each r len offs h =
    Inr ([nallocs h..<nallocs h + length offs],
         with_cstrings (map (\<lambda>off. ltrim (rtrim (field r off len))) offs) h)"
  using assms
proof (induction offs arbitrary: h)
  case (Cons off offs)
  let ?h = "with_cstring (ltrim (rtrim (field r off len))) h"
  have "mpif_strdup_f2c_trim r off len h = Inr (nallocs h, ?h)"
    using Cons.prems by (simp add: strdup_f2c_trim_spec dup_result_def field_def)
  moreover have "nallocs ?h = Suc (nallocs h)" "\<And>n. \<not> oom ?h n"
    using Cons.prems(1) by (simp_all add: with_cstring_def)
  ultimately show ?case
    using Cons.IH [of ?h] Cons.prems(2) by (simp add: upt_conv_Cons del: upt_Suc)
qed simp

lemma plain_back_faults:
  "case plain_back E bs r of Inl e \<Rightarrow> e = Invalid_handle | Inr res \<Rightarrow> ierror res = rc r"
proof -
  have "convert_back E r bs = Inl e \<Longrightarrow> e = Invalid_handle" for e
    by (induction bs) (auto simp: outcome_simps dest: convert_one_faults)
  then show ?thesis by (cases "convert_back E r bs") (auto simp: plain_back_def)
qed

text \<open>
  C33. Starting a program. At the root, with an argument vector that has a blank string, MPI gets the
  command without the blanks around it and, as its arguments, the strings before the first blank
  one, trimmed alike; the loop that counts them ends, the error code is MPI's, and the heap is left
  as it was. A vector without a blank string is read past its end.
\<close>

theorem spawn_passes_the_command_line:
  assumes "roomy h" and "at_root E (of_int_handle E Comm comm) root w = Inr True"
    and "\<not> mpif_is_argv_null (place E) argv_addr" and "length_command \<le> length command"
    and "0 < len" and "\<forall>s \<in> set ss. length s = len"
  shows "case index_where all_blank ss of
      Some k \<Rightarrow> \<exists>f. mpi_comm_spawn E pr command argv_addr (concat ss) maxprocs info root comm errcodes
          length_command len (h, w) = Some (f (h, w)) \<and>
        passes_strings E pr ''Comm_spawn'' (trimmed command length_command # map (\<lambda>s. trimmed s len) (take k ss)) f h w
    | None \<Rightarrow> mpi_comm_spawn E pr command argv_addr (concat ss) maxprocs info root comm errcodes
          length_command len (h, w) = Some (Inl Bad_read)"
proof -
  let ?cmd = "ltrim (rtrim (take length_command command))" and ?n = "nallocs h"
  have oom: "\<not> oom h n" for n using assms(1) by (simp add: roomy_def)
  have dup: "if_root True (mpif_strdup_f2c_trim command 0 length_command) h = Inr (Some ?n, with_cstring ?cmd h)"
    using assms(4) oom by (simp add: if_root_def strdup_f2c_trim_spec dup_result_def)
  note count = fcount_first_blank [OF assms(5,6)]
  show ?thesis
  proof (cases "index_where all_blank ss")
    case None
    with assms(2,3) dup count show ?thesis by (simp add: mpi_comm_spawn_def)
  next
    case (Some k)
    then have k: "k < length ss" by (rule index_where_SomeD)
    let ?offs = "map (\<lambda>n. n * len) [0..<k]" and ?args = "map (\<lambda>s. ltrim (rtrim s)) (take k ss)"
    have fields: "field (concat ss) (n * len) len = ss ! n" if "n < k" for n
      using field_concat [of ss len n] assms(6) k that by simp
    have "n * len + len \<le> length (concat ss)" if "n < k" for n
      using nth_field_bound [of n "length ss" len] length_concat_uniform [of ss len] assms(6) k that by simp
    then have bounds: "\<forall>off \<in> set ?offs. off + len \<le> length (concat ss)" by auto
    have "dup_each (concat ss) len ?offs (with_cstring ?cmd h) =
        Inr ([Suc ?n..<Suc ?n + k], with_cstrings (?cmd # ?args) h)"
    proof -
      have "map (\<lambda>off. ltrim (rtrim (field (concat ss) off len))) ?offs = ?args"
        using k fields by (intro nth_equalityI) simp_all
      with dup_each_spec [OF _ bounds, of "with_cstring ?cmd h"] oom show ?thesis
        by (simp add: with_cstring_def del: upt_Suc)
    qed
    note each = this
    let ?h = "with_cstrings (?cmd # ?args) h"
    have len: "length ?args = k" using k by simp
    have "load_cstrings (map (\<lambda>j. ?n + j) [0..<1]) ?h = Inr (map (\<lambda>j. cstr ((?cmd # ?args) ! j)) [0..<1])"
      by (rule load_copies) simp
    then have cmd: "load_cstring ?n ?h = Inr (cstr ?cmd)"
      by (auto simp: outcome_simps)
    have "load_cstrings (map (\<lambda>j. ?n + j) [1..<Suc k]) ?h = Inr (map (\<lambda>j. cstr ((?cmd # ?args) ! j)) [1..<Suc k])"
      using len by (intro load_copies) auto
    moreover have "map (\<lambda>j. ?n + j) [1..<Suc k] = [Suc ?n..<Suc ?n + k]"
      by (intro nth_equalityI) (simp_all del: upt_Suc)
    moreover have "map (\<lambda>j. cstr ((?cmd # ?args) ! j)) [1..<Suc k] = map cstr ?args"
      using len by (intro nth_equalityI) (simp_all del: upt_Suc)
    ultimately have args: "load_cstrings [Suc ?n..<Suc ?n + k] ?h = Inr (map cstr ?args)" by simp
    obtain h' where free: "free_all (map Some [?n..<?n + Suc k]) ?h = Inr h'" "live h' = live h"
      using free_copies [of h "?cmd # ?args"] assms(1) len by (auto simp: roomy_def simp del: upt_Suc)
    have ptrs: "Some ?n # map Some [Suc ?n..<Suc ?n + k] = map Some [?n..<?n + Suc k]"
      by (simp add: upt_conv_Cons del: upt_Suc)
    let ?as = "[Chars (cstr ?cmd), Argv (map cstr ?args), Val maxprocs, Hdl (of_int_handle E Info info),
      Val (sint root), Hdl (of_int_handle E Comm comm), Temp ''intercomm'' MPI_COMM_NULL,
      Buf (mpif_c_errcodes (place E) errcodes)]"
    obtain r w' where m: "mpi E pr False ''Comm_spawn'' ?as w = (r, w')" by (metis surj_pair)
    let ?res = "bindE (plain_back E [Handle Comm ''intercomm''] r) (\<lambda>res. Inr (res, h', w'))"
    have "mpi_comm_spawn E pr command argv_addr (concat ss) maxprocs info root comm errcodes
        length_command len (h, w) = Some ?res"
      using assms(2,3) dup count Some each cmd args m free(1) ptrs
      by (simp add: mpi_comm_spawn_def text_call_def del: upt_Suc free_all.simps)
    moreover have "concat (map strings_of ?as) =
        trimmed command length_command # map (\<lambda>s. trimmed s len) (take k ss)"
      using assms(6) by (auto dest: in_set_takeD)
    then have "passes_strings E pr ''Comm_spawn''
        (trimmed command length_command # map (\<lambda>s. trimmed s len) (take k ss)) (\<lambda>_. ?res) h w"
      unfolding passes_strings_def using m free(2)
        plain_back_faults [where E = E and bs = "[Handle Comm ''intercomm'']" and r = r]
      by (intro exI [of _ False] exI [of _ ?as] exI [of _ r] exI [of _ w'])
        (cases "plain_back E [Handle Comm ''intercomm''] r", simp_all)
    ultimately show ?thesis using Some by (auto intro: exI [of _ "\<lambda>_. ?res"])
  qed
qed

theorem spawn_passes_the_command_line_witness:
  "\<exists>f. mpi_comm_spawn logging_lib MPI [0x61, blank] 8192 [0x62, blank] 4 0x130 0 0x101 0 2 1 (empty_heap, []) =
       Some (f (empty_heap, [])) \<and>
     passes_strings logging_lib MPI ''Comm_spawn'' [[0x61], [0x62]] f empty_heap []"
proof -
  have root: "at_root logging_lib (of_int_handle logging_lib Comm 0x101) 0 [] = Inr True"
    by (simp add: at_root_def logging_lib_def)
  have argv: "\<not> mpif_is_argv_null (place logging_lib) 8192"
    by (simp add: mpif_is_argv_null_def logging_lib_def cell_addr_packed packed_cell_def)
  have "index_where all_blank [[0x62], [blank]] = Some 1"
    by (simp add: all_blank_def blank_def)
  moreover have "trimmed [0x61, blank] 2 = [0x61]" "trimmed [0x62] 1 = [0x62]"
    by (simp_all add: rtrim_def ltrim_def cstr_def blank_def)
  ultimately show ?thesis
    using spawn_passes_the_command_line [OF roomy_empty root argv, where command = "[0x61, blank]" and
        length_command = "2" and len = "1" and ss = "[[0x62], [blank]]" and maxprocs = "4" and
        info = "0x130" and errcodes = "0" and pr = MPI]
    by simp
qed

text \<open>A negative number of commands makes the array of their pointers impossible, before MPI can object.\<close>

lemma command_array_negative:
  assumes "sint cnt < 0"
  shows "command_array (to_aint cnt) = Inl Overflow"
proof -
  have "to_aint cnt + 1 = word_of_int (sint cnt + 1)"
    unfolding to_aint_eq by (metis of_int_add of_int_1)
  then have u: "uint (to_aint cnt + 1) = (sint cnt + 1) mod 2 ^ 64"
    by (simp only: uint_word_of_int) simp
  show ?thesis
  proof (cases "sint cnt + 1 = 0")
    case True
    with u show ?thesis by (simp add: command_array_def uint_0_iff)
  next
    case False
    have "(sint cnt + 1) mod 2 ^ 64 = (sint cnt + 1 + 2 ^ 64) mod 2 ^ 64" by (rule mod_add_self2 [symmetric])
    also have "\<dots> = sint cnt + 1 + 2 ^ 64"
      using False assms sint_fint_bounds [of cnt] by (intro mod_pos_pos_trivial) simp_all
    finally show ?thesis using u sint_fint_bounds [of cnt] by (simp add: command_array_def)
  qed
qed

lemma spawn_multiple_negative_count:
  assumes "sint cnt < 0" and "at_root E (of_int_handle E Comm comm) root w = Inr True"
  shows "mpi_comm_spawn_multiple E pr cnt commands argvs_addr argvs maxprocs infos root comm errcodes
    len_c len_a (h, w) = Some (Inl Overflow)"
  using command_array_negative [OF assms(1)] assms(2) by (simp add: mpi_comm_spawn_multiple_def)

end
