(* ===== verification/Wrappers_Arrays.thy ===== *)
theory Wrappers_Arrays
  imports Mpi_Calls
begin

text \<open>
  The wrappers of \<open>gen/mpif_functions.c\<close> that convert arrays element by element: the completion
  calls over arrays of requests, datatypes made of and taken apart into others, the periods of
  Cartesian topologies; and the few that convert nothing or an address only.
\<close>

section \<open>Arrays converted back\<close>

record array_outcome = outcome +
  arrays :: "fint list list"

text \<open>The principal call and what is done after it.\<close>

definition replying ::
    "('w, 'z) mpi_lib_scheme \<Rightarrow> profile \<Rightarrow> bool \<Rightarrow> string \<Rightarrow> arg list \<Rightarrow> (reply \<Rightarrow> 'w \<Rightarrow> fault + 'o) \<Rightarrow> 'w \<Rightarrow>
     fault + 'o \<times> 'w" where
  "replying E pr large name args after w =
     (let (r, w) = mpi E pr large name args w in bindE (after r w) (\<lambda>res. Inr (res, w)))"

text \<open>
  Assigning the first elements of a caller's array, those of a local one through \<open>f\<close>; both must be
  long enough.
\<close>

definition assign_first :: "('a \<Rightarrow> fault + fint) \<Rightarrow> 'a list \<Rightarrow> nat \<Rightarrow> fint list \<Rightarrow> fault + fint list" where
  "assign_first f cs n xs =
     bindE (for_upto (\<lambda>i. bindE (read_at cs i) f) [0..<n]) (\<lambda>ys.
       if n \<le> length xs then Inr (ys @ drop n xs) else Inl Bad_write)"

abbreviation requests_back where
  "requests_back E \<equiv> assign_first (toint_checked (handles E) Request)"

text \<open>\<open>if (*index >= 0) ++*index;\<close>\<close>

definition one_based :: "fint \<Rightarrow> fault + fint" where
  "one_based i = (if sint i \<ge> 0 then if sint i = 2 ^ 31 - 1 then Inl Overflow else Inr (i + 1) else Inr i)"

text \<open>\<open>for (int i=0; i<q_count; ++i) ++array_of_indices[i];\<close>\<close>

definition increment :: "fint \<Rightarrow> fault + fint" where
  "increment i = (if sint i = 2 ^ 31 - 1 then Inl Overflow else Inr (i + 1))"

definition lesser :: "fint \<Rightarrow> fint \<Rightarrow> fint" where
  "lesser a b = (if sint a < sint b then a else b)"

definition one_based_each :: "fint list \<Rightarrow> fint \<Rightarrow> fault + fint list" where
  "one_based_each is q_count = assign_first increment is (nat (sint q_count)) is"

section \<open>Completion\<close>

definition mpi_startall where
  "mpi_startall E pr cnt array_of_requests w =
     bindE (from_array (handles E) Request array_of_requests cnt) (\<lambda>c_array_of_requests.
       replying E pr False ''Startall''
         [Val (sint cnt), Temps ''array_of_requests'' c_array_of_requests]
         (\<lambda>r _. bindE (requests_back E (temps r ''array_of_requests'') (nat (sint cnt)) array_of_requests)
           (\<lambda>rs. Inr \<lparr>ierror = rc r, out = [], arrays = [rs]\<rparr>)) w)"

definition mpi_testall where
  "mpi_testall E pr cnt array_of_requests array_of_statuses w =
     bindE (from_array (handles E) Request array_of_requests cnt) (\<lambda>c_array_of_requests.
       replying E pr False ''Testall''
         [Val (sint cnt), Temps ''array_of_requests'' c_array_of_requests, Flag ''flag'' 0,
          Buf (mpif_c_status (place E) array_of_statuses)]
         (\<lambda>r _. bindE (requests_back E (temps r ''array_of_requests'') (nat (sint cnt)) array_of_requests)
           (\<lambda>rs. Inr \<lparr>ierror = rc r, out = [mpif_bool2logical (logicals E) (flag r ''flag'')],
                      arrays = [rs]\<rparr>)) w)"

text \<open>\<open>idx\<close> is what the caller's \<open>index\<close> holds before the call.\<close>

definition mpi_testany where
  "mpi_testany E pr cnt array_of_requests idx status w =
     bindE (from_array (handles E) Request array_of_requests cnt) (\<lambda>c_array_of_requests.
       replying E pr False ''Testany''
         [Val (sint cnt), Temps ''array_of_requests'' c_array_of_requests, Flag ''index'' idx,
          Flag ''flag'' 0, Buf (mpif_c_status (place E) status)]
         (\<lambda>r _. bindE (requests_back E (temps r ''array_of_requests'') (nat (sint cnt)) array_of_requests)
           (\<lambda>rs. bindE (one_based (flag r ''index'')) (\<lambda>i.
             Inr \<lparr>ierror = rc r, out = [i, mpif_bool2logical (logicals E) (flag r ''flag'')],
                  arrays = [rs]\<rparr>))) w)"

definition mpi_testsome where
  "mpi_testsome E pr incount array_of_requests outcount array_of_indices array_of_statuses w =
     bindE (from_array (handles E) Request array_of_requests incount) (\<lambda>c_array_of_requests.
       replying E pr False ''Testsome''
         [Val (sint incount), Temps ''array_of_requests'' c_array_of_requests, Flag ''outcount'' outcount,
          Flags ''array_of_indices'' array_of_indices, Buf (mpif_c_status (place E) array_of_statuses)]
         (\<lambda>r _. bindE (requests_back E (temps r ''array_of_requests'') (nat (sint incount)) array_of_requests)
           (\<lambda>rs. bindE (one_based_each (flags r ''array_of_indices'') (lesser (flag r ''outcount'') incount))
             (\<lambda>is. Inr \<lparr>ierror = rc r, out = [flag r ''outcount''], arrays = [rs, is]\<rparr>))) w)"

definition mpi_waitall where
  "mpi_waitall E pr cnt array_of_requests array_of_statuses w =
     bindE (from_array (handles E) Request array_of_requests cnt) (\<lambda>c_array_of_requests.
       replying E pr False ''Waitall''
         [Val (sint cnt), Temps ''array_of_requests'' c_array_of_requests,
          Buf (mpif_c_status (place E) array_of_statuses)]
         (\<lambda>r _. bindE (requests_back E (temps r ''array_of_requests'') (nat (sint cnt)) array_of_requests)
           (\<lambda>rs. Inr \<lparr>ierror = rc r, out = [], arrays = [rs]\<rparr>)) w)"

definition mpi_waitany where
  "mpi_waitany E pr cnt array_of_requests idx status w =
     bindE (from_array (handles E) Request array_of_requests cnt) (\<lambda>c_array_of_requests.
       replying E pr False ''Waitany''
         [Val (sint cnt), Temps ''array_of_requests'' c_array_of_requests, Flag ''index'' idx,
          Buf (mpif_c_status (place E) status)]
         (\<lambda>r _. bindE (requests_back E (temps r ''array_of_requests'') (nat (sint cnt)) array_of_requests)
           (\<lambda>rs. bindE (one_based (flag r ''index'')) (\<lambda>i.
             Inr \<lparr>ierror = rc r, out = [i], arrays = [rs]\<rparr>))) w)"

definition mpi_waitsome where
  "mpi_waitsome E pr incount array_of_requests outcount array_of_indices array_of_statuses w =
     bindE (from_array (handles E) Request array_of_requests incount) (\<lambda>c_array_of_requests.
       replying E pr False ''Waitsome''
         [Val (sint incount), Temps ''array_of_requests'' c_array_of_requests, Flag ''outcount'' outcount,
          Flags ''array_of_indices'' array_of_indices, Buf (mpif_c_status (place E) array_of_statuses)]
         (\<lambda>r _. bindE (requests_back E (temps r ''array_of_requests'') (nat (sint incount)) array_of_requests)
           (\<lambda>rs. bindE (one_based_each (flags r ''array_of_indices'') (lesser (flag r ''outcount'') incount))
             (\<lambda>is. Inr \<lparr>ierror = rc r, out = [flag r ''outcount''], arrays = [rs, is]\<rparr>))) w)"

text \<open>These three leave the requests alone.\<close>

definition mpi_request_get_status_all where
  "mpi_request_get_status_all E pr cnt array_of_requests array_of_statuses w =
     bindE (from_array (handles E) Request array_of_requests cnt) (\<lambda>c_array_of_requests.
       replying E pr False ''Request_get_status_all''
         [Val (sint cnt), Handles c_array_of_requests, Flag ''flag'' 0,
          Buf (mpif_c_status (place E) array_of_statuses)]
         (\<lambda>r _. Inr \<lparr>ierror = rc r, out = [mpif_bool2logical (logicals E) (flag r ''flag'')], arrays = []\<rparr>) w)"

definition mpi_request_get_status_any where
  "mpi_request_get_status_any E pr cnt array_of_requests idx status w =
     bindE (from_array (handles E) Request array_of_requests cnt) (\<lambda>c_array_of_requests.
       replying E pr False ''Request_get_status_any''
         [Val (sint cnt), Handles c_array_of_requests, Flag ''index'' idx, Flag ''flag'' 0,
          Buf (mpif_c_status (place E) status)]
         (\<lambda>r _. bindE (one_based (flag r ''index'')) (\<lambda>i.
           Inr \<lparr>ierror = rc r, out = [i, mpif_bool2logical (logicals E) (flag r ''flag'')], arrays = []\<rparr>)) w)"

definition mpi_request_get_status_some where
  "mpi_request_get_status_some E pr incount array_of_requests outcount array_of_indices array_of_statuses w =
     bindE (from_array (handles E) Request array_of_requests incount) (\<lambda>c_array_of_requests.
       replying E pr False ''Request_get_status_some''
         [Val (sint incount), Handles c_array_of_requests, Flag ''outcount'' outcount,
          Flags ''array_of_indices'' array_of_indices, Buf (mpif_c_status (place E) array_of_statuses)]
         (\<lambda>r _. bindE (one_based_each (flags r ''array_of_indices'') (lesser (flag r ''outcount'') incount))
           (\<lambda>is. Inr \<lparr>ierror = rc r, out = [flag r ''outcount''], arrays = [is]\<rparr>)) w)"

section \<open>Datatypes\<close>

text \<open>
  In the large-count version the counter of the loop is still an \<open>int\<close>: it overflows before it
  reaches a count that needs more.
\<close>

definition from_counted :: "handle_api \<Rightarrow> hkind \<Rightarrow> fint list \<Rightarrow> int \<Rightarrow> fault + handle list" where
  "from_counted H k xs n =
     (if n \<ge> 2 ^ 31 then Inl Overflow
      else for_upto (\<lambda>i. bindE (read_at xs i) (\<lambda>x. Inr (fromint H k x))) [0..<nat n])"

definition mpi_type_create_struct where
  "mpi_type_create_struct E pr large cnt array_of_blocklengths array_of_displacements array_of_types w =
     bindE (from_counted (handles E) Type array_of_types cnt) (\<lambda>c_array_of_types.
       calls E pr large ''Type_create_struct''
         [Val cnt, Buf array_of_blocklengths, Buf array_of_displacements, Handles c_array_of_types,
          Temp ''newtype'' MPI_DATATYPE_NULL] [Handle Type ''newtype''] w)"

text \<open>The large-count version has a fourth kind of contents.\<close>

definition mpi_type_get_contents where
  "mpi_type_get_contents E pr large datatype max_integers max_addresses max_large_counts max_datatypes
     array_of_integers array_of_addresses array_of_large_counts array_of_datatypes w =
     (if max_datatypes \<ge> 2 ^ 31 then Inl Overflow
      else replying E pr large ''Type_get_contents''
        ([Hdl (of_int_handle E Type datatype), Val max_integers, Val max_addresses] @
         (if large then [Val max_large_counts] else []) @
         [Val max_datatypes, Buf array_of_integers, Buf array_of_addresses] @
         (if large then [Buf array_of_large_counts] else []) @
         [Temps ''array_of_datatypes'' (replicate (nat max_datatypes) MPI_DATATYPE_NULL)])
        (\<lambda>r _. bindE (assign_first (toint_checked (handles E) Type) (temps r ''array_of_datatypes'')
                       (nat max_datatypes) array_of_datatypes)
          (\<lambda>ts. Inr \<lparr>ierror = rc r, out = [], arrays = [ts]\<rparr>)) w)"

definition mpi_type_get_envelope where
  "mpi_type_get_envelope E pr large datatype num_integers num_addresses num_large_counts num_datatypes
     combiner =
     calls E pr large ''Type_get_envelope''
       ([Hdl (of_int_handle E Type datatype), Buf num_integers, Buf num_addresses] @
        (if large then [Buf num_large_counts] else []) @ [Buf num_datatypes, Buf combiner]) []"

section \<open>Cartesian topologies\<close>

definition truth_values :: "logical_repr \<Rightarrow> fint list \<Rightarrow> fint \<Rightarrow> fault + fint list" where
  "truth_values L xs n =
     for_upto (\<lambda>i. bindE (read_at xs i) (\<lambda>x. Inr (mpif_logical2bool L x))) [0..<nat (sint n)]"

definition mpi_cart_create where
  "mpi_cart_create E pr comm_old ndims dms periods reorder w =
     bindE (truth_values (logicals E) periods ndims) (\<lambda>c_periods.
       calls E pr False ''Cart_create''
         [Hdl (of_int_handle E Comm comm_old), Val (sint ndims), Buf dms, Vals c_periods,
          Val (sint (mpif_logical2bool (logicals E) reorder)), Temp ''comm_cart'' MPI_COMM_NULL]
         [Handle Comm ''comm_cart''] w)"

definition mpi_cart_map where
  "mpi_cart_map E pr comm ndims dms periods newrank w =
     bindE (truth_values (logicals E) periods ndims) (\<lambda>c_periods.
       calls E pr False ''Cart_map''
         [Hdl (of_int_handle E Comm comm), Val (sint ndims), Buf dms, Vals c_periods, Buf newrank] [] w)"

definition mpi_cart_sub where
  "mpi_cart_sub E pr comm remain_dims w =
     (let (e, ndims) = PMPI_Cartdim_get E (of_int_handle E Comm comm) w
      in if e \<noteq> MPI_SUCCESS then returns e w
         else bindE (truth_values (logicals E) remain_dims ndims) (\<lambda>c_remain_dims.
           calls E pr False ''Cart_sub''
             [Hdl (of_int_handle E Comm comm), Vals c_remain_dims, Temp ''newcomm'' MPI_COMM_NULL]
             [Handle Comm ''newcomm''] w))"

text \<open>Only the communicator's dimensions are converted back, after a second question to MPI.\<close>

definition mpi_cart_get where
  "mpi_cart_get E pr comm maxdims dms periods coords w =
     replying E pr False ''Cart_get''
       [Hdl (of_int_handle E Comm comm), Val (sint maxdims), Buf dms,
        Flags ''periods'' (replicate (nat (sint maxdims)) 0), Buf coords]
       (\<lambda>r w. let (e, ndims) = PMPI_Cartdim_get E (of_int_handle E Comm comm) w;
                  ndims_periods = (if rc r = MPI_SUCCESS \<and> e = MPI_SUCCESS then ndims else 0);
                  ndims_periods = (if sint ndims_periods > sint maxdims then maxdims else ndims_periods)
              in bindE (assign_first (\<lambda>p. Inr (mpif_bool2logical (logicals E) p)) (flags r ''periods'')
                         (nat (sint ndims_periods)) periods)
                   (\<lambda>ps. Inr \<lparr>ierror = rc r, out = [], arrays = [ps]\<rparr>)) w"

section \<open>Addresses\<close>

text \<open>
  The address of a detached buffer goes through the caller's variable, which is read and
  written again on success.
\<close>

record addr_outcome = outcome +
  address :: addr

definition detached ::
    "('w, 'z) mpi_lib_scheme \<Rightarrow> reply \<Rightarrow> fault + addr_outcome" where
  "detached E r = Inr \<lparr>ierror = rc r, out = [],
     address = (if rc r = MPI_SUCCESS then mpif_f_buffer_addr (place E) (temp r ''buffer_addr'')
                else temp r ''buffer_addr'')\<rparr>"

definition mpi_buffer_detach where
  "mpi_buffer_detach E pr large buffer_addr sz =
     replying E pr large ''Buffer_detach'' [Temp ''buffer_addr'' buffer_addr, Buf sz] (\<lambda>r _. detached E r)"

definition mpi_comm_detach_buffer where
  "mpi_comm_detach_buffer E pr large comm buffer_addr sz =
     replying E pr large ''Comm_detach_buffer''
       [Hdl (of_int_handle E Comm comm), Temp ''buffer_addr'' buffer_addr, Buf sz] (\<lambda>r _. detached E r)"

definition mpi_session_detach_buffer where
  "mpi_session_detach_buffer E pr large session buffer_addr sz =
     replying E pr large ''Session_detach_buffer''
       [Hdl (of_int_handle E Session session), Temp ''buffer_addr'' buffer_addr, Buf sz] (\<lambda>r _. detached E r)"

text \<open>
  Functions that return a value. The sum and the difference of addresses are MPI's functions of two
  arguments.
\<close>

definition mpi_aint_add :: "(profile \<Rightarrow> aint \<Rightarrow> aint \<Rightarrow> aint) \<Rightarrow> profile \<Rightarrow> aint \<Rightarrow> aint \<Rightarrow> aint" where
  "mpi_aint_add MPI_Aint_add pr base disp = MPI_Aint_add pr base disp"

definition mpi_aint_diff :: "(profile \<Rightarrow> aint \<Rightarrow> aint \<Rightarrow> aint) \<Rightarrow> profile \<Rightarrow> aint \<Rightarrow> aint \<Rightarrow> aint" where
  "mpi_aint_diff MPI_Aint_diff pr addr1 addr2 = MPI_Aint_diff pr addr1 addr2"

text \<open>A call without an error code, and one that does nothing.\<close>

definition mpi_pcontrol :: "('w, 'z) mpi_lib_scheme \<Rightarrow> profile \<Rightarrow> fint \<Rightarrow> 'w \<Rightarrow> 'w" where
  "mpi_pcontrol E pr level w = snd (mpi E pr False ''Pcontrol'' [Val (sint level)] w)"

definition mpi_f_sync_reg :: "addr \<Rightarrow> 'w \<Rightarrow> 'w" where
  "mpi_f_sync_reg buf w = w"

section \<open>What the loops compute\<close>

lemma assign_first_ok:
  assumes "n \<le> length cs" and "n \<le> length xs" and "\<And>i. i < n \<Longrightarrow> f (cs ! i) = Inr (g (cs ! i))"
  shows "assign_first f cs n xs = Inr (map g (take n cs) @ drop n xs)"
proof -
  have "for_upto (\<lambda>i. bindE (read_at cs i) f) [0..<n] = Inr (map (\<lambda>i. g (cs ! i)) [0..<n])"
    by (rule for_upto_ok) (use assms in \<open>simp add: read_at_def\<close>)
  moreover have "map (\<lambda>i. g (cs ! i)) [0..<n] = map g (take n cs)"
    using assms(1) by (intro nth_equalityI) simp_all
  ultimately show ?thesis using assms(2) by (simp add: assign_first_def)
qed

lemma length_fold_update [simp]: "length (fold (\<lambda>j cs. cs[j := v]) js cs) = length cs"
  by (induction js arbitrary: cs) simp_all

lemma nth_fold_update:
  "i < length cs \<Longrightarrow> fold (\<lambda>j cs. cs[j := v]) js cs ! i = (if i \<in> set js then v else cs ! i)"
  by (induction js arbitrary: cs) (auto simp: nth_list_update)

lemma map_fold_update: "map g (fold (\<lambda>j cs. cs[j := v]) js cs) = fold (\<lambda>j ys. ys[j := g v]) js (map g cs)"
  by (induction js arbitrary: cs) (simp_all add: map_update)

lemma from_array_all: "length xs = nat (sint n) \<Longrightarrow> from_array H k xs n = Inr (map (fromint H k) xs)"
  by (simp add: from_array_spec)

section \<open>Completing requests\<close>

text \<open>
  What the standard says of the completion of the requests at the positions \<open>js\<close>, counted from zero
  as C does: they become null, the first of them or all are reported, and no other changes.
\<close>

definition completes :: "('w, 'z) mpi_lib_scheme \<Rightarrow> profile \<Rightarrow> string \<Rightarrow> nat list \<Rightarrow> 'w \<Rightarrow> bool" where
  "completes E pr name js w \<longleftrightarrow> (\<forall>args. let r = fst (mpi E pr False name args w) in
     temps r ''array_of_requests'' =
       fold (\<lambda>j cs. cs[j := MPI_REQUEST_NULL]) js (initials args ''array_of_requests'') \<and>
     flag r ''index'' = of_nat (hd js) \<and> flag r ''outcount'' = of_nat (length js) \<and>
     flags r ''array_of_indices'' =
       map of_nat js @ drop (length js) (incomings args ''array_of_indices''))"

lemma null_request_back:
  assumes "handle_api_ok (handles E)"
  shows "toint_checked (handles E) Request MPI_REQUEST_NULL = Inr (to_fint MPI_REQUEST_NULL)"
  using toint_checked_null [OF assms, of Request] by simp

text \<open>Requests that are integers of the caller convert there and back.\<close>

lemma requests_back_completed:
  assumes "handle_api_ok (handles E)" and "length rs = nat (sint n)"
    and "\<And>x. x \<in> set rs \<Longrightarrow> toint (handles E) Request (fromint (handles E) Request x) = Some x"
  shows "requests_back E (fold (\<lambda>j cs. cs[j := MPI_REQUEST_NULL]) js (map (fromint (handles E) Request) rs))
      (nat (sint n)) rs = Inr (fold (\<lambda>j xs. xs[j := to_fint MPI_REQUEST_NULL]) js rs)"
proof -
  let ?cs = "fold (\<lambda>j cs. cs[j := MPI_REQUEST_NULL]) js (map (fromint (handles E) Request) rs)"
  let ?g = "\<lambda>c. case toint_checked (handles E) Request c of Inr x \<Rightarrow> x | Inl e \<Rightarrow> 0"
  have each: "toint_checked (handles E) Request (?cs ! i) = Inr (?g (?cs ! i))" if "i < length rs" for i
    using that null_request_back [OF assms(1)] assms(3) [of "rs ! i"]
    by (simp add: nth_fold_update toint_checked_def)
  have "map (\<lambda>x. ?g (fromint (handles E) Request x)) rs = rs"
    using assms(3) by (intro map_idI) (simp add: toint_checked_def)
  then have "map ?g ?cs = fold (\<lambda>j xs. xs[j := to_fint MPI_REQUEST_NULL]) js rs"
    by (simp add: map_fold_update null_request_back [OF assms(1)] o_def)
  then show ?thesis
    using assms(2) each by (subst assign_first_ok [where g = ?g]) simp_all
qed

lemma one_based_of_nat: "j + 1 < 2 ^ 31 \<Longrightarrow> one_based (of_nat j) = Inr (of_nat (j + 1))"
  by (simp add: one_based_def sint_of_nat_small add.commute)

lemma one_based_each_of_nat:
  assumes "\<forall>j \<in> set js. j + 1 < 2 ^ 31" and "length js < 2 ^ 31" and "sint q = int (length js)"
  shows "one_based_each (map of_nat js @ xs) q = Inr (map (\<lambda>j. of_nat (j + 1)) js @ xs)"
proof -
  have "increment ((map of_nat js @ xs) ! i) = Inr ((map of_nat js @ xs) ! i + 1)" if "i < length js" for i
  proof -
    have "js ! i + 1 < 2 ^ 31" using assms(1) nth_mem [OF that] by blast
    then show ?thesis using that by (simp add: increment_def nth_append sint_of_nat_small)
  qed
  then show ?thesis
    using assms(3) unfolding one_based_each_def
    by (subst assign_first_ok [where g = "\<lambda>i. i + 1"]) (simp_all add: add.commute)
qed

text \<open>
  C34. The index names the request. After a wait for any request, and a wait for some, the caller finds
  null requests in exactly the places that completed, every other request as it was, and indices
  counted from one, so that element \<open>index\<close> of Fortran's array is the request that completed;
  indices beyond the number of completed requests keep their values.
\<close>

theorem waiting_reports_the_completed_requests:
  assumes "handle_api_ok (handles E)" and "length rs = nat (sint n)"
    and "\<And>x. x \<in> set rs \<Longrightarrow> toint (handles E) Request (fromint (handles E) Request x) = Some x"
    and "js \<noteq> []" and "set js \<subseteq> {..<length rs}" and "length js \<le> length rs"
    and "completes E pr ''Waitany'' [hd js] w" and "completes E pr ''Waitsome'' js w"
    and "length js \<le> length is"
  shows "(\<exists>e w'. mpi_waitany E pr n rs idx status w =
      Inr (\<lparr>ierror = e, out = [of_nat (hd js + 1)],
            arrays = [rs[hd js := to_fint MPI_REQUEST_NULL]]\<rparr>, w')) \<and>
    (\<exists>e w'. mpi_waitsome E pr n rs outcount is statuses w =
      Inr (\<lparr>ierror = e, out = [of_nat (length js)],
            arrays = [fold (\<lambda>j xs. xs[j := to_fint MPI_REQUEST_NULL]) js rs,
                      map (\<lambda>j. of_nat (j + 1)) js @ drop (length js) is]\<rparr>, w'))"
proof
  let ?cs = "map (fromint (handles E) Request) rs"
  have hoisted: "from_array (handles E) Request rs n = Inr ?cs"
    using assms(2) by (rule from_array_all)
  note converted = requests_back_completed [OF assms(1-3)]
  have small: "length rs < 2 ^ 31" using assms(2) sint_fint_bounds [of n] by (simp add: nat_less_iff)
  have n: "sint n = int (length rs)" using assms(2,5,4) by (cases js) auto
  have hd: "hd js + 1 < 2 ^ 31" using assms(4,5) small by (cases js) auto
  let ?any = "[Val (sint n), Temps ''array_of_requests'' ?cs, Flag ''index'' idx,
    Buf (mpif_c_status (place E) status)]"
  show "\<exists>e w'. mpi_waitany E pr n rs idx status w =
      Inr (\<lparr>ierror = e, out = [of_nat (hd js + 1)],
            arrays = [rs[hd js := to_fint MPI_REQUEST_NULL]]\<rparr>, w')"
  proof -
    obtain r w' where m: "mpi E pr False ''Waitany'' (?any) w = (r, w')" by (metis surj_pair)
    have "temps r ''array_of_requests'' = fold (\<lambda>j cs. cs[j := MPI_REQUEST_NULL]) [hd js] ?cs"
      "flag r ''index'' = of_nat (hd js)"
      using assms(7) [unfolded completes_def Let_def, rule_format, of "?any"] m by simp_all
    with m hd show ?thesis
      by (simp add: mpi_waitany_def hoisted replying_def converted [of "[hd js]", simplified] one_based_of_nat)
  qed
  let ?some = "[Val (sint n), Temps ''array_of_requests'' ?cs, Flag ''outcount'' outcount,
    Flags ''array_of_indices'' is, Buf (mpif_c_status (place E) statuses)]"
  obtain r w' where m: "mpi E pr False ''Waitsome'' ?some w = (r, w')" by (metis surj_pair)
  have r: "temps r ''array_of_requests'' = fold (\<lambda>j cs. cs[j := MPI_REQUEST_NULL]) js ?cs"
    "flag r ''outcount'' = of_nat (length js)"
    "flags r ''array_of_indices'' = map of_nat js @ drop (length js) is"
    using assms(8) [unfolded completes_def Let_def, rule_format, of ?some] m by simp_all
  have "sint (lesser (of_nat (length js)) n) = int (length js)"
    using assms(6) small n by (simp add: lesser_def sint_of_nat_small)
  then have "one_based_each (map of_nat js @ drop (length js) is) (lesser (of_nat (length js)) n) =
      Inr (map (\<lambda>j. of_nat (j + 1)) js @ drop (length js) is)"
    using assms(5,6) small by (intro one_based_each_of_nat) auto
  with m r show "\<exists>e w'. mpi_waitsome E pr n rs outcount is statuses w =
      Inr (\<lparr>ierror = e, out = [of_nat (length js)],
            arrays = [fold (\<lambda>j xs. xs[j := to_fint MPI_REQUEST_NULL]) js rs,
                      map (\<lambda>j. of_nat (j + 1)) js @ drop (length js) is]\<rparr>, w')"
    by (simp add: mpi_waitsome_def hoisted replying_def converted)
qed

definition completing_lib :: "nat list \<Rightarrow> (string \<times> arg list) list mpi_lib" where
  "completing_lib js = logging_lib
     \<lparr>mpi := (\<lambda>pr large name args w.
        ((short_reply MPI_SUCCESS (\<lambda>_. 0))
          \<lparr>flag := (\<lambda>x. if x = ''index'' then of_nat (hd js) else of_nat (length js)),
           temps := (\<lambda>_. fold (\<lambda>j cs. cs[j := MPI_REQUEST_NULL]) js (initials args ''array_of_requests'')),
           flags := (\<lambda>_. map of_nat js @ drop (length js) (incomings args ''array_of_indices''))\<rparr>,
         w @ [(name, args)]))\<rparr>"

theorem waiting_reports_the_completed_requests_witness:
  "\<exists>e w'. mpi_waitany (completing_lib [1]) MPI 3 [5, 6, 7] 9 0 [] =
     Inr (\<lparr>ierror = e, out = [2], arrays = [[5, to_fint MPI_REQUEST_NULL, 7]]\<rparr>, w')"
proof -
  have c: "completes (completing_lib [1]) MPI name [1] []" for name
    by (simp add: completes_def completing_lib_def)
  have h: "handles (completing_lib js) = identity_handles" for js
    by (simp add: completing_lib_def logging_lib_def)
  show ?thesis
    using conjunct1 [OF waiting_reports_the_completed_requests, of "completing_lib [1]" "[5, 6, 7]" 3 "[1]" MPI "[]" "[0]" 9 0] c
      identity_handles_ok [unfolded identity_handles_def]
    by (simp add: h identity_handles_def)
qed

section \<open>Periods\<close>

text \<open>What the standard says of \<open>MPI_Cart_get\<close> for a communicator with the given periods.\<close>

definition has_periods :: "('w, 'z) mpi_lib_scheme \<Rightarrow> profile \<Rightarrow> handle \<Rightarrow> fint list \<Rightarrow> fint \<Rightarrow> 'w \<Rightarrow> bool" where
  "has_periods E pr c cs ndims w \<longleftrightarrow> (\<forall>args. let (r, w') = mpi E pr False ''Cart_get'' args w in
     rc r = MPI_SUCCESS \<and> PMPI_Cartdim_get E c w' = (MPI_SUCCESS, ndims) \<and>
     flags r ''periods'' = cs @ drop (length cs) (incomings args ''periods''))"

lemma truth_values_ok:
  "length xs = nat (sint n) \<Longrightarrow> truth_values L xs n = Inr (map (mpif_logical2bool L) xs)"
  unfolding truth_values_def using for_upto_read [of "nat (sint n)" xs "mpif_logical2bool L"] by simp

text \<open>
  C35. Periods survive a topology. What \<open>MPI_Cart_create\<close> is passed for an array of LOGICALs is such that,
  once MPI gives it back from \<open>MPI_Cart_get\<close>, the caller's array holds the compiler's \<open>.FALSE.\<close> where
  the created one did and its \<open>.TRUE.\<close> elsewhere, whatever the patterns are; and elements beyond the
  communicator's dimensions are left alone, in an array with room for more.
\<close>

theorem cart_periods_round_trip:
  assumes "logical_ok (logicals E)" and "length ps = nat (sint ndims)"
    and "0 \<le> sint ndims" and "sint ndims \<le> sint maxdims" and "length xs = nat (sint maxdims)"
  shows "let cs = map (mpif_logical2bool (logicals E)) ps in (\<exists>args. Vals cs \<in> set args \<and>
    mpi_cart_create E pr comm ndims dms ps reorder w =
      calls E pr False ''Cart_create'' args [Handle Comm ''comm_cart''] w) \<and>
    (has_periods E pr (of_int_handle E Comm cart) cs ndims w1 \<longrightarrow>
      (\<exists>w2. mpi_cart_get E pr cart maxdims dms' xs coords w1 =
        Inr (\<lparr>ierror = MPI_SUCCESS, out = [], arrays =
          [map (\<lambda>p. if p = logical_false (logicals E) then logical_false (logicals E)
                    else logical_true (logicals E)) ps @ drop (length ps) xs]\<rparr>, w2)))"
proof -
  let ?L = "logicals E"
  let ?cs = "map (mpif_logical2bool ?L) ps"
  let ?args = "[Hdl (of_int_handle E Comm comm), Val (sint ndims), Buf dms, Vals ?cs,
    Val (sint (mpif_logical2bool ?L reorder)), Temp ''comm_cart'' MPI_COMM_NULL]"
  have create: "mpi_cart_create E pr comm ndims dms ps reorder w =
      calls E pr False ''Cart_create'' ?args [Handle Comm ''comm_cart''] w"
    by (simp add: mpi_cart_create_def truth_values_ok [OF assms(2)])
  have "\<exists>w2. mpi_cart_get E pr cart maxdims dms' xs coords w1 =
      Inr (\<lparr>ierror = MPI_SUCCESS, out = [], arrays =
        [map (\<lambda>p. if p = logical_false ?L then logical_false ?L else logical_true ?L) ps @
         drop (length ps) xs]\<rparr>, w2)"
    if law: "has_periods E pr (of_int_handle E Comm cart) ?cs ndims w1"
  proof -
    let ?get = "[Hdl (of_int_handle E Comm cart), Val (sint maxdims), Buf dms',
      Flags ''periods'' (replicate (nat (sint maxdims)) 0), Buf coords]"
    obtain r w2 where m: "mpi E pr False ''Cart_get'' ?get w1 = (r, w2)" by (metis surj_pair)
    from law [unfolded has_periods_def, rule_format, of ?get] m
    have r: "rc r = MPI_SUCCESS" "PMPI_Cartdim_get E (of_int_handle E Comm cart) w2 = (MPI_SUCCESS, ndims)"
      "flags r ''periods'' = ?cs @ drop (length ps) (replicate (nat (sint maxdims)) 0)"
      by simp_all
    have "assign_first (\<lambda>p. Inr (mpif_bool2logical ?L p)) (flags r ''periods'') (nat (sint ndims)) xs =
        Inr (map (mpif_bool2logical ?L) (take (nat (sint ndims)) (flags r ''periods'')) @ drop (nat (sint ndims)) xs)"
      using assms(2-5) r(3) by (intro assign_first_ok) simp_all
    moreover have "map (mpif_bool2logical ?L) (take (nat (sint ndims)) (flags r ''periods'')) =
        map (\<lambda>p. if p = logical_false ?L then logical_false ?L else logical_true ?L) ps"
      using assms(1,2) r(3) by (simp add: mpif_logical2bool_def mpif_bool2logical_def)
    ultimately show ?thesis
      using m r(1,2) assms(2,4) by (simp add: mpi_cart_get_def replying_def)
  qed
  then show ?thesis using create unfolding Let_def
    by (intro conjI exI [of _ ?args]) simp_all
qed

definition periodic_lib :: "fint list \<Rightarrow> (string \<times> arg list) list mpi_lib" where
  "periodic_lib cs = logging_lib
     \<lparr>mpi := (\<lambda>pr large name args w.
        ((short_reply MPI_SUCCESS (\<lambda>_. 0))
          \<lparr>flags := (\<lambda>_. cs @ drop (length cs) (incomings args ''periods''))\<rparr>, w @ [(name, args)]))\<rparr>"

theorem cart_periods_round_trip_witness:
  "\<exists>w2. mpi_cart_get (periodic_lib [0, 1]) MPI 0x101 3 0 [9, 9, 9] 0 [] =
     Inr (\<lparr>ierror = MPI_SUCCESS, out = [], arrays = [[0, 1, 9]]\<rparr>, w2)"
proof -
  have lib: "logicals (periodic_lib cs) = \<lparr>logical_true = 1, logical_false = 0\<rparr>" for cs
    by (simp add: periodic_lib_def logging_lib_def)
  have "has_periods (periodic_lib [0, 1]) MPI (of_int_handle (periodic_lib [0, 1]) Comm 0x101) [0, 1] 2 []"
    by (simp add: has_periods_def periodic_lib_def logging_lib_def)
  then show ?thesis
    using cart_periods_round_trip [where E = "periodic_lib [0, 1]" and ps = "[0, 7]" and ndims = "2" and
        maxdims = "3" and xs = "[9, 9, 9]" and pr = MPI and cart = "0x101" and ?w1.0 = "[]" and
        dms' = "0" and coords = "0"]
    by (simp add: lib logical_ok_def mpif_logical2bool_def Let_def)
qed

end
