(* ===== verification/Cdesc_Texts.thy ===== *)
theory Cdesc_Texts
  imports Wrappers_Buffers Wrappers_Strings
begin

text \<open>
  The entry points of \<open>gen/mpif_f08_cdesc.c\<close> that take both descriptors and a string,
  \<open>MPI_Pack_external\<close> and \<open>MPI_Unpack_external\<close>: the copy of the string is made before the buffers are
  checked and freed on both ways out. \<open>MPI_F_sync_reg\<close> has an empty body.
\<close>

definition text_entry ::
    "('w, 'z) cdesc_lib_scheme \<Rightarrow> region \<Rightarrow> nat \<Rightarrow> (buffer \<times> cdesc) list \<Rightarrow>
     profile \<Rightarrow> bool \<Rightarrow> string \<Rightarrow> (ptr \<Rightarrow> hoisted list \<Rightarrow> arg list) \<Rightarrow>
     ptr option list heap \<times> 'w \<Rightarrow> fault + text_outcome \<times> ptr option list heap \<times> 'w" where
  "text_entry E datarep length_datarep bs pr large name args = (\<lambda>(h, w).
     bindE (mpif_strdup_f2c datarep 0 length_datarep h) (\<lambda>(c_datarep, h).
     bindE (check_buffers E bs MPI_SUCCESS w) (\<lambda>(err, qs, w).
       if err \<noteq> MPI_SUCCESS
       then (let w = free_types E qs w
             in bindE (free_block (Some c_datarep) h) (\<lambda>h. Inr (\<lparr>ierror = err, out = [], texts = []\<rparr>, h, w)))
       else bindE (text_call E pr large name (args c_datarep qs) [Some c_datarep] (text_back E []) (h, w))
              (\<lambda>(r, h, w). Inr (r, h, free_types E qs w)))))"

definition mpi_pack_external_cdesc where
  "mpi_pack_external_cdesc E pr large datarep inbuf incount datatype outbuf outsize position
     length_datarep =
     text_entry E datarep length_datarep
       [(Walk True incount (of_int_handle E Type datatype), inbuf), (Contig True, outbuf)]
       pr large ''Pack_external''
       (\<lambda>c_datarep qs.
         [Ptr (Some c_datarep), Buf (q_addr (qs ! 0)), count_arg large (qs ! 0), Hdl (q_type (qs ! 0)),
          Buf (q_addr (qs ! 1)), Val outsize, Buf position])"

definition mpi_unpack_external_cdesc where
  "mpi_unpack_external_cdesc E pr large datarep inbuf insize position outbuf outcount datatype
     length_datarep =
     text_entry E datarep length_datarep
       [(Contig True, inbuf), (Walk True outcount (of_int_handle E Type datatype), outbuf)]
       pr large ''Unpack_external''
       (\<lambda>c_datarep qs.
         [Ptr (Some c_datarep), Buf (q_addr (qs ! 0)), Val insize, Buf position,
          Buf (q_addr (qs ! 1)), count_arg large (qs ! 1), Hdl (q_type (qs ! 1))])"

definition mpi_f_sync_reg_cdesc :: "cdesc \<Rightarrow> 'w \<Rightarrow> 'w" where
  "mpi_f_sync_reg_cdesc buf w = w"

section \<open>Nothing is lost\<close>

lemma text_call_result:
  assumes "text_call E pr large name args frees back (h, w) = Inr (r, h', w')"
  shows "\<exists>as. w' = snd (mpi E pr large name as w) \<and> free_all frees h = Inr h'"
proof -
  obtain as where as: "fetch_all h args = Inr as"
    using assms by (cases "fetch_all h args") (auto simp: text_call_def)
  obtain r1 w1 where "mpi E pr large name as w = (r1, w1)"
    by (cases "mpi E pr large name as w")
  with assms as show ?thesis
    by (auto simp: text_call_def bindE_eq_Inr intro!: exI [of _ as])
qed

lemma text_entry_releases:
  assumes laws: "type_laws (types E) tm" and known: "\<forall>bd \<in> set bs. known E (tm w) bd"
    and mpi: "\<And>name as w. tm (snd (mpi E pr large name as w)) = tm w"
    and roomy: "roomy h" and len: "length_datarep \<le> length datarep"
    and run: "text_entry E datarep length_datarep bs pr large name args (h, w) = Inr (r, h', w')"
  shows "live h' = live h \<and> tm w' = tm w"
proof -
  let ?s = "rtrim (take length_datarep datarep)" and ?p = "nallocs h"
  let ?h = "with_cstring ?s h"
  have fresh: "live h ?p = None" and ok: "\<not> oom h ?p"
    using roomy by (simp_all add: roomy_def heap_wf_fresh)
  have dup: "mpif_strdup_f2c datarep 0 length_datarep h = Inr (?p, ?h)"
    using strdup_f2c_spec [where off = 0 and h = h, simplified, OF len] ok by (simp add: dup_result_def)
  have free: "free_block (Some ?p) ?h = Inr (h\<lparr>nallocs := Suc ?p\<rparr>)"
    using fresh by (simp add: free_block_def with_cstring_def fun_upd_idem)
  obtain err qs w1 where c: "check_buffers E bs MPI_SUCCESS w = Inr (err, qs, w1)"
    using run dup by (auto simp: text_entry_def bindE_eq_Inr)
  have hold: "holding_all (tm w) qs (tm w1)"
    by (rule check_buffers_holding [OF laws known c])
  show ?thesis
  proof (cases "err = MPI_SUCCESS")
    case True
    from run have "text_entry E datarep length_datarep bs pr large name args (h, w) = Inr (r, h', w')" .
    then obtain w2 where
      call: "text_call E pr large name (args ?p qs) [Some ?p] (text_back E []) (?h, w1) = Inr (r, h', w2)"
      and w': "w' = free_types E qs w2"
      unfolding text_entry_def prod.case dup bindE_Inr c True by (auto simp: bindE_eq_Inr)
    from text_call_result [OF call] free mpi have "tm w2 = tm w1" "live h' = live h"
      by auto
    with w'
    show ?thesis
      using free_types_all [OF laws] hold by simp
  next
    case False
    then show ?thesis
      using run dup c free free_types_all [OF laws hold]
      by (auto simp: text_entry_def)
  qed
qed

lemma text_entry_contiguous:
  assumes "\<And>w. check_buffers E bs MPI_SUCCESS w = Inr (MPI_SUCCESS, qs, w)"
    and "\<And>w. free_types E qs w = w"
  shows "text_entry E datarep length_datarep bs pr large name args (h, w) =
    bindE (mpif_strdup_f2c datarep 0 length_datarep h) (\<lambda>(c_datarep, h).
      text_call E pr large name (args c_datarep qs) [Some c_datarep] (text_back E []) (h, w))"
  using assms
  by (auto simp: text_entry_def bindE_def split: sum.split prod.split)

lemma pack_external_contiguous:
  assumes "\<not> strided E (mpif_c_buffer (place E) (base_addr d)) d"
    and "\<not> strided E (mpif_c_buffer (place E) (base_addr e)) e" and "count_ok large n"
  shows "mpi_pack_external_cdesc E pr large datarep d n datatype e outsize position len hw =
      mpi_pack_external E pr large datarep (base_addr d) n datatype (base_addr e) outsize position len hw \<and>
    mpi_unpack_external_cdesc E pr large datarep d insize position e n datatype len hw =
      mpi_unpack_external E pr large datarep (base_addr d) insize position (base_addr e) n datatype len hw"
  using assms
  by (cases hw) (auto simp: mpi_pack_external_cdesc_def mpi_unpack_external_cdesc_def text_entry_contiguous
      mpi_pack_external_def mpi_unpack_external_def free_owned_def count_arg_ok cbuffer_is_buffer Let_def)

lemma text_entry_refuses:
  assumes "\<And>err qs v. check_buffers E bs MPI_SUCCESS w = Inr (err, qs, v) \<Longrightarrow> err = MPI_ERR_BUFFER"
    and "text_entry E datarep len bs pr large name args (h, w) = Inr (r, h', w')"
  shows "ierror r = MPI_ERR_BUFFER"
  using assms by (auto simp: text_entry_def bindE_eq_Inr split: if_splits)

text \<open>
  C32. Packing for another machine loses nothing. Whatever \<open>MPI_Pack_external\<close> or \<open>MPI_Unpack_external\<close>
  returns through descriptors, the heap holds the blocks it held before, so the copy of the data
  representation is gone, and the datatypes that exist are those that existed before. If the packed
  side has gaps the error code is that for a bad buffer.
\<close>

theorem external_packing_loses_nothing:
  assumes "type_laws (types E) tm" and "tm w (of_int_handle E Type datatype) \<noteq> None"
    and "\<And>name as w. tm (snd (mpi E pr large name as w)) = tm w"
    and "roomy h" and "len \<le> length datarep"
    and "f = mpi_pack_external_cdesc E pr large datarep data n datatype packed_data sz position len \<or>
         f = mpi_unpack_external_cdesc E pr large datarep packed_data sz position data n datatype len"
    and "f (h, w) = Inr (r, h', w')"
  shows "live h' = live h \<and> tm w' = tm w \<and>
    (strided E (mpif_c_buffer (place E) (base_addr packed_data)) packed_data \<longrightarrow> ierror r = MPI_ERR_BUFFER)"
proof -
  let ?walk = "(Walk True n (of_int_handle E Type datatype), data)" and ?contig = "(Contig True, packed_data)"
  obtain bs name args where f: "f = text_entry E datarep len bs pr large name args"
    and bs: "bs = [?walk, ?contig] \<or> bs = [?contig, ?walk]"
    using assms(6) unfolding mpi_pack_external_cdesc_def mpi_unpack_external_cdesc_def by blast
  have "\<forall>bd \<in> set bs. known E (tm w) bd"
    using bs assms(2) by auto
  moreover have "err = MPI_ERR_BUFFER"
    if "strided E (mpif_c_buffer (place E) (base_addr packed_data)) packed_data"
      and "check_buffers E bs MPI_SUCCESS w = Inr (err, qs, v)" for err qs v
    using bs that by (auto simp: bindE_eq_Inr Let_def split: if_splits)
  ultimately show ?thesis
    using text_entry_releases [OF assms(1) _ assms(3,4,5) assms(7) [unfolded f]]
      text_entry_refuses [OF _ assms(7) [unfolded f]]
    by blast
qed

theorem external_packing_loses_nothing_witness:
  "\<exists>r h' w'. mpi_pack_external_cdesc demo_lib MPI False [0x65] dense_cdesc 4 0x21d demo_cdesc 100 0 1
       (empty_heap, demo_world) = Inr (r, h', w') \<and>
     live h' = live (empty_heap :: ptr option list heap) \<and> ierror r = MPI_ERR_BUFFER"
proof -
  let ?f = "mpi_pack_external_cdesc demo_lib MPI False [0x65] dense_cdesc 4 0x21d demo_cdesc 100 0 1"
  have roomy: "roomy (empty_heap :: ptr option list heap)"
    by (simp add: roomy_def) (simp add: empty_heap_def)
  have st: "strided demo_lib (mpif_c_buffer (place demo_lib) (base_addr demo_cdesc)) demo_cdesc"
    "\<not> strided demo_lib (mpif_c_buffer (place demo_lib) (base_addr dense_cdesc)) dense_cdesc"
    unfolding demo_addrs by (simp_all add: strided_def demo_cdesc_def dense_cdesc_def demo_lib_def mpif_cdesc_is_sentinel_def)
  have ty: "fst demo_world (of_int_handle demo_lib Type 0x21d) \<noteq> None"
    unfolding demo_lib_handles by (simp add: demo_world_def)
  have mpi: "fst (snd (mpi demo_lib MPI False name as w)) = fst w" for name as w
    by (simp add: demo_lib_def)
  obtain r h' w' where run: "?f (empty_heap, demo_world) = Inr (r, h', w')"
    using st strdup_f2c_spec [of 0 1 "[0x65]" "empty_heap :: ptr option list heap"] roomy
    by (simp add: mpi_pack_external_cdesc_def text_entry_def dup_result_def roomy_def Let_def
        free_block_def with_cstring_def)
  from external_packing_loses_nothing [OF demo_lib_laws(1) ty mpi roomy _ disjI1 [OF refl] run] st(1) run
  show ?thesis
    by auto
qed

end
