(* ===== verification/Removed_Routines.thy ===== *)
theory Removed_Routines
  imports Wrappers_Plain Slot_Pools
begin

text \<open>
  \<open>src/mpif_removed.c\<close>: the MPI-1 routines the standard has removed, each a thin layer over its
  replacement, written once as a macro and defined under both names. Displacements, extents and
  addresses are default INTEGERs here: they are widened on the way in and cut on the way out.
\<close>

section \<open>Datatypes\<close>

text \<open>
  Only a success is converted. The local the new type is stored in is not initialised: \<open>held\<close> is what it
  happened to hold.
\<close>

definition newtype_on_success :: "('w, 'z) mpi_lib_scheme \<Rightarrow> reply \<Rightarrow> 'w \<Rightarrow> fault + outcome \<times> 'w" where
  "newtype_on_success E r w =
     bindE (if rc r = MPI_SUCCESS then toint_checked (handles E) Type (temp r ''newtype'')
            else Inr (to_fint MPI_DATATYPE_NULL))
       (\<lambda>newtype. Inr (\<lparr>ierror = rc r, out = [newtype]\<rparr>, w))"

definition mpi_type_hvector where
  "mpi_type_hvector E pr held cnt blocklength stride oldtype w =
     (let (r, w) = mpi E pr False ''Type_create_hvector''
            [Val (sint (cnt :: fint)), Val (sint (blocklength :: fint)), Val (sint (to_aint stride)),
             Hdl (of_int_handle E Type oldtype), Temp ''newtype'' held] w
      in newtype_on_success E r w)"

definition mpi_type_hindexed where
  "mpi_type_hindexed E pr held cnt array_of_blocklengths array_of_displacements oldtype w =
     bindE (for_upto (\<lambda>i. bindE (read_at array_of_displacements i) (\<lambda>d. Inr (to_aint d)))
              [0..<nat (sint (cnt :: fint))])
       (\<lambda>c_displacements.
         let (r, w) = mpi E pr False ''Type_create_hindexed''
               [Val (sint cnt), Buf array_of_blocklengths, Aints c_displacements,
                Hdl (of_int_handle E Type oldtype), Temp ''newtype'' held] w
         in newtype_on_success E r w)"

definition mpi_type_struct where
  "mpi_type_struct E pr held cnt array_of_blocklengths array_of_displacements array_of_types w =
     bindE (for_upto (\<lambda>i. bindE (read_at array_of_displacements i) (\<lambda>d.
                bindE (read_at array_of_types i) (\<lambda>t. Inr (to_aint d, of_int_handle E Type t))))
              [0..<nat (sint (cnt :: fint))])
       (\<lambda>parts.
         let (r, w) = mpi E pr False ''Type_create_struct''
               [Val (sint cnt), Buf array_of_blocklengths, Aints (map fst parts), Handles (map snd parts),
                Temp ''newtype'' held] w
         in newtype_on_success E r w)"

section \<open>Addresses and extents\<close>

definition mpi_address ::
    "('w, 'z) mpi_lib_scheme \<Rightarrow> profile \<Rightarrow> addr \<Rightarrow> 'w \<Rightarrow> fault + outcome \<times> 'w" where
  "mpi_address E pr location w =
     (let (r, w) = mpi E pr False ''Get_address''
            [Buf (mpif_c_cbuffer (place E) location), Temp ''address'' 0] w
      in Inr (\<lparr>ierror = rc r, out = [to_fint (temp r ''address'')]\<rparr>, w))"

definition get_extent ::
    "('w, 'z) mpi_lib_scheme \<Rightarrow> profile \<Rightarrow> fint \<Rightarrow> (aint \<Rightarrow> aint \<Rightarrow> aint) \<Rightarrow> 'w \<Rightarrow> fault + outcome \<times> 'w" where
  "get_extent E pr datatype result w =
     (let (r, w) = mpi E pr False ''Type_get_extent''
            [Hdl (of_int_handle E Type datatype), Temp ''lb'' 0, Temp ''extent'' 0] w
      in Inr (\<lparr>ierror = rc r, out = [to_fint (result (temp r ''lb'') (temp r ''extent''))]\<rparr>, w))"

definition mpi_type_extent where
  "mpi_type_extent E pr datatype = get_extent E pr datatype (\<lambda>lb extent. extent)"

definition mpi_type_lb where
  "mpi_type_lb E pr datatype = get_extent E pr datatype (\<lambda>lb extent. lb)"

definition mpi_type_ub where
  "mpi_type_ub E pr datatype = get_extent E pr datatype (\<lambda>lb extent. lb + extent)"

section \<open>Error handlers\<close>

text \<open>The pool of error handlers is the one the current interface uses.\<close>

definition mpi_errhandler_create ::
    "'w errhandler_api \<Rightarrow> handle_api \<Rightarrow> profile \<Rightarrow> handle \<Rightarrow> addr \<Rightarrow> pool \<times> 'w \<Rightarrow>
     fault + errhandler_code creation \<times> pool \<times> 'w" where
  "mpi_errhandler_create M H pr held function_fn = (\<lambda>(ss, w).
     (case mpif_errhandler_reserve function_fn MPIF_ERRHANDLER_COMM ss of
        (None, slot, ss) \<Rightarrow>
          Inr (\<lparr>out_handle = None, out_ierror = MPI_ERR_OTHER, handed = None\<rparr>, ss, w)
      | (Some code, slot, ss) \<Rightarrow>
          (let (ierror, c_errhandler, w) = MPI_Comm_create_errhandler M pr code held w
           in if ierror = MPI_SUCCESS
              then bindE (toint_checked H Errhandler c_errhandler) (\<lambda>errhandler.
                     Inr (\<lparr>out_handle = Some errhandler, out_ierror = ierror, handed = Some code\<rparr>, ss, w))
              else Inr (\<lparr>out_handle = None, out_ierror = ierror, handed = Some code\<rparr>,
                        mpif_errhandler_cancel slot ss, w))))"

definition mpi_errhandler_set where
  "mpi_errhandler_set E pr comm errhandler =
     calls E pr False ''Comm_set_errhandler''
       [Hdl (of_int_handle E Comm comm), Hdl (of_int_handle E Errhandler errhandler)] []"

definition mpi_errhandler_get where
  "mpi_errhandler_get E pr comm =
     calls E pr False ''Comm_get_errhandler''
       [Hdl (of_int_handle E Comm comm), Temp ''errhandler'' MPI_ERRHANDLER_NULL]
       [Handle Errhandler ''errhandler'']"

section \<open>What survives the cut to an INTEGER\<close>

text \<open>What the code relies on of \<open>MPI_Get_address\<close>: it succeeds and stores the address.\<close>

definition address_law :: "('w, 'z) mpi_lib_scheme \<Rightarrow> profile \<Rightarrow> bool" where
  "address_law E pr \<longleftrightarrow>
     (\<forall>p v w. let r = fst (mpi E pr False ''Get_address'' [Buf p, Temp ''address'' v] w)
        in rc r = MPI_SUCCESS \<and> temp r ''address'' = p)"

lemma address_cut:
  assumes "address_law E pr" and "mpi_address E pr p w = Inr (r, w')"
  shows "r = \<lparr>ierror = MPI_SUCCESS, out = [to_fint (mpif_c_cbuffer (place E) p)]\<rparr>"
proof -
  let ?p = "mpif_c_cbuffer (place E) p"
  obtain r1 w1 where m: "mpi E pr False ''Get_address'' [Buf ?p, Temp ''address'' 0] w = (r1, w1)"
    by (cases "mpi E pr False ''Get_address'' [Buf ?p, Temp ''address'' 0] w")
  have "rc r1 = MPI_SUCCESS \<and> temp r1 ''address'' = ?p"
    using assms(1) m unfolding address_law_def Let_def by (metis fst_conv)
  then show ?thesis
    using assms(2) m unfolding mpi_address_def by simp
qed

lemma cut_difference:
  assumes "- (2 ^ 31) \<le> uint q - uint p" and "uint q - uint p < 2 ^ 31"
  shows "sint (to_fint q - to_fint p) = uint q - uint p"
proof -
  have "to_fint q - to_fint p = of_int (uint q - uint p)"
    by (simp only: to_fint_def ucast_eq of_int_diff)
  then show ?thesis
    by (simp only: sint_of_small [OF assms])
qed

lemma to_fint_add: "to_fint (a + b) = to_fint a + to_fint b"
proof -
  have "take_bit 32 (take_bit 64 a + take_bit 64 b) = take_bit 32 (a + b)" for a b :: int
    by (subst take_bit_add [symmetric]) (simp add: take_bit_add)
  then show ?thesis
    unfolding to_fint_def by transfer simp
qed

lemma bottom_buffer: "mpif_c_cbuffer P (cell_addr P mpif_bottom) = MPI_BOTTOM"
  by (simp add: mpif_c_cbuffer_def)

text \<open>
  The idiom the removed routines exist for survives the cut. \<open>MPI_ADDRESS\<close> of two objects less than
  2 GiB apart, subtracted as INTEGERs with wrap-around, gives their distance, wherever they are;
  \<open>MPI_ADDRESS\<close> of \<open>MPI_BOTTOM\<close> is 0; and \<open>MPI_TYPE_UB\<close> is the sum of \<open>MPI_TYPE_LB\<close> and \<open>MPI_TYPE_EXTENT\<close>
  as INTEGERs, with the same error code.
\<close>

theorem removed_addresses_subtract:
  assumes "address_law E pr"
    and "mpi_address E pr p w = Inr (r, w1)" and "mpi_address E pr q w1 = Inr (s, w2)"
    and "\<bar>uint (mpif_c_cbuffer (place E) q) - uint (mpif_c_cbuffer (place E) p)\<bar> < 2 ^ 31"
  shows "sint (hd (out s) - hd (out r)) =
      uint (mpif_c_cbuffer (place E) q) - uint (mpif_c_cbuffer (place E) p) \<and>
    (p = cell_addr (place E) mpif_bottom \<longrightarrow> out r = [0]) \<and>
    (\<exists>lb extent v e. mpi_type_lb E pr t w = Inr (\<lparr>ierror = e, out = [lb]\<rparr>, v) \<and>
       mpi_type_extent E pr t w = Inr (\<lparr>ierror = e, out = [extent]\<rparr>, v) \<and>
       mpi_type_ub E pr t w = Inr (\<lparr>ierror = e, out = [lb + extent]\<rparr>, v))"
proof -
  note r = address_cut [OF assms(1,2)] and s = address_cut [OF assms(1,3)]
  have "sint (hd (out s) - hd (out r)) =
      uint (mpif_c_cbuffer (place E) q) - uint (mpif_c_cbuffer (place E) p)"
    unfolding r s using assms(4) by (simp add: cut_difference)
  moreover have "p = cell_addr (place E) mpif_bottom \<longrightarrow> out r = [0]"
    unfolding r by (simp add: bottom_buffer)
  moreover have "to_fint (a + b) = to_fint a + to_fint b" for a b
    by (rule to_fint_add)
  ultimately show ?thesis
    by (simp add: mpi_type_lb_def mpi_type_extent_def mpi_type_ub_def get_extent_def split: prod.split)
qed

text \<open>A library that stores the address it is given.\<close>

definition addressing_lib :: "unit mpi_lib" where
  "addressing_lib =
     \<lparr>place = packed, handles = identity_handles, logicals = gfortran_logical,
      PMPI_Comm_test_inter = (\<lambda>_ _. (MPI_SUCCESS, False)), PMPI_Comm_rank = (\<lambda>_ _. (MPI_SUCCESS, 0)),
      PMPI_Comm_size = (\<lambda>_ _. (MPI_SUCCESS, 1)), PMPI_Comm_remote_size = (\<lambda>_ _. (MPI_SUCCESS, 1)),
      PMPI_Topo_test = (\<lambda>_ _. (MPI_SUCCESS, MPI_CART)), PMPI_Cartdim_get = (\<lambda>_ _. (MPI_SUCCESS, 2)),
      PMPI_Graph_neighbors_count = (\<lambda>_ _ _. (MPI_SUCCESS, 2)),
      PMPI_Dist_graph_neighbors_count = (\<lambda>_ _. (MPI_SUCCESS, 2, 2)),
      mpi = (\<lambda>pr large name args w.
        (short_reply MPI_SUCCESS (\<lambda>_. (case args of Buf p # _ \<Rightarrow> p | _ \<Rightarrow> 0)), w))\<rparr>"

theorem removed_addresses_subtract_witness:
  "\<exists>r s. mpi_address addressing_lib MPI 0x16d000010 () = Inr (r, ()) \<and>
     mpi_address addressing_lib MPI 0x16d000000 () = Inr (s, ()) \<and> sint (hd (out s) - hd (out r)) = - 16"
proof -
  have law: "address_law addressing_lib MPI"
    by (simp add: address_law_def addressing_lib_def)
  have addrs: "mpif_c_cbuffer (place addressing_lib) 0x16d000010 = 0x16d000010"
    "mpif_c_cbuffer (place addressing_lib) 0x16d000000 = 0x16d000000"
    by (simp_all add: mpif_c_cbuffer_def addressing_lib_def cell_addr_packed packed_cell_def)
  obtain r s where runs: "mpi_address addressing_lib MPI 0x16d000010 () = Inr (r, ())"
      "mpi_address addressing_lib MPI 0x16d000000 () = Inr (s, ())"
    by (simp add: mpi_address_def addressing_lib_def)
  have near: "\<bar>uint (0x16d000000 :: addr) - uint (0x16d000010 :: addr)\<bar> < 2 ^ 31"
    by simp
  from conjunct1 [OF removed_addresses_subtract [OF law runs, unfolded addrs, OF near]]
  have "sint (hd (out s) - hd (out r)) = - 16"
    by simp
  with runs show ?thesis
    by blast
qed

section \<open>The pool of error handlers\<close>

lemma reserved_pool:
  assumes "pool_inv MPIF_ERRHANDLER_SLOTS ss"
    and "mpif_errhandler_reserve f MPIF_ERRHANDLER_COMM ss = (Some code, slot, ss1)"
  shows "pool_inv MPIF_ERRHANDLER_SLOTS (mpif_errhandler_cancel slot ss1) \<and>
    pool_target (mpif_errhandler_cancel slot ss1) = pool_target ss"
proof -
  obtain i where i: "first_free ss = Some i" "slot = of_nat i" "ss1 = occupy i f ss"
    using assms(2) by (auto simp: mpif_errhandler_reserve_def split: option.splits)
  note law = pool_laws [OF assms(1)]
  have "i < MPIF_ERRHANDLER_SLOTS" and free: "pool_target ss i = None"
    using law(1) [OF i(1)] by blast+
  then have c: "mpif_errhandler_cancel slot ss1 = vacate i (occupy i f ss)"
    by (simp add: i(2,3) errhandler_cancel_slot)
  have "pool_target (vacate i (occupy i f ss)) = (pool_target ss)(i := None)"
    by (simp add: pool_target_vacate law(2) [OF i(1)])
  also have "\<dots> = pool_target ss"
    using free by (simp add: fun_upd_idem)
  finally show ?thesis
    using c pool_inv_vacate [OF pool_inv_occupy [OF assms(1)]] by simp
qed

text \<open>
  \<open>MPI_ERRHANDLER_CREATE\<close> is \<open>MPI_COMM_CREATE_ERRHANDLER\<close> under its old name. If MPI's answer does not
  depend on what the local for the handle held, the two return the same error code, hand MPI the same
  trampoline and leave the same slots taken; they give the same handle on success, and on failure the
  old one leaves the caller's variable alone. A failure takes no slot from the pool.
\<close>

theorem errhandler_create_is_comm_create_errhandler:
  assumes "pool_inv MPIF_ERRHANDLER_SLOTS ss"
    and "\<And>code v v' w e h w1. MPI_Comm_create_errhandler M pr code v w = (e, h, w1) \<Longrightarrow>
      \<exists>h'. MPI_Comm_create_errhandler M pr code v' w = (e, h', w1) \<and> (e = MPI_SUCCESS \<longrightarrow> h' = h)"
    and "mpi_comm_create_errhandler M H pr f (ss, w) = Inr (r, ss1, w1)"
  shows "mpi_errhandler_create M H pr held f (ss, w) =
      Inr (if out_ierror r = MPI_SUCCESS then r else r\<lparr>out_handle := None\<rparr>, ss1, w1) \<and>
    (out_ierror r \<noteq> MPI_SUCCESS \<longrightarrow> pool_inv MPIF_ERRHANDLER_SLOTS ss1 \<and> pool_target ss1 = pool_target ss)"
proof (cases "mpif_errhandler_reserve f MPIF_ERRHANDLER_COMM ss")
  case (fields code slot ss2)
  show ?thesis
  proof (cases code)
    case None
    then have "ss2 = ss"
      using fields by (auto simp: mpif_errhandler_reserve_def split: option.splits)
    then show ?thesis
      using None fields assms(1,3)
      by (auto simp: mpi_comm_create_errhandler_def create_errhandler_body_def mpi_errhandler_create_def)
  next
    case (Some c)
    obtain e h v where m: "MPI_Comm_create_errhandler M pr c MPI_ERRHANDLER_NULL w = (e, h, v)"
      by (cases "MPI_Comm_create_errhandler M pr c MPI_ERRHANDLER_NULL w")
    obtain h' where m': "MPI_Comm_create_errhandler M pr c held w = (e, h', v)" "e = MPI_SUCCESS \<longrightarrow> h' = h"
      using assms(2) [OF m] by blast
    note pool = reserved_pool [OF assms(1) fields [unfolded Some]]
    show ?thesis
      using assms(3) fields m m' pool
      by (auto simp: Some mpi_comm_create_errhandler_def create_errhandler_body_def
          mpi_errhandler_create_def bindE_eq_Inr split: if_splits)
  qed
qed

theorem errhandler_create_is_comm_create_errhandler_witness:
  "\<exists>ss. mpi_errhandler_create (demo_errhandler_api
       \<lparr>MPI_Comm_create_errhandler := (\<lambda>pr code v n. (MPI_ERR_OTHER, v, Suc n))\<rparr>) identity_handles MPI 0x999 0x4000
       (errhandler_slots_init, 0) =
     Inr (\<lparr>out_handle = None, out_ierror = MPI_ERR_OTHER, handed = Some (comm_errhandler_trampoline 0)\<rparr>, ss, 1) \<and>
     pool_target ss = pool_target errhandler_slots_init"
proof -
  let ?M = "demo_errhandler_api \<lparr>MPI_Comm_create_errhandler := (\<lambda>pr code v n. (MPI_ERR_OTHER, v, Suc n))\<rparr>"
  have free: "first_free errhandler_slots_init = Some 0"
    by (simp add: first_free_def index_where_Some errhandler_slots_init_def)
  obtain h ss where run: "mpi_comm_create_errhandler ?M identity_handles MPI 0x4000 (errhandler_slots_init, 0) =
      Inr (\<lparr>out_handle = Some h, out_ierror = MPI_ERR_OTHER, handed = Some (comm_errhandler_trampoline 0)\<rparr>, ss, 1)"
    by (auto simp: mpi_comm_create_errhandler_def create_errhandler_body_def mpif_errhandler_reserve_def free
        toint_checked_def identity_handles_def)
  from errhandler_create_is_comm_create_errhandler [OF pool_inv_init(2) _ run, where held = "0x999"] show ?thesis
    by auto
qed

end
