(* ===== verification/F2c_Abi.thy ===== *)
theory F2c_Abi
  imports Sentinels
begin

text \<open>
  \<open>fortran/f2c_abi_mpich.c\<close>: the conversions of statuses and handles that MPICH's ABI library lacks.
  They become part of that library, so they compare with the null constants of \<open>mpi.h\<close> and cannot know
  mpif's sentinels. The same conversions for Open MPI are in \<open>F2c_Libraries\<close>.
\<close>

section \<open>Statuses\<close>

text \<open>
  A status is eight integers. Memory is addressed by bytes and read in integers; an assignment reads all
  of its source first, and C wants its two objects the same or apart.
\<close>

type_synonym fint_memory = "addr \<Rightarrow> fint"

definition read_status :: "fint_memory \<Rightarrow> addr \<Rightarrow> fint list" where
  "read_status m a = map (\<lambda>i. m (a + of_nat (4 * i))) [0..<MPIF_SENTINEL_STATUS_WORDS]"

fun put :: "fint_memory \<Rightarrow> addr \<Rightarrow> fint list \<Rightarrow> fint_memory" where
  "put m a [] = m"
| "put m a (x # xs) = put (m(a := x)) (a + 4) xs"

definition assign_status :: "fint_memory \<Rightarrow> addr \<Rightarrow> addr \<Rightarrow> fint_memory" where
  "assign_status m dest src = put m dest (read_status m src)"

abbreviation MPI_F_STATUS_IGNORE :: addr where "MPI_F_STATUS_IGNORE \<equiv> MPI_STATUS_IGNORE"
abbreviation MPI_F_STATUSES_IGNORE :: addr where "MPI_F_STATUSES_IGNORE \<equiv> MPI_STATUSES_IGNORE"
abbreviation MPI_F08_STATUS_IGNORE :: addr where "MPI_F08_STATUS_IGNORE \<equiv> MPI_STATUS_IGNORE"
abbreviation MPI_F08_STATUSES_IGNORE :: addr where "MPI_F08_STATUSES_IGNORE \<equiv> MPI_STATUSES_IGNORE"

definition PMPI_Status_f2c :: "addr \<Rightarrow> addr \<Rightarrow> fint_memory \<Rightarrow> fint \<times> fint_memory" where
  "PMPI_Status_f2c f_status c_status m =
     (if f_status = MPI_F_STATUS_IGNORE \<or> f_status = MPI_F_STATUSES_IGNORE \<or>
         c_status = MPI_STATUS_IGNORE \<or> c_status = MPI_STATUSES_IGNORE
      then (MPI_ERR_ARG, m)
      else (MPI_SUCCESS, assign_status m c_status f_status))"

definition PMPI_Status_c2f :: "addr \<Rightarrow> addr \<Rightarrow> fint_memory \<Rightarrow> fint \<times> fint_memory" where
  "PMPI_Status_c2f c_status f_status m =
     (if c_status = MPI_STATUS_IGNORE \<or> c_status = MPI_STATUSES_IGNORE \<or>
         f_status = MPI_F_STATUS_IGNORE \<or> f_status = MPI_F_STATUSES_IGNORE
      then (MPI_ERR_ARG, m)
      else (MPI_SUCCESS, assign_status m f_status c_status))"

definition PMPI_Status_f082c :: "addr \<Rightarrow> addr \<Rightarrow> fint_memory \<Rightarrow> fint \<times> fint_memory" where
  "PMPI_Status_f082c f08_status c_status m =
     (if f08_status = MPI_F08_STATUS_IGNORE \<or> f08_status = MPI_F08_STATUSES_IGNORE \<or>
         c_status = MPI_STATUS_IGNORE \<or> c_status = MPI_STATUSES_IGNORE
      then (MPI_ERR_ARG, m)
      else (MPI_SUCCESS, assign_status m c_status f08_status))"

definition PMPI_Status_c2f08 :: "addr \<Rightarrow> addr \<Rightarrow> fint_memory \<Rightarrow> fint \<times> fint_memory" where
  "PMPI_Status_c2f08 c_status f08_status m =
     (if c_status = MPI_STATUS_IGNORE \<or> c_status = MPI_STATUSES_IGNORE \<or>
         f08_status = MPI_F08_STATUS_IGNORE \<or> f08_status = MPI_F08_STATUSES_IGNORE
      then (MPI_ERR_ARG, m)
      else (MPI_SUCCESS, assign_status m f08_status c_status))"

text \<open>The functions without the \<open>P\<close> forward to these.\<close>

definition MPI_Status_f2c :: "addr \<Rightarrow> addr \<Rightarrow> fint_memory \<Rightarrow> fint \<times> fint_memory" where
  "MPI_Status_f2c = PMPI_Status_f2c"

definition MPI_Status_c2f :: "addr \<Rightarrow> addr \<Rightarrow> fint_memory \<Rightarrow> fint \<times> fint_memory" where
  "MPI_Status_c2f = PMPI_Status_c2f"

definition MPI_Status_f082c :: "addr \<Rightarrow> addr \<Rightarrow> fint_memory \<Rightarrow> fint \<times> fint_memory" where
  "MPI_Status_f082c = PMPI_Status_f082c"

definition MPI_Status_c2f08 :: "addr \<Rightarrow> addr \<Rightarrow> fint_memory \<Rightarrow> fint \<times> fint_memory" where
  "MPI_Status_c2f08 = PMPI_Status_c2f08"

section \<open>Handles\<close>

text \<open>One pair of functions for each kind of handle, under both names.\<close>

definition PMPI_handle_f2c :: "handle_api \<Rightarrow> hkind \<Rightarrow> fint \<Rightarrow> handle" where
  "PMPI_handle_f2c H k i = fromint H k i"

definition PMPI_handle_c2f :: "handle_api \<Rightarrow> hkind \<Rightarrow> handle \<Rightarrow> fault + fint" where
  "PMPI_handle_c2f H k h = toint_checked H k h"

definition MPI_handle_f2c :: "handle_api \<Rightarrow> hkind \<Rightarrow> fint \<Rightarrow> handle" where
  "MPI_handle_f2c = PMPI_handle_f2c"

definition MPI_handle_c2f :: "handle_api \<Rightarrow> hkind \<Rightarrow> handle \<Rightarrow> fault + fint" where
  "MPI_handle_c2f = PMPI_handle_c2f"

section \<open>Copying a status\<close>

lemma put_frame: "(\<And>i. i < length xs \<Longrightarrow> x \<noteq> a + of_nat (4 * i)) \<Longrightarrow> put m a xs x = m x"
proof (induction xs arbitrary: m a)
  case (Cons y ys)
  have "x \<noteq> a + 4 + of_nat (4 * i)" if "i < length ys" for i
    using Cons.prems [of "Suc i"] that by (simp add: algebra_simps)
  moreover have "x \<noteq> a"
    using Cons.prems [of 0] by simp
  ultimately show ?case
    by (simp add: Cons.IH)
qed simp

lemma offset_zero:
  assumes "(of_nat (4 * i) :: addr) = 0" and "i \<le> 8"
  shows "i = 0"
proof -
  have "unat (of_nat (4 * i) :: addr) = 4 * i"
    using assms(2) by (simp add: unsigned_of_nat take_bit_nat_eq_self del: of_nat_mult)
  then show ?thesis
    using assms(1) by simp
qed

lemma put_read: "length xs \<le> 8 \<Longrightarrow> i < length xs \<Longrightarrow> put m a xs (a + of_nat (4 * i)) = xs ! i"
proof (induction xs arbitrary: m a i)
  case (Cons y ys)
  show ?case
  proof (cases i)
    case 0
    have "put (m(a := y)) (a + 4) ys a = (m(a := y)) a"
    proof (rule put_frame)
      fix j assume "j < length ys"
      then show "a \<noteq> a + 4 + of_nat (4 * j)"
        using offset_zero [of "Suc j"] Cons.prems(1) by auto
    qed
    then show ?thesis
      by (simp add: 0)
  next
    case (Suc j)
    then have "put (m(a := y)) (a + 4) ys (a + 4 + of_nat (4 * j)) = ys ! j"
      using Cons.prems by (intro Cons.IH) simp_all
    then show ?thesis
      by (simp add: Suc add.assoc)
  qed
qed simp

lemma assigned_status: "read_status (assign_status m dest src) dest = read_status m src"
  unfolding read_status_def [of _ dest] assign_status_def
  by (rule nth_equalityI) (simp_all add: put_read read_status_def del: upt_rec_numeral of_nat_mult)

text \<open>Two statuses that do not overlap.\<close>

definition apart :: "addr \<Rightarrow> addr \<Rightarrow> bool" where
  "apart a b \<longleftrightarrow> (\<forall>i < 8. \<forall>j < 8. a + of_nat (4 * i) \<noteq> b + of_nat (4 * j))"

lemma read_apart: "apart a b \<Longrightarrow> read_status (assign_status m b src) a = read_status m a"
  by (auto simp: read_status_def [of _ a] assign_status_def apart_def intro!: put_frame)
     (simp add: read_status_def)

text \<open>
  A status that goes to Fortran and comes back is the status that left, in either Fortran interface, and
  the original is untouched; a null pointer on either side is refused and nothing is stored. The
  sentinels of mpif's Fortran interfaces are not null: handed to the conversion they are not refused,
  and the poison in them becomes the status.
\<close>

theorem statuses_cross_and_back:
  assumes "c \<noteq> 0" and "f \<noteq> 0" and "d \<noteq> 0" and "apart c f" and "apart c d"
  shows "(\<exists>m1 m2. MPI_Status_c2f c f m = (MPI_SUCCESS, m1) \<and> MPI_Status_f2c f d m1 = (MPI_SUCCESS, m2) \<and>
      read_status m2 d = read_status m c \<and> read_status m2 c = read_status m c) \<and>
    (\<exists>m1 m2. MPI_Status_c2f08 c f m = (MPI_SUCCESS, m1) \<and> MPI_Status_f082c f d m1 = (MPI_SUCCESS, m2) \<and>
      read_status m2 d = read_status m c \<and> read_status m2 c = read_status m c) \<and>
    MPI_Status_c2f 0 f m = (MPI_ERR_ARG, m) \<and> MPI_Status_c2f c 0 m = (MPI_ERR_ARG, m) \<and>
    MPI_Status_f2c 0 d m = (MPI_ERR_ARG, m) \<and> MPI_Status_f2c f 0 m = (MPI_ERR_ARG, m) \<and>
    (\<exists>m1. MPI_Status_f2c (cell_addr P mpif_status_ignore) d m = (MPI_SUCCESS, m1) \<and>
      read_status m1 d = read_status m (cell_addr P mpif_status_ignore))"
proof -
  have "cell_addr P mpif_status_ignore \<noteq> 0"
    by simp
  then show ?thesis
    using assms
    by (simp add: MPI_Status_c2f_def MPI_Status_f2c_def MPI_Status_c2f08_def MPI_Status_f082c_def
        PMPI_Status_c2f_def PMPI_Status_f2c_def PMPI_Status_c2f08_def PMPI_Status_f082c_def
        assigned_status read_apart)
qed

lemma all_below_8: "(\<forall>i < 8. P i) \<longleftrightarrow> P 0 \<and> P 1 \<and> P 2 \<and> P 3 \<and> P 4 \<and> P 5 \<and> P 6 \<and> P (7 :: nat)"
  by (simp add: All_less_Suc numeral_eq_Suc conj_ac)

theorem statuses_cross_and_back_witness:
  "\<exists>m1 m2. MPI_Status_c2f 0x1000 0x2000 (\<lambda>a. ucast a) = (MPI_SUCCESS, m1) \<and>
     MPI_Status_f2c 0x2000 0x3000 m1 = (MPI_SUCCESS, m2) \<and>
     read_status m2 0x3000 = read_status (\<lambda>a. ucast a) 0x1000"
proof -
  have "apart 0x1000 0x2000" "apart 0x1000 0x3000"
    unfolding apart_def all_below_8 by simp_all
  from conjunct1 [OF statuses_cross_and_back [OF _ _ _ this, where m = "\<lambda>a. ucast a" and P = packed]] show ?thesis
    by auto
qed

end
