(* ===== verification/F2c_Libraries.thy ===== *)
theory F2c_Libraries
  imports F2c_Abi
begin

text \<open>
  The other two libraries the conversions are written for. \<open>fortran/f2c_abi_openmpi.c\<close> compiles to different
  symbols as Open MPI is configured, and a program sees the same conversions as with MPICH wherever the name it
  calls exists. In \<open>fortran/f2c_abi_stubs.c\<close> every name exists and no call returns.
\<close>

section \<open>Open MPI\<close>

record ompi_build =
  profiling :: bool
  weak_aliases :: bool

definition ompi_Status_f2c :: "addr \<Rightarrow> addr \<Rightarrow> fint_memory \<Rightarrow> fint \<times> fint_memory" where
  "ompi_Status_f2c f_status c_status m =
     (if f_status = MPI_F_STATUS_IGNORE \<or> f_status = MPI_F_STATUSES_IGNORE \<or>
         c_status = MPI_STATUS_IGNORE \<or> c_status = MPI_STATUSES_IGNORE
      then (MPI_ERR_ARG, m)
      else (MPI_SUCCESS, assign_status m c_status f_status))"

definition ompi_Status_c2f :: "addr \<Rightarrow> addr \<Rightarrow> fint_memory \<Rightarrow> fint \<times> fint_memory" where
  "ompi_Status_c2f c_status f_status m =
     (if c_status = MPI_STATUS_IGNORE \<or> c_status = MPI_STATUSES_IGNORE \<or>
         f_status = MPI_F_STATUS_IGNORE \<or> f_status = MPI_F_STATUSES_IGNORE
      then (MPI_ERR_ARG, m)
      else (MPI_SUCCESS, assign_status m f_status c_status))"

definition ompi_Status_f082c :: "addr \<Rightarrow> addr \<Rightarrow> fint_memory \<Rightarrow> fint \<times> fint_memory" where
  "ompi_Status_f082c f08_status c_status m =
     (if f08_status = MPI_F08_STATUS_IGNORE \<or> f08_status = MPI_F08_STATUSES_IGNORE \<or>
         c_status = MPI_STATUS_IGNORE \<or> c_status = MPI_STATUSES_IGNORE
      then (MPI_ERR_ARG, m)
      else (MPI_SUCCESS, assign_status m c_status f08_status))"

definition ompi_Status_c2f08 :: "addr \<Rightarrow> addr \<Rightarrow> fint_memory \<Rightarrow> fint \<times> fint_memory" where
  "ompi_Status_c2f08 c_status f08_status m =
     (if c_status = MPI_STATUS_IGNORE \<or> c_status = MPI_STATUSES_IGNORE \<or>
         f08_status = MPI_F08_STATUS_IGNORE \<or> f08_status = MPI_F08_STATUSES_IGNORE
      then (MPI_ERR_ARG, m)
      else (MPI_SUCCESS, assign_status m f08_status c_status))"

text \<open>One pair for each kind of handle.\<close>

definition ompi_handle_f2c :: "handle_api \<Rightarrow> hkind \<Rightarrow> fint \<Rightarrow> handle" where
  "ompi_handle_f2c H k i = fromint H k i"

definition ompi_handle_c2f :: "handle_api \<Rightarrow> hkind \<Rightarrow> handle \<Rightarrow> fault + fint" where
  "ompi_handle_c2f H k h = toint_checked H k h"

text \<open>
  What the file defines under a name. With profiling the macros rename the bodies to \<open>PMPI_\<close>, and the \<open>MPI_\<close> names are
  weak: aliases where the platform has them, functions that forward where it does not. Without profiling
  the bodies keep their \<open>MPI_\<close> names and there is no \<open>PMPI_\<close>.
\<close>

datatype symbol = Undefined | Body | Weak_alias | Weak_forward

definition ompi_symbol :: "ompi_build \<Rightarrow> profile \<Rightarrow> symbol" where
  "ompi_symbol b pr =
     (case pr of
        PMPI \<Rightarrow> if profiling b then Body else Undefined
      | MPI \<Rightarrow> if profiling b then if weak_aliases b then Weak_alias else Weak_forward else Body)"

text \<open>A name reaches the body itself, or through what \<open>PMPI_\<close> stands for.\<close>

definition reach :: "ompi_build \<Rightarrow> profile \<Rightarrow> 'a \<Rightarrow> 'a option" where
  "reach b pr f =
     (case ompi_symbol b pr of
        Undefined \<Rightarrow> None
      | Body \<Rightarrow> Some f
      | Weak_alias \<Rightarrow> (if ompi_symbol b PMPI = Body then Some f else None)
      | Weak_forward \<Rightarrow> (if ompi_symbol b PMPI = Body then Some f else None))"

section \<open>The stubs\<close>

datatype abort = Aborted

definition stub_status :: "addr \<Rightarrow> addr \<Rightarrow> fint_memory \<Rightarrow> abort + fint \<times> fint_memory" where
  "stub_status src dest m = Inl Aborted"

definition stub_handle_f2c :: "hkind \<Rightarrow> fint \<Rightarrow> abort + handle" where
  "stub_handle_f2c k i = Inl Aborted"

definition stub_handle_c2f :: "hkind \<Rightarrow> handle \<Rightarrow> abort + fint" where
  "stub_handle_c2f k h = Inl Aborted"

section \<open>The libraries side by side\<close>

datatype conversion_call =
    Status_f2c addr addr | Status_c2f addr addr | Status_f082c addr addr | Status_c2f08 addr addr
  | Handle_f2c hkind fint | Handle_c2f hkind handle

datatype conversion_result =
    Code fint fint_memory | To_C handle | To_Fortran "fault + fint"

definition coded :: "fint \<times> fint_memory \<Rightarrow> conversion_result" where
  "coded r = Code (fst r) (snd r)"

fun mpich_call :: "handle_api \<Rightarrow> profile \<Rightarrow> conversion_call \<Rightarrow> fint_memory \<Rightarrow> conversion_result" where
  "mpich_call H pr (Status_f2c f c) m = coded ((case pr of MPI \<Rightarrow> MPI_Status_f2c | PMPI \<Rightarrow> PMPI_Status_f2c) f c m)"
| "mpich_call H pr (Status_c2f c f) m = coded ((case pr of MPI \<Rightarrow> MPI_Status_c2f | PMPI \<Rightarrow> PMPI_Status_c2f) c f m)"
| "mpich_call H pr (Status_f082c f c) m = coded ((case pr of MPI \<Rightarrow> MPI_Status_f082c | PMPI \<Rightarrow> PMPI_Status_f082c) f c m)"
| "mpich_call H pr (Status_c2f08 c f) m = coded ((case pr of MPI \<Rightarrow> MPI_Status_c2f08 | PMPI \<Rightarrow> PMPI_Status_c2f08) c f m)"
| "mpich_call H pr (Handle_f2c k i) m = To_C ((case pr of MPI \<Rightarrow> MPI_handle_f2c | PMPI \<Rightarrow> PMPI_handle_f2c) H k i)"
| "mpich_call H pr (Handle_c2f k h) m = To_Fortran ((case pr of MPI \<Rightarrow> MPI_handle_c2f | PMPI \<Rightarrow> PMPI_handle_c2f) H k h)"

fun ompi_body :: "handle_api \<Rightarrow> conversion_call \<Rightarrow> fint_memory \<Rightarrow> conversion_result" where
  "ompi_body H (Status_f2c f c) m = coded (ompi_Status_f2c f c m)"
| "ompi_body H (Status_c2f c f) m = coded (ompi_Status_c2f c f m)"
| "ompi_body H (Status_f082c f c) m = coded (ompi_Status_f082c f c m)"
| "ompi_body H (Status_c2f08 c f) m = coded (ompi_Status_c2f08 c f m)"
| "ompi_body H (Handle_f2c k i) m = To_C (ompi_handle_f2c H k i)"
| "ompi_body H (Handle_c2f k h) m = To_Fortran (ompi_handle_c2f H k h)"

lemma bodies_agree: "ompi_body H c m = mpich_call H pr c m"
  by (cases c; cases pr)
     (simp_all add: MPI_Status_f2c_def MPI_Status_c2f_def MPI_Status_f082c_def MPI_Status_c2f08_def
      MPI_handle_f2c_def MPI_handle_c2f_def PMPI_Status_f2c_def PMPI_Status_c2f_def PMPI_Status_f082c_def
      PMPI_Status_c2f08_def PMPI_handle_f2c_def PMPI_handle_c2f_def ompi_Status_f2c_def ompi_Status_c2f_def
      ompi_Status_f082c_def ompi_Status_c2f08_def ompi_handle_f2c_def ompi_handle_c2f_def)

lemma reached: "reach b pr f = (if pr = PMPI \<and> \<not> profiling b then None else Some f)"
  by (cases pr) (simp_all add: reach_def ompi_symbol_def)

text \<open>
  A program that converts gets the same from both libraries, status memory and errors included, however Open MPI
  was configured; only \<open>PMPI_\<close> names can be missing, and only without profiling.
\<close>

theorem libraries_convert_alike:
  "map_option (\<lambda>f. f c m) (reach b pr (ompi_body H)) =
     (if pr = PMPI \<and> \<not> profiling b then None else Some (mpich_call H pr c m))"
  by (simp add: reached bodies_agree [of H c m pr])

end
