(* ===== verification/Env_Check.thy ===== *)
theory Env_Check
  imports Sentinels Logicals "HOL-Library.Signed_Division" "HOL-Library.List_Lexorder" "HOL-Library.Char_ord" "HOL-Library.Multiset"
begin

text \<open>
  \<open>src/mpif_check.c\<close>: the runtime consistency checks. A check ends the program at the first thing it
  finds wrong, through \<open>PMPI_Abort\<close> where that can work and \<open>abort()\<close> otherwise, or returns. MPI, the
  environment variables and what the Fortran half reports are parameters.
\<close>

section \<open>Ending the program\<close>

text \<open>What is printed, one constructor per message, with the values it names.\<close>

datatype complaint =
    Call_failed string fint string
  | Major_versions_differ
  | Library_older_than_caller
  | Header_version_differs
  | Sentinel_index_out_of_range int
  | Sentinel_address_differs cell addr
  | Sentinel_size_differs cell int
  | Sentinels_reported nat
  | Not_a_number string string
  | No_standard_abi
  | Abi_incompatible fint fint
  | Mpi_too_old fint fint
  | Other_library string
  | Booleans_differ fint fint
  | Singleton_started string int
  | Size_differs int fint
  | Field_differs nat fint
  | Library_differs_from_root
  | Ring_broken fint fint
  | Head_count_wrong fint
  | Names_out_of_memory
  | Node_size_differs string nat
  | Num_nodes_differ nat

datatype ending = Job_aborted | Process_aborted

datatype death = Died complaint ending

text \<open>The calls made, all under their \<open>PMPI_\<close> names, and the line printed about the nodes.\<close>

datatype check_call =
    Initialized | Finalized | Abort
  | Error_string fint
  | Abi_get_version | Get_version | Get_library_version
  | Abi_get_fortran_booleans
  | Comm_size | Comm_rank
  | Comm_dup
  | Comm_set_errhandler handle handle
  | Allreduce_min "fint list" handle | Allreduce_max "fint list" handle
  | Bcast string handle
  | Sendrecv fint fint fint handle
  | Reduce_sum fint handle
  | Get_processor_name
  | Gather string handle
  | Comm_free handle
  | Print_layout "(string \<times> nat) list" nat nat

text \<open>
  A reply has an error code and whichever values the call gives; they are read only after success.
  A text is what MPI wrote before the terminating null, cut where the buffer ends.
\<close>

record check_reply =
  code :: fint
  int1 :: fint
  int2 :: fint
  int3 :: fint
  vector :: "nat \<Rightarrow> fint"
  written :: string
  gathered :: "nat \<Rightarrow> string"
  dup :: handle

type_synonym 'w check_mpi = "check_call \<Rightarrow> 'w \<Rightarrow> check_reply \<times> 'w"

type_synonym ('a, 'w) check = "'w \<Rightarrow> death + 'a \<times> 'w"

definition ok :: "'a \<Rightarrow> ('a, 'w) check" where
  "ok x w = Inr (x, w)"

definition andthen :: "('a, 'w) check \<Rightarrow> ('a \<Rightarrow> ('b, 'w) check) \<Rightarrow> ('b, 'w) check" where
  "andthen m f w = bindE (m w) (\<lambda>(x, w). f x w)"

definition mpif_check_fail :: "'w check_mpi \<Rightarrow> complaint \<Rightarrow> ('a, 'w) check" where
  "mpif_check_fail E c w =
     (let (r, w) = E Initialized w;
          initialized = (code r = MPI_SUCCESS \<and> int1 r \<noteq> 0);
          (r, w) = E Finalized w;
          finalized = (code r \<noteq> MPI_SUCCESS \<or> int1 r \<noteq> 0)
      in if initialized \<and> \<not> finalized
         then (let (r, w) = E Abort w in Inl (Died c Job_aborted))
         else Inl (Died c Process_aborted))"

definition require :: "'w check_mpi \<Rightarrow> bool \<Rightarrow> complaint \<Rightarrow> (unit, 'w) check" where
  "require E b c = (if b then ok () else mpif_check_fail E c)"

definition mpif_check_mpi :: "'w check_mpi \<Rightarrow> string \<Rightarrow> fint \<Rightarrow> (unit, 'w) check" where
  "mpif_check_mpi E call ierr w =
     (if ierr = MPI_SUCCESS then Inr ((), w)
      else (let (r, w) = E (Error_string ierr) w;
                text = (if code r \<noteq> MPI_SUCCESS \<or> written r = [] then ''no description available''
                        else written r)
            in mpif_check_fail E
                 (Call_failed call ierr (takeWhile (\<lambda>c. c \<noteq> CHR 0x0A) text)) w))"

text \<open>\<open>mpif_check_mpi(routine, "...", PMPI_...(...));\<close>\<close>

definition ask :: "'w check_mpi \<Rightarrow> string \<Rightarrow> check_call \<Rightarrow> (check_reply, 'w) check" where
  "ask E name c w =
     (let (r, w) = E c w in andthen (mpif_check_mpi E name (code r)) (\<lambda>_. ok r) w)"

section \<open>Versions\<close>

datatype version = Version (major: int) (minor: int) (patch: int)

text \<open>Versions in their usual order.\<close>

instantiation version :: linorder
begin

definition less_eq_version :: "version \<Rightarrow> version \<Rightarrow> bool" where
  "less_eq_version a b \<longleftrightarrow>
     major a < major b \<or>
     major a = major b \<and> (minor a < minor b \<or> minor a = minor b \<and> patch a \<le> patch b)"

definition less_version :: "version \<Rightarrow> version \<Rightarrow> bool" where
  "less_version a b \<longleftrightarrow>
     major a < major b \<or>
     major a = major b \<and> (minor a < minor b \<or> minor a = minor b \<and> patch a < patch b)"

instance
  by intro_classes (auto simp: less_eq_version_def less_version_def intro: version.expand)

end

text \<open>\<open>V\<close> is the version the build system defined for the loaded library.\<close>

definition mpif_check_version :: "'w check_mpi \<Rightarrow> version \<Rightarrow> version \<Rightarrow> (unit, 'w) check" where
  "mpif_check_version E V c =
     andthen (require E (major c = major V) Major_versions_differ) (\<lambda>_.
       require E (\<not> (minor V < minor c \<or> minor V = minor c \<and> patch V < patch c)) Library_older_than_caller)"

section \<open>Sentinels\<close>

definition sentinel_cells :: "cell list" where
  "sentinel_cells =
     [mpif_bottom, mpif_in_place, mpif_buffer_automatic, mpif_argv_null, mpif_argvs_null,
      mpif_errcodes_ignore, mpif_status_ignore, mpif_statuses_ignore, mpif_unweighted,
      mpif_weights_empty, mpif_f08_status_ignore, mpif_f08_statuses_ignore]"

abbreviation MPIF_SENTINEL_COUNT :: nat where "MPIF_SENTINEL_COUNT \<equiv> 12"

text \<open>The count of the sentinels reported so far goes in and comes out.\<close>

definition mpif_check_sentinel ::
    "'w check_mpi \<Rightarrow> placement \<Rightarrow> nat \<Rightarrow> int \<times> addr \<times> int \<Rightarrow> (nat, 'w) check" where
  "mpif_check_sentinel E P reported = (\<lambda>(index, address, bytes).
     andthen (require E (1 \<le> index \<and> index \<le> int MPIF_SENTINEL_COUNT) (Sentinel_index_out_of_range index)) (\<lambda>_.
       let c = sentinel_cells ! (nat index - 1)
       in andthen (require E (address = cell_addr P c) (Sentinel_address_differs c address)) (\<lambda>_.
            andthen (require E (bytes = int (cell_bytes c)) (Sentinel_size_differs c bytes)) (\<lambda>_.
              ok (Suc reported)))))"

text \<open>What the two Fortran reporters pass, one call after the other.\<close>

fun check_sentinels ::
    "'w check_mpi \<Rightarrow> placement \<Rightarrow> nat \<Rightarrow> (int \<times> addr \<times> int) list \<Rightarrow> (nat, 'w) check" where
  "check_sentinels E P reported [] = ok reported"
| "check_sentinels E P reported (s # ss) =
     andthen (mpif_check_sentinel E P reported s) (\<lambda>reported. check_sentinels E P reported ss)"

section \<open>Environment variables\<close>

text \<open>
  \<open>strtol\<close> in base ten: blanks, a sign, digits; the value is cut to the range of \<open>long\<close>. The result
  is the value, whether there were digits, and what follows them.
\<close>

definition is_space :: "char \<Rightarrow> bool" where
  "is_space c \<longleftrightarrow> c \<in> {CHR 0x20, CHR 0x09, CHR 0x0A, CHR 0x0B, CHR 0x0C, CHR 0x0D}"

definition is_digit :: "char \<Rightarrow> bool" where
  "is_digit c \<longleftrightarrow> CHR ''0'' \<le> c \<and> c \<le> CHR ''9''"

definition digits_value :: "string \<Rightarrow> int" where
  "digits_value ds = foldl (\<lambda>v c. 10 * v + (of_char c - 48)) 0 ds"

definition clamp_long :: "int \<Rightarrow> int" where
  "clamp_long v = max (- (2 ^ 63)) (min (2 ^ 63 - 1) v)"

definition strtol :: "string \<Rightarrow> int \<times> bool \<times> string" where
  "strtol s =
     (let s = dropWhile is_space s;
          (neg, s) = (case s of c # t \<Rightarrow> if c = CHR ''-'' then (True, t) else if c = CHR ''+'' then (False, t)
                                 else (False, s)
                       | [] \<Rightarrow> (False, s));
          ds = takeWhile is_digit s;
          v = digits_value ds
      in (clamp_long (if neg then - v else v), ds \<noteq> [], dropWhile is_digit s))"

type_synonym environment = "string \<Rightarrow> string option"

text \<open>\<open>None\<close> is a variable that is not set, or empty.\<close>

definition mpif_check_getenv_long ::
    "'w check_mpi \<Rightarrow> environment \<Rightarrow> string \<Rightarrow> (int option, 'w) check" where
  "mpif_check_getenv_long E env name =
     (case env name of
        None \<Rightarrow> ok None
      | Some s \<Rightarrow>
          if s = [] then ok None
          else (let (v, digits, rest) = strtol s
                in if \<not> digits \<or> rest \<noteq> [] then mpif_check_fail E (Not_a_number name s)
                   else ok (Some v)))"

definition tolower :: "char \<Rightarrow> char" where
  "tolower c = (if CHR ''A'' \<le> c \<and> c \<le> CHR ''Z'' then char_of (of_char c + 32 :: nat) else c)"

fun same_start :: "string \<Rightarrow> string \<Rightarrow> bool" where
  "same_start h [] = True"
| "same_start [] (n # ns) = False"
| "same_start (h # hs) (n # ns) = (tolower h = tolower n \<and> same_start hs ns)"

fun mpif_check_contains :: "string \<Rightarrow> string \<Rightarrow> bool" where
  "mpif_check_contains h n =
     (length n \<le> length h \<and> (same_start h n \<or> (case h of [] \<Rightarrow> False | _ # t \<Rightarrow> mpif_check_contains t n)))"

declare mpif_check_contains.simps [simp del]

section \<open>Nodes\<close>

text \<open>
  The walk over the sorted names: each run of equal names is a node. \<open>memcmp\<close> on zero-padded records
  is the lexicographic order of the names.
\<close>

function node_runs :: "string list \<Rightarrow> (string \<times> nat) list" where
  "node_runs [] = []"
| "node_runs (x # xs) =
     (x, Suc (length (takeWhile (\<lambda>y. y = x) xs))) # node_runs (dropWhile (\<lambda>y. y = x) xs)"
  by pat_completeness auto
termination
  by (relation "measure length") (auto simp: length_dropWhile_le le_imp_less_Suc)

text \<open>The expectations are the largest any process stated; zero or less is none.\<close>

fun check_runs :: "'w check_mpi \<Rightarrow> fint \<Rightarrow> (string \<times> nat) list \<Rightarrow> (unit, 'w) check" where
  "check_runs E node_size [] = ok ()"
| "check_runs E node_size ((node, n) # runs) =
     andthen (require E (\<not> (sint node_size > 0 \<and> int n \<noteq> sint node_size)) (Node_size_differs node n)) (\<lambda>_.
       check_runs E node_size runs)"

definition check_layout :: "'w check_mpi \<Rightarrow> fint \<Rightarrow> fint \<Rightarrow> string list \<Rightarrow> (unit, 'w) check" where
  "check_layout E num_nodes node_size names =
     (let runs = node_runs (sort names);
          listed = take 8 runs
      in andthen (\<lambda>w. Inr ((), snd (E (Print_layout listed (length runs - length listed) (length names)) w))) (\<lambda>_.
         andthen (check_runs E node_size runs) (\<lambda>_.
           require E (\<not> (sint num_nodes > 0 \<and> int (length runs) \<noteq> sint num_nodes))
             (Num_nodes_differ (length runs)))))"

section \<open>The environment\<close>

text \<open>What a process brings: the versions of the library and of the header, where the linker put the
  cells, what the Fortran reporters pass, the LOGICAL patterns, the environment variables, and whether
  \<open>malloc\<close> gives a block of a size.\<close>

record process =
  built :: version
  headers :: version
  cells :: placement
  reports :: "(int \<times> addr \<times> int) list"
  patterns :: logical_repr
  environ :: environment
  gets :: "nat \<Rightarrow> bool"

abbreviation MPI_ABI_VERSION :: int where "MPI_ABI_VERSION \<equiv> 1"
abbreviation MPI_ABI_SUBVERSION :: int where "MPI_ABI_SUBVERSION \<equiv> 0"
abbreviation MPI_VERSION :: int where "MPI_VERSION \<equiv> 5"
abbreviation MPI_SUBVERSION :: int where "MPI_SUBVERSION \<equiv> 0"
abbreviation MPI_ERRORS_RETURN :: handle where "MPI_ERRORS_RETURN \<equiv> 0x143"
abbreviation MPI_MAX_LIBRARY_VERSION_STRING :: nat where "MPI_MAX_LIBRARY_VERSION_STRING \<equiv> 8192"
abbreviation MPI_MAX_PROCESSOR_NAME :: nat where "MPI_MAX_PROCESSOR_NAME \<equiv> 256"

definition check_header_version :: "'w check_mpi \<Rightarrow> process \<Rightarrow> (unit, 'w) check" where
  "check_header_version E p = require E (headers p = built p) Header_version_differs"

definition check_reported :: "'w check_mpi \<Rightarrow> process \<Rightarrow> (unit, 'w) check" where
  "check_reported E p =
     andthen (check_sentinels E (cells p) 0 (reports p)) (\<lambda>reported.
       require E (reported = MPIF_SENTINEL_COUNT) (Sentinels_reported reported))"

text \<open>The version of the ABI, then of MPI; each check hands on the two numbers it was told.\<close>

definition check_abi :: "'w check_mpi \<Rightarrow> (fint \<times> fint, 'w) check" where
  "check_abi E =
     andthen (ask E ''MPI_Abi_get_version'' Abi_get_version) (\<lambda>r.
     andthen (require E (int1 r \<noteq> - 1) No_standard_abi) (\<lambda>_.
     andthen (require E (\<not> (sint (int1 r) \<noteq> MPI_ABI_VERSION \<or>
                             sint (int1 r) = MPI_ABI_VERSION \<and> sint (int2 r) < MPI_ABI_SUBVERSION))
                (Abi_incompatible (int1 r) (int2 r))) (\<lambda>_.
     ok (int1 r, int2 r))))"

definition check_mpi_version :: "'w check_mpi \<Rightarrow> (fint \<times> fint, 'w) check" where
  "check_mpi_version E =
     andthen (ask E ''MPI_Get_version'' Get_version) (\<lambda>r.
     andthen (require E (\<not> (sint (int1 r) < MPI_VERSION \<or>
                             sint (int1 r) = MPI_VERSION \<and> sint (int2 r) < MPI_SUBVERSION))
                (Mpi_too_old (int1 r) (int2 r))) (\<lambda>_.
     ok (int1 r, int2 r)))"

definition check_library :: "'w check_mpi \<Rightarrow> process \<Rightarrow> (string, 'w) check" where
  "check_library E p =
     andthen (ask E ''MPI_Get_library_version'' Get_library_version) (\<lambda>r.
       let libver = take (MPI_MAX_LIBRARY_VERSION_STRING - 1) (written r)
       in andthen (require E (case environ p ''MPIF_MPI_LIBRARY'' of
                                None \<Rightarrow> True
                              | Some expected \<Rightarrow> expected = [] \<or> mpif_check_contains libver expected)
                     (Other_library libver)) (\<lambda>_.
          ok libver))"

definition check_booleans :: "'w check_mpi \<Rightarrow> process \<Rightarrow> (unit, 'w) check" where
  "check_booleans E p =
     andthen (ask E ''MPI_Abi_get_fortran_booleans'' Abi_get_fortran_booleans) (\<lambda>r.
       require E (\<not> (int3 r \<noteq> 0 \<and> (int1 r \<noteq> mpif_bool2logical (patterns p) 1 \<or>
                                     int2 r \<noteq> mpif_bool2logical (patterns p) 0)))
         (Booleans_differ (int1 r) (int2 r)))"

fun check_launched :: "'w check_mpi \<Rightarrow> process \<Rightarrow> string list \<Rightarrow> (unit, 'w) check" where
  "check_launched E p [] = ok ()"
| "check_launched E p (name # names) =
     andthen (mpif_check_getenv_long E (environ p) name) (\<lambda>launched.
     andthen (require E (case launched of Some n \<Rightarrow> \<not> n > 1 | None \<Rightarrow> True)
                (Singleton_started name (the launched))) (\<lambda>_.
     check_launched E p names))"

definition launcher_vars :: "string list" where
  "launcher_vars = [''PMI_SIZE'', ''OMPI_COMM_WORLD_SIZE'', ''SLURM_NTASKS'', ''SLURM_NPROCS'']"

definition check_singleton :: "'w check_mpi \<Rightarrow> process \<Rightarrow> fint \<Rightarrow> (unit, 'w) check" where
  "check_singleton E p procs = (if procs = 1 then check_launched E p launcher_vars else ok ())"

definition check_size :: "'w check_mpi \<Rightarrow> process \<Rightarrow> fint \<Rightarrow> (unit, 'w) check" where
  "check_size E p procs =
     andthen (mpif_check_getenv_long E (environ p) ''MPIF_SIZE'') (\<lambda>expected.
       require E (case expected of Some n \<Rightarrow> sint procs = n | None \<Rightarrow> True)
         (Size_differs (the expected) procs))"

text \<open>Both node variables start as 0 and are cut to an \<open>int\<close>.\<close>

definition expectation :: "'w check_mpi \<Rightarrow> process \<Rightarrow> string \<Rightarrow> (fint, 'w) check" where
  "expectation E p name =
     andthen (mpif_check_getenv_long E (environ p) name) (\<lambda>v. ok (case v of Some n \<Rightarrow> of_int n | None \<Rightarrow> 0))"

text \<open>The loop over the fields, \<open>i\<close> counting: of the nine, the last two may be unset.\<close>

definition consistent :: "nat \<Rightarrow> fint \<Rightarrow> fint \<Rightarrow> fint \<Rightarrow> bool" where
  "consistent i x vmin vmax = (if i \<ge> 9 - 2 then x = 0 \<or> x = vmax else vmin = vmax)"

fun check_fields ::
    "'w check_mpi \<Rightarrow> nat \<Rightarrow> fint list \<Rightarrow> (nat \<Rightarrow> fint) \<Rightarrow> (nat \<Rightarrow> fint) \<Rightarrow> (unit, 'w) check" where
  "check_fields E i [] vmin vmax = ok ()"
| "check_fields E i (x # xs) vmin vmax =
     andthen (require E (consistent i x (vmin i) (vmax i)) (Field_differs i x)) (\<lambda>_.
       check_fields E (Suc i) xs vmin vmax)"

definition check_same_library :: "'w check_mpi \<Rightarrow> string \<Rightarrow> handle \<Rightarrow> (unit, 'w) check" where
  "check_same_library E libver comm =
     andthen (ask E ''MPI_Bcast'' (Bcast libver comm)) (\<lambda>r.
       let rootver = take (MPI_MAX_LIBRARY_VERSION_STRING - 1) (written r)
       in require E (libver = rootver) Library_differs_from_root)"

text \<open>\<open>MPI_Comm_size\<close> reports at least 1, so neither remainder divides by zero.\<close>

definition check_ring :: "'w check_mpi \<Rightarrow> fint \<Rightarrow> fint \<Rightarrow> handle \<Rightarrow> (unit, 'w) check" where
  "check_ring E procs rank comm =
     (let succ = of_int ((sint rank + 1) smod sint procs);
          pred = of_int ((sint rank + sint procs - 1) smod sint procs)
      in andthen (ask E ''MPI_Sendrecv'' (Sendrecv rank succ pred comm)) (\<lambda>r.
           require E (int1 r = pred) (Ring_broken (int1 r) pred)))"

definition check_head_count :: "'w check_mpi \<Rightarrow> fint \<Rightarrow> fint \<Rightarrow> handle \<Rightarrow> (unit, 'w) check" where
  "check_head_count E procs rank comm =
     andthen (ask E ''MPI_Reduce'' (Reduce_sum 1 comm)) (\<lambda>r.
       require E (\<not> (rank = 0 \<and> int1 r \<noteq> procs)) (Head_count_wrong (int1 r)))"

definition check_nodes ::
    "'w check_mpi \<Rightarrow> process \<Rightarrow> fint \<Rightarrow> fint \<Rightarrow> fint \<Rightarrow> fint \<Rightarrow> handle \<Rightarrow> (unit, 'w) check" where
  "check_nodes E p procs rank num_nodes node_size comm =
     (if sint num_nodes > 0 \<or> sint node_size > 0
      then andthen (ask E ''MPI_Get_processor_name'' Get_processor_name) (\<lambda>r.
           let name = take (MPI_MAX_PROCESSOR_NAME - 1) (written r)
           in andthen (require E (\<not> (rank = 0 \<and> \<not> gets p (unat procs * MPI_MAX_PROCESSOR_NAME)))
                         Names_out_of_memory) (\<lambda>_.
              andthen (ask E ''MPI_Gather'' (Gather name comm)) (\<lambda>r.
              if rank = 0 then check_layout E num_nodes node_size (map (gathered r) [0..<unat procs])
              else ok ())))
      else ok ())"

definition mpif_check_smoke ::
    "'w check_mpi \<Rightarrow> process \<Rightarrow> fint \<times> fint \<Rightarrow> fint \<times> fint \<Rightarrow> string \<Rightarrow> fint \<Rightarrow> fint \<Rightarrow> (unit, 'w) check" where
  "mpif_check_smoke E p abi mpi libver procs rank =
     andthen (ask E ''MPI_Comm_dup'' Comm_dup) (\<lambda>r. let comm = dup r in
     andthen (ask E ''MPI_Comm_set_errhandler'' (Comm_set_errhandler comm MPI_ERRORS_RETURN)) (\<lambda>_.
     andthen (expectation E p ''MPIF_NUM_NODES'') (\<lambda>expected_nodes.
     andthen (expectation E p ''MPIF_NODE_SIZE'') (\<lambda>expected_node_size.
     let fields = [of_int (major (built p)), of_int (minor (built p)), of_int (patch (built p)),
                   fst mpi, snd mpi, fst abi, snd abi, expected_nodes, expected_node_size] in
     andthen (ask E ''MPI_Allreduce (MPI_MIN)'' (Allreduce_min fields comm)) (\<lambda>r. let vmin = vector r in
     andthen (ask E ''MPI_Allreduce (MPI_MAX)'' (Allreduce_max fields comm)) (\<lambda>r. let vmax = vector r in
     andthen (check_fields E 0 fields vmin vmax) (\<lambda>_.
     andthen (check_same_library E libver comm) (\<lambda>_.
     andthen (check_ring E procs rank comm) (\<lambda>_.
     andthen (check_head_count E procs rank comm) (\<lambda>_.
     andthen (check_nodes E p procs rank (vmax 7) (vmax 8) comm) (\<lambda>_.
     andthen (ask E ''MPI_Comm_free'' (Comm_free comm)) (\<lambda>_. ok ()))))))))))))"

definition check_running ::
    "'w check_mpi \<Rightarrow> process \<Rightarrow> fint \<times> fint \<Rightarrow> fint \<times> fint \<Rightarrow> string \<Rightarrow> (unit, 'w) check" where
  "check_running E p abi mpi libver =
     andthen (check_booleans E p) (\<lambda>_.
     andthen (ask E ''MPI_Comm_size'' Comm_size) (\<lambda>r. let n = int1 r in
     andthen (ask E ''MPI_Comm_rank'' Comm_rank) (\<lambda>r. let rank = int1 r in
     andthen (check_singleton E p n) (\<lambda>_.
     andthen (check_size E p n) (\<lambda>_.
     mpif_check_smoke E p abi mpi libver n rank)))))"

definition check_window ::
    "'w check_mpi \<Rightarrow> process \<Rightarrow> fint \<times> fint \<Rightarrow> fint \<times> fint \<Rightarrow> string \<Rightarrow> (unit, 'w) check" where
  "check_window E p abi mpi libver =
     andthen (ask E ''MPI_Initialized'' Initialized) (\<lambda>r. let initialized = int1 r in
     andthen (ask E ''MPI_Finalized'' Finalized) (\<lambda>r. let finalized = int1 r in
     if initialized = 0 \<or> finalized \<noteq> 0 then ok ()
     else check_running E p abi mpi libver))"

definition mpif_check_environment :: "'w check_mpi \<Rightarrow> process \<Rightarrow> (unit, 'w) check" where
  "mpif_check_environment E p =
     andthen (check_header_version E p) (\<lambda>_.
     andthen (check_reported E p) (\<lambda>_.
     andthen (check_abi E) (\<lambda>abi.
     andthen (check_mpi_version E) (\<lambda>mpi.
     andthen (check_library E p) (\<lambda>libver.
     check_window E p abi mpi libver)))))"

end
