(* ===== verification/Env_Runs.thy ===== *)
theory Env_Runs
  imports Env_Check "HOL-Library.Sublist"
begin

text \<open>
  What the runtime checks of \<open>src/mpif_check.c\<close> accept: the version rule, what happens while MPI is not
  running, the node layout, the numbers in the environment, and what a run that returns has established
  and called. A process alone on its node serves to evaluate with.
\<close>

section \<open>What a run that returns has done\<close>

named_theorems check_simps

lemma andthen_Inr [check_simps]:
  "andthen m f w = Inr z \<longleftrightarrow> (\<exists>x w1. m w = Inr (x, w1) \<and> f x w1 = Inr z)"
  by (auto simp: andthen_def bindE_def split: sum.split)

lemma ok_Inr [check_simps]: "ok x w = Inr z \<longleftrightarrow> z = (x, w)"
  by (auto simp: ok_def)

lemma fail_not_Inr [simp]: "mpif_check_fail E c w \<noteq> Inr z"
  by (simp add: mpif_check_fail_def Let_def split: prod.split)

lemma require_Inr [check_simps]: "require E b c w = Inr z \<longleftrightarrow> b \<and> z = ((), w)"
  by (auto simp: require_def ok_def)

lemma mpi_Inr [check_simps]: "mpif_check_mpi E name ierr w = Inr z \<longleftrightarrow> ierr = MPI_SUCCESS \<and> z = ((), w)"
  by (auto simp: mpif_check_mpi_def split: prod.split)

lemma ask_Inr [check_simps]:
  "ask E name c w = Inr (r, w1) \<longleftrightarrow> E c w = (r, w1) \<and> code r = MPI_SUCCESS"
  by (auto simp: ask_def check_simps split: prod.split)

lemma getenv_Inr [check_simps]:
  "mpif_check_getenv_long E env name w = Inr (v, w1) \<longleftrightarrow>
     w1 = w \<and> (case env name of
       None \<Rightarrow> v = None
     | Some s \<Rightarrow> if s = [] then v = None
                 else fst (snd (strtol s)) \<and> snd (snd (strtol s)) = [] \<and> v = Some (fst (strtol s)))"
  by (auto simp: mpif_check_getenv_long_def ok_def split: option.split prod.split)

text \<open>A run keeps the state when it makes no call.\<close>

lemma sentinels_Inr:
  "check_sentinels E P n ss w = Inr (m, w1) \<longleftrightarrow>
     w1 = w \<and> m = n + length ss \<and>
     (\<forall>(i, a, b) \<in> set ss. 1 \<le> i \<and> i \<le> int MPIF_SENTINEL_COUNT \<and>
        a = cell_addr P (sentinel_cells ! (nat i - 1)) \<and>
        b = int (cell_bytes (sentinel_cells ! (nat i - 1))))"
  by (induction ss arbitrary: n)
     (auto simp: check_simps mpif_check_sentinel_def Let_def)

lemma fields_Inr:
  "check_fields E i xs vmin vmax w = Inr (u, w1) \<longleftrightarrow>
     w1 = w \<and> (\<forall>k < length xs. consistent (i + k) (xs ! k) (vmin (i + k)) (vmax (i + k)))"
  by (induction xs arbitrary: i) (auto simp: check_simps All_less_Suc2)

section \<open>A process to evaluate with\<close>

text \<open>One process, alone on its node, on a library that has registered no booleans.\<close>

definition lone_process :: process where
  "lone_process =
     \<lparr>built = Version 1 4 2, headers = Version 1 4 2, cells = packed,
      reports = map (\<lambda>i. (int i + 1, cell_addr packed (sentinel_cells ! i), int (cell_bytes (sentinel_cells ! i))))
        [0..<12],
      patterns = gfortran_logical, environ = Map.empty, gets = (\<lambda>n. True)\<rparr>"

definition reply :: check_reply where
  "reply = \<lparr>code = 0, int1 = 0, int2 = 0, int3 = 0, vector = (\<lambda>i. 0), written = ''MPICH'',
     gathered = (\<lambda>i. ''node''), dup = 0x700\<rparr>"

text \<open>The state is whether MPI runs.\<close>

fun lone_mpi :: "bool check_mpi" where
  "lone_mpi Initialized w = (reply\<lparr>int1 := if w then 1 else 0\<rparr>, w)"
| "lone_mpi Abi_get_version w = (reply\<lparr>int1 := 1\<rparr>, w)"
| "lone_mpi Get_version w = (reply\<lparr>int1 := 5\<rparr>, w)"
| "lone_mpi Comm_size w = (reply\<lparr>int1 := 1\<rparr>, w)"
| "lone_mpi (Allreduce_min xs comm) w = (reply\<lparr>vector := (\<lambda>i. xs ! i)\<rparr>, w)"
| "lone_mpi (Allreduce_max xs comm) w = (reply\<lparr>vector := (\<lambda>i. xs ! i)\<rparr>, w)"
| "lone_mpi (Bcast s comm) w = (reply\<lparr>written := s\<rparr>, w)"
| "lone_mpi (Sendrecv rank succ pred comm) w = (reply\<lparr>int1 := rank\<rparr>, w)"
| "lone_mpi (Reduce_sum x comm) w = (reply\<lparr>int1 := x\<rparr>, w)"
| "lone_mpi _ w = (reply, w)"

section \<open>The version rule\<close>

text \<open>
  A library accepts a caller built against the same major version and no newer a version, and makes
  no MPI call to say so; so a newer library of the same major accepts every caller its predecessor
  accepted.
\<close>

theorem version_accepts_older_callers:
  "((\<exists>r. mpif_check_version E V c w = Inr r) \<longleftrightarrow> major c = major V \<and> c \<le> V) \<and>
   (\<forall>r. mpif_check_version E V c w = Inr r \<longrightarrow> r = ((), w)) \<and>
   (mpif_check_version E V c w = Inr ((), w) \<and> mpif_check_version E V2 V w = Inr ((), w) \<longrightarrow>
      mpif_check_version E V2 c w = Inr ((), w))"
  by (auto simp: mpif_check_version_def check_simps less_eq_version_def)

section \<open>Before and after MPI\<close>

text \<open>The calls MPI allows at any time.\<close>

fun always_allowed :: "check_call \<Rightarrow> bool" where
  "always_allowed Initialized = True"
| "always_allowed Finalized = True"
| "always_allowed (Error_string e) = True"
| "always_allowed Abi_get_version = True"
| "always_allowed Get_version = True"
| "always_allowed Get_library_version = True"
| "always_allowed _ = False"

definition outside_mpi :: "'w check_mpi \<Rightarrow> bool" where
  "outside_mpi E \<longleftrightarrow> (\<forall>w. int1 (fst (E Initialized w)) = 0) \<or> (\<forall>w. int1 (fst (E Finalized w)) \<noteq> 0)"

definition agree :: "'w check_mpi \<Rightarrow> 'w check_mpi \<Rightarrow> bool" where
  "agree E F \<longleftrightarrow> outside_mpi E \<and> (\<forall>c. always_allowed c \<longrightarrow> E c = F c)"

lemma agree_allowed: "agree E F \<Longrightarrow> always_allowed c \<Longrightarrow> E c = F c"
  by (simp add: agree_def)

lemma agree_fail: "agree E F \<Longrightarrow> mpif_check_fail E c w = mpif_check_fail F c w"
proof -
  assume a: "agree E F"
  obtain r1 w1 where r1: "E Initialized w = (r1, w1)"
    by (cases "E Initialized w")
  obtain r2 w2 where r2: "E Finalized w1 = (r2, w2)"
    by (cases "E Finalized w1")
  have "int1 r1 = 0 \<or> int1 r2 \<noteq> 0"
    using a r1 r2 by (auto simp: agree_def outside_mpi_def) (metis fst_conv)+
  then show ?thesis
    using r1 r2 agree_allowed [OF a, of Initialized] agree_allowed [OF a, of Finalized]
    by (auto simp: mpif_check_fail_def)
qed

lemma agree_require: "agree E F \<Longrightarrow> require E b c = require F b c"
  by (rule ext) (simp add: require_def agree_fail)

lemma agree_mpi: "agree E F \<Longrightarrow> mpif_check_mpi E name ierr w = mpif_check_mpi F name ierr w"
  by (simp add: mpif_check_mpi_def agree_fail agree_allowed split: prod.split)

lemma agree_ask: "agree E F \<Longrightarrow> always_allowed c \<Longrightarrow> ask E name c = ask F name c"
  by (rule ext) (simp add: ask_def agree_mpi agree_allowed andthen_def split: prod.split)

lemma agree_sentinel: "agree E F \<Longrightarrow> mpif_check_sentinel E P n = mpif_check_sentinel F P n"
  by (rule ext) (simp add: mpif_check_sentinel_def agree_require split: prod.split)

lemma agree_sentinels: "agree E F \<Longrightarrow> check_sentinels E P n ss = check_sentinels F P n ss"
  by (induction ss arbitrary: n) (simp_all add: agree_sentinel)

lemmas agreement = agree_require agree_ask agree_sentinels

lemma agree_window:
  assumes a: "agree E F"
  shows "check_window E p abi mpi libver = check_window F p abi mpi libver"
proof
  fix w
  have "int1 r = 0 \<or> int1 s \<noteq> 0"
    if "ask E n1 Initialized w = Inr (r, w1)" and "ask E n2 Finalized w1 = Inr (s, w2)" for n1 n2 r s w1 w2
    using a that by (auto simp: check_simps agree_def outside_mpi_def) (metis fst_conv)+
  then show "check_window E p abi mpi libver w = check_window F p abi mpi libver w"
    by (auto simp: check_window_def Let_def andthen_def bindE_def agree_ask [OF a, symmetric]
        split: sum.split)
qed

text \<open>Outside, the job is not aborted either.\<close>

definition never_aborts :: "('a, 'w) check \<Rightarrow> bool" where
  "never_aborts m \<longleftrightarrow> (\<forall>w c. m w \<noteq> Inl (Died c Job_aborted))"

lemma never_aborts_andthen:
  "never_aborts m \<Longrightarrow> (\<And>x. never_aborts (f x)) \<Longrightarrow> never_aborts (andthen m f)"
  by (auto simp: never_aborts_def andthen_def bindE_def split: sum.split)

lemma never_aborts_ok: "never_aborts (ok x)"
  by (simp add: never_aborts_def ok_def)

lemma outside_fail:
  assumes "outside_mpi E"
  shows "never_aborts (mpif_check_fail E c)"
  unfolding never_aborts_def
proof (intro allI)
  fix w c2
  obtain r1 w1 r2 w2 where r: "E Initialized w = (r1, w1)" "E Finalized w1 = (r2, w2)"
    by (metis surj_pair)
  have "int1 r1 = 0 \<or> int1 r2 \<noteq> 0"
    using assms r unfolding outside_mpi_def by (metis fst_conv)
  then show "mpif_check_fail E c w \<noteq> Inl (Died c2 Job_aborted)"
    using r by (auto simp: mpif_check_fail_def)
qed

lemma outside_require: "outside_mpi E \<Longrightarrow> never_aborts (require E b c)"
  by (simp add: require_def never_aborts_ok outside_fail)

lemma outside_ask:
  assumes "outside_mpi E"
  shows "never_aborts (ask E name c)"
  using outside_fail [OF assms]
  by (auto simp: never_aborts_def ask_def mpif_check_mpi_def andthen_def bindE_def ok_def
      split: sum.split prod.split)

lemma outside_sentinels: "outside_mpi E \<Longrightarrow> never_aborts (check_sentinels E P n ss)"
  by (induction ss arbitrary: n)
     (auto simp: mpif_check_sentinel_def Let_def
       intro!: never_aborts_andthen never_aborts_ok outside_require split: prod.split)

lemmas never_aborts_intros = never_aborts_andthen never_aborts_ok outside_require outside_ask outside_sentinels

lemma outside_window:
  assumes out: "outside_mpi E"
  shows "never_aborts (check_window E p abi mpi libver)"
proof -
  have "int1 r = 0 \<or> int1 s \<noteq> 0"
    if "ask E n1 Initialized w = Inr (r, w1)" and "ask E n2 Finalized w1 = Inr (s, w2)" for n1 n2 r s w w1 w2
    using out that unfolding outside_mpi_def ask_Inr by (metis fst_conv)
  then show ?thesis
    using outside_ask [OF out]
    by (auto simp: never_aborts_def check_window_def Let_def andthen_def bindE_def ok_def split: sum.split)
qed

lemma outside_environment: "outside_mpi E \<Longrightarrow> never_aborts (mpif_check_environment E p)"
  unfolding mpif_check_environment_def check_header_version_def check_reported_def check_abi_def
    check_mpi_version_def check_library_def Let_def
  by (intro never_aborts_intros outside_window)

text \<open>
  C11. Before \<open>MPI_Init\<close> and after \<open>MPI_Finalize\<close> the check is a function of the calls MPI allows then:
  against two libraries that answer those alike it ends alike, with the same complaint and the same
  way of ending, whatever the libraries would do in any other call; and it never ends through
  \<open>MPI_Abort\<close>, which is none of them.
\<close>

theorem outside_mpi_only_allowed_calls_matter:
  assumes "outside_mpi E" and "\<forall>c. always_allowed c \<longrightarrow> E c = F c"
  shows "mpif_check_environment E p w = mpif_check_environment F p w \<and>
    mpif_check_environment E p w \<noteq> Inl (Died c Job_aborted)"
proof -
  have a: "agree E F"
    using assms by (simp add: agree_def)
  have "mpif_check_environment E p w = mpif_check_environment F p w"
    by (simp add: mpif_check_environment_def check_header_version_def check_reported_def check_abi_def
        check_mpi_version_def check_library_def agreement [OF a] agree_window [OF a])
  then show ?thesis
    using outside_environment [OF assms(1)] by (auto simp: never_aborts_def)
qed

section \<open>The node layout\<close>

lemma sorted_run:
  fixes xs :: "'a :: linorder list"
  assumes "sorted (x # xs)"
  shows "x \<notin> set (dropWhile (\<lambda>y. y = x) xs)"
proof
  let ?d = "dropWhile (\<lambda>y. y = x) xs"
  assume x: "x \<in> set ?d"
  then obtain y ys where d: "?d = y # ys"
    by (cases ?d) auto
  then have "y \<noteq> x"
    using hd_dropWhile [of "\<lambda>y. y = x" xs] by auto
  moreover have "x \<le> y"
    using assms d by (metis list.set_intros(1) set_dropWhileD sorted_simps(2))
  moreover have "y \<le> x"
  proof -
    have "sorted ?d"
      using assms by (simp add: sorted_wrt_dropWhile)
    then show ?thesis
      using x d by auto
  qed
  ultimately show False
    by simp
qed

lemma takeWhile_run: "takeWhile (\<lambda>y. y = x) xs = replicate (length (takeWhile (\<lambda>y. y = x) xs)) x"
  by (rule replicate_eqI [OF refl]) (auto dest: set_takeWhileD)

lemma count_list_replicate_self [simp]: "count_list (replicate n x) y = (if x = y then n else 0)"
  by (induction n) auto

lemma count_run:
  assumes "xs = replicate n x @ ys"
  shows "count_list xs y = (if x = y then n else 0) + count_list ys y"
  using assms by simp

lemma set_run: "set xs \<subseteq> insert x (set (dropWhile (\<lambda>y. y = x) xs))"
  by (induction xs) auto

lemma node_runs_sorted:
  "sorted xs \<Longrightarrow> distinct (map fst (node_runs xs)) \<and> fst ` set (node_runs xs) = set xs \<and>
     (\<forall>x n. (x, n) \<in> set (node_runs xs) \<longrightarrow> n = count_list xs x)"
proof (induction xs rule: node_runs.induct)
  case (2 x xs)
  let ?n = "length (takeWhile (\<lambda>y. y = x) xs)" and ?d = "dropWhile (\<lambda>y. y = x) xs"
  have xs: "xs = replicate ?n x @ ?d"
    using takeWhile_dropWhile_id [of "\<lambda>y. y = x" xs] takeWhile_run [of x xs] by simp
  have x: "x \<notin> set ?d"
    by (rule sorted_run [OF 2(2)])
  have "sorted ?d"
    using 2(2) by (simp add: sorted_wrt_dropWhile)
  note IH = 2(1) [OF this]
  have "set xs \<subseteq> insert x (set ?d)" "set ?d \<subseteq> set xs"
    by (rule set_run, auto dest: set_dropWhileD)
  moreover have "count_list xs y = (if x = y then ?n else 0) + count_list ?d y" for y
    by (rule count_run [OF xs])
  moreover have "a \<in> set ?d \<and> b = count_list ?d a" if "(a, b) \<in> set (node_runs ?d)" for a b
    using IH that by force
  ultimately show ?case
    using IH x by (auto split: if_splits)
qed simp

lemma runs_accepted:
  "check_runs E node_size runs w = Inr (u, w1) \<longleftrightarrow>
     w1 = w \<and> (\<forall>(x, n) \<in> set runs. sint node_size > 0 \<longrightarrow> int n = sint node_size)"
  by (induction runs) (auto simp: check_simps)

lemma layout_counts_nodes:
  "(\<exists>r. check_layout E num_nodes node_size names w = Inr r) \<longleftrightarrow>
      (sint num_nodes > 0 \<longrightarrow> int (card (set names)) = sint num_nodes) \<and>
      (sint node_size > 0 \<longrightarrow> (\<forall>x \<in> set names. int (count_list names x) = sint node_size))"
proof -
  let ?runs = "node_runs (sort names)"
  have runs: "distinct (map fst ?runs)" "fst ` set ?runs = set names"
      "\<forall>x n. (x, n) \<in> set ?runs \<longrightarrow> n = count_list names x"
    using node_runs_sorted [of "sort names"] by (simp_all add: count_mset [symmetric])
  have "length ?runs = card (set names)"
    using distinct_card [OF runs(1)] runs(2) by simp
  moreover have "(\<forall>(x, n) \<in> set ?runs. int n = k) \<longleftrightarrow> (\<forall>x \<in> set names. int (count_list names x) = k)" for k
    using runs(3) unfolding runs(2) [symmetric] by force
  ultimately show ?thesis
    by (auto simp: check_layout_def Let_def check_simps runs_accepted split: prod.splits)
qed

text \<open>
  C12. The gathered names pass exactly when there are as many different ones as \<open>MPIF_NUM_NODES\<close> says and
  each occurs as often as \<open>MPIF_NODE_SIZE\<close> says; zero and negative numbers ask for nothing. The
  order in which the processes were gathered does not matter.
\<close>

theorem layout_counts_nodes_and_processes:
  "((\<exists>r. check_layout E num_nodes node_size names w = Inr r) \<longleftrightarrow>
      (sint num_nodes > 0 \<longrightarrow> int (card (set names)) = sint num_nodes) \<and>
      (sint node_size > 0 \<longrightarrow> (\<forall>x \<in> set names. int (count_list names x) = sint node_size))) \<and>
   (mset others = mset names \<longrightarrow>
      check_layout E num_nodes node_size others w = check_layout E num_nodes node_size names w)"
proof -
  have "sort others = sort names" if "mset others = mset names"
    using that by (metis properties_for_sort sorted_sort mset_sort)
  moreover have "length others = length names" if "mset others = mset names"
    using that by (rule mset_eq_length)
  ultimately have "mset others = mset names \<longrightarrow>
      check_layout E num_nodes node_size others w = check_layout E num_nodes node_size names w"
    by (auto simp: check_layout_def)
  with layout_counts_nodes [of E num_nodes node_size names w] show ?thesis by blast
qed

theorem layout_counts_nodes_and_processes_witness:
  "check_layout (\<lambda>c w. (undefined, Suc w)) 2 1 [''b'', ''a''] 0 =
     check_layout (\<lambda>c w. (undefined, Suc w)) 2 1 [''a'', ''b''] 0"
  using layout_counts_nodes_and_processes
    [of "\<lambda>c w. (undefined, Suc w)" 2 1 "[''a'', ''b'']" 0 "[''b'', ''a'']"]
  by simp

section \<open>Numbers in the environment\<close>

text \<open>
  C13. A node variable whose number is a multiple of 2^32 is a guard that guards nothing: the cast to
  \<open>int\<close> makes it 0, and the whole check ends as if the variable were not set.
\<close>

theorem node_guard_wraps_to_unset:
  assumes "name \<in> {''MPIF_NUM_NODES'', ''MPIF_NODE_SIZE''}"
    and "strtol s = (v, True, [])" and "2 ^ 32 dvd v"
  shows "mpif_check_environment E (p\<lparr>environ := (environ p)(name \<mapsto> s)\<rparr>) w =
    mpif_check_environment E (p\<lparr>environ := (environ p)(name := None)\<rparr>) w"
proof -
  let ?p = "p\<lparr>environ := (environ p)(name \<mapsto> s)\<rparr>" and ?q = "p\<lparr>environ := (environ p)(name := None)\<rparr>"
  have "of_int v = (0 :: fint)"
    using assms(3) by (simp add: word_of_int_eq_0_iff take_bit_eq_0_iff)
  moreover have "s \<noteq> []"
    using assms(2) by (auto simp: strtol_def)
  ultimately have e: "expectation E ?p n = expectation E ?q n" for n
    using assms(2) by (auto simp: expectation_def mpif_check_getenv_long_def fun_eq_iff andthen_def ok_def)
  have others: "name \<noteq> ''MPIF_SIZE''" "name \<noteq> ''MPIF_MPI_LIBRARY''" "name \<notin> set launcher_vars"
    using assms(1) by (auto simp: launcher_vars_def)
  have launched: "name \<notin> set ns \<Longrightarrow> check_launched E ?p ns = check_launched E ?q ns" for ns
    by (induction ns) (auto simp: mpif_check_getenv_long_def)
  have nodes: "check_nodes E ?p = check_nodes E ?q"
    by (simp add: check_nodes_def fun_eq_iff)
  have smoke: "mpif_check_smoke E ?p = mpif_check_smoke E ?q"
    by (simp add: mpif_check_smoke_def e nodes fun_eq_iff)
  have sizes: "check_size E ?p = check_size E ?q"
    using others by (simp add: check_size_def mpif_check_getenv_long_def fun_eq_iff)
  have singles: "check_singleton E ?p = check_singleton E ?q"
    using others by (simp add: check_singleton_def launched fun_eq_iff)
  have running: "check_running E ?p = check_running E ?q"
    by (simp add: check_running_def check_booleans_def sizes singles smoke fun_eq_iff)
  show ?thesis
    using others
    by (simp add: mpif_check_environment_def check_header_version_def check_reported_def check_library_def
        check_window_def running cong: if_cong)
qed

section \<open>The calls of a run that returns\<close>

definition logged :: "'w check_mpi \<Rightarrow> ('w \<times> (check_call \<times> check_reply) list) check_mpi" where
  "logged E c = (\<lambda>(w, log). let (r, w) = E c w in (r, (w, log @ [(c, r)])))"

definition expects :: "process \<Rightarrow> string \<Rightarrow> int \<Rightarrow> bool" where
  "expects p name v \<longleftrightarrow>
     (case environ p name of None \<Rightarrow> True | Some s \<Rightarrow> s = [] \<or> strtol s = (v, True, []))"

text \<open>The operations all processes must make together.\<close>

fun collective :: "check_call \<Rightarrow> string list" where
  "collective Comm_dup = [''MPI_Comm_dup'']"
| "collective (Allreduce_min xs comm) = [''MPI_Allreduce (MPI_MIN)'']"
| "collective (Allreduce_max xs comm) = [''MPI_Allreduce (MPI_MAX)'']"
| "collective (Bcast s comm) = [''MPI_Bcast'']"
| "collective (Sendrecv rank succ pred comm) = [''MPI_Sendrecv'']"
| "collective (Reduce_sum x comm) = [''MPI_Reduce'']"
| "collective (Gather s comm) = [''MPI_Gather'']"
| "collective (Comm_free comm) = [''MPI_Comm_free'']"
| "collective _ = []"

abbreviation collectives :: "(check_call \<times> check_reply) list \<Rightarrow> string list" where
  "collectives log \<equiv> concat (map (collective \<circ> fst) log)"

lemma ask_logged [check_simps]:
  "ask (logged E) name c s = Inr (r, s1) \<longleftrightarrow>
     (\<exists>w1. E c (fst s) = (r, w1) \<and> s1 = (w1, snd s @ [(c, r)])) \<and> code r = MPI_SUCCESS"
  by (auto simp: ask_Inr logged_def Let_def split: prod.splits)

lemmas logged_simps = andthen_Inr ok_Inr require_Inr ask_logged getenv_Inr

definition smoke_operations :: "check_reply \<Rightarrow> string list" where
  "smoke_operations r =
     [''MPI_Comm_dup'', ''MPI_Allreduce (MPI_MIN)'', ''MPI_Allreduce (MPI_MAX)'', ''MPI_Bcast'',
      ''MPI_Sendrecv'', ''MPI_Reduce''] @
     (if sint (vector r 7) > 0 \<or> sint (vector r 8) > 0 then [''MPI_Gather''] else []) @
     [''MPI_Comm_free'']"

section \<open>A consistent setup\<close>

text \<open>
  What the process expects, from the variables as they were set: a library whose version contains a text,
  whatever the case of the letters; no launcher that started more than one process; and a number for the
  nodes, 0 where it states none.
\<close>

definition library_expected :: "process \<Rightarrow> string \<Rightarrow> bool" where
  "library_expected p libver \<longleftrightarrow>
     (\<forall>s. environ p ''MPIF_MPI_LIBRARY'' = Some s \<longrightarrow> sublist (map tolower s) (map tolower libver))"

definition launched_alone :: "process \<Rightarrow> bool" where
  "launched_alone p \<longleftrightarrow>
     (\<forall>name s. name \<in> {''PMI_SIZE'', ''OMPI_COMM_WORLD_SIZE'', ''SLURM_NTASKS'', ''SLURM_NPROCS''} \<longrightarrow>
        environ p name = Some s \<longrightarrow> s = [] \<or> (\<exists>v \<le> 1. strtol s = (v, True, [])))"

definition states :: "process \<Rightarrow> string \<Rightarrow> fint \<Rightarrow> bool" where
  "states p name v \<longleftrightarrow>
     (case environ p name of
        None \<Rightarrow> v = 0
      | Some s \<Rightarrow> if s = [] then v = 0 else \<exists>n. strtol s = (n, True, []) \<and> v = of_int n)"

text \<open>
  The nine numbers of a process are those of the others, going by the smallest and the largest: equal,
  and for the two of the nodes, the largest or none.
\<close>

definition agreed :: "fint list \<Rightarrow> (nat \<Rightarrow> fint) \<Rightarrow> (nat \<Rightarrow> fint) \<Rightarrow> bool" where
  "agreed numbers lo hi \<longleftrightarrow>
     (\<forall>i \<in> {0..<7}. lo i = hi i) \<and> (\<forall>i \<in> {7, 8}. numbers ! i = 0 \<or> numbers ! i = hi i)"

text \<open>The names of the processes, and the line printed about them: at most eight nodes, and how many more.\<close>

definition laid_out :: "fint \<Rightarrow> fint \<Rightarrow> string list \<Rightarrow> bool" where
  "laid_out num_nodes node_size names \<longleftrightarrow>
     (sint num_nodes > 0 \<longrightarrow> int (card (set names)) = sint num_nodes) \<and>
     (sint node_size > 0 \<longrightarrow> (\<forall>x \<in> set names. int (count_list names x) = sint node_size))"

definition describes_layout :: "string list \<Rightarrow> check_call \<Rightarrow> bool" where
  "describes_layout names line \<longleftrightarrow>
     (\<exists>listed others. line = Print_layout listed others (length names) \<and>
        length listed = min 8 (card (set names)) \<and> length listed + others = card (set names) \<and>
        distinct (map fst listed) \<and> (\<forall>(x, n) \<in> set listed. x \<in> set names \<and> n = count_list names x))"

text \<open>The calls about the nodes, made when some process stated a number.\<close>

definition nodes_checked ::
    "process \<Rightarrow> fint \<Rightarrow> fint \<Rightarrow> (nat \<Rightarrow> fint) \<Rightarrow> handle \<Rightarrow> (check_call \<times> check_reply) list \<Rightarrow> bool" where
  "nodes_checked p procs rank hi comm log \<longleftrightarrow>
     (if sint (hi 7) > 0 \<or> sint (hi 8) > 0
      then \<exists>me all printed. code me = 0 \<and> code all = 0 \<and>
        log = [(Get_processor_name, me), (Gather (take 255 (written me)) comm, all)] @ printed \<and>
        (if rank = 0
         then gets p (unat procs * 256) \<and>
              (let names = map (gathered all) [0..<unat procs]
               in \<exists>line r. printed = [(line, r)] \<and> describes_layout names line \<and> laid_out (hi 7) (hi 8) names)
         else printed = [])
      else log = [])"

text \<open>
  The smoke test on a duplicate of \<open>MPI_COMM_WORLD\<close>: the versions agree, so does the library byte for
  byte, each process receives the rank before its own around the ring, and the root counts everyone.
\<close>

definition smoke_passed ::
    "process \<Rightarrow> check_reply \<Rightarrow> check_reply \<Rightarrow> string \<Rightarrow> fint \<Rightarrow> fint \<Rightarrow> (check_call \<times> check_reply) list \<Rightarrow> bool" where
  "smoke_passed p abi mpi libver procs rank log \<longleftrightarrow>
     (\<exists>d e lo hi b t c nodes f num_nodes node_size.
        let comm = dup d;
            numbers = [of_int (major (built p)), of_int (minor (built p)), of_int (patch (built p)),
                      int1 mpi, int2 mpi, int1 abi, int2 abi, num_nodes, node_size];
            right = of_int ((sint rank + 1) smod sint procs);
            left = of_int ((sint rank + sint procs - 1) smod sint procs)
        in log = [(Comm_dup, d), (Comm_set_errhandler comm MPI_ERRORS_RETURN, e),
                  (Allreduce_min numbers comm, lo), (Allreduce_max numbers comm, hi),
                  (Bcast libver comm, b), (Sendrecv rank right left comm, t), (Reduce_sum 1 comm, c)] @
                 nodes @ [(Comm_free comm, f)] \<and>
           (\<forall>r \<in> {d, e, lo, hi, b, t, c, f}. code r = 0) \<and>
           states p ''MPIF_NUM_NODES'' num_nodes \<and> states p ''MPIF_NODE_SIZE'' node_size \<and>
           agreed numbers (vector lo) (vector hi) \<and> take 8191 (written b) = libver \<and> int1 t = left \<and>
           (rank = 0 \<longrightarrow> int1 c = procs) \<and> nodes_checked p procs rank (vector hi) comm nodes)"

definition running_passed ::
    "process \<Rightarrow> check_reply \<Rightarrow> check_reply \<Rightarrow> string \<Rightarrow> (check_call \<times> check_reply) list \<Rightarrow> bool" where
  "running_passed p abi mpi libver log \<longleftrightarrow>
     (\<exists>b n k smoke.
        log = [(Abi_get_fortran_booleans, b), (Comm_size, n), (Comm_rank, k)] @ smoke \<and>
        code b = 0 \<and> code n = 0 \<and> code k = 0 \<and>
        (int3 b \<noteq> 0 \<longrightarrow> int1 b = logical_true (patterns p) \<and> int2 b = logical_false (patterns p)) \<and>
        (int1 n = 1 \<longrightarrow> launched_alone p) \<and> expects p ''MPIF_SIZE'' (sint (int1 n)) \<and>
        smoke_passed p abi mpi libver (int1 n) (int1 k) smoke)"

text \<open>All the calls of a run that returns: five, and if MPI is running those above.\<close>

definition consistent_setup :: "process \<Rightarrow> (check_call \<times> check_reply) list \<Rightarrow> bool" where
  "consistent_setup p log \<longleftrightarrow>
     (\<exists>abi mpi lib i f new.
        log = [(Abi_get_version, abi), (Get_version, mpi), (Get_library_version, lib), (Initialized, i),
               (Finalized, f)] @ new \<and>
        (\<forall>r \<in> {abi, mpi, lib, i, f}. code r = 0) \<and>
        sint (int1 abi) = 1 \<and> 0 \<le> sint (int2 abi) \<and>
        5 \<le> sint (int1 mpi) \<and> (sint (int1 mpi) = 5 \<longrightarrow> 0 \<le> sint (int2 mpi)) \<and>
        library_expected p (take 8191 (written lib)) \<and>
        (if int1 i = 0 \<or> int1 f \<noteq> 0 then new = []
         else running_passed p abi mpi (take 8191 (written lib)) new))"

section \<open>A run that returns\<close>

text \<open>One lemma per step: what it has called, and what it has found.\<close>

lemma contains_sublist: "mpif_check_contains h n \<longleftrightarrow> sublist (map tolower n) (map tolower h)"
proof -
  have start: "same_start h n \<longleftrightarrow> prefix (map tolower n) (map tolower h)" for h n
    by (induction h n rule: same_start.induct) auto
  have short: "length n \<le> length h" if "sublist (map tolower n) (map tolower h)" for h
    using sublist_length_le [OF that] by simp
  show ?thesis
  proof (induction h)
    case Nil
    show ?case by (subst mpif_check_contains.simps) (auto simp: start)
  next
    case (Cons c h)
    show ?case
      using short [of "c # h"]
      by (subst mpif_check_contains.simps) (auto simp: start Cons.IH sublist_Cons_right)
  qed
qed

lemma getenv_states:
  "mpif_check_getenv_long E env name w = Inr (v, w1) \<Longrightarrow>
     w1 = w \<and> (env name = None \<or> env name = Some [] \<longrightarrow> v = None) \<and>
     (\<forall>s. env name = Some s \<longrightarrow> s \<noteq> [] \<longrightarrow> (\<exists>n. strtol s = (n, True, []) \<and> v = Some n))"
  by (auto simp: getenv_Inr prod_eq_iff split: option.splits if_splits)

lemma launched_Inr:
  "check_launched E p names w = Inr (u, w1) \<Longrightarrow>
     w1 = w \<and> (\<forall>name \<in> set names. \<forall>s. environ p name = Some s \<longrightarrow> s = [] \<or> (\<exists>v \<le> 1. strtol s = (v, True, [])))"
proof (induction names)
  case Nil
  then show ?case by (simp add: ok_Inr)
next
  case (Cons name names)
  then obtain v w2 where v: "mpif_check_getenv_long E (environ p) name w = Inr (v, w2)"
      "case v of Some n \<Rightarrow> \<not> n > 1 | None \<Rightarrow> True" and rest: "check_launched E p names w2 = Inr (u, w1)"
    unfolding check_launched.simps andthen_Inr require_Inr by blast
  note env = getenv_states [OF v(1)]
  have "s = [] \<or> (\<exists>v \<le> 1. strtol s = (v, True, []))" if "environ p name = Some s" for s
    using env v(2) that by (cases "s = []") auto
  moreover have "w2 = w" using env by simp
  ultimately show ?case
    using Cons.IH rest by simp
qed

lemma singleton_Inr:
  "check_singleton E p n w = Inr (u, w1) \<Longrightarrow> w1 = w \<and> (n = 1 \<longrightarrow> launched_alone p)"
  by (auto simp: check_singleton_def ok_Inr launched_alone_def launcher_vars_def split: if_splits
      dest!: launched_Inr simp del: check_launched.simps)

lemma expectation_Inr: "expectation E p name w = Inr (v, w1) \<Longrightarrow> w1 = w \<and> states p name v"
  by (auto simp: expectation_def andthen_Inr ok_Inr states_def dest!: getenv_states split: option.splits)

lemma size_Inr: "check_size E p n w = Inr (u, w1) \<Longrightarrow> w1 = w \<and> expects p ''MPIF_SIZE'' (sint n)"
  by (cases "environ p ''MPIF_SIZE''")
     (auto simp: check_size_def andthen_Inr require_Inr getenv_Inr expects_def prod_eq_iff split: if_splits)

lemma fields_agreed:
  assumes "check_fields E 0 numbers lo hi w = Inr (u, w1)" and "length numbers = 9"
  shows "w1 = w \<and> agreed numbers lo hi"
proof -
  have f: "w1 = w" "\<forall>i < 9. consistent i (numbers ! i) (lo i) (hi i)"
    using assms by (simp_all add: fields_Inr)
  have "lo i = hi i" if "i < 7" for i
    using f(2) that by (auto simp: consistent_def split: if_splits dest!: spec [of _ i])
  moreover have "numbers ! i = 0 \<or> numbers ! i = hi i" if "i = 7 \<or> i = 8" for i
    using f(2) that by (auto simp: consistent_def split: if_splits dest!: spec [of _ i])
  ultimately show ?thesis
    using f(1) by (auto simp: agreed_def)
qed

lemma library_logged:
  "check_library (logged E) p (w, log) = Inr (v, (w1, log1)) \<Longrightarrow>
     \<exists>r. log1 = log @ [(Get_library_version, r)] \<and> code r = 0 \<and> v = take 8191 (written r) \<and> library_expected p v"
  by (cases "environ p ''MPIF_MPI_LIBRARY''")
     (auto simp: check_library_def Let_def logged_simps library_expected_def contains_sublist)

lemma same_library_logged:
  "check_same_library (logged E) libver comm (w, log) = Inr (v, (w1, log1)) \<Longrightarrow>
     \<exists>r. log1 = log @ [(Bcast libver comm, r)] \<and> code r = 0 \<and> take 8191 (written r) = libver"
  by (auto simp: check_same_library_def Let_def logged_simps)

lemma ring_logged:
  "check_ring (logged E) procs rank comm (w, log) = Inr (v, (w1, log1)) \<Longrightarrow>
     \<exists>r. log1 = log @ [(Sendrecv rank (of_int ((sint rank + 1) smod sint procs))
         (of_int ((sint rank + sint procs - 1) smod sint procs)) comm, r)] \<and>
       code r = 0 \<and> int1 r = of_int ((sint rank + sint procs - 1) smod sint procs)"
  by (auto simp: check_ring_def Let_def logged_simps)

lemma head_count_logged:
  "check_head_count (logged E) procs rank comm (w, log) = Inr (v, (w1, log1)) \<Longrightarrow>
     \<exists>r. log1 = log @ [(Reduce_sum 1 comm, r)] \<and> code r = 0 \<and> (rank = 0 \<longrightarrow> int1 r = procs)"
  by (auto simp: check_head_count_def logged_simps)

lemma layout_logged:
  assumes "check_layout (logged E) num_nodes node_size names (w, log) = Inr (v, (w1, log1))"
  shows "\<exists>line r. log1 = log @ [(line, r)] \<and> describes_layout names line \<and> laid_out num_nodes node_size names"
proof -
  let ?runs = "node_runs (sort names)"
  have runs: "distinct (map fst ?runs)" "fst ` set ?runs = set names"
      "\<forall>x n. (x, n) \<in> set ?runs \<longrightarrow> n = count_list names x"
    using node_runs_sorted [of "sort names"] by (simp_all add: count_mset [symmetric])
  have len: "length ?runs = card (set names)"
    using distinct_card [OF runs(1)] runs(2) by simp
  have "distinct (map fst (take 8 ?runs))"
    using runs(1) by (simp add: take_map [symmetric])
  moreover have "x \<in> set names \<and> n = count_list names x" if "(x, n) \<in> set (take 8 ?runs)" for x n
    using runs(2,3) in_set_takeD [OF that] by force
  ultimately have "describes_layout names
      (Print_layout (take 8 ?runs) (length ?runs - length (take 8 ?runs)) (length names))"
    unfolding describes_layout_def len [symmetric] by auto
  moreover have "laid_out num_nodes node_size names"
    using assms layout_counts_nodes [of "logged E" num_nodes node_size names "(w, log)"]
    by (auto simp: laid_out_def)
  ultimately show ?thesis
    using assms
    by (auto simp: check_layout_def Let_def logged_simps runs_accepted logged_def split: prod.splits)
qed

lemma nodes_logged:
  assumes "check_nodes (logged E) p procs rank (hi 7) (hi 8) comm (w, log) = Inr (v, (w1, log1))"
  shows "\<exists>new. log1 = log @ new \<and> nodes_checked p procs rank hi comm new"
  using assms
  by (auto simp: check_nodes_def nodes_checked_def Let_def logged_simps split: if_splits dest!: layout_logged)

lemma smoke_logged:
  assumes "mpif_check_smoke (logged E) p (int1 abi, int2 abi) (int1 mpi, int2 mpi) libver procs rank (w, log) =
    Inr (u, (w1, log1))"
  shows "\<exists>new. log1 = log @ new \<and> smoke_passed p abi mpi libver procs rank new"
proof -
  let ?ns = "\<lambda>num_nodes node_size. [of_int (major (built p)), of_int (minor (built p)), of_int (patch (built p)),
      int1 mpi, int2 mpi, int1 abi, int2 abi, num_nodes, node_size]"
  let ?right = "of_int ((sint rank + 1) smod sint procs)" and ?left = "of_int ((sint rank + sint procs - 1) smod sint procs)"
  obtain d e lo hi f num_nodes node_size w4 log4 w5 log5 w6 log6 w7 log7 w8 log8 where
    states: "states p ''MPIF_NUM_NODES'' num_nodes" "states p ''MPIF_NODE_SIZE'' node_size"
    and 4: "log4 = log @ [(Comm_dup, d), (Comm_set_errhandler (dup d) MPI_ERRORS_RETURN, e),
        (Allreduce_min (?ns num_nodes node_size) (dup d), lo), (Allreduce_max (?ns num_nodes node_size) (dup d), hi)]"
    and ok: "code d = 0" "code e = 0" "code lo = 0" "code hi = 0" "code f = 0"
    and agreed: "agreed (?ns num_nodes node_size) (vector lo) (vector hi)"
    and lib: "check_same_library (logged E) libver (dup d) (w4, log4) = Inr ((), (w5, log5))"
    and ring: "check_ring (logged E) procs rank (dup d) (w5, log5) = Inr ((), (w6, log6))"
    and heads: "check_head_count (logged E) procs rank (dup d) (w6, log6) = Inr ((), (w7, log7))"
    and nodes: "check_nodes (logged E) p procs rank (vector hi 7) (vector hi 8) (dup d) (w7, log7) =
      Inr ((), (w8, log8))"
    and last: "log1 = log8 @ [(Comm_free (dup d), f)]"
    using assms
    by (auto simp: mpif_check_smoke_def Let_def andthen_Inr ask_logged ok_Inr
        dest!: expectation_Inr fields_agreed simp del: check_fields.simps)
  obtain b where b: "log5 = log4 @ [(Bcast libver (dup d), b)]" "code b = 0" "take 8191 (written b) = libver"
    using same_library_logged [OF lib] by blast
  obtain t where t: "log6 = log5 @ [(Sendrecv rank ?right ?left (dup d), t)]" "code t = 0" "int1 t = ?left"
    using ring_logged [OF ring] by blast
  obtain c where c: "log7 = log6 @ [(Reduce_sum 1 (dup d), c)]" "code c = 0" "rank = 0 \<longrightarrow> int1 c = procs"
    using head_count_logged [OF heads] by blast
  obtain new where new: "log8 = log7 @ new" "nodes_checked p procs rank (vector hi) (dup d) new"
    using nodes_logged [OF nodes] by blast
  let ?log = "[(Comm_dup, d), (Comm_set_errhandler (dup d) MPI_ERRORS_RETURN, e),
      (Allreduce_min (?ns num_nodes node_size) (dup d), lo), (Allreduce_max (?ns num_nodes node_size) (dup d), hi),
      (Bcast libver (dup d), b), (Sendrecv rank ?right ?left (dup d), t), (Reduce_sum 1 (dup d), c)] @
      new @ [(Comm_free (dup d), f)]"
  have "log1 = log @ ?log"
    by (simp add: last new(1) c(1) t(1) b(1) 4)
  moreover have "smoke_passed p abi mpi libver procs rank ?log"
    unfolding smoke_passed_def Let_def
    by (rule exI [of _ d], rule exI [of _ e], rule exI [of _ lo], rule exI [of _ hi], rule exI [of _ b],
        rule exI [of _ t], rule exI [of _ c], rule exI [of _ new], rule exI [of _ f], rule exI [of _ num_nodes],
        rule exI [of _ node_size])
      (use states ok agreed b t c new in simp)
  ultimately show ?thesis by blast
qed

lemma running_logged:
  assumes "check_running (logged E) p (int1 abi, int2 abi) (int1 mpi, int2 mpi) libver (w, log) = Inr (u, (w1, log1))"
  shows "\<exists>new. log1 = log @ new \<and> running_passed p abi mpi libver new"
proof -
  obtain w3 b n k where
    first: "code b = 0" "code n = 0" "code k = 0"
      "int3 b \<noteq> 0 \<longrightarrow> int1 b = logical_true (patterns p) \<and> int2 b = logical_false (patterns p)"
      "int1 n = 1 \<longrightarrow> launched_alone p" "expects p ''MPIF_SIZE'' (sint (int1 n))"
    and smoke: "mpif_check_smoke (logged E) p (int1 abi, int2 abi) (int1 mpi, int2 mpi) libver (int1 n) (int1 k)
      (w3, log @ [(Abi_get_fortran_booleans, b), (Comm_size, n), (Comm_rank, k)]) = Inr (u, (w1, log1))"
    using assms
    by (auto simp: check_running_def check_booleans_def mpif_bool2logical_def Let_def logged_simps
        dest!: singleton_Inr size_Inr)
  from smoke_logged [OF smoke] first show ?thesis
    unfolding running_passed_def by auto
qed

lemma environment_logged:
  assumes "mpif_check_environment (logged E) p (w, []) = Inr (u, (w1, log))"
  shows "headers p = built p \<and> (\<exists>m. check_sentinels E (cells p) 0 (reports p) w = Inr (12, m)) \<and>
    consistent_setup p log"
proof -
  obtain abi mpi libver w3 w4 log4 w5 i f where
    h: "headers p = built p" "check_sentinels E (cells p) 0 (reports p) w = Inr (12, w)"
    and v: "code abi = 0" "sint (int1 abi) = 1" "0 \<le> sint (int2 abi)"
      "code mpi = 0" "5 \<le> sint (int1 mpi)" "sint (int1 mpi) = 5 \<longrightarrow> 0 \<le> sint (int2 mpi)"
    and lib: "check_library (logged E) p (w3, [(Abi_get_version, abi), (Get_version, mpi)]) =
      Inr (libver, (w4, log4))"
    and w: "code i = 0" "code f = 0"
    and rest: "(if int1 i = 0 \<or> int1 f \<noteq> 0 then ok ()
         else check_running (logged E) p (int1 abi, int2 abi) (int1 mpi, int2 mpi) libver)
       (w5, log4 @ [(Initialized, i), (Finalized, f)]) = Inr (u, (w1, log))"
    using assms
    by (auto simp: mpif_check_environment_def check_header_version_def check_reported_def check_abi_def
        check_mpi_version_def check_window_def Let_def logged_simps sentinels_Inr)
  obtain l where l: "log4 = [(Abi_get_version, abi), (Get_version, mpi), (Get_library_version, l)]"
    "code l = 0" "libver = take 8191 (written l)" "library_expected p libver"
    using library_logged [OF lib] by auto
  let ?five = "[(Abi_get_version, abi), (Get_version, mpi), (Get_library_version, l), (Initialized, i), (Finalized, f)]"
  have "\<exists>new. log = ?five @ new \<and>
      (if int1 i = 0 \<or> int1 f \<noteq> 0 then new = [] else running_passed p abi mpi libver new)"
  proof (cases "int1 i = 0 \<or> int1 f \<noteq> 0")
    case True
    with rest l(1) show ?thesis by (simp add: ok_Inr)
  next
    case False
    with rest l(1) have "check_running (logged E) p (int1 abi, int2 abi) (int1 mpi, int2 mpi) libver (w5, ?five) =
        Inr (u, (w1, log))"
      by simp
    from running_logged [OF this] False show ?thesis by (simp only: if_False)
  qed
  then obtain new where new: "log = ?five @ new"
      "if int1 i = 0 \<or> int1 f \<noteq> 0 then new = [] else running_passed p abi mpi libver new" by blast
  have "consistent_setup p log"
    unfolding consistent_setup_def
    by (rule exI [of _ abi], rule exI [of _ mpi], rule exI [of _ l], rule exI [of _ i], rule exI [of _ f],
        rule exI [of _ new]) (use new(1) new(2) [unfolded l(3)] v w l in \<open>simp split del: if_split\<close>)
  with h show ?thesis by blast
qed

section \<open>What a return means\<close>

definition running :: "(check_call \<times> check_reply) list \<Rightarrow> bool" where
  "running log \<longleftrightarrow>
     (\<forall>(c, r) \<in> set log. (c = Initialized \<longrightarrow> int1 r \<noteq> 0) \<and> (c = Finalized \<longrightarrow> int1 r = 0))"

text \<open>The collectives of a run, decided by what \<open>MPI_Allreduce\<close> gave.\<close>

lemma nodes_collectives:
  "nodes_checked p procs rank hi comm log \<Longrightarrow>
     collectives log = (if sint (hi 7) > 0 \<or> sint (hi 8) > 0 then [''MPI_Gather''] else [])"
  by (auto simp: nodes_checked_def describes_layout_def Let_def split: if_splits)

lemma smoke_collectives:
  assumes "smoke_passed p abi mpi libver procs rank log"
  shows "\<exists>numbers comm r. (Allreduce_max numbers comm, r) \<in> set log \<and> collectives log = smoke_operations r"
proof -
  obtain d e numbers lo hi lib b right left t c nodes f where
    log: "log = [(Comm_dup, d), (Comm_set_errhandler (dup d) MPI_ERRORS_RETURN, e),
        (Allreduce_min numbers (dup d), lo), (Allreduce_max numbers (dup d), hi), (Bcast lib (dup d), b),
        (Sendrecv rank right left (dup d), t), (Reduce_sum 1 (dup d), c)] @ nodes @ [(Comm_free (dup d), f)]"
    and nodes: "nodes_checked p procs rank (vector hi) (dup d) nodes"
    using assms unfolding smoke_passed_def Let_def by blast
  have "collectives log = smoke_operations hi"
    using nodes_collectives [OF nodes] by (simp add: log smoke_operations_def)
  then show ?thesis
    unfolding log by (intro exI [of _ numbers] exI [of _ "dup d"] exI [of _ hi]) simp
qed

lemma returning_check_collectives:
  assumes "mpif_check_environment (logged E) p (w, []) = Inr (u, (w1, log))" and "running log"
  shows "\<exists>numbers comm r. (Allreduce_max numbers comm, r) \<in> set log \<and> collectives log = smoke_operations r"
proof -
  obtain abi mpi lib i f new where log: "log = [(Abi_get_version, abi), (Get_version, mpi),
      (Get_library_version, lib), (Initialized, i), (Finalized, f)] @ new"
    and new: "if int1 i = 0 \<or> int1 f \<noteq> 0 then new = []
      else running_passed p abi mpi (take 8191 (written lib)) new"
    using environment_logged [OF assms(1)] unfolding consistent_setup_def by blast
  have "running_passed p abi mpi (take 8191 (written lib)) new"
    using assms(2) new unfolding log by (simp add: running_def)
  then obtain b n k smoke where "new = [(Abi_get_fortran_booleans, b), (Comm_size, n), (Comm_rank, k)] @ smoke"
    "smoke_passed p abi mpi (take 8191 (written lib)) (int1 n) (int1 k) smoke"
    unfolding running_passed_def by blast
  with smoke_collectives [OF this(2)] show ?thesis
    unfolding log by auto
qed

text \<open>
  C9. The check returns only from a consistent setup. The header has the library's version, and each of the
  twelve reports was of a sentinel at its cell with its size. The calls made are exactly those of
  \<open>consistent_setup\<close>, in that order, and all succeeded: the ABI is version 1, MPI is 5.0 or newer, and
  its version names the library \<open>MPIF_MPI_LIBRARY\<close> asks for. If MPI is running: its Fortran
  booleans, where set, are the compiler's; a process alone was not launched with others; the size is
  \<open>MPIF_SIZE\<close>; the versions of mpif, MPI and the ABI are the same on all processes, and the
  node variables of the process are unset (or 0) or those of the others; the library is the root's; the ring delivered the
  rank before the process's own; rank 0 counted everyone; and where some process stated a number about the
  nodes, the names were gathered, and at rank 0 the layout was printed and has that many nodes and that many processes on each.
\<close>

theorem returning_check_vouches_for_the_setup:
  assumes "mpif_check_environment (logged E) p (w, []) = Inr (u, (w1, log))"
  shows "headers p = built p \<and> length (reports p) = 12 \<and>
    (\<forall>(i, a, b) \<in> set (reports p). \<exists>c. i \<in> {1..12} \<and> c = sentinel_cells ! (nat i - 1) \<and>
       a = cell_addr (cells p) c \<and> b = int (cell_bytes c)) \<and>
    consistent_setup p log"
  using environment_logged [OF assms] by (simp add: sentinels_Inr)

text \<open>
  C10. Two processes on which the check returns while MPI is running, told the same maximum by
  \<open>MPI_Allreduce\<close>, made the same collective operations in the same order: no process waits in one the
  other never entered. Whether the names are gathered is decided by the maximum, not by the variables
  of the process.
\<close>

theorem returning_processes_made_the_same_collectives:
  assumes "mpif_check_environment (logged E) p (w, []) = Inr (u, (w1, log))"
    and "mpif_check_environment (logged F) q (v, []) = Inr (u2, (v1, log2))"
    and "running log" and "running log2"
    and "\<forall>xs a r ys b s. (Allreduce_max xs a, r) \<in> set log \<and> (Allreduce_max ys b, s) \<in> set log2 \<longrightarrow>
      vector r = vector s"
  shows "collectives log = collectives log2"
proof -
  obtain xs a r ys b s where "(Allreduce_max xs a, r) \<in> set log" "collectives log = smoke_operations r"
      "(Allreduce_max ys b, s) \<in> set log2" "collectives log2 = smoke_operations s"
    using returning_check_collectives [OF assms(1,3)] returning_check_collectives [OF assms(2,4)] by blast
  then show ?thesis
    using assms(5) by (simp add: smoke_operations_def)
qed

lemma lone_sentinels: "check_sentinels E packed 0 (reports lone_process) w = Inr (12, w)"
  unfolding sentinels_Inr by (auto simp: lone_process_def nat_add_distrib)

lemma andthen_assoc: "andthen (andthen m f) g = andthen m (\<lambda>x. andthen (f x) g)"
  by (auto simp: andthen_def bindE_def fun_eq_iff split: sum.split)

lemma andthen_ok: "andthen (ok x) f = f x"
  by (simp add: andthen_def ok_def fun_eq_iff)

lemma require_true: "b \<Longrightarrow> require E b c = ok ()"
  by (simp add: require_def)

lemma andthen_ask:
  "E c w = (r, w1) \<Longrightarrow> code r = 0 \<Longrightarrow>
     andthen (ask (logged E) name c) f (w, log) = f r (w1, log @ [(c, r)])"
  using ask_logged [of E name c "(w, log)" r "(w1, log @ [(c, r)])"] by (simp add: andthen_def)

lemma andthen_sentinels:
  "andthen (check_sentinels E packed 0 (reports lone_process)) f w = f 12 w"
  using lone_sentinels [of E w] by (simp add: andthen_def)

lemma getenv_unset: "mpif_check_getenv_long E (\<lambda>x. None) name = ok None"
  by (simp add: mpif_check_getenv_long_def)

lemma lone_process_fields [simp]:
  "cells lone_process = packed" "environ lone_process = Map.empty" "gets lone_process n"
  "built lone_process = Version 1 4 2" "headers lone_process = Version 1 4 2"
  "patterns lone_process = gfortran_logical"
  by (simp_all add: lone_process_def)

lemma reply_fields [simp]:
  "code reply = 0" "int1 reply = 0" "int2 reply = 0" "int3 reply = 0" "vector reply = (\<lambda>i. 0)"
  "written reply = ''MPICH''" "dup reply = 0x700"
  by (simp_all add: reply_def)

lemma lone_environment:
  "check_singleton E lone_process n = ok ()" "check_size E lone_process n = ok ()"
  "expectation E lone_process name = ok 0"
  by (auto simp: check_singleton_def launcher_vars_def check_size_def expectation_def getenv_unset
      andthen_ok require_true)

lemmas lone_evaluation = lone_environment andthen_assoc andthen_ok require_true andthen_ask andthen_sentinels getenv_unset
  mpif_check_environment_def check_header_version_def check_reported_def check_abi_def check_mpi_version_def
  check_library_def check_window_def check_running_def check_booleans_def
  mpif_check_smoke_def check_same_library_def check_ring_def
  check_head_count_def check_nodes_def consistent_def

lemma lone_run:
  "\<exists>log. mpif_check_environment (logged lone_mpi) lone_process (True, []) = Inr ((), (True, log)) \<and>
     running log"
  by (simp add: lone_evaluation Let_def, simp add: ok_def running_def)

theorem returning_check_vouches_for_the_setup_witness:
  "\<exists>log. mpif_check_environment (logged lone_mpi) lone_process (True, []) = Inr ((), (True, log)) \<and>
     consistent_setup lone_process log"
  using lone_run returning_check_vouches_for_the_setup
    [where E = lone_mpi and p = lone_process and w = True and u = "()" and ?w1.0 = True]
  by blast

theorem returning_processes_made_the_same_collectives_witness:
  "\<exists>log. mpif_check_environment (logged lone_mpi) lone_process (True, []) = Inr ((), (True, log)) \<and>
     collectives log = collectives log"
  using lone_run returning_processes_made_the_same_collectives
    [where E = lone_mpi and p = lone_process and w = True and u = "()" and ?w1.0 = True
       and F = lone_mpi and q = lone_process and v = True and ?u2.0 = "()" and ?v1.0 = True]
  by blast

theorem version_accepts_older_callers_witness:
  "mpif_check_version lone_mpi (Version 1 5 0) (Version 1 4 2) True = Inr ((), True)"
  using version_accepts_older_callers [of lone_mpi "Version 1 4 2" "Version 1 4 2" True "Version 1 5 0"]
  by (simp add: mpif_check_version_def require_true andthen_ok ok_def)

theorem outside_mpi_only_allowed_calls_matter_witness:
  "mpif_check_environment (\<lambda>c w. lone_mpi c False) lone_process True =
     mpif_check_environment (\<lambda>c w. if always_allowed c then lone_mpi c False else undefined) lone_process True"
  by (rule conjunct1 [OF outside_mpi_only_allowed_calls_matter]) (simp_all add: outside_mpi_def)

theorem node_guard_wraps_to_unset_witness:
  "mpif_check_environment lone_mpi
     (lone_process\<lparr>environ := (environ lone_process)(''MPIF_NUM_NODES'' \<mapsto> ''4294967296'')\<rparr>) True =
   mpif_check_environment lone_mpi
     (lone_process\<lparr>environ := (environ lone_process)(''MPIF_NUM_NODES'' := None)\<rparr>) True"
  by (rule node_guard_wraps_to_unset [where v = "4294967296"])
     (simp_all add: strtol_def is_space_def is_digit_def digits_value_def clamp_long_def less_eq_char_def)

end
