(* ===== verification/Inquiries.thy ===== *)
theory Inquiries
  imports Fortran_Strings Mpi_Calls
begin

text \<open>
  Procedures that only answer a question: the \<open>MPI_SIZEOF\<close> specifics of \<open>src/mpif_sizeof.c\<close>, the two
  timer functions of \<open>gen/mpif_functions.c\<close>, and the path of the MPI library that
  \<open>src/mpif_info_dladdr.c\<close> hands to the program \<open>mpif_info\<close>.
\<close>

section \<open>Sizes\<close>

text \<open>The first argument of \<open>MPIF_DEFINE_SIZEOF\<close>.\<close>

datatype sizeof_suffix =
    logical1 | logical2 | logical4 | logical8 | logical16
  | integer1 | integer2 | integer4 | integer8 | integer16
  | real2 | real4 | real8 | real16
  | complex4 | complex8 | complex16 | complex32
  | character

fun sizeof_bytes :: "sizeof_suffix \<Rightarrow> fint" where
  "sizeof_bytes logical1 = 1"
| "sizeof_bytes logical2 = 2"
| "sizeof_bytes logical4 = 4"
| "sizeof_bytes logical8 = 8"
| "sizeof_bytes logical16 = 16"
| "sizeof_bytes integer1 = 1"
| "sizeof_bytes integer2 = 2"
| "sizeof_bytes integer4 = 4"
| "sizeof_bytes integer8 = 8"
| "sizeof_bytes integer16 = 16"
| "sizeof_bytes real2 = 2"
| "sizeof_bytes real4 = 4"
| "sizeof_bytes real8 = 8"
| "sizeof_bytes real16 = 16"
| "sizeof_bytes complex4 = 4"
| "sizeof_bytes complex8 = 8"
| "sizeof_bytes complex16 = 16"
| "sizeof_bytes complex32 = 32"
| "sizeof_bytes character = 1"

text \<open>
  The four functions of one suffix (array or scalar, with and without the \<open>p\<close>) have one body: the size,
  and what \<open>ierror\<close> holds afterwards, \<open>None\<close> for a null pointer.
\<close>

definition mpif_sizeof :: "sizeof_suffix \<Rightarrow> fint option \<Rightarrow> fint \<times> fint option" where
  "mpif_sizeof suffix err =
     (sizeof_bytes suffix, if err \<noteq> None then Some MPI_SUCCESS else err)"

section \<open>Clocks\<close>

text \<open>A \<open>double\<close> is only passed on; it is a value of any type.\<close>

record ('d, 'w) clock_api =
  MPI_Wtime :: "profile \<Rightarrow> 'w \<Rightarrow> 'd \<times> 'w"
  MPI_Wtick :: "profile \<Rightarrow> 'w \<Rightarrow> 'd \<times> 'w"

definition mpi_wtime :: "('d, 'w) clock_api \<Rightarrow> profile \<Rightarrow> 'w \<Rightarrow> 'd \<times> 'w" where
  "mpi_wtime M pr w = (let (result, w) = MPI_Wtime M pr w in (result, w))"

definition mpi_wtick :: "('d, 'w) clock_api \<Rightarrow> profile \<Rightarrow> 'w \<Rightarrow> 'd \<times> 'w" where
  "mpi_wtick M pr w = (let (result, w) = MPI_Wtick M pr w in (result, w))"

section \<open>The loaded library\<close>

text \<open>
  What \<open>dladdr\<close> says: nothing, or an image whose name is a null pointer or a C string. The name is
  cut to \<open>int\<close> before it is compared with the length of the Fortran variable, and the differences are
  cast to \<open>size_t\<close>.
\<close>

definition library_name :: "byte list option option \<Rightarrow> byte list" where
  "library_name info =
     (case info of
        Some (Some f) \<Rightarrow> if f \<noteq> [] then f else map of_char ''(unknown: dladdr reported nothing)''
      | _ \<Rightarrow> map of_char ''(unknown: dladdr reported nothing)'')"

definition mpif_info_loaded_library ::
    "byte list option option \<Rightarrow> region \<Rightarrow> fint \<Rightarrow> fault + region" where
  "mpif_info_loaded_library info path len =
     (let name = library_name info;
          n = (of_nat (length name) :: fint);
          n = (if sint n > sint len then len else n)
      in bindE (read_bytes (name @ [0]) 0 (unat (to_aint n))) (\<lambda>bs.
           bindE (overwrite path 0 bs) (\<lambda>path.
             overwrite path (unat n) (replicate (unat (to_aint (len - n))) blank))))"

lemma size_of_nonnegative:
  assumes "0 \<le> sint (x :: fint)"
  shows "unat (to_aint x) = nat (sint x)" and "unat x = nat (sint x)"
proof -
  have "unat (word_of_int (sint x) :: fint) = nat (sint x)"
    unfolding unat_eq_nat_uint uint_word_of_int
    using assms sint_fint_bounds [of x] by (simp add: mod_pos_pos_trivial)
  then show "unat x = nat (sint x)"
    by simp
  show "unat (to_aint x) = nat (sint x)"
    unfolding to_aint_eq unat_eq_nat_uint uint_word_of_int
    using assms sint_fint_bounds [of x] by (simp add: mod_pos_pos_trivial)
qed

lemma size_of_negative:
  assumes "sint (x :: fint) < 0"
  shows "2 ^ 63 \<le> unat (to_aint x)"
proof -
  have "sint x mod 2 ^ 64 = sint x + 2 ^ 64"
    using assms sint_fint_bounds [of x] by (intro int_mod_pos_eq [of _ _ "- 1"]) simp_all
  then show ?thesis
    unfolding to_aint_eq unat_eq_nat_uint uint_word_of_int
    using sint_fint_bounds [of x] by simp
qed

text \<open>
  The path of the library reaches the Fortran variable as \<open>mpif_strcpy_c2f\<close> would put it there, cut or padded
  with blanks. A negative length reads far beyond the name.
\<close>

theorem loaded_library_is_strcpy_c2f:
  assumes "length (library_name info) < 2 ^ 31"
  shows "(0 \<le> sint len \<longrightarrow> nat (sint len) \<le> length path \<longrightarrow>
      mpif_info_loaded_library info path len =
        mpif_strcpy_c2f path (library_name info @ [0]) (nat (sint len)) (length (library_name info)) \<and>
      mpif_info_loaded_library info path len =
        Inr (pad (nat (sint len)) (library_name info) @ drop (nat (sint len)) path)) \<and>
    (sint len < 0 \<longrightarrow> mpif_info_loaded_library info path len = Inl Bad_read)"
proof -
  let ?s = "library_name info"
  have s: "sint (of_nat (length ?s) :: fint) = int (length ?s)"
    using assms by (simp add: cast_simps)
  have "mpif_info_loaded_library info path len =
      Inr (pad (nat (sint len)) ?s @ drop (nat (sint len)) path)"
    if len: "0 \<le> sint len" "nat (sint len) \<le> length path"
  proof (cases "int (length ?s) > sint len")
    case True
    then show ?thesis
      using len size_of_nonnegative [OF len(1)]
      by (simp add: mpif_info_loaded_library_def Let_def s read_bytes_def overwrite_def pad_def)
  next
    case False
    have diff: "sint (len - of_nat (length ?s)) = sint len - int (length ?s)"
    proof -
      have "len - of_nat (length ?s) = word_of_int (sint len - int (length ?s))"
        by simp
      with False len(1) sint_fint_bounds [of len] show ?thesis
        by (simp only: sint_of_small)
    qed
    moreover have "nat (sint len - int (length ?s)) = nat (sint len) - length ?s" "length ?s \<le> nat (sint len)"
      using False by linarith+
    ultimately show ?thesis
      using len False size_of_nonnegative [of "of_nat (length ?s)"]
        size_of_nonnegative [of "len - of_nat (length ?s)"]
      by (simp add: mpif_info_loaded_library_def Let_def s read_bytes_def overwrite_def pad_def)
  qed
  moreover have "mpif_info_loaded_library info path len = Inl Bad_read" if "sint len < 0"
    using that assms size_of_negative [OF that]
    by (simp add: mpif_info_loaded_library_def Let_def s read_bytes_def)
  ultimately show ?thesis
    by (simp add: strcpy_c2f_spec)
qed

theorem loaded_library_is_strcpy_c2f_witness:
  "mpif_info_loaded_library (Some (Some [0x2F, 0x61])) [0, 0, 0, 0, 0] 4 = Inr [0x2F, 0x61, blank, blank, 0] \<and>
   mpif_info_loaded_library (Some (Some [0x2F, 0x61])) [0, 0, 0, 0, 0] (- 1) = Inl Bad_read"
proof -
  have two: "replicate 2 blank = [blank, blank]"
    by (simp add: numeral_2_eq_2)
  show ?thesis
    using loaded_library_is_strcpy_c2f [of "Some (Some [0x2F, 0x61])" 4 "[0, 0, 0, 0, 0]"]
      loaded_library_is_strcpy_c2f [of "Some (Some [0x2F, 0x61])" "- 1" "[0, 0, 0, 0, 0]"]
    by (auto simp: library_name_def pad_def two)
qed

end
