(* ===== verification/Spec2Isabelle.thy ===== *)
theory Spec2Isabelle
  imports Fortran_Strings Logicals Sentinels Attr_Values Attr_Concurrency Slot_Pools Pool_Concurrency Callback_Process Cdesc_Blocks
    Handle_Types Wrappers_Spawn Wrappers_Arrays Wrappers_Attrs Cdesc_Texts
    Removed_Routines F2c_Libraries Env_Runs Inquiries
begin

text \<open>
  A verification of mpif, the Fortran bindings of the MPI standard ABI.

  \<^bold>\<open>The program.\<close> A Fortran program calls MPI through one of three interfaces: \<open>mpif.h\<close>, the module
  \<open>mpi\<close> and the module \<open>mpi_f08\<close>. The first two reach the C functions of \<open>gen/mpif_functions.c\<close>, every
  argument by reference; the third reaches these too and, where a choice buffer is an array descriptor,
  those of \<open>gen/mpif_f08_cdesc.c\<close>. Each of these wrappers converts integers to handles, recognises the
  sentinels by their addresses, copies strings, calls the C library of the standard ABI once, and converts
  back. Every wrapper exists under two names, \<open>mpi_\<close> and \<open>pmpi_\<close>, and most with large counts too. What
  conversion alone cannot do is done by hand-written code in \<open>src/\<close>: strings, logical values, sentinels,
  attribute values, the callbacks whose Fortran signature differs from C's, a derived datatype for an
  array with gaps, the MPI-1 routines that were removed, and a check of the running setup.

  \<^bold>\<open>What is a parameter.\<close> The MPI library, the Fortran compiler's runtime (\<open>CFI_is_contiguous\<close>, the bit
  patterns of \<open>.TRUE.\<close> and \<open>.FALSE.\<close>), the linker's placement of the COMMON blocks, the user's callbacks,
  the environment and the success of \<open>malloc\<close> are arguments of the definitions. What the code relies on of them is
  stated where it is used: \<open>linked\<close> (placements), \<open>handle_api_ok\<close>, \<open>type_laws\<close> (the typemap of a derived
  datatype, MPI-5.0 chapter 5), \<open>contiguity_law\<close>, \<open>address_law\<close>, \<open>attr_laws\<close>
  (an attribute set is the one got, and stays until it is deleted). Each is instantiated by a concrete
  library (\<open>packed\<close>, \<open>identity_handles\<close>, \<open>byte_types\<close>, \<open>demo_lib\<close>, \<open>addressing_lib\<close>, \<open>attr_lib\<close>, \<open>lone_mpi\<close>), on which the
  witnesses run.

  \<^bold>\<open>How code is modelled.\<close> Integers are words of their C width, \<open>fint\<close> (32) and \<open>aint\<close>, \<open>addr\<close>, \<open>handle\<close> (64
  bits). State is passed explicitly: the callback tables, the heap (\<open>C_Heap\<close>, blocks that are allocated, written
  and freed, an allocation failing as the heap says) and the world of the MPI library. A result is a sum:
  \<open>Inl\<close> is a fault, where the C program stops being one (an access out of bounds, an overflow of a signed
  integer, a division by zero, an invalid handle, a failed allocation), and \<open>Inr\<close> what the function
  returns; MPI's error codes are values of \<open>Inr\<close>. Loops are structural recursions over lists or counters
  and need no fuel; the walks over descriptors and the scans of tables end because their lists do, and
  the bound for concurrent registration (519 steps of a thread for each callback, two scans of 256 slots and a few more) is proved.

  \<^bold>\<open>The theories.\<close>

  \<^item> \<open>Prelude\<close>, \<open>Abi\<close>, \<open>C_Heap\<close>: machine types, faults, the rewrite collections \<open>outcome_simps\<close>, \<open>region_simps\<close> and
    \<open>cast_simps\<close>; the constants of the ABI; the allocator.
  \<^item> \<open>Fortran_Strings\<close> (\<open>src/mpif_strings.c\<close>): duplicating a blank-padded string with and without its leading
    blanks, copying back, counting arguments. The lemmas give each function's result in terms of trimming
    and padding, with the allocation that fails and the read that leaves the buffer.
  \<^item> \<open>Logicals\<close> (\<open>src/mpif_logical.c\<close>), \<open>Attr_Values\<close> (\<open>src/mpif_attrs.c\<close>), \<open>Sentinels\<close> (\<open>include/mpif_sentinels.h\<close>,
    \<open>src/mpif_constants.c\<close>): conversions, and that a sentinel is recognised exactly by its cell, in both
    directions.
  \<^item> \<open>Predefined_Callbacks\<close>, \<open>Attr_Registry\<close>, \<open>Attr_Concurrency\<close>, \<open>Slot_Pools\<close>, \<open>Pool_Concurrency\<close>, \<open>Callback_Boxes\<close>
    (\<open>src/mpif_callbacks.c\<close>): the table of attribute callbacks, as a refinement of a bounded map; the same
    registration in atomic steps of several threads, equivalent to some sequential order, with one owner
    for each reserved slot; the pools of 128 operator and 64 error handler trampolines, over one locale
    of slot pools that both interpret, and filled by several threads at once without a slot lost or shared;
    and the heap boxes of generalized requests and data representations, whose life ends with the request's.
    \<open>Callback_Process\<close> puts the four together in one process, whose calls come in any order: what a creation
    has committed the process to (a locale, \<open>committed\<close>, interpreted on it), each procedure of the user by itself, holds until MPI ends it.
  \<^item> \<open>Cdesc_Walk\<close> (\<open>src/mpif_cdesc.c\<close>): the datatype made for an array section denotes exactly the bytes of the
    section's elements; no intermediate datatype is lost on any path; what is refused.
  \<^item> \<open>Cdesc_Checks\<close>, \<open>Cdesc_Single\<close>, \<open>Cdesc_Pairs\<close>, \<open>Cdesc_Texts\<close>, \<open>Cdesc_Blocks\<close> (\<open>gen/mpif_f08_cdesc.c\<close>): the checks every
    entry shares; the entries with one buffer, with two, with buffers at the root only, with datatypes
    per rank, with a string; and two kinds of call that place the blocks of a strided array wrongly.
  \<^item> \<open>Mpi_Calls\<close>, \<open>Mpi_Strings\<close>, \<open>Wrappers_Plain\<close>, \<open>Wrappers_Buffers\<close>, \<open>Wrappers_Handles\<close>, \<open>Wrappers_Strings\<close>,
    \<open>Wrappers_Spawn\<close>, \<open>Wrappers_Arrays\<close>, \<open>Wrappers_Attrs\<close> (\<open>gen/mpif_functions.c\<close>): the shape of a call and the
    questions asked before one; the wrappers by the kind of their arguments. \<open>Wrappers_Attrs\<close> joins them with
    the callback tables and states the round trip of attributes through both interfaces. For arrays without gaps a wrapper and the entry for descriptors agree.
  \<^item> \<open>Handle_Types\<close> (\<open>gen/mpif_f08_functions.F90\<close> against \<open>gen/mpif_functions.c\<close>): the types the interfaces of \<open>mpi_f08\<close>
    declare for the handle arguments of 313 routines, and that the wrappers convert each to that type. A wrapper
    is judged by behaviour: no two libraries that agree on well-typed calls can be told apart through it.
  \<^item> \<open>Removed_Routines\<close> (\<open>src/mpif_removed.c\<close>): the MPI-1 routines and what survives the cut to an INTEGER.
  \<^item> \<open>F2c_Abi\<close>, \<open>F2c_Libraries\<close> (\<open>fortran/f2c_abi_mpich.c\<close>, \<open>f2c_abi_openmpi.c\<close>, \<open>f2c_abi_stubs.c\<close>): the conversions of
    statuses and handles an ABI library lacks, which MPICH and Open MPI, under its four configurations, do alike.
  \<^item> \<open>Env_Check\<close>, \<open>Env_Runs\<close> (\<open>src/mpif_check.c\<close>): the runtime checks in their order, each ending the program at the
    first thing it finds; the exact calls and answers of a run that returns (\<open>consistent_setup\<close>), that processes which return made the same
    collective operations, and what happens while MPI is not running.
  \<^item> \<open>Inquiries\<close> (\<open>src/mpif_sizeof.c\<close>, \<open>src/mpif_info_dladdr.c\<close>): sizes, clocks, and the path of the loaded library, which
    reaches Fortran as \<open>mpif_strcpy_c2f\<close> would deliver it.

  A wrapper's definition has the name of the C function without its trailing underscore. The profile \<open>pr\<close> tells the
  \<open>mpi_\<close> from the \<open>pmpi_\<close> version, \<open>large\<close> the version with large counts.

  \<^bold>\<open>Not modelled.\<close> The Fortran sources but for the types of handles (constants, the other arguments of the interfaces, and
  the bodies of the predefined callbacks): they are declarations of the entry points modelled here. The program \<open>mpif_info\<close> but for its C half.
  The generator
  \<open>dev/mpiapi.jl\<close> is in Julia; its output is modelled instead. What is printed to \<open>stderr\<close> appears only as
  which message it is, and buffers are passed to MPI by address, so what MPI reads and writes in them is
  said in terms of places.
\<close>

end
